(* ===== verification/Prelude.thy ===== *)
theory Prelude
  imports Complex_Main "HOL-Library.Word" "HOL-Library.Sublist"
begin

text \<open>
  Shared vocabulary of the development: the parts of Go's standard library that the modelled
  packages use (\<open>strings\<close>, \<open>strconv\<close>, the verbs of \<open>fmt\<close>, \<open>errors\<close>, 64-bit integers), and the
  generic lemmas and theorem collections that the component theories draw on.

  A Go \<open>string\<close> is a byte sequence and is modelled by the HOL type \<open>string\<close>, whose characters
  are bytes.  \<open>go_result\<close> values are \<open>Inl\<close> of an error or \<open>Inr\<close> of a value.
\<close>

named_theorems go_string \<open>string facts that component proofs may use as simp rules\<close>
named_theorems go_wf \<open>introduction rules for well-formedness predicates\<close>

section \<open>Integers of fixed width\<close>

text \<open>Go's \<open>int\<close> and \<open>int64\<close> are 64 bits wide on the platforms the program is built for;
  addition wraps.  Fields whose wrap-around matters are kept as machine words, and \<open>wrap64\<close> is the
  same wrap-around on mathematical integers.\<close>

type_synonym int64 = "64 word"

definition wrap64 :: "int \<Rightarrow> int" where
  "wrap64 x = (x + 2 ^ 63) mod 2 ^ 64 - 2 ^ 63"

definition in_int64 :: "int \<Rightarrow> bool" where
  "in_int64 x \<longleftrightarrow> - (2 ^ 63) \<le> x \<and> x < 2 ^ 63"

lemma wrap64_id [simp]: "in_int64 x \<Longrightarrow> wrap64 x = x"
  by (simp add: wrap64_def in_int64_def)

lemma in_int64_wrap64: "in_int64 (wrap64 x)"
proof -
  have "0 \<le> (x + 2 ^ 63) mod 2 ^ 64" and "(x + 2 ^ 63) mod 2 ^ 64 < 2 ^ 64"
    by simp_all
  then show ?thesis by (simp add: wrap64_def in_int64_def)
qed

section \<open>Package strings\<close>

fun str_contains :: "string \<Rightarrow> string \<Rightarrow> bool" where
  "str_contains s sub = (prefix sub s \<or> (case s of [] \<Rightarrow> False | _ # t \<Rightarrow> str_contains t sub))"

declare str_contains.simps [simp del]

lemma str_contains_Nil [simp]: "str_contains [] sub = (sub = [])"
  by (simp add: str_contains.simps)

lemma str_contains_Cons: "str_contains (c # s) sub = (prefix sub (c # s) \<or> str_contains s sub)"
  by (subst str_contains.simps) simp

lemma str_contains_sublist: "str_contains s sub \<longleftrightarrow> sublist sub s"
  by (induction s) (simp_all add: str_contains_Cons sublist_Cons_right)

lemma str_contains_append1: "str_contains s sub \<Longrightarrow> str_contains (s @ t) sub"
  by (auto simp: str_contains_sublist sublist_def) (metis append.assoc)

lemma str_contains_append2: "str_contains t sub \<Longrightarrow> str_contains (s @ t) sub"
  by (induction s) (simp_all add: str_contains_Cons)

definition to_lower_char :: "char \<Rightarrow> char" where
  "to_lower_char c =
     (if 65 \<le> (of_char c :: nat) \<and> (of_char c :: nat) \<le> 90 then char_of (of_char c + (32 :: nat)) else c)"

text \<open>\<open>strings.ToLower\<close> on ASCII letters; every other byte is kept.\<close>

definition to_lower :: "string \<Rightarrow> string" where
  "to_lower s = map to_lower_char s"

lemma to_lower_char_idem: "to_lower_char (to_lower_char c) = to_lower_char c"
  by (simp add: to_lower_char_def of_char_mod_256)

lemma to_lower_idem [simp]: "to_lower (to_lower s) = to_lower s"
  by (simp add: to_lower_def to_lower_char_idem comp_def)

lemma to_lower_append [simp]: "to_lower (s @ t) = to_lower s @ to_lower t"
  by (simp add: to_lower_def)

text \<open>\<open>strings.ReplaceAll\<close> for a non-empty pattern (the only use in the program): the leftmost
  non-overlapping occurrences are replaced.\<close>

function replace_all :: "string \<Rightarrow> string \<Rightarrow> string \<Rightarrow> string" where
  "replace_all s old new =
     (if s = [] then []
      else if old \<noteq> [] \<and> prefix old s then new @ replace_all (drop (length old) s) old new
      else hd s # replace_all (tl s) old new)"
  by pat_completeness auto
termination
  by (relation "measure (\<lambda>(s, old, new). length s)") auto

declare replace_all.simps [simp del]

lemma replace_all_Nil [simp]: "replace_all [] old new = []"
  by (simp add: replace_all.simps)

lemma replace_all_hit: "old \<noteq> [] \<Longrightarrow> replace_all (old @ s) old new = new @ replace_all s old new"
  by (subst replace_all.simps) simp

lemma replace_all_miss:
  "\<not> prefix old (c # s) \<Longrightarrow> replace_all (c # s) old new = c # replace_all s old new"
  by (subst replace_all.simps) simp

lemma replace_all_absent:
  "\<not> str_contains s old \<Longrightarrow> replace_all s old new = s"
  by (induction s) (simp_all add: str_contains_Cons replace_all_miss)

text \<open>\<open>strings.LastIndex\<close> of a single byte, with \<open>None\<close> for Go's \<open>-1\<close>.\<close>

fun last_index :: "string \<Rightarrow> char \<Rightarrow> nat option" where
  "last_index [] c = None"
| "last_index (x # xs) c =
     (case last_index xs c of Some i \<Rightarrow> Some (Suc i) | None \<Rightarrow> if x = c then Some 0 else None)"

lemma last_index_less: "last_index s c = Some i \<Longrightarrow> i < length s"
  by (induction s arbitrary: i) (auto split: option.splits if_splits)

section \<open>strings.TrimSpace\<close>

text \<open>The UTF-8 encodings of the code points \<open>unicode.IsSpace\<close> accepts.\<close>

definition space_encodings :: "string list" where
  "space_encodings =
     [[CHR 0x20], [CHR 0x09], [CHR 0x0A], [CHR 0x0B], [CHR 0x0C], [CHR 0x0D],
      [CHR 0xC2, CHR 0x85], [CHR 0xC2, CHR 0xA0], [CHR 0xE1, CHR 0x9A, CHR 0x80]]
     @ map (\<lambda>c. [CHR 0xE2, CHR 0x80, c])
         [CHR 0x80, CHR 0x81, CHR 0x82, CHR 0x83, CHR 0x84, CHR 0x85, CHR 0x86, CHR 0x87,
          CHR 0x88, CHR 0x89, CHR 0x8A, CHR 0xA8, CHR 0xA9, CHR 0xAF]
     @ [[CHR 0xE2, CHR 0x81, CHR 0x9F], [CHR 0xE3, CHR 0x80, CHR 0x80]]"

text \<open>Drop encodings from a list of non-empty patterns at the front, as long as one matches.\<close>

function trim_front :: "string list \<Rightarrow> string \<Rightarrow> string" where
  "trim_front sps s =
     (case find (\<lambda>p. p \<noteq> [] \<and> prefix p s) sps of
        None \<Rightarrow> s
      | Some p \<Rightarrow> trim_front sps (drop (length p) s))"
  by pat_completeness auto
termination
  by (relation "measure (\<lambda>(sps, s). length s)")
     (auto simp: find_Some_iff prefix_def)

declare trim_front.simps [simp del]

definition trim_left :: "string \<Rightarrow> string" where
  "trim_left s = trim_front space_encodings s"

definition trim_right :: "string \<Rightarrow> string" where
  "trim_right s = rev (trim_front (map rev space_encodings) (rev s))"

definition trim_space :: "string \<Rightarrow> string" where
  "trim_space s = trim_right (trim_left s)"

lemma trim_front_suffix: "suffix (trim_front sps s) s"
proof (induction sps s rule: trim_front.induct)
  case (1 sps s)
  show ?case
  proof (cases "find (\<lambda>p. p \<noteq> [] \<and> prefix p s) sps")
    case None
    then show ?thesis by (simp add: trim_front.simps [of sps s])
  next
    case (Some p)
    with 1 have "suffix (trim_front sps (drop (length p) s)) (drop (length p) s)" by blast
    then have "suffix (trim_front sps (drop (length p) s)) s"
      using suffix_drop suffix_order.trans by blast
    with Some show ?thesis by (simp add: trim_front.simps [of sps s])
  qed
qed

lemma trim_front_stop: "p \<in> set sps \<Longrightarrow> p \<noteq> [] \<Longrightarrow> \<not> prefix p (trim_front sps s)"
proof (induction sps s rule: trim_front.induct)
  case (1 sps s)
  show ?case
  proof (cases "find (\<lambda>p. p \<noteq> [] \<and> prefix p s) sps")
    case None
    then have "trim_front sps s = s" by (simp add: trim_front.simps [of sps s])
    with None "1.prems" show ?thesis by (auto simp: find_None_iff)
  next
    case (Some q)
    with 1 show ?thesis by (simp add: trim_front.simps [of sps s])
  qed
qed

lemma trim_front_id: "(\<And>p. p \<in> set sps \<Longrightarrow> p \<noteq> [] \<Longrightarrow> \<not> prefix p s) \<Longrightarrow> trim_front sps s = s"
proof -
  assume "\<And>p. p \<in> set sps \<Longrightarrow> p \<noteq> [] \<Longrightarrow> \<not> prefix p s"
  then have "find (\<lambda>p. p \<noteq> [] \<and> prefix p s) sps = None" by (auto simp: find_None_iff)
  then show ?thesis by (simp add: trim_front.simps)
qed

lemma trim_front_idem: "trim_front sps (trim_front sps s) = trim_front sps s"
  by (rule trim_front_id) (simp add: trim_front_stop)

lemma trim_front_Nil [simp]: "trim_front sps [] = []"
  using trim_front_suffix [of sps "[]"] by simp

lemma trim_front_keeps: "\<forall>p \<in> set sps. c \<notin> set p \<Longrightarrow> c \<in> set s \<Longrightarrow> c \<in> set (trim_front sps s)"
proof (induction sps s rule: trim_front.induct)
  case (1 sps s)
  show ?case
  proof (cases "find (\<lambda>p. p \<noteq> [] \<and> prefix p s) sps")
    case None
    then show ?thesis using "1.prems" by (simp add: trim_front.simps [of sps s])
  next
    case (Some p)
    then have "p \<in> set sps" "prefix p s" by (auto simp: find_Some_iff in_set_conv_nth)
    then obtain t where t: "s = p @ t" "c \<notin> set p" using "1.prems"(1) by (auto simp: prefix_def)
    then have "c \<in> set (trim_front sps (drop (length p) s))" using "1.IH" [OF Some] "1.prems" by simp
    then show ?thesis using Some by (simp add: trim_front.simps [of sps s])
  qed
qed

lemma trim_space_keeps: "\<forall>p \<in> set space_encodings. c \<notin> set p \<Longrightarrow> c \<in> set s \<Longrightarrow> c \<in> set (trim_space s)"
  by (simp add: trim_space_def trim_left_def trim_right_def trim_front_keeps)

lemma trim_right_prefix: "prefix (trim_right s) s"
  using trim_front_suffix [of "map rev space_encodings" "rev s"]
  by (simp add: trim_right_def suffix_to_prefix)

lemma trim_left_suffix: "suffix (trim_left s) s"
  by (simp add: trim_left_def trim_front_suffix)

lemma trim_space_sublist: "sublist (trim_space s) s"
  using trim_left_suffix [of s] trim_right_prefix [of "trim_left s"]
  by (auto simp: trim_space_def suffix_def prefix_def sublist_def) metis

lemma trim_space_Nil [simp]: "trim_space [] = []"
  by (simp add: trim_space_def trim_left_def trim_right_def)

lemma trim_space_nonempty: "trim_space s \<noteq> [] \<Longrightarrow> s \<noteq> []"
  by auto

lemma trim_space_idem [simp]: "trim_space (trim_space s) = trim_space s"
proof -
  define l where "l = trim_left s"
  have noleft: "\<not> prefix p (trim_right l)" if "p \<in> set space_encodings" "p \<noteq> []" for p
    using trim_front_stop [OF that, of s] trim_right_prefix [of l] that
    unfolding l_def trim_left_def by (meson prefix_order.trans)
  have "trim_left (trim_right l) = trim_right l"
    unfolding trim_left_def by (rule trim_front_id) (rule noleft)
  moreover have "trim_right (trim_right l) = trim_right l"
    by (simp add: trim_right_def trim_front_idem)
  ultimately show ?thesis by (simp add: trim_space_def l_def)
qed

section \<open>Formatting\<close>

fun nat_to_str :: "nat \<Rightarrow> string" where
  "nat_to_str n = (if n < 10 then [char_of (48 + n)]
                   else nat_to_str (n div 10) @ [char_of (48 + n mod 10)])"

declare nat_to_str.simps [simp del]

definition int_to_str :: "int \<Rightarrow> string" where
  "int_to_str i = (if i < 0 then CHR ''-'' # nat_to_str (nat (- i)) else nat_to_str (nat i))"

definition is_digit :: "char \<Rightarrow> bool" where
  "is_digit c \<longleftrightarrow> 48 \<le> (of_char c :: nat) \<and> (of_char c :: nat) \<le> 57"

lemma nat_to_str_nonempty [simp]: "nat_to_str n \<noteq> []"
  by (subst nat_to_str.simps) simp

lemma nat_to_str_digits: "c \<in> set (nat_to_str n) \<Longrightarrow> is_digit c"
proof (induction n rule: nat_to_str.induct)
  case (1 n)
  have d: "is_digit (char_of (48 + k))" if "k < 10" for k :: nat
    using that by (simp add: is_digit_def)
  show ?case
  proof (cases "n < 10")
    case True
    with "1.prems" d [of n] show ?thesis by (simp add: nat_to_str.simps [of n])
  next
    case False
    with 1 d [of "n mod 10"] show ?thesis by (auto simp: nat_to_str.simps [of n])
  qed
qed

definition str_to_nat :: "string \<Rightarrow> nat" where
  "str_to_nat s = foldl (\<lambda>a c. 10 * a + (of_char c - 48)) 0 s"

lemma str_to_nat_to_str [simp]: "str_to_nat (nat_to_str n) = n"
proof (induction n rule: nat_to_str.induct)
  case (1 n)
  show ?case
  proof (cases "n < 10")
    case True
    then show ?thesis by (simp add: nat_to_str.simps [of n] str_to_nat_def)
  next
    case False
    with 1 have IH: "str_to_nat (nat_to_str (n div 10)) = n div 10" by blast
    have "str_to_nat (nat_to_str n) = 10 * str_to_nat (nat_to_str (n div 10)) + n mod 10"
      using False by (simp add: nat_to_str.simps [of n] str_to_nat_def)
    with IH show ?thesis by simp
  qed
qed

lemma nat_to_str_inj: "nat_to_str m = nat_to_str n \<Longrightarrow> m = n"
  by (metis str_to_nat_to_str)

lemma nat_to_str_no_dash: "CHR ''-'' \<notin> set (nat_to_str n)"
  using nat_to_str_digits [of "CHR ''-''" n] by (auto simp: is_digit_def)

lemma int_to_str_inj: "int_to_str i = int_to_str j \<Longrightarrow> i = j"
proof -
  assume eq: "int_to_str i = int_to_str j"
  have nodash: "CHR ''-'' # xs \<noteq> nat_to_str k" for xs k
    using nat_to_str_no_dash [of k] by (metis list.set_intros(1))
  show ?thesis
    using eq nodash by (auto simp: int_to_str_def split: if_splits dest!: nat_to_str_inj)
       (metis nodash)+
qed

lemma int_to_str_chars: "c \<in> set (int_to_str i) \<Longrightarrow> is_digit c \<or> c = CHR ''-''"
  by (auto simp: int_to_str_def nat_to_str_digits split: if_splits)

end
