(* ===== verification/FsPath.thy ===== *)
theory FsPath
  imports Prelude
begin

text \<open>
  Slash-separated paths: the component view that \<open>pkg/tools/fsguard\<close> works on
  (\<open>splitPathComponents\<close>), the rendering back to a string, and how the string prefix test of
  \<open>pkg/tools/pathscope\<close> relates to the component prefix order.
\<close>

text \<open>The errors a file system call can return, up to what \<open>errors.Is\<close> distinguishes.\<close>

datatype fs_error = ErrNotExist | ErrExist | ErrNotDir | ErrIsDir | ErrLoop | ErrOther nat

section \<open>Components and rendering\<close>

fun split_slash :: "string \<Rightarrow> string list" where
  "split_slash [] = [[]]"
| "split_slash (c # cs) =
     (if c = CHR ''/'' then [] # split_slash cs
      else (case split_slash cs of [] \<Rightarrow> [[c]] | w # ws \<Rightarrow> (c # w) # ws))"

text \<open>\<open>strings.FieldsFunc\<close> at \<open>/\<close> followed by the loop that drops \<open>"."\<close>.\<close>

definition splitPathComponents :: "string \<Rightarrow> string list" where
  "splitPathComponents p = filter (\<lambda>c. c \<noteq> ''.'') (filter (\<lambda>c. c \<noteq> []) (split_slash p))"

definition IsAbs :: "string \<Rightarrow> bool" where
  "IsAbs p \<longleftrightarrow> prefix ''/'' p"

definition render :: "string list \<Rightarrow> string" where
  "render p = (if p = [] then ''/'' else concat (map (\<lambda>c. CHR ''/'' # c) p))"

definition valid_name :: "string \<Rightarrow> bool" where
  "valid_name c \<longleftrightarrow> c \<noteq> [] \<and> CHR ''/'' \<notin> set c \<and> c \<noteq> ''.''"

definition valid_path :: "string list \<Rightarrow> bool" where
  "valid_path p \<longleftrightarrow> (\<forall>c \<in> set p. valid_name c \<and> c \<noteq> ''..'')"

lemma split_slash_nonempty [simp]: "split_slash s \<noteq> []"
  by (cases s) (auto split: list.splits)

lemma split_slash_no_slash: "w \<in> set (split_slash s) \<Longrightarrow> CHR ''/'' \<notin> set w"
  by (induction s arbitrary: w) (auto split: list.splits if_splits)

lemma splitPathComponents_valid: "c \<in> set (splitPathComponents p) \<Longrightarrow> valid_name c"
  by (auto simp: splitPathComponents_def valid_name_def dest: split_slash_no_slash)

lemma split_slash_word: "CHR ''/'' \<notin> set w \<Longrightarrow> split_slash w = [w]"
  by (induction w) auto

lemma split_slash_word_slash:
  "CHR ''/'' \<notin> set w \<Longrightarrow> split_slash (w @ CHR ''/'' # s) = w # split_slash s"
  by (induction w) auto

lemma split_slash_append_slash:
  "split_slash (s @ CHR ''/'' # t) = split_slash s @ split_slash t"
proof (induction s)
  case (Cons c s)
  then show ?case by (cases "split_slash s") auto
qed simp

lemma splitPathComponents_append_slash:
  "splitPathComponents (s @ CHR ''/'' # t) = splitPathComponents s @ splitPathComponents t"
  by (simp add: splitPathComponents_def split_slash_append_slash)

lemma splitPathComponents_Nil [simp]: "splitPathComponents [] = []"
  by (simp add: splitPathComponents_def)

lemma splitPathComponents_slash: "splitPathComponents (CHR ''/'' # t) = splitPathComponents t"
  using splitPathComponents_append_slash [of "[]" t] by simp

lemma splitPathComponents_name: "valid_name c \<Longrightarrow> splitPathComponents c = [c]"
  by (simp add: splitPathComponents_def valid_name_def split_slash_word)

lemma render_Cons: "render (c # p) = CHR ''/'' # c @ (if p = [] then [] else render p)"
  by (simp add: render_def)

lemma IsAbs_render [simp]: "IsAbs (render p)"
  by (cases p) (simp_all add: IsAbs_def render_def)

theorem split_render:
  "\<forall>c \<in> set p. valid_name c \<Longrightarrow> splitPathComponents (render p) = p"
proof (induction p)
  case Nil
  show ?case by (simp add: render_def splitPathComponents_def)
next
  case (Cons c p)
  show ?case
  proof (cases p)
    case Nil
    with Cons show ?thesis by (simp add: render_Cons splitPathComponents_slash splitPathComponents_name)
  next
    case (Cons d q)
    then have r: "render p = CHR ''/'' # tl (render p)" by (simp add: render_Cons)
    have "splitPathComponents (render (c # p)) = splitPathComponents (c @ CHR ''/'' # tl (render p))"
      using Cons by (simp add: render_Cons splitPathComponents_slash)
    also have "\<dots> = c # splitPathComponents (render p)"
      using Cons.prems by (subst r)
        (simp add: splitPathComponents_append_slash splitPathComponents_slash splitPathComponents_name)
    finally show ?thesis using Cons.IH Cons.prems by simp
  qed
qed

lemma valid_pathD: "valid_path p \<Longrightarrow> c \<in> set p \<Longrightarrow> valid_name c"
  by (simp add: valid_path_def)

lemma valid_path_Nil [simp]: "valid_path []"
  by (simp add: valid_path_def)

lemma valid_path_append [simp]: "valid_path (p @ q) \<longleftrightarrow> valid_path p \<and> valid_path q"
  by (auto simp: valid_path_def)

lemma valid_path_Cons [simp]: "valid_path (c # p) \<longleftrightarrow> valid_name c \<and> c \<noteq> ''..'' \<and> valid_path p"
  by (auto simp: valid_path_def)

lemma valid_path_single: "valid_path [c] \<longleftrightarrow> valid_name c \<and> c \<noteq> ''..''"
  by (simp add: valid_path_def)

lemma valid_path_butlast: "valid_path p \<Longrightarrow> valid_path (butlast p)"
  by (auto simp: valid_path_def dest: in_set_butlastD)

lemma render_inj: "valid_path p \<Longrightarrow> valid_path q \<Longrightarrow> render p = render q \<Longrightarrow> p = q"
  by (metis split_render valid_pathD)

section \<open>The string prefix test\<close>

text \<open>Appending a separator to a rendered non-root path, as \<open>Scope.Check\<close> does.\<close>

definition with_separator :: "string \<Rightarrow> string" where
  "with_separator p = (if suffix ''/'' p then p else p @ ''/'')"

lemma suffix_single: "suffix [x] s \<longleftrightarrow> s \<noteq> [] \<and> last s = x"
  by (cases s rule: rev_cases) (auto simp: suffix_def)

lemma render_last: "p \<noteq> [] \<Longrightarrow> valid_path p \<Longrightarrow> \<not> suffix ''/'' (render p)"
proof (induction p)
  case (Cons c p)
  then have c: "c \<noteq> []" "CHR ''/'' \<notin> set c" by (auto simp: valid_path_def valid_name_def)
  show ?case
  proof (cases "p = []")
    case True
    moreover have "last c \<noteq> CHR ''/''" using c last_in_set by metis
    ultimately show ?thesis using c by (simp add: render_Cons suffix_single)
  next
    case False
    with Cons have "\<not> suffix ''/'' (render p)" by (simp add: valid_path_def)
    moreover have "suffix ''/'' (CHR ''/'' # c @ render p) \<longleftrightarrow> suffix ''/'' (render p)"
      using False by (cases p) (auto simp: render_Cons suffix_single)
    ultimately show ?thesis using False by (simp add: render_Cons)
  qed
qed simp

lemma prefix_word_slash:
  assumes "CHR ''/'' \<notin> set c" and "CHR ''/'' \<notin> set d"
  shows "prefix (c @ CHR ''/'' # s) (d @ CHR ''/'' # t) \<longleftrightarrow> c = d \<and> prefix s t"
  using assms
proof (induction c arbitrary: d)
  case Nil
  then show ?case by (cases d) auto
next
  case (Cons x c)
  then show ?case by (cases d) auto
qed

lemma prefix_word_end:
  assumes "CHR ''/'' \<notin> set d"
  shows "\<not> prefix (c @ CHR ''/'' # s) d"
  using assms by (auto simp: prefix_def)

lemma strict_prefix_Cons_Cons: "strict_prefix (c # r) (d # p) \<longleftrightarrow> c = d \<and> strict_prefix r p"
  by (auto simp: strict_prefix_def)

lemma prefix_render_slash:
  "valid_path r \<Longrightarrow> r \<noteq> [] \<Longrightarrow> valid_path p \<Longrightarrow>
   prefix (render r @ ''/'') (render p) \<longleftrightarrow> strict_prefix r p"
proof (induction r arbitrary: p)
  case (Cons c r)
  note IH = Cons.IH and prems = Cons.prems
  have c: "CHR ''/'' \<notin> set c" using prems by (simp add: valid_path_def valid_name_def)
  have vr: "valid_path r" using prems by (simp add: valid_path_def)
  show ?case
  proof (cases p)
    case Nil
    with prems show ?thesis by (auto simp: render_def valid_path_def valid_name_def prefix_Cons)
  next
    case (Cons d q)
    have d: "CHR ''/'' \<notin> set d" and vq: "valid_path q"
      using prems Cons by (simp_all add: valid_path_def valid_name_def)
    have lhs: "render (c # r) @ ''/'' = CHR ''/'' # c @ CHR ''/'' #
                 (if r = [] then [] else tl (render r) @ ''/'')"
      by (cases r) (simp_all add: render_Cons)
    have rhs: "render p = CHR ''/'' # d @ (if q = [] then [] else CHR ''/'' # tl (render q))"
      using Cons by (cases q) (simp_all add: render_Cons)
    show ?thesis
    proof (cases "q = []")
      case True
      then show ?thesis
        using lhs rhs prefix_word_end [OF d] Cons by (auto simp: strict_prefix_Cons_Cons)
    next
      case qne: False
      then have *: "prefix (render (c # r) @ ''/'') (render p) \<longleftrightarrow>
          c = d \<and> prefix (if r = [] then [] else tl (render r) @ ''/'') (tl (render q))"
        unfolding lhs rhs using prefix_word_slash [OF c d] by simp
      show ?thesis
      proof (cases "r = []")
        case True
        with * qne Cons show ?thesis by (simp add: strict_prefix_Cons_Cons strict_prefix_def)
      next
        case False
        then have "render r = CHR ''/'' # tl (render r)" by (cases r) (simp_all add: render_Cons)
        moreover have "render q = CHR ''/'' # tl (render q)" using qne by (cases q) (simp_all add: render_Cons)
        ultimately have "prefix (tl (render r) @ ''/'') (tl (render q)) \<longleftrightarrow>
                         prefix (render r @ ''/'') (render q)"
          by (metis Cons_prefix_Cons append_Cons)
        with * False IH [OF vr False vq] Cons show ?thesis by (simp add: strict_prefix_Cons_Cons)
      qed
    qed
  qed
qed simp

lemma with_separator_render:
  "valid_path r \<Longrightarrow> with_separator (render r) = (if r = [] then ''/'' else render r @ ''/'')"
  using render_last by (auto simp: with_separator_def render_def)

lemma prefix_with_separator:
  assumes "valid_path r" and "valid_path p"
  shows "render p = render r \<or> prefix (with_separator (render r)) (render p) \<longleftrightarrow> prefix r p"
proof (cases "r = []")
  case True
  then show ?thesis using IsAbs_render [of p] by (simp add: with_separator_def render_def IsAbs_def)
next
  case False
  have "render p = render r \<longleftrightarrow> p = r" using assms render_inj by blast
  with False assms prefix_render_slash [OF assms(1) False assms(2)] show ?thesis
    by (auto simp: with_separator_render strict_prefix_def)
qed

end
