(* ===== verification/FsGuard.thy ===== *)
theory FsGuard
  imports FsPath
begin

text \<open>
  The read-before-write guard of \<open>pkg/tools/fsguard\<close>: the \<open>Guard\<close> with its two maps, every
  method of it over the \<open>Filesystem\<close> seam, the merging of line ranges, and the invariant that the
  recorded ranges are sorted, disjoint and not adjacent.

  The seam is a record of functions over a file system state \<open>'s\<close>, as the Go interface is; the
  content hash \<open>H\<close> (SHA-256 in the code) is a parameter.
\<close>

section \<open>Data\<close>

record LineRange =
  Start :: int
  End :: int

definition valid :: "LineRange \<Rightarrow> bool" where
  "valid r \<longleftrightarrow> Start r \<ge> 1 \<and> End r \<ge> Start r"

datatype guard_error =
    ErrNotRead | ErrStale | ErrRegionNotRead | ErrInvalidRange | ErrConcurrentCreate
  | FsError fs_error

record 's Filesystem =
  fsReadFile :: "'s \<Rightarrow> string \<Rightarrow> fs_error + string"
  fsCanonical :: "'s \<Rightarrow> string \<Rightarrow> fs_error + string"
  fsCreateExclusive :: "'s \<Rightarrow> string \<Rightarrow> string \<Rightarrow> nat \<Rightarrow> fs_error option \<times> 's"
  fsWriteFileAtomic :: "'s \<Rightarrow> string \<Rightarrow> string \<Rightarrow> nat \<Rightarrow> fs_error option \<times> 's"

record Guard =
  reads :: "string \<Rightarrow> string option"
  ranges :: "string \<Rightarrow> LineRange list option"

record Snapshot =
  snapReads :: "string \<Rightarrow> string option"
  snapRanges :: "string \<Rightarrow> LineRange list option"

definition New :: Guard where
  "New = \<lparr>reads = Map.empty, ranges = Map.empty\<rparr>"

section \<open>Merging line ranges\<close>

fun merge_loop :: "LineRange list \<Rightarrow> LineRange list \<Rightarrow> LineRange list" where
  "merge_loop merged [] = merged"
| "merge_loop merged (r # rs) =
     (if merged \<noteq> [] \<and> Start r \<le> wrap64 (End (last merged) + 1) then
        merge_loop
          (if End r > End (last merged) then butlast merged @ [(last merged)\<lparr>End := End r\<rparr>] else merged) rs
      else merge_loop (merged @ [r]) rs)"

definition mergeRanges :: "LineRange list \<Rightarrow> LineRange list \<Rightarrow> LineRange list" where
  "mergeRanges a b = merge_loop [] (sort_key Start (a @ b))"

section \<open>Observing\<close>

definition observe :: "'s Filesystem \<Rightarrow> (string \<Rightarrow> string) \<Rightarrow> 's \<Rightarrow> Guard \<Rightarrow> string \<Rightarrow> string
    \<Rightarrow> guard_error option \<times> Guard" where
  "observe fsys H s g path content =
     (case fsCanonical fsys s path of
        Inl e \<Rightarrow> (Some (FsError e), g)
      | Inr key \<Rightarrow>
          (None, g\<lparr>reads := (reads g)(key \<mapsto> H content), ranges := (ranges g)(key := None)\<rparr>))"

definition MarkRead :: "'s Filesystem \<Rightarrow> (string \<Rightarrow> string) \<Rightarrow> 's \<Rightarrow> Guard \<Rightarrow> string \<Rightarrow> string
    \<Rightarrow> guard_error option \<times> Guard" where
  "MarkRead fsys H s g path content = observe fsys H s g path content"

definition MarkWritten :: "'s Filesystem \<Rightarrow> (string \<Rightarrow> string) \<Rightarrow> 's \<Rightarrow> Guard \<Rightarrow> string \<Rightarrow> string
    \<Rightarrow> guard_error option \<times> Guard" where
  "MarkWritten fsys H s g path content = observe fsys H s g path content"

definition MarkReadRange :: "'s Filesystem \<Rightarrow> (string \<Rightarrow> string) \<Rightarrow> 's \<Rightarrow> Guard \<Rightarrow> string \<Rightarrow> string
    \<Rightarrow> LineRange list \<Rightarrow> guard_error option \<times> Guard" where
  "MarkReadRange fsys H s g path content rs =
     (if \<exists>r \<in> set rs. \<not> valid r then (Some ErrInvalidRange, g)
      else case fsCanonical fsys s path of
        Inl e \<Rightarrow> (Some (FsError e), g)
      | Inr key \<Rightarrow>
          (let h = H content; prev = reads g key; existing = ranges g key in
           if prev = Some h \<and> existing = None then (None, g)
           else
             (let existing' = (if prev \<noteq> Some h then [] else (case existing of None \<Rightarrow> [] | Some e \<Rightarrow> e))
              in (None, g\<lparr>reads := (reads g)(key \<mapsto> h),
                         ranges := (ranges g)(key \<mapsto> mergeRanges existing' rs)\<rparr>))))"

section \<open>Checking\<close>

definition CheckWritable :: "'s Filesystem \<Rightarrow> (string \<Rightarrow> string) \<Rightarrow> 's \<Rightarrow> Guard \<Rightarrow> string
    \<Rightarrow> guard_error option" where
  "CheckWritable fsys H s g path =
     (case fsCanonical fsys s path of
        Inl e \<Rightarrow> Some (FsError e)
      | Inr key \<Rightarrow>
          (case fsReadFile fsys s key of
             Inl e \<Rightarrow> (if e = ErrNotExist then None else Some (FsError e))
           | Inr current \<Rightarrow>
               (case reads g key of
                  None \<Rightarrow> Some ErrNotRead
                | Some observed \<Rightarrow> (if observed \<noteq> H current then Some ErrStale else None))))"

definition covered_by :: "LineRange list \<Rightarrow> LineRange \<Rightarrow> bool" where
  "covered_by rs sp \<longleftrightarrow> (\<exists>r \<in> set rs. Start r \<le> Start sp \<and> End sp \<le> End r)"

definition CheckEditable :: "'s Filesystem \<Rightarrow> (string \<Rightarrow> string) \<Rightarrow> 's \<Rightarrow> Guard \<Rightarrow> string
    \<Rightarrow> LineRange \<Rightarrow> guard_error option" where
  "CheckEditable fsys H s g path sp =
     (if \<not> valid sp then Some ErrInvalidRange
      else case fsCanonical fsys s path of
        Inl e \<Rightarrow> Some (FsError e)
      | Inr key \<Rightarrow>
          (case fsReadFile fsys s key of
             Inl e \<Rightarrow> (if e = ErrNotExist then None else Some (FsError e))
           | Inr current \<Rightarrow>
               (case reads g key of
                  None \<Rightarrow> Some ErrNotRead
                | Some observed \<Rightarrow>
                    (if observed \<noteq> H current then Some ErrStale
                     else case ranges g key of
                       None \<Rightarrow> None
                     | Some rs \<Rightarrow> (if covered_by rs sp then None else Some ErrRegionNotRead)))))"

section \<open>Committing a write\<close>

text \<open>\<open>env\<close> is what other processes do to the file system in the gap between the guard's re-read
  and its write call; the identity is a quiet gap.\<close>

definition CommitWrite :: "'s Filesystem \<Rightarrow> (string \<Rightarrow> string) \<Rightarrow> ('s \<Rightarrow> 's) \<Rightarrow> 's \<Rightarrow> Guard
    \<Rightarrow> string \<Rightarrow> string \<Rightarrow> nat \<Rightarrow> guard_error option \<times> Guard \<times> 's" where
  "CommitWrite fsys H env s g path content perm =
     (case fsCanonical fsys s path of
        Inl e \<Rightarrow> (Some (FsError e), g, s)
      | Inr key \<Rightarrow>
          (let g' = g\<lparr>reads := (reads g)(key \<mapsto> H content), ranges := (ranges g)(key := None)\<rparr> in
           case fsReadFile fsys s key of
             Inl e \<Rightarrow>
               (if e = ErrNotExist then
                  (case fsCreateExclusive fsys (env s) key content perm of
                     (Some cerr, s') \<Rightarrow>
                       (Some (if cerr = ErrExist then ErrConcurrentCreate else FsError cerr), g, s')
                   | (None, s') \<Rightarrow> (None, g', s'))
                else (Some (FsError e), g, s))
           | Inr current \<Rightarrow>
               (case reads g key of
                  None \<Rightarrow> (Some ErrNotRead, g, s)
                | Some observed \<Rightarrow>
                    (if observed \<noteq> H current then (Some ErrStale, g, s)
                     else case fsWriteFileAtomic fsys (env s) key content perm of
                       (Some werr, s') \<Rightarrow> (Some (FsError werr), g, s')
                     | (None, s') \<Rightarrow> (None, g', s')))))"

section \<open>Snapshots\<close>

definition TakeSnapshot :: "Guard \<Rightarrow> Snapshot" where
  "TakeSnapshot g = \<lparr>snapReads = reads g, snapRanges = ranges g\<rparr>"

definition Restore :: "Guard \<Rightarrow> Snapshot \<Rightarrow> Guard" where
  "Restore g sn = g\<lparr>reads := snapReads sn, ranges := snapRanges sn\<rparr>"

section \<open>Coverage as a set of lines\<close>

definition lines_of :: "LineRange list \<Rightarrow> int set" where
  "lines_of rs = (\<Union>r \<in> set rs. {Start r..End r})"

text \<open>A range whose end leaves room for the successor in Go's \<open>int\<close>.\<close>

definition bounded :: "LineRange \<Rightarrow> bool" where
  "bounded r \<longleftrightarrow> valid r \<and> End r < 2 ^ 63 - 1"

definition canonical_ranges :: "LineRange list \<Rightarrow> bool" where
  "canonical_ranges rs \<longleftrightarrow>
     (\<forall>r \<in> set rs. bounded r) \<and> sorted_wrt (\<lambda>a b. End a + 1 < Start b) rs"

lemma lines_of_simps [simp]:
  "lines_of [] = {}"
  "lines_of (r # rs) = {Start r..End r} \<union> lines_of rs"
  "lines_of (xs @ ys) = lines_of xs \<union> lines_of ys"
  by (auto simp: lines_of_def)

lemma bounded_wrap: "bounded r \<Longrightarrow> wrap64 (End r + 1) = End r + 1"
  by (rule wrap64_id) (auto simp: bounded_def valid_def in_int64_def)

lemma canonical_snoc:
  "canonical_ranges (rs @ [r]) \<longleftrightarrow>
     canonical_ranges rs \<and> bounded r \<and> (\<forall>x \<in> set rs. End x + 1 < Start r)"
  by (auto simp: canonical_ranges_def sorted_wrt_append)

lemma canonical_last_before:
  "canonical_ranges rs \<Longrightarrow> x \<in> set rs \<Longrightarrow> rs \<noteq> [] \<Longrightarrow> End x \<le> End (last rs)"
  by (cases rs rule: rev_cases) (auto simp: canonical_snoc bounded_def valid_def)

lemma merge_loop_spec:
  "canonical_ranges merged \<Longrightarrow> \<forall>r \<in> set rs. bounded r \<Longrightarrow> sorted (map Start rs) \<Longrightarrow>
   merged \<noteq> [] \<longrightarrow> (\<forall>r \<in> set rs. Start (last merged) \<le> Start r) \<Longrightarrow>
   canonical_ranges (merge_loop merged rs) \<and>
   lines_of (merge_loop merged rs) = lines_of merged \<union> lines_of rs"
proof (induction merged rs rule: merge_loop.induct)
  case (1 merged)
  then show ?case by simp
next
  case (2 merged r rs)
  have br: "bounded r" and brs: "\<forall>x \<in> set rs. bounded x" and so: "sorted (map Start rs)"
    and ge: "\<forall>x \<in> set rs. Start r \<le> Start x"
    using "2.prems" by auto
  show ?case
  proof (cases "merged \<noteq> [] \<and> Start r \<le> wrap64 (End (last merged) + 1)")
    case True
    then obtain m l where ml: "merged = m @ [l]" by (cases merged rule: rev_cases) auto
    have cl: "bounded l" and cm: "canonical_ranges m" and bef: "\<forall>x \<in> set m. End x + 1 < Start l"
      using "2.prems"(1) ml by (auto simp: canonical_snoc)
    have touch: "Start r \<le> End l + 1" using True ml bounded_wrap [OF cl] by simp
    have ler: "Start l \<le> Start r" using "2.prems"(4) ml by simp
    define merged' where
      "merged' = (if End r > End l then m @ [l\<lparr>End := End r\<rparr>] else m @ [l])"
    have bl': "bounded (l\<lparr>End := End r\<rparr>)"
      using cl br ler by (auto simp: bounded_def valid_def)
    have c': "canonical_ranges merged'"
      using cm cl bl' bef by (auto simp: merged'_def canonical_snoc)
    have l': "lines_of merged' = lines_of merged \<union> {Start r..End r}"
      using touch ler cl br ml by (auto simp: merged'_def bounded_def valid_def)
    have s': "merged' \<noteq> [] \<longrightarrow> (\<forall>x \<in> set rs. Start (last merged') \<le> Start x)"
      using ge ler by (auto simp: merged'_def)
    have eq: "(if End r > End (last merged) then butlast merged @ [(last merged)\<lparr>End := End r\<rparr>]
               else merged) = merged'"
      by (simp add: ml merged'_def)
    have "canonical_ranges (merge_loop merged' rs) \<and>
          lines_of (merge_loop merged' rs) = lines_of merged' \<union> lines_of rs"
      using "2.IH"(1) [OF True] c' brs so s' unfolding eq by blast
    then show ?thesis using True eq l' by auto
  next
    case False
    have gap: "\<forall>x \<in> set merged. End x + 1 < Start r"
    proof
      fix x assume x: "x \<in> set merged"
      then have ne: "merged \<noteq> []" by auto
      then have bl: "bounded (last merged)"
        using "2.prems"(1) last_in_set by (auto simp: canonical_ranges_def)
      have "End (last merged) + 1 < Start r" using False ne bounded_wrap [OF bl] by simp
      with canonical_last_before [OF "2.prems"(1) x ne] show "End x + 1 < Start r" by simp
    qed
    have "canonical_ranges (merged @ [r])" using "2.prems"(1) br gap by (simp add: canonical_snoc)
    then have "canonical_ranges (merge_loop (merged @ [r]) rs) \<and>
          lines_of (merge_loop (merged @ [r]) rs) = lines_of (merged @ [r]) \<union> lines_of rs"
      using "2.IH"(2) [OF False] brs so ge by simp
    then show ?thesis using False by auto
  qed
qed

lemma mergeRanges_spec:
  assumes "\<forall>r \<in> set a. bounded r" and "\<forall>r \<in> set b. bounded r"
  shows "canonical_ranges (mergeRanges a b)" and "lines_of (mergeRanges a b) = lines_of a \<union> lines_of b"
proof -
  have "lines_of (sort_key Start (a @ b)) = lines_of a \<union> lines_of b"
    by (auto simp: lines_of_def)
  then show "canonical_ranges (mergeRanges a b)" "lines_of (mergeRanges a b) = lines_of a \<union> lines_of b"
    using merge_loop_spec [of "[]" "sort_key Start (a @ b)"] assms
    by (auto simp: mergeRanges_def canonical_ranges_def)
qed

text \<open>In a canonical list a span lies in the union exactly when it lies in one range.\<close>

lemma covered_by_iff:
  assumes c: "canonical_ranges rs" and v: "valid sp"
  shows "covered_by rs sp \<longleftrightarrow> {Start sp..End sp} \<subseteq> lines_of rs"
proof
  assume "covered_by rs sp"
  then obtain r where "r \<in> set rs" "Start r \<le> Start sp" "End sp \<le> End r"
    by (auto simp: covered_by_def)
  then have "{Start sp..End sp} \<subseteq> {Start r..End r}" and "{Start r..End r} \<subseteq> lines_of rs"
    by (auto simp: lines_of_def)
  then show "{Start sp..End sp} \<subseteq> lines_of rs" by blast
next
  assume sub: "{Start sp..End sp} \<subseteq> lines_of rs"
  have "Start sp \<in> lines_of rs" using sub v by (auto simp: valid_def)
  then obtain r where r: "r \<in> set rs" "Start r \<le> Start sp" "Start sp \<le> End r"
    by (auto simp: lines_of_def)
  have "End sp \<le> End r"
  proof (rule ccontr)
    assume "\<not> End sp \<le> End r"
    then have "End r + 1 \<in> {Start sp..End sp}" using r by simp
    with sub obtain q where q: "q \<in> set rs" "Start q \<le> End r + 1" "End r + 1 \<le> End q"
      by (fastforce simp: lines_of_def)
    obtain i j where i: "i < length rs" "r = rs ! i" and j: "j < length rs" "q = rs ! j"
      using r(1) q(1) by (metis in_set_conv_nth)
    have s: "sorted_wrt (\<lambda>a b. End a + 1 < Start b) rs" using c by (simp add: canonical_ranges_def)
    have "bounded r" "bounded q" using c r(1) q(1) by (auto simp: canonical_ranges_def)
    then have vr: "Start r \<le> End r" "Start q \<le> End q" by (auto simp: bounded_def valid_def)
    consider "i < j" | "j < i" | "i = j" by linarith
    then show False
    proof cases
      case 1
      then have "End r + 1 < Start q" using s i j by (auto simp: sorted_wrt_iff_nth_less)
      with q show False by simp
    next
      case 2
      then have "End q + 1 < Start r" using s i j by (auto simp: sorted_wrt_iff_nth_less)
      with q vr show False by simp
    next
      case 3
      with i j q show False by simp
    qed
  qed
  with r show "covered_by rs sp" by (auto simp: covered_by_def)
qed

end
