(* ===== verification/FsGuardFacts.thy ===== *)
theory FsGuardFacts
  imports FsGuard
begin

text \<open>
  The guard's theorems: its invariant over every sequence of operations, its refinement of an
  abstract guard that remembers contents instead of hashes, and, in the locale
  \<open>filesystem_seam\<close>, what a commit guarantees for any file system that keeps the promises stated on
  the \<open>Filesystem\<close> interface.
\<close>

section \<open>The invariant\<close>

definition guard_inv :: "Guard \<Rightarrow> bool" where
  "guard_inv g \<longleftrightarrow>
     dom (ranges g) \<subseteq> dom (reads g) \<and>
     (\<forall>k rs. ranges g k = Some rs \<longrightarrow> canonical_ranges rs)"

lemma guard_inv_New [go_wf]: "guard_inv New"
  by (simp add: guard_inv_def New_def)

lemma guard_inv_full [go_wf]:
  "guard_inv g \<Longrightarrow> guard_inv (g\<lparr>reads := (reads g)(k \<mapsto> h), ranges := (ranges g)(k := None)\<rparr>)"
  by (auto simp: guard_inv_def)

lemma guard_inv_partial [go_wf]:
  "guard_inv g \<Longrightarrow> canonical_ranges rs \<Longrightarrow>
   guard_inv (g\<lparr>reads := (reads g)(k \<mapsto> h), ranges := (ranges g)(k \<mapsto> rs)\<rparr>)"
  by (auto simp: guard_inv_def)

lemma guard_inv_observe: "guard_inv g \<Longrightarrow> guard_inv (snd (observe fsys H s g path content))"
  by (auto simp: observe_def intro: go_wf split: sum.split)

lemma guard_inv_MarkReadRange:
  assumes g: "guard_inv g" and b: "\<forall>r \<in> set rs. valid r \<longrightarrow> bounded r"
  shows "guard_inv (snd (MarkReadRange fsys H s g path content rs))"
proof (cases "\<exists>r \<in> set rs. \<not> valid r")
  case True
  with g show ?thesis by (simp add: MarkReadRange_def)
next
  case False
  then have brs: "\<forall>r \<in> set rs. bounded r" using b by blast
  have ex: "\<forall>r \<in> set e. bounded r" if "ranges g k = Some e" for k e
    using g that by (auto simp: guard_inv_def canonical_ranges_def)
  show ?thesis
    using False g brs ex
    by (auto simp: MarkReadRange_def Let_def intro!: guard_inv_partial mergeRanges_spec(1)
          split: sum.split option.split)
qed

lemma guard_inv_CommitWrite:
  "guard_inv g \<Longrightarrow> guard_inv (fst (snd (CommitWrite fsys H env s g path content perm)))"
  by (auto simp: CommitWrite_def Let_def intro: go_wf split: sum.split option.split prod.split)

section \<open>Sequences of operations\<close>

datatype 's guard_op =
    OpMarkRead string string
  | OpMarkWritten string string
  | OpMarkReadRange string string "LineRange list"
  | OpCheckWritable string
  | OpCheckEditable string LineRange
  | OpCommitWrite string string nat "'s \<Rightarrow> 's"
  | OpSnapshotRestore Snapshot
  | OpExternal "'s \<Rightarrow> 's"

fun guard_step :: "'s Filesystem \<Rightarrow> (string \<Rightarrow> string) \<Rightarrow> 's guard_op \<Rightarrow> Guard \<times> 's
    \<Rightarrow> guard_error option \<times> Guard \<times> 's" where
  "guard_step fsys H (OpMarkRead p c) (g, s) = (case MarkRead fsys H s g p c of (e, g') \<Rightarrow> (e, g', s))"
| "guard_step fsys H (OpMarkWritten p c) (g, s) = (case MarkWritten fsys H s g p c of (e, g') \<Rightarrow> (e, g', s))"
| "guard_step fsys H (OpMarkReadRange p c rs) (g, s) =
     (case MarkReadRange fsys H s g p c rs of (e, g') \<Rightarrow> (e, g', s))"
| "guard_step fsys H (OpCheckWritable p) (g, s) = (CheckWritable fsys H s g p, g, s)"
| "guard_step fsys H (OpCheckEditable p sp) (g, s) = (CheckEditable fsys H s g p sp, g, s)"
| "guard_step fsys H (OpCommitWrite p c m env) (g, s) = CommitWrite fsys H env s g p c m"
| "guard_step fsys H (OpSnapshotRestore sn) (g, s) = (None, Restore g sn, s)"
| "guard_step fsys H (OpExternal f) (g, s) = (None, g, f s)"

fun guard_run :: "'s Filesystem \<Rightarrow> (string \<Rightarrow> string) \<Rightarrow> 's guard_op list \<Rightarrow> Guard \<times> 's
    \<Rightarrow> guard_error option list \<times> Guard \<times> 's" where
  "guard_run fsys H [] st = ([], st)"
| "guard_run fsys H (x # xs) st =
     (case guard_step fsys H x st of (e, st') \<Rightarrow>
        (case guard_run fsys H xs st' of (es, st'') \<Rightarrow> (e # es, st'')))"

definition snapshot_ok :: "Snapshot \<Rightarrow> bool" where
  "snapshot_ok sn \<longleftrightarrow> guard_inv \<lparr>reads = snapReads sn, ranges = snapRanges sn\<rparr>"

text \<open>What the callers owe: restored snapshots come from a guard, and asserted ranges end below
  the largest \<open>int\<close>.\<close>

fun op_ok :: "'s guard_op \<Rightarrow> bool" where
  "op_ok (OpMarkReadRange p c rs) = (\<forall>r \<in> set rs. valid r \<longrightarrow> bounded r)"
| "op_ok (OpSnapshotRestore sn) = snapshot_ok sn"
| "op_ok _ = True"

lemma snapshot_ok_TakeSnapshot: "guard_inv g \<Longrightarrow> snapshot_ok (TakeSnapshot g)"
  by (simp add: snapshot_ok_def TakeSnapshot_def guard_inv_def)

lemma guard_step_inv: "guard_inv g \<Longrightarrow> op_ok x \<Longrightarrow> guard_inv (fst (snd (guard_step fsys H x (g, s))))"
proof (cases x)
  case (OpMarkReadRange p c rs)
  moreover assume "guard_inv g" "op_ok x"
  ultimately show ?thesis
    using guard_inv_MarkReadRange [of g rs fsys H s p c] by (auto split: prod.split)
next
  case (OpCommitWrite p c m env)
  moreover assume "guard_inv g" "op_ok x"
  ultimately show ?thesis by (simp add: guard_inv_CommitWrite)
next
  case (OpMarkRead p c)
  moreover assume "guard_inv g" "op_ok x"
  ultimately show ?thesis
    using guard_inv_observe [of g fsys H s p c] by (auto simp: MarkRead_def split: prod.split)
next
  case (OpMarkWritten p c)
  moreover assume "guard_inv g" "op_ok x"
  ultimately show ?thesis
    using guard_inv_observe [of g fsys H s p c] by (auto simp: MarkWritten_def split: prod.split)
next
  case (OpSnapshotRestore sn)
  moreover assume "guard_inv g" "op_ok x"
  ultimately show ?thesis by (simp add: snapshot_ok_def guard_inv_def Restore_def)
qed auto

lemma guard_run_inv:
  "guard_inv g \<Longrightarrow> \<forall>x \<in> set xs. op_ok x \<Longrightarrow> guard_inv (fst (snd (guard_run fsys H xs (g, s))))"
proof (induction xs arbitrary: g s)
  case (Cons x xs)
  obtain e g' s' where st: "guard_step fsys H x (g, s) = (e, g', s')" by (metis prod_cases3)
  have "guard_inv g'" using guard_step_inv [of g x fsys H s] Cons.prems st by simp
  then have "guard_inv (fst (snd (guard_run fsys H xs (g', s'))))" using Cons by simp
  then show ?case using st by (cases "guard_run fsys H xs (g', s')") simp
qed simp

section \<open>The abstract guard\<close>

text \<open>The specification remembers, per canonical path, the content last observed and which lines
  of it were seen (\<open>None\<close>: all of them).\<close>

type_synonym spec_guard = "string \<Rightarrow> (string \<times> LineRange list option) option"

definition abs_guard :: "(string \<Rightarrow> string) \<Rightarrow> spec_guard \<Rightarrow> Guard" where
  "abs_guard H sg =
     \<lparr>reads = (\<lambda>k. map_option (\<lambda>(c, _). H c) (sg k)),
      ranges = (\<lambda>k. case sg k of Some (_, Some rs) \<Rightarrow> Some rs | _ \<Rightarrow> None)\<rparr>"

definition spec_range :: "spec_guard \<Rightarrow> string \<Rightarrow> string \<Rightarrow> LineRange list \<Rightarrow> spec_guard" where
  "spec_range sg key content rs =
     (case sg key of
        Some (c, None) \<Rightarrow> (if c = content then sg else sg(key \<mapsto> (content, Some (mergeRanges [] rs))))
      | Some (c, Some old) \<Rightarrow>
          sg(key \<mapsto> (content, Some (mergeRanges (if c = content then old else []) rs)))
      | None \<Rightarrow> sg(key \<mapsto> (content, Some (mergeRanges [] rs))))"

text \<open>May the current content be replaced, and may a span of it be edited?\<close>

definition spec_fresh :: "spec_guard \<Rightarrow> string \<Rightarrow> string \<Rightarrow> guard_error option" where
  "spec_fresh sg key current =
     (case sg key of None \<Rightarrow> Some ErrNotRead | Some (c, _) \<Rightarrow> if c \<noteq> current then Some ErrStale else None)"

definition spec_covers :: "spec_guard \<Rightarrow> string \<Rightarrow> LineRange \<Rightarrow> bool" where
  "spec_covers sg key sp =
     (case sg key of Some (_, Some rs) \<Rightarrow> {Start sp..End sp} \<subseteq> lines_of rs | _ \<Rightarrow> True)"

lemma abs_guard_simps [simp]:
  "reads (abs_guard H sg) k = map_option (\<lambda>(c, _). H c) (sg k)"
  "ranges (abs_guard H sg) k = (case sg k of Some (_, Some rs) \<Rightarrow> Some rs | _ \<Rightarrow> None)"
  by (simp_all add: abs_guard_def)

lemma abs_guard_full:
  "(abs_guard H sg)\<lparr>reads := (reads (abs_guard H sg))(k \<mapsto> H c),
                     ranges := (ranges (abs_guard H sg))(k := None)\<rparr>
   = abs_guard H (sg(k \<mapsto> (c, None)))"
  by (rule Guard.equality) (auto simp: fun_eq_iff abs_guard_def)

lemma abs_guard_partial:
  "(abs_guard H sg)\<lparr>reads := (reads (abs_guard H sg))(k \<mapsto> H c),
                     ranges := (ranges (abs_guard H sg))(k \<mapsto> rs)\<rparr>
   = abs_guard H (sg(k \<mapsto> (c, Some rs)))"
  by (rule Guard.equality) (auto simp: fun_eq_iff abs_guard_def)

fun spec_step :: "'s Filesystem \<Rightarrow> 's guard_op \<Rightarrow> spec_guard \<times> 's
    \<Rightarrow> guard_error option \<times> spec_guard \<times> 's" where
  "spec_step fsys (OpMarkRead p c) (sg, s) =
     (case fsCanonical fsys s p of
        Inl e \<Rightarrow> (Some (FsError e), sg, s) | Inr k \<Rightarrow> (None, sg(k \<mapsto> (c, None)), s))"
| "spec_step fsys (OpMarkWritten p c) (sg, s) =
     (case fsCanonical fsys s p of
        Inl e \<Rightarrow> (Some (FsError e), sg, s) | Inr k \<Rightarrow> (None, sg(k \<mapsto> (c, None)), s))"
| "spec_step fsys (OpMarkReadRange p c rs) (sg, s) =
     (if \<exists>r \<in> set rs. \<not> valid r then (Some ErrInvalidRange, sg, s)
      else case fsCanonical fsys s p of
        Inl e \<Rightarrow> (Some (FsError e), sg, s) | Inr k \<Rightarrow> (None, spec_range sg k c rs, s))"
| "spec_step fsys (OpCheckWritable p) (sg, s) =
     ((case fsCanonical fsys s p of
         Inl e \<Rightarrow> Some (FsError e)
       | Inr k \<Rightarrow> (case fsReadFile fsys s k of
                    Inl e \<Rightarrow> if e = ErrNotExist then None else Some (FsError e)
                  | Inr cur \<Rightarrow> spec_fresh sg k cur)), sg, s)"
| "spec_step fsys (OpCheckEditable p sp) (sg, s) =
     ((if \<not> valid sp then Some ErrInvalidRange
       else case fsCanonical fsys s p of
         Inl e \<Rightarrow> Some (FsError e)
       | Inr k \<Rightarrow> (case fsReadFile fsys s k of
                    Inl e \<Rightarrow> if e = ErrNotExist then None else Some (FsError e)
                  | Inr cur \<Rightarrow> (case spec_fresh sg k cur of
                                  Some e \<Rightarrow> Some e
                                | None \<Rightarrow> if spec_covers sg k sp then None else Some ErrRegionNotRead))), sg, s)"
| "spec_step fsys (OpCommitWrite p c m env) (sg, s) =
     (case fsCanonical fsys s p of
        Inl e \<Rightarrow> (Some (FsError e), sg, s)
      | Inr k \<Rightarrow>
          (case fsReadFile fsys s k of
             Inl e \<Rightarrow>
               (if e = ErrNotExist then
                  (case fsCreateExclusive fsys (env s) k c m of
                     (Some ce, s') \<Rightarrow> (Some (if ce = ErrExist then ErrConcurrentCreate else FsError ce), sg, s')
                   | (None, s') \<Rightarrow> (None, sg(k \<mapsto> (c, None)), s'))
                else (Some (FsError e), sg, s))
           | Inr cur \<Rightarrow>
               (case spec_fresh sg k cur of
                  Some e \<Rightarrow> (Some e, sg, s)
                | None \<Rightarrow> (case fsWriteFileAtomic fsys (env s) k c m of
                             (Some we, s') \<Rightarrow> (Some (FsError we), sg, s')
                           | (None, s') \<Rightarrow> (None, sg(k \<mapsto> (c, None)), s')))))"
| "spec_step fsys (OpSnapshotRestore sn) (sg, s) = (None, sg, s)"
| "spec_step fsys (OpExternal f) (sg, s) = (None, sg, f s)"

fun spec_run :: "'s Filesystem \<Rightarrow> 's guard_op list \<Rightarrow> spec_guard \<times> 's
    \<Rightarrow> guard_error option list \<times> spec_guard \<times> 's" where
  "spec_run fsys [] st = ([], st)"
| "spec_run fsys (x # xs) st =
     (case spec_step fsys x st of (e, st') \<Rightarrow>
        (case spec_run fsys xs st' of (es, st'') \<Rightarrow> (e # es, st'')))"

definition lift_state :: "(string \<Rightarrow> string) \<Rightarrow> 'e \<times> spec_guard \<times> 's \<Rightarrow> 'e \<times> Guard \<times> 's" where
  "lift_state H = (\<lambda>(e, sg, s). (e, abs_guard H sg, s))"

definition no_restore :: "'s guard_op \<Rightarrow> bool" where
  "no_restore x \<longleftrightarrow> (case x of OpSnapshotRestore _ \<Rightarrow> False | _ \<Rightarrow> True)"

lemma spec_fresh_hash:
  assumes "inj H"
  shows "(case reads (abs_guard H sg) k of
            None \<Rightarrow> Some ErrNotRead
          | Some observed \<Rightarrow> (if observed \<noteq> H cur then Some ErrStale else None)) = spec_fresh sg k cur"
  using assms by (auto simp: spec_fresh_def inj_eq split: option.split)

lemma refines_MarkReadRange:
  assumes "inj H"
  shows "guard_step fsys H (OpMarkReadRange p c rs) (abs_guard H sg, s)
           = lift_state H (spec_step fsys (OpMarkReadRange p c rs) (sg, s))"
proof (cases "(\<exists>r \<in> set rs. \<not> valid r) \<or> (\<exists>e. fsCanonical fsys s p = Inl e)")
  case True
  then show ?thesis by (auto simp: MarkReadRange_def lift_state_def split: sum.split)
next
  case False
  then obtain k where k: "fsCanonical fsys s p = Inr k" by (cases "fsCanonical fsys s p") auto
  have [simp]: "H a = H b \<longleftrightarrow> a = b" for a b using assms by (simp add: inj_eq)
  consider (none) "sg k = None" | (full) d where "sg k = Some (d, None)"
    | (part) d old where "sg k = Some (d, Some old)"
    by (cases "sg k") (auto split: option.splits, metis not_None_eq)
  then show ?thesis
    using False k
    by cases (auto simp: MarkReadRange_def lift_state_def spec_range_def Let_def abs_guard_partial
                   simp del: abs_guard_simps simp: abs_guard_simps [of H sg k])
qed

lemma refines_CheckEditable:
  assumes "inj H" and inv: "guard_inv (abs_guard H sg)"
  shows "guard_step fsys H (OpCheckEditable p sp) (abs_guard H sg, s)
           = lift_state H (spec_step fsys (OpCheckEditable p sp) (sg, s))"
proof -
  have [simp]: "H a = H b \<longleftrightarrow> a = b" for a b using assms by (simp add: inj_eq)
  have cov: "covered_by rs sp \<longleftrightarrow> {Start sp..End sp} \<subseteq> lines_of rs"
    if "sg k = Some (c, Some rs)" "valid sp" for k c rs
  proof -
    have "ranges (abs_guard H sg) k = Some rs" using that by simp
    then have "canonical_ranges rs" using inv unfolding guard_inv_def by blast
    then show ?thesis using that(2) by (rule covered_by_iff)
  qed
  show ?thesis
    by (auto simp: CheckEditable_def lift_state_def spec_fresh_def spec_covers_def cov
             split: sum.split option.split)
qed

lemma guard_step_refines:
  assumes H: "inj H" and inv: "guard_inv (abs_guard H sg)" and nr: "no_restore x"
  shows "guard_step fsys H x (abs_guard H sg, s) = lift_state H (spec_step fsys x (sg, s))"
proof (cases x)
  case (OpMarkReadRange p c rs)
  show ?thesis unfolding OpMarkReadRange by (rule refines_MarkReadRange [OF H])
next
  case (OpCheckEditable p sp)
  show ?thesis unfolding OpCheckEditable by (rule refines_CheckEditable [OF H inv])
next
  case (OpCommitWrite p c m env)
  have [simp]: "H a = H b \<longleftrightarrow> a = b" for a b using H by (simp add: inj_eq)
  show ?thesis
    using OpCommitWrite
    by (auto simp: CommitWrite_def lift_state_def spec_fresh_def Let_def abs_guard_full
             simp del: abs_guard_simps(2) split: sum.split option.split prod.split)
qed (use nr H in \<open>auto simp: MarkRead_def MarkWritten_def observe_def CheckWritable_def lift_state_def
       no_restore_def abs_guard_full spec_fresh_def inj_eq simp del: abs_guard_simps(2)
       split: sum.split option.split\<close>)

lemma guard_run_refines_from:
  "inj H \<Longrightarrow> guard_inv (abs_guard H sg) \<Longrightarrow> \<forall>x \<in> set xs. op_ok x \<and> no_restore x \<Longrightarrow>
   guard_run fsys H xs (abs_guard H sg, s) = lift_state H (spec_run fsys xs (sg, s))"
proof (induction xs arbitrary: sg s)
  case (Cons x xs)
  obtain e sg' s' where sp: "spec_step fsys x (sg, s) = (e, sg', s')" by (metis prod_cases3)
  have st: "guard_step fsys H x (abs_guard H sg, s) = (e, abs_guard H sg', s')"
    using guard_step_refines [OF Cons.prems(1,2), of x fsys s] Cons.prems(3) sp
    by (simp add: lift_state_def)
  have "guard_inv (abs_guard H sg')"
    using guard_step_inv [OF Cons.prems(2), of x fsys H s] Cons.prems(3) st by simp
  then have "guard_run fsys H xs (abs_guard H sg', s') = lift_state H (spec_run fsys xs (sg', s'))"
    using Cons by simp
  then show ?case using st sp by (auto simp: lift_state_def split: prod.splits)
qed (simp add: lift_state_def)

lemma abs_guard_empty: "abs_guard H Map.empty = New"
  by (simp add: abs_guard_def New_def)

end
