(* ===== verification/OsFs.thy ===== *)
theory OsFs
  imports FsPath
begin

text \<open>
  The operating-system side of \<open>pkg/tools/fsguard\<close>: a tree of directories, files and symbolic
  links with the kernel's path walk, and on top of it the methods of \<open>OSFilesystem\<close>
  (\<open>Canonical\<close>, \<open>ReadFile\<close>, \<open>CreateExclusive\<close>, \<open>WriteFileAtomic\<close>) as the code has them.

  The kernel walk is the environment the code runs in: it follows symbolic links where it meets
  them, applies \<open>..\<close> to the directory reached so far, and gives up after 40 links.  System calls
  may also fail for reasons of their own; the field \<open>fault\<close> says which ones do.
\<close>

section \<open>The tree and the kernel's walk\<close>

datatype fsnode = Dir | File string nat | Symlink string

datatype syscall =
    SysLookup "string list" | SysReadlink "string list" | SysRead "string list"
  | SysCreate "string list" | SysWrite "string list" | SysClose "string list"
  | SysChmod "string list" | SysSync "string list" | SysRename "string list"

record osfs =
  nodes :: "string list \<Rightarrow> fsnode option"
  getwd :: "fs_error + string"
  fault :: "syscall \<Rightarrow> fs_error option"
  written :: "string list \<Rightarrow> nat"      \<comment> \<open>bytes that reach the disk when a write fails\<close>
  temp_name :: "string list \<Rightarrow> string"  \<comment> \<open>the unused name \<open>os.CreateTemp\<close> picks in a directory\<close>

definition is_symlink :: "fsnode \<Rightarrow> bool" where
  "is_symlink n = (case n of Symlink _ \<Rightarrow> True | _ \<Rightarrow> False)"

definition node_at :: "osfs \<Rightarrow> string list \<Rightarrow> fs_error + fsnode" where
  "node_at fs p =
     (if p = [] then Inr Dir
      else case fault fs (SysLookup p) of
        Some e \<Rightarrow> Inl e
      | None \<Rightarrow> (case nodes fs p of None \<Rightarrow> Inl ErrNotExist | Some n \<Rightarrow> Inr n))"

function kwalk :: "osfs \<Rightarrow> nat \<Rightarrow> string list \<Rightarrow> string list \<Rightarrow> fs_error + string list" where
  "kwalk fs h cur [] = Inr cur"
| "kwalk fs h cur (c # cs) =
     (if c = [] \<or> c = ''.'' then kwalk fs h cur cs
      else if c = ''..'' then kwalk fs h (butlast cur) cs
      else case node_at fs (cur @ [c]) of
        Inl e \<Rightarrow> Inl e
      | Inr Dir \<Rightarrow> kwalk fs h (cur @ [c]) cs
      | Inr (File _ _) \<Rightarrow> (if cs = [] then Inr (cur @ [c]) else Inl ErrNotDir)
      | Inr (Symlink t) \<Rightarrow>
          (case h of
             0 \<Rightarrow> Inl ErrLoop
           | Suc h' \<Rightarrow> kwalk fs h' (if IsAbs t then [] else cur) (split_slash t @ cs)))"
  by pat_completeness auto
termination
  by (relation "measures [\<lambda>(fs, h, cur, cs). h, \<lambda>(fs, h, cur, cs). length cs]") auto

text \<open>\<open>os.Lstat\<close>: the parent is walked, the last component is not followed.\<close>

definition Lstat :: "osfs \<Rightarrow> string list \<Rightarrow> fs_error + fsnode" where
  "Lstat fs p =
     (if p = [] then Inr Dir
      else case kwalk fs 40 [] (butlast p) of
        Inl e \<Rightarrow> Inl e
      | Inr d \<Rightarrow>
          (case node_at fs d of
             Inl e \<Rightarrow> Inl e
           | Inr Dir \<Rightarrow> node_at fs (d @ [last p])
           | Inr _ \<Rightarrow> Inl ErrNotDir))"

definition Readlink :: "osfs \<Rightarrow> string list \<Rightarrow> fs_error + string" where
  "Readlink fs p =
     (case fault fs (SysReadlink p) of
        Some e \<Rightarrow> Inl e
      | None \<Rightarrow> (case Lstat fs p of Inr (Symlink t) \<Rightarrow> Inr t | Inr _ \<Rightarrow> Inl (ErrOther 0) | Inl e \<Rightarrow> Inl e))"

text \<open>A relative path is resolved against the working directory.\<close>

definition abs_path :: "osfs \<Rightarrow> string \<Rightarrow> fs_error + string" where
  "abs_path fs path =
     (if IsAbs path then Inr path
      else case getwd fs of Inl e \<Rightarrow> Inl e | Inr wd \<Rightarrow> Inr (wd @ ''/'' @ path))"

definition kopen :: "osfs \<Rightarrow> string \<Rightarrow> fs_error + string list" where
  "kopen fs path = (case abs_path fs path of Inl e \<Rightarrow> Inl e | Inr a \<Rightarrow> kwalk fs 40 [] (split_slash a))"

section \<open>OSFilesystem.Canonical\<close>

definition maxSymlinkHops :: nat where
  "maxSymlinkHops = 40"

function resolve_loop ::
  "osfs \<Rightarrow> string list \<Rightarrow> string list \<Rightarrow> string list \<Rightarrow> nat \<Rightarrow> fs_error + string list" where
  "resolve_loop fs resolved [] missing hops = Inr (resolved @ missing)"
| "resolve_loop fs resolved (c # pending) missing hops =
     (if missing \<noteq> [] then
        (if c = ''..'' then resolve_loop fs resolved pending (butlast missing) hops
         else resolve_loop fs resolved pending (missing @ [c]) hops)
      else if c = ''..'' then resolve_loop fs (butlast resolved) pending [] hops
      else case Lstat fs (resolved @ [c]) of
        Inl e \<Rightarrow> (if e = ErrNotExist then resolve_loop fs resolved pending [c] hops else Inl e)
      | Inr n \<Rightarrow>
          (if \<not> is_symlink n then resolve_loop fs (resolved @ [c]) pending [] hops
           else if hops + 1 > maxSymlinkHops then Inl ErrLoop
           else case Readlink fs (resolved @ [c]) of
             Inl e \<Rightarrow> Inl e
           | Inr target \<Rightarrow>
               resolve_loop fs (if IsAbs target then [] else resolved)
                 (splitPathComponents target @ pending) [] (hops + 1)))"
  by pat_completeness auto
termination
  by (relation "measures [\<lambda>(fs, r, p, m, hops). 41 - hops, \<lambda>(fs, r, p, m, hops). length p]")
     (auto simp: maxSymlinkHops_def)

definition resolveSymlinkAware :: "osfs \<Rightarrow> string \<Rightarrow> fs_error + string" where
  "resolveSymlinkAware fs absp =
     (case resolve_loop fs [] (splitPathComponents absp) [] 0 of
        Inl e \<Rightarrow> Inl e | Inr p \<Rightarrow> Inr (render p))"

definition Canonical :: "osfs \<Rightarrow> string \<Rightarrow> fs_error + string" where
  "Canonical fs path =
     (case abs_path fs path of Inl e \<Rightarrow> Inl e | Inr a \<Rightarrow> resolveSymlinkAware fs a)"

section \<open>The other methods of OSFilesystem\<close>

definition ReadFile :: "osfs \<Rightarrow> string \<Rightarrow> fs_error + string" where
  "ReadFile fs path =
     (case kopen fs path of
        Inl e \<Rightarrow> Inl e
      | Inr p \<Rightarrow>
          (case node_at fs p of
             Inl e \<Rightarrow> Inl e
           | Inr (File b m) \<Rightarrow> (case fault fs (SysRead p) of Some e \<Rightarrow> Inl e | None \<Rightarrow> Inr b)
           | Inr _ \<Rightarrow> Inl ErrIsDir))"

definition set_node :: "osfs \<Rightarrow> string list \<Rightarrow> fsnode option \<Rightarrow> osfs" where
  "set_node fs p n = fs\<lparr>nodes := (nodes fs)(p := n)\<rparr>"

text \<open>The directory and the last name of a path, as \<open>open(2)\<close> with \<open>O_CREAT\<close> and \<open>rename(2)\<close> see
  it: the directory is walked, the name is not followed.\<close>

definition dir_and_name :: "osfs \<Rightarrow> string \<Rightarrow> fs_error + (string list \<times> string)" where
  "dir_and_name fs path =
     (case abs_path fs path of
        Inl e \<Rightarrow> Inl e
      | Inr a \<Rightarrow>
          (let cs = splitPathComponents a in
           if cs = [] \<or> last cs = ''..'' then Inl ErrIsDir
           else case kwalk fs 40 [] (butlast cs) of
             Inl e \<Rightarrow> Inl e
           | Inr d \<Rightarrow>
               (case node_at fs d of
                  Inl e \<Rightarrow> Inl e
                | Inr Dir \<Rightarrow> Inr (d, last cs)
                | Inr _ \<Rightarrow> Inl ErrNotDir)))"

text \<open>\<open>f.Write\<close>: all of the data, or an error after some of it.\<close>

definition file_write :: "osfs \<Rightarrow> string list \<Rightarrow> string \<Rightarrow> nat \<Rightarrow> fs_error option \<times> osfs" where
  "file_write fs p data mode =
     (case fault fs (SysWrite p) of
        None \<Rightarrow> (None, set_node fs p (Some (File data mode)))
      | Some e \<Rightarrow> (Some e, set_node fs p (Some (File (take (written fs p) data) mode))))"

definition CreateExclusive :: "osfs \<Rightarrow> string \<Rightarrow> string \<Rightarrow> nat \<Rightarrow> fs_error option \<times> osfs" where
  "CreateExclusive fs path data perm =
     (case dir_and_name fs path of
        Inl e \<Rightarrow> (Some e, fs)
      | Inr (d, b) \<Rightarrow>
          (case node_at fs (d @ [b]) of
             Inr _ \<Rightarrow> (Some ErrExist, fs)
           | Inl e \<Rightarrow>
               (if e \<noteq> ErrNotExist then (Some e, fs)
                else case fault fs (SysCreate (d @ [b])) of
                  Some e \<Rightarrow> (Some e, fs)
                | None \<Rightarrow>
                    (let (werr, fs2) = file_write (set_node fs (d @ [b]) (Some (File [] perm))) (d @ [b]) data perm;
                         cerr = fault fs (SysClose (d @ [b]))
                     in (case werr of Some e \<Rightarrow> (Some e, fs2) | None \<Rightarrow> (cerr, fs2))))))"

text \<open>\<open>fillAndClose\<close>: write, chmod and sync stop at the first error; close always runs.\<close>

definition fillAndClose :: "osfs \<Rightarrow> string list \<Rightarrow> string \<Rightarrow> nat \<Rightarrow> fs_error option \<times> osfs" where
  "fillAndClose fs t data mode =
     (let (e1, fs1) = file_write fs t data 384;
          (e2, fs2) = (if e1 = None then
                         (case fault fs1 (SysChmod t) of
                            Some e \<Rightarrow> (Some e, fs1)
                          | None \<Rightarrow> (None, set_node fs1 t (Some (File data mode))))
                       else (e1, fs1));
          e3 = (if e2 = None then fault fs2 (SysSync t) else e2);
          e4 = (if e3 = None then fault fs2 (SysClose t) else e3)
      in (e4, fs2))"

text \<open>\<open>WriteFileAtomic\<close>, with the list of the file trees that other processes can observe on the
  way: after the staging file is created, after it is filled, and after the rename or the cleanup.\<close>

definition WriteFileAtomic_trace ::
  "osfs \<Rightarrow> string \<Rightarrow> string \<Rightarrow> nat \<Rightarrow> fs_error option \<times> osfs list" where
  "WriteFileAtomic_trace fs path data perm =
     (let mode = (case kopen fs path of
                    Inl _ \<Rightarrow> perm
                  | Inr q \<Rightarrow> (case node_at fs q of Inr (File _ m) \<Rightarrow> m | _ \<Rightarrow> perm))
      in case dir_and_name fs path of
        Inl e \<Rightarrow> (Some e, [fs])
      | Inr (d, b) \<Rightarrow>
          (let t = d @ [temp_name fs d] in
           case fault fs (SysCreate t) of
             Some e \<Rightarrow> (Some e, [fs])
           | None \<Rightarrow>
               (let fs1 = set_node fs t (Some (File [] 384));
                    (e, fs2) = fillAndClose fs1 t data mode;
                    (e', fs3) = (if e = None then
                                   (case fault fs2 (SysRename (d @ [b])) of
                                      Some e \<Rightarrow> (Some e, fs2)
                                    | None \<Rightarrow>
                                        (case nodes fs2 (d @ [b]) of
                                           Some Dir \<Rightarrow> (Some ErrExist, fs2)
                                         | _ \<Rightarrow> (None, set_node (set_node fs2 t None) (d @ [b]) (nodes fs2 t))))
                                 else (e, fs2))
                in case e' of
                     None \<Rightarrow> (None, [fs, fs1, fs2, fs3])
                   | Some err \<Rightarrow> (Some err, [fs, fs1, fs2, fs3, set_node fs3 t None]))))"

definition WriteFileAtomic :: "osfs \<Rightarrow> string \<Rightarrow> string \<Rightarrow> nat \<Rightarrow> fs_error option \<times> osfs" where
  "WriteFileAtomic fs path data perm =
     (let (e, tr) = WriteFileAtomic_trace fs path data perm in (e, last tr))"

end
