(* ===== verification/CanonicalPath.thy ===== *)
theory CanonicalPath
  imports OsFs
begin

text \<open>
  What \<open>OSFilesystem.Canonical\<close> guarantees: its result is free of symbolic links and of \<open>..\<close>,
  resolving it again changes nothing, it is the location the kernel itself reaches for the same
  path, and the file operations applied to it act at exactly that location.
\<close>

section \<open>Real locations\<close>

text \<open>A location is real when every step to it is an existing directory that is no symbolic
  link (the last step may be a file).\<close>

definition realpath :: "osfs \<Rightarrow> string list \<Rightarrow> bool" where
  "realpath fs p \<longleftrightarrow>
     (\<forall>q. prefix q p \<longrightarrow> q \<noteq> [] \<longrightarrow>
        (\<exists>n. node_at fs q = Inr n \<and> \<not> is_symlink n \<and> (q \<noteq> p \<longrightarrow> n = Dir)))"

definition lookup_faults_ok :: "osfs \<Rightarrow> bool" where
  "lookup_faults_ok fs \<longleftrightarrow> (\<forall>p. fault fs (SysLookup p) \<noteq> Some ErrNotExist)"

lemma node_at_Nil [simp]: "node_at fs [] = Inr Dir"
  by (simp add: node_at_def)

lemma real_Nil [simp]: "realpath fs []"
  by (simp add: realpath_def)

lemma real_snoc:
  "realpath fs (p @ [c]) \<longleftrightarrow>
     realpath fs p \<and> node_at fs p = Inr Dir \<and> (\<exists>n. node_at fs (p @ [c]) = Inr n \<and> \<not> is_symlink n)"
  (is "?l \<longleftrightarrow> ?r")
proof
  assume l: ?l
  have "node_at fs p = Inr Dir"
  proof (cases "p = []")
    case False
    with l show ?thesis by (force simp: realpath_def dest: spec [of _ p])
  qed simp
  moreover have "\<exists>n. node_at fs (p @ [c]) = Inr n \<and> \<not> is_symlink n"
    using l by (force simp: realpath_def dest: spec [of _ "p @ [c]"])
  moreover have "realpath fs p"
    unfolding realpath_def
  proof (intro allI impI)
    fix q assume q: "prefix q p" "q \<noteq> []"
    then have "prefix q (p @ [c])" "q \<noteq> p @ [c]" by (auto simp: prefix_def)
    with l q show "\<exists>n. node_at fs q = Inr n \<and> \<not> is_symlink n \<and> (q \<noteq> p \<longrightarrow> n = Dir)"
      by (auto simp: realpath_def)
  qed
  ultimately show ?r by blast
next
  assume r: ?r
  show ?l
    unfolding realpath_def
  proof (intro allI impI)
    fix q assume q: "prefix q (p @ [c])" "q \<noteq> []"
    show "\<exists>n. node_at fs q = Inr n \<and> \<not> is_symlink n \<and> (q \<noteq> p @ [c] \<longrightarrow> n = Dir)"
    proof (cases "q = p @ [c]")
      case True
      with r show ?thesis by auto
    next
      case False
      with q have qp: "prefix q p" by simp
      show ?thesis
      proof (cases "q = p")
        case True
        with r show ?thesis by (auto simp: is_symlink_def)
      next
        case ne: False
        with r qp q(2) have "node_at fs q = Inr Dir" by (auto simp: realpath_def)
        then show ?thesis by (simp add: is_symlink_def)
      qed
    qed
  qed
qed

lemma real_butlast: "realpath fs p \<Longrightarrow> realpath fs (butlast p) \<and> node_at fs (butlast p) = Inr Dir"
  by (cases p rule: rev_cases) (auto simp: real_snoc)

lemma real_append: "realpath fs (p @ q) \<Longrightarrow> realpath fs p"
proof (induction q rule: rev_induct)
  case (snoc c q)
  then have "realpath fs ((p @ q) @ [c])" by simp
  then have "realpath fs (p @ q)" unfolding real_snoc by blast
  then show ?case by (rule snoc.IH)
qed simp

lemma real_step:
  "realpath fs (p @ c # q) \<Longrightarrow>
     (\<exists>n. node_at fs (p @ [c]) = Inr n \<and> \<not> is_symlink n \<and> (q \<noteq> [] \<longrightarrow> n = Dir))"
proof -
  assume "realpath fs (p @ c # q)"
  then obtain n where "node_at fs (p @ [c]) = Inr n" "\<not> is_symlink n"
      "p @ [c] \<noteq> p @ c # q \<longrightarrow> n = Dir"
    unfolding realpath_def by (metis append_Cons append_Nil append_assoc prefixI snoc_eq_iff_butlast)
  then show ?thesis by auto
qed

lemma kwalk_real:
  "realpath fs (cur @ p) \<Longrightarrow> valid_path p \<Longrightarrow> kwalk fs h cur p = Inr (cur @ p)"
proof (induction p arbitrary: cur)
  case (Cons c p)
  then have c: "c \<noteq> []" "c \<noteq> ''.''" "c \<noteq> ''..''" and vp: "valid_path p"
    by (auto simp: valid_path_def valid_name_def)
  obtain n where n: "node_at fs (cur @ [c]) = Inr n" "\<not> is_symlink n" "p \<noteq> [] \<longrightarrow> n = Dir"
    using real_step [of fs cur c p] Cons.prems(1) by auto
  have "kwalk fs h (cur @ [c]) p = Inr ((cur @ [c]) @ p)"
    using Cons.IH [of "cur @ [c]"] Cons.prems(1) vp by simp
  then show ?case using c n by (cases n) (auto simp: is_symlink_def)
qed simp

lemma Lstat_real:
  assumes "realpath fs p" and "valid_path p"
  shows "Lstat fs (p @ [c]) =
           (case node_at fs p of Inl e \<Rightarrow> Inl e | Inr Dir \<Rightarrow> node_at fs (p @ [c]) | Inr _ \<Rightarrow> Inl ErrNotDir)"
  using kwalk_real [of fs "[]" p 40] assms by (simp add: Lstat_def split: sum.split fsnode.split)

lemma Lstat_real_Inr:
  assumes "realpath fs p" "valid_path p" "Lstat fs (p @ [c]) = Inr n"
  shows "node_at fs p = Inr Dir \<and> node_at fs (p @ [c]) = Inr n"
  using assms(3) unfolding Lstat_real [OF assms(1,2)] by (auto split: sum.splits fsnode.splits)

lemma node_at_real: "realpath fs p \<Longrightarrow> \<exists>n. node_at fs p = Inr n \<and> \<not> is_symlink n"
  by (cases p rule: rev_cases) (auto simp: real_snoc is_symlink_def)

lemma Lstat_real_missing:
  assumes "realpath fs p" "valid_path p" "Lstat fs (p @ [c]) = Inl ErrNotExist"
  shows "node_at fs p = Inr Dir \<and> node_at fs (p @ [c]) = Inl ErrNotExist"
  using assms(3) node_at_real [OF assms(1)] unfolding Lstat_real [OF assms(1,2)]
  by (auto split: fsnode.splits)

section \<open>The result of the symlink-aware walk\<close>

text \<open>A resolved location: a real part, and below it a tail of names none of which exists.\<close>

definition resolved_at :: "osfs \<Rightarrow> string list \<Rightarrow> string list \<Rightarrow> bool" where
  "resolved_at fs r m \<longleftrightarrow>
     realpath fs r \<and> valid_path r \<and> valid_path m \<and>
     (m \<noteq> [] \<longrightarrow> node_at fs r = Inr Dir \<and> node_at fs (r @ [hd m]) = Inl ErrNotExist)"

definition is_canonical :: "osfs \<Rightarrow> string list \<Rightarrow> bool" where
  "is_canonical fs p \<longleftrightarrow> (\<exists>r m. p = r @ m \<and> resolved_at fs r m)"

lemma is_canonical_valid: "is_canonical fs p \<Longrightarrow> valid_path p"
  by (auto simp: is_canonical_def resolved_at_def)

lemma resolve_loop_canonical:
  "resolved_at fs resolved missing \<Longrightarrow> \<forall>c \<in> set pending. valid_name c \<Longrightarrow>
   resolve_loop fs resolved pending missing hops = Inr p \<Longrightarrow> is_canonical fs p"
proof (induction fs resolved pending missing hops rule: resolve_loop.induct)
  case (1 fs resolved missing hops)
  then show ?case by (auto simp: is_canonical_def)
next
  case (2 fs resolved c pending missing hops)
  have vp: "\<forall>c \<in> set pending. valid_name c" and vc: "valid_name c" using "2.prems"(2) by auto
  consider (tail_up) "missing \<noteq> []" "c = ''..''" | (tail) "missing \<noteq> []" "c \<noteq> ''..''"
    | (up) "missing = []" "c = ''..''" | (look) "missing = []" "c \<noteq> ''..''" by blast
  then show ?case
  proof cases
    case tail_up
    have "resolved_at fs resolved (butlast missing)"
    proof (cases missing rule: rev_cases)
      case (snoc ys y)
      then show ?thesis using "2.prems"(1) by (cases ys) (auto simp: resolved_at_def)
    qed (use "2.prems"(1) in simp)
    then show ?thesis using "2.IH"(1) tail_up vp "2.prems"(3) by simp
  next
    case tail
    then have "resolved_at fs resolved (missing @ [c])"
      using "2.prems"(1) vc by (auto simp: resolved_at_def valid_path_single)
    then show ?thesis using "2.IH"(2) tail vp "2.prems"(3) by simp
  next
    case up
    then have "resolved_at fs (butlast resolved) []"
      using "2.prems"(1) real_butlast by (auto simp: resolved_at_def valid_path_butlast)
    then show ?thesis using "2.IH"(3) up vp "2.prems"(3) by simp
  next
    case look
    have r: "realpath fs resolved" "valid_path resolved" using "2.prems"(1) by (auto simp: resolved_at_def)
    show ?thesis
    proof (cases "Lstat fs (resolved @ [c])")
      case (Inl e)
      then have e: "e = ErrNotExist" using "2.prems"(3) look by (simp split: if_splits)
      then have "resolved_at fs resolved [c]"
        using Lstat_real_missing [OF r] Inl r vc look by (simp add: resolved_at_def valid_path_single)
      then show ?thesis using "2.IH"(4) [OF _ _ Inl e] look vp "2.prems"(3) Inl e by simp
    next
      case (Inr n)
      show ?thesis
      proof (cases "is_symlink n")
        case False
        then have "resolved_at fs (resolved @ [c]) []"
          using Lstat_real_Inr [OF r Inr] r vc look
          by (simp add: resolved_at_def real_snoc valid_path_single)
        then show ?thesis using "2.IH"(5) [OF _ _ Inr] look vp "2.prems"(3) Inr False by simp
      next
        case True
        then obtain target where t: "Readlink fs (resolved @ [c]) = Inr target"
            and h: "\<not> maxSymlinkHops < hops + 1"
          using "2.prems"(3) look Inr by (auto split: if_splits sum.splits)
        have "resolved_at fs (if IsAbs target then [] else resolved) []"
          using r by (simp add: resolved_at_def)
        moreover have "\<forall>c \<in> set (splitPathComponents target @ pending). valid_name c"
          using vp splitPathComponents_valid by auto
        ultimately show ?thesis
          using "2.IH"(6) [OF _ _ Inr _ h t] look "2.prems"(3) Inr True t h by simp
      qed
    qed
  qed
qed

lemma resolve_loop_real:
  "realpath fs (cur @ p) \<Longrightarrow> valid_path (cur @ p) \<Longrightarrow>
   resolve_loop fs cur (p @ rest) [] hops = resolve_loop fs (cur @ p) rest [] hops"
proof (induction p arbitrary: cur)
  case (Cons c p)
  obtain n where n: "node_at fs (cur @ [c]) = Inr n" "\<not> is_symlink n"
    using real_step [of fs cur c p] Cons.prems(1) by auto
  have rc: "realpath fs (cur @ [c])" using Cons.prems(1) real_append [of fs "cur @ [c]" p] by simp
  then have "node_at fs cur = Inr Dir" "realpath fs cur" unfolding real_snoc by blast+
  with n Cons.prems(2) have "Lstat fs (cur @ [c]) = Inr n" by (simp add: Lstat_real)
  moreover have "c \<noteq> ''..''" using Cons.prems(2) by (simp add: valid_path_def)
  moreover have "resolve_loop fs (cur @ [c]) (p @ rest) [] hops
                   = resolve_loop fs ((cur @ [c]) @ p) rest [] hops"
    using Cons by simp
  ultimately show ?case using n by simp
qed simp

lemma resolve_loop_tail:
  "missing \<noteq> [] \<Longrightarrow> valid_path m \<Longrightarrow>
   resolve_loop fs resolved m missing hops = Inr (resolved @ missing @ m)"
  by (induction m arbitrary: missing) (simp_all add: valid_path_def)

theorem resolve_loop_fixpoint:
  "is_canonical fs p \<Longrightarrow> resolve_loop fs [] p [] hops = Inr p"
proof -
  assume "is_canonical fs p"
  then obtain r m where p: "p = r @ m" and rm: "resolved_at fs r m" by (auto simp: is_canonical_def)
  have "resolve_loop fs [] (r @ m) [] hops = resolve_loop fs r m [] hops"
    using resolve_loop_real [of fs "[]" r m hops] rm by (simp add: resolved_at_def)
  also have "\<dots> = Inr (r @ m)"
  proof (cases m)
    case (Cons c m')
    have "Lstat fs (r @ [c]) = Inl ErrNotExist"
      using rm Cons by (simp add: resolved_at_def Lstat_real)
    then show ?thesis using rm Cons resolve_loop_tail [of "[c]" m' fs r hops]
      by (simp add: resolved_at_def valid_path_def)
  qed simp
  finally show ?thesis using p by simp
qed

lemma Canonical_cases:
  assumes "Canonical fs path = Inr k"
  obtains p where "k = render p" and "is_canonical fs p"
proof -
  obtain a where a: "abs_path fs path = Inr a" and r: "resolveSymlinkAware fs a = Inr k"
    using assms by (auto simp: Canonical_def split: sum.splits)
  obtain p where p: "resolve_loop fs [] (splitPathComponents a) [] 0 = Inr p" and k: "k = render p"
    using r by (auto simp: resolveSymlinkAware_def split: sum.splits)
  have "is_canonical fs p"
    by (rule resolve_loop_canonical [OF _ _ p]) (auto simp: resolved_at_def dest: splitPathComponents_valid)
  with k show ?thesis by (rule that)
qed

lemma abs_path_render [simp]: "abs_path fs (render p) = Inr (render p)"
  by (simp add: abs_path_def)

lemma Canonical_render: "is_canonical fs p \<Longrightarrow> Canonical fs (render p) = Inr (render p)"
  using resolve_loop_fixpoint is_canonical_valid [of fs p]
  by (simp add: Canonical_def resolveSymlinkAware_def split_render valid_path_def)

section \<open>Agreement with the kernel\<close>

definition clean :: "string list \<Rightarrow> string list" where
  "clean cs = filter (\<lambda>c. c \<noteq> ''.'') (filter (\<lambda>c. c \<noteq> []) cs)"

lemma clean_split: "clean (split_slash s) = splitPathComponents s"
  by (simp add: clean_def splitPathComponents_def)

lemma clean_append [simp]: "clean (a @ b) = clean a @ clean b"
  by (simp add: clean_def)

definition no_slash :: "string list \<Rightarrow> bool" where
  "no_slash cs \<longleftrightarrow> (\<forall>c \<in> set cs. CHR ''/'' \<notin> set c)"

lemma no_slash_split [simp]: "no_slash (split_slash s)"
  by (auto simp: no_slash_def dest: split_slash_no_slash)

lemma no_slash_simps [simp]:
  "no_slash []" "no_slash (c # cs) \<longleftrightarrow> CHR ''/'' \<notin> set c \<and> no_slash cs"
  "no_slash (a @ b) \<longleftrightarrow> no_slash a \<and> no_slash b"
  by (auto simp: no_slash_def)

lemma kwalk_agrees:
  "kwalk fs h cur cs = Inr p \<Longrightarrow> h \<le> 40 \<Longrightarrow> realpath fs cur \<Longrightarrow> valid_path cur \<Longrightarrow>
   node_at fs cur = Inr Dir \<Longrightarrow> no_slash cs \<Longrightarrow> (\<And>q. fault fs (SysReadlink q) = None) \<Longrightarrow>
   resolve_loop fs cur (clean cs) [] (40 - h) = Inr p"
proof (induction fs h cur cs rule: kwalk.induct)
  case (1 fs h cur)
  then show ?case by (simp add: clean_def)
next
  case (2 fs h cur c cs)
  note faults = "2.prems"(7)
  consider (skip) "c = [] \<or> c = ''.''" | (up) "c = ''..''" | (name) "valid_name c" "c \<noteq> ''..''"
    using "2.prems"(6) by (auto simp: valid_name_def)
  then show ?case
  proof cases
    case skip
    then have "clean (c # cs) = clean cs" by (auto simp: clean_def)
    then show ?thesis using "2.IH"(1) [OF skip] "2.prems" skip by auto
  next
    case up
    then have "clean (c # cs) = ''..'' # clean cs" by (simp add: clean_def)
    then show ?thesis
      using "2.IH"(2) up "2.prems" real_butlast [of fs cur] by (auto simp: valid_path_butlast)
  next
    case name
    then have ne: "\<not> (c = [] \<or> c = ''.'')" by (auto simp: valid_name_def)
    have cl: "clean (c # cs) = c # clean cs" using ne by (simp add: clean_def)
    have ls: "Lstat fs (cur @ [c]) = node_at fs (cur @ [c])"
      using Lstat_real "2.prems"(3-5) by simp
    have walk: "kwalk fs h cur (c # cs) = Inr p" by (rule "2.prems"(1))
    show ?thesis
    proof (cases "node_at fs (cur @ [c])")
      case (Inl e)
      then show ?thesis using walk ne name by simp
    next
      case (Inr n)
      show ?thesis
      proof (cases n)
        case Dir
        have "kwalk fs h (cur @ [c]) cs = Inr p" using walk ne name Inr Dir by simp
        moreover have "realpath fs (cur @ [c])" using "2.prems" Inr Dir by (auto simp: real_snoc is_symlink_def)
        ultimately have "resolve_loop fs (cur @ [c]) (clean cs) [] (40 - h) = Inr p"
          using "2.IH"(3) [OF ne name(2) Inr Dir] "2.prems" name Inr Dir
          by (simp add: valid_path_single)
        then show ?thesis using cl name ls Inr Dir by (simp add: is_symlink_def)
      next
        case (File b m)
        then have "cs = []" "p = cur @ [c]" using walk ne name Inr by (simp_all split: if_splits)
        then show ?thesis using cl name ls Inr File by (simp add: is_symlink_def clean_def)
      next
        case (Symlink t)
        then obtain h' where h': "h = Suc h'" using walk ne name Inr by (cases h) auto
        then have w: "kwalk fs h' (if IsAbs t then [] else cur) (split_slash t @ cs) = Inr p"
          using walk ne name Inr Symlink by simp
        have rl: "Readlink fs (cur @ [c]) = Inr t" using ls Inr Symlink faults by (simp add: Readlink_def)
        have "resolve_loop fs (if IsAbs t then [] else cur) (clean (split_slash t @ cs)) [] (40 - h') = Inr p"
          using "2.IH"(4) [OF ne name(2) Inr Symlink h' w] "2.prems" h' by simp
        moreover have "40 - h' = (40 - h) + 1" and "\<not> maxSymlinkHops < (40 - h) + 1"
          using h' "2.prems"(2) by (simp_all add: maxSymlinkHops_def)
        ultimately show ?thesis
          using cl name ls Inr Symlink rl by (simp add: is_symlink_def clean_split)
      qed
    qed
  qed
qed

lemma kopen_resolves:
  assumes "kopen fs path = Inr p" and "\<And>q. fault fs (SysReadlink q) = None"
  obtains a where "abs_path fs path = Inr a" "resolve_loop fs [] (splitPathComponents a) [] 0 = Inr p"
proof -
  obtain a where a: "abs_path fs path = Inr a" and w: "kwalk fs 40 [] (split_slash a) = Inr p"
    using assms(1) by (auto simp: kopen_def split: sum.splits)
  have "resolve_loop fs [] (clean (split_slash a)) [] (40 - 40) = Inr p"
    by (rule kwalk_agrees [OF w]) (use assms(2) in auto)
  with a show ?thesis by (intro that) (simp_all add: clean_split)
qed

theorem Canonical_kernel:
  assumes "kopen fs path = Inr p" and "\<And>q. fault fs (SysReadlink q) = None"
  shows "Canonical fs path = Inr (render p) \<and> is_canonical fs p"
  using kopen_resolves [OF assms]
proof cases
  case (1 a)
  have "is_canonical fs p"
    by (rule resolve_loop_canonical [OF _ _ 1(2)])
       (auto simp: resolved_at_def dest: splitPathComponents_valid)
  with 1 show ?thesis by (simp add: Canonical_def resolveSymlinkAware_def)
qed

end
