(* ===== verification/FsSeam.thy ===== *)
theory FsSeam
  imports FsGuardFacts CanonicalPath
begin

text \<open>
  The \<open>Filesystem\<close> interface of \<open>pkg/tools/fsguard\<close> as a locale: what the interface comments
  promise of \<open>Canonical\<close>, \<open>CreateExclusive\<close> and \<open>WriteFileAtomic\<close>, and what a \<open>CommitWrite\<close>
  guarantees on any file system that keeps these promises.  The interpretation shows that
  \<open>OSFilesystem\<close> keeps them on every file tree whose reads do not fail.
\<close>

section \<open>The interface\<close>

text \<open>The narrow part of the interface that \<open>pkg/tools/pathscope\<close> uses: resolving a resolved path
  changes nothing.\<close>

locale canonicalizer =
  fixes canon :: "'s \<Rightarrow> string \<Rightarrow> fs_error + string"
    and good :: "'s \<Rightarrow> bool"
  assumes canonical_fixed: "good s \<Longrightarrow> canon s p = Inr k \<Longrightarrow> canon s k = Inr k"

locale filesystem_seam = canonicalizer "fsCanonical fsys" good
  for fsys :: "'s Filesystem" and good :: "'s \<Rightarrow> bool" +
  assumes create_new:
      "good s \<Longrightarrow> fsCanonical fsys s k = Inr k \<Longrightarrow> fsCreateExclusive fsys s k c m = (None, s') \<Longrightarrow>
         fsReadFile fsys s k = Inl ErrNotExist \<and> fsReadFile fsys s' k = Inr c \<and> fsCanonical fsys s' k = Inr k"
    and create_existing:
      "good s \<Longrightarrow> fsCanonical fsys s k = Inr k \<Longrightarrow> fsReadFile fsys s k = Inr d \<Longrightarrow>
         fsCreateExclusive fsys s k c m = (Some ErrExist, s)"
    and replace_ok:
      "good s \<Longrightarrow> fsCanonical fsys s k = Inr k \<Longrightarrow> fsWriteFileAtomic fsys s k c m = (None, s') \<Longrightarrow>
         fsReadFile fsys s' k = Inr c \<and> fsCanonical fsys s' k = Inr k"
    and replace_fail:
      "good s \<Longrightarrow> fsCanonical fsys s k = Inr k \<Longrightarrow> fsWriteFileAtomic fsys s k c m = (Some e, s') \<Longrightarrow>
         fsReadFile fsys s' k = fsReadFile fsys s k"
begin

lemma commit_created_or_replaced:
  assumes "CommitWrite fsys H env s g path content perm = (None, g', s')"
  obtains key where "fsCanonical fsys s path = Inr key"
    and "g' = g\<lparr>reads := (reads g)(key \<mapsto> H content), ranges := (ranges g)(key := None)\<rparr>"
    and "(fsReadFile fsys s key = Inl ErrNotExist \<and>
            fsCreateExclusive fsys (env s) key content perm = (None, s')) \<or>
         (\<exists>cur. fsReadFile fsys s key = Inr cur \<and> reads g key = Some (H cur) \<and>
            fsWriteFileAtomic fsys (env s) key content perm = (None, s'))"
  using assms
  by (auto simp: CommitWrite_def Let_def split: sum.splits option.splits prod.splits if_splits)

lemma commit_success:
  assumes ok: "CommitWrite fsys H env s g path content perm = (None, g', s')"
    and key: "fsCanonical fsys s path = Inr key"
    and env: "good (env s)" "fsCanonical fsys (env s) key = Inr key"
  shows "fsReadFile fsys s' key = Inr content"
    and "CheckWritable fsys H s' g' key = None"
    and "valid sp \<Longrightarrow> CheckEditable fsys H s' g' key sp = None"
proof -
  obtain k where "fsCanonical fsys s path = Inr k"
    and g': "g' = g\<lparr>reads := (reads g)(k \<mapsto> H content), ranges := (ranges g)(k := None)\<rparr>"
    and how: "(fsReadFile fsys s k = Inl ErrNotExist \<and>
            fsCreateExclusive fsys (env s) k content perm = (None, s')) \<or>
         (\<exists>cur. fsReadFile fsys s k = Inr cur \<and> reads g k = Some (H cur) \<and>
            fsWriteFileAtomic fsys (env s) k content perm = (None, s'))"
    using commit_created_or_replaced [OF ok] by metis
  then have k: "k = key" using key by simp
  have "fsReadFile fsys s' key = Inr content \<and> fsCanonical fsys s' key = Inr key"
    using how create_new [OF env] replace_ok [OF env] k by blast
  then show "fsReadFile fsys s' key = Inr content" "CheckWritable fsys H s' g' key = None"
    and "valid sp \<Longrightarrow> CheckEditable fsys H s' g' key sp = None"
    using g' k by (simp_all add: CheckWritable_def CheckEditable_def)
qed

lemma commit_concurrent_create:
  assumes "fsCanonical fsys s path = Inr key" and "fsReadFile fsys s key = Inl ErrNotExist"
    and "good (env s)" "fsCanonical fsys (env s) key = Inr key" "fsReadFile fsys (env s) key = Inr d"
  shows "CommitWrite fsys H env s g path content perm = (Some ErrConcurrentCreate, g, env s)"
  using assms create_existing by (simp add: CommitWrite_def Let_def)

lemma commit_refused:
  assumes no: "CommitWrite fsys H env s g path content perm = (Some err, g', s')"
    and refusal: "err \<in> {ErrNotRead, ErrStale, ErrConcurrentCreate}"
    and key: "fsCanonical fsys s path = Inr key"
    and env: "good (env s)" "fsCanonical fsys (env s) key = Inr key"
    and here: "err = ErrConcurrentCreate \<Longrightarrow> \<exists>d. fsReadFile fsys (env s) key = Inr d"
  shows "g' = g" and "s' = s \<or> s' = env s"
proof -
  show "g' = g"
    using no by (auto simp: CommitWrite_def Let_def split: sum.splits option.splits prod.splits if_splits)
  show "s' = s \<or> s' = env s"
    using no refusal key here create_existing [OF env]
    by (auto simp: CommitWrite_def Let_def split: sum.splits option.splits prod.splits if_splits)
qed

end

section \<open>OSFilesystem keeps the promises\<close>

definition OSFilesystem :: "osfs Filesystem" where
  "OSFilesystem = \<lparr>fsReadFile = ReadFile, fsCanonical = Canonical,
                    fsCreateExclusive = CreateExclusive, fsWriteFileAtomic = WriteFileAtomic\<rparr>"

lemma OSFilesystem_simps [simp]:
  "fsReadFile OSFilesystem = ReadFile" "fsCanonical OSFilesystem = Canonical"
  "fsCreateExclusive OSFilesystem = CreateExclusive" "fsWriteFileAtomic OSFilesystem = WriteFileAtomic"
  by (simp_all add: OSFilesystem_def)

text \<open>Lookups and reads do not fail for reasons of their own, and the staging names
  \<open>os.CreateTemp\<close> picks are unused.\<close>

definition good_osfs :: "osfs \<Rightarrow> bool" where
  "good_osfs fs \<longleftrightarrow>
     (\<forall>p. fault fs (SysLookup p) = None \<and> fault fs (SysRead p) = None) \<and>
     (\<forall>d. valid_name (temp_name fs d) \<and> temp_name fs d \<noteq> ''..'' \<and> nodes fs (d @ [temp_name fs d]) = None)"

lemma set_node_simps [simp]:
  "nodes (set_node fs p n) = (nodes fs)(p := n)" "fault (set_node fs p n) = fault fs"
  "getwd (set_node fs p n) = getwd fs" "written (set_node fs p n) = written fs"
  "temp_name (set_node fs p n) = temp_name fs"
  by (simp_all add: set_node_def)

lemma node_at_set_node_other [simp]: "q \<noteq> p \<Longrightarrow> node_at (set_node fs p n) q = node_at fs q"
  by (simp add: node_at_def split: option.split)

lemma realpath_set_node:
  "realpath fs d \<Longrightarrow> \<not> prefix q d \<Longrightarrow> realpath (set_node fs q n) d"
  unfolding realpath_def
proof (intro allI impI)
  fix p assume r: "\<forall>q. prefix q d \<longrightarrow> q \<noteq> [] \<longrightarrow>
      (\<exists>n. node_at fs q = Inr n \<and> \<not> is_symlink n \<and> (q \<noteq> d \<longrightarrow> n = Dir))"
    and nq: "\<not> prefix q d" and p: "prefix p d" "p \<noteq> []"
  have "p \<noteq> q" using nq p by auto
  then show "\<exists>m. node_at (set_node fs q n) p = Inr m \<and> \<not> is_symlink m \<and> (p \<noteq> d \<longrightarrow> m = Dir)"
    using r p by simp
qed

lemma split_slash_render: "valid_path p \<Longrightarrow> p \<noteq> [] \<Longrightarrow> split_slash (render p) = [] # p"
proof (induction p)
  case (Cons c p)
  show ?case
  proof (cases p)
    case Nil
    with Cons.prems show ?thesis by (simp add: render_Cons valid_name_def split_slash_word)
  next
    case (Cons d q)
    then have r: "render p = CHR ''/'' # tl (render p)" by (simp add: render_Cons)
    then have "split_slash (render p) = [] # split_slash (tl (render p))"
      by (metis split_slash.simps(2))
    then have t: "split_slash (tl (render p)) = p" using Cons.IH Cons.prems Cons by simp
    have "split_slash (render (c # p)) = [] # split_slash (c @ CHR ''/'' # tl (render p))"
      using Cons r by (simp add: render_Cons)
    also have "\<dots> = [] # c # p"
      using Cons.prems t by (simp add: split_slash_word_slash valid_name_def)
    finally show ?thesis .
  qed
qed simp

lemma kopen_render: "valid_path p \<Longrightarrow> p \<noteq> [] \<Longrightarrow> kopen fs (render p) = kwalk fs 40 [] p"
  by (simp add: kopen_def split_slash_render)

lemma kwalk_real_append:
  "realpath fs (cur @ d) \<Longrightarrow> node_at fs (cur @ d) = Inr Dir \<Longrightarrow> valid_path d \<Longrightarrow>
   kwalk fs h cur (d @ rest) = kwalk fs h (cur @ d) rest"
proof (induction d arbitrary: cur)
  case (Cons c d)
  have "node_at fs (cur @ [c]) = Inr Dir"
    using real_step [of fs cur c d] Cons.prems(1,2) by (cases d) auto
  then show ?case using Cons by (simp add: valid_name_def)
qed simp

lemma ReadFile_child:
  assumes "realpath fs d" "node_at fs d = Inr Dir" "valid_path (d @ [b])"
    and ns: "\<forall>n. node_at fs (d @ [b]) = Inr n \<longrightarrow> \<not> is_symlink n"
  shows "ReadFile fs (render (d @ [b])) =
     (case node_at fs (d @ [b]) of
        Inl e \<Rightarrow> Inl e
      | Inr (File c m) \<Rightarrow> (case fault fs (SysRead (d @ [b])) of Some e \<Rightarrow> Inl e | None \<Rightarrow> Inr c)
      | Inr _ \<Rightarrow> Inl ErrIsDir)"
proof -
  have "kopen fs (render (d @ [b])) = kwalk fs 40 d [b]"
    using kwalk_real_append [of fs "[]" d 40 "[b]"] assms by (simp add: kopen_render)
  then show ?thesis
    using assms(3) ns
    by (auto simp: ReadFile_def valid_name_def is_symlink_def split: sum.split fsnode.split)
qed

text \<open>A canonical path other than the root either names an entry of a real directory, or lies two
  or more levels below the last existing directory, where no system call succeeds.\<close>

lemma canonical_entry:
  assumes c: "is_canonical fs p" and ne: "p \<noteq> []"
  obtains (entry) d b where "p = d @ [b]" "realpath fs d" "node_at fs d = Inr Dir" "valid_path (d @ [b])"
      "\<forall>n. node_at fs (d @ [b]) = Inr n \<longrightarrow> \<not> is_symlink n"
    | (deep) "kwalk fs 40 [] p = Inl ErrNotExist" "kwalk fs 40 [] (butlast p) = Inl ErrNotExist"
proof -
  obtain r m where p: "p = r @ m" and rm: "resolved_at fs r m" using c by (auto simp: is_canonical_def)
  note rm' = rm [unfolded resolved_at_def]
  show thesis
  proof (cases m)
    case Nil
    then obtain d b where db: "p = d @ [b]" using p ne by (cases p rule: rev_cases) auto
    then have "realpath fs (d @ [b])" using rm' p Nil by simp
    then show thesis using db rm' p Nil by (intro entry [of d b]) (auto simp: real_snoc)
  next
    case (Cons x ms)
    show thesis
    proof (cases ms rule: rev_cases)
      case Nil
      then show thesis using rm' p Cons by (intro entry [of r x]) auto
    next
      case (snoc ys y)
      have x: "node_at fs (r @ [x]) = Inl ErrNotExist" "x \<noteq> []" "x \<noteq> ''.''" "x \<noteq> ''..''"
        using rm' Cons by (auto simp: valid_name_def)
      have "kwalk fs 40 [] (r @ x # rest) = Inl ErrNotExist" for rest
        using kwalk_real_append [of fs "[]" r 40 "x # rest"] rm' Cons x by simp
      then show thesis using p Cons snoc by (intro deep) (simp_all add: butlast_append)
    qed
  qed
qed

lemma dir_and_name_entry:
  assumes "realpath fs d" "node_at fs d = Inr Dir" "valid_path (d @ [b])"
  shows "dir_and_name fs (render (d @ [b])) = Inr (d, b)"
  using kwalk_real [of fs "[]" d 40] assms
  by (simp add: dir_and_name_def Let_def split_render valid_path_def)

lemma dir_and_name_deep:
  assumes "valid_path p" "p \<noteq> []" "kwalk fs 40 [] (butlast p) = Inl e"
  shows "dir_and_name fs (render p) = Inl e"
  using assms last_in_set [of p] by (auto simp: dir_and_name_def Let_def split_render valid_path_def)

lemma dir_and_name_root: "dir_and_name fs (render []) = Inl ErrIsDir"
  by (simp add: dir_and_name_def render_def splitPathComponents_def abs_path_def IsAbs_def)

lemma ReadFile_root: "ReadFile fs (render []) = Inl ErrIsDir"
  by (simp add: ReadFile_def kopen_def render_def abs_path_def IsAbs_def)

lemma ReadFile_deep:
  assumes "valid_path p" "p \<noteq> []" "kwalk fs 40 [] p = Inl e"
  shows "ReadFile fs (render p) = Inl e"
  using assms by (simp add: ReadFile_def kopen_render)

lemma is_canonical_entry:
  assumes "realpath fs d" "node_at fs d = Inr Dir" "valid_path (d @ [b])"
    and "node_at fs (d @ [b]) = Inr n \<and> \<not> is_symlink n \<or> node_at fs (d @ [b]) = Inl ErrNotExist"
  shows "is_canonical fs (d @ [b])"
  using assms(4)
proof
  assume "node_at fs (d @ [b]) = Inr n \<and> \<not> is_symlink n"
  then have "resolved_at fs (d @ [b]) []" using assms by (auto simp: resolved_at_def real_snoc)
  then show ?thesis unfolding is_canonical_def by (metis append_Nil2)
next
  assume "node_at fs (d @ [b]) = Inl ErrNotExist"
  then have "resolved_at fs d [b]" using assms by (simp add: resolved_at_def)
  then show ?thesis unfolding is_canonical_def by blast
qed

section \<open>Create and replace at a canonical path\<close>

lemma file_write_simps:
  "file_write fs p data mode = (e, fs') \<Longrightarrow>
     fault fs' = fault fs \<and> temp_name fs' = temp_name fs \<and>
     (\<forall>q. q \<noteq> p \<longrightarrow> nodes fs' q = nodes fs q) \<and>
     (e = None \<longrightarrow> nodes fs' p = Some (File data mode)) \<and>
     (\<exists>n. fs' = set_node fs p n)"
  by (auto simp: file_write_def split: option.splits)

lemma set_node_twice [simp]: "set_node (set_node fs p a) p b = set_node fs p b"
  by (simp add: set_node_def)

lemma CreateExclusive_entry:
  assumes d: "realpath fs d" "node_at fs d = Inr Dir" "valid_path (d @ [b])"
    and r: "CreateExclusive fs (render (d @ [b])) data perm = (e, fs')"
  shows "e = None \<Longrightarrow> node_at fs (d @ [b]) = Inl ErrNotExist \<and> fs' = set_node fs (d @ [b]) (Some (File data perm))"
    and "\<exists>n. fs' = fs \<or> fs' = set_node fs (d @ [b]) n"
  using r unfolding CreateExclusive_def dir_and_name_entry [OF d]
  by (auto simp: file_write_def Let_def split: sum.splits option.splits if_splits prod.splits)

lemma fillAndClose_shape:
  "fillAndClose fs t data mode = (e, fs') \<Longrightarrow>
     (\<exists>n. fs' = set_node fs t n) \<and> (e = None \<longrightarrow> fs' = set_node fs t (Some (File data mode)))"
  by (auto simp: fillAndClose_def file_write_def Let_def split: option.splits if_splits prod.splits)

text \<open>Every observable state of an atomic replace differs from the start at the staging name only,
  until the last one, which on success also holds the new content under the path.\<close>

lemma WriteFileAtomic_entry:
  assumes d: "realpath fs d" "node_at fs d = Inr Dir" "valid_path (d @ [b])"
    and w: "WriteFileAtomic_trace fs (render (d @ [b])) data perm = (e, tr)"
    and t: "t = d @ [temp_name fs d]"
  shows "tr \<noteq> []"
    and "e = None \<Longrightarrow> \<exists>mode tr'. tr = tr' @ [set_node (set_node fs t None)
             (d @ [b]) (Some (File data mode))] \<and> (\<forall>f \<in> set tr'. f = fs \<or> (\<exists>n. f = set_node fs t n))"
    and "e = Some err \<Longrightarrow> (\<forall>f \<in> set tr. f = fs \<or> (\<exists>n. f = set_node fs t n)) \<and>
             (last tr = fs \<or> last tr = set_node fs t None)"
  using w unfolding WriteFileAtomic_trace_def dir_and_name_entry [OF d] t [symmetric]
  by (auto simp: Let_def t [symmetric] dest!: fillAndClose_shape
        split: option.splits if_splits prod.splits fsnode.splits)

lemma good_no_faults: "good_osfs fs \<Longrightarrow> node_at fs p =
    (if p = [] then Inr Dir else case nodes fs p of None \<Rightarrow> Inl ErrNotExist | Some n \<Rightarrow> Inr n)"
  by (simp add: node_at_def good_osfs_def)

lemma good_set_node_unused [simp]:
  "good_osfs fs \<Longrightarrow> set_node fs (d @ [temp_name fs d]) None = fs"
  by (simp add: set_node_def good_osfs_def fun_upd_idem)

lemma node_at_set_node_same [simp]:
  "good_osfs fs \<Longrightarrow> p \<noteq> [] \<Longrightarrow> node_at (set_node fs p (Some n)) p = Inr n"
  by (simp add: node_at_def good_osfs_def)

lemma set_node_entry:
  fixes c :: string and m :: nat
  assumes "good_osfs fs" "realpath fs d" "node_at fs d = Inr Dir" "valid_path (d @ [b])"
  defines "fs' \<equiv> set_node fs (d @ [b]) (Some (File c m))"
  shows "ReadFile fs' (render (d @ [b])) = Inr c" and "Canonical fs' (render (d @ [b])) = Inr (render (d @ [b]))"
proof -
  have r: "realpath fs' d" unfolding fs'_def by (rule realpath_set_node [OF assms(2)]) simp
  have nd: "node_at fs' d = Inr Dir" using assms(3) unfolding fs'_def by simp
  have nf: "node_at fs' (d @ [b]) = Inr (File c m)" using assms(1) unfolding fs'_def by simp
  have fr: "fault fs' (SysRead (d @ [b])) = None" using assms(1) unfolding fs'_def by (simp add: good_osfs_def)
  show "ReadFile fs' (render (d @ [b])) = Inr c"
    using ReadFile_child [OF r nd assms(4)] nf fr by (simp add: is_symlink_def)
  have "is_canonical fs' (d @ [b])"
    by (rule is_canonical_entry [OF r nd assms(4), of "File c m"]) (use nf in \<open>simp add: is_symlink_def\<close>)
  then show "Canonical fs' (render (d @ [b])) = Inr (render (d @ [b]))" by (rule Canonical_render)
qed

lemma WriteFileAtomic_good:
  assumes g: "good_osfs fs" and d: "realpath fs d" "node_at fs d = Inr Dir" "valid_path (d @ [b])"
    and w: "WriteFileAtomic fs (render (d @ [b])) data perm = (e, fs')"
  shows "e = None \<Longrightarrow> \<exists>m. fs' = set_node fs (d @ [b]) (Some (File data m))"
    and "e = Some err \<Longrightarrow> fs' = fs"
proof -
  obtain tr where t: "WriteFileAtomic_trace fs (render (d @ [b])) data perm = (e, tr)" "fs' = last tr"
    using w by (auto simp: WriteFileAtomic_def split: prod.splits)
  note E = WriteFileAtomic_entry [OF d t(1) refl]
  show "\<exists>m. fs' = set_node fs (d @ [b]) (Some (File data m))" if "e = None"
    using E(2) [OF that] t(2) g by auto
  show "fs' = fs" if "e = Some err"
    using E(3) [OF that] t(2) g by auto
qed

lemma canonical_key:
  assumes "Canonical fs k = Inr k"
  obtains (root) "k = render []"
    | (entry) d b where "k = render (d @ [b])" "realpath fs d" "node_at fs d = Inr Dir" "valid_path (d @ [b])"
        "\<forall>n. node_at fs (d @ [b]) = Inr n \<longrightarrow> \<not> is_symlink n"
    | (deep) p where "k = render p" "valid_path p" "p \<noteq> []"
        "kwalk fs 40 [] p = Inl ErrNotExist" "kwalk fs 40 [] (butlast p) = Inl ErrNotExist"
proof -
  obtain p where p: "k = render p" and c: "is_canonical fs p" using Canonical_cases [OF assms] .
  show thesis
  proof (cases "p = []")
    case True
    with p show thesis by (intro root) simp
  next
    case False
    show thesis
      using canonical_entry [OF c False] entry deep p is_canonical_valid [OF c] False by metis
  qed
qed

interpretation os: filesystem_seam OSFilesystem good_osfs
proof (unfold_locales, unfold OSFilesystem_simps)
  fix s p k assume "Canonical s p = Inr k"
  then show "Canonical s k = Inr k" by (metis Canonical_cases Canonical_render)
next
  fix s k c m s'
  assume g: "good_osfs s" and k: "Canonical s k = Inr k" and r: "CreateExclusive s k c m = (None, s')"
  show "ReadFile s k = Inl ErrNotExist \<and> ReadFile s' k = Inr c \<and> Canonical s' k = Inr k"
    using k
  proof (cases rule: canonical_key)
    case root
    with r show ?thesis by (simp add: CreateExclusive_def dir_and_name_root)
  next
    case (entry d b)
    note d = entry(2-4)
    have n: "node_at s (d @ [b]) = Inl ErrNotExist" and s': "s' = set_node s (d @ [b]) (Some (File c m))"
      using CreateExclusive_entry(1) [OF d r [unfolded entry(1)]] by auto
    show ?thesis unfolding s' entry(1) using set_node_entry [OF g d] ReadFile_child [OF d] n by simp
  next
    case (deep p)
    with r show ?thesis by (simp add: CreateExclusive_def dir_and_name_deep)
  qed
next
  fix s k d' c m
  assume g: "good_osfs s" and k: "Canonical s k = Inr k" and r: "ReadFile s k = Inr d'"
  show "CreateExclusive s k c m = (Some ErrExist, s)"
    using k
  proof (cases rule: canonical_key)
    case root
    with r show ?thesis by (simp add: ReadFile_root)
  next
    case (entry d b)
    note d = entry(2-4)
    obtain n where "node_at s (d @ [b]) = Inr n"
      using ReadFile_child [OF d entry(5)] r entry(1) by (auto split: sum.splits)
    then show ?thesis unfolding entry(1) by (simp add: CreateExclusive_def dir_and_name_entry [OF d])
  next
    case (deep p)
    with r show ?thesis by (simp add: ReadFile_deep)
  qed
next
  fix s k c m s'
  assume g: "good_osfs s" and k: "Canonical s k = Inr k" and r: "WriteFileAtomic s k c m = (None, s')"
  show "ReadFile s' k = Inr c \<and> Canonical s' k = Inr k"
    using k
  proof (cases rule: canonical_key)
    case root
    with r show ?thesis
      by (simp add: WriteFileAtomic_def WriteFileAtomic_trace_def dir_and_name_root Let_def split: prod.splits)
  next
    case (entry d b)
    note d = entry(2-4)
    show ?thesis
      using WriteFileAtomic_good(1) [OF g d r [unfolded entry(1)]] set_node_entry [OF g d] entry(1) by auto
  next
    case (deep p)
    with r show ?thesis
      by (simp add: WriteFileAtomic_def WriteFileAtomic_trace_def dir_and_name_deep Let_def split: prod.splits)
  qed
next
  fix s k c m e s'
  assume g: "good_osfs s" and k: "Canonical s k = Inr k" and r: "WriteFileAtomic s k c m = (Some e, s')"
  show "ReadFile s' k = ReadFile s k"
    using k
  proof (cases rule: canonical_key)
    case root
    with r show ?thesis
      by (simp add: WriteFileAtomic_def WriteFileAtomic_trace_def dir_and_name_root Let_def split: prod.splits)
  next
    case (entry d b)
    then show ?thesis using WriteFileAtomic_good(2) [OF g entry(2-4) r [unfolded entry(1)]] by simp
  next
    case (deep p)
    with r show ?thesis
      by (simp add: WriteFileAtomic_def WriteFileAtomic_trace_def dir_and_name_deep Let_def split: prod.splits)
  qed
qed

end
