(* ===== verification/GoValue.thy ===== *)
theory GoValue
  imports Prelude
begin

text \<open>
  Go's dynamically typed values as the program uses them: the \<open>any\<close> of tool arguments and
  results, the retrieved documents that travel inside it, maps from strings to \<open>any\<close>, and errors
  with the chain of sentinels that \<open>errors.Is\<close> finds in them.
\<close>

section \<open>Values\<close>

text \<open>
  \<open>VNumber\<close> holds a number as its JSON text.  \<open>VStringer\<close> is a value with a \<open>String\<close> method.
  \<open>VOpaque j p\<close> is any other value: \<open>j\<close> is its JSON encoding, \<open>None\<close> when \<open>json.Marshal\<close> refuses
  it, and \<open>p\<close> is what \<open>fmt.Sprint\<close> prints.
\<close>

datatype goany =
    VNil
  | VBool bool
  | VNumber string
  | VString string
  | VBytes string
  | VStringer string
  | VList "goany list"
  | VMap "(string \<times> goany) list"
  | VDocuments "document list"
  | VOpaque "string option" string
and document = Document (docContent: string) (docSource: string) (docScore: rat)
    (docMetadata: "(string \<times> goany) list option")

text \<open>A \<open>map[string]any\<close>; \<open>None\<close> is the nil map.  Keys are distinct and their order is immaterial.\<close>

type_synonym gomap = "(string \<times> goany) list option"

definition map_get :: "gomap \<Rightarrow> string \<Rightarrow> goany option" where
  "map_get m k = (case m of None \<Rightarrow> None | Some kvs \<Rightarrow> map_of kvs k)"

text \<open>The type assertion \<open>m[k].(string)\<close>.\<close>

definition get_string :: "gomap \<Rightarrow> string \<Rightarrow> string option" where
  "get_string m k = (case map_get m k of Some (VString s) \<Rightarrow> Some s | _ \<Rightarrow> None)"

definition map_len :: "gomap \<Rightarrow> nat" where
  "map_len m = (case m of None \<Rightarrow> 0 | Some kvs \<Rightarrow> length kvs)"

lemma get_string_nil [simp]: "get_string None k = None"
  by (simp add: get_string_def map_get_def)

section \<open>Errors\<close>

datatype sentinel = SToolPanicked | SDeadlineExceeded | SCanceled | SOther nat

text \<open>An error is its message and the sentinels of its chain.\<close>

datatype goerr = GoErr (err_msg: string) (err_chain: "sentinel list")

definition err_is :: "goerr \<Rightarrow> sentinel \<Rightarrow> bool" where
  "err_is e s \<longleftrightarrow> s \<in> set (err_chain e)"

definition new_error :: "string \<Rightarrow> goerr" where
  "new_error msg = GoErr msg []"

text \<open>\<open>fmt.Errorf("<prefix>%w", err)\<close>: the message is prefixed, the chain is kept.\<close>

definition wrap_error :: "string \<Rightarrow> goerr \<Rightarrow> goerr" where
  "wrap_error pre e = GoErr (pre @ err_msg e) (err_chain e)"

lemma err_is_wrap [simp]: "err_is (wrap_error pre e) s = err_is e s"
  by (simp add: err_is_def wrap_error_def)

lemma err_is_new [simp]: "\<not> err_is (new_error m) s"
  by (simp add: err_is_def new_error_def)

lemma err_msg_simps [simp]:
  "err_msg (new_error m) = m" "err_msg (wrap_error pre e) = pre @ err_msg e"
  by (simp_all add: new_error_def wrap_error_def)

end
