(* ===== verification/FileTools.thy ===== *)
theory FileTools
  imports FsSeam GoValue
begin

text \<open>
  The workspace bound of \<open>pkg/tools/pathscope\<close> and the \<open>read_file\<close> / \<open>write_file\<close> tools of
  \<open>pkg/tools/file\<close>, with the confinement theorem: whatever a scoped \<open>write_file\<close> is asked to do, the
  only file tree entry it can change lies inside the workspace.
\<close>

section \<open>Scope\<close>

datatype scope_error = ErrOutsideWorkspace | ScopeFsError fs_error

record Scope =
  root :: string

definition ScopeNew :: "('s \<Rightarrow> string \<Rightarrow> fs_error + string) \<Rightarrow> 's \<Rightarrow> string \<Rightarrow> fs_error + Scope" where
  "ScopeNew canon s r = (case canon s r of Inl e \<Rightarrow> Inl e | Inr c \<Rightarrow> Inr \<lparr>root = c\<rparr>)"

definition Check :: "('s \<Rightarrow> string \<Rightarrow> fs_error + string) \<Rightarrow> 's \<Rightarrow> Scope \<Rightarrow> string \<Rightarrow> scope_error option" where
  "Check canon s sc path =
     (case canon s path of
        Inl e \<Rightarrow> Some (ScopeFsError e)
      | Inr resolved \<Rightarrow>
          (if resolved = root sc then None
           else (let pre = (if \<not> suffix ''/'' (root sc) then root sc @ ''/'' else root sc) in
                 if prefix pre resolved then None else Some ErrOutsideWorkspace)))"

context canonicalizer
begin

text \<open>The scope approves the resolved path whenever it approves the path: what is checked is what
  the guard later writes.\<close>

lemma Check_resolved:
  "good s \<Longrightarrow> canon s path = Inr k \<Longrightarrow> Check canon s sc path = Check canon s sc k"
  by (simp add: Check_def canonical_fixed)

end

lemma Check_within:
  assumes "Check Canonical fs \<lparr>root = render rp\<rparr> path = None" and "valid_path rp"
  obtains p where "Canonical fs path = Inr (render p)" "is_canonical fs p" "prefix rp p"
proof -
  obtain k where k: "Canonical fs path = Inr k"
    and w: "k = render rp \<or> prefix (with_separator (render rp)) k"
    using assms(1) by (auto simp: Check_def Let_def with_separator_def split: sum.splits if_splits)
  obtain p where p: "k = render p" "is_canonical fs p" using Canonical_cases [OF k] .
  have "prefix rp p" using prefix_with_separator [OF assms(2) is_canonical_valid [OF p(2)]] w p(1) by simp
  with k p show thesis using that by simp
qed

section \<open>The tools\<close>

record Tools =
  guard :: Guard
  scope :: "Scope option"

definition ToolsNew :: Tools where
  "ToolsNew = \<lparr>guard = New, scope = None\<rparr>"

definition NewOSInWorkspace :: "osfs \<Rightarrow> string \<Rightarrow> fs_error + Tools" where
  "NewOSInWorkspace fs r =
     (case ScopeNew Canonical fs r of Inl e \<Rightarrow> Inl e | Inr sc \<Rightarrow> Inr (ToolsNew\<lparr>scope := Some sc\<rparr>))"

definition checkScope :: "'s Filesystem \<Rightarrow> 's \<Rightarrow> Tools \<Rightarrow> string \<Rightarrow> scope_error option" where
  "checkScope fsys s t path =
     (case scope t of None \<Rightarrow> None | Some sc \<Rightarrow> Check (fsCanonical fsys) s sc path)"

datatype file_tool_error =
    ArgRequired string | ScopeRefused scope_error | ReadFailed fs_error | GuardRefused guard_error

definition defaultPerm :: nat where
  "defaultPerm = 420"  \<comment> \<open>\<open>0o644\<close>\<close>

definition ReadExecute :: "'s Filesystem \<Rightarrow> (string \<Rightarrow> string) \<Rightarrow> 's \<Rightarrow> Tools \<Rightarrow> gomap
    \<Rightarrow> (file_tool_error + goany) \<times> Tools" where
  "ReadExecute fsys H s t args =
     (case get_string args ''path'' of
        None \<Rightarrow> (Inl (ArgRequired ''path''), t)
      | Some path \<Rightarrow>
          (if path = [] then (Inl (ArgRequired ''path''), t)
           else case checkScope fsys s t path of
             Some e \<Rightarrow> (Inl (ScopeRefused e), t)
           | None \<Rightarrow>
               (case fsReadFile fsys s path of
                  Inl e \<Rightarrow> (Inl (ReadFailed e), t)
                | Inr content \<Rightarrow>
                    (case MarkRead fsys H s (guard t) path content of
                       (Some e, g) \<Rightarrow> (Inl (GuardRefused e), t\<lparr>guard := g\<rparr>)
                     | (None, g) \<Rightarrow> (Inr (VString content), t\<lparr>guard := g\<rparr>)))))"

definition WriteExecute :: "'s Filesystem \<Rightarrow> (string \<Rightarrow> string) \<Rightarrow> ('s \<Rightarrow> 's) \<Rightarrow> 's \<Rightarrow> Tools \<Rightarrow> gomap
    \<Rightarrow> (file_tool_error + goany) \<times> Tools \<times> 's" where
  "WriteExecute fsys H env s t args =
     (case get_string args ''path'' of
        None \<Rightarrow> (Inl (ArgRequired ''path''), t, s)
      | Some path \<Rightarrow>
          (if path = [] then (Inl (ArgRequired ''path''), t, s)
           else case get_string args ''content'' of
             None \<Rightarrow> (Inl (ArgRequired ''content''), t, s)
           | Some content \<Rightarrow>
               (case checkScope fsys s t path of
                  Some e \<Rightarrow> (Inl (ScopeRefused e), t, s)
                | None \<Rightarrow>
                    (case CommitWrite fsys H env s (guard t) path content defaultPerm of
                       (Some e, g, s') \<Rightarrow> (Inl (GuardRefused e), t\<lparr>guard := g\<rparr>, s')
                     | (None, g, s') \<Rightarrow>
                         (Inr (VMap [(''path'', VString path),
                                     (''bytes'', VNumber (nat_to_str (length content)))]),
                          t\<lparr>guard := g\<rparr>, s')))))"

section \<open>Confinement\<close>

lemma CommitWrite_frame:
  assumes g: "good_osfs fs" and k: "Canonical fs path = Inr (render p)" and c: "is_canonical fs p"
    and w: "CommitWrite OSFilesystem H id fs gd path content perm = (r, gd', fs')"
    and q: "q \<noteq> p"
  shows "nodes fs' q = nodes fs q"
proof -
  have fx: "Canonical fs (render p) = Inr (render p)" using c by (rule Canonical_render)
  show ?thesis
    using fx
  proof (cases rule: canonical_key)
    case root
    then show ?thesis using w k by (auto simp: CommitWrite_def Let_def ReadFile_root)
  next
    case (entry d b)
    then have p: "p = d @ [b]" using render_inj is_canonical_valid [OF c] by blast
    note d = entry(2-4)
    have cr: "nodes fs2 q = nodes fs q" if "CreateExclusive fs (render p) content perm = (e, fs2)" for e fs2
      using CreateExclusive_entry(2) [OF d that [unfolded p]] q p by auto
    have wr: "nodes fs2 q = nodes fs q" if "WriteFileAtomic fs (render p) content perm = (e, fs2)" for e fs2
      using WriteFileAtomic_good [OF g d that [unfolded p]] q p by (cases e) auto
    show ?thesis
      using w k cr wr
      by (auto simp: CommitWrite_def Let_def split: sum.splits option.splits prod.splits if_splits)
  next
    case (deep p')
    then have "CreateExclusive fs (render p) content perm = (Some ErrNotExist, fs)"
      by (simp add: CreateExclusive_def dir_and_name_deep)
    then show ?thesis using w k deep
      by (auto simp: CommitWrite_def Let_def ReadFile_deep split: if_splits)
  qed
qed

lemma WriteExecute_frame:
  assumes g: "good_osfs fs" and sc: "scope t = Some \<lparr>root = render rp\<rparr>" "valid_path rp"
    and w: "WriteExecute OSFilesystem H id fs t args = (r, t', fs')"
    and q: "\<not> prefix rp q"
  shows "nodes fs' q = nodes fs q"
proof (cases "fs' = fs")
  case False
  then obtain path content e gd where
      ck: "Check Canonical fs \<lparr>root = render rp\<rparr> path = None"
    and cw: "CommitWrite OSFilesystem H id fs (guard t) path content defaultPerm = (e, gd, fs')"
    using w sc(1)
    by (auto simp: WriteExecute_def checkScope_def split: option.splits if_splits prod.splits)
  obtain p where p: "Canonical fs path = Inr (render p)" "is_canonical fs p" "prefix rp p"
    using Check_within [OF ck sc(2)] .
  then have "q \<noteq> p" using q by auto
  then show ?thesis by (rule CommitWrite_frame [OF g p(1,2) cw])
qed simp

lemma ReadExecute_within:
  assumes sc: "scope t = Some \<lparr>root = render rp\<rparr>" "valid_path rp"
    and nf: "\<And>q. fault fs (SysReadlink q) = None"
    and r: "ReadExecute OSFilesystem H fs t args = (Inr (VString c), t')"
  shows "\<exists>p m. prefix rp p \<and> node_at fs p = Inr (File c m)"
proof -
  obtain path where
      ck: "Check Canonical fs \<lparr>root = render rp\<rparr> path = None" and rd: "ReadFile fs path = Inr c"
    using r sc(1)
    by (auto simp: ReadExecute_def checkScope_def split: option.splits if_splits prod.splits sum.splits)
  obtain p where p: "Canonical fs path = Inr (render p)" "is_canonical fs p" "prefix rp p"
    using Check_within [OF ck sc(2)] .
  obtain q m where q: "kopen fs path = Inr q" "node_at fs q = Inr (File c m)"
    using rd by (auto simp: ReadFile_def split: sum.splits fsnode.splits option.splits)
  have "Canonical fs path = Inr (render q)" and cq: "is_canonical fs q"
    using Canonical_kernel [OF q(1) nf] by auto
  then have "render q = render p" using p(1) by simp
  then have "q = p" using render_inj is_canonical_valid cq p(2) by blast
  with p(3) q(2) show ?thesis by blast
qed

end
