(* ===== verification/FileGuardProps.thy ===== *)
theory FileGuardProps
  imports FileTools
begin

text \<open>
  What the file guard, the canonical paths and the workspace bound guarantee, stated over the
  definitions of \<open>pkg/tools/fsguard\<close>, \<open>pkg/tools/pathscope\<close> and \<open>pkg/tools/file\<close>, each with an
  instance on a small concrete file tree.
\<close>

section \<open>A concrete file tree\<close>

text \<open>\<open>/w/a\<close> is a file, \<open>/w/l\<close> a symbolic link to \<open>a\<close>, \<open>/s\<close> a file outside the workspace.\<close>

definition demo_fs :: osfs where
  "demo_fs = \<lparr>nodes = [[''w''] \<mapsto> Dir, [''w'', ''a''] \<mapsto> File ''old'' 384, [''w'', ''l''] \<mapsto> Symlink ''a'',
                       [''s''] \<mapsto> File ''x'' 420],
              getwd = Inr ''/w'', fault = (\<lambda>_. None), written = (\<lambda>_. 0), temp_name = (\<lambda>_. ''.t'')\<rparr>"

lemma demo_good: "good_osfs demo_fs"
  by (simp add: good_osfs_def demo_fs_def valid_name_def)

lemma demo_nodes [simp]:
  "node_at demo_fs [''w''] = Inr Dir" "node_at demo_fs [''w'', ''a''] = Inr (File ''old'' 384)"
  "node_at demo_fs [''w'', ''l''] = Inr (Symlink ''a'')" "node_at demo_fs [''w'', ''n''] = Inl ErrNotExist"
  "getwd demo_fs = Inr ''/w''" "fault demo_fs x = None"
  by (simp_all add: node_at_def demo_fs_def)

lemmas demo_paths = Canonical_def resolveSymlinkAware_def abs_path_def IsAbs_def Lstat_def Readlink_def
  splitPathComponents_def is_symlink_def maxSymlinkHops_def render_def ReadFile_def kopen_def

lemma demo_canonical [simp]:
  "Canonical demo_fs ''l'' = Inr ''/w/a''" "Canonical demo_fs ''/w/a'' = Inr ''/w/a''"
  "Canonical demo_fs ''../w/l'' = Inr ''/w/a''" "Canonical demo_fs ''n'' = Inr ''/w/n''"
  "Canonical demo_fs ''/w/n'' = Inr ''/w/n''"
  by (simp_all add: demo_paths)

lemma demo_read [simp]:
  "ReadFile demo_fs ''/w/a'' = Inr ''old''" "ReadFile demo_fs ''l'' = Inr ''old''"
  "ReadFile demo_fs ''/w/n'' = Inl ErrNotExist"
  by (simp_all add: demo_paths)

lemma demo_kopen [simp]: "kopen demo_fs ''../w/l'' = Inr [''w'', ''a'']"
  by (simp add: demo_paths)


text \<open>The tree after \<open>/w/n\<close> was created in it.\<close>

definition demo_out :: osfs where
  "demo_out = set_node demo_fs [''w'', ''n''] (Some (File ''new'' 420))"

lemma demo_commit:
  "CommitWrite OSFilesystem id id demo_fs New ''n'' ''new'' 420
     = (None, New\<lparr>reads := [''/w/n'' \<mapsto> ''new'']\<rparr>, demo_out)"
  by (simp add: CommitWrite_def Let_def CreateExclusive_def dir_and_name_def abs_path_def IsAbs_def
        splitPathComponents_def file_write_def demo_out_def New_def)

lemma demo_out_facts:
  "good_osfs demo_out" "Canonical demo_out ''/w/n'' = Inr ''/w/n''" "ReadFile demo_out ''/w/n'' = Inr ''new''"
proof -
  have r: "realpath demo_fs [''w'']" using real_snoc [of demo_fs "[]" "''w''"] by (simp add: is_symlink_def)
  have v: "valid_path ([''w''] @ [''n''])" by (simp add: valid_name_def)
  have k: "render ([''w''] @ [''n'']) = ''/w/n''" by (simp add: render_def)
  show "Canonical demo_out ''/w/n'' = Inr ''/w/n''" "ReadFile demo_out ''/w/n'' = Inr ''new''"
    using set_node_entry [OF demo_good r _ v, of "''new''" 420] k by (simp_all add: demo_out_def)
  show "good_osfs demo_out" by (simp add: good_osfs_def demo_out_def demo_fs_def set_node_def valid_name_def)
qed

section \<open>The guard\<close>



text \<open>Merging recorded line ranges keeps them canonical: the result is sorted, pairwise disjoint and
  never adjacent, it covers exactly the lines of both inputs, and a valid span lies inside one range of
  it exactly when every line of the span was recorded.\<close>

theorem mergeRanges_canonical:
  assumes "\<forall>r \<in> set (a @ b). bounded r" and "valid sp"
  shows "canonical_ranges (mergeRanges a b) \<and> lines_of (mergeRanges a b) = lines_of a \<union> lines_of b
    \<and> (covered_by (mergeRanges a b) sp \<longleftrightarrow> {Start sp..End sp} \<subseteq> lines_of a \<union> lines_of b)"
  using mergeRanges_spec [of a b] covered_by_iff [OF _ assms(2)] assms(1) by simp

lemma mergeRanges_canonical_witness:
  "covered_by (mergeRanges [\<lparr>Start = 1, End = 3\<rparr>] [\<lparr>Start = 4, End = 6\<rparr>]) \<lparr>Start = 2, End = 5\<rparr>"
proof -
  have "{2..5} \<subseteq> ({1..3} \<union> {4..6} :: int set)" by auto
  then show ?thesis
    using mergeRanges_canonical [of "[\<lparr>Start = 1, End = 3\<rparr>]" "[\<lparr>Start = 4, End = 6\<rparr>]" "\<lparr>Start = 2, End = 5\<rparr>"]
    by (simp add: bounded_def valid_def)
qed

text \<open>C33. A committed write took effect under the canonical path of the request: reading it back gives
  the written content, and the guard now lets the caller write it again and edit any span of it.  Other
  processes may have changed the files between the guard's check and its write, as long as the
  canonical path still resolves to itself.\<close>

theorem commit_write_effective:
  assumes "CommitWrite OSFilesystem H env fs g path content perm = (None, g', fs')"
    and "Canonical fs path = Inr key"
    and "good_osfs (env fs)" and "Canonical (env fs) key = Inr key"
  shows "ReadFile fs' key = Inr content \<and> CheckWritable OSFilesystem H fs' g' key = None
    \<and> (valid sp \<longrightarrow> CheckEditable OSFilesystem H fs' g' key sp = None)"
  using os.commit_success [OF assms(1)] assms(2-4) by simp

lemma commit_write_effective_witness:
  "ReadFile demo_out ''/w/n'' = Inr ''new'' \<and>
   CheckWritable OSFilesystem id demo_out (New\<lparr>reads := [''/w/n'' \<mapsto> ''new'']\<rparr>) ''/w/n'' = None \<and>
   CheckEditable OSFilesystem id demo_out (New\<lparr>reads := [''/w/n'' \<mapsto> ''new'']\<rparr>) ''/w/n''
     \<lparr>Start = 1, End = 1\<rparr> = None"
  using commit_write_effective [OF demo_commit, of "''/w/n''" "\<lparr>Start = 1, End = 1\<rparr>"] demo_good
  by (simp add: valid_def)

text \<open>A file that another process creates between the guard's check and its write is never
  overwritten: the commit is refused, and neither the guard nor any file changes.\<close>

theorem commit_write_no_clobber:
  assumes "Canonical fs path = Inr key" and "ReadFile fs key = Inl ErrNotExist"
    and "good_osfs (env fs)" and "Canonical (env fs) key = Inr key" and "ReadFile (env fs) key = Inr other"
  shows "CommitWrite OSFilesystem H env fs g path content perm = (Some ErrConcurrentCreate, g, env fs)"
  using os.commit_concurrent_create [of fs path key env] assms by simp

lemma commit_write_no_clobber_witness:
  "CommitWrite OSFilesystem id (\<lambda>_. demo_out) demo_fs New ''n'' ''mine'' 420
     = (Some ErrConcurrentCreate, New, demo_out)"
  by (rule commit_write_no_clobber [where key = "''/w/n''" and other = "''new''"])
     (simp_all add: demo_out_facts)

section \<open>Canonical paths\<close>

text \<open>A canonical path is absolute, without \<open>..\<close> components and without a symbolic link on the way,
  and resolving it again gives the same path, so two spellings of one file share one guard key.\<close>

theorem canonical_resolves:
  assumes "Canonical fs path = Inr k"
  shows "\<exists>p. k = render p \<and> is_canonical fs p \<and> valid_path p \<and> Canonical fs k = Inr k"
  by (rule Canonical_cases [OF assms]) (use Canonical_render is_canonical_valid in blast)

lemma canonical_resolves_witness:
  "\<exists>p. ''/w/a'' = render p \<and> is_canonical demo_fs p \<and> valid_path p \<and> Canonical demo_fs ''/w/a'' = Inr ''/w/a''"
  by (rule canonical_resolves [of demo_fs "''l''"]) simp

text \<open>C34. The symlink-aware walk of \<open>Canonical\<close> agrees with the kernel: when the kernel can open a path,
  at whatever location it reaches through symbolic links and \<open>..\<close>, \<open>Canonical\<close> names exactly that
  location.\<close>

theorem canonical_agrees_with_kernel:
  assumes "kopen fs path = Inr p" and "\<And>q. fault fs (SysReadlink q) = None"
  shows "Canonical fs path = Inr (render p) \<and> is_canonical fs p"
  using assms by (rule Canonical_kernel)

lemma canonical_agrees_with_kernel_witness:
  "Canonical demo_fs ''../w/l'' = Inr (render [''w'', ''a'']) \<and> is_canonical demo_fs [''w'', ''a'']"
  by (rule canonical_agrees_with_kernel) simp_all

text \<open>C35. Replacing a file is atomic for readers: in every file tree that other processes can observe
  while \<open>WriteFileAtomic\<close> runs, whatever step of it fails, the path reads either the old content or the
  new content in full, and after a failure it still reads the old one.\<close>

theorem write_file_atomic:
  assumes g: "good_osfs fs" and k: "Canonical fs k = Inr k" and old: "ReadFile fs k = Inr c0"
    and w: "WriteFileAtomic_trace fs k data perm = (e, tr)"
  shows "(\<forall>f \<in> set tr. ReadFile f k = Inr c0 \<or> ReadFile f k = Inr data)
    \<and> ReadFile (last tr) k = Inr (if e = None then data else c0)"
  using k
proof (cases rule: canonical_key)
  case (entry d b)
  note d = entry(2-4) and k = entry(1)
  define t where "t = d @ [temp_name fs d]"
  have ns: "nodes fs t = None" using g by (simp add: good_osfs_def t_def)
  have ex: "node_at fs (d @ [b]) \<noteq> Inl ErrNotExist"
    using ReadFile_child [OF d entry(5)] old k by auto
  then have ne: "t \<noteq> d @ [b]" using ns g by (auto simp: good_no_faults)
  have keep: "ReadFile (set_node fs t n) k = Inr c0" for n
    using ReadFile_child [of "set_node fs t n" d b] ReadFile_child [OF d entry(5)] d entry(5) ne old k
      realpath_set_node [OF d(1), of t n]
    by (simp add: t_def split: sum.splits fsnode.splits)
  have new: "ReadFile (set_node (set_node fs t None) (d @ [b]) (Some (File data m))) k = Inr data" for m
    using set_node_entry(1) [OF g d] g k by (simp add: t_def)
  note E = WriteFileAtomic_entry [OF d w [unfolded k] t_def]
  have reads_old: "f = fs \<or> (\<exists>n. f = set_node fs t n) \<Longrightarrow> ReadFile f k = Inr c0" for f
    using keep old by auto
  show ?thesis
  proof (cases e)
    case None
    then obtain m tr' where tr: "tr = tr' @ [set_node (set_node fs t None) (d @ [b]) (Some (File data m))]"
        and "\<forall>f \<in> set tr'. f = fs \<or> (\<exists>n. f = set_node fs t n)"
      using E(2) by blast
    then have "\<forall>f \<in> set tr'. ReadFile f k = Inr c0" using reads_old by blast
    then show ?thesis using None tr new by auto
  next
    case (Some err)
    have "\<forall>f \<in> set tr. ReadFile f k = Inr c0" using E(3) [OF Some] reads_old by blast
    then show ?thesis using Some E(1) by simp
  qed
qed (use old in \<open>auto simp: ReadFile_root ReadFile_deep\<close>)

lemma write_file_atomic_witness:
  "ReadFile (last (snd (WriteFileAtomic_trace demo_fs ''/w/a'' ''new'' 420))) ''/w/a''
     = Inr (if fst (WriteFileAtomic_trace demo_fs ''/w/a'' ''new'' 420) = None then ''new'' else ''old'')"
  using write_file_atomic [OF demo_good, of "''/w/a''" "''old''" "''new''" 420
      "fst (WriteFileAtomic_trace demo_fs ''/w/a'' ''new'' 420)"]
  by simp

section \<open>The workspace bound\<close>

text \<open>C36. A \<open>write_file\<close> tool scoped to a workspace changes nothing outside it: whatever the model
  passes as arguments (relative paths, \<open>..\<close>, symbolic links leading out, sibling directories sharing a
  name prefix), every entry of the file tree that is not below the workspace root stays as it was.\<close>

theorem scoped_write_confined:
  assumes "good_osfs fs" and "scope t = Some \<lparr>root = render rp\<rparr>" and "valid_path rp"
    and "\<not> prefix rp q"
  shows "nodes (snd (snd (WriteExecute OSFilesystem H id fs t args))) q = nodes fs q"
  using WriteExecute_frame [OF assms(1-3) _ assms(4)]
  by (cases "WriteExecute OSFilesystem H id fs t args") force

lemma scoped_write_confined_witness:
  "nodes (snd (snd (WriteExecute OSFilesystem id id demo_fs \<lparr>guard = New, scope = Some \<lparr>root = ''/w''\<rparr>\<rparr>
      (Some [(''path'', VString ''../s''), (''content'', VString ''y'')])))) [''s'']
   = nodes demo_fs [''s'']"
  by (rule scoped_write_confined [OF demo_good, where rp = "[''w'']"])
     (simp_all add: render_def valid_name_def)

text \<open>A \<open>read_file\<close> tool scoped to a workspace only ever returns the content of a file that lies
  below the workspace root.\<close>

theorem scoped_read_confined:
  assumes "scope t = Some \<lparr>root = render rp\<rparr>" and "valid_path rp"
    and "\<And>q. fault fs (SysReadlink q) = None"
    and "ReadExecute OSFilesystem H fs t args = (Inr (VString c), t')"
  shows "\<exists>p m. prefix rp p \<and> node_at fs p = Inr (File c m)"
  using assms by (rule ReadExecute_within)

lemma scoped_read_confined_witness:
  "\<exists>p m. prefix [''w''] p \<and> node_at demo_fs p = Inr (File ''old'' m)"
proof (rule scoped_read_confined)
  let ?t = "\<lparr>guard = New, scope = Some \<lparr>root = render [''w'']\<rparr>\<rparr>"
  show "ReadExecute OSFilesystem id demo_fs ?t (Some [(''path'', VString ''l'')])
          = (Inr (VString ''old''), ?t\<lparr>guard := New\<lparr>reads := [''/w/a'' \<mapsto> ''old'']\<rparr>\<rparr>)"
    by (simp add: ReadExecute_def get_string_def map_get_def checkScope_def Check_def Let_def render_def
          suffix_def MarkRead_def observe_def New_def)
qed (simp_all add: valid_name_def)

end
