(* ===== verification/AgentTypes.thy ===== *)
theory AgentTypes
  imports GoValue
begin

text \<open>
  The shared vocabulary of \<open>internal/types\<close>: tool kinds and what depends on them, the naming of
  agentic retriever tools, run telemetry, token usage, approval statuses and requests, the filters over
  discovered MCP tools and A2A skills, and the validation of MCP transports.
\<close>

section \<open>Tool kinds\<close>

datatype ToolKind =
    ToolKindNative | ToolKindMCP | ToolKindA2A | ToolKindSubAgent | ToolKindRetriever | ToolKindMemory
  | ToolKindEmpty | ToolKindOther string

text \<open>\<open>KindOf\<close>: a value that is nil or provides no kind is \<open>None\<close>.\<close>

definition KindOf :: "ToolKind option \<Rightarrow> ToolKind" where
  "KindOf provided =
     (case provided of
        None \<Rightarrow> ToolKindNative
      | Some kind \<Rightarrow> (if kind \<noteq> ToolKindEmpty then kind else ToolKindNative))"

definition CountsTowardToolTelemetry :: "ToolKind \<Rightarrow> bool" where
  "CountsTowardToolTelemetry k =
     (case k of ToolKindSubAgent \<Rightarrow> False | ToolKindA2A \<Rightarrow> False | ToolKindRetriever \<Rightarrow> False | _ \<Rightarrow> True)"

definition HooksEligible :: "ToolKind \<Rightarrow> bool" where
  "HooksEligible k \<longleftrightarrow> k = ToolKindNative \<or> k = ToolKindMCP"

section \<open>Retriever tool names\<close>

definition RetrieverToolNamePrefix :: string where
  "RetrieverToolNamePrefix = ''retriever_''"

definition RetrieverToolParamQuery :: string where
  "RetrieverToolParamQuery = ''query''"

definition RetrieverToolName :: "string \<Rightarrow> string" where
  "RetrieverToolName retrieverName =
     (let name = trim_space retrieverName in
      if name = [] then [] else RetrieverToolNamePrefix @ name)"

definition RetrieverNameFromToolName :: "string \<Rightarrow> string option" where
  "RetrieverNameFromToolName tool =
     (let toolName = trim_space tool in
      if toolName = [] \<or> \<not> prefix RetrieverToolNamePrefix toolName then None
      else (let name = trim_space (drop (length RetrieverToolNamePrefix) toolName) in
            if name = [] then None else Some name))"

definition RetrieverToolDisplayName :: "string \<Rightarrow> string" where
  "RetrieverToolDisplayName retrieverKey =
     (let key = trim_space retrieverKey in if key = [] then [] else key @ '' Retriever Tool'')"

definition RetrieverToolParamQueryValue :: "gomap \<Rightarrow> goerr + string" where
  "RetrieverToolParamQueryValue args =
     (case get_string args RetrieverToolParamQuery of
        None \<Rightarrow> Inl (new_error ''retriever tool: \"query\" parameter required'')
      | Some q \<Rightarrow>
          (let query = trim_space q in
           if query = [] then Inl (new_error ''retriever tool: \"query\" must be non-empty'')
           else Inr query))"

section \<open>Telemetry and token usage\<close>

text \<open>The maps of the Go struct may be nil; a nil map and an empty one read alike.\<close>

record ToolTelemetry =
  TotalCalls :: int
  FailedCalls :: int
  Breakdown :: "string \<Rightarrow> int option"
  FailedBreakdown :: "string \<Rightarrow> int option"

definition bump :: "(string \<Rightarrow> int option) \<Rightarrow> string \<Rightarrow> (string \<Rightarrow> int option)" where
  "bump b name = (if name \<noteq> [] then b(name \<mapsto> (case b name of None \<Rightarrow> 0 | Some n \<Rightarrow> n) + 1) else b)"

definition Record :: "ToolTelemetry \<Rightarrow> string \<Rightarrow> bool \<Rightarrow> ToolTelemetry" where
  "Record t name failed =
     (let t1 = t\<lparr>TotalCalls := TotalCalls t + 1, Breakdown := bump (Breakdown t) name\<rparr> in
      if \<not> failed then t1
      else t1\<lparr>FailedCalls := FailedCalls t1 + 1, FailedBreakdown := bump (FailedBreakdown t1) name\<rparr>)"

record StorageTelemetry =
  TotalRetrieverSearches :: int
  FailedRetrieverSearches :: int
  PrefetchSearches :: int
  AgenticSearches :: int
  TotalMemoryRecalls :: int
  FailedMemoryRecalls :: int
  TotalMemoryStores :: int
  FailedMemoryStores :: int

datatype FinishReason = FinishReasonComplete | FinishReasonMaxIterations | FinishReasonTokenBudget

record RunTelemetry =
  StartedAt :: int
  CompletedAt :: int
  TotalLLMCalls :: int
  FinishReasonOf :: FinishReason

record AgentTelemetry =
  Run :: RunTelemetry
  ToolsT :: ToolTelemetry
  Storage :: StorageTelemetry

record LLMUsage =
  PromptTokens :: int64
  CompletionTokens :: int64
  TotalTokens :: int64
  CachedPromptTokens :: int64
  ReasoningTokens :: int64

definition zero_storage :: StorageTelemetry where
  "zero_storage = \<lparr>TotalRetrieverSearches = 0, FailedRetrieverSearches = 0, PrefetchSearches = 0,
     AgenticSearches = 0, TotalMemoryRecalls = 0, FailedMemoryRecalls = 0, TotalMemoryStores = 0,
     FailedMemoryStores = 0\<rparr>"

definition NewAgentTelemetry :: "int \<Rightarrow> AgentTelemetry" where
  "NewAgentTelemetry startedAt =
     \<lparr>Run = \<lparr>StartedAt = startedAt, CompletedAt = 0, TotalLLMCalls = 0, FinishReasonOf = FinishReasonComplete\<rparr>,
      ToolsT = \<lparr>TotalCalls = 0, FailedCalls = 0, Breakdown = Map.empty, FailedBreakdown = Map.empty\<rparr>,
      Storage = zero_storage\<rparr>"

section \<open>Approvals\<close>

datatype ApprovalStatus =
    ApprovalStatusNone | ApprovalStatusPending | ApprovalStatusApproved | ApprovalStatusRejected
  | ApprovalStatusUnavailable

datatype ApprovalRequestName = ApprovalRequestNameTool | ApprovalRequestNameSubAgent | ApprovalRequestNameOther string

section \<open>Filters over discovered tools and skills\<close>

record MCPToolFilter =
  AllowTools :: "string list"
  BlockTools :: "string list"

record ToolSpec =
  SpecName :: string
  SpecDescription :: string
  SpecParameters :: gomap

definition MCPFilterValidate :: "MCPToolFilter \<Rightarrow> goerr option" where
  "MCPFilterValidate f =
     (if AllowTools f \<noteq> [] \<and> BlockTools f \<noteq> [] then
        Some (new_error ''mcp tool filter: set either AllowTools or BlockTools, not both'')
      else None)"

definition MCPFilterApply :: "MCPToolFilter \<Rightarrow> ToolSpec list \<Rightarrow> ToolSpec list" where
  "MCPFilterApply f specs =
     (if AllowTools f \<noteq> [] then filter (\<lambda>d. SpecName d \<in> set (AllowTools f)) specs
      else if BlockTools f \<noteq> [] then filter (\<lambda>d. SpecName d \<notin> set (BlockTools f)) specs
      else specs)"

record A2ASkillFilter =
  AllowSkills :: "string list"
  BlockSkills :: "string list"

record A2ASkillSpec =
  SkillID :: string
  SkillName :: string
  SkillDescription :: string
  SkillTags :: "string list"
  SkillInputModes :: "string list"
  SkillOutputModes :: "string list"
  SkillExamples :: "string list"

definition A2AFilterValidate :: "A2ASkillFilter \<Rightarrow> goerr option" where
  "A2AFilterValidate f =
     (if AllowSkills f \<noteq> [] \<and> BlockSkills f \<noteq> [] then
        Some (new_error ''a2a skill filter: set either AllowSkills or BlockSkills, not both'')
      else None)"

definition A2AFilterApply :: "A2ASkillFilter \<Rightarrow> A2ASkillSpec list \<Rightarrow> A2ASkillSpec list" where
  "A2AFilterApply f skills =
     (if AllowSkills f = [] \<and> BlockSkills f = [] then skills
      else if AllowSkills f \<noteq> [] then
        filter (\<lambda>s. trim_space (SkillID s) \<in> set (map trim_space (AllowSkills f))) skills
      else filter (\<lambda>s. trim_space (SkillID s) \<notin> set (map trim_space (BlockSkills f))) skills)"

section \<open>MCP transports\<close>

record OAuthClientCreds =
  ClientID :: string
  ClientSecret :: string
  TokenURL :: string
  Scopes :: "string list"
  EndpointParams :: "(string \<times> string list) list"

record MCPStreamableHTTP =
  URL :: string
  Token :: string
  OAuth :: "OAuthClientCreds option"
  HTTPHeaders :: "(string \<times> string) list"
  SkipTLSVerify :: bool

definition MCPStdioValidate :: "string \<Rightarrow> goerr option" where
  "MCPStdioValidate command =
     (if trim_space command = [] then Some (new_error ''mcp stdio transport: Command is empty'') else None)"

definition MCPStreamableHTTPValidate :: "MCPStreamableHTTP \<Rightarrow> goerr option" where
  "MCPStreamableHTTPValidate h =
     (if trim_space (URL h) = [] then Some (new_error ''mcp streamable_http: url is required'')
      else
        (let hasTok = trim_space (Token h) \<noteq> [];
             refuse = Some (new_error ''mcp streamable_http: set only one of token or oauth client credentials'')
         in case OAuth h of
              None \<Rightarrow> None
            | Some cc \<Rightarrow>
                (let i = trim_space (ClientID cc); sec = trim_space (ClientSecret cc); tu = trim_space (TokenURL cc);
                     anyOAuth = (i \<noteq> [] \<or> sec \<noteq> [] \<or> tu \<noteq> [] \<or> Scopes cc \<noteq> [] \<or> EndpointParams cc \<noteq> [])
                 in if \<not> anyOAuth then None
                    else if i = [] \<or> sec = [] \<or> tu = [] then
                      Some (new_error ''mcp streamable_http: oauth client credentials require client_id, client_secret, and token_url'')
                    else if hasTok then refuse else None)))"

section \<open>Lemmas\<close>

lemma RetrieverToolName_nonempty: "trim_space n \<noteq> [] \<Longrightarrow> RetrieverToolName n = ''retriever_'' @ trim_space n"
  by (simp add: RetrieverToolName_def RetrieverToolNamePrefix_def Let_def)

lemma trim_right_no_space_suffix:
  assumes "trim_right s = s" and "p \<in> set space_encodings"
  shows "\<not> suffix p s"
proof -
  have ne: "p \<noteq> []" using assms(2) by (auto simp: space_encodings_def)
  have "\<not> prefix (rev p) (trim_front (map rev space_encodings) (rev s))"
    by (rule trim_front_stop) (use assms(2) ne in auto)
  then show ?thesis using assms(1) by (simp add: trim_right_def suffix_to_prefix) (metis rev_rev_ident)
qed

text \<open>A trimmed non-empty string stays trimmed behind a prefix that begins and ends visibly.\<close>

lemma trim_space_prefixed:
  assumes t: "trim_space t = t" and u: "u \<noteq> []"
    and first: "\<forall>p \<in> set space_encodings. hd p \<noteq> hd u"
    and last: "\<forall>p \<in> set space_encodings. last u \<notin> set p"
  shows "trim_space (u @ t) = u @ t"
proof -
  have pre: "\<not> prefix p (u @ t)" if "p \<in> set space_encodings" "p \<noteq> []" for p
    using first that u by (cases p; cases u) auto
  have left: "trim_left (u @ t) = u @ t"
    unfolding trim_left_def by (rule trim_front_id) (use pre in blast)
  have "length (trim_left t) = length t"
    using t trim_right_prefix [of "trim_left t"] trim_left_suffix [of t]
    by (metis trim_space_def le_antisym prefix_length_le suffix_length_le)
  then have "trim_left t = t" using trim_left_suffix [of t] by (metis suffix_length_suffix suffix_order.antisym order_refl suffix_order.refl)
  then have rt: "trim_right t = t" using t by (simp add: trim_space_def)
  have "\<not> suffix p (u @ t)" if p: "p \<in> set space_encodings" for p
  proof
    assume "suffix p (u @ t)"
    then consider "suffix p t" | x where "p = x @ t" "suffix x u"
      by (auto simp: suffix_append)
    then show False
    proof cases
      case 1
      then show False using trim_right_no_space_suffix [OF rt p] by simp
    next
      case (2 x)
      show False
      proof (cases "x = []")
        case True
        then show False using 2 trim_right_no_space_suffix [OF rt p] by simp
      next
        case False
        then have "List.last x = List.last u" using 2(2) by (auto simp: suffix_def)
        moreover have "List.last x \<in> set p" using False 2(1) by simp
        ultimately show False using last p by auto
      qed
    qed
  qed
  then have "\<not> prefix q (rev (u @ t))" if "q \<in> set (map rev space_encodings)" for q
    using that by (auto simp: suffix_to_prefix)
  then have "trim_front (map rev space_encodings) (rev (u @ t)) = rev (u @ t)"
    by (intro trim_front_id) blast
  then show ?thesis using left by (simp add: trim_space_def trim_right_def)
qed

lemma retriever_name_roundtrip:
  assumes "trim_space n \<noteq> []"
  shows "RetrieverNameFromToolName (RetrieverToolName n) = Some (trim_space n)"
proof -
  have "trim_space (''retriever_'' @ trim_space n) = ''retriever_'' @ trim_space n"
    by (rule trim_space_prefixed) (auto simp: space_encodings_def)
  then show ?thesis
    using assms
    by (simp add: RetrieverToolName_def RetrieverNameFromToolName_def RetrieverToolNamePrefix_def Let_def
          del: append.simps) (simp add: prefix_def)
qed

subsection \<open>Telemetry over a sequence of calls\<close>

definition record_all :: "ToolTelemetry \<Rightarrow> (string \<times> bool) list \<Rightarrow> ToolTelemetry" where
  "record_all t calls = foldl (\<lambda>t (name, failed). Record t name failed) t calls"

definition tally :: "(string \<Rightarrow> int option) \<Rightarrow> string \<Rightarrow> int" where
  "tally b n = (case b n of None \<Rightarrow> 0 | Some k \<Rightarrow> k)"

lemma tally_bump: "tally (bump b name) n = tally b n + (if name = n \<and> n \<noteq> [] then 1 else 0)"
  by (auto simp: tally_def bump_def)

lemma Record_simps [simp]:
  "TotalCalls (Record t name failed) = TotalCalls t + 1"
  "FailedCalls (Record t name failed) = FailedCalls t + (if failed then 1 else 0)"
  "Breakdown (Record t name failed) = bump (Breakdown t) name"
  "FailedBreakdown (Record t name failed) = (if failed then bump (FailedBreakdown t) name else FailedBreakdown t)"
  by (simp_all add: Record_def Let_def)

lemma record_all_simps [simp]:
  "record_all t [] = t" "record_all t ((n, f) # cs) = record_all (Record t n f) cs"
  by (simp_all add: record_all_def)

lemma record_all_totals:
  "TotalCalls (record_all t cs) = TotalCalls t + int (length cs)"
  "FailedCalls (record_all t cs) = FailedCalls t + int (length (filter snd cs))"
  by (induction cs arbitrary: t) (auto simp: split: prod.splits)

lemma record_all_breakdown:
  assumes "n \<noteq> []"
  shows "tally (Breakdown (record_all t cs)) n = tally (Breakdown t) n + int (count_list (map fst cs) n)"
    and "tally (FailedBreakdown (record_all t cs)) n
           = tally (FailedBreakdown t) n + int (count_list (map fst (filter snd cs)) n)"
  using assms by (induction cs arbitrary: t) (auto simp: tally_bump)

end
