(* ===== verification/ToolResults.thy ===== *)
theory ToolResults
  imports AgentTypes
begin

text \<open>
  How tool outcomes reach the model (\<open>internal/runtime/base\<close>: \<open>tool_error.go\<close>,
  \<open>tool_truncation.go\<close>, \<open>tool_envelope.go\<close>, \<open>tool_executor.go\<close>): the classification of errors
  into four fixed sentences, the envelope around untrusted output, truncation, and the tool-role
  messages.
\<close>

section \<open>Messages of a conversation\<close>

text \<open>\<open>RoleUnset\<close> is the empty role of a zero message.\<close>

datatype MessageRole = RoleUnset | RoleSystem | RoleUser | RoleAssistant | RoleTool | RoleReasoning

record ToolCall =
  tcID :: string
  tcName :: string
  tcArgs :: gomap

record Message =
  mRole :: MessageRole
  mContent :: string
  mToolName :: string
  mToolCallID :: string
  mToolCalls :: "ToolCall list"

definition message :: "MessageRole \<Rightarrow> string \<Rightarrow> Message" where
  "message r c = \<lparr>mRole = r, mContent = c, mToolName = [], mToolCallID = [], mToolCalls = []\<rparr>"

section \<open>Errors\<close>

definition MsgToolFailed :: string where
  "MsgToolFailed = ''The tool failed to execute; check the arguments and try again.''"

definition MsgToolUnavailable :: string where
  "MsgToolUnavailable =
     ''The tool could not be executed because of a temporary system problem; try again, or continue without this tool.''"

definition MsgToolTimedOut :: string where
  "MsgToolTimedOut =
     ''The tool did not finish within its execution time limit; try again, narrowing the request if possible.''"

definition MsgToolPanicked :: string where
  "MsgToolPanicked =
     ''The tool encountered an internal error and could not complete; do not retry with the same arguments.''"

definition ErrToolPanicked :: goerr where
  "ErrToolPanicked = GoErr ''tool execution panicked'' [SToolPanicked]"

definition fatalPatterns :: "string list" where
  "fatalPatterns =
     [''connection refused'', ''connection reset'', ''connection timeout'', ''dial tcp'', ''i/o timeout'',
      ''network unreachable'', ''unreachable'', ''no route to host'', ''broken pipe'', ''eof'',
      ''context deadline exceeded'', ''context canceled'', ''service unavailable'', ''bad gateway'',
      ''gateway timeout'', ''502'', ''503'', ''504'']"

definition isInfrastructureError :: "string \<Rightarrow> bool" where
  "isInfrastructureError msg =
     list_ex (\<lambda>pat. str_contains (to_lower msg) pat) fatalPatterns"

definition ModelFacingToolErrorText :: "goerr option \<Rightarrow> string" where
  "ModelFacingToolErrorText e =
     (case e of
        None \<Rightarrow> []
      | Some err \<Rightarrow>
          (let msg = to_lower (err_msg err) in
           if err_is err SToolPanicked \<or> str_contains msg (err_msg ErrToolPanicked) then MsgToolPanicked
           else if err_is err SDeadlineExceeded \<or> str_contains msg ''context deadline exceeded'' then MsgToolTimedOut
           else if isInfrastructureError msg then MsgToolUnavailable
           else if str_contains msg ''timeout'' \<or> str_contains msg ''timed out'' then MsgToolTimedOut
           else MsgToolFailed))"

record ToolExecutionError =
  teToolName :: string
  teCallID :: string
  teMessage :: string
  teIsFatal :: bool
  teWrapped :: goerr

definition ToolExecutionErrorText :: "ToolExecutionError \<Rightarrow> string" where
  "ToolExecutionErrorText e = ''tool execution error: '' @ teToolName e @ '': '' @ teMessage e"

definition ClassifyToolError :: "string \<Rightarrow> string \<Rightarrow> goerr option \<Rightarrow> ToolExecutionError option" where
  "ClassifyToolError toolName callID e =
     (case e of
        None \<Rightarrow> None
      | Some err \<Rightarrow>
          Some \<lparr>teToolName = toolName, teCallID = callID, teMessage = err_msg err,
                teIsFatal = isInfrastructureError (err_msg err), teWrapped = err\<rparr>)"

section \<open>The envelope\<close>

datatype ToolResultStatus = ToolResultStatusOK | ToolResultStatusError

definition status_text :: "ToolResultStatus \<Rightarrow> string" where
  "status_text s = (case s of ToolResultStatusOK \<Rightarrow> ''ok'' | ToolResultStatusError \<Rightarrow> ''error'')"

definition toolResultClose :: string where
  "toolResultClose = ''</tool_result>''"

definition toolResultCloseEscaped :: string where
  "toolResultCloseEscaped = CHR ''<'' # CHR 0x5C # ''/tool_result>''"

text \<open>The verb \<open>%q\<close>: quotes, backslashes and control characters are escaped, printable characters
  (the bytes of their UTF-8 encoding among them) are kept.\<close>

definition hex_digit :: "nat \<Rightarrow> char" where
  "hex_digit n = (if n < 10 then char_of (48 + n) else char_of (87 + n))"

definition quote_char :: "char \<Rightarrow> string" where
  "quote_char c =
     (let n = (of_char c :: nat) in
      if n = 0x22 \<or> n = 0x5C then [CHR 0x5C, c]
      else if n = 7 then [CHR 0x5C, CHR ''a''] else if n = 8 then [CHR 0x5C, CHR ''b'']
      else if n = 12 then [CHR 0x5C, CHR ''f''] else if n = 10 then [CHR 0x5C, CHR ''n'']
      else if n = 13 then [CHR 0x5C, CHR ''r''] else if n = 9 then [CHR 0x5C, CHR ''t'']
      else if n = 11 then [CHR 0x5C, CHR ''v'']
      else if n < 32 \<or> n = 127 then [CHR 0x5C, CHR ''x'', hex_digit (n div 16), hex_digit (n mod 16)]
      else [c])"

definition go_quote :: "string \<Rightarrow> string" where
  "go_quote s = CHR 0x22 # concat (map quote_char s) @ [CHR 0x22]"

definition RenderToolResultEnvelope :: "string \<Rightarrow> ToolResultStatus \<Rightarrow> string \<Rightarrow> string" where
  "RenderToolResultEnvelope toolName status content =
     (let safe = replace_all content toolResultClose toolResultCloseEscaped in
      ''<tool_result name='' @ go_quote toolName @ '' status='' @ go_quote (status_text status) @ ''>''
      @ [CHR 0x0A] @ safe @ [CHR 0x0A] @ toolResultClose)"

text \<open>The JSON encoding and the \<open>fmt\<close> rendering of a value are those of the standard library;
  \<open>json\<close> gives \<open>None\<close> where \<open>json.Marshal\<close> fails.\<close>

definition ToolResultContent :: "(goany \<Rightarrow> string option) \<Rightarrow> (goany \<Rightarrow> string) \<Rightarrow> goany \<Rightarrow> string" where
  "ToolResultContent json sprint result =
     (case result of
        VNil \<Rightarrow> []
      | VString v \<Rightarrow> v
      | VBytes v \<Rightarrow> v
      | VStringer v \<Rightarrow> v
      | _ \<Rightarrow> (case json result of Some b \<Rightarrow> b | None \<Rightarrow> sprint result))"

definition ToolFailureContent :: "string \<Rightarrow> goerr option \<Rightarrow> string" where
  "ToolFailureContent toolName err =
     RenderToolResultEnvelope toolName ToolResultStatusError (ModelFacingToolErrorText err)"

section \<open>Truncation\<close>

definition charsPerToken :: int where "charsPerToken = 4"
definition truncationMarker :: string where "truncationMarker = ''...''"
definition minTruncationLength :: int where "minTruncationLength = 100"

definition EstimateTokens :: "string \<Rightarrow> int" where
  "EstimateTokens s = (if length s = 0 then 0 else int (length s) div charsPerToken)"

definition TruncateToolOutput :: "string \<Rightarrow> int \<Rightarrow> string" where
  "TruncateToolOutput content maxTokens =
     (if maxTokens \<le> 0 then content
      else if EstimateTokens content \<le> maxTokens then content
      else
        (let maxChars0 = wrap64 (maxTokens * charsPerToken);
             maxChars = (if maxChars0 < minTruncationLength then minTruncationLength else maxChars0)
         in if maxChars \<ge> int (length content) then content
            else
              (let truncated = take (nat maxChars) content;
                   truncated' = (case last_index truncated (CHR '' '') of
                                   Some lastSpace \<Rightarrow>
                                     (if int lastSpace > maxChars div 2 then take lastSpace truncated else truncated)
                                 | None \<Rightarrow> truncated)
               in truncated' @ truncationMarker)))"

definition TruncateToolOutputWithWarning :: "string \<Rightarrow> int \<Rightarrow> string \<times> string" where
  "TruncateToolOutputWithWarning content maxTokens =
     (if maxTokens \<le> 0 then (content, [])
      else if EstimateTokens content \<le> maxTokens then (content, [])
      else
        (let truncated = TruncateToolOutput content maxTokens in
         (truncated, ''Tool output truncated from ~'' @ int_to_str (EstimateTokens content) @ '' to ~''
            @ int_to_str (EstimateTokens truncated) @ '' tokens'')))"

section \<open>Tool-role messages\<close>

definition BuildToolResultMessageWithLimit :: "string \<Rightarrow> string \<Rightarrow> string \<Rightarrow> int \<Rightarrow> Message" where
  "BuildToolResultMessageWithLimit toolCallID toolName content maxOutputTokens =
     \<lparr>mRole = RoleTool,
      mContent = (if maxOutputTokens > 0 then TruncateToolOutput content maxOutputTokens else content),
      mToolName = toolName, mToolCallID = toolCallID, mToolCalls = []\<rparr>"

definition BuildToolResultMessage :: "string \<Rightarrow> string \<Rightarrow> string \<Rightarrow> Message" where
  "BuildToolResultMessage toolCallID toolName content =
     BuildToolResultMessageWithLimit toolCallID toolName content 0"

definition BuildEnvelopedToolResultMessage ::
  "string \<Rightarrow> string \<Rightarrow> ToolResultStatus \<Rightarrow> string \<Rightarrow> Message" where
  "BuildEnvelopedToolResultMessage toolCallID toolName status content =
     BuildToolResultMessage toolCallID toolName (RenderToolResultEnvelope toolName status content)"

definition BuildToolErrorResultMessage :: "string \<Rightarrow> string \<Rightarrow> goerr option \<Rightarrow> Message" where
  "BuildToolErrorResultMessage toolCallID toolName err =
     BuildToolResultMessage toolCallID toolName (ToolFailureContent toolName err)"

definition MsgToolRejected :: string where
  "MsgToolRejected = ''Tool execution was rejected by the user.''"

definition MsgToolApprovalUnavailable :: string where
  "MsgToolApprovalUnavailable =
     ''Tool approval could not be completed because no approval handler is configured; continuing without running the tool.''"

definition MsgToolUnauthorized :: string where
  "MsgToolUnauthorized = ''Tool execution was denied by authorization policy.''"

definition GetApprovalStatusMessage :: "ApprovalStatus \<Rightarrow> string" where
  "GetApprovalStatusMessage status =
     (case status of
        ApprovalStatusRejected \<Rightarrow> MsgToolRejected
      | ApprovalStatusUnavailable \<Rightarrow> MsgToolApprovalUnavailable
      | _ \<Rightarrow> [])"

definition FormatAuthorizationDeniedMessage :: "string \<Rightarrow> string" where
  "FormatAuthorizationDeniedMessage reason =
     (if trim_space reason \<noteq> [] then MsgToolUnauthorized @ '' Reason: '' @ reason else MsgToolUnauthorized)"

definition BuildSubAgentRefusedMessage :: "int \<Rightarrow> string" where
  "BuildSubAgentRefusedMessage maxDepth =
     ''Sub-agent delegation refused: maximum nesting depth ('' @ int_to_str maxDepth @ '') reached.''"

definition CheckSubAgentDepth :: "int \<Rightarrow> int \<Rightarrow> bool \<times> string" where
  "CheckSubAgentDepth currentDepth maxDepth =
     (if currentDepth \<ge> maxDepth then (False, BuildSubAgentRefusedMessage maxDepth) else (True, []))"

section \<open>Lemmas\<close>

subsection \<open>Errors\<close>

definition model_facing_texts :: "string set" where
  "model_facing_texts = {MsgToolFailed, MsgToolUnavailable, MsgToolTimedOut, MsgToolPanicked}"

lemma model_facing_fixed: "ModelFacingToolErrorText (Some e) \<in> model_facing_texts"
  by (simp add: ModelFacingToolErrorText_def model_facing_texts_def Let_def)

text \<open>Errors that crossed an activity boundary keep their text but lose their sentinels; a panic
  and a deadline are still classified as such.\<close>

lemma model_facing_panic:
  "str_contains (to_lower (err_msg e)) ''tool execution panicked'' \<Longrightarrow> ModelFacingToolErrorText (Some e) = MsgToolPanicked"
  by (simp add: ModelFacingToolErrorText_def ErrToolPanicked_def Let_def)

subsection \<open>The closing delimiter\<close>

lemma prefix_replace_all:
  "CHR ''<'' \<notin> set w \<Longrightarrow> prefix w (replace_all s toolResultClose toolResultCloseEscaped) \<Longrightarrow> prefix w s"
proof (induction w arbitrary: s)
  case (Cons x w)
  show ?case
  proof (cases "s \<noteq> [] \<and> \<not> prefix toolResultClose s")
    case True
    then obtain c t where s: "s = c # t" by (cases s) auto
    then show ?thesis using Cons True by (simp add: replace_all_miss)
  next
    case False
    then consider "s = []" | t where "s = toolResultClose @ t" by (auto simp: prefix_def)
    then show ?thesis
    proof cases
      case 2
      then have "replace_all s toolResultClose toolResultCloseEscaped
                   = CHR ''<'' # tl toolResultCloseEscaped @ replace_all t toolResultClose toolResultCloseEscaped"
        using replace_all_hit [of toolResultClose t] by (simp add: toolResultClose_def toolResultCloseEscaped_def)
      then show ?thesis using Cons.prems by simp
    qed (use Cons.prems in simp)
  qed
qed simp

lemma str_contains_escaped:
  "str_contains (toolResultCloseEscaped @ r) toolResultClose = str_contains r toolResultClose"
proof -
  have skip: "str_contains (c # t) toolResultClose = str_contains t toolResultClose"
    if "c \<noteq> CHR ''<'' \<or> (\<exists>d u. t = d # u \<and> d \<noteq> CHR ''/'')" for c t
    using that by (auto simp: str_contains_Cons toolResultClose_def)
  show ?thesis by (simp add: toolResultCloseEscaped_def skip)
qed

lemma replace_all_no_close:
  "\<not> str_contains (replace_all s toolResultClose toolResultCloseEscaped) toolResultClose"
proof (induction s rule: length_induct)
  case (1 s)
  consider (empty) "s = []" | (hit) t where "s = toolResultClose @ t"
    | (miss) c t where "s = c # t" "\<not> prefix toolResultClose s"
    by (cases s) (auto simp: prefix_def)
  then show ?case
  proof cases
    case empty
    then show ?thesis by (simp add: toolResultClose_def)
  next
    case (hit t)
    then have ih: "\<not> str_contains (replace_all t toolResultClose toolResultCloseEscaped) toolResultClose"
      using 1 by (simp add: toolResultClose_def)
    have "replace_all s toolResultClose toolResultCloseEscaped
            = toolResultCloseEscaped @ replace_all t toolResultClose toolResultCloseEscaped"
      using hit replace_all_hit [of toolResultClose t] by (simp add: toolResultClose_def)
    then show ?thesis using ih str_contains_escaped by simp
  next
    case (miss c t)
    let ?r = "replace_all t toolResultClose toolResultCloseEscaped"
    have ih: "\<not> str_contains ?r toolResultClose" using 1 miss by simp
    have r: "replace_all s toolResultClose toolResultCloseEscaped = c # ?r"
      using miss by (simp add: replace_all_miss)
    have "\<not> prefix toolResultClose (c # ?r)"
    proof
      assume p: "prefix toolResultClose (c # ?r)"
      have w: "toolResultClose = CHR ''<'' # tl toolResultClose" "CHR ''<'' \<notin> set (tl toolResultClose)"
        by (simp_all add: toolResultClose_def)
      then have c: "c = CHR ''<''" and "prefix (tl toolResultClose) ?r" using p by (metis Cons_prefix_Cons)+
      then have "prefix (tl toolResultClose) t" using prefix_replace_all [OF w(2)] by blast
      then have "prefix toolResultClose (c # t)" using c w(1) by (metis Cons_prefix_Cons)
      then show False using miss by simp
    qed
    then show ?thesis using ih r by (simp add: str_contains_Cons)
  qed
qed

text \<open>A pattern cannot straddle a byte it does not contain.\<close>

lemma str_contains_sep:
  assumes "x \<notin> set w" and "w \<noteq> []"
  shows "str_contains (a @ x # b) w \<longleftrightarrow> str_contains a w \<or> str_contains b w"
proof
  assume "str_contains (a @ x # b) w"
  then obtain u v where e: "a @ x # b = u @ w @ v" by (auto simp: str_contains_sublist sublist_def)
  then consider (inside) us where "a = u @ us" "us @ x # b = w @ v"
    | (after) us where "a @ us = u" "x # b = us @ w @ v"
    by (auto simp: append_eq_append_conv2)
  then show "str_contains a w \<or> str_contains b w"
  proof cases
    case (inside us)
    from inside(2) consider zs where "us = w @ zs" | zs where "us @ zs = w" "x # b = zs @ v"
      by (auto simp: append_eq_append_conv2)
    then show ?thesis
    proof cases
      case (1 zs)
      with inside(1) show ?thesis by (auto simp: str_contains_sublist sublist_def)
    next
      case (2 zs)
      then have "zs = []" using assms(1) by (cases zs) auto
      then have "a = u @ w @ []" using 2 inside(1) by simp
      then show ?thesis unfolding str_contains_sublist sublist_def by blast
    qed
  next
    case (after us)
    show ?thesis
    proof (cases us)
      case Nil
      then show ?thesis using after assms by (cases w) auto
    next
      case (Cons y ys)
      then show ?thesis using after(2) by (auto simp: str_contains_sublist sublist_def)
    qed
  qed
next
  assume "str_contains a w \<or> str_contains b w"
  then show "str_contains (a @ x # b) w"
    using str_contains_append1 [of a w "x # b"] str_contains_append2 [of b w "a @ [x]"] by auto
qed


lemma quote_char_cases:
  "quote_char c = [c] \<and> c \<noteq> CHR 0x5C \<and> c \<noteq> CHR 0x22 \<or>
   (\<exists>t. quote_char c = CHR 0x5C # t \<and> CHR ''<'' \<notin> set t)"
proof -
  have hex: "CHR ''<'' \<noteq> hex_digit k" if "k < 16" for k
  proof
    assume "CHR ''<'' = hex_digit k"
    then have "(of_char (hex_digit k) :: nat) = 60" by (simp flip: \<open>CHR ''<'' = hex_digit k\<close>)
    then show False using that by (auto simp: hex_digit_def split: if_splits)
  qed
  have "(of_char c :: nat) < 256" by simp
  then have "(of_char c :: nat) div 16 < 16" "(of_char c :: nat) mod 16 < 16" by linarith+
  then show ?thesis
    using hex by (auto simp: quote_char_def Let_def)
qed


lemma prefix_quoted:
  "CHR 0x5C \<notin> set w \<Longrightarrow> prefix w (concat (map quote_char s)) \<Longrightarrow> prefix w s"
proof (induction w arbitrary: s)
  case (Cons x w)
  then obtain c t where s: "s = c # t" by (cases s) auto
  then show ?case using Cons quote_char_cases [of c] by auto
qed simp

lemma str_contains_skip: "CHR ''<'' \<notin> set a \<Longrightarrow> str_contains (a @ s) toolResultClose = str_contains s toolResultClose"
  by (induction a) (simp_all add: str_contains_Cons toolResultClose_def)

lemma quoted_no_close:
  "\<not> str_contains s toolResultClose \<Longrightarrow> \<not> str_contains (concat (map quote_char s)) toolResultClose"
proof (induction s)
  case (Cons c s)
  have w: "CHR 0x5C \<notin> set toolResultClose" by (simp add: toolResultClose_def)
  have no: "\<not> str_contains s toolResultClose" using Cons.prems by (simp add: str_contains_Cons)
  show ?case
    using quote_char_cases [of c]
  proof
    assume "quote_char c = [c] \<and> c \<noteq> CHR 0x5C \<and> c \<noteq> CHR 0x22"
    then have "concat (map quote_char (c # s)) = c # concat (map quote_char s)" by simp
    moreover have "\<not> prefix toolResultClose (concat (map quote_char (c # s)))"
      using prefix_quoted [OF w] Cons.prems by (auto simp: str_contains_Cons)
    ultimately show ?thesis using Cons.IH no by (simp add: str_contains_Cons)
  next
    assume "\<exists>t. quote_char c = CHR 0x5C # t \<and> CHR ''<'' \<notin> set t"
    then show ?thesis using Cons.IH no str_contains_skip [of "quote_char c"] by auto
  qed
qed simp

lemma envelope_closed:
  assumes "\<not> str_contains toolName toolResultClose"
  shows "suffix toolResultClose (RenderToolResultEnvelope toolName st content)"
    and "\<not> str_contains (butlast (RenderToolResultEnvelope toolName st content)) toolResultClose"
proof -
  let ?q = "concat (map quote_char toolName)"
  let ?st = "concat (map quote_char (status_text st))"
  let ?safe = "replace_all content toolResultClose toolResultCloseEscaped"
  define hdr where "hdr = ''<tool_result name='' @ CHR 0x22 # ?q @ CHR 0x22 # '' status='' @ CHR 0x22 # ?st @ CHR 0x22 # ''>''"
  have e: "RenderToolResultEnvelope toolName st content
             = hdr @ CHR 0x0A # ?safe @ CHR 0x0A # toolResultClose"
    by (simp add: RenderToolResultEnvelope_def go_quote_def hdr_def Let_def)
  show "suffix toolResultClose (RenderToolResultEnvelope toolName st content)"
    unfolding e by (simp add: suffix_def)
  have sep: "str_contains (a @ x # b) toolResultClose \<longleftrightarrow> str_contains a toolResultClose \<or> str_contains b toolResultClose"
    if "x \<in> {CHR 0x0A, CHR 0x22}" for a b x
    by (rule str_contains_sep) (use that in \<open>auto simp: toolResultClose_def\<close>)
  have no: "\<not> str_contains w toolResultClose" if "length w < 14" for w
    using that by (auto simp: str_contains_sublist toolResultClose_def dest: sublist_length_le)
  have hd: "\<not> str_contains ''<tool_result name='' toolResultClose"
    by (simp add: str_contains_Cons toolResultClose_def)
  have st: "\<not> str_contains ?st toolResultClose"
    by (rule quoted_no_close, rule no) (simp add: status_text_def split: ToolResultStatus.split)
  have "\<not> str_contains hdr toolResultClose"
    unfolding hdr_def using hd st quoted_no_close [OF assms] no by (simp add: sep del: append.simps)
  moreover have "butlast (RenderToolResultEnvelope toolName st content)
      = hdr @ CHR 0x0A # ?safe @ CHR 0x0A # butlast toolResultClose"
    unfolding e by (simp add: butlast_append toolResultClose_def)
  moreover have "\<not> str_contains (butlast toolResultClose) toolResultClose"
    by (rule no) (simp add: toolResultClose_def)
  ultimately show "\<not> str_contains (butlast (RenderToolResultEnvelope toolName st content)) toolResultClose"
    using replace_all_no_close by (simp add: sep)
qed


subsection \<open>Truncation\<close>

lemma truncate_cases:
  assumes len: "int (length content) < 2 ^ 63"
  obtains (same) "TruncateToolOutput content maxTokens = content"
      "maxTokens \<le> 0 \<or> int (length content) < 4 * maxTokens + 4 \<or> int (length content) \<le> 100"
  | (cut) n where "TruncateToolOutput content maxTokens = take n content @ ''...''"
      "n < length content" "max (4 * maxTokens) 100 div 2 < int n" "int n \<le> max (4 * maxTokens) 100"
proof -
  consider (small) "maxTokens \<le> 0 \<or> EstimateTokens content \<le> maxTokens"
    | (large) "0 < maxTokens" "maxTokens < EstimateTokens content" by linarith
  then show thesis
  proof cases
    case small
    then have "TruncateToolOutput content maxTokens = content" by (auto simp: TruncateToolOutput_def)
    moreover have "maxTokens \<le> 0 \<or> int (length content) < 4 * maxTokens + 4"
      using small by (auto simp: EstimateTokens_def charsPerToken_def split: if_splits)
    ultimately show thesis using same by blast
  next
    case large
    define mc where "mc = max (4 * maxTokens) 100"
    have "4 * maxTokens < 2 ^ 63"
      using large len by (auto simp: EstimateTokens_def charsPerToken_def split: if_splits)
    then have w: "wrap64 (maxTokens * charsPerToken) = 4 * maxTokens"
      using large by (simp add: charsPerToken_def in_int64_def)
    have mc': "(if 4 * maxTokens < minTruncationLength then minTruncationLength else 4 * maxTokens) = mc"
      by (simp add: mc_def minTruncationLength_def)
    have t: "TruncateToolOutput content maxTokens =
        (if mc \<ge> int (length content) then content
         else (case last_index (take (nat mc) content) (CHR '' '') of
                 Some i \<Rightarrow> if int i > mc div 2 then take i (take (nat mc) content) else take (nat mc) content
               | None \<Rightarrow> take (nat mc) content) @ ''...'')"
      unfolding TruncateToolOutput_def Let_def w mc' truncationMarker_def using large by simp
    show thesis
    proof (cases "mc \<ge> int (length content)")
      case True
      then show thesis using t same by (auto simp: mc_def max_def split: if_splits)
    next
      case False
      have full: "nat mc < length content" "mc div 2 < int (nat mc)" "int (nat mc) \<le> mc"
        using False by (auto simp: mc_def)
      show thesis
      proof (cases "last_index (take (nat mc) content) (CHR '' '')")
        case None
        then show thesis using t False full cut [of "nat mc"] by (simp add: mc_def)
      next
        case (Some i)
        have "i < nat mc" using last_index_less [OF Some] full(1) by simp
        show thesis
        proof (cases "int i > mc div 2")
          case True
          have "TruncateToolOutput content maxTokens = take i content @ ''...''"
            using t False Some True \<open>i < nat mc\<close> by (simp add: min_def)
          moreover have "int i \<le> mc" "i < length content" using \<open>i < nat mc\<close> full by linarith+
          ultimately show thesis using cut [of i] True by (simp add: mc_def)
        next
          case short: False
          have "TruncateToolOutput content maxTokens = take (nat mc) content @ ''...''"
            using t False Some short by simp
          then show thesis using cut [of "nat mc"] full by (simp add: mc_def)
        qed
      qed
    qed
  qed
qed

end
