(* ===== verification/TokenBudget.thy ===== *)
theory TokenBudget
  imports AgentTypes
begin

text \<open>
  The token budget of a run (\<open>internal/runtime/base/token_budget.go\<close>) and the merging of usage reports
  (\<open>utils.go\<close>).  Token counts are signed 64-bit words, so sums wrap; the last section relates the
  budget to the exact sum where the sum fits.
\<close>

section \<open>Operations\<close>

record TokenUsage =
  tuPrompt :: int64
  tuCompletion :: int64
  tuTotal :: int64

record TokenBudget =
  maxTokens :: int64
  usage :: TokenUsage
  exceeded :: bool

definition zero_usage :: TokenUsage where
  "zero_usage = \<lparr>tuPrompt = 0, tuCompletion = 0, tuTotal = 0\<rparr>"

definition NewTokenBudget :: "int64 \<Rightarrow> TokenBudget" where
  "NewTokenBudget m = \<lparr>maxTokens = m, usage = zero_usage, exceeded = False\<rparr>"

definition AddUsage :: "TokenBudget \<Rightarrow> TokenUsage option \<Rightarrow> TokenBudget" where
  "AddUsage b u =
     (case u of
        None \<Rightarrow> b
      | Some a \<Rightarrow>
          (let us = \<lparr>tuPrompt = tuPrompt (usage b) + tuPrompt a,
                     tuCompletion = tuCompletion (usage b) + tuCompletion a,
                     tuTotal = tuTotal (usage b) + tuTotal a\<rparr>
           in b\<lparr>usage := us,
                exceeded := exceeded b \<or> (0 <s maxTokens b \<and> maxTokens b <s tuTotal us)\<rparr>))"

definition IsExceeded :: "TokenBudget \<Rightarrow> bool" where
  "IsExceeded b = exceeded b"

definition Remaining :: "TokenBudget \<Rightarrow> int64" where
  "Remaining b =
     (if maxTokens b \<le>s 0 then 0
      else (let remaining = maxTokens b - tuTotal (usage b) in if remaining <s 0 then 0 else remaining))"

definition CurrentUsage :: "TokenBudget \<Rightarrow> TokenUsage" where
  "CurrentUsage b = usage b"

definition TokenBudgetString :: "TokenBudget \<Rightarrow> string" where
  "TokenBudgetString b =
     (if maxTokens b \<le>s 0 then
        ''TokenBudget{usage: '' @ int_to_str (sint (tuTotal (usage b))) @ '' tokens, unlimited}''
      else
        (let remaining = maxTokens b - tuTotal (usage b);
             remaining' = (if remaining <s 0 then 0 else remaining)
         in ''TokenBudget{usage: '' @ int_to_str (sint (tuTotal (usage b))) @ ''/''
            @ int_to_str (sint (maxTokens b)) @ '' tokens, remaining: '' @ int_to_str (sint remaining') @ ''}''))"

definition ConvertFromLLMUsage :: "LLMUsage option \<Rightarrow> TokenUsage" where
  "ConvertFromLLMUsage u =
     (case u of
        None \<Rightarrow> zero_usage
      | Some a \<Rightarrow> \<lparr>tuPrompt = PromptTokens a, tuCompletion = CompletionTokens a, tuTotal = TotalTokens a\<rparr>)"

section \<open>Merging usage reports\<close>

definition CloneLLMUsage :: "LLMUsage option \<Rightarrow> LLMUsage option" where
  "CloneLLMUsage u = u"

definition MergeLLMUsage :: "LLMUsage option \<Rightarrow> LLMUsage option \<Rightarrow> LLMUsage option" where
  "MergeLLMUsage acc add =
     (case add of
        None \<Rightarrow> acc
      | Some b \<Rightarrow>
          (case acc of
             None \<Rightarrow> CloneLLMUsage add
           | Some a \<Rightarrow>
               Some \<lparr>PromptTokens = PromptTokens a + PromptTokens b,
                     CompletionTokens = CompletionTokens a + CompletionTokens b,
                     TotalTokens = TotalTokens a + TotalTokens b,
                     CachedPromptTokens = CachedPromptTokens a + CachedPromptTokens b,
                     ReasoningTokens = ReasoningTokens a + ReasoningTokens b\<rparr>))"

lemma MergeLLMUsage_assoc: "MergeLLMUsage (MergeLLMUsage a b) c = MergeLLMUsage a (MergeLLMUsage b c)"
  by (cases a; cases b; cases c) (simp_all add: MergeLLMUsage_def CloneLLMUsage_def add.assoc)

lemma MergeLLMUsage_none [simp]: "MergeLLMUsage None u = u" "MergeLLMUsage u None = u"
  by (cases u; simp add: MergeLLMUsage_def CloneLLMUsage_def)+

section \<open>The budget against the exact sum\<close>

definition total_of :: "TokenUsage option \<Rightarrow> int" where
  "total_of u = (case u of None \<Rightarrow> 0 | Some a \<Rightarrow> sint (tuTotal a))"

definition spend :: "TokenBudget \<Rightarrow> TokenUsage option list \<Rightarrow> TokenBudget" where
  "spend = foldl AddUsage"

lemma sint_add_fit: "- (2 ^ 63) \<le> sint a + sint b \<Longrightarrow> sint a + sint b < 2 ^ 63 \<Longrightarrow> sint (a + b :: int64) = sint a + sint b"
  by (simp add: sint_word_ariths(1) signed_take_bit_int_eq_self)

lemma AddUsage_exact:
  assumes "0 \<le> sint (tuTotal (usage b))" "0 \<le> total_of u" "sint (tuTotal (usage b)) + total_of u < 2 ^ 63"
  shows "sint (tuTotal (usage (AddUsage b u))) = sint (tuTotal (usage b)) + total_of u"
  using assms by (cases u) (simp_all add: AddUsage_def total_of_def Let_def sint_add_fit)

lemma AddUsage_max [simp]: "maxTokens (AddUsage b u) = maxTokens b"
  by (simp add: AddUsage_def Let_def split: option.split)

lemma AddUsage_exceeded:
  assumes "0 \<le> sint (tuTotal (usage b))" "0 \<le> total_of u" "sint (tuTotal (usage b)) + total_of u < 2 ^ 63"
    and inv: "exceeded b \<longleftrightarrow> 0 < sint (maxTokens b) \<and> sint (maxTokens b) < sint (tuTotal (usage b))"
  shows "exceeded (AddUsage b u) \<longleftrightarrow>
           0 < sint (maxTokens b) \<and> sint (maxTokens b) < sint (tuTotal (usage (AddUsage b u)))"
proof (cases u)
  case None
  then show ?thesis using inv by (simp add: AddUsage_def)
next
  case (Some a)
  then show ?thesis
    using assms by (auto simp: AddUsage_def Let_def total_of_def word_sless_alt sint_add_fit)
qed

lemma spend_exact:
  assumes "0 \<le> sint (tuTotal (usage b))" "\<forall>u \<in> set us. 0 \<le> total_of u"
    and "sint (tuTotal (usage b)) + sum_list (map total_of us) < 2 ^ 63"
    and "exceeded b \<longleftrightarrow> 0 < sint (maxTokens b) \<and> sint (maxTokens b) < sint (tuTotal (usage b))"
  shows "sint (tuTotal (usage (spend b us))) = sint (tuTotal (usage b)) + sum_list (map total_of us)
    \<and> (exceeded (spend b us) \<longleftrightarrow> 0 < sint (maxTokens b) \<and>
          sint (maxTokens b) < sint (tuTotal (usage b)) + sum_list (map total_of us))
    \<and> maxTokens (spend b us) = maxTokens b"
  using assms
proof (induction us arbitrary: b)
  case (Cons u us)
  have nn: "0 \<le> sum_list (map total_of us)" by (rule sum_list_nonneg) (use Cons.prems(2) in auto)
  then have lt: "sint (tuTotal (usage b)) + total_of u < 2 ^ 63" using Cons.prems(3) by simp
  have u: "0 \<le> total_of u" using Cons.prems(2) by simp
  note e = AddUsage_exact [OF Cons.prems(1) u lt]
  note x = AddUsage_exceeded [OF Cons.prems(1) u lt Cons.prems(4)]
  have "sint (tuTotal (usage (spend (AddUsage b u) us)))
          = sint (tuTotal (usage (AddUsage b u))) + sum_list (map total_of us)
    \<and> (exceeded (spend (AddUsage b u) us) \<longleftrightarrow> 0 < sint (maxTokens (AddUsage b u)) \<and>
          sint (maxTokens (AddUsage b u)) < sint (tuTotal (usage (AddUsage b u))) + sum_list (map total_of us))
    \<and> maxTokens (spend (AddUsage b u) us) = maxTokens (AddUsage b u)"
    by (rule Cons.IH) (use Cons.prems e x u in auto)
  then show ?case using e by (simp add: spend_def add.assoc)
qed (simp add: spend_def)

text \<open>Once exceeded, a budget stays exceeded whatever is added, also when the sum wraps.\<close>

lemma exceeded_sticky: "exceeded b \<Longrightarrow> exceeded (spend b us)"
  by (induction us arbitrary: b) (auto simp: spend_def AddUsage_def Let_def split: option.split)

end
