(* ===== verification/RunUtils.thy ===== *)
theory RunUtils
  imports ToolResults TokenBudget "HOL-Library.AList"
begin

text \<open>
  Requests and responses of the LLM client, and the helpers of \<open>internal/runtime/base\<close> the loops share
  (\<open>utils.go\<close>, \<open>activity_id.go\<close>, \<open>retry_policy.go\<close>, \<open>output_validation.go\<close>).
  Floating-point values are rationals (every finite float is one).
\<close>

section \<open>Requests and responses\<close>

datatype ResponseFormatType = ResponseFormatJSON | ResponseFormatText | ResponseFormatOther string

record ResponseFormat =
  rfType :: ResponseFormatType
  rfName :: string
  rfSchema :: gomap

record LLMReasoning =
  Enabled :: bool
  Effort :: string
  BudgetTokens :: int

record LLMRequest =
  SystemMessage :: string
  ReqFormat :: "ResponseFormat option"
  ReqTools :: "ToolSpec list"
  ReqMessages :: "Message list"
  Temperature :: "rat option"
  MaxTokens :: int
  TopP :: "rat option"
  TopK :: "int option"
  Reasoning :: "LLMReasoning option"

record LLMResponse =
  RespContent :: string
  RespUsage :: "LLMUsage option"
  RespToolCalls :: "ToolCall option list"

record LLMStreamChunk =
  ContentDelta :: string
  ThinkingDelta :: string

record LLMSampling =
  sTemperature :: "rat option"
  sMaxTokens :: int
  sTopP :: "rat option"
  sTopK :: "int option"
  sReasoning :: "LLMReasoning option"

definition ApplyLLMSampling :: "LLMSampling option \<Rightarrow> LLMRequest \<Rightarrow> LLMRequest" where
  "ApplyLLMSampling sampling req =
     (case sampling of
        None \<Rightarrow> req
      | Some s \<Rightarrow>
          (let r1 = (if sTemperature s \<noteq> None then req\<lparr>Temperature := sTemperature s\<rparr> else req);
               r2 = (if sMaxTokens s > 0 then r1\<lparr>MaxTokens := sMaxTokens s\<rparr> else r1);
               r3 = (if sTopP s \<noteq> None then r2\<lparr>TopP := sTopP s\<rparr> else r2);
               r4 = (if sTopK s \<noteq> None then r3\<lparr>TopK := sTopK s\<rparr> else r3)
           in if sReasoning s \<noteq> None then r4\<lparr>Reasoning := sReasoning s\<rparr> else r4))"

section \<open>Documents in the prompt\<close>

text \<open>The verb \<open>%.2f\<close>: the exact value is rounded to two decimals, ties to even.\<close>

definition round_half_even :: "rat \<Rightarrow> int" where
  "round_half_even x =
     (let f = \<lfloor>x\<rfloor>; d = x - of_int f in
      if d < 1 / 2 then f else if d > 1 / 2 then f + 1 else if even f then f else f + 1)"

definition fmt_2f :: "rat \<Rightarrow> string" where
  "fmt_2f r =
     (let n = nat (round_half_even (\<bar>r\<bar> * 100));
          c = n mod 100
      in (if r < 0 then ''-'' else []) @ nat_to_str (n div 100) @ ''.''
         @ (if c < 10 then ''0'' else []) @ nat_to_str c)"

definition format_doc :: "nat \<Rightarrow> document \<Rightarrow> string" where
  "format_doc i d =
     ''['' @ nat_to_str i @ ''] '' @ docContent d @ [CHR 0x0A] @ ''(source: '' @ docSource d @ '', score: ''
     @ fmt_2f (docScore d) @ '')'' @ [CHR 0x0A, CHR 0x0A]"

fun format_docs_from :: "nat \<Rightarrow> document list \<Rightarrow> string" where
  "format_docs_from i [] = []"
| "format_docs_from i (d # ds) = format_doc (i + 1) d @ format_docs_from (i + 1) ds"

definition FormatRetrieverDocs :: "document list \<Rightarrow> string" where
  "FormatRetrieverDocs docs = (if docs = [] then [] else format_docs_from 0 docs)"

section \<open>Sub-agents\<close>

definition SubAgentToolParamQuery :: string where
  "SubAgentToolParamQuery = ''query''"

definition SubAgentQuery :: "gomap \<Rightarrow> string" where
  "SubAgentQuery args = (case get_string args SubAgentToolParamQuery of None \<Rightarrow> [] | Some q \<Rightarrow> q)"

record MemoryScope =
  UserID :: string
  TenantID :: string
  AgentID :: string
  Tags :: "(string \<times> string) list"

definition scopeKeyParentAgentID :: string where
  "scopeKeyParentAgentID = ''parent_agent_id''"

definition SubAgentScope :: "MemoryScope \<Rightarrow> string \<Rightarrow> MemoryScope" where
  "SubAgentScope parent subAgentID =
     (let scope = \<lparr>UserID = UserID parent, TenantID = TenantID parent, AgentID = trim_space subAgentID, Tags = []\<rparr> in
      if AgentID parent \<noteq> [] \<or> Tags parent \<noteq> [] then
        scope\<lparr>Tags := (if AgentID parent \<noteq> [] then AList.update scopeKeyParentAgentID (AgentID parent) (Tags parent)
                       else Tags parent)\<rparr>
      else scope)"

section \<open>Activity ids\<close>

definition GenerateActivityID :: "string \<Rightarrow> string \<Rightarrow> int \<Rightarrow> string \<Rightarrow> string" where
  "GenerateActivityID pre runID iteration extra =
     (let sanitizedRunID = replace_all runID '' '' ''_'' in
      if extra \<noteq> [] then pre @ ''_'' @ sanitizedRunID @ ''_'' @ int_to_str iteration @ ''_'' @ extra
      else pre @ ''_'' @ sanitizedRunID @ ''_'' @ int_to_str iteration)"

definition GenerateToolActivityID :: "string \<Rightarrow> int \<Rightarrow> int \<Rightarrow> string \<Rightarrow> string" where
  "GenerateToolActivityID runID iteration toolIndex toolName =
     ''Tool_'' @ runID @ ''_'' @ int_to_str iteration @ ''_'' @ int_to_str toolIndex @ ''_''
     @ replace_all toolName '' '' ''_''"

definition GenerateLLMActivityID :: "string \<Rightarrow> int \<Rightarrow> string" where
  "GenerateLLMActivityID runID iteration = GenerateActivityID ''AgentLLM'' runID iteration []"

definition GenerateStreamActivityID :: "string \<Rightarrow> int \<Rightarrow> string" where
  "GenerateStreamActivityID runID iteration = GenerateActivityID ''AgentLLMStream'' runID iteration []"

definition GenerateEventActivityID :: "string \<Rightarrow> int \<Rightarrow> string" where
  "GenerateEventActivityID runID iteration = GenerateActivityID ''SendAgentEvent'' runID iteration []"

definition GenerateConversationActivityID :: "string \<Rightarrow> int \<Rightarrow> string" where
  "GenerateConversationActivityID runID iteration = GenerateActivityID ''Conversation'' runID iteration []"

definition GenerateRetrieverActivityID :: "string \<Rightarrow> int \<Rightarrow> string" where
  "GenerateRetrieverActivityID runID iteration = GenerateActivityID ''AgentRetriever'' runID iteration []"

definition GenerateMemoryActivityID :: "string \<Rightarrow> int \<Rightarrow> string" where
  "GenerateMemoryActivityID runID iteration = GenerateActivityID ''AgentMemory'' runID iteration []"

section \<open>Output validation\<close>

text \<open>\<open>unmarshal\<close> is \<open>json.Unmarshal\<close> into an \<open>any\<close>; the reason is what the returned error says.\<close>

definition ValidateJSONOutput :: "(string \<Rightarrow> goerr + goany) \<Rightarrow> string \<Rightarrow> string option" where
  "ValidateJSONOutput unmarshal content =
     (if content = [] then Some ''empty content is not valid JSON''
      else case unmarshal content of
        Inl e \<Rightarrow> Some (''invalid JSON: '' @ err_msg e)
      | Inr _ \<Rightarrow> None)"

definition ValidateStructuredOutput :: "(string \<Rightarrow> goerr + goany) \<Rightarrow> string \<Rightarrow> ResponseFormat option \<Rightarrow> string option" where
  "ValidateStructuredOutput unmarshal content format =
     (case format of
        None \<Rightarrow> None
      | Some f \<Rightarrow>
          (case rfType f of
             ResponseFormatJSON \<Rightarrow> ValidateJSONOutput unmarshal content
           | ResponseFormatText \<Rightarrow> None
           | _ \<Rightarrow> None))"

fun first_missing :: "goany list \<Rightarrow> (string \<times> goany) list \<Rightarrow> string option" where
  "first_missing [] obj = None"
| "first_missing (VString f # fs) obj = (if map_of obj f = None then Some f else first_missing fs obj)"
| "first_missing (_ # fs) obj = first_missing fs obj"

definition ValidateJSONOutputWithSchema :: "(string \<Rightarrow> goerr + goany) \<Rightarrow> string \<Rightarrow> gomap \<Rightarrow> string option" where
  "ValidateJSONOutputWithSchema unmarshal content schema =
     (case ValidateJSONOutput unmarshal content of
        Some r \<Rightarrow> Some r
      | None \<Rightarrow>
          (if map_len schema = 0 then None
           else
             (let checkObj = (\<lambda>obj.
                    case map_get schema ''required'' of
                      Some (VList req) \<Rightarrow>
                        (case first_missing req obj of
                           Some f \<Rightarrow> Some (''required field '' @ [CHR 0x27] @ f @ [CHR 0x27] @ '' is missing'')
                         | None \<Rightarrow> None)
                    | _ \<Rightarrow> None)
              in case unmarshal content of
                   Inr (VMap obj) \<Rightarrow> checkObj obj
                 | Inr VNil \<Rightarrow> checkObj []
                 | _ \<Rightarrow> Some ''content is not a JSON object'')))"

section \<open>Retry policies\<close>

record RetryPolicyConfig =
  InitialInterval :: int    \<comment> \<open>milliseconds\<close>
  BackoffCoefficient :: rat
  MaximumInterval :: int
  MaximumAttempts :: int

definition NewLLMRetryPolicy :: RetryPolicyConfig where
  "NewLLMRetryPolicy = \<lparr>InitialInterval = 1000, BackoffCoefficient = 2, MaximumInterval = 60000, MaximumAttempts = 10\<rparr>"

definition NewToolRetryPolicy :: RetryPolicyConfig where
  "NewToolRetryPolicy = \<lparr>InitialInterval = 1000, BackoffCoefficient = 2, MaximumInterval = 600000, MaximumAttempts = 3\<rparr>"

definition NewRetrieverRetryPolicy :: RetryPolicyConfig where
  "NewRetrieverRetryPolicy = \<lparr>InitialInterval = 1000, BackoffCoefficient = 2, MaximumInterval = 300000, MaximumAttempts = 3\<rparr>"

definition NewMemoryRetryPolicy :: RetryPolicyConfig where
  "NewMemoryRetryPolicy = \<lparr>InitialInterval = 1000, BackoffCoefficient = 2, MaximumInterval = 300000, MaximumAttempts = 3\<rparr>"

definition NewEventRetryPolicy :: RetryPolicyConfig where
  "NewEventRetryPolicy = \<lparr>InitialInterval = 1000, BackoffCoefficient = 1, MaximumInterval = 1000, MaximumAttempts = 1\<rparr>"

section \<open>Lemmas\<close>

text \<open>Numbers followed by an underscore can be read back.\<close>

lemma append_sep_inj:
  "x \<notin> set a \<Longrightarrow> x \<notin> set b \<Longrightarrow> a @ x # u = b @ x # v \<Longrightarrow> a = b \<and> u = v"
  by (induction a arbitrary: b) (case_tac b; auto)+

lemma int_to_str_no_underscore: "CHR ''_'' \<notin> set (int_to_str i)"
  using int_to_str_chars [of "CHR ''_''" i] by (auto simp: is_digit_def)

lemma GenerateToolActivityID_inj:
  assumes "GenerateToolActivityID runID i k t = GenerateToolActivityID runID i' k' t'"
  shows "i = i' \<and> k = k' \<and> replace_all t '' '' ''_'' = replace_all t' '' '' ''_''"
proof -
  note nu = int_to_str_no_underscore
  have e: "int_to_str i @ CHR ''_'' # (int_to_str k @ CHR ''_'' # replace_all t '' '' ''_'')
      = int_to_str i' @ CHR ''_'' # (int_to_str k' @ CHR ''_'' # replace_all t' '' '' ''_'')"
    using assms by (simp add: GenerateToolActivityID_def)
  from append_sep_inj [OF nu nu e] have i: "int_to_str i = int_to_str i'"
    and e2: "int_to_str k @ CHR ''_'' # replace_all t '' '' ''_'' = int_to_str k' @ CHR ''_'' # replace_all t' '' '' ''_''"
    by blast+
  from append_sep_inj [OF nu nu e2] i show ?thesis by (auto dest: int_to_str_inj)
qed

lemma GenerateActivityID_inj:
  "GenerateActivityID pre runID i [] = GenerateActivityID pre runID i' [] \<Longrightarrow> i = i'"
  by (auto simp: GenerateActivityID_def Let_def dest: int_to_str_inj)

text \<open>The parts of a memory scope that separate users and tenants are inherited, the delegating agent
  is recorded.\<close>

lemma SubAgentScope_simps [simp]:
  "UserID (SubAgentScope p i) = UserID p" "TenantID (SubAgentScope p i) = TenantID p"
  "AgentID (SubAgentScope p i) = trim_space i"
  by (simp_all add: SubAgentScope_def Let_def)

lemma SubAgentScope_tags:
  "map_of (Tags (SubAgentScope p i)) k =
     (if k = scopeKeyParentAgentID \<and> AgentID p \<noteq> [] then Some (AgentID p) else map_of (Tags p) k)"
  by (auto simp: SubAgentScope_def Let_def update_conv')

lemma first_missing_None:
  "first_missing req obj = None \<longleftrightarrow> (\<forall>f. VString f \<in> set req \<longrightarrow> f \<in> fst ` set obj)"
  by (induction req obj rule: first_missing.induct) (auto simp: map_of_eq_None_iff)

end
