(* ===== verification/MemoryConfig.thy ===== *)
theory MemoryConfig
  imports RunUtils
begin

text \<open>
  Long-term memory configuration (\<open>pkg/memory/config.go\<close>, \<open>defaults.go\<close>) and the \<open>Memory\<close> backend
  interface of \<open>pkg/interfaces\<close>: scope resolution and its metadata, expiry, kind policy, defaults and
  validation, load options.  A backend is a record of functions on a world \<open>'w\<close>; a context is what
  \<open>ctx.Value\<close> returns per key.  Times are nanoseconds, the zero time is \<open>None\<close>.
\<close>

section \<open>Records, entries and the backend\<close>

record MemoryRecord =
  mrText :: string
  mrKind :: string
  mrMetadata :: "(string \<times> string) list"
  mrExpiresAt :: "int option"

record MemoryEntry =
  meID :: string
  meText :: string
  meKind :: string
  meScope :: MemoryScope
  meMetadata :: "(string \<times> string) list"
  meExpiresAt :: "int option"
  meScore :: rat
  meCreatedAt :: int
  meUpdatedAt :: int

definition Expired :: "int \<Rightarrow> MemoryEntry \<Rightarrow> bool" where
  "Expired now e = (case meExpiresAt e of None \<Rightarrow> False | Some t \<Rightarrow> now > t)"

datatype LoadMemoryOption = WithLoadLimit int | WithMinScore rat | WithLoadKinds "string list"
datatype StoreMemoryOption = WithMemoryID string

record 'w Memory =
  memStore :: "MemoryScope \<Rightarrow> MemoryRecord \<Rightarrow> StoreMemoryOption list \<Rightarrow> 'w \<Rightarrow> (goerr + string) \<times> 'w"
  memLoad :: "MemoryScope \<Rightarrow> string \<Rightarrow> LoadMemoryOption list \<Rightarrow> 'w \<Rightarrow> (goerr + MemoryEntry list) \<times> 'w"
  memClear :: "MemoryScope \<Rightarrow> 'w \<Rightarrow> goerr option \<times> 'w"

section \<open>Configuration\<close>

type_synonym go_context = "string \<Rightarrow> goany option"
type_synonym ScopeResolver = "go_context \<Rightarrow> string"

record ScopeConfig =
  TenantIDResolver :: "ScopeResolver option"
  UserIDResolver :: "ScopeResolver option"
  AgentIDResolver :: "ScopeResolver option"
  ExtraKeys :: "string list"
  TagResolvers :: "(string \<times> ScopeResolver) list"

datatype StoreMode = StoreModeOnDemand | StoreModeAlways | StoreModeEmpty | StoreModeOther string

record 'w StoreConfig =
  scMode :: StoreMode
  DedupMinScore :: rat
  Extract :: "(Message list \<Rightarrow> 'w \<Rightarrow> (goerr + MemoryRecord list) \<times> 'w) option"
  DefaultKind :: string
  AllowedKinds :: "string list"

record RecallConfig =
  RecallEnabled_cfg :: bool
  RecallLimit :: int
  RecallMinScore :: rat
  RecallKinds :: "string list"

record 'w MemConfig =
  cfgMemory :: "'w Memory option"
  cfgScope :: ScopeConfig
  cfgTTL :: "(string \<times> int) list"
  cfgStore :: "'w StoreConfig"
  cfgRecall :: RecallConfig

section \<open>Scope\<close>

definition ScopeKeyTenantID :: string where "ScopeKeyTenantID = ''tenant_id''"
definition ScopeKeyUserID :: string where "ScopeKeyUserID = ''user_id''"
definition ScopeKeyAgentID :: string where "ScopeKeyAgentID = ''agent_id''"

definition ScopeConfigValidate :: "ScopeConfig \<Rightarrow> goerr option" where
  "ScopeConfigValidate c =
     (case find (\<lambda>key. map_of (TagResolvers c) key = None) (ExtraKeys c) of
        None \<Rightarrow> None
      | Some key \<Rightarrow> Some (new_error (''memory scope: ExtraKeys '' @ go_quote key @ '' requires a TagResolver'')))"

definition resolve_with :: "ScopeResolver option \<Rightarrow> go_context \<Rightarrow> string" where
  "resolve_with r ctx = (case r of None \<Rightarrow> [] | Some f \<Rightarrow> f ctx)"

fun resolve_tags :: "(string \<times> ScopeResolver) list \<Rightarrow> go_context \<Rightarrow> string list \<Rightarrow> (string \<times> string) list
    \<Rightarrow> (string \<times> string) list" where
  "resolve_tags rs ctx [] tags = tags"
| "resolve_tags rs ctx (key # keys) tags =
     (let v = resolve_with (map_of rs key) ctx in
      resolve_tags rs ctx keys (if v \<noteq> [] then AList.update key v tags else tags))"

definition ScopeResolve :: "ScopeConfig \<Rightarrow> go_context \<Rightarrow> goerr + MemoryScope" where
  "ScopeResolve c ctx =
     (case ScopeConfigValidate c of
        Some e \<Rightarrow> Inl e
      | None \<Rightarrow>
          Inr \<lparr>UserID = resolve_with (UserIDResolver c) ctx,
               TenantID = resolve_with (TenantIDResolver c) ctx,
               AgentID = resolve_with (AgentIDResolver c) ctx,
               Tags = resolve_tags (TagResolvers c) ctx (ExtraKeys c) []\<rparr>)"

definition put_nonempty :: "string \<Rightarrow> string \<Rightarrow> (string \<times> string) list \<Rightarrow> (string \<times> string) list" where
  "put_nonempty k v m = (if v \<noteq> [] then AList.update k v m else m)"

definition ScopeMetadata :: "MemoryScope \<Rightarrow> (string \<times> string) list" where
  "ScopeMetadata s =
     (let out = filter (\<lambda>(k, v). k \<notin> {ScopeKeyUserID, ScopeKeyTenantID, ScopeKeyAgentID}) (Tags s) in
      put_nonempty ScopeKeyAgentID (AgentID s)
        (put_nonempty ScopeKeyTenantID (TenantID s) (put_nonempty ScopeKeyUserID (UserID s) out)))"

section \<open>Expiry and kinds\<close>

definition KindNote :: string where "KindNote = ''note''"

definition TTLExpiresAt :: "(string \<times> int) list \<Rightarrow> string \<Rightarrow> int \<Rightarrow> int option" where
  "TTLExpiresAt p kind now =
     (if p = [] then None
      else case map_of p kind of
        None \<Rightarrow> None
      | Some t \<Rightarrow> (if t \<le> 0 then None else Some (now + t)))"

definition ResolveKind :: "'w StoreConfig \<Rightarrow> string \<Rightarrow> goerr + string" where
  "ResolveKind s kind =
     (let k1 = (if kind = [] then DefaultKind s else kind);
          k2 = (if k1 = [] then KindNote else k1)
      in if AllowedKinds s = [] then Inr k2
         else if k2 \<in> set (AllowedKinds s) then Inr k2
         else Inl (new_error (''memory store: kind '' @ go_quote k2 @ '' is not allowed'')))"

definition ExpiresAtForKind :: "'w MemConfig \<Rightarrow> string \<Rightarrow> int \<Rightarrow> int option" where
  "ExpiresAtForKind c kind now =
     (case ResolveKind (cfgStore c) kind of
        Inl _ \<Rightarrow> None
      | Inr resolved \<Rightarrow> TTLExpiresAt (cfgTTL c) resolved now)"

section \<open>Defaults and validation\<close>

definition hour :: int where "hour = 3600 * 1000000000"

definition context_string :: "string \<Rightarrow> ScopeResolver" where
  "context_string key ctx = (case ctx key of Some (VString v) \<Rightarrow> v | _ \<Rightarrow> [])"

definition DefaultScopeConfig :: ScopeConfig where
  "DefaultScopeConfig =
     \<lparr>TenantIDResolver = Some (context_string ''memory:tenant_id''),
      UserIDResolver = Some (context_string ''memory:user_id''),
      AgentIDResolver = Some (context_string ''memory:agent_id''),
      ExtraKeys = [], TagResolvers = []\<rparr>"

definition DefaultTTLPolicy :: "(string \<times> int) list" where
  "DefaultTTLPolicy = [(''decision'', 7 * 24 * hour), (''fact'', 0), (''preference'', 0), (''instruction'', 0),
                       (''note'', 48 * hour)]"

definition defaultDedupMinScore :: rat where "defaultDedupMinScore = 85 / 100"
definition defaultRecallLimit :: int where "defaultRecallLimit = 10"
definition defaultRecallMinScore :: rat where "defaultRecallMinScore = 35 / 100"

definition DefaultRecallConfig :: RecallConfig where
  "DefaultRecallConfig = \<lparr>RecallEnabled_cfg = True, RecallLimit = defaultRecallLimit,
     RecallMinScore = defaultRecallMinScore, RecallKinds = []\<rparr>"

definition DefaultStoreConfig :: "'w StoreConfig" where
  "DefaultStoreConfig = \<lparr>scMode = StoreModeOnDemand, DedupMinScore = defaultDedupMinScore, Extract = None,
     DefaultKind = KindNote, AllowedKinds = []\<rparr>"

definition DefaultConfig :: "'w Memory \<Rightarrow> 'w MemConfig" where
  "DefaultConfig store = \<lparr>cfgMemory = Some store, cfgScope = DefaultScopeConfig, cfgTTL = DefaultTTLPolicy,
     cfgStore = DefaultStoreConfig, cfgRecall = DefaultRecallConfig\<rparr>"

definition StoreWithDefaults :: "'w StoreConfig \<Rightarrow> 'w StoreConfig" where
  "StoreWithDefaults s0 =
     (let s1 = (if scMode s0 = StoreModeEmpty then s0\<lparr>scMode := StoreModeOnDemand\<rparr> else s0);
          s2 = (if DedupMinScore s1 \<le> 0 then s1\<lparr>DedupMinScore := defaultDedupMinScore\<rparr> else s1)
      in if DefaultKind s2 = [] \<and> AllowedKinds s2 = [] then s2\<lparr>DefaultKind := KindNote\<rparr> else s2)"

definition StoreValidate :: "'w StoreConfig \<Rightarrow> goerr option" where
  "StoreValidate s =
     (case ResolveKind s [] of
        Inl e \<Rightarrow> Some e
      | Inr _ \<Rightarrow>
          (if scMode s \<noteq> StoreModeOnDemand \<and> scMode s \<noteq> StoreModeAlways then
             Some (new_error ''memory config: invalid StoreMode'')
           else if scMode s = StoreModeOnDemand \<and> Extract s \<noteq> None then
             Some (new_error ''memory config: Extract is only valid with StoreMode always'')
           else if DedupMinScore s < 0 \<or> DedupMinScore s > 1 then
             Some (new_error ''memory config: DedupMinScore must be between 0 and 1'')
           else None))"

definition ConfigWithDefaults :: "'w MemConfig \<Rightarrow> 'w MemConfig" where
  "ConfigWithDefaults c0 =
     (let sc = cfgScope c0;
          c1 = (if TenantIDResolver sc = None \<and> UserIDResolver sc = None \<and> AgentIDResolver sc = None
                   \<and> ExtraKeys sc = []
                then c0\<lparr>cfgScope := DefaultScopeConfig\<rparr> else c0);
          c2 = (if cfgTTL c1 = [] then c1\<lparr>cfgTTL := DefaultTTLPolicy\<rparr> else c1);
          c3 = c2\<lparr>cfgStore := StoreWithDefaults (cfgStore c2)\<rparr>
      in if RecallLimit (cfgRecall c3) \<le> 0 then
           c3\<lparr>cfgRecall := (cfgRecall c3)\<lparr>RecallLimit := defaultRecallLimit\<rparr>\<rparr>
         else c3)"

definition ConfigValidate :: "'w MemConfig \<Rightarrow> goerr option" where
  "ConfigValidate c =
     (case cfgMemory c of
        None \<Rightarrow> Some (new_error ''memory config: Memory is required'')
      | Some _ \<Rightarrow> (case ScopeConfigValidate (cfgScope c) of
                    Some e \<Rightarrow> Some e
                  | None \<Rightarrow> StoreValidate (cfgStore c)))"

section \<open>Load options\<close>

definition loadOptions :: "RecallConfig \<Rightarrow> bool \<Rightarrow> LoadMemoryOption list" where
  "loadOptions r withMinScore =
     [WithLoadLimit (RecallLimit r)]
     @ (if withMinScore \<and> RecallMinScore r > 0 then [WithMinScore (RecallMinScore r)] else [])
     @ (if RecallKinds r \<noteq> [] then [WithLoadKinds (RecallKinds r)] else [])"

definition RecencyLoadOptions :: "RecallConfig \<Rightarrow> LoadMemoryOption list" where
  "RecencyLoadOptions r = loadOptions r False"

section \<open>Lemmas\<close>

lemma map_of_put_nonempty:
  "map_of (put_nonempty k v m) k' = (if k = k' \<and> v \<noteq> [] then Some v else map_of m k')"
  by (auto simp: put_nonempty_def update_conv')

lemma map_of_filter_keys:
  "map_of (filter (\<lambda>(k, v). P k) m) k = (if P k then map_of m k else None)"
  by (induction m) auto

text \<open>Whatever the tags say, the isolating keys carry the fields of the scope.\<close>

lemma ScopeMetadata_lookup:
  "map_of (ScopeMetadata s) k =
     (if k = ScopeKeyTenantID then (if TenantID s \<noteq> [] then Some (TenantID s) else None)
      else if k = ScopeKeyUserID then (if UserID s \<noteq> [] then Some (UserID s) else None)
      else if k = ScopeKeyAgentID then (if AgentID s \<noteq> [] then Some (AgentID s) else None)
      else map_of (Tags s) k)"
proof -
  have [simp]: "ScopeKeyUserID \<noteq> ScopeKeyTenantID" "ScopeKeyTenantID \<noteq> ScopeKeyUserID"
    "ScopeKeyUserID \<noteq> ScopeKeyAgentID" "ScopeKeyAgentID \<noteq> ScopeKeyUserID"
    "ScopeKeyTenantID \<noteq> ScopeKeyAgentID" "ScopeKeyAgentID \<noteq> ScopeKeyTenantID"
    by (simp_all add: ScopeKeyUserID_def ScopeKeyTenantID_def ScopeKeyAgentID_def)
  show ?thesis
    by (auto simp: ScopeMetadata_def Let_def map_of_put_nonempty map_of_filter_keys)
qed

lemma ResolveKind_Inr:
  "ResolveKind s kind = Inr k \<Longrightarrow> k \<noteq> [] \<and> (AllowedKinds s = [] \<or> k \<in> set (AllowedKinds s))"
  by (auto simp: ResolveKind_def Let_def KindNote_def split: if_splits)

lemma ResolveKind_resolved [simp]:
  "ResolveKind s kind = Inr k \<Longrightarrow> ResolveKind s k = Inr k"
  by (auto simp: ResolveKind_def Let_def KindNote_def split: if_splits)

lemma ExpiresAtForKind_resolved:
  "ResolveKind (cfgStore c) kind = Inr k \<Longrightarrow> ExpiresAtForKind c k now = TTLExpiresAt (cfgTTL c) k now"
  by (simp add: ExpiresAtForKind_def)

lemma StoreWithDefaults_idem [simp]: "StoreWithDefaults (StoreWithDefaults s) = StoreWithDefaults s"
  by (simp add: StoreWithDefaults_def Let_def defaultDedupMinScore_def KindNote_def)

lemma ConfigWithDefaults_fields:
  "cfgStore (ConfigWithDefaults c) = StoreWithDefaults (cfgStore c)"
  "cfgTTL (ConfigWithDefaults c) = (if cfgTTL c = [] then DefaultTTLPolicy else cfgTTL c)"
  "RecallLimit (cfgRecall (ConfigWithDefaults c)) > 0"
  by (simp_all add: ConfigWithDefaults_def Let_def defaultRecallLimit_def)

end
