(* ===== verification/Effects.thy ===== *)
theory Effects
  imports MemoryConfig
begin

text \<open>
  The state the runtime works on.  External parts of the program (LLM client, tools, retrievers,
  memory backend, conversation store, hooks) act on a world \<open>'w\<close>; beside it a log collects, in order,
  what the runtime itself does to the outside: metrics, published events, and the calls it makes to
  those parts.  Log lines (\<open>slog\<close>) and tracing spans are left out: the code never reads them.
\<close>

section \<open>Events (\<open>internal/events\<close>)\<close>

datatype AgentEvent =
    EvRunStarted string string
  | EvRunFinished string string string
  | EvRunError string
  | EvStepStarted string
  | EvStepFinished string
  | EvTextMessageStart string string
  | EvTextMessageContent string string
  | EvTextMessageEnd string
  | EvReasoningStart string
  | EvReasoningMessageStart string string
  | EvReasoningMessageContent string string
  | EvReasoningMessageEnd string
  | EvReasoningEnd string
  | EvToolCallStart string string string
  | EvToolCallArgs string string
  | EvToolCallEnd string
  | EvToolCallResult string string string
  | EvCustom string goany

text \<open>The events that open and close a run; they are published by the entry points only.\<close>

definition lifecycle :: "AgentEvent \<Rightarrow> bool" where
  "lifecycle ev =
     (case ev of EvRunStarted _ _ \<Rightarrow> True | EvRunFinished _ _ _ \<Rightarrow> True | EvRunError _ \<Rightarrow> True | _ \<Rightarrow> False)"

lemma lifecycle_simps [simp]:
  "\<not> lifecycle (EvStepStarted n)" "\<not> lifecycle (EvStepFinished n)" "\<not> lifecycle (EvCustom n v)"
  "\<not> lifecycle (EvTextMessageStart i r)" "\<not> lifecycle (EvTextMessageContent i d)" "\<not> lifecycle (EvTextMessageEnd i)"
  "\<not> lifecycle (EvReasoningStart i)" "\<not> lifecycle (EvReasoningEnd i)" "\<not> lifecycle (EvReasoningMessageStart i r)"
  "\<not> lifecycle (EvReasoningMessageContent i d)" "\<not> lifecycle (EvReasoningMessageEnd i)"
  "\<not> lifecycle (EvToolCallStart i n m)" "\<not> lifecycle (EvToolCallArgs i d)" "\<not> lifecycle (EvToolCallEnd i)"
  "\<not> lifecycle (EvToolCallResult m i c)"
  by (simp_all add: lifecycle_def)

section \<open>The log\<close>

type_synonym attrs = "(string \<times> string) list"

datatype effect =
    Counter string attrs
  | Histogram string attrs
  | Published string AgentEvent
  | LLMCalled LLMRequest
  | ToolCalled string gomap
  | Searched string string
  | MemoryLoaded MemoryScope string "LoadMemoryOption list"
  | MemoryStored MemoryScope MemoryRecord "StoreMemoryOption list"
  | ConversationAdded string Message
  | ApprovalStored string
  | ApprovalDeleted string

record 'w st =
  world :: 'w
  trace :: "effect list"

definition logged :: "effect \<Rightarrow> 'w st \<Rightarrow> 'w st" where
  "logged e s = s\<lparr>trace := trace s @ [e]\<rparr>"

definition count :: "string \<Rightarrow> attrs \<Rightarrow> 'w st \<Rightarrow> 'w st" where
  "count name as s = logged (Counter name as) s"

definition observe_ms :: "string \<Rightarrow> attrs \<Rightarrow> 'w st \<Rightarrow> 'w st" where
  "observe_ms name as s = logged (Histogram name as) s"

text \<open>A call into an external part.\<close>

definition ext :: "('w \<Rightarrow> 'r \<times> 'w) \<Rightarrow> 'w st \<Rightarrow> 'r \<times> 'w st" where
  "ext f s = (let (r, w) = f (world s) in (r, s\<lparr>world := w\<rparr>))"

lemma trace_simps [simp]:
  "trace (logged e s) = trace s @ [e]"
  "trace (count n as s) = trace s @ [Counter n as]"
  "trace (observe_ms n as s) = trace s @ [Histogram n as]"
  "trace (snd (ext f s)) = trace s"
  by (simp_all add: logged_def count_def observe_ms_def ext_def Let_def split: prod.split)

lemma trace_ext: "ext f s = (r, s') \<Longrightarrow> trace s' = trace s"
  by (metis trace_simps(4) snd_conv)

section \<open>The environment\<close>

text \<open>What the code takes from the standard library and from outside: fresh identifiers, the clock,
  JSON, the order in which the scheduler lets \<open>n\<close> goroutines do their work, and what a wait on the
  channel of an approval token ends with: the status somebody sent, or the error of the context.\<close>

record 'w Env =
  uuid :: "'w \<Rightarrow> string \<times> 'w"
  now :: "'w \<Rightarrow> int \<times> 'w"
  json :: "goany \<Rightarrow> string option"
  sprint :: "goany \<Rightarrow> string"
  unmarshal :: "string \<Rightarrow> goerr + goany"
  schedule :: "nat \<Rightarrow> 'w \<Rightarrow> nat list \<times> 'w"
  await_status :: "string \<Rightarrow> 'w \<Rightarrow> (goerr + ApprovalStatus) \<times> 'w"

section \<open>Goroutines\<close>

text \<open>A group of goroutines with a \<open>WaitGroup\<close>: each runs as one step, in the scheduler's order, and
  stores its result under its own index; a slot nobody wrote holds the zero value.\<close>

fun run_parallel :: "(nat \<Rightarrow> 's \<Rightarrow> 'r \<times> 's) \<Rightarrow> nat list \<Rightarrow> (nat \<Rightarrow> 'r option) \<Rightarrow> 's
    \<Rightarrow> (nat \<Rightarrow> 'r option) \<times> 's" where
  "run_parallel f [] slots s = (slots, s)"
| "run_parallel f (i # is) slots s = (let (r, s1) = f i s in run_parallel f is (slots(i := Some r)) s1)"

definition collect_slots :: "'r \<Rightarrow> nat \<Rightarrow> (nat \<Rightarrow> 'r option) \<Rightarrow> 'r list" where
  "collect_slots zero n slots = map (\<lambda>i. case slots i of Some r \<Rightarrow> r | None \<Rightarrow> zero) [0..<n]"

definition go_all :: "'w Env \<Rightarrow> 'r \<Rightarrow> nat \<Rightarrow> (nat \<Rightarrow> 'w st \<Rightarrow> 'r \<times> 'w st) \<Rightarrow> 'w st \<Rightarrow> 'r list \<times> 'w st" where
  "go_all env zero n f s =
     (let (order, s1) = ext (schedule env n) s;
          (slots, s2) = run_parallel f order Map.empty s1
      in (collect_slots zero n slots, s2))"

section \<open>Publishing\<close>

text \<open>\<open>publishEventToChannel\<close> of \<open>internal/runtime/local/agent_loop.go\<close>: without a channel or a bus
  nothing happens, an event that cannot be encoded is dropped.  The strings of the standard events can
  always be encoded; the payload of a custom event may not be.\<close>

definition is_custom :: "AgentEvent \<Rightarrow> bool" where
  "is_custom ev = (case ev of EvCustom _ _ \<Rightarrow> True | _ \<Rightarrow> False)"

definition encodable :: "'w Env \<Rightarrow> AgentEvent \<Rightarrow> bool" where
  "encodable env ev = (case ev of EvCustom _ v \<Rightarrow> json env v \<noteq> None | _ \<Rightarrow> True)"

definition publishEventToChannel :: "'w Env \<Rightarrow> bool \<Rightarrow> string \<Rightarrow> AgentEvent \<Rightarrow> 'w st \<Rightarrow> 'w st" where
  "publishEventToChannel env hasBus channelName ev s =
     (if trim_space channelName = [] \<or> \<not> hasBus then s
      else if \<not> encodable env ev then s
      else logged (Published channelName ev) s)"

text \<open>The channel of a run (\<open>internal/runtime/local/runtime.go\<close>); it is never blank.\<close>

definition localChannelName :: "string \<Rightarrow> string" where
  "localChannelName runID = ''agent-event-'' @ runID"

lemma localChannelName_visible [simp]: "trim_space (localChannelName runID) \<noteq> []"
  using trim_space_keeps [of "CHR ''a''" "localChannelName runID"]
  by (auto simp: localChannelName_def space_encodings_def)

section \<open>Growth of the log\<close>

text \<open>The entries a step appended.\<close>

definition added :: "'w st \<Rightarrow> 'w st \<Rightarrow> effect list" where
  "added s s' = drop (length (trace s)) (trace s')"

definition grows :: "'w st \<Rightarrow> 'w st \<Rightarrow> bool" where
  "grows s s' \<longleftrightarrow> prefix (trace s) (trace s')"

lemma grows_refl [simp, intro]: "grows s s"
  by (simp add: grows_def)

lemma grows_trans [trans]: "grows a b \<Longrightarrow> grows b c \<Longrightarrow> grows a c"
  by (auto simp: grows_def)

lemma grows_logged [simp, intro]: "grows s (logged e s)" "grows s (count n as s)" "grows s (observe_ms n as s)"
  by (simp_all add: grows_def)

lemma grows_ext: "ext f s = (r, s') \<Longrightarrow> grows s s'"
  by (simp add: grows_def trace_ext)

lemma trace_added: "grows s s' \<Longrightarrow> trace s' = trace s @ added s s'"
  by (auto simp: grows_def added_def prefix_def)

lemma added_trans: "grows a b \<Longrightarrow> grows b c \<Longrightarrow> added a c = added a b @ added b c"
  by (auto simp: grows_def added_def prefix_def)

lemma added_append: "trace s' = trace s @ es \<Longrightarrow> added s s' = es"
  by (simp add: added_def)

text \<open>Every entry a step appended satisfies \<open>P\<close>.\<close>

definition adds :: "(effect \<Rightarrow> bool) \<Rightarrow> 'w st \<Rightarrow> 'w st \<Rightarrow> bool" where
  "adds P s s' \<longleftrightarrow> (\<exists>es. trace s' = trace s @ es \<and> (\<forall>e \<in> set es. P e))"

lemma adds_refl [simp, intro]: "adds P s s"
  by (simp add: adds_def)

lemma adds_trans [trans]: "adds P a b \<Longrightarrow> adds P b c \<Longrightarrow> adds P a c"
  by (auto simp: adds_def)

lemma adds_eq: "trace s' = trace s \<Longrightarrow> adds P s s'"
  by (simp add: adds_def)

lemma adds_mono: "adds P s s' \<Longrightarrow> (\<And>e. P e \<Longrightarrow> Q e) \<Longrightarrow> adds Q s s'"
  by (auto simp: adds_def)

lemma adds_logged [intro!]: "adds P s s1 \<Longrightarrow> P e \<Longrightarrow> adds P s (logged e s1)"
  by (auto simp: adds_def)

lemma adds_count [intro!]: "adds P s s1 \<Longrightarrow> P (Counter n as) \<Longrightarrow> adds P s (count n as s1)"
  by (auto simp: adds_def)

lemma adds_observe [intro!]: "adds P s s1 \<Longrightarrow> P (Histogram n as) \<Longrightarrow> adds P s (observe_ms n as s1)"
  by (auto simp: adds_def)

lemma adds_ext: "adds P s s1 \<Longrightarrow> ext f s1 = (r, s2) \<Longrightarrow> adds P s s2"
  by (auto simp: adds_def dest: trace_ext)

lemma adds_grows: "adds P s s' \<Longrightarrow> grows s s'"
  by (auto simp: adds_def grows_def)

lemma run_parallel_adds:
  "(\<And>i s r s'. f i s = (r, s') \<Longrightarrow> adds P s s') \<Longrightarrow> run_parallel f is slots s = (res, s') \<Longrightarrow> adds P s s'"
proof (induction "is" arbitrary: slots s)
  case (Cons i "is")
  obtain r s1 where f: "f i s = (r, s1)" by fastforce
  have "adds P s s1" by (rule Cons.prems(1) [OF f])
  moreover have "adds P s1 s'" using Cons.IH [OF Cons.prems(1)] Cons.prems(2) f by simp
  ultimately show ?case by (rule adds_trans)
qed simp

lemma go_all_adds:
  assumes "\<And>i s r s'. f i s = (r, s') \<Longrightarrow> adds P s s'" and "go_all env zero n f s = (rs, s')"
  shows "adds P s s'"
proof -
  obtain order s1 where o: "ext (schedule env n) s = (order, s1)" by fastforce
  obtain slots s2 where r: "run_parallel f order Map.empty s1 = (slots, s2)" by fastforce
  have "adds P s1 s2" using run_parallel_adds [of f P, OF assms(1) r] .
  then show ?thesis using assms(2) o r adds_ext [OF adds_refl o] by (auto simp: go_all_def intro: adds_trans)
qed

lemma go_all_length: "go_all env zero n f s = (rs, s') \<Longrightarrow> length rs = n"
  by (auto simp: go_all_def collect_slots_def Let_def split: prod.splits)

text \<open>Every slot holds the result of some run of its own goroutine, or the zero value.\<close>

lemma run_parallel_slots:
  "run_parallel f is slots s = (res, s') \<Longrightarrow> res i = Some r \<Longrightarrow>
     slots i = Some r \<or> (\<exists>t t'. f i t = (r, t'))"
proof (induction "is" arbitrary: slots s)
  case (Cons j "is")
  obtain q s1 where f: "f j s = (q, s1)" by fastforce
  then have "run_parallel f is (slots(j := Some q)) s1 = (res, s')" using Cons.prems(1) by simp
  from Cons.IH [OF this Cons.prems(2)]
  have "(slots(j := Some q)) i = Some r \<or> (\<exists>t t'. f i t = (r, t'))" .
  then show ?case using f by (cases "i = j") (simp, metis, simp)
qed simp

lemma run_parallel_keeps: "run_parallel f is slots s = (res, s') \<Longrightarrow> slots i \<noteq> None \<Longrightarrow> res i \<noteq> None"
  by (induction "is" arbitrary: slots s) (auto split: prod.splits)

lemma run_parallel_all: "run_parallel f is slots s = (res, s') \<Longrightarrow> i \<in> set is \<Longrightarrow> res i \<noteq> None"
proof (induction "is" arbitrary: slots s)
  case (Cons j "is")
  obtain q s1 where f: "f j s = (q, s1)" by fastforce
  then have r: "run_parallel f is (slots(j := Some q)) s1 = (res, s')" using Cons.prems by simp
  show ?case
  proof (cases "i \<in> set is")
    case True
    then show ?thesis using Cons.IH r by blast
  next
    case False
    then show ?thesis using Cons.prems run_parallel_keeps [OF r, of i] by simp
  qed
qed simp

lemma go_all_nth:
  assumes "go_all env zero n f s = (rs, s')" and "i < n"
    and "\<And>w. set (fst (schedule env n w)) = {..<n}"
  shows "\<exists>t t'. f i t = (rs ! i, t')"
proof -
  obtain order s1 where o: "ext (schedule env n) s = (order, s1)" by fastforce
  obtain slots s2 where r: "run_parallel f order Map.empty s1 = (slots, s2)" by fastforce
  have "order = fst (schedule env n (world s))"
    using o by (cases "schedule env n (world s)") (simp add: ext_def)
  then have "set order = {..<n}" by (simp add: assms(3))
  then obtain q where q: "slots i = Some q" using run_parallel_all [OF r, of i] assms(2) by auto
  then have "rs ! i = q" using assms(1,2) o r by (auto simp: go_all_def collect_slots_def)
  then show ?thesis using run_parallel_slots [OF r q] by auto
qed

text \<open>How often a counter was incremented.\<close>

definition counted :: "string \<Rightarrow> effect list \<Rightarrow> nat" where
  "counted name es = length (filter (\<lambda>e. case e of Counter n _ \<Rightarrow> n = name | _ \<Rightarrow> False) es)"

lemma counted_simps [simp]:
  "counted name [] = 0"
  "counted name (Counter n as # es) = (if n = name then 1 else 0) + counted name es"
  "counted name (Histogram n as # es) = counted name es"
  "counted name (Published c ev # es) = counted name es"
  "counted name (LLMCalled req # es) = counted name es"
  "counted name (ToolCalled t a # es) = counted name es"
  "counted name (Searched t q # es) = counted name es"
  "counted name (MemoryLoaded sc q opts # es) = counted name es"
  "counted name (MemoryStored sc r so # es) = counted name es"
  "counted name (ConversationAdded i m # es) = counted name es"
  "counted name (ApprovalStored t # es) = counted name es"
  "counted name (ApprovalDeleted t # es) = counted name es"
  "counted name (es @ fs) = counted name es + counted name fs"
  by (simp_all add: counted_def)

definition published :: "effect list \<Rightarrow> AgentEvent list" where
  "published es = concat (map (\<lambda>e. case e of Published _ ev \<Rightarrow> [ev] | _ \<Rightarrow> []) es)"

lemma published_simps [simp]:
  "published [] = []"
  "published (Published c ev # es) = ev # published es"
  "published (Counter n as # es) = published es"
  "published (Histogram n as # es) = published es"
  "published (LLMCalled req # es) = published es"
  "published (ToolCalled t a # es) = published es"
  "published (Searched t q # es) = published es"
  "published (MemoryLoaded sc q opts # es) = published es"
  "published (MemoryStored sc r so # es) = published es"
  "published (ConversationAdded i m # es) = published es"
  "published (ApprovalStored t # es) = published es"
  "published (ApprovalDeleted t # es) = published es"
  "published (es @ fs) = published es @ published fs"
  by (simp_all add: published_def)

end
