(* ===== verification/Hooks.thy ===== *)
theory Hooks
  imports Effects
begin

text \<open>
  Middleware hooks (\<open>internal/hooks\<close>): groups of hook functions per execution point, run in
  registration order, each on the output of the previous one, the first error aborting the chain; and
  the wrappers of \<open>internal/runtime/base/hooks.go\<close>.  The locale \<open>hook_chain\<close> states what a hook step must
  leave alone; it is interpreted for every chain whose hooks return only part of the call.
\<close>

section \<open>Calls and groups\<close>

record RunMeta =
  RunID :: string
  Iteration :: int
  HooksGroup :: string

datatype RetrieverMode = RetrieverModeAgentic | RetrieverModePrefetch | RetrieverModeHybrid | RetrieverModeOther string

record HookToolCall =
  htID :: string
  htName :: string
  htDisplayName :: string
  htKind :: ToolKind
  htArgs :: gomap

record RetrieveCall =
  rcQuery :: string
  rcMode :: RetrieverMode
  rcName :: string

record MemoryLoadCall =
  mlScope :: MemoryScope
  mlQuery :: string
  mlLimit :: int
  mlMinScore :: rat
  mlKinds :: "string list"

record MemoryStoreCall =
  msScope :: MemoryScope
  msRecord :: MemoryRecord
  msID :: string

type_synonym ('w, 'i, 'o) hook = "RunMeta \<Rightarrow> 'i \<Rightarrow> 'w \<Rightarrow> (goerr + 'o) \<times> 'w"

text \<open>A nil entry of a hook list is \<open>None\<close>.\<close>

record 'w AgentHooks =
  BeforeLLM :: "('w, LLMRequest, LLMRequest) hook option list"
  AfterLLM :: "('w, LLMResponse, LLMResponse) hook option list"
  BeforeTool :: "('w, HookToolCall, gomap) hook option list"
  AfterTool :: "('w, HookToolCall \<times> string \<times> goerr option, string \<times> goerr option) hook option list"
  BeforeRetrieve :: "('w, RetrieveCall, string) hook option list"
  AfterRetrieve :: "('w, RetrieveCall \<times> document list, document list) hook option list"
  BeforeMemoryLoad :: "('w, MemoryLoadCall, string \<times> int \<times> rat \<times> string list) hook option list"
  AfterMemoryLoad :: "('w, MemoryScope \<times> string \<times> string, string) hook option list"
  BeforeMemoryStore :: "('w, MemoryStoreCall, MemoryRecord \<times> string) hook option list"
  AfterMemoryStore :: "('w, MemoryStoreCall, unit) hook option list"

record 'w HookGroup =
  GroupName :: string
  GroupHooks :: "'w AgentHooks"

definition Merge :: "'w AgentHooks \<Rightarrow> 'w AgentHooks \<Rightarrow> 'w AgentHooks" where
  "Merge h k =
     \<lparr>BeforeLLM = BeforeLLM h @ BeforeLLM k, AfterLLM = AfterLLM h @ AfterLLM k,
      BeforeTool = BeforeTool h @ BeforeTool k, AfterTool = AfterTool h @ AfterTool k,
      BeforeRetrieve = BeforeRetrieve h @ BeforeRetrieve k, AfterRetrieve = AfterRetrieve h @ AfterRetrieve k,
      BeforeMemoryLoad = BeforeMemoryLoad h @ BeforeMemoryLoad k,
      AfterMemoryLoad = AfterMemoryLoad h @ AfterMemoryLoad k,
      BeforeMemoryStore = BeforeMemoryStore h @ BeforeMemoryStore k,
      AfterMemoryStore = AfterMemoryStore h @ AfterMemoryStore k\<rparr>"

section \<open>Running a chain\<close>

text \<open>\<open>step\<close> feeds the current value to one hook under the group's meta data and folds what the hook
  returns into it.\<close>

fun run_hooks :: "('h \<Rightarrow> 'a \<Rightarrow> 'w \<Rightarrow> (goerr + 'a) \<times> 'w) \<Rightarrow> 'h option list \<Rightarrow> 'a \<Rightarrow> 'w \<Rightarrow> (goerr + 'a) \<times> 'w" where
  "run_hooks step [] cur w = (Inr cur, w)"
| "run_hooks step (None # hs) cur w = run_hooks step hs cur w"
| "run_hooks step (Some h # hs) cur w =
     (case step h cur w of
        (Inl e, w') \<Rightarrow> (Inl e, w')
      | (Inr cur', w') \<Rightarrow> run_hooks step hs cur' w')"

fun run_groups :: "(RunMeta \<Rightarrow> 'h \<Rightarrow> 'a \<Rightarrow> 'w \<Rightarrow> (goerr + 'a) \<times> 'w) \<Rightarrow> RunMeta
    \<Rightarrow> (string \<times> 'h option list) list \<Rightarrow> 'a \<Rightarrow> 'w \<Rightarrow> (goerr + 'a) \<times> 'w" where
  "run_groups step meta [] cur w = (Inr cur, w)"
| "run_groups step meta ((name, hs) # gs) cur w =
     (case run_hooks (step (meta\<lparr>HooksGroup := name\<rparr>)) hs cur w of
        (Inl e, w') \<Rightarrow> (Inl e, w')
      | (Inr cur', w') \<Rightarrow> run_groups step meta gs cur' w')"

definition on_point :: "('w AgentHooks \<Rightarrow> 'h option list) \<Rightarrow> 'w HookGroup list \<Rightarrow> (string \<times> 'h option list) list" where
  "on_point sel groups = map (\<lambda>g. (GroupName g, sel (GroupHooks g))) groups"

text \<open>The result of a hook, folded into the current value by \<open>f\<close>.\<close>

definition fold_out :: "('o \<Rightarrow> 'a) \<Rightarrow> (goerr + 'o) \<times> 'w \<Rightarrow> (goerr + 'a) \<times> 'w" where
  "fold_out f r = (case r of (Inl e, w) \<Rightarrow> (Inl e, w) | (Inr x, w) \<Rightarrow> (Inr (f x), w))"

definition clone_list :: "'a list \<Rightarrow> 'a list" where
  "clone_list xs = xs"

definition cloneToolArgs :: "gomap \<Rightarrow> gomap" where
  "cloneToolArgs args = (if map_len args = 0 then None else args)"

section \<open>The execution points\<close>

definition RunBeforeLLM :: "'w HookGroup list \<Rightarrow> RunMeta \<Rightarrow> LLMRequest \<Rightarrow> 'w \<Rightarrow> (goerr + LLMRequest) \<times> 'w" where
  "RunBeforeLLM groups meta req w =
     run_groups (\<lambda>m h cur w. h m cur w) meta (on_point BeforeLLM groups) req w"

definition RunAfterLLM :: "'w HookGroup list \<Rightarrow> RunMeta \<Rightarrow> LLMResponse \<Rightarrow> 'w \<Rightarrow> (goerr + LLMResponse) \<times> 'w" where
  "RunAfterLLM groups meta resp w =
     run_groups (\<lambda>m h cur w. h m cur w) meta (on_point AfterLLM groups) resp w"

definition before_tool_step :: "RunMeta \<Rightarrow> ('w, HookToolCall, gomap) hook \<Rightarrow> HookToolCall \<Rightarrow> 'w
    \<Rightarrow> (goerr + HookToolCall) \<times> 'w" where
  "before_tool_step m h cur w = fold_out (\<lambda>args. cur\<lparr>htArgs := cloneToolArgs args\<rparr>) (h m cur w)"

definition RunBeforeTool :: "'w HookGroup list \<Rightarrow> RunMeta \<Rightarrow> HookToolCall \<Rightarrow> 'w \<Rightarrow> (goerr + HookToolCall) \<times> 'w" where
  "RunBeforeTool groups meta call w =
     (if \<not> HooksEligible (htKind call) then (Inr call, w)
      else run_groups before_tool_step meta (on_point BeforeTool groups) call w)"

text \<open>The three results of \<open>RunAfterTool\<close>: a hook error aborts, otherwise content and tool error.\<close>

definition RunAfterTool :: "'w HookGroup list \<Rightarrow> RunMeta \<Rightarrow> HookToolCall \<Rightarrow> string \<Rightarrow> goerr option \<Rightarrow> 'w
    \<Rightarrow> (goerr + string \<times> goerr option) \<times> 'w" where
  "RunAfterTool groups meta call content execErr w =
     (if \<not> HooksEligible (htKind call) then (Inr (content, execErr), w)
      else run_groups (\<lambda>m h (c, e) w. h m (call, c, e) w) meta (on_point AfterTool groups) (content, execErr) w)"

definition before_retrieve_step :: "RunMeta \<Rightarrow> ('w, RetrieveCall, string) hook \<Rightarrow> RetrieveCall \<Rightarrow> 'w
    \<Rightarrow> (goerr + RetrieveCall) \<times> 'w" where
  "before_retrieve_step m h cur w = fold_out (\<lambda>q. cur\<lparr>rcQuery := q\<rparr>) (h m cur w)"

definition RunBeforeRetrieve :: "'w HookGroup list \<Rightarrow> RunMeta \<Rightarrow> RetrieveCall \<Rightarrow> 'w \<Rightarrow> (goerr + RetrieveCall) \<times> 'w" where
  "RunBeforeRetrieve groups meta call w =
     run_groups before_retrieve_step meta (on_point BeforeRetrieve groups) call w"

definition RunAfterRetrieve :: "'w HookGroup list \<Rightarrow> RunMeta \<Rightarrow> RetrieveCall \<Rightarrow> document list \<Rightarrow> 'w
    \<Rightarrow> (goerr + document list) \<times> 'w" where
  "RunAfterRetrieve groups meta call docs w =
     run_groups (\<lambda>m h cur w. fold_out clone_list (h m (call, clone_list cur) w)) meta
       (on_point AfterRetrieve groups) docs w"

definition before_load_step :: "RunMeta \<Rightarrow> ('w, MemoryLoadCall, string \<times> int \<times> rat \<times> string list) hook
    \<Rightarrow> MemoryLoadCall \<Rightarrow> 'w \<Rightarrow> (goerr + MemoryLoadCall) \<times> 'w" where
  "before_load_step m h cur w =
     fold_out (\<lambda>(q, l, ms, ks). cur\<lparr>mlQuery := q, mlLimit := l, mlMinScore := ms, mlKinds := clone_list ks\<rparr>)
       (h m cur w)"

definition RunBeforeMemoryLoad :: "'w HookGroup list \<Rightarrow> RunMeta \<Rightarrow> MemoryLoadCall \<Rightarrow> 'w
    \<Rightarrow> (goerr + MemoryLoadCall) \<times> 'w" where
  "RunBeforeMemoryLoad groups meta call w =
     run_groups before_load_step meta (on_point BeforeMemoryLoad groups) call w"

definition RunAfterMemoryLoad :: "'w HookGroup list \<Rightarrow> RunMeta \<Rightarrow> MemoryLoadCall \<Rightarrow> string \<Rightarrow> 'w
    \<Rightarrow> (goerr + string) \<times> 'w" where
  "RunAfterMemoryLoad groups meta call promptContext w =
     run_groups (\<lambda>m h cur w. h m (mlScope call, mlQuery call, cur) w) meta
       (on_point AfterMemoryLoad groups) promptContext w"

definition before_store_step :: "RunMeta \<Rightarrow> ('w, MemoryStoreCall, MemoryRecord \<times> string) hook
    \<Rightarrow> MemoryStoreCall \<Rightarrow> 'w \<Rightarrow> (goerr + MemoryStoreCall) \<times> 'w" where
  "before_store_step m h cur w = fold_out (\<lambda>(r, i). cur\<lparr>msRecord := r, msID := i\<rparr>) (h m cur w)"

definition RunBeforeMemoryStore :: "'w HookGroup list \<Rightarrow> RunMeta \<Rightarrow> MemoryStoreCall \<Rightarrow> 'w
    \<Rightarrow> (goerr + MemoryStoreCall) \<times> 'w" where
  "RunBeforeMemoryStore groups meta call w =
     run_groups before_store_step meta (on_point BeforeMemoryStore groups) call w"

definition RunAfterMemoryStore :: "'w HookGroup list \<Rightarrow> RunMeta \<Rightarrow> MemoryStoreCall \<Rightarrow> 'w \<Rightarrow> goerr option \<times> 'w" where
  "RunAfterMemoryStore groups meta call w =
     (case run_groups (\<lambda>m h _ w. h m call w) meta (on_point AfterMemoryStore groups) () w of
        (Inl e, w') \<Rightarrow> (Some e, w')
      | (Inr _, w') \<Rightarrow> (None, w'))"

section \<open>Order and abort\<close>

text \<open>Nil hooks are as good as absent, and the groups form one flat chain in registration order.\<close>

definition flat_chain :: "(RunMeta \<Rightarrow> 'h \<Rightarrow> 'a \<Rightarrow> 'w \<Rightarrow> (goerr + 'a) \<times> 'w) \<Rightarrow> RunMeta
    \<Rightarrow> (string \<times> 'h option list) list \<Rightarrow> ('a \<Rightarrow> 'w \<Rightarrow> (goerr + 'a) \<times> 'w) list" where
  "flat_chain step meta gs =
     concat (map (\<lambda>(name, hs). map (step (meta\<lparr>HooksGroup := name\<rparr>)) (List.map_filter id hs)) gs)"

fun run_flat :: "('a \<Rightarrow> 'w \<Rightarrow> (goerr + 'a) \<times> 'w) list \<Rightarrow> 'a \<Rightarrow> 'w \<Rightarrow> (goerr + 'a) \<times> 'w" where
  "run_flat [] cur w = (Inr cur, w)"
| "run_flat (f # fs) cur w = (case f cur w of (Inl e, w') \<Rightarrow> (Inl e, w') | (Inr cur', w') \<Rightarrow> run_flat fs cur' w')"

lemma run_flat_append:
  "run_flat (fs @ gs) cur w =
     (case run_flat fs cur w of (Inl e, w') \<Rightarrow> (Inl e, w') | (Inr cur', w') \<Rightarrow> run_flat gs cur' w')"
  by (induction fs arbitrary: cur w) (simp_all split: prod.split sum.split)

lemma run_hooks_flat: "run_hooks step hs cur w = run_flat (map step (List.map_filter id hs)) cur w"
proof (induction hs arbitrary: cur w)
  case (Cons h hs)
  then show ?case by (cases h) (simp_all add: map_filter_simps split: prod.split sum.split)
qed (simp add: map_filter_simps)

lemma run_groups_flat: "run_groups step meta gs cur w = run_flat (flat_chain step meta gs) cur w"
proof (induction gs arbitrary: cur w)
  case (Cons g gs)
  obtain name hs where g: "g = (name, hs)" by fastforce
  show ?case
    using Cons by (simp add: g flat_chain_def run_flat_append run_hooks_flat split: prod.split sum.split)
qed (simp add: flat_chain_def)

text \<open>A chain stops at its first error: what follows it is not run.\<close>

lemma run_flat_abort:
  "run_flat fs cur w = (Inl e, w') \<Longrightarrow> run_flat (fs @ gs) cur w = (Inl e, w')"
  by (simp add: run_flat_append)

lemma run_groups_no_hooks [simp]:
  "\<forall>(name, hs) \<in> set gs. List.map_filter id hs = [] \<Longrightarrow> run_groups step meta gs cur w = (Inr cur, w)"
proof -
  assume "\<forall>(name, hs) \<in> set gs. List.map_filter id hs = []"
  then have "flat_chain step meta gs = []" by (auto simp: flat_chain_def split: prod.splits)
  then show ?thesis by (simp add: run_groups_flat)
qed

section \<open>What hooks cannot change\<close>

locale hook_chain =
  fixes step :: "RunMeta \<Rightarrow> 'h \<Rightarrow> 'a \<Rightarrow> 'w \<Rightarrow> (goerr + 'a) \<times> 'w"
    and frozen :: "'a \<Rightarrow> 'b"
  assumes step_frozen: "step m h cur w = (Inr cur', w') \<Longrightarrow> frozen cur' = frozen cur"
begin

lemma flat_frozen:
  "\<forall>f \<in> set fs. \<exists>m h. f = step m h \<Longrightarrow> run_flat fs cur w = (Inr cur', w') \<Longrightarrow> frozen cur' = frozen cur"
proof (induction fs arbitrary: cur w)
  case (Cons f fs)
  obtain m h where f: "f = step m h" using Cons.prems(1) by auto
  obtain c w1 where s: "f cur w = (Inr c, w1)" and r: "run_flat fs c w1 = (Inr cur', w')"
    using Cons.prems(2) by (auto split: prod.splits sum.splits)
  have "frozen c = frozen cur" using step_frozen s f by blast
  moreover have "frozen cur' = frozen c" using Cons.IH r Cons.prems(1) by simp
  ultimately show ?case by simp
qed simp

lemma groups_frozen: "run_groups step meta gs cur w = (Inr cur', w') \<Longrightarrow> frozen cur' = frozen cur"
  unfolding run_groups_flat by (rule flat_frozen) (auto simp: flat_chain_def)

end

interpretation before_tool: hook_chain before_tool_step "\<lambda>c. (htID c, htName c, htDisplayName c, htKind c)"
  by unfold_locales (auto simp: before_tool_step_def fold_out_def split: prod.splits sum.splits)

interpretation before_retrieve: hook_chain before_retrieve_step "\<lambda>c. (rcMode c, rcName c)"
  by unfold_locales (auto simp: before_retrieve_step_def fold_out_def split: prod.splits sum.splits)

interpretation before_load: hook_chain before_load_step mlScope
  by unfold_locales (auto simp: before_load_step_def fold_out_def split: prod.splits sum.splits)

interpretation before_store: hook_chain before_store_step msScope
  by unfold_locales (auto simp: before_store_step_def fold_out_def split: prod.splits sum.splits)

lemma RunBeforeTool_frozen:
  "RunBeforeTool groups meta call w = (Inr call', w') \<Longrightarrow>
   htID call' = htID call \<and> htName call' = htName call \<and> htKind call' = htKind call"
  by (auto simp: RunBeforeTool_def dest!: before_tool.groups_frozen split: if_splits)

lemma RunBeforeRetrieve_frozen:
  "RunBeforeRetrieve groups meta call w = (Inr call', w') \<Longrightarrow> rcMode call' = rcMode call \<and> rcName call' = rcName call"
  by (auto simp: RunBeforeRetrieve_def dest!: before_retrieve.groups_frozen)

lemma RunBeforeMemoryLoad_frozen:
  "RunBeforeMemoryLoad groups meta call w = (Inr call', w') \<Longrightarrow> mlScope call' = mlScope call"
  by (auto simp: RunBeforeMemoryLoad_def dest!: before_load.groups_frozen)

lemma RunBeforeMemoryStore_frozen:
  "RunBeforeMemoryStore groups meta call w = (Inr call', w') \<Longrightarrow> msScope call' = msScope call"
  by (auto simp: RunBeforeMemoryStore_def dest!: before_store.groups_frozen)

end
