(* ===== verification/RuntimeTypes.thy ===== *)
theory RuntimeTypes
  imports Hooks
begin

text \<open>
  The parts a runtime is wired from (\<open>internal/runtime/base/runtime.go\<close>, \<open>types.go\<close>, \<open>pkg/interfaces\<close>):
  tools, the LLM client and its streams, retrievers, the conversation store, and the configuration.
  Each external part is a record of functions on the world.
\<close>

section \<open>External parts\<close>

text \<open>How a call into user code can end: it returns, it panics, or it outlives its deadline.\<close>

datatype 'a outcome = Returned "goerr + 'a" | Panicked | Hangs

record 'w Tool =
  tName :: string
  tDisplayName :: string
  tDescription :: string
  tParameters :: gomap
  tKind :: "ToolKind option"
  tApproval :: "bool option"
  tAuthorizer :: "(gomap \<Rightarrow> 'w \<Rightarrow> (goerr + bool \<times> string) \<times> 'w) option"
  tExecute :: "gomap \<Rightarrow> 'w \<Rightarrow> goany outcome \<times> 'w"

record LLMStream =
  strChunks :: "LLMStreamChunk option list"
  strErr :: "goerr option"
  strResult :: "LLMResponse option"

record 'w LLMClient =
  GetModel :: string
  GetProvider :: string
  IsStreamSupported :: bool
  Generate :: "LLMRequest \<Rightarrow> 'w \<Rightarrow> (goerr + LLMResponse) \<times> 'w"
  GenerateStream :: "LLMRequest \<Rightarrow> 'w \<Rightarrow> (goerr + LLMStream) \<times> 'w"

record 'w Retriever =
  rName :: string
  rSearch :: "string \<Rightarrow> 'w \<Rightarrow> (goerr + document list) \<times> 'w"

record 'w Conversation =
  convAddMessage :: "string \<Rightarrow> Message \<Rightarrow> 'w \<Rightarrow> goerr option \<times> 'w"
  convListMessages :: "string \<Rightarrow> int \<Rightarrow> 'w \<Rightarrow> (goerr + Message list) \<times> 'w"

section \<open>The runtime\<close>

datatype ToolExecutionMode = ModeParallel | ModeSequential | ModeEmpty | ModeOther string

record 'w Runtime =
  rtName :: string
  rtSystemPrompt :: string
  rtResponseFormat :: "ResponseFormat option"
  rtClient :: "'w LLMClient"
  rtSampling :: "LLMSampling option"
  rtApprovalPolicy :: "('w Tool \<Rightarrow> bool) option"
  rtRetrievers :: "'w Retriever list"
  rtRetrieverMode :: RetrieverMode
  rtConversation :: "'w Conversation option"
  rtConversationSize :: int
  rtSaveOnIteration :: bool
  rtMemory :: "'w MemConfig option"
  rtMaxIterations :: int
  rtMaxTokens :: int64
  rtHooks :: "'w HookGroup list"
  rtToolMode :: ToolExecutionMode

record ToolCallRequest =
  tcrID :: string
  tcrName :: string
  tcrDisplayName :: string
  tcrKind :: ToolKind
  tcrArgs :: gomap
  tcrNeedsApproval :: bool

record LLMResult =
  lrContent :: string
  lrToolCalls :: "ToolCallRequest list"
  lrUsage :: "LLMUsage option"

definition ToolToSpec :: "'w Tool \<Rightarrow> ToolSpec" where
  "ToolToSpec t = \<lparr>SpecName = tName t, SpecDescription = tDescription t, SpecParameters = tParameters t\<rparr>"

definition ToolsToSpecs :: "'w Tool list \<Rightarrow> ToolSpec list" where
  "ToolsToSpecs tools = map ToolToSpec tools"

definition FindToolByName :: "'w Tool list \<Rightarrow> string \<Rightarrow> 'w Tool option" where
  "FindToolByName tools name = find (\<lambda>t. tName t = name) tools"

definition RequiresApproval :: "'w Runtime \<Rightarrow> 'w Tool \<Rightarrow> bool" where
  "RequiresApproval rt t =
     (case rtApprovalPolicy rt of
        None \<Rightarrow> (case tApproval t of Some True \<Rightarrow> True | _ \<Rightarrow> False)
      | Some policy \<Rightarrow> policy t)"

definition hookRunMeta :: "string \<Rightarrow> int \<Rightarrow> RunMeta" where
  "hookRunMeta runID iteration = \<lparr>RunID = runID, Iteration = iteration, HooksGroup = []\<rparr>"

lemma FindToolByName_Some: "FindToolByName tools n = Some t \<Longrightarrow> t \<in> set tools \<and> tName t = n"
  by (auto simp: FindToolByName_def find_Some_iff in_set_conv_nth)

section \<open>Metric names\<close>

definition MetricLLMCallStarted :: string where "MetricLLMCallStarted = ''agent.llm.call.started''"
definition MetricLLMCallCompleted :: string where "MetricLLMCallCompleted = ''agent.llm.call.completed''"
definition MetricLLMCallFailed :: string where "MetricLLMCallFailed = ''agent.llm.call.failed''"
definition MetricLLMTokensInput :: string where "MetricLLMTokensInput = ''agent.llm.tokens.input''"
definition MetricLLMTokensOutput :: string where "MetricLLMTokensOutput = ''agent.llm.tokens.output''"
definition MetricLLMLatencyMs :: string where "MetricLLMLatencyMs = ''agent.llm.latency_ms''"
definition MetricToolCallStarted :: string where "MetricToolCallStarted = ''agent.tool.call.started''"
definition MetricToolCallCompleted :: string where "MetricToolCallCompleted = ''agent.tool.call.completed''"
definition MetricToolCallFailed :: string where "MetricToolCallFailed = ''agent.tool.call.failed''"
definition MetricToolLatencyMs :: string where "MetricToolLatencyMs = ''agent.tool.latency_ms''"
definition MetricRetrieverCallStarted :: string where "MetricRetrieverCallStarted = ''agent.retriever.call.started''"
definition MetricRetrieverCallCompleted :: string where "MetricRetrieverCallCompleted = ''agent.retriever.call.completed''"
definition MetricRetrieverCallFailed :: string where "MetricRetrieverCallFailed = ''agent.retriever.call.failed''"
definition MetricRetrieverLatencyMs :: string where "MetricRetrieverLatencyMs = ''agent.retriever.latency_ms''"
definition MetricMemoryRecallStarted :: string where "MetricMemoryRecallStarted = ''agent.memory.recall.started''"
definition MetricMemoryRecallCompleted :: string where "MetricMemoryRecallCompleted = ''agent.memory.recall.completed''"
definition MetricMemoryRecallFailed :: string where "MetricMemoryRecallFailed = ''agent.memory.recall.failed''"
definition MetricMemoryRecallLatencyMs :: string where "MetricMemoryRecallLatencyMs = ''agent.memory.recall.latency_ms''"
definition MetricMemoryStoreStarted :: string where "MetricMemoryStoreStarted = ''agent.memory.store.started''"
definition MetricMemoryStoreCompleted :: string where "MetricMemoryStoreCompleted = ''agent.memory.store.completed''"
definition MetricMemoryStoreFailed :: string where "MetricMemoryStoreFailed = ''agent.memory.store.failed''"
definition MetricMemoryStoreLatencyMs :: string where "MetricMemoryStoreLatencyMs = ''agent.memory.store.latency_ms''"
definition MetricMemoryDedupStarted :: string where "MetricMemoryDedupStarted = ''agent.memory.dedup.started''"
definition MetricMemoryDedupCompleted :: string where "MetricMemoryDedupCompleted = ''agent.memory.dedup.completed''"
definition MetricMemoryDedupFailed :: string where "MetricMemoryDedupFailed = ''agent.memory.dedup.failed''"
definition MetricMemoryDedupLatencyMs :: string where "MetricMemoryDedupLatencyMs = ''agent.memory.dedup.latency_ms''"
definition MetricMemoryExtractStarted :: string where "MetricMemoryExtractStarted = ''agent.memory.extract.started''"
definition MetricMemoryExtractCompleted :: string where "MetricMemoryExtractCompleted = ''agent.memory.extract.completed''"
definition MetricMemoryExtractFailed :: string where "MetricMemoryExtractFailed = ''agent.memory.extract.failed''"
definition MetricMemoryExtractLatencyMs :: string where "MetricMemoryExtractLatencyMs = ''agent.memory.extract.latency_ms''"

lemmas llm_metrics = MetricLLMCallStarted_def MetricLLMCallCompleted_def MetricLLMCallFailed_def
  MetricLLMTokensInput_def MetricLLMTokensOutput_def MetricLLMLatencyMs_def

lemmas tool_metrics = MetricToolCallStarted_def MetricToolCallCompleted_def MetricToolCallFailed_def
  MetricToolLatencyMs_def

lemmas retriever_metrics = MetricRetrieverCallStarted_def MetricRetrieverCallCompleted_def
  MetricRetrieverCallFailed_def MetricRetrieverLatencyMs_def

end
