(* ===== verification/LLMFacts.thy ===== *)
theory LLMFacts
  imports LLMExec
begin

text \<open>
  Theorems about one LLM call: the event grammar of the streaming call, the accounting of the call
  metrics, and the resolution of tool calls.
\<close>

section \<open>The grammar of a streamed answer\<close>

text \<open>Consumers of the event stream follow this automaton: one text message, opened once and closed
  once, and reasoning blocks, each with one message, that neither overlap each other nor surround a text
  delta.\<close>

datatype text_state = TBefore | TOpen | TDone
datatype reasoning_state = RClosed | RPhase string | RMsg string

fun ev_next :: "string \<Rightarrow> text_state \<times> reasoning_state \<Rightarrow> AgentEvent \<Rightarrow> (text_state \<times> reasoning_state) option" where
  "ev_next mid (t, r) (EvTextMessageStart i _) = (if i = mid \<and> t = TBefore \<and> r = RClosed then Some (TOpen, r) else None)"
| "ev_next mid (t, r) (EvTextMessageContent i _) = (if i = mid \<and> t = TOpen \<and> r = RClosed then Some (t, r) else None)"
| "ev_next mid (t, r) (EvTextMessageEnd i) = (if i = mid \<and> t = TOpen \<and> r = RClosed then Some (TDone, r) else None)"
| "ev_next mid (t, r) (EvReasoningStart i) = (if t \<noteq> TDone \<and> r = RClosed then Some (t, RPhase i) else None)"
| "ev_next mid (t, r) (EvReasoningMessageStart i _) = (if r = RPhase i then Some (t, RMsg i) else None)"
| "ev_next mid (t, r) (EvReasoningMessageContent i _) = (if r = RMsg i then Some (t, r) else None)"
| "ev_next mid (t, r) (EvReasoningMessageEnd i) = (if r = RMsg i then Some (t, RPhase i) else None)"
| "ev_next mid (t, r) (EvReasoningEnd i) = (if r = RPhase i then Some (t, RClosed) else None)"
| "ev_next mid (t, r) _ = None"

fun ev_run :: "string \<Rightarrow> text_state \<times> reasoning_state \<Rightarrow> AgentEvent list \<Rightarrow> (text_state \<times> reasoning_state) option" where
  "ev_run mid q [] = Some q"
| "ev_run mid q (e # es) = (case ev_next mid q e of None \<Rightarrow> None | Some q' \<Rightarrow> ev_run mid q' es)"

lemma ev_run_append:
  "ev_run mid q (es @ fs) = (case ev_run mid q es of None \<Rightarrow> None | Some q' \<Rightarrow> ev_run mid q' fs)"
  by (induction es arbitrary: q) (simp_all split: option.split)

text \<open>An emit function that publishes every event on one channel.\<close>

definition faithful_emit :: "string \<Rightarrow> (AgentEvent \<Rightarrow> 'w st \<Rightarrow> 'w st) \<Rightarrow> bool" where
  "faithful_emit ch em \<longleftrightarrow> (\<forall>ev s. \<not> is_custom ev \<longrightarrow> trace (em ev s) = trace s @ [Published ch ev])"

text \<open>An emit function that may drop events (a nil function, a full or missing bus) but does nothing else.\<close>

definition quiet_emit :: "(AgentEvent \<Rightarrow> 'w st \<Rightarrow> 'w st) \<Rightarrow> bool" where
  "quiet_emit em \<longleftrightarrow> (\<forall>ev s. \<exists>es. trace (em ev s) = trace s @ es \<and> (\<forall>e \<in> set es. \<exists>c. e = Published c ev))"

lemma publish_faithful: "trim_space ch \<noteq> [] \<Longrightarrow> faithful_emit ch (publishEventToChannel env True ch)"
  by (auto simp: faithful_emit_def publishEventToChannel_def encodable_def is_custom_def split: AgentEvent.splits)

lemma publish_quiet: "quiet_emit (publishEventToChannel env bus ch)"
  by (auto simp: quiet_emit_def publishEventToChannel_def)

definition state_of :: "StreamState \<Rightarrow> text_state \<times> reasoning_state" where
  "state_of ss =
     (if textMsgOpen ss then TOpen else TBefore,
      if reasoningMsgOpen ss then RMsg (reasoningMID ss)
      else if reasoningPhaseOpen ss then RPhase (reasoningMID ss) else RClosed)"

text \<open>The events published since \<open>s0\<close> lead the automaton to the state the call keeps.\<close>

definition drives :: "'w ExecuteLLMInput \<Rightarrow> 'w st \<Rightarrow> StreamState \<times> 'w st \<Rightarrow> bool" where
  "drives input s0 = (\<lambda>(ss, s).
     (\<exists>es. trace s = trace s0 @ es \<and> ev_run (liMessageID input) (TBefore, RClosed) (published es) = Some (state_of ss))
     \<and> (reasoningMsgOpen ss \<longleftrightarrow> reasoningPhaseOpen ss))"

lemma drives_start: "drives input s (stream_start, s)"
  by (simp add: drives_def stream_start_def state_of_def)

lemma drivesI:
  assumes "drives input s0 (ss, s)" and "trace s' = trace s @ fs"
    and "ev_run (liMessageID input) (state_of ss) (published fs) = Some (state_of ss')"
    and "reasoningMsgOpen ss' \<longleftrightarrow> reasoningPhaseOpen ss'"
  shows "drives input s0 (ss', s')"
  using assms by (auto simp: drives_def ev_run_append)

lemma after_trace: "runAfterLLMResponse rt input r s = (x, s') \<Longrightarrow> trace s' = trace s"
  by (auto simp: runAfterLLMResponse_def dest: trace_ext split: if_splits)

locale published_call =
  fixes input :: "'w ExecuteLLMInput" and ch :: string
  assumes em: "faithful_emit ch (liEmit input)"
begin

lemma emit_trace: "\<not> is_custom ev \<Longrightarrow> trace (liEmit input ev s) = trace s @ [Published ch ev]"
  using em by (simp add: faithful_emit_def)

lemma emit_text: "trace (liEmit input (EvTextMessageContent i d) s) = trace s @ [Published ch (EvTextMessageContent i d)]"
  and emit_thought: "trace (liEmit input (EvReasoningMessageContent i d) s)
    = trace s @ [Published ch (EvReasoningMessageContent i d)]"
  by (simp_all add: emit_trace is_custom_def)

lemma drives_flush:
  assumes "drives input s0 (ss, s)" and "flushReasoning input (ss, s) = (ss', s')"
  shows "drives input s0 (ss', s') \<and> \<not> reasoningPhaseOpen ss' \<and> textMsgOpen ss' = textMsgOpen ss"
proof (cases "reasoningPhaseOpen ss")
  case True
  then have m: "reasoningMsgOpen ss" using assms(1) by (simp add: drives_def)
  then have ss': "ss' = ss\<lparr>reasoningMsgOpen := False, reasoningPhaseOpen := False\<rparr>"
    and s': "trace s' = trace s @ [Published ch (EvReasoningMessageEnd (reasoningMID ss)),
                               Published ch (EvReasoningEnd (reasoningMID ss))]"
    using assms(2) True by (auto simp: flushReasoning_def Let_def emit_trace is_custom_def)
  have "drives input s0 (ss', s')"
    by (rule drivesI [OF assms(1) s']) (use m in \<open>simp_all add: ss' state_of_def\<close>)
  then show ?thesis using ss' by simp
next
  case False
  then show ?thesis using assms by (auto simp: flushReasoning_def Let_def drives_def)
qed

lemma drives_open_text:
  assumes "drives input s0 (ss, s)" "\<not> reasoningPhaseOpen ss" and "openTextMsg input (ss, s) = (ss', s')"
  shows "drives input s0 (ss', s') \<and> \<not> reasoningPhaseOpen ss' \<and> textMsgOpen ss'"
proof (cases "textMsgOpen ss")
  case False
  then have ss': "ss' = ss\<lparr>textMsgOpen := True\<rparr>"
    and s': "trace s' = trace s @ [Published ch (EvTextMessageStart (liMessageID input) ''assistant'')]"
    using assms(3) by (auto simp: openTextMsg_def emit_trace is_custom_def)
  have "\<not> reasoningMsgOpen ss" using assms(1,2) by (simp add: drives_def)
  then have "drives input s0 (ss', s')"
    by (intro drivesI [OF assms(1) s']) (use assms(2) False in \<open>simp_all add: ss' state_of_def\<close>)
  then show ?thesis using ss' assms(2) by simp
next
  case True
  then show ?thesis using assms by (auto simp: openTextMsg_def)
qed

lemma drives_text:
  assumes "drives input s0 (ss, s)" "\<not> reasoningPhaseOpen ss" "textMsgOpen ss"
  shows "drives input s0 (ss, liEmit input (EvTextMessageContent (liMessageID input) d) s)"
proof (rule drivesI [OF assms(1) emit_text])
  have "\<not> reasoningMsgOpen ss" using assms(1,2) by (simp add: drives_def)
  then show "ev_run (liMessageID input) (state_of ss) (published [Published ch (EvTextMessageContent (liMessageID input) d)])
      = Some (state_of ss)" "reasoningMsgOpen ss = reasoningPhaseOpen ss"
    using assms(2,3) by (simp_all add: state_of_def)
qed

lemma drives_reasoning:
  assumes "drives input s0 (ss, s)" and o: "openReasoning env input (ss, s) = (ss', s')"
  shows "drives input s0 (ss', liEmit input (EvReasoningMessageContent (reasoningMID ss') d) s')"
proof -
  have "drives input s0 (ss', s') \<and> reasoningMsgOpen ss'"
  proof (cases "reasoningPhaseOpen ss")
    case True
    then show ?thesis using assms by (auto simp: openReasoning_def drives_def)
  next
    case False
    then have nm: "\<not> reasoningMsgOpen ss" using assms(1) by (simp add: drives_def)
    obtain mid s1 where u: "ext (uuid env) s = (mid, s1)" by fastforce
    have ss': "ss' = ss\<lparr>reasoningMID := mid, reasoningPhaseOpen := True, reasoningMsgOpen := True\<rparr>"
      and s': "trace s' = trace s @ [Published ch (EvReasoningStart mid),
                                   Published ch (EvReasoningMessageStart mid ''reasoning'')]"
      using o False u trace_ext [OF u] by (auto simp: openReasoning_def Let_def emit_trace is_custom_def)
    have "drives input s0 (ss', s')"
      by (rule drivesI [OF assms(1) s']) (use nm False in \<open>simp_all add: ss' state_of_def\<close>)
    then show ?thesis using ss' by simp
  qed
  then have d: "drives input s0 (ss', s')" and m: "reasoningMsgOpen ss'" by blast+
  show ?thesis
    by (rule drivesI [OF d emit_thought]) (use m d in \<open>simp_all add: state_of_def drives_def\<close>)
qed

lemma drives_chunk:
  assumes "drives input s0 (ss, s)"
  shows "drives input s0 (stream_chunk env input c (ss, s))"
proof -
  define st1 where "st1 = (if ContentDelta c \<noteq> []
     then (let (ss, s) = openTextMsg input (flushReasoning input (ss, s)) in
           (ss, liEmit input (EvTextMessageContent (liMessageID input) (ContentDelta c)) s))
     else (ss, s))"
  obtain ssf sf where f: "flushReasoning input (ss, s) = (ssf, sf)" by fastforce
  obtain sso so where o: "openTextMsg input (ssf, sf) = (sso, so)" by fastforce
  note F = drives_flush [OF assms f]
  note O = drives_open_text [OF _ _ o]
  have "drives input s0 st1"
    using assms F O drives_text by (auto simp: st1_def f o)
  then obtain ss1 s1 where st1: "st1 = (ss1, s1)" "drives input s0 (ss1, s1)" by (cases st1) auto
  obtain ss2 s2 where r: "openReasoning env input (ss1, s1) = (ss2, s2)" by fastforce
  show ?thesis
    using drives_reasoning [OF st1(2) r] st1 r
    by (simp add: stream_chunk_def Let_def flip: st1_def)
qed

lemma drives_loop:
  "drives input s0 (ss, s) \<Longrightarrow> drives input s0 (stream_loop env input cs (ss, s))"
proof (induction cs arbitrary: ss s)
  case (Cons c cs)
  show ?case
  proof (cases c)
    case (Some ck)
    obtain ss' s' where st: "stream_chunk env input ck (ss, s) = (ss', s')" by fastforce
    have "drives input s0 (ss', s')" using drives_chunk [OF Cons.prems, of env ck] st by simp
    then show ?thesis using Cons.IH Some st by simp
  qed (use Cons in simp)
qed simp

lemma drives_finalize:
  assumes "drives input s0 (ss, s)" "\<not> reasoningPhaseOpen ss"
  shows "\<exists>es. trace (snd (finalizeAssistantText input result (ss, s))) = trace s0 @ es
     \<and> ev_run (liMessageID input) (TBefore, RClosed) (published es) = Some (TDone, RClosed)"
proof -
  obtain es where es: "trace s = trace s0 @ es"
      "ev_run (liMessageID input) (TBefore, RClosed) (published es) = Some (state_of ss)"
    and nm: "\<not> reasoningMsgOpen ss"
    using assms by (auto simp: drives_def)
  show ?thesis
    using assms(2) nm es
    by (cases "textMsgOpen ss")
       (auto simp: finalizeAssistantText_def closeTextMsg_def openTextMsg_def emit_trace is_custom_def ev_run_append state_of_def)
qed

lemma drives_silent:
  "drives input s0 (ss, s) \<Longrightarrow> trace s' = trace s @ fs \<Longrightarrow> published fs = [] \<Longrightarrow> drives input s0 (ss, s')"
  by (rule drivesI) (auto simp: drives_def)

lemma record_tokens_trace: "\<exists>fs. trace (record_tokens as u s) = trace s @ fs \<and> published fs = []"
  by (auto simp: record_tokens_def split: option.split)

lemma finish_stream_events:
  assumes d: "drives input s0 (ss, s)" and np: "\<not> reasoningPhaseOpen ss"
    and r: "finish_stream rt input resp (ss, s) = (res, s')"
  shows "\<exists>es. trace s' = trace s0 @ es \<and>
     (case res of
        Inr _ \<Rightarrow> ev_run (liMessageID input) (TBefore, RClosed) (published es) = Some (TDone, RClosed)
      | Inl _ \<Rightarrow> ev_run (liMessageID input) (TBefore, RClosed) (published es)
                   = Some (if textMsgOpen ss then TOpen else TBefore, RClosed))"
proof -
  obtain a s4 where a: "runAfterLLMResponse rt input resp s = (a, s4)" by fastforce
  note t4 = after_trace [OF a]
  have nm: "\<not> reasoningMsgOpen ss" using d np by (simp add: drives_def)
  have st: "state_of ss = (if textMsgOpen ss then TOpen else TBefore, RClosed)"
    using np nm by (simp add: state_of_def)
  have failed: "\<exists>es. trace (llm_failed as s4) = trace s0 @ es \<and>
      ev_run (liMessageID input) (TBefore, RClosed) (published es) = Some (state_of ss)" for as
    using d t4 by (auto simp: llm_failed_def drives_def)
  show ?thesis
  proof (cases a)
    case (Inl e)
    then show ?thesis using r a failed st by (auto simp: finish_stream_def Let_def)
  next
    case (Inr resp')
    show ?thesis
    proof (cases "llmResponseToResult rt resp' (liTools input)")
      case (Inl e)
      then have "res = Inl e" "s' = llm_failed (llm_attrs rt) s4"
        using r a Inr by (simp_all add: finish_stream_def Let_def)
      then show ?thesis using failed st by auto
    next
      case (Inr result)
      define s5 where "s5 = record_tokens (llm_attrs rt) (RespUsage resp')
        (count MetricLLMCallCompleted (llm_attrs rt) (observe_ms MetricLLMLatencyMs (llm_attrs rt) s4))"
      obtain fs where "trace s5 = (trace s4 @ [Histogram MetricLLMLatencyMs (llm_attrs rt),
          Counter MetricLLMCallCompleted (llm_attrs rt)]) @ fs" "published fs = []"
        using record_tokens_trace [of "llm_attrs rt" "RespUsage resp'" "count MetricLLMCallCompleted (llm_attrs rt)
          (observe_ms MetricLLMLatencyMs (llm_attrs rt) s4)"] unfolding s5_def by auto
      then have "drives input s0 (ss, s5)"
        by (intro drives_silent [OF d, where fs = "Histogram MetricLLMLatencyMs (llm_attrs rt) #
          Counter MetricLLMCallCompleted (llm_attrs rt) # fs"]) (simp_all add: t4)
      note fin = drives_finalize [OF this np, of result]
      have "res = Inr result" "s' = snd (finalizeAssistantText input result (ss, s5))"
        using r a \<open>a = Inr resp'\<close> Inr by (simp_all add: finish_stream_def Let_def s5_def)
      then show ?thesis using fin by simp
    qed
  qed
qed

text \<open>A successful streaming call emits exactly one complete text message and only complete reasoning
  blocks; a failed one never leaves a reasoning block open, but may leave its text message open.\<close>

lemma stream_grammar:
  assumes "ExecuteLLMStream env rt input s = (res, s')"
  shows "\<exists>es. trace s' = trace s @ es \<and>
     (case res of
        Inr _ \<Rightarrow> ev_run (liMessageID input) (TBefore, RClosed) (published es) = Some (TDone, RClosed)
      | Inl _ \<Rightarrow> (\<exists>t. t \<noteq> TDone \<and>
          ev_run (liMessageID input) (TBefore, RClosed) (published es) = Some (t, RClosed)))"
proof -
  obtain b s1 where b: "runBeforeLLMRequest rt input
      (BuildLLMRequest rt (liMessages input) (liSkipTools input) (liMemoryContext input)
         (liRetrieverContext input) (liTools input)) s = (b, s1)" by fastforce
  have t1: "trace s1 = trace s"
    using b by (auto simp: runBeforeLLMRequest_def dest: trace_ext split: if_splits)
  show ?thesis
  proof (cases b)
    case (Inl e)
    then show ?thesis using assms b t1 by (auto simp: ExecuteLLMStream_def)
  next
    case req: (Inr req)
    define s2 where "s2 = logged (LLMCalled req) (count MetricLLMCallStarted (llm_attrs rt) s1)"
    have t2: "trace s2 = trace s @ [Counter MetricLLMCallStarted (llm_attrs rt), LLMCalled req]"
      by (simp add: s2_def t1)
    have start: "drives input s (stream_start, s3)" if "trace s3 = trace s2" for s3
      by (rule drives_silent [OF drives_start, where fs = "[Counter MetricLLMCallStarted (llm_attrs rt), LLMCalled req]"])
         (simp_all add: that t2)
    show ?thesis
    proof (cases "IsStreamSupported (rtClient rt)")
      case False
      obtain g s3 where g: "ext (Generate (rtClient rt) req) s2 = (g, s3)" by fastforce
      note t3 = trace_ext [OF g]
      show ?thesis
      proof (cases g)
        case (Inl e)
        then show ?thesis using assms b req False g t3 t2 by (auto simp: ExecuteLLMStream_def Let_def s2_def llm_failed_def)
      next
        case (Inr resp)
        have f: "finish_stream rt input resp (stream_start, s3) = (res, s')"
          using assms b req False g Inr by (simp add: ExecuteLLMStream_def Let_def s2_def)
        show ?thesis
          using finish_stream_events [OF start [OF t3] _ f]
          by (cases res) (auto simp: stream_start_def)
      qed
    next
      case True
      obtain g s3 where g: "ext (GenerateStream (rtClient rt) req) s2 = (g, s3)" by fastforce
      note t3 = trace_ext [OF g]
      show ?thesis
      proof (cases g)
        case (Inl e)
        then show ?thesis using assms b req True g t3 t2 by (auto simp: ExecuteLLMStream_def Let_def s2_def llm_failed_def)
      next
        case (Inr stream)
        obtain ssl sl where l: "stream_loop env input (strChunks stream) (stream_start, s3) = (ssl, sl)" by fastforce
        obtain ss s4 where f: "flushReasoning input (ssl, sl) = (ss, s4)" by fastforce
        have dl: "drives input s (ssl, sl)" using drives_loop [OF start [OF t3]] l by metis
        have d: "drives input s (ss, s4)" "\<not> reasoningPhaseOpen ss" using drives_flush [OF dl f] by blast+
        have failed: "\<exists>es t. t \<noteq> TDone \<and> trace (llm_failed as s4) = trace s @ es \<and>
            ev_run (liMessageID input) (TBefore, RClosed) (published es) = Some (t, RClosed)" for as
          using d by (auto simp: llm_failed_def drives_def state_of_def)
        show ?thesis
        proof (cases "strErr stream = None \<and> strResult stream \<noteq> None")
          case False
          then have "\<exists>e. res = Inl e \<and> s' = llm_failed (llm_attrs rt) s4"
            using assms b req True g Inr l f by (auto simp: ExecuteLLMStream_def Let_def s2_def split: option.splits)
          then show ?thesis using failed by fastforce
        next
          case ok: True
          then obtain resp where r: "strResult stream = Some resp" by auto
          have "finish_stream rt input resp (ss, s4) = (res, s')"
            using assms b req True g Inr l f ok r by (simp add: ExecuteLLMStream_def Let_def s2_def)
          from finish_stream_events [OF d this] show ?thesis by (cases res) auto
        qed
      qed
    qed
  qed
qed

end


text \<open>The loop's emit function publishes on the channel of the run.\<close>

interpretation bus: published_call "input\<lparr>liEmit := publishEventToChannel env True (localChannelName runID)\<rparr>"
    "localChannelName runID" for input env runID
  by unfold_locales (simp add: publish_faithful)

section \<open>Accounting of the calls\<close>

text \<open>A step that only publishes events.\<close>

definition pub_only :: "'w st \<Rightarrow> 'w st \<Rightarrow> bool" where
  "pub_only s s' \<longleftrightarrow> (\<exists>es. trace s' = trace s @ es \<and> (\<forall>e \<in> set es. \<exists>c ev. e = Published c ev \<and> \<not> lifecycle ev))"

lemma pub_only_refl [simp, intro]: "pub_only s s"
  by (simp add: pub_only_def)

lemma pub_only_trans [trans]: "pub_only a b \<Longrightarrow> pub_only b c \<Longrightarrow> pub_only a c"
  by (auto simp: pub_only_def)

lemma pub_only_eq: "trace s' = trace s \<Longrightarrow> pub_only s s'"
  by (simp add: pub_only_def)

lemma counted_published: "\<forall>e \<in> set es. \<exists>c ev. e = Published c ev \<Longrightarrow> counted name es = 0"
  by (induction es) auto

definition llm_calls :: "effect list \<Rightarrow> nat" where
  "llm_calls es = length (filter (\<lambda>e. case e of LLMCalled _ \<Rightarrow> True | _ \<Rightarrow> False) es)"

lemma llm_calls_published: "\<forall>e \<in> set es. \<exists>c ev. e = Published c ev \<Longrightarrow> llm_calls es = 0"
  by (induction es) (auto simp: llm_calls_def)

text \<open>The number of provider calls, and of each of the three call counters, in a log.\<close>

definition tallies :: "effect list \<Rightarrow> nat \<times> nat \<times> nat \<times> nat" where
  "tallies es = (llm_calls es, counted MetricLLMCallStarted es, counted MetricLLMCallCompleted es,
                 counted MetricLLMCallFailed es)"

text \<open>What a call of the model adds to the log.\<close>

definition llm_effect :: "effect \<Rightarrow> bool" where
  "llm_effect e =
     (case e of Counter _ _ \<Rightarrow> True | Histogram _ _ \<Rightarrow> True | Published _ ev \<Rightarrow> \<not> lifecycle ev | LLMCalled _ \<Rightarrow> True | _ \<Rightarrow> False)"

lemma llm_effect_simps [simp]:
  "llm_effect (Counter n as)" "llm_effect (Histogram n as)" "llm_effect (Published c ev) = (\<not> lifecycle ev)" "llm_effect (LLMCalled req)"
  by (simp_all add: llm_effect_def)

definition tallied :: "'w st \<Rightarrow> 'w st \<Rightarrow> nat \<times> nat \<times> nat \<times> nat \<Rightarrow> bool" where
  "tallied s s' t \<longleftrightarrow> (\<exists>es. trace s' = trace s @ es \<and> tallies es = t \<and> (\<forall>e \<in> set es. llm_effect e))"

lemma tallied_adds: "tallied s s' t \<Longrightarrow> adds llm_effect s s'"
  by (auto simp: tallied_def adds_def)

lemma tallies_append: "tallies (es @ fs) =
    (case tallies es of (a, b, c, d) \<Rightarrow> case tallies fs of (a', b', c', d') \<Rightarrow> (a + a', b + b', c + c', d + d'))"
  by (simp add: tallies_def llm_calls_def)

lemma tallied_pub:
  assumes "tallied s s1 t" and "pub_only s1 s2"
  shows "tallied s s2 t"
proof -
  obtain es where es: "trace s1 = trace s @ es" "tallies es = t" "\<forall>e \<in> set es. llm_effect e"
    using assms(1) by (auto simp: tallied_def)
  obtain fs where fs: "trace s2 = trace s1 @ fs" "\<forall>e \<in> set fs. \<exists>c ev. e = Published c ev \<and> \<not> lifecycle ev"
    using assms(2) by (auto simp: pub_only_def)
  have "\<forall>e \<in> set fs. \<exists>c ev. e = Published c ev" using fs(2) by blast
  then have "tallies fs = (0, 0, 0, 0)" by (simp add: tallies_def counted_published llm_calls_published)
  then have "tallies (es @ fs) = t" using es(2) by (simp add: tallies_append split: prod.split)
  then show ?thesis using es(1,3) fs by (fastforce simp: tallied_def)
qed

lemma tallied_eq: "trace s' = trace s \<Longrightarrow> tallied s s' (0, 0, 0, 0)"
  by (simp add: tallied_def tallies_def llm_calls_def)

lemma tallied_same: "tallied s s1 t \<Longrightarrow> trace s2 = trace s1 \<Longrightarrow> tallied s s2 t"
  by (simp add: tallied_def)

lemma tallied_started:
  "trace s1 = trace s \<Longrightarrow> tallied s (logged (LLMCalled req) (count MetricLLMCallStarted as s1)) (1, 1, 0, 0)"
  by (auto simp: tallied_def tallies_def llm_calls_def llm_metrics)

lemma tallied_failed: "tallied s s1 (a, b, c, d) \<Longrightarrow> tallied s (llm_failed as s1) (a, b, c, Suc d)"
  by (auto simp: tallied_def tallies_def llm_failed_def llm_calls_def llm_metrics)

lemma tallied_completed:
  "tallied s s1 (a, b, c, d) \<Longrightarrow>
   tallied s (record_tokens as u (count MetricLLMCallCompleted as (observe_ms MetricLLMLatencyMs as s1))) (a, b, Suc c, d)"
  by (auto simp: tallied_def tallies_def record_tokens_def llm_calls_def llm_metrics split: option.split)

locale quiet_call =
  fixes input :: "'w ExecuteLLMInput"
  assumes quiet: "quiet_emit (liEmit input)"
begin

lemma emit_pub: "\<not> lifecycle ev \<Longrightarrow> pub_only s (liEmit input ev s)"
  using quiet unfolding quiet_emit_def pub_only_def by metis

lemma emit_pub_trans [intro]: "pub_only s s1 \<Longrightarrow> \<not> lifecycle ev \<Longrightarrow> pub_only s (liEmit input ev s1)"
  using emit_pub pub_only_trans by blast

lemma flush_pub: "pub_only s (snd (flushReasoning input (ss, s)))"
  by (auto simp: flushReasoning_def Let_def intro!: emit_pub_trans)

lemma open_pub: "pub_only s (snd (openTextMsg input (ss, s)))"
  by (auto simp: openTextMsg_def intro: emit_pub)

lemma reasoning_pub: "pub_only s (snd (openReasoning env input (ss, s)))"
proof (cases "reasoningPhaseOpen ss")
  case False
  obtain mid s1 where u: "ext (uuid env) s = (mid, s1)" by fastforce
  have "pub_only s s1" using trace_ext [OF u] by (rule pub_only_eq)
  also have "pub_only s1 (liEmit input (EvReasoningMessageStart mid ''reasoning'') (liEmit input (EvReasoningStart mid) s1))"
    by (intro emit_pub_trans) simp_all
  finally show ?thesis using False u by (simp add: openReasoning_def)
qed (simp add: openReasoning_def)

lemma chunk_pub: "pub_only s (snd (stream_chunk env input c (ss, s)))"
proof -
  define st1 where "st1 = (if ContentDelta c \<noteq> []
     then (let (ss, s) = openTextMsg input (flushReasoning input (ss, s)) in
           (ss, liEmit input (EvTextMessageContent (liMessageID input) (ContentDelta c)) s))
     else (ss, s))"
  obtain ssf sf where f: "flushReasoning input (ss, s) = (ssf, sf)" by fastforce
  obtain sso so where o: "openTextMsg input (ssf, sf) = (sso, so)" by fastforce
  have "pub_only s sf" "pub_only sf so" using flush_pub [of s ss] open_pub [of sf ssf] f o by simp_all
  then have "pub_only s so" by (rule pub_only_trans)
  then have "pub_only s (snd st1)" by (auto simp: st1_def f o intro!: emit_pub_trans)
  moreover obtain ss1 s1 where st1: "st1 = (ss1, s1)" by fastforce
  moreover obtain ss2 s2 where r: "openReasoning env input (ss1, s1) = (ss2, s2)" by fastforce
  moreover have "pub_only s s2"
    using calculation reasoning_pub [of s1 env ss1] pub_only_trans [of s s1 s2] by simp
  ultimately show ?thesis
    by (auto simp: stream_chunk_def Let_def simp flip: st1_def intro!: emit_pub_trans)
qed

lemma loop_pub: "pub_only s (snd (stream_loop env input cs (ss, s)))"
proof (induction cs arbitrary: ss s)
  case (Cons c cs)
  show ?case
  proof (cases c)
    case (Some ck)
    obtain ss' s' where st: "stream_chunk env input ck (ss, s) = (ss', s')" by fastforce
    have "pub_only s s'" using chunk_pub [of s env ck ss] st by simp
    then show ?thesis using Cons [of s' ss'] Some st by (auto intro: pub_only_trans)
  qed (use Cons in simp)
qed simp

lemma finalize_pub: "pub_only s (snd (finalizeAssistantText input result (ss, s)))"
  by (auto simp: finalizeAssistantText_def closeTextMsg_def openTextMsg_def intro!: emit_pub_trans)

lemma finish_stream_tallied:
  assumes t: "tallied s0 s (1, 1, 0, 0)" and r: "finish_stream rt input resp (ss, s) = (res, s')"
  shows "tallied s0 s' (1, 1, (if isl res then 0 else 1), (if isl res then 1 else 0))"
proof -
  obtain a s4 where a: "runAfterLLMResponse rt input resp s = (a, s4)" by fastforce
  have t4: "tallied s0 s4 (1, 1, 0, 0)" using t after_trace [OF a] by (rule tallied_same)
  show ?thesis
  proof (cases a)
    case (Inl e)
    then show ?thesis using r a tallied_failed [OF t4] by (auto simp: finish_stream_def Let_def)
  next
    case A: (Inr resp')
    show ?thesis
    proof (cases "llmResponseToResult rt resp' (liTools input)")
      case (Inl e)
      then have "res = Inl e" "s' = llm_failed (llm_attrs rt) s4"
        using r a A by (simp_all add: finish_stream_def Let_def)
      then show ?thesis using tallied_failed [OF t4] by simp
    next
      case (Inr result)
      then have "res = Inr result" "s' = snd (finalizeAssistantText input result (ss,
          record_tokens (llm_attrs rt) (RespUsage resp')
            (count MetricLLMCallCompleted (llm_attrs rt) (observe_ms MetricLLMLatencyMs (llm_attrs rt) s4))))"
        using r a A by (simp_all add: finish_stream_def Let_def)
      then show ?thesis using tallied_pub [OF tallied_completed [OF t4] finalize_pub] by simp
    qed
  qed
qed

text \<open>Every streaming call that reaches the provider is counted as started and as exactly one of
  completed and failed, and it is counted as completed exactly when it returns a result.\<close>

lemma stream_tallied:
  assumes "ExecuteLLMStream env rt input s = (res, s')"
  shows "tallied s s' (0, 0, 0, 0) \<and> isl res \<or>
         tallied s s' (1, 1, (if isl res then 0 else 1), (if isl res then 1 else 0))"
proof -
  obtain b s1 where b: "runBeforeLLMRequest rt input
      (BuildLLMRequest rt (liMessages input) (liSkipTools input) (liMemoryContext input)
         (liRetrieverContext input) (liTools input)) s = (b, s1)" by fastforce
  have t1: "trace s1 = trace s"
    using b by (auto simp: runBeforeLLMRequest_def dest: trace_ext split: if_splits)
  show ?thesis
  proof (cases b)
    case (Inl e)
    then show ?thesis using assms b tallied_eq [OF t1] by (auto simp: ExecuteLLMStream_def)
  next
    case req: (Inr req)
    define s2 where "s2 = logged (LLMCalled req) (count MetricLLMCallStarted (llm_attrs rt) s1)"
    have t2: "tallied s s2 (1, 1, 0, 0)" unfolding s2_def by (rule tallied_started [OF t1])
    have "tallied s s' (1, 1, (if isl res then 0 else 1), (if isl res then 1 else 0))"
    proof (cases "IsStreamSupported (rtClient rt)")
      case False
      obtain g s3 where g: "ext (Generate (rtClient rt) req) s2 = (g, s3)" by fastforce
      have t3: "tallied s s3 (1, 1, 0, 0)" using t2 trace_ext [OF g] by (rule tallied_same)
      show ?thesis
      proof (cases g)
        case (Inl e)
        then show ?thesis
          using assms b req False g tallied_failed [OF t3] by (auto simp: ExecuteLLMStream_def Let_def s2_def)
      next
        case (Inr resp)
        then have "finish_stream rt input resp (stream_start, s3) = (res, s')"
          using assms b req False g by (simp add: ExecuteLLMStream_def Let_def s2_def)
        then show ?thesis by (rule finish_stream_tallied [OF t3])
      qed
    next
      case True
      obtain g s3 where g: "ext (GenerateStream (rtClient rt) req) s2 = (g, s3)" by fastforce
      have t3: "tallied s s3 (1, 1, 0, 0)" using t2 trace_ext [OF g] by (rule tallied_same)
      show ?thesis
      proof (cases g)
        case (Inl e)
        then show ?thesis
          using assms b req True g tallied_failed [OF t3] by (auto simp: ExecuteLLMStream_def Let_def s2_def)
      next
        case (Inr stream)
        obtain ssl sl where l: "stream_loop env input (strChunks stream) (stream_start, s3) = (ssl, sl)" by fastforce
        obtain ss s4 where f: "flushReasoning input (ssl, sl) = (ss, s4)" by fastforce
        have "pub_only s3 s4"
          using loop_pub [of s3 env "strChunks stream" stream_start] flush_pub [of sl ssl] l f
          by (auto intro: pub_only_trans)
        with t3 have t4: "tallied s s4 (1, 1, 0, 0)" by (rule tallied_pub)
        show ?thesis
        proof (cases "strErr stream = None \<and> strResult stream \<noteq> None")
          case False
          then have "isl res \<and> s' = llm_failed (llm_attrs rt) s4"
            using assms b req True g Inr l f by (auto simp: ExecuteLLMStream_def Let_def s2_def split: option.splits)
          then show ?thesis using tallied_failed [OF t4] by simp
        next
          case ok: True
          then obtain resp where r: "strResult stream = Some resp" by auto
          have "finish_stream rt input resp (ss, s4) = (res, s')"
            using assms b req True g Inr l f ok r by (simp add: ExecuteLLMStream_def Let_def s2_def)
          then show ?thesis by (rule finish_stream_tallied [OF t4])
        qed
      qed
    qed
    then show ?thesis ..
  qed
qed

text \<open>The non-streaming call accounts for its successes and for the failures of the provider; a
  failure after the answer arrived is counted neither way.\<close>

lemma generate_tallied:
  assumes "ExecuteLLM rt input s = (res, s')"
  shows "tallied s s' (0, 0, 0, 0) \<and> isl res \<or>
         (\<exists>c f. tallied s s' (1, 1, c, f) \<and> c + f \<le> 1 \<and> (\<not> isl res \<longrightarrow> c = 1))"
proof -
  obtain b s1 where b: "runBeforeLLMRequest rt input
      (BuildLLMRequest rt (liMessages input) (liSkipTools input) (liMemoryContext input)
         (liRetrieverContext input) (liTools input)) s = (b, s1)" by fastforce
  have t1: "trace s1 = trace s"
    using b by (auto simp: runBeforeLLMRequest_def dest: trace_ext split: if_splits)
  show ?thesis
  proof (cases b)
    case (Inl e)
    then show ?thesis using assms b tallied_eq [OF t1] by (auto simp: ExecuteLLM_def)
  next
    case req: (Inr req)
    define s2 where "s2 = logged (LLMCalled req) (count MetricLLMCallStarted (llm_attrs rt) s1)"
    have t2: "tallied s s2 (1, 1, 0, 0)" unfolding s2_def by (rule tallied_started [OF t1])
    obtain g s3 where g: "ext (Generate (rtClient rt) req) s2 = (g, s3)" by fastforce
    have t3: "tallied s s3 (1, 1, 0, 0)" using t2 trace_ext [OF g] by (rule tallied_same)
    show ?thesis
    proof (cases g)
      case (Inl e)
      then have "tallied s s' (1, 1, 0, 1)" "isl res"
        using assms b req g tallied_failed [OF t3] by (auto simp: ExecuteLLM_def Let_def s2_def)
      then show ?thesis by fastforce
    next
      case (Inr resp0)
      obtain a s4 where a: "runAfterLLMResponse rt input resp0 s3 = (a, s4)" by fastforce
      have t4: "tallied s s4 (1, 1, 0, 0)" using t3 after_trace [OF a] by (rule tallied_same)
      show ?thesis
      proof (cases a)
        case (Inl e)
        then have "s' = s4" "isl res" using assms b req g Inr a by (auto simp: ExecuteLLM_def Let_def s2_def)
        then show ?thesis using t4 by fastforce
      next
        case A: (Inr resp)
        note t5 = tallied_completed [OF t4, of "llm_attrs rt" "RespUsage resp"]
        have "tallied s s' (1, 1, 1, 0)"
        proof (cases "llmResponseToResult rt resp (liTools input)")
          case (Inl e)
          then show ?thesis using assms b req g Inr a A t5 by (auto simp: ExecuteLLM_def Let_def s2_def)
        next
          case R: (Inr result)
          define s5 where "s5 = record_tokens (llm_attrs rt) (RespUsage resp)
            (count MetricLLMCallCompleted (llm_attrs rt) (observe_ms MetricLLMLatencyMs (llm_attrs rt) s4))"
          have "s' = liEmit input (EvTextMessageEnd (liMessageID input))
              (liEmit input (EvTextMessageContent (liMessageID input) (lrContent result))
                (liEmit input (EvTextMessageStart (liMessageID input) ''assistant'') s5))"
            using assms b req g Inr a A R by (simp add: ExecuteLLM_def Let_def s2_def s5_def)
          then have "pub_only s5 s'" by (simp add: emit_pub_trans)
          then show ?thesis using tallied_pub [OF t5] by (simp add: s5_def)
        qed
        then show ?thesis by fastforce
      qed
    qed
  qed
qed

end

interpretation quiet: quiet_call "input\<lparr>liEmit := publishEventToChannel env hasBus ch\<rparr>" for input env hasBus ch
  by unfold_locales (simp add: publish_quiet)

section \<open>Tool calls of the answer\<close>

text \<open>Every tool call that leaves the runtime names a registered tool and carries the approval flag of
  the policy for that tool.\<close>

lemma resolve_calls_registered:
  "resolve_calls rt tools tcs = Inr rs \<Longrightarrow> r \<in> set rs \<Longrightarrow>
     \<exists>tool. FindToolByName tools (tcrName r) = Some tool \<and> tcrNeedsApproval r = RequiresApproval rt tool
       \<and> tcrKind r = KindOf (tKind tool)"
proof (induction rt tools tcs arbitrary: rs rule: resolve_calls.induct)
  case (3 rt tools tc tcs)
  then obtain tool rs' where t: "FindToolByName tools (tcName tc) = Some tool"
      and rs: "resolve_calls rt tools tcs = Inr rs'" "rs = toolCallRequest rt tool tc # rs'"
    by (auto split: option.splits sum.splits)
  then show ?case using 3 by (auto simp: toolCallRequest_def)
qed auto

lemma resolve_calls_ids:
  "resolve_calls rt tools tcs = Inr rs \<Longrightarrow> map tcrID rs = map tcID (List.map_filter id tcs)"
proof (induction rt tools tcs arbitrary: rs rule: resolve_calls.induct)
  case (3 rt tools tc tcs)
  then show ?case by (auto simp: toolCallRequest_def map_filter_simps split: option.splits sum.splits)
qed (auto simp: map_filter_simps)

end
