(* ===== verification/MemoryExec.thy ===== *)
theory MemoryExec
  imports RuntimeTypes
begin

text \<open>
  Long-term memory during a run (\<open>internal/runtime/base/memory.go\<close> and the memory part of
  \<open>runtime.go\<close>): storing records with hooks, kind policy, deduplication and expiry, recall with its
  recency fallback, and extraction at the end of a run.  The theorems say what can reach the backend.
\<close>

section \<open>Configuration queries\<close>

definition MemoryConfigured :: "'w Runtime \<Rightarrow> bool" where
  "MemoryConfigured rt = (case rtMemory rt of None \<Rightarrow> False | Some c \<Rightarrow> cfgMemory c \<noteq> None)"

definition RecallEnabled :: "'w Runtime \<Rightarrow> bool" where
  "RecallEnabled rt =
     (if \<not> MemoryConfigured rt then False
      else case rtMemory rt of None \<Rightarrow> False | Some c \<Rightarrow> RecallEnabled_cfg (cfgRecall c))"

definition RunEndMemoryStoreEnabled :: "'w Runtime \<Rightarrow> bool" where
  "RunEndMemoryStoreEnabled rt =
     (if \<not> MemoryConfigured rt then False
      else case rtMemory rt of None \<Rightarrow> False | Some c \<Rightarrow> scMode (cfgStore c) = StoreModeAlways)"

definition MemoryStoreOnDemand :: "'w Runtime \<Rightarrow> bool" where
  "MemoryStoreOnDemand rt =
     (if \<not> MemoryConfigured rt then False
      else case rtMemory rt of None \<Rightarrow> False | Some c \<Rightarrow> scMode (cfgStore c) = StoreModeOnDemand)"

definition empty_scope :: MemoryScope where
  "empty_scope = \<lparr>UserID = [], TenantID = [], AgentID = [], Tags = []\<rparr>"

definition ResolveMemoryScope :: "'w Runtime \<Rightarrow> go_context \<Rightarrow> goerr + MemoryScope" where
  "ResolveMemoryScope rt ctx =
     (if \<not> MemoryConfigured rt then Inr empty_scope
      else case rtMemory rt of None \<Rightarrow> Inr empty_scope | Some c \<Rightarrow> ScopeResolve (cfgScope c) ctx)"

section \<open>Hook wrappers\<close>

definition runBeforeMemoryLoadHooks :: "'w Runtime \<Rightarrow> string \<Rightarrow> int \<Rightarrow> MemoryLoadCall \<Rightarrow> 'w st
    \<Rightarrow> (goerr + MemoryLoadCall) \<times> 'w st" where
  "runBeforeMemoryLoadHooks rt runID it call s =
     (if rtHooks rt = [] then (Inr call, s)
      else ext (RunBeforeMemoryLoad (rtHooks rt) (hookRunMeta runID it) call) s)"

definition runAfterMemoryLoadHooks :: "'w Runtime \<Rightarrow> string \<Rightarrow> int \<Rightarrow> MemoryLoadCall \<Rightarrow> string \<Rightarrow> 'w st
    \<Rightarrow> (goerr + string) \<times> 'w st" where
  "runAfterMemoryLoadHooks rt runID it call promptContext s =
     (if rtHooks rt = [] then (Inr promptContext, s)
      else ext (RunAfterMemoryLoad (rtHooks rt) (hookRunMeta runID it) call promptContext) s)"

definition runBeforeMemoryStoreHooks :: "'w Runtime \<Rightarrow> string \<Rightarrow> int \<Rightarrow> MemoryStoreCall \<Rightarrow> 'w st
    \<Rightarrow> (goerr + MemoryStoreCall) \<times> 'w st" where
  "runBeforeMemoryStoreHooks rt runID it call s =
     (if rtHooks rt = [] then (Inr call, s)
      else ext (RunBeforeMemoryStore (rtHooks rt) (hookRunMeta runID it) call) s)"

definition runAfterMemoryStoreHooks :: "'w Runtime \<Rightarrow> string \<Rightarrow> int \<Rightarrow> MemoryStoreCall \<Rightarrow> 'w st
    \<Rightarrow> goerr option \<times> 'w st" where
  "runAfterMemoryStoreHooks rt runID it call s =
     (if rtHooks rt = [] then (None, s)
      else ext (RunAfterMemoryStore (rtHooks rt) (hookRunMeta runID it) call) s)"

section \<open>Storing\<close>

record StoreMemoryRecordsInput =
  smRunID :: string
  smIteration :: int
  smScope :: MemoryScope
  smRecords :: "MemoryRecord list"

definition dedupStoreOptions :: "'w MemConfig \<Rightarrow> 'w Memory \<Rightarrow> MemoryScope \<Rightarrow> string \<Rightarrow> 'w st
    \<Rightarrow> (goerr + StoreMemoryOption list \<times> string) \<times> 'w st" where
  "dedupStoreOptions cfg mem scope text s =
     (let minScore = DedupMinScore (cfgStore cfg) in
      if minScore \<le> 0 then (Inr ([], ''append''), s)
      else
        (let opts = [WithLoadLimit 1, WithMinScore minScore];
             s1 = logged (MemoryLoaded scope text opts) (count MetricMemoryDedupStarted [] s)
         in case ext (memLoad mem scope text opts) s1 of
              (Inl e, s2) \<Rightarrow>
                (Inl e, observe_ms MetricMemoryDedupLatencyMs [] (count MetricMemoryDedupFailed [] s2))
            | (Inr matches, s2) \<Rightarrow>
                (let s3 = observe_ms MetricMemoryDedupLatencyMs [] (count MetricMemoryDedupCompleted [] s2) in
                 case matches of
                   [] \<Rightarrow> (Inr ([], ''append''), s3)
                 | m # _ \<Rightarrow> (Inr ([WithMemoryID (meID m)], ''upsert''), s3))))"

definition store_failed :: "attrs \<Rightarrow> 'w st \<Rightarrow> 'w st" where
  "store_failed as s = observe_ms MetricMemoryStoreLatencyMs as (count MetricMemoryStoreFailed as s)"

text \<open>The second half of \<open>storeRecord\<close>: the record is built, stored, and shown to the after-hooks.\<close>

definition store_write :: "'w Env \<Rightarrow> 'w Runtime \<Rightarrow> 'w MemConfig \<Rightarrow> 'w Memory \<Rightarrow> StoreMemoryRecordsInput
    \<Rightarrow> MemoryStoreCall \<Rightarrow> string \<Rightarrow> string \<Rightarrow> StoreMemoryOption list \<times> string \<Rightarrow> 'w st \<Rightarrow> goerr option \<times> 'w st" where
  "store_write env rt cfg mem input call text kind = (\<lambda>(storeOpts, dedupAction) s.
     let kindAttr = (''memory.kind'', kind);
         scope = smScope input;
         (t, s1) = ext (now env) s;
         rec = \<lparr>mrText = text, mrKind = kind, mrMetadata = mrMetadata (msRecord call),
                mrExpiresAt = ExpiresAtForKind cfg kind t\<rparr>
     in case ext (memStore mem scope rec storeOpts) (logged (MemoryStored scope rec storeOpts) s1) of
          (Inl e, s2) \<Rightarrow> (Some (wrap_error ''memory store: '' e), store_failed [kindAttr] s2)
        | (Inr storedID, s2) \<Rightarrow>
            (case runAfterMemoryStoreHooks rt (smRunID input) (smIteration input)
                    \<lparr>msScope = scope, msRecord = rec, msID = storedID\<rparr> s2 of
               (Some e, s3) \<Rightarrow> (Some e, store_failed [kindAttr] s3)
             | (None, s3) \<Rightarrow>
                 (None, observe_ms MetricMemoryStoreLatencyMs [kindAttr]
                          (count MetricMemoryStoreCompleted [kindAttr, (''memory.dedup'', dedupAction)] s3))))"

definition storeRecord :: "'w Env \<Rightarrow> 'w Runtime \<Rightarrow> 'w MemConfig \<Rightarrow> 'w Memory \<Rightarrow> StoreMemoryRecordsInput
    \<Rightarrow> MemoryRecord \<Rightarrow> 'w st \<Rightarrow> goerr option \<times> 'w st" where
  "storeRecord env rt cfg mem input rec s =
     (let scope = smScope input in
      case runBeforeMemoryStoreHooks rt (smRunID input) (smIteration input)
             \<lparr>msScope = scope, msRecord = rec, msID = []\<rparr> s of
        (Inl e, s1) \<Rightarrow> (Some e, s1)
      | (Inr call, s1) \<Rightarrow>
          (let text = trim_space (mrText (msRecord call)) in
           if text = [] then (None, s1)
           else case ResolveKind (cfgStore cfg) (mrKind (msRecord call)) of
             Inl e \<Rightarrow> (Some (wrap_error ''memory store: '' e), count MetricMemoryStoreFailed [] s1)
           | Inr kind \<Rightarrow>
               (let kindAttr = (''memory.kind'', kind);
                    s2 = count MetricMemoryStoreStarted [kindAttr] s1;
                    hookID = trim_space (msID call)
                in if hookID \<noteq> [] then
                     store_write env rt cfg mem input call text kind ([WithMemoryID hookID], ''upsert'') s2
                   else case dedupStoreOptions cfg mem scope text s2 of
                     (Inl e, s3) \<Rightarrow> (Some (wrap_error ''memory store: dedup: '' e), store_failed [kindAttr] s3)
                   | (Inr od, s3) \<Rightarrow> store_write env rt cfg mem input call text kind od s3)))"

fun store_all :: "(MemoryRecord \<Rightarrow> 'w st \<Rightarrow> goerr option \<times> 'w st) \<Rightarrow> MemoryRecord list \<Rightarrow> 'w st
    \<Rightarrow> goerr option \<times> 'w st" where
  "store_all f [] s = (None, s)"
| "store_all f (r # rs) s = (case f r s of (Some e, s') \<Rightarrow> (Some e, s') | (None, s') \<Rightarrow> store_all f rs s')"

definition StoreMemoryRecords :: "'w Env \<Rightarrow> 'w Runtime \<Rightarrow> StoreMemoryRecordsInput \<Rightarrow> 'w st \<Rightarrow> goerr option \<times> 'w st" where
  "StoreMemoryRecords env rt input s =
     (case rtMemory rt of
        None \<Rightarrow> (None, s)
      | Some cfg \<Rightarrow>
          (case cfgMemory cfg of
             None \<Rightarrow> (None, s)
           | Some mem \<Rightarrow> store_all (storeRecord env rt cfg mem input) (smRecords input) s))"

section \<open>The save_memory tool\<close>

definition SaveMemoryToolName :: string where "SaveMemoryToolName = ''save_memory''"

definition parseSaveMemoryToolArgs :: "gomap \<Rightarrow> goerr + MemoryRecord" where
  "parseSaveMemoryToolArgs args =
     (case get_string args ''text'' of
        None \<Rightarrow> Inl (new_error (''save_memory: '' @ go_quote ''text'' @ '' parameter required''))
      | Some rawText \<Rightarrow>
          (let text = trim_space rawText in
           if text = [] then Inl (new_error (''save_memory: '' @ go_quote ''text'' @ '' must be non-empty''))
           else Inr \<lparr>mrText = text,
                     mrKind = (case get_string args ''kind'' of None \<Rightarrow> [] | Some k \<Rightarrow> trim_space k),
                     mrMetadata = [(''source'', SaveMemoryToolName)], mrExpiresAt = None\<rparr>))"

section \<open>Recall\<close>

definition loadOptionsFromCall :: "MemoryLoadCall \<Rightarrow> bool \<Rightarrow> LoadMemoryOption list" where
  "loadOptionsFromCall call withMinScore =
     [WithLoadLimit (mlLimit call)]
     @ (if withMinScore \<and> mlMinScore call > 0 then [WithMinScore (mlMinScore call)] else [])
     @ (if mlKinds call \<noteq> [] then [WithLoadKinds (mlKinds call)] else [])"

definition format_entry :: "nat \<Rightarrow> MemoryEntry \<Rightarrow> string" where
  "format_entry i e =
     ''['' @ nat_to_str i @ ''] '' @ meText e @ [CHR 0x0A] @ ''(kind: '' @ meKind e @ '', score: ''
     @ fmt_2f (meScore e) @ '')'' @ [CHR 0x0A, CHR 0x0A]"

fun format_entries_from :: "nat \<Rightarrow> MemoryEntry list \<Rightarrow> string" where
  "format_entries_from i [] = []"
| "format_entries_from i (e # es) = format_entry (i + 1) e @ format_entries_from (i + 1) es"

definition FormatMemoryEntries :: "MemoryEntry list \<Rightarrow> string" where
  "FormatMemoryEntries entries = (if entries = [] then [] else format_entries_from 0 entries)"

record MemoryResult =
  mresContext :: string
  mresTotal :: int
  mresFailed :: int

definition recall_failed :: "'w st \<Rightarrow> 'w st" where
  "recall_failed s = observe_ms MetricMemoryRecallLatencyMs [] (count MetricMemoryRecallFailed [] s)"

definition recall_finish :: "'w Runtime \<Rightarrow> string \<Rightarrow> int \<Rightarrow> MemoryLoadCall \<Rightarrow> MemoryEntry list \<Rightarrow> 'w st
    \<Rightarrow> (goerr + MemoryResult) \<times> 'w st" where
  "recall_finish rt runID it call entries s =
     (case runAfterMemoryLoadHooks rt runID it call (trim_space (FormatMemoryEntries entries)) s of
        (Inl e, s1) \<Rightarrow> (Inl e, recall_failed s1)
      | (Inr c, s1) \<Rightarrow>
          (Inr \<lparr>mresContext = c, mresTotal = 1, mresFailed = 0\<rparr>,
           observe_ms MetricMemoryRecallLatencyMs [] (count MetricMemoryRecallCompleted [] s1)))"

definition ExecuteMemoryRecall :: "'w Runtime \<Rightarrow> string \<Rightarrow> int \<Rightarrow> MemoryScope \<Rightarrow> string \<Rightarrow> 'w st
    \<Rightarrow> (goerr + MemoryResult) \<times> 'w st" where
  "ExecuteMemoryRecall rt runID it scope query s =
     (case rtMemory rt of
        None \<Rightarrow> (Inr \<lparr>mresContext = [], mresTotal = 0, mresFailed = 0\<rparr>, s)
      | Some cfg \<Rightarrow>
          (case cfgMemory cfg of
             None \<Rightarrow> (Inr \<lparr>mresContext = [], mresTotal = 0, mresFailed = 0\<rparr>, s)
           | Some mem \<Rightarrow>
               (let recall = cfgRecall cfg;
                    s0 = count MetricMemoryRecallStarted [] s;
                    call0 = \<lparr>mlScope = scope, mlQuery = query, mlLimit = RecallLimit recall,
                             mlMinScore = RecallMinScore recall, mlKinds = RecallKinds recall\<rparr>
                in case runBeforeMemoryLoadHooks rt runID it call0 s0 of
                     (Inl e, s1) \<Rightarrow> (Inl e, recall_failed s1)
                   | (Inr call, s1) \<Rightarrow>
                       (let opts = loadOptionsFromCall call True in
                        case ext (memLoad mem (mlScope call) (mlQuery call) opts)
                               (logged (MemoryLoaded (mlScope call) (mlQuery call) opts) s1) of
                          (Inl e, s2) \<Rightarrow> (Inl (wrap_error ''memory recall: '' e), recall_failed s2)
                        | (Inr entries, s2) \<Rightarrow>
                            (if entries = [] \<and> trim_space (mlQuery call) \<noteq> [] then
                               (let fopts = RecencyLoadOptions recall in
                                case ext (memLoad mem (mlScope call) [] fopts)
                                       (logged (MemoryLoaded (mlScope call) [] fopts) s2) of
                                  (Inl e, s3) \<Rightarrow> (Inl (wrap_error ''memory recall: '' e), recall_failed s3)
                                | (Inr fallback, s3) \<Rightarrow> recall_finish rt runID it call fallback s3)
                             else recall_finish rt runID it call entries s2)))))"

section \<open>Extraction at the end of a run\<close>

definition memoryExtractSystemPrompt :: string where
  "memoryExtractSystemPrompt =
     ''Extract durable long-term memories from the conversation. '' @
     ''Return only facts, preferences, decisions, or instructions worth recalling in future runs. '' @
     ''Skip greetings, transient context, and tool noise. Return an empty memories array when nothing should persist.''"

definition memoryExtractTurnPrompt :: string where
  "memoryExtractTurnPrompt = ''Extract durable memories from the conversation above.''"

definition messagesForMemoryExtraction :: "Message list \<Rightarrow> Message list" where
  "messagesForMemoryExtraction messages =
     (let out = filter (\<lambda>m. (mRole m = RoleUser \<or> mRole m = RoleAssistant) \<and> trim_space (mContent m) \<noteq> []) messages in
      if out = [] then []
      else if mRole (last out) = RoleAssistant then out @ [message RoleUser memoryExtractTurnPrompt]
      else out)"

definition memoryExtractResponseFormat :: ResponseFormat where
  "memoryExtractResponseFormat =
     (let textSchema = VMap [(''type'', VString ''string''), (''description'', VString ''Distilled memory text'')];
          kindSchema = VMap [(''type'', VString ''string''),
            (''description'', VString ''Optional kind: preference, fact, decision, instruction, note'')];
          item = VMap [(''type'', VString ''object''),
                       (''properties'', VMap [(''text'', textSchema), (''kind'', kindSchema)]),
                       (''required'', VList [VString ''text'']), (''additionalProperties'', VBool False)]
      in \<lparr>rfType = ResponseFormatJSON, rfName = ''MemoryExtraction'',
          rfSchema = Some [(''type'', VString ''object''),
            (''properties'', VMap [(''memories'', VMap [(''type'', VString ''array''), (''items'', item)])]),
            (''required'', VList [VString ''memories'']), (''additionalProperties'', VBool False)]\<rparr>)"

text \<open>Decoding into the struct of the response: absent and null fields are empty, a field of another
  type is an error.\<close>

definition decode_string :: "goany option \<Rightarrow> goerr + string" where
  "decode_string v =
     (case v of None \<Rightarrow> Inr [] | Some VNil \<Rightarrow> Inr [] | Some (VString x) \<Rightarrow> Inr x
      | Some _ \<Rightarrow> Inl (new_error ''json: cannot unmarshal value''))"

fun decode_memories :: "goany list \<Rightarrow> goerr + (string \<times> string) list" where
  "decode_memories [] = Inr []"
| "decode_memories (v # vs) =
     (case (case v of VNil \<Rightarrow> Inr [] | VMap kvs \<Rightarrow> Inr kvs
                    | _ \<Rightarrow> Inl (new_error ''json: cannot unmarshal value'')) of
        Inl e \<Rightarrow> Inl e
      | Inr kvs \<Rightarrow>
          (case decode_string (map_of kvs ''text'') of
             Inl e \<Rightarrow> Inl e
           | Inr text \<Rightarrow>
               (case decode_string (map_of kvs ''kind'') of
                  Inl e \<Rightarrow> Inl e
                | Inr kind \<Rightarrow> (case decode_memories vs of Inl e \<Rightarrow> Inl e | Inr rs \<Rightarrow> Inr ((text, kind) # rs)))))"

definition extracted_records :: "(string \<times> string) list \<Rightarrow> MemoryRecord list" where
  "extracted_records ms =
     map (\<lambda>(text, kind). \<lparr>mrText = trim_space text, mrKind = trim_space kind,
                            mrMetadata = [(''source'', ''extract'')], mrExpiresAt = None\<rparr>)
       (filter (\<lambda>(text, _). trim_space text \<noteq> []) ms)"

definition parseMemoryExtractResponse :: "(string \<Rightarrow> goerr + goany) \<Rightarrow> string \<Rightarrow> goerr + MemoryRecord list" where
  "parseMemoryExtractResponse unm content0 =
     (let content = trim_space content0;
          fail = (\<lambda>e. Inl (wrap_error ''memory extract: parse response: '' e)) in
      if content = [] then Inr []
      else case unm content of
        Inl e \<Rightarrow> fail e
      | Inr VNil \<Rightarrow> Inr []
      | Inr (VMap kvs) \<Rightarrow>
          (case map_of kvs ''memories'' of
             None \<Rightarrow> Inr []
           | Some VNil \<Rightarrow> Inr []
           | Some (VList vs) \<Rightarrow>
               (case decode_memories vs of Inl e \<Rightarrow> fail e | Inr ms \<Rightarrow> Inr (extracted_records ms))
           | Some _ \<Rightarrow> fail (new_error ''json: cannot unmarshal value''))
      | Inr _ \<Rightarrow> fail (new_error ''json: cannot unmarshal value''))"

definition extractMemoriesWithLLM :: "'w Env \<Rightarrow> 'w LLMClient \<Rightarrow> Message list \<Rightarrow> 'w
    \<Rightarrow> (goerr + MemoryRecord list) \<times> 'w" where
  "extractMemoriesWithLLM env client messages w =
     (let msgs = messagesForMemoryExtraction messages in
      if msgs = [] then (Inr [], w)
      else case Generate client
             \<lparr>SystemMessage = memoryExtractSystemPrompt, ReqFormat = Some memoryExtractResponseFormat,
              ReqTools = [], ReqMessages = msgs, Temperature = None, MaxTokens = 0, TopP = None, TopK = None,
              Reasoning = None\<rparr> w of
        (Inl e, w') \<Rightarrow> (Inl (wrap_error ''memory extract: llm: '' e), w')
      | (Inr resp, w') \<Rightarrow> (parseMemoryExtractResponse (unmarshal env) (RespContent resp), w'))"

definition resolveMemoryExtractFunc :: "'w Env \<Rightarrow> 'w Runtime
    \<Rightarrow> (Message list \<Rightarrow> 'w \<Rightarrow> (goerr + MemoryRecord list) \<times> 'w) option" where
  "resolveMemoryExtractFunc env rt =
     (if \<not> RunEndMemoryStoreEnabled rt then None
      else case rtMemory rt of
        None \<Rightarrow> None
      | Some cfg \<Rightarrow>
          (case Extract (cfgStore cfg) of
             Some f \<Rightarrow> Some f
           | None \<Rightarrow> Some (extractMemoriesWithLLM env (rtClient rt))))"

definition extractMemoryRecords :: "Message list \<Rightarrow> (Message list \<Rightarrow> 'w \<Rightarrow> (goerr + MemoryRecord list) \<times> 'w)
    \<Rightarrow> 'w st \<Rightarrow> (goerr + MemoryRecord list) \<times> 'w st" where
  "extractMemoryRecords messages f s =
     (case ext (f messages) (count MetricMemoryExtractStarted [] s) of
        (Inl e, s1) \<Rightarrow>
          (Inl (wrap_error ''memory store: extract: '' e),
           observe_ms MetricMemoryExtractLatencyMs [] (count MetricMemoryExtractFailed [] s1))
      | (Inr records, s1) \<Rightarrow>
          (Inr records, observe_ms MetricMemoryExtractLatencyMs [] (count MetricMemoryExtractCompleted [] s1)))"

definition ExecuteMemoryStore :: "'w Env \<Rightarrow> 'w Runtime \<Rightarrow> string \<Rightarrow> int \<Rightarrow> MemoryScope \<Rightarrow> Message list \<Rightarrow> 'w st
    \<Rightarrow> goerr option \<times> 'w st" where
  "ExecuteMemoryStore env rt runID it scope messages s =
     (if \<not> RunEndMemoryStoreEnabled rt then (None, s)
      else case resolveMemoryExtractFunc env rt of
        None \<Rightarrow> (None, count MetricMemoryExtractFailed [] s)
      | Some f \<Rightarrow>
          (case extractMemoryRecords messages f s of
             (Inl e, s1) \<Rightarrow> (Some e, s1)
           | (Inr records, s1) \<Rightarrow>
               (if records = [] then (None, s1)
                else StoreMemoryRecords env rt
                       \<lparr>smRunID = runID, smIteration = it, smScope = scope, smRecords = records\<rparr> s1)))"

end
