(* ===== verification/MemoryFacts.thy ===== *)
theory MemoryFacts
  imports MemoryExec
begin

text \<open>
  What reaches the memory backend: records of the run's own scope, with non-empty trimmed text, an
  allowed kind and the expiry the policy prescribes; and what the extraction of memories sends to the
  model.
\<close>

section \<open>Stored records\<close>

text \<open>What storing, recalling and tools add to the log: metrics, and calls into tools, retrievers and the
  memory backend, the latter in one scope.\<close>

definition in_scope :: "MemoryScope \<Rightarrow> effect \<Rightarrow> bool" where
  "in_scope scope e =
     (case e of
        Counter _ _ \<Rightarrow> True | Histogram _ _ \<Rightarrow> True | ToolCalled _ _ \<Rightarrow> True | Searched _ _ \<Rightarrow> True
      | MemoryStored sc _ _ \<Rightarrow> sc = scope
      | MemoryLoaded sc _ _ \<Rightarrow> sc = scope
      | _ \<Rightarrow> False)"

definition safe_store :: "'w MemConfig \<Rightarrow> MemoryScope \<Rightarrow> effect \<Rightarrow> bool" where
  "safe_store cfg scope e \<longleftrightarrow> in_scope scope e \<and>
     (case e of
        MemoryStored sc rec opts \<Rightarrow>
          mrText rec \<noteq> [] \<and> trim_space (mrText rec) = mrText rec \<and>
          (AllowedKinds (cfgStore cfg) = [] \<or> mrKind rec \<in> set (AllowedKinds (cfgStore cfg))) \<and> mrKind rec \<noteq> [] \<and>
          (\<exists>t. mrExpiresAt rec = TTLExpiresAt (cfgTTL cfg) (mrKind rec) t)
      | _ \<Rightarrow> True)"

lemma in_scope_simps [simp]:
  "in_scope scope (Counter n as)" "in_scope scope (Histogram n as)" "in_scope scope (ToolCalled n a)"
  "in_scope scope (Searched n q)" "in_scope scope (MemoryLoaded sc q opts) = (sc = scope)"
  "in_scope scope (MemoryStored sc rec so) = (sc = scope)"
  by (simp_all add: in_scope_def)

lemma safe_store_simps [simp]:
  "safe_store cfg scope (Counter n as)" "safe_store cfg scope (Histogram n as)"
  "safe_store cfg scope (MemoryLoaded sc q opts) = (sc = scope)"
  by (simp_all add: safe_store_def)

lemma safe_store_in_scope: "safe_store cfg scope e \<Longrightarrow> in_scope scope e"
  by (simp add: safe_store_def)

lemma hooks_trace:
  "runBeforeMemoryStoreHooks rt i n call s = (b, s') \<Longrightarrow> trace s' = trace s"
  "runAfterMemoryStoreHooks rt i n call s = (a, s') \<Longrightarrow> trace s' = trace s"
  "runBeforeMemoryLoadHooks rt i n lcall s = (c, s') \<Longrightarrow> trace s' = trace s"
  "runAfterMemoryLoadHooks rt i n lcall p s = (d, s') \<Longrightarrow> trace s' = trace s"
  by (auto simp: runBeforeMemoryStoreHooks_def runAfterMemoryStoreHooks_def runBeforeMemoryLoadHooks_def
        runAfterMemoryLoadHooks_def dest: trace_ext split: if_splits)

lemma store_failed_adds: "adds (safe_store cfg scope) s s1 \<Longrightarrow> adds (safe_store cfg scope) s (store_failed as s1)"
  by (auto simp: store_failed_def)

lemma dedup_adds:
  "dedupStoreOptions cfg mem scope text s = (r, s') \<Longrightarrow> adds (safe_store cfg' scope) s s'"
  by (auto simp: dedupStoreOptions_def Let_def intro!: adds_observe adds_count adds_logged
        elim!: adds_ext [rotated] split: if_splits prod.splits sum.splits list.splits)

lemma store_write_adds:
  assumes body: "body \<noteq> []" "trim_space body = body"
    and kind: "ResolveKind (cfgStore cfg) k0 = Inr kind"
    and w: "store_write env rt cfg mem input call body kind od s = (r, s')"
  shows "adds (safe_store cfg (smScope input)) s s'"
proof -
  obtain storeOpts act where od: "od = (storeOpts, act)" by fastforce
  obtain t s1 where t: "ext (now env) s = (t, s1)" by fastforce
  define rec where "rec = \<lparr>mrText = body, mrKind = kind, mrMetadata = mrMetadata (msRecord call),
                mrExpiresAt = ExpiresAtForKind cfg kind t\<rparr>"
  define s2 where "s2 = logged (MemoryStored (smScope input) rec storeOpts) s1"
  have "safe_store cfg (smScope input) (MemoryStored (smScope input) rec storeOpts)"
    using body ResolveKind_Inr [OF kind] ExpiresAtForKind_resolved [of cfg kind kind t] kind
    by (auto simp: safe_store_def rec_def)
  then have a2: "adds (safe_store cfg (smScope input)) s s2"
    unfolding s2_def using adds_ext [OF adds_refl t] by blast
  obtain m s3 where m: "ext (memStore mem (smScope input) rec storeOpts) s2 = (m, s3)" by fastforce
  have a3: "adds (safe_store cfg (smScope input)) s s3" by (rule adds_ext [OF a2 m])
  show ?thesis
  proof (cases m)
    case (Inl e)
    then have "s' = store_failed [(''memory.kind'', kind)] s3"
      using w m t by (simp add: store_write_def od Let_def flip: rec_def s2_def)
    then show ?thesis using a3 by (simp add: store_failed_adds)
  next
    case (Inr storedID)
    obtain a s4 where a: "runAfterMemoryStoreHooks rt (smRunID input) (smIteration input)
        \<lparr>msScope = smScope input, msRecord = rec, msID = storedID\<rparr> s3 = (a, s4)" by fastforce
    have a4: "adds (safe_store cfg (smScope input)) s s4"
      using a3 hooks_trace(2) [OF a] by (auto intro: adds_trans adds_eq)
    show ?thesis
      using w m t Inr a a4
      by (cases a) (auto simp: store_write_def od Let_def simp flip: rec_def s2_def intro!: store_failed_adds adds_observe adds_count)
  qed
qed

lemma storeRecord_adds:
  assumes "storeRecord env rt cfg mem input rec s = (r, s')"
  shows "adds (safe_store cfg (smScope input)) s s'"
proof -
  obtain b s1 where b: "runBeforeMemoryStoreHooks rt (smRunID input) (smIteration input)
      \<lparr>msScope = smScope input, msRecord = rec, msID = []\<rparr> s = (b, s1)" by fastforce
  have a1: "adds (safe_store cfg (smScope input)) s s1" using hooks_trace(1) [OF b] by (rule adds_eq)
  show ?thesis
  proof (cases b)
    case (Inl e)
    then show ?thesis using assms b a1 by (simp add: storeRecord_def Let_def)
  next
    case call: (Inr call)
    define body where "body = trim_space (mrText (msRecord call))"
    have tt: "trim_space body = body" by (simp add: body_def)
    show ?thesis
    proof (cases "body = []")
      case True
      then show ?thesis using assms b call a1 by (simp add: storeRecord_def Let_def body_def)
    next
      case ne: False
      show ?thesis
      proof (cases "ResolveKind (cfgStore cfg) (mrKind (msRecord call))")
        case (Inl e)
        then show ?thesis using assms b call a1 ne by (auto simp: storeRecord_def Let_def body_def)
      next
        case kind: (Inr kind)
        define s2 where "s2 = count MetricMemoryStoreStarted [(''memory.kind'', kind)] s1"
        have a2: "adds (safe_store cfg (smScope input)) s s2" using a1 by (auto simp: s2_def)
        have fin: "adds (safe_store cfg (smScope input)) s s'"
          if "adds (safe_store cfg (smScope input)) s sx"
            and "store_write env rt cfg mem input call body kind od sx = (r, s')" for od sx
          using adds_trans [OF that(1) store_write_adds [OF ne tt kind that(2)]] .
        show ?thesis
        proof (cases "trim_space (msID call) = []")
          case False
          then have "store_write env rt cfg mem input call body kind ([WithMemoryID (trim_space (msID call))], ''upsert'') s2
              = (r, s')"
            using assms b call ne kind by (simp add: storeRecord_def Let_def body_def s2_def)
          with a2 show ?thesis by (rule fin)
        next
          case True
          obtain d s3 where d: "dedupStoreOptions cfg mem (smScope input) body s2 = (d, s3)" by fastforce
          have a3: "adds (safe_store cfg (smScope input)) s s3" using a2 dedup_adds [OF d] by (rule adds_trans)
          show ?thesis
          proof (cases d)
            case (Inl e)
            then have "s' = store_failed [(''memory.kind'', kind)] s3"
              using assms b call ne kind True d by (simp add: storeRecord_def Let_def body_def s2_def)
            then show ?thesis using a3 by (simp add: store_failed_adds)
          next
            case (Inr od)
            then have "store_write env rt cfg mem input call body kind od s3 = (r, s')"
              using assms b call ne kind True d by (simp add: storeRecord_def Let_def body_def s2_def)
            with a3 show ?thesis by (rule fin)
          qed
        qed
      qed
    qed
  qed
qed

lemma store_all_adds:
  "(\<And>x s r s'. f x s = (r, s') \<Longrightarrow> adds P s s') \<Longrightarrow> store_all f xs s = (r, s') \<Longrightarrow> adds P s s'"
proof (induction xs arbitrary: s)
  case (Cons x xs)
  obtain a s1 where a: "f x s = (a, s1)" by fastforce
  have "adds P s s1" using Cons.prems(1) a .
  moreover have "adds P s1 s'" if "a = None"
    using Cons.IH [OF Cons.prems(1)] Cons.prems(2) a that by simp
  ultimately show ?case using Cons.prems(2) a by (cases a) (auto intro: adds_trans)
qed simp

lemma StoreMemoryRecords_adds:
  assumes "StoreMemoryRecords env rt input s = (r, s')" and "rtMemory rt = Some cfg"
  shows "adds (safe_store cfg (smScope input)) s s'"
proof (cases "cfgMemory cfg")
  case None
  then show ?thesis using assms by (simp add: StoreMemoryRecords_def)
next
  case (Some mem)
  then have "store_all (storeRecord env rt cfg mem input) (smRecords input) s = (r, s')"
    using assms by (simp add: StoreMemoryRecords_def)
  then show ?thesis by (rule store_all_adds [rotated]) (rule storeRecord_adds)
qed

lemma StoreMemoryRecords_in_scope:
  assumes "StoreMemoryRecords env rt input s = (r, s')"
  shows "adds (in_scope (smScope input)) s s'"
proof (cases "rtMemory rt")
  case None
  then show ?thesis using assms by (simp add: StoreMemoryRecords_def)
next
  case (Some cfg)
  show ?thesis by (rule adds_mono [OF StoreMemoryRecords_adds [OF assms Some] safe_store_in_scope])
qed

section \<open>Recall\<close>

text \<open>Recall reads in the given scope only.\<close>

lemma recall_finish_adds: "recall_finish rt i n call es s = (r, s') \<Longrightarrow> adds (safe_store cfg sc) s s'"
  by (auto simp: recall_finish_def recall_failed_def intro!: adds_count adds_observe
        dest!: hooks_trace(4) intro: adds_eq split: prod.splits sum.splits)

lemma runBeforeMemoryLoadHooks_scope:
  "runBeforeMemoryLoadHooks rt i n call s = (Inr call', s') \<Longrightarrow> mlScope call' = mlScope call"
  by (auto simp: runBeforeMemoryLoadHooks_def ext_def Let_def dest!: RunBeforeMemoryLoad_frozen
        split: if_splits prod.splits)

lemma ExecuteMemoryRecall_adds:
  assumes "ExecuteMemoryRecall rt runID it scope query s = (r, s')"
  shows "adds (in_scope scope) s s'"
proof (cases "\<exists>cfg mem. rtMemory rt = Some cfg \<and> cfgMemory cfg = Some mem")
  case False
  then show ?thesis using assms by (auto simp: ExecuteMemoryRecall_def split: option.splits)
next
  case True
  then obtain cfg mem where cfg: "rtMemory rt = Some cfg" "cfgMemory cfg = Some mem" by blast
  define call0 where "call0 = \<lparr>mlScope = scope, mlQuery = query, mlLimit = RecallLimit (cfgRecall cfg),
      mlMinScore = RecallMinScore (cfgRecall cfg), mlKinds = RecallKinds (cfgRecall cfg)\<rparr>"
  define s0 where "s0 = count MetricMemoryRecallStarted [] s"
  obtain b s1 where b: "runBeforeMemoryLoadHooks rt runID it call0 s0 = (b, s1)" by fastforce
  have "adds (in_scope scope) s s0" by (auto simp: s0_def)
  then have a1: "adds (in_scope scope) s s1" using adds_eq [OF hooks_trace(3) [OF b]] by (rule adds_trans)
  have finish: "adds (in_scope scope) s s'" if "adds (in_scope scope) s sx" "recall_finish rt runID it call es sx = (r, s')"
    for call es sx
    using that(1) adds_mono [OF recall_finish_adds [OF that(2)] safe_store_in_scope] by (rule adds_trans)
  have failed: "adds (in_scope scope) s (recall_failed sx)" if "adds (in_scope scope) s sx" for sx
    using that by (auto simp: recall_failed_def)
  show ?thesis
  proof (cases b)
    case (Inl e)
    then show ?thesis using assms cfg b failed [OF a1]
      by (simp add: ExecuteMemoryRecall_def Let_def flip: call0_def s0_def)
  next
    case call: (Inr call)
    have sc: "mlScope call = scope" using runBeforeMemoryLoadHooks_scope b call by (fastforce simp: call0_def)
    define s2 where "s2 = logged (MemoryLoaded scope (mlQuery call) (loadOptionsFromCall call True)) s1"
    obtain m s3 where m: "ext (memLoad mem scope (mlQuery call) (loadOptionsFromCall call True)) s2 = (m, s3)"
      by fastforce
    have "adds (in_scope scope) s s2" using a1 by (auto simp: s2_def)
    then have a3: "adds (in_scope scope) s s3" by (rule adds_ext) (rule m)
    define s4 where "s4 = logged (MemoryLoaded scope [] (RecencyLoadOptions (cfgRecall cfg))) s3"
    obtain f s5 where f: "ext (memLoad mem scope [] (RecencyLoadOptions (cfgRecall cfg))) s4 = (f, s5)" by fastforce
    have "adds (in_scope scope) s s4" using a3 by (auto simp: s4_def)
    then have a5: "adds (in_scope scope) s s5" by (rule adds_ext) (rule f)
    note run = assms cfg b call sc m f
    show ?thesis
    proof (cases m)
      case (Inl e)
      then show ?thesis using run failed [OF a3]
        by (simp add: ExecuteMemoryRecall_def Let_def flip: call0_def s0_def s2_def)
    next
      case es: (Inr es)
      show ?thesis
      proof (cases "es = [] \<and> trim_space (mlQuery call) \<noteq> []")
        case False
        then have "recall_finish rt runID it call es s3 = (r, s')"
          using run es by (auto simp: ExecuteMemoryRecall_def Let_def split: if_splits simp flip: call0_def s0_def s2_def)
        with a3 show ?thesis by (rule finish)
      next
        case True
        show ?thesis
        proof (cases f)
          case (Inl e)
          then show ?thesis using run es True failed [OF a5]
            by (simp add: ExecuteMemoryRecall_def Let_def flip: call0_def s0_def s2_def s4_def)
        next
          case (Inr fallback)
          then have "recall_finish rt runID it call fallback s5 = (r, s')"
            using run es True by (simp add: ExecuteMemoryRecall_def Let_def flip: call0_def s0_def s2_def s4_def)
          with a5 show ?thesis by (rule finish)
        qed
      qed
    qed
  qed
qed

section \<open>Extraction\<close>

lemma extractMemoryRecords_adds: "extractMemoryRecords ms f s = (r, s') \<Longrightarrow> adds (in_scope scope) s s'"
  by (auto simp: extractMemoryRecords_def elim!: adds_ext [rotated] intro!: adds_count adds_observe
      split: prod.splits sum.splits)

lemma ExecuteMemoryStore_adds:
  assumes "ExecuteMemoryStore env rt runID it scope ms s = (r, s')"
  shows "adds (in_scope scope) s s'"
proof (cases "RunEndMemoryStoreEnabled rt")
  case False
  then show ?thesis using assms by (simp add: ExecuteMemoryStore_def)
next
  case True
  show ?thesis
  proof (cases "resolveMemoryExtractFunc env rt")
    case None
    then show ?thesis using assms True by (auto simp: ExecuteMemoryStore_def)
  next
    case (Some f)
    obtain x s1 where x: "extractMemoryRecords ms f s = (x, s1)" by fastforce
    note a1 = extractMemoryRecords_adds [OF x, of scope]
    show ?thesis
    proof (cases "isl x \<or> projr x = []")
      case True
      then have "s' = s1" using assms \<open>RunEndMemoryStoreEnabled rt\<close> Some x
        by (auto simp: ExecuteMemoryStore_def split: sum.splits if_splits)
      then show ?thesis using a1 by simp
    next
      case False
      then have "StoreMemoryRecords env rt
          \<lparr>smRunID = runID, smIteration = it, smScope = scope, smRecords = projr x\<rparr> s1 = (r, s')"
        using assms True Some x by (auto simp: ExecuteMemoryStore_def split: sum.splits)
      from StoreMemoryRecords_in_scope [OF this] show ?thesis using a1 by (simp add: adds_trans)
    qed
  qed
qed

text \<open>What the extraction sends to the model: the visible user and assistant turns in their order, and
  a last turn that is not the assistant's.\<close>

lemma messagesForMemoryExtraction_last:
  "messagesForMemoryExtraction ms \<noteq> [] \<Longrightarrow> mRole (last (messagesForMemoryExtraction ms)) \<noteq> RoleAssistant"
  by (auto simp: messagesForMemoryExtraction_def Let_def message_def)

lemma extracted_records_text:
  "r \<in> set (extracted_records ms) \<Longrightarrow> mrText r \<noteq> [] \<and> trim_space (mrText r) = mrText r"
  by (auto simp: extracted_records_def)

end
