(* ===== verification/ToolExec.thy ===== *)
theory ToolExec
  imports MemoryFacts LLMExec
begin

text \<open>
  Executing a tool (\<open>ExecuteTool\<close>, \<open>AuthorizeTool\<close> of \<open>internal/runtime/base/runtime.go\<close>,
  \<open>tool_guard.go\<close>) and querying retrievers (\<open>ExecuteRetrievers\<close>): hooks, metrics, the routing of
  retriever and memory tools, and the guard against panics and deadlines.
\<close>

section \<open>Hook wrappers\<close>

record 'w ExecuteToolInput =
  tiTools :: "'w Tool list"
  tiToolName :: string
  tiArgs :: gomap
  tiToolCallID :: string
  tiRunID :: string
  tiIteration :: int

definition toolCallForHooks :: "'w ExecuteToolInput \<Rightarrow> 'w Tool \<Rightarrow> HookToolCall" where
  "toolCallForHooks input tool =
     \<lparr>htID = tiToolCallID input, htName = tiToolName input,
      htDisplayName = (if tDisplayName tool = [] then tiToolName input else tDisplayName tool),
      htKind = KindOf (tKind tool), htArgs = tiArgs input\<rparr>"

definition runBeforeToolHooks :: "'w Runtime \<Rightarrow> 'w ExecuteToolInput \<Rightarrow> 'w Tool \<Rightarrow> 'w st
    \<Rightarrow> (goerr + HookToolCall) \<times> 'w st" where
  "runBeforeToolHooks rt input tool s =
     (let call = toolCallForHooks input tool in
      if rtHooks rt = [] then (Inr call, s)
      else ext (RunBeforeTool (rtHooks rt) (hookRunMeta (tiRunID input) (tiIteration input)) call) s)"

definition runAfterToolHooks :: "'w Runtime \<Rightarrow> 'w ExecuteToolInput \<Rightarrow> HookToolCall \<Rightarrow> string \<Rightarrow> goerr option \<Rightarrow> 'w st
    \<Rightarrow> (goerr + string \<times> goerr option) \<times> 'w st" where
  "runAfterToolHooks rt input call content execErr s =
     (if rtHooks rt = [] then (Inr (content, execErr), s)
      else ext (RunAfterTool (rtHooks rt) (hookRunMeta (tiRunID input) (tiIteration input)) call content execErr) s)"

definition runBeforeRetrieveHooks :: "'w Runtime \<Rightarrow> string \<Rightarrow> int \<Rightarrow> string \<Rightarrow> RetrieverMode \<Rightarrow> string \<Rightarrow> 'w st
    \<Rightarrow> (goerr + RetrieveCall) \<times> 'w st" where
  "runBeforeRetrieveHooks rt runID it query mode name s =
     (let call = \<lparr>rcQuery = query, rcMode = mode, rcName = name\<rparr> in
      if rtHooks rt = [] then (Inr call, s)
      else ext (RunBeforeRetrieve (rtHooks rt) (hookRunMeta runID it) call) s)"

definition runAfterRetrieveHooks :: "'w Runtime \<Rightarrow> string \<Rightarrow> int \<Rightarrow> RetrieveCall \<Rightarrow> document list \<Rightarrow> 'w st
    \<Rightarrow> (goerr + document list) \<times> 'w st" where
  "runAfterRetrieveHooks rt runID it call docs s =
     (if rtHooks rt = [] then (Inr docs, s)
      else ext (RunAfterRetrieve (rtHooks rt) (hookRunMeta runID it) call docs) s)"

section \<open>Executing a tool\<close>

text \<open>The call into the tool's own code.\<close>

definition call_tool :: "'w Tool \<Rightarrow> gomap \<Rightarrow> 'w st \<Rightarrow> goany outcome \<times> 'w st" where
  "call_tool tool args s = ext (tExecute tool args) (logged (ToolCalled (tName tool) args) s)"

definition executeRetrieverTool :: "'w Runtime \<Rightarrow> 'w ExecuteToolInput \<Rightarrow> 'w Tool \<Rightarrow> gomap \<Rightarrow> 'w st
    \<Rightarrow> string outcome \<times> 'w st" where
  "executeRetrieverTool rt input tool args s =
     (case RetrieverNameFromToolName (tName tool) of
        None \<Rightarrow> (Returned (Inl (new_error (''retriever tool: invalid tool name '' @ go_quote (tName tool)))), s)
      | Some retrieverName \<Rightarrow>
          (case RetrieverToolParamQueryValue args of
             Inl e \<Rightarrow> (Returned (Inl e), s)
           | Inr query \<Rightarrow>
               (case runBeforeRetrieveHooks rt (tiRunID input) (tiIteration input) query RetrieverModeAgentic
                       retrieverName s of
                  (Inl e, s1) \<Rightarrow> (Returned (Inl e), s1)
                | (Inr call, s1) \<Rightarrow>
                    (case call_tool tool (Some [(RetrieverToolParamQuery, VString (rcQuery call))]) s1 of
                       (Panicked, s2) \<Rightarrow> (Panicked, s2)
                     | (Hangs, s2) \<Rightarrow> (Hangs, s2)
                     | (Returned (Inl e), s2) \<Rightarrow> (Returned (Inl e), s2)
                     | (Returned (Inr (VDocuments docs)), s2) \<Rightarrow>
                         (case runAfterRetrieveHooks rt (tiRunID input) (tiIteration input) call docs s2 of
                            (Inl e, s3) \<Rightarrow> (Returned (Inl e), s3)
                          | (Inr docs', s3) \<Rightarrow> (Returned (Inr (FormatRetrieverDocs docs')), s3))
                     | (Returned (Inr _), s2) \<Rightarrow>
                         (Returned (Inl (new_error ''retriever tool: unexpected result type'')), s2)))))"

definition tool_failed :: "attrs \<Rightarrow> 'w st \<Rightarrow> 'w st" where
  "tool_failed as s = observe_ms MetricToolLatencyMs as (count MetricToolCallFailed as s)"

definition tool_completed :: "attrs \<Rightarrow> 'w st \<Rightarrow> 'w st" where
  "tool_completed as s = count MetricToolCallCompleted as (observe_ms MetricToolLatencyMs as s)"

definition finish_tool :: "attrs \<Rightarrow> string \<Rightarrow> goerr option \<Rightarrow> 'w st \<Rightarrow> string outcome \<times> 'w st" where
  "finish_tool as content execErr s =
     (case execErr of
        Some e \<Rightarrow> (Returned (Inl e), tool_failed as s)
      | None \<Rightarrow> (Returned (Inr content), tool_completed as s))"

text \<open>The execution of a tool that is no retriever, with its after-hooks.\<close>

definition execute_plain :: "'w Env \<Rightarrow> 'w Runtime \<Rightarrow> 'w ExecuteToolInput \<Rightarrow> 'w Tool \<Rightarrow> HookToolCall option \<Rightarrow> gomap
    \<Rightarrow> attrs \<Rightarrow> 'w st \<Rightarrow> string outcome \<times> 'w st" where
  "execute_plain env rt input tool hooked args as s =
     (case call_tool tool args s of
        (Panicked, s1) \<Rightarrow> (Panicked, s1)
      | (Hangs, s1) \<Rightarrow> (Hangs, s1)
      | (Returned r, s1) \<Rightarrow>
          (let content = (case r of Inr v \<Rightarrow> ToolResultContent (json env) (sprint env) v | Inl _ \<Rightarrow> []);
               execErr = (case r of Inl e \<Rightarrow> Some e | Inr _ \<Rightarrow> None)
           in case hooked of
                None \<Rightarrow> finish_tool as content execErr s1
              | Some call \<Rightarrow>
                  (case runAfterToolHooks rt input call content execErr s1 of
                     (Inl e, s2) \<Rightarrow> (Returned (Inl e), tool_failed as s2)
                   | (Inr (content', execErr'), s2) \<Rightarrow> finish_tool as content' execErr' s2)))"

text \<open>\<open>executeTool\<close> from the start of its metrics on.\<close>

definition execute_counted :: "'w Env \<Rightarrow> 'w Runtime \<Rightarrow> 'w ExecuteToolInput \<Rightarrow> 'w Tool \<Rightarrow> HookToolCall option \<Rightarrow> gomap
    \<Rightarrow> 'w st \<Rightarrow> string outcome \<times> 'w st" where
  "execute_counted env rt input tool hooked args s =
     (let as = [(''tool'', tiToolName input)];
          s1 = count MetricToolCallStarted as s
      in if KindOf (tKind tool) = ToolKindRetriever then
           (case executeRetrieverTool rt input tool args s1 of
              (Returned (Inl e), s2) \<Rightarrow> finish_tool as [] (Some e) s2
            | (Returned (Inr content), s2) \<Rightarrow> finish_tool as content None s2
            | (r, s2) \<Rightarrow> (r, s2))
         else execute_plain env rt input tool hooked args as s1)"

definition executeTool :: "'w Env \<Rightarrow> 'w Runtime \<Rightarrow> 'w ExecuteToolInput \<Rightarrow> 'w st \<Rightarrow> string outcome \<times> 'w st" where
  "executeTool env rt input s =
     (case FindToolByName (tiTools input) (tiToolName input) of
        None \<Rightarrow> (Returned (Inl (new_error (''unknown tool: '' @ tiToolName input))), s)
      | Some tool \<Rightarrow>
          (if rtHooks rt \<noteq> [] \<and> HooksEligible (KindOf (tKind tool)) then
             (case runBeforeToolHooks rt input tool s of
                (Inl e, s1) \<Rightarrow> (Returned (Inl e), s1)
              | (Inr call, s1) \<Rightarrow> execute_counted env rt input tool (Some call) (htArgs call) s1)
           else execute_counted env rt input tool None (tiArgs input) s))"

definition executeSaveMemoryTool :: "'w Env \<Rightarrow> 'w Runtime \<Rightarrow> 'w ExecuteToolInput \<Rightarrow> MemoryScope \<Rightarrow> 'w st
    \<Rightarrow> string outcome \<times> 'w st" where
  "executeSaveMemoryTool env rt input scope s =
     (let as = [(''tool'', SaveMemoryToolName)];
          s1 = count MetricToolCallStarted as s
      in case parseSaveMemoryToolArgs (tiArgs input) of
           Inl e \<Rightarrow> (Returned (Inl e), tool_failed as s1)
         | Inr rec \<Rightarrow>
             (case StoreMemoryRecords env rt
                     \<lparr>smRunID = tiRunID input, smIteration = tiIteration input, smScope = scope, smRecords = [rec]\<rparr> s1 of
                (Some e, s2) \<Rightarrow> (Returned (Inl e), tool_failed as s2)
              | (None, s2) \<Rightarrow> (Returned (Inr ''memory saved''), tool_completed as s2)))"

definition ExecuteTool :: "'w Env \<Rightarrow> 'w Runtime \<Rightarrow> 'w ExecuteToolInput \<Rightarrow> MemoryScope \<Rightarrow> 'w st
    \<Rightarrow> string outcome \<times> 'w st" where
  "ExecuteTool env rt input memScope s =
     (if tiToolName input = SaveMemoryToolName \<and> MemoryStoreOnDemand rt
      then executeSaveMemoryTool env rt input memScope s
      else executeTool env rt input s)"

section \<open>The guard\<close>

definition deadline_error :: goerr where
  "deadline_error = GoErr ''context deadline exceeded'' [SDeadlineExceeded]"

definition ExecuteToolGuarded :: "'w Env \<Rightarrow> 'w Runtime \<Rightarrow> 'w ExecuteToolInput \<Rightarrow> MemoryScope \<Rightarrow> 'w st
    \<Rightarrow> (goerr + string) \<times> 'w st" where
  "ExecuteToolGuarded env rt input memScope s =
     (case ExecuteTool env rt input memScope s of
        (Returned r, s1) \<Rightarrow> (r, s1)
      | (Panicked, s1) \<Rightarrow> (Inl (wrap_error (''tool '' @ go_quote (tiToolName input) @ '': '') ErrToolPanicked), s1)
      | (Hangs, s1) \<Rightarrow> (Inl (wrap_error (''tool '' @ go_quote (tiToolName input) @ '': '') deadline_error), s1))"

section \<open>Authorization\<close>

record AuthorizeResult =
  Allowed :: bool
  Reason :: string

definition AuthorizeTool :: "'w Tool list \<Rightarrow> string \<Rightarrow> gomap \<Rightarrow> 'w st \<Rightarrow> (goerr + AuthorizeResult) \<times> 'w st" where
  "AuthorizeTool tools toolName args s =
     (case FindToolByName tools toolName of
        None \<Rightarrow> (Inl (new_error (''unknown tool: '' @ toolName)), s)
      | Some tool \<Rightarrow>
          (case tAuthorizer tool of
             None \<Rightarrow> (Inr \<lparr>Allowed = True, Reason = []\<rparr>, s)
           | Some authorize \<Rightarrow>
               (case ext (authorize args) s of
                  (Inl e, s1) \<Rightarrow> (Inl e, s1)
                | (Inr (allow, reason), s1) \<Rightarrow>
                    (if allow then (Inr \<lparr>Allowed = True, Reason = []\<rparr>, s1)
                     else (Inr \<lparr>Allowed = False, Reason = trim_space reason\<rparr>, s1)))))"

section \<open>Retrievers\<close>

record RetrieverOutcome =
  roName :: string
  roDocs :: "document list"
  roErr :: "goerr option"

definition retriever_failed :: "attrs \<Rightarrow> 'w st \<Rightarrow> 'w st" where
  "retriever_failed as s = observe_ms MetricRetrieverLatencyMs as (count MetricRetrieverCallFailed as s)"

definition search_one :: "'w Runtime \<Rightarrow> string \<Rightarrow> int \<Rightarrow> string \<Rightarrow> 'w Retriever \<Rightarrow> 'w st
    \<Rightarrow> RetrieverOutcome \<times> 'w st" where
  "search_one rt runID it query ret s =
     (let name = rName ret;
          as = [(''retriever'', name)];
          s0 = count MetricRetrieverCallStarted as s
      in case runBeforeRetrieveHooks rt runID it query (rtRetrieverMode rt) name s0 of
           (Inl e, s1) \<Rightarrow>
             (\<lparr>roName = name, roDocs = [], roErr = Some e\<rparr>, count MetricRetrieverCallFailed as s1)
         | (Inr call, s1) \<Rightarrow>
             (case ext (rSearch ret (rcQuery call)) (logged (Searched name (rcQuery call)) s1) of
                (Inl e, s2) \<Rightarrow> (\<lparr>roName = name, roDocs = [], roErr = Some e\<rparr>, retriever_failed as s2)
              | (Inr docs, s2) \<Rightarrow>
                  (case runAfterRetrieveHooks rt runID it call docs s2 of
                     (Inl e, s3) \<Rightarrow> (\<lparr>roName = name, roDocs = [], roErr = Some e\<rparr>, retriever_failed as s3)
                   | (Inr docs', s3) \<Rightarrow>
                       (\<lparr>roName = name, roDocs = docs', roErr = None\<rparr>,
                        observe_ms MetricRetrieverLatencyMs as (count MetricRetrieverCallCompleted as s3)))))"

record RetrieverResult =
  rrContext :: string
  rrTotal :: int
  rrFailed :: int

definition join_results :: "bool \<Rightarrow> RetrieverOutcome list \<Rightarrow> string" where
  "join_results multiple results =
     concat (map (\<lambda>res. if roErr res \<noteq> None \<or> roDocs res = [] then []
                        else (if multiple then ''## '' @ roName res @ nl else []) @ FormatRetrieverDocs (roDocs res))
              results)"

definition ExecuteRetrievers :: "'w Env \<Rightarrow> 'w Runtime \<Rightarrow> string \<Rightarrow> int \<Rightarrow> string \<Rightarrow> 'w st
    \<Rightarrow> (goerr + RetrieverResult) \<times> 'w st" where
  "ExecuteRetrievers env rt runID it query s =
     (let rets = rtRetrievers rt in
      if rets = [] then (Inr \<lparr>rrContext = [], rrTotal = 0, rrFailed = 0\<rparr>, s)
      else
        (let (results, s1) = go_all env \<lparr>roName = [], roDocs = [], roErr = None\<rparr> (length rets)
                               (\<lambda>i. search_one rt runID it query (rets ! i)) s
         in (Inr \<lparr>rrContext = trim_space (join_results (length rets > 1) results),
                   rrTotal = int (length rets),
                   rrFailed = int (length (filter (\<lambda>res. roErr res \<noteq> None) results))\<rparr>, s1)))"

section \<open>Lemmas\<close>

text \<open>Prefetching never fails, whatever the retrievers do.\<close>

lemma ExecuteRetrievers_never_fails: "\<not> isl (fst (ExecuteRetrievers env rt runID it query s))"
  by (simp add: ExecuteRetrievers_def Let_def split: prod.split)

text \<open>The error of a failed guarded execution is classified for the model by its class alone.\<close>

lemma guarded_panic_text:
  "fst (ExecuteTool env rt input sc s) = Panicked \<Longrightarrow>
   \<exists>e. fst (ExecuteToolGuarded env rt input sc s) = Inl e \<and> ModelFacingToolErrorText (Some e) = MsgToolPanicked"
  by (cases "ExecuteTool env rt input sc s")
     (auto simp: ExecuteToolGuarded_def ModelFacingToolErrorText_def ErrToolPanicked_def err_is_def wrap_error_def
        Let_def)

lemma guarded_deadline_text:
  assumes "fst (ExecuteTool env rt input sc s) = Hangs"
  shows "\<exists>e. fst (ExecuteToolGuarded env rt input sc s) = Inl e \<and> err_is e SDeadlineExceeded"
  using assms(1)
  by (cases "ExecuteTool env rt input sc s")
     (auto simp: ExecuteToolGuarded_def deadline_error_def err_is_def wrap_error_def)

end
