(* ===== verification/ToolFacts.thy ===== *)
theory ToolFacts
  imports ToolExec
begin

text \<open>
  What the execution of a tool adds to the log: the calls into the tool, its three counters, and the
  accesses to memory in the scope of the run.
\<close>

section \<open>Accounting\<close>

text \<open>The number of calls into tools, and of tool calls counted as started, completed and failed.\<close>

definition tool_tally :: "effect list \<Rightarrow> nat \<times> nat \<times> nat \<times> nat" where
  "tool_tally es = (length (filter (\<lambda>e. case e of ToolCalled _ _ \<Rightarrow> True | _ \<Rightarrow> False) es),
     counted MetricToolCallStarted es, counted MetricToolCallCompleted es, counted MetricToolCallFailed es)"

definition tooled :: "MemoryScope \<Rightarrow> 'w st \<Rightarrow> 'w st \<Rightarrow> nat \<times> nat \<times> nat \<times> nat \<Rightarrow> bool" where
  "tooled scope s s' t \<longleftrightarrow> (\<exists>es. trace s' = trace s @ es \<and> tool_tally es = t \<and> (\<forall>e \<in> set es. in_scope scope e))"

lemma tooled_adds: "tooled scope s s' t \<Longrightarrow> adds (in_scope scope) s s'"
  by (auto simp: tooled_def adds_def)

lemma tooled_refl [simp]: "tooled scope s s (0, 0, 0, 0)"
  by (simp add: tooled_def tool_tally_def)

lemma tooled_eq: "tooled scope s s1 t \<Longrightarrow> trace s2 = trace s1 \<Longrightarrow> tooled scope s s2 t"
  by (simp add: tooled_def)

lemma tooled_started: "tooled scope s s1 (a, b, c, d) \<Longrightarrow> tooled scope s (count MetricToolCallStarted as s1) (a, Suc b, c, d)"
  by (auto simp: tooled_def tool_tally_def tool_metrics)

lemma tooled_failed: "tooled scope s s1 (a, b, c, d) \<Longrightarrow> tooled scope s (tool_failed as s1) (a, b, c, Suc d)"
  by (auto simp: tooled_def tool_tally_def tool_failed_def tool_metrics)

lemma tooled_completed: "tooled scope s s1 (a, b, c, d) \<Longrightarrow> tooled scope s (tool_completed as s1) (a, b, Suc c, d)"
  by (auto simp: tooled_def tool_tally_def tool_completed_def tool_metrics)

lemma tooled_call:
  "tooled scope s s1 (a, b, c, d) \<Longrightarrow> call_tool tool args s1 = (r, s2) \<Longrightarrow> tooled scope s s2 (Suc a, b, c, d)"
  by (auto simp: tooled_def tool_tally_def call_tool_def dest!: trace_ext)

text \<open>A result of a guarded execution that began: completed when it returned content, failed when it
  returned an error, neither when it panicked or outlived its deadline.\<close>

definition verdict :: "string outcome \<Rightarrow> nat \<times> nat" where
  "verdict r = (case r of Returned (Inr _) \<Rightarrow> (1, 0) | Returned (Inl _) \<Rightarrow> (0, 1) | _ \<Rightarrow> (0, 0))"

lemma verdict_simps [simp]:
  "verdict (Returned (Inr c)) = (1, 0)" "verdict (Returned (Inl e)) = (0, 1)"
  "verdict Panicked = (0, 0)" "verdict Hangs = (0, 0)"
  by (simp_all add: verdict_def)

lemma finish_tool_tooled:
  "tooled scope s s1 (a, b, 0, 0) \<Longrightarrow> finish_tool as content err s1 = (r, s2) \<Longrightarrow> tooled scope s s2 (a, b, verdict r)"
  by (auto simp: finish_tool_def intro: tooled_failed tooled_completed split: option.splits)

lemma tool_hooks_trace:
  "runBeforeToolHooks rt input tool s = (x, s') \<Longrightarrow> trace s' = trace s"
  "runAfterToolHooks rt input call content err s = (y, s') \<Longrightarrow> trace s' = trace s"
  "runBeforeRetrieveHooks rt rid it q m n s = (z, s') \<Longrightarrow> trace s' = trace s"
  "runAfterRetrieveHooks rt rid it rc docs s = (v, s') \<Longrightarrow> trace s' = trace s"
  by (auto simp: runBeforeToolHooks_def runAfterToolHooks_def runBeforeRetrieveHooks_def runAfterRetrieveHooks_def
      Let_def dest: trace_ext split: if_splits)

lemma execute_plain_tooled:
  assumes t: "tooled scope s s0 (0, b, 0, 0)" and e: "execute_plain env rt input tool hooked args as s0 = (r, s')"
  shows "tooled scope s s' (1, b, verdict r)"
proof -
  obtain x s1 where x: "call_tool tool args s0 = (x, s1)" by fastforce
  have t1: "tooled scope s s1 (1, b, 0, 0)" using tooled_call [OF t x] by simp
  show ?thesis
  proof (cases x)
    case (Returned y)
    define content where "content = (case y of Inr v \<Rightarrow> ToolResultContent (json env) (sprint env) v | Inl _ \<Rightarrow> [])"
    define err where "err = (case y of Inl e \<Rightarrow> Some e | Inr _ \<Rightarrow> None)"
    show ?thesis
    proof (cases hooked)
      case None
      then have "finish_tool as content err s1 = (r, s')"
        using e x Returned by (simp add: execute_plain_def content_def err_def Let_def)
      then show ?thesis by (rule finish_tool_tooled [OF t1])
    next
      case (Some call)
      obtain z s2 where z: "runAfterToolHooks rt input call content err s1 = (z, s2)" by fastforce
      have t2: "tooled scope s s2 (1, b, 0, 0)" using t1 tool_hooks_trace(2) [OF z] by (rule tooled_eq)
      show ?thesis
      proof (cases z)
        case (Inl er)
        then have "r = Returned (Inl er)" "s' = tool_failed as s2"
          using e x Returned Some z by (simp_all add: execute_plain_def Let_def flip: content_def err_def)
        then show ?thesis using tooled_failed [OF t2] by simp
      next
        case (Inr ce)
        then have "finish_tool as (fst ce) (snd ce) s2 = (r, s')"
          using e x Returned Some z by (cases ce) (simp add: execute_plain_def Let_def flip: content_def err_def)
        then show ?thesis by (rule finish_tool_tooled [OF t2])
      qed
    qed
  qed (use e x t1 in \<open>auto simp: execute_plain_def\<close>)
qed

text \<open>A retriever tool is called at most once.\<close>

lemma executeRetrieverTool_tooled:
  assumes t: "tooled scope s s0 (0, b, 0, 0)" and e: "executeRetrieverTool rt input tool args s0 = (r, s')"
  shows "\<exists>a \<le> 1. tooled scope s s' (a, b, 0, 0)"
proof -
  have t0: ?thesis if "s' = s0" using t that by (intro exI [of _ 0]) simp
  show ?thesis
  proof (cases "RetrieverNameFromToolName (tName tool)")
    case None
    then show ?thesis using e t0 by (simp add: executeRetrieverTool_def)
  next
    case (Some rname)
    show ?thesis
    proof (cases "RetrieverToolParamQueryValue args")
      case (Inl er)
      then show ?thesis using e Some t0 by (simp add: executeRetrieverTool_def)
    next
      case (Inr query)
      obtain x s1 where x: "runBeforeRetrieveHooks rt (tiRunID input) (tiIteration input) query RetrieverModeAgentic
          rname s0 = (x, s1)" by fastforce
      have t1: "tooled scope s s1 (0, b, 0, 0)" using t tool_hooks_trace(3) [OF x] by (rule tooled_eq)
      show ?thesis
      proof (cases x)
        case (Inl er)
        then have "s' = s1" using e Some Inr x by (simp add: executeRetrieverTool_def)
        then show ?thesis using t1 by (intro exI [of _ 0]) simp
      next
        case call: (Inr call)
        obtain y s2 where y: "call_tool tool (Some [(RetrieverToolParamQuery, VString (rcQuery call))]) s1 = (y, s2)"
          by fastforce
        have t2: "tooled scope s s2 (1, b, 0, 0)" using tooled_call [OF t1 y] by simp
        have "trace s' = trace s2"
          using e Some Inr x call y
          by (auto simp: executeRetrieverTool_def dest!: tool_hooks_trace(4)
              split: outcome.splits sum.splits goany.splits prod.splits)
        then show ?thesis using tooled_eq [OF t2] by (intro exI [of _ 1]) simp
      qed
    qed
  qed
qed

lemma execute_counted_tooled:
  assumes "execute_counted env rt input tool hooked args s = (r, s')"
  shows "\<exists>a \<le> 1. tooled scope s s' (a, 1, verdict r)"
proof -
  define as where "as = [(''tool'', tiToolName input)]"
  define s1 where "s1 = count MetricToolCallStarted as s"
  have t1: "tooled scope s s1 (0, 1, 0, 0)" using tooled_started [OF tooled_refl] by (simp add: s1_def)
  show ?thesis
  proof (cases "KindOf (tKind tool) = ToolKindRetriever")
    case False
    then have "execute_plain env rt input tool hooked args as s1 = (r, s')"
      using assms by (simp add: execute_counted_def s1_def as_def Let_def)
    from execute_plain_tooled [OF t1 this] show ?thesis by blast
  next
    case True
    obtain x s2 where x: "executeRetrieverTool rt input tool args s1 = (x, s2)" by fastforce
    obtain a where a: "a \<le> 1" "tooled scope s s2 (a, 1, 0, 0)" using executeRetrieverTool_tooled [OF t1 x] by blast
    have "(case x of Returned (Inl e) \<Rightarrow> finish_tool as [] (Some e) s2
        | Returned (Inr content) \<Rightarrow> finish_tool as content None s2 | _ \<Rightarrow> (x, s2)) = (r, s')"
      using assms True x by (auto simp: execute_counted_def Let_def s1_def as_def split: outcome.splits sum.splits)
    then have "tooled scope s s' (a, 1, verdict r)"
      using a finish_tool_tooled [OF a(2)] by (auto split: outcome.splits sum.splits)
    then show ?thesis using a(1) by blast
  qed
qed

text \<open>A tool execution that is refused before it starts is counted nowhere and returns an error.  One that
  starts is counted as started once, and as completed or failed according to its outcome; a tool that
  panics or hangs is counted as started only.\<close>

lemma executeTool_tooled:
  assumes "executeTool env rt input s = (r, s')"
  shows "(\<exists>e. r = Returned (Inl e)) \<and> tooled scope s s' (0, 0, 0, 0) \<or> (\<exists>a \<le> 1. tooled scope s s' (a, 1, verdict r))"
proof (cases "FindToolByName (tiTools input) (tiToolName input)")
  case None
  then show ?thesis using assms by (auto simp: executeTool_def)
next
  case (Some tool)
  show ?thesis
  proof (cases "rtHooks rt \<noteq> [] \<and> HooksEligible (KindOf (tKind tool))")
    case False
    then have "execute_counted env rt input tool None (tiArgs input) s = (r, s')"
      using assms Some by (auto simp: executeTool_def split: if_splits)
    from execute_counted_tooled [OF this] show ?thesis by blast
  next
    case True
    obtain x s1 where x: "runBeforeToolHooks rt input tool s = (x, s1)" by fastforce
    show ?thesis
    proof (cases x)
      case (Inl e)
      then have "r = Returned (Inl e)" "s' = s1" using assms Some True x by (simp_all add: executeTool_def)
      then show ?thesis using tooled_eq [OF tooled_refl tool_hooks_trace(1) [OF x]] by blast
    next
      case (Inr call)
      then have "execute_counted env rt input tool (Some call) (htArgs call) s1 = (r, s')"
        using assms Some True x by (simp add: executeTool_def)
      from execute_counted_tooled [OF this, of scope] obtain a where "a \<le> 1" "tooled scope s1 s' (a, 1, verdict r)"
        by blast
      then show ?thesis using tool_hooks_trace(1) [OF x] by (auto simp: tooled_def)
    qed
  qed
qed

section \<open>Frames\<close>

lemma executeSaveMemoryTool_adds:
  assumes "executeSaveMemoryTool env rt input scope s = (r, s')"
  shows "adds (in_scope scope) s s'"
proof -
  define as where "as = [(''tool'', SaveMemoryToolName)]"
  define s1 where "s1 = count MetricToolCallStarted as s"
  have a1: "adds (in_scope scope) s s1" by (auto simp: s1_def)
  show ?thesis
  proof (cases "parseSaveMemoryToolArgs (tiArgs input)")
    case (Inl e)
    then have "s' = tool_failed as s1"
      using assms by (simp add: executeSaveMemoryTool_def Let_def flip: as_def s1_def)
    then show ?thesis using a1 by (auto simp: tool_failed_def)
  next
    case (Inr rec)
    define inp where "inp = \<lparr>smRunID = tiRunID input, smIteration = tiIteration input, smScope = scope, smRecords = [rec]\<rparr>"
    obtain x s2 where x: "StoreMemoryRecords env rt inp s1 = (x, s2)" by fastforce
    have a2: "adds (in_scope scope) s s2"
      using a1 StoreMemoryRecords_in_scope [OF x] by (auto simp: inp_def intro: adds_trans)
    show ?thesis
      using assms Inr x a2
      by (cases x) (auto simp: executeSaveMemoryTool_def Let_def tool_failed_def tool_completed_def simp flip: as_def s1_def inp_def)
  qed
qed

lemma ExecuteTool_adds:
  assumes "ExecuteTool env rt input scope s = (r, s')"
  shows "adds (in_scope scope) s s'"
proof (cases "tiToolName input = SaveMemoryToolName \<and> MemoryStoreOnDemand rt")
  case True
  then show ?thesis using assms by (auto simp: ExecuteTool_def intro: executeSaveMemoryTool_adds)
next
  case False
  then have "executeTool env rt input s = (r, s')" using assms by (auto simp: ExecuteTool_def split: if_splits)
  from executeTool_tooled [OF this, of scope] show ?thesis by (blast dest: tooled_adds)
qed

lemma ExecuteToolGuarded_adds:
  assumes "ExecuteToolGuarded env rt input scope s = (r, s')"
  shows "adds (in_scope scope) s s'"
proof -
  obtain x s1 where x: "ExecuteTool env rt input scope s = (x, s1)" by fastforce
  then have "s' = s1" using assms by (auto simp: ExecuteToolGuarded_def split: outcome.splits)
  then show ?thesis using ExecuteTool_adds [OF x] by simp
qed

lemma AuthorizeTool_trace: "AuthorizeTool tools name args s = (r, s') \<Longrightarrow> trace s' = trace s"
  by (auto simp: AuthorizeTool_def dest!: trace_ext split: option.splits prod.splits sum.splits if_splits)

lemma search_one_adds:
  assumes "search_one rt rid it q ret s = (r, s')"
  shows "adds (in_scope scope) s s'"
proof -
  define s0 where "s0 = count MetricRetrieverCallStarted [(''retriever'', rName ret)] s"
  have a0: "adds (in_scope scope) s s0" by (auto simp: s0_def)
  obtain x s1 where x: "runBeforeRetrieveHooks rt rid it q (rtRetrieverMode rt) (rName ret) s0 = (x, s1)" by fastforce
  have a1: "adds (in_scope scope) s s1" using a0 adds_eq [OF tool_hooks_trace(3) [OF x]] by (rule adds_trans)
  show ?thesis
  proof (cases x)
    case (Inl e)
    then show ?thesis using assms x a1 by (auto simp: search_one_def Let_def simp flip: s0_def)
  next
    case call: (Inr call)
    obtain y s2 where y: "ext (rSearch ret (rcQuery call)) (logged (Searched (rName ret) (rcQuery call)) s1) = (y, s2)"
      by fastforce
    have "adds (in_scope scope) s (logged (Searched (rName ret) (rcQuery call)) s1)" using a1 by auto
    then have a2: "adds (in_scope scope) s s2" by (rule adds_ext) (rule y)
    show ?thesis
    proof (cases y)
      case (Inl e)
      then show ?thesis using assms x call y a2
        by (auto simp: search_one_def Let_def retriever_failed_def simp flip: s0_def)
    next
      case docs: (Inr docs)
      obtain z s3 where z: "runAfterRetrieveHooks rt rid it call docs s2 = (z, s3)" by fastforce
      have a3: "adds (in_scope scope) s s3" using a2 adds_eq [OF tool_hooks_trace(4) [OF z]] by (rule adds_trans)
      show ?thesis using assms x call y docs z a3
        by (cases z) (auto simp: search_one_def Let_def retriever_failed_def simp flip: s0_def)
    qed
  qed
qed

lemma ExecuteRetrievers_adds:
  assumes "ExecuteRetrievers env rt rid it q s = (r, s')"
  shows "adds (in_scope scope) s s'"
proof (cases "rtRetrievers rt = []")
  case True
  then show ?thesis using assms by (simp add: ExecuteRetrievers_def)
next
  case False
  obtain rs s1 where g: "go_all env \<lparr>roName = [], roDocs = [], roErr = None\<rparr> (length (rtRetrievers rt))
      (\<lambda>i. search_one rt rid it q (rtRetrievers rt ! i)) s = (rs, s1)" by fastforce
  have "adds (in_scope scope) s s1" by (rule go_all_adds [OF _ g]) (rule search_one_adds)
  then show ?thesis using assms False g by (simp add: ExecuteRetrievers_def Let_def)
qed

end
