(* ===== verification/ApprovalStore.thy ===== *)
theory ApprovalStore
  imports AgentTypes
begin

text \<open>
  The store of pending approval tokens (\<open>internal/runtime/base/approval_store.go\<close>): entries with an
  expiry time, removed on access or by the periodic clean-up.  The clock is an argument; channels are
  values of an arbitrary type.  The specification answers a lookup from the history of operations alone.
\<close>

section \<open>Operations\<close>

record 'c approvalEntry =
  ch :: 'c
  expiresAt :: int

record 'c ApprovalStore =
  entries :: "string \<Rightarrow> 'c approvalEntry option"
  ttl :: int

definition NewApprovalStore :: "int \<Rightarrow> 'c ApprovalStore" where
  "NewApprovalStore t = \<lparr>entries = Map.empty, ttl = t\<rparr>"

definition Store :: "'c ApprovalStore \<Rightarrow> int \<Rightarrow> string \<Rightarrow> 'c \<Rightarrow> 'c ApprovalStore" where
  "Store s now token c = s\<lparr>entries := (entries s)(token \<mapsto> \<lparr>ch = c, expiresAt = now + ttl s\<rparr>)\<rparr>"

definition Delete :: "'c ApprovalStore \<Rightarrow> string \<Rightarrow> 'c ApprovalStore" where
  "Delete s token = s\<lparr>entries := (entries s)(token := None)\<rparr>"

definition Load :: "'c ApprovalStore \<Rightarrow> int \<Rightarrow> string \<Rightarrow> 'c option \<times> 'c ApprovalStore" where
  "Load s now token =
     (case entries s token of
        None \<Rightarrow> (None, s)
      | Some entry \<Rightarrow>
          (if now > expiresAt entry then (None, Delete s token) else (Some (ch entry), s)))"

definition CleanupExpired :: "'c ApprovalStore \<Rightarrow> int \<Rightarrow> nat \<times> 'c ApprovalStore" where
  "CleanupExpired s now =
     (let live = (\<lambda>token. case entries s token of
                            Some e \<Rightarrow> if now > expiresAt e then None else Some e
                          | None \<Rightarrow> None)
      in (card (dom (entries s) - dom live), s\<lparr>entries := live\<rparr>))"

definition Size :: "'c ApprovalStore \<Rightarrow> nat" where
  "Size s = card (dom (entries s))"

section \<open>Histories\<close>

datatype 'c store_op = OpStore string 'c | OpLoad string | OpDelete string | OpCleanup

fun store_step :: "'c ApprovalStore \<Rightarrow> int \<times> 'c store_op \<Rightarrow> 'c option \<times> 'c ApprovalStore" where
  "store_step s (now, OpStore k c) = (None, Store s now k c)"
| "store_step s (now, OpLoad k) = Load s now k"
| "store_step s (now, OpDelete k) = (None, Delete s k)"
| "store_step s (now, OpCleanup) = (None, snd (CleanupExpired s now))"

fun store_run :: "'c ApprovalStore \<Rightarrow> (int \<times> 'c store_op) list \<Rightarrow> 'c option list \<times> 'c ApprovalStore" where
  "store_run s [] = ([], s)"
| "store_run s (x # xs) =
     (let (r, s1) = store_step s x; (rs, s2) = store_run s1 xs in (r # rs, s2))"

text \<open>The answer the history prescribes: the channel of the last store of the token, unless a delete
  followed it or more than the time to live has passed.  The history is latest first.\<close>

fun answer :: "int \<Rightarrow> (int \<times> 'c store_op) list \<Rightarrow> string \<Rightarrow> int \<Rightarrow> 'c option" where
  "answer t [] k now = None"
| "answer t ((w, OpStore k' c) # h) k now =
     (if k' = k then (if now > w + t then None else Some c) else answer t h k now)"
| "answer t ((w, OpDelete k') # h) k now = (if k' = k then None else answer t h k now)"
| "answer t (_ # h) k now = answer t h k now"

fun spec_replies :: "int \<Rightarrow> (int \<times> 'c store_op) list \<Rightarrow> (int \<times> 'c store_op) list \<Rightarrow> 'c option list" where
  "spec_replies t h [] = []"
| "spec_replies t h ((now, x) # xs) =
     (case x of OpLoad k \<Rightarrow> answer t h k now | _ \<Rightarrow> None) # spec_replies t ((now, x) # h) xs"

section \<open>Refinement\<close>

definition lookup_at :: "'c ApprovalStore \<Rightarrow> string \<Rightarrow> int \<Rightarrow> 'c option" where
  "lookup_at s k now =
     (case entries s k of None \<Rightarrow> None | Some e \<Rightarrow> if now > expiresAt e then None else Some (ch e))"

text \<open>From time \<open>t0\<close> on, the store answers as its history does.\<close>

definition store_rel :: "int \<Rightarrow> 'c ApprovalStore \<Rightarrow> (int \<times> 'c store_op) list \<Rightarrow> bool" where
  "store_rel t0 s h \<longleftrightarrow> (\<forall>k now. t0 \<le> now \<longrightarrow> lookup_at s k now = answer (ttl s) h k now)"

lemma ttl_step [simp]: "ttl (snd (store_step s x)) = ttl s"
  by (cases "(s, x)" rule: store_step.cases)
     (simp_all add: Store_def Load_def Delete_def CleanupExpired_def Let_def split: option.split)

lemma store_step_rel:
  assumes "store_rel t0 s h" and "t0 \<le> now"
  shows "store_rel now (snd (store_step s (now, x))) ((now, x) # h)"
    and "fst (store_step s (now, x)) = (case x of OpLoad k \<Rightarrow> answer (ttl s) h k now | _ \<Rightarrow> None)"
proof -
  have r: "lookup_at s k n = answer (ttl s) h k n" if "now \<le> n" for k n
    using assms that by (simp add: store_rel_def)
  show "store_rel now (snd (store_step s (now, x))) ((now, x) # h)"
    unfolding store_rel_def
  proof (intro allI impI)
    fix k n assume n: "now \<le> n"
    show "lookup_at (snd (store_step s (now, x))) k n
            = answer (ttl (snd (store_step s (now, x)))) ((now, x) # h) k n"
      using r [OF n, of k] n
      by (cases x) (auto simp: lookup_at_def Store_def Load_def Delete_def CleanupExpired_def Let_def
                       split: option.splits if_splits)
  qed
  show "fst (store_step s (now, x)) = (case x of OpLoad k \<Rightarrow> answer (ttl s) h k now | _ \<Rightarrow> None)"
  proof (cases x)
    case (OpLoad k)
    then show ?thesis using r [of now k] by (auto simp: lookup_at_def Load_def split: option.splits)
  qed simp_all
qed

lemma store_run_rel:
  "store_rel t0 s h \<Longrightarrow> sorted (t0 # map fst xs) \<Longrightarrow> fst (store_run s xs) = spec_replies (ttl s) h xs"
proof (induction xs arbitrary: s h t0)
  case (Cons y xs)
  obtain now x where y: "y = (now, x)" by fastforce
  have le: "t0 \<le> now" using Cons.prems(2) y by simp
  obtain r s1 where st: "store_step s (now, x) = (r, s1)" by fastforce
  have "store_rel now s1 ((now, x) # h)" using store_step_rel(1) [OF Cons.prems(1) le, of x] st by simp
  then have "fst (store_run s1 xs) = spec_replies (ttl s1) ((now, x) # h) xs"
    using Cons.IH Cons.prems(2) y by simp
  moreover have "ttl s1 = ttl s" using ttl_step [of s "(now, x)"] st by simp
  moreover have "r = (case x of OpLoad k \<Rightarrow> answer (ttl s) h k now | _ \<Rightarrow> None)"
    using store_step_rel(2) [OF Cons.prems(1) le, of x] st by simp
  ultimately show ?case using y st by (cases "store_run s1 xs") simp
qed simp

lemma store_rel_new: "store_rel t0 (NewApprovalStore t) []"
  by (simp add: store_rel_def NewApprovalStore_def lookup_at_def)

text \<open>After a clean-up nothing expired remains, so the store holds no more than the live tokens.\<close>

lemma cleanup_live:
  "entries (snd (CleanupExpired s now)) k = Some e \<Longrightarrow> now \<le> expiresAt e \<and> entries s k = Some e"
  by (auto simp: CleanupExpired_def Let_def split: option.splits if_splits)

lemma cleanup_count:
  assumes "finite (dom (entries s))"
  shows "fst (CleanupExpired s now) + Size (snd (CleanupExpired s now)) = Size s"
proof -
  let ?live = "entries (snd (CleanupExpired s now))"
  have sub: "dom ?live \<subseteq> dom (entries s)" using cleanup_live by blast
  have "fst (CleanupExpired s now) = card (dom (entries s) - dom ?live)"
    by (simp add: CleanupExpired_def Let_def)
  then show ?thesis
    using card_Diff_subset [of "dom ?live" "dom (entries s)"] sub assms finite_subset [OF sub assms]
      card_mono [OF assms sub] by (simp add: Size_def)
qed

end
