(* ===== verification/BaseProps.thy ===== *)
theory BaseProps
  imports LLMFacts ToolFacts ApprovalStore TokenBudget
begin

text \<open>
  The properties of the shared runtime base: what a streamed answer looks like to its consumers, how calls
  are counted, what reaches the memory backend and the model, and the small stores and encodings the
  loops rely on.
\<close>

section \<open>One call of the model\<close>


text \<open>Accounting: a streaming call that reaches the provider is counted as started and as exactly one
  of completed and failed, as completed exactly when it returns a result; one a hook stops is not
  counted and calls nobody.\<close>

theorem stream_call_accounting:
  "let input' = input\<lparr>liEmit := publishEventToChannel env hasBus c\<rparr>;
       (res, s') = ExecuteLLMStream env rt input' s in
   tallied s s' (0, 0, 0, 0) \<and> isl res \<or>
   tallied s s' (1, 1, (if isl res then 0 else 1), (if isl res then 1 else 0))"
proof -
  obtain res s' where x: "ExecuteLLMStream env rt (input\<lparr>liEmit := publishEventToChannel env hasBus c\<rparr>) s
      = (res, s')" by fastforce
  show ?thesis using quiet.stream_tallied [OF x] by (simp add: x)
qed

text \<open>Every tool call that an answer of the model yields names a registered tool, carries the tool's
  kind and the approval flag of the policy for it, and keeps the identifiers and order of the answer.\<close>

theorem tool_calls_resolved:
  assumes "resolve_calls rt tools tcs = Inr rs"
  shows "map tcrID rs = map tcID (List.map_filter id tcs) \<and>
    list_all (\<lambda>r. \<exists>tool. FindToolByName tools (tcrName r) = Some tool \<and>
      tcrNeedsApproval r = RequiresApproval rt tool \<and> tcrKind r = KindOf (tKind tool)) rs"
  using resolve_calls_ids [OF assms] resolve_calls_registered [OF assms] by (auto simp: list_all_iff)

definition shell :: "'w Tool" where
  "shell = \<lparr>tName = ''shell'', tDisplayName = [], tDescription = [], tParameters = None, tKind = None,
     tApproval = Some True, tAuthorizer = None, tExecute = (\<lambda>_ w. (Panicked, w))\<rparr>"

definition asking :: "nat Runtime" where
  "asking = \<lparr>rtName = [], rtSystemPrompt = [], rtResponseFormat = None,
      rtClient = \<lparr>GetModel = [], GetProvider = [], IsStreamSupported = False,
        Generate = (\<lambda>_ w. (Inl (new_error ''none''), w)), GenerateStream = (\<lambda>_ w. (Inl (new_error ''none''), w))\<rparr>,
      rtSampling = None, rtApprovalPolicy = None, rtRetrievers = [], rtRetrieverMode = RetrieverModeAgentic,
      rtConversation = None, rtConversationSize = 0, rtSaveOnIteration = False, rtMemory = None,
      rtMaxIterations = 3, rtMaxTokens = 0, rtHooks = [], rtToolMode = ModeEmpty\<rparr>"

lemma asking_resolves:
  "resolve_calls asking [shell] [None, Some \<lparr>tcID = ''1'', tcName = ''shell'', tcArgs = None\<rparr>]
     = Inr [toolCallRequest asking shell \<lparr>tcID = ''1'', tcName = ''shell'', tcArgs = None\<rparr>]"
  by (simp add: FindToolByName_def shell_def)

lemma tool_calls_resolved_witness:
  "list_all (\<lambda>r. \<exists>tool. FindToolByName [shell] (tcrName r) = Some tool \<and>
      tcrNeedsApproval r = RequiresApproval asking tool \<and> tcrKind r = KindOf (tKind tool))
    [toolCallRequest asking shell \<lparr>tcID = ''1'', tcName = ''shell'', tcArgs = None\<rparr>]"
  using tool_calls_resolved [OF asking_resolves] by blast

section \<open>Tools and retrievers\<close>

text \<open>Accounting of a tool execution: one that ends before it began returns an error and runs nothing;
  every other is counted as started once, calls the tool at most once, and is counted as completed or as
  failed according to its outcome; it touches memory in the scope of its run only.\<close>

theorem tool_execution_accounting:
  "let (r, s') = executeTool env rt input s in
   (\<exists>e. r = Returned (Inl e)) \<and> tooled scope s s' (0, 0, 0, 0) \<or> (\<exists>a \<le> 1. tooled scope s s' (a, 1, verdict r))"
proof -
  obtain r s' where x: "executeTool env rt input s = (r, s')" by fastforce
  show ?thesis using executeTool_tooled [OF x] by (simp add: x)
qed

text \<open>The guard turns a panic and a passed deadline into errors of their class and passes every other
  outcome on; whatever a tool fails with, the model reads one of four fixed texts.\<close>

theorem guarded_execution_contained:
  "(case fst (ExecuteTool env rt input sc s) of
      Returned r \<Rightarrow> fst (ExecuteToolGuarded env rt input sc s) = r
    | Panicked \<Rightarrow> (\<exists>e. fst (ExecuteToolGuarded env rt input sc s) = Inl e \<and>
        ModelFacingToolErrorText (Some e) = MsgToolPanicked)
    | Hangs \<Rightarrow> (\<exists>e. fst (ExecuteToolGuarded env rt input sc s) = Inl e \<and> err_is e SDeadlineExceeded)) \<and>
   (\<forall>e. ToolFailureContent name (Some e) \<in> RenderToolResultEnvelope name ToolResultStatusError `
        {MsgToolFailed, MsgToolUnavailable, MsgToolTimedOut, MsgToolPanicked})"
proof -
  have "ToolFailureContent name (Some e) \<in> RenderToolResultEnvelope name ToolResultStatusError `
        {MsgToolFailed, MsgToolUnavailable, MsgToolTimedOut, MsgToolPanicked}" for e
    using model_facing_fixed [of e] by (auto simp: ToolFailureContent_def model_facing_texts_def)
  moreover have "fst (ExecuteToolGuarded env rt input sc s) = r" if "fst (ExecuteTool env rt input sc s) = Returned r" for r
    using that by (cases "ExecuteTool env rt input sc s") (simp add: ExecuteToolGuarded_def)
  ultimately show ?thesis
    using guarded_panic_text [of env rt input sc s] guarded_deadline_text [of env rt input sc s]
    by (cases "fst (ExecuteTool env rt input sc s)") auto
qed

text \<open>Prefetching documents never fails, whatever the retrievers do: it reports how many were asked and
  how many of them failed, and searches only.\<close>

theorem prefetch_never_fails:
  "case ExecuteRetrievers env rt runID it query s of
     (Inl _, _) \<Rightarrow> False
   | (Inr res, s') \<Rightarrow> rrTotal res = int (length (rtRetrievers rt)) \<and> 0 \<le> rrFailed res \<and>
       rrFailed res \<le> rrTotal res \<and> adds (in_scope sc) s s'"
proof -
  obtain r s' where x: "ExecuteRetrievers env rt runID it query s = (r, s')" by fastforce
  let ?go = "go_all env \<lparr>roName = [], roDocs = [], roErr = None\<rparr> (length (rtRetrievers rt))
    (\<lambda>i. search_one rt runID it query (rtRetrievers rt ! i)) s"
  obtain rs s1 where g: "?go = (rs, s1)" by fastforce
  have l: "length rs = length (rtRetrievers rt)" using go_all_length [OF g] .
  have f: "length (filter P rs) \<le> length (rtRetrievers rt)" for P using l length_filter_le [of P rs] by simp
  show ?thesis using ExecuteRetrievers_adds [OF x, of sc] x f
    by (cases "rtRetrievers rt = []") (auto simp: ExecuteRetrievers_def Let_def g)
qed

text \<open>The tool a retriever is offered as leads back to the retriever.\<close>

theorem retriever_tool_name_roundtrip:
  assumes "trim_space n \<noteq> []"
  shows "RetrieverNameFromToolName (RetrieverToolName n) = Some (trim_space n)"
  using assms by (rule retriever_name_roundtrip)

lemma retriever_tool_name_roundtrip_witness:
  "RetrieverNameFromToolName (RetrieverToolName '' docs '') = Some ''docs''"
proof -
  have "trim_space '' docs '' = ''docs''" by code_simp
  then show ?thesis using retriever_tool_name_roundtrip [of "'' docs ''"] by simp
qed

section \<open>What the model reads\<close>

text \<open>A tool's output cannot forge the end of its envelope: the closing delimiter ends the envelope and
  occurs nowhere before, whatever the content, as long as the tool's name does not contain it.\<close>

theorem envelope_closed_once:
  assumes "\<not> str_contains name toolResultClose"
  shows "suffix toolResultClose (RenderToolResultEnvelope name st content) \<and>
    \<not> str_contains (butlast (RenderToolResultEnvelope name st content)) toolResultClose"
  using envelope_closed [OF assms] by blast

lemma envelope_closed_once_witness:
  "\<not> str_contains (butlast (RenderToolResultEnvelope ''sh'' ToolResultStatusOK ''</tool_result>ok'')) toolResultClose"
proof -
  have "\<not> str_contains ''sh'' toolResultClose" by code_simp
  from envelope_closed_once [OF this] show ?thesis by blast
qed

text \<open>Truncation keeps a prefix: output that fits is unchanged; otherwise the kept part has more than
  half of the limit and at most the limit (four characters a token, never less than a hundred), then the
  marker.\<close>

theorem truncation_bounds:
  assumes "int (length content) < 2 ^ 63"
  shows "TruncateToolOutput content limit = content \<or>
    (\<exists>n < length content. TruncateToolOutput content limit = take n content @ ''...'' \<and>
       max (4 * limit) 100 div 2 < int n \<and> int n \<le> max (4 * limit) 100)"
  using assms by (cases rule: truncate_cases [of content limit]) blast+

lemma truncation_bounds_witness:
  "TruncateToolOutput (replicate 200 CHR ''x'') 30 = replicate 200 CHR ''x'' \<or>
    (\<exists>n < length (replicate 200 CHR ''x''). TruncateToolOutput (replicate 200 CHR ''x'') 30 = take n (replicate 200 CHR ''x'') @ ''...'' \<and>
       max (4 * 30) 100 div 2 < int n \<and> int n \<le> max (4 * 30) 100)"
  by (rule truncation_bounds) simp

section \<open>Hooks\<close>

text \<open>Hooks run in registration order, group by group, nil hooks skipped, each seeing what its
  predecessor left; the first error ends the chain, and chains compose.\<close>

theorem hooks_run_in_order:
  "run_groups step meta gs cur w = run_flat (flat_chain step meta gs) cur w \<and>
   run_groups step meta (gs @ gs') cur w =
     (case run_groups step meta gs cur w of
        (Inl e, w') \<Rightarrow> (Inl e, w')
      | (Inr cur', w') \<Rightarrow> run_groups step meta gs' cur' w')"
  unfolding run_groups_flat flat_chain_def by (simp add: run_flat_append)



section \<open>Memory\<close>


text \<open>The metadata a record is filed under: tenant, user and agent come from the scope, whatever tags
  it carries; every other key comes from the tags.\<close>

theorem scope_metadata_isolates:
  "map_of (ScopeMetadata s) k =
     (if k = ScopeKeyTenantID then (if TenantID s \<noteq> [] then Some (TenantID s) else None)
      else if k = ScopeKeyUserID then (if UserID s \<noteq> [] then Some (UserID s) else None)
      else if k = ScopeKeyAgentID then (if AgentID s \<noteq> [] then Some (AgentID s) else None)
      else map_of (Tags s) k)"
  by (rule ScopeMetadata_lookup)

section \<open>Budgets, stores and counters\<close>

text \<open>The token budget against exact arithmetic: as long as the true sum fits 64 bits it equals the
  sum of the reported totals, and the budget is exceeded exactly when that sum is above a positive limit.
  An exceeded budget stays so, also across a wrap-around.\<close>

theorem token_budget_exact:
  assumes "list_all (\<lambda>u. 0 \<le> total_of u) us" and "sum_list (map total_of us) < 2 ^ 63"
  shows "sint (tuTotal (usage (spend (NewTokenBudget m) us))) = sum_list (map total_of us) \<and>
    (IsExceeded (spend (NewTokenBudget m) us) \<longleftrightarrow> 0 < sint m \<and> sint m < sum_list (map total_of us)) \<and>
    (IsExceeded (spend (NewTokenBudget m) us) \<le> IsExceeded (spend (NewTokenBudget m) (us @ us')))"
proof -
  have b: "sint (tuTotal (usage (NewTokenBudget m))) = 0" "\<not> exceeded (NewTokenBudget m)" "maxTokens (NewTokenBudget m) = m"
    by (simp_all add: NewTokenBudget_def zero_usage_def)
  have "spend (NewTokenBudget m) (us @ us') = spend (spend (NewTokenBudget m) us) us'" by (simp add: spend_def)
  then show ?thesis
    using spend_exact [of "NewTokenBudget m" us] exceeded_sticky [of "spend (NewTokenBudget m) us" us'] assms b
    by (auto simp: list_all_iff IsExceeded_def)
qed

lemma token_budget_exact_witness:
  "IsExceeded (spend (NewTokenBudget 10) [Some \<lparr>tuPrompt = 3, tuCompletion = 4, tuTotal = 7\<rparr>, None,
     Some \<lparr>tuPrompt = 1, tuCompletion = 3, tuTotal = 4\<rparr>])"
  using token_budget_exact [of "[Some \<lparr>tuPrompt = 3, tuCompletion = 4, tuTotal = 7\<rparr>, None,
     Some \<lparr>tuPrompt = 1, tuCompletion = 3, tuTotal = 4\<rparr>]" 10] by (simp add: total_of_def)

text \<open>C40. The store of approval tokens implements its history: over any sequence of stores, lookups,
  deletes and clean-ups at increasing times, a lookup returns the channel last stored under the token,
  unless it was deleted since or its time to live has passed.\<close>

theorem approval_store_refines:
  assumes "sorted (map fst xs)"
  shows "fst (store_run (NewApprovalStore t) xs) = spec_replies t [] xs"
proof (cases xs)
  case (Cons y ys)
  have "sorted (fst y # map fst xs)" using assms Cons by simp
  from store_run_rel [OF store_rel_new this] show ?thesis by (simp add: NewApprovalStore_def)
qed simp

lemma approval_store_refines_witness:
  "fst (store_run (NewApprovalStore 5) [(0, OpStore ''k'' ''a''), (3, OpLoad ''k''), (5, OpCleanup), (6, OpLoad ''k'')])
   = [None, Some ''a'', None, None]"
  by (subst approval_store_refines) simp_all

text \<open>Tool telemetry counts what happened: the totals are the numbers of calls and of failed calls,
  and each named tool's entry counts its own.\<close>

lemma tool_telemetry_counts:
  "TotalCalls (record_all t cs) = TotalCalls t + int (length cs) \<and>
   FailedCalls (record_all t cs) = FailedCalls t + int (length (filter snd cs)) \<and>
   tally (Breakdown (record_all t cs)) n = tally (Breakdown t) n + (if n = [] then 0 else int (count_list (map fst cs) n)) \<and>
   tally (FailedBreakdown (record_all t cs)) n
     = tally (FailedBreakdown t) n + (if n = [] then 0 else int (count_list (map fst (filter snd cs)) n))"
proof (cases "n = []")
  case True
  have "tally (Breakdown (record_all t cs)) [] = tally (Breakdown t) []"
    "tally (FailedBreakdown (record_all t cs)) [] = tally (FailedBreakdown t) []"
    by (induction cs arbitrary: t) (auto simp: tally_bump)
  then show ?thesis by (simp add: True record_all_totals)
qed (simp add: record_all_totals record_all_breakdown)

end
