(* ===== verification/LocalLoop.thy ===== *)
theory LocalLoop
  imports ToolExec TokenBudget
begin

text \<open>
  The in-process agent loop (\<open>internal/runtime/local/agent_loop.go\<close>, \<open>subagent.go\<close>): the LLM/tool
  iteration, the life of one tool call (authorize, approve, execute), delegation to sub-agents, and the
  persisting of the conversation.

  A sub-agent runs the same loop on its own runtime.  The loop is therefore written over a parameter
  \<open>run\<close>, the loop used for delegation, and \<open>run_level\<close> ties the knot to a given nesting depth;
  \<open>RunAgentLoop\<close> uses the height of the tree of routes, which \<open>LocalFacts\<close> shows to be enough.
\<close>

section \<open>Inputs and results\<close>

record ApprovalRequest =
  arName :: ApprovalRequestName
  arValue :: goany

record 'w LocalRuntime =
  locBase :: "'w Runtime"
  locBus :: bool

text \<open>The routes form a finite tree, as \<open>buildSubAgentRoutes\<close> builds them.  A handler acts on the
  world; what is answered is read when the loop waits (\<open>await_status\<close>).\<close>

datatype 'w subAgentRoute =
  Route (routeName: string) (routeRuntime: "'w LocalRuntime option")
    (routeChildren: "(string \<times> 'w subAgentRoute) list") (routeTools: "'w Tool list")

record 'w AgentLoopInput =
  alUserPrompt :: string
  alConversationID :: string
  alStreamingEnabled :: bool
  alTools :: "'w Tool list"
  alChannelName :: string
  alApprovalHandler :: "(ApprovalRequest \<Rightarrow> 'w \<Rightarrow> 'w) option"
  alSubAgentRoutes :: "(string \<times> 'w subAgentRoute) list"
  alSubAgentDepth :: int
  alMaxSubAgentDepth :: int
  alMemoryScope :: MemoryScope
  alRunID :: string

record AgentLoopResult =
  resContent :: string
  resUsage :: "LLMUsage option"
  resTelemetry :: AgentTelemetry

record toolResult =
  trMessage :: Message
  trFailed :: bool

type_synonym 'w run =
  "'w LocalRuntime \<Rightarrow> 'w AgentLoopInput \<Rightarrow> 'w st \<Rightarrow> (goerr + AgentLoopResult) \<times> 'w st"

definition zero_message :: Message where
  "zero_message = message RoleUnset []"

definition zero_toolResult :: toolResult where
  "zero_toolResult = \<lparr>trMessage = zero_message, trFailed = False\<rparr>"

definition emit :: "'w Env \<Rightarrow> 'w LocalRuntime \<Rightarrow> 'w AgentLoopInput \<Rightarrow> AgentEvent \<Rightarrow> 'w st \<Rightarrow> 'w st" where
  "emit env lrt input ev s = publishEventToChannel env (locBus lrt) (alChannelName input) ev s"

section \<open>Sub-agent routes\<close>

text \<open>A spec's runtime is a local one (possibly a nil pointer of that type) or some other, known by an address.\<close>

datatype 'w AnyRuntime = LocalRT "'w LocalRuntime option" | OtherRT nat

datatype 'w SubAgentSpec =
  Spec (specName: string) (specToolName: string) (specRuntime: "'w AnyRuntime")
    (specChildren: "'w SubAgentSpec option list") (specTools: "'w Tool list")

fun add_routes :: "(string \<times> 'w subAgentRoute) list \<Rightarrow> 'w SubAgentSpec option list
    \<Rightarrow> (string \<times> 'w subAgentRoute) list" where
  "add_routes out [] = out"
| "add_routes out (None # specs) = add_routes out specs"
| "add_routes out (Some (Spec n tn (OtherRT a) ch ts) # specs) = add_routes out specs"
| "add_routes out (Some (Spec n tn (LocalRT lr) ch ts) # specs) =
     add_routes (AList.update tn (Route n lr (add_routes [] ch) ts) out) specs"

definition buildSubAgentRoutes :: "'w SubAgentSpec option list \<Rightarrow> (string \<times> 'w subAgentRoute) list" where
  "buildSubAgentRoutes specs = add_routes [] specs"

section \<open>Approval\<close>

definition approvalStatusText :: "ApprovalStatus \<Rightarrow> string" where
  "approvalStatusText st =
     (case st of
        ApprovalStatusNone \<Rightarrow> ''NONE'' | ApprovalStatusPending \<Rightarrow> ''PENDING''
      | ApprovalStatusApproved \<Rightarrow> ''APPROVED'' | ApprovalStatusRejected \<Rightarrow> ''REJECTED''
      | ApprovalStatusUnavailable \<Rightarrow> ''UNAVAILABLE'')"

definition omitempty :: "string \<Rightarrow> string \<Rightarrow> (string \<times> goany) list" where
  "omitempty k v = (if v = [] then [] else [(k, VString v)])"

definition args_value :: "gomap \<Rightarrow> goany" where
  "args_value args = (case args of None \<Rightarrow> VNil | Some kvs \<Rightarrow> VMap kvs)"

definition omitempty_args :: "gomap \<Rightarrow> (string \<times> goany) list" where
  "omitempty_args args = (if map_len args = 0 then [] else [(''args'', args_value args)])"

definition delegation_value :: "'w LocalRuntime \<Rightarrow> ToolCallRequest \<Rightarrow> string \<Rightarrow> goany" where
  "delegation_value lrt tc token =
     VMap (omitempty ''agentName'' (rtName (locBase lrt)) @ omitempty ''subAgentName'' (tcrDisplayName tc)
           @ omitempty_args (tcrArgs tc) @ omitempty ''approvalToken'' token)"

definition tool_approval_value :: "'w LocalRuntime \<Rightarrow> ToolCallRequest \<Rightarrow> string \<Rightarrow> goany" where
  "tool_approval_value lrt tc token =
     VMap (omitempty ''agentName'' (rtName (locBase lrt)) @ omitempty ''toolCallId'' (tcrID tc)
           @ [(''toolName'', VString (tcrName tc))] @ omitempty ''toolDisplayName'' (tcrDisplayName tc)
           @ omitempty_args (tcrArgs tc) @ omitempty ''approvalToken'' token)"

definition approvalRequest :: "'w LocalRuntime \<Rightarrow> ToolCallRequest \<Rightarrow> bool \<Rightarrow> string \<Rightarrow> ApprovalRequest" where
  "approvalRequest lrt tc isSubAgent token =
     (if isSubAgent then \<lparr>arName = ApprovalRequestNameSubAgent, arValue = delegation_value lrt tc token\<rparr>
      else \<lparr>arName = ApprovalRequestNameTool, arValue = tool_approval_value lrt tc token\<rparr>)"

definition approvalEvent :: "'w LocalRuntime \<Rightarrow> ToolCallRequest \<Rightarrow> bool \<Rightarrow> string \<Rightarrow> AgentEvent" where
  "approvalEvent lrt tc isSubAgent token =
     (if isSubAgent then EvCustom ''sub_agent_delegation'' (delegation_value lrt tc token)
      else EvCustom ''tool_approval'' (tool_approval_value lrt tc token))"

lemma approvalEvent_lifecycle [simp]: "\<not> lifecycle (approvalEvent lrt tc sub token)"
  by (simp add: approvalEvent_def)

text \<open>The approval gate: the status, or the error of the context, and the token that was registered.\<close>

definition ask_approval :: "'w Env \<Rightarrow> 'w LocalRuntime \<Rightarrow> 'w AgentLoopInput \<Rightarrow> ToolCallRequest \<Rightarrow> bool \<Rightarrow> 'w st
    \<Rightarrow> ((goerr + ApprovalStatus) \<times> string option) \<times> 'w st" where
  "ask_approval env lrt input tc isSubAgent s =
     (if \<not> tcrNeedsApproval tc then ((Inr ApprovalStatusApproved, None), s)
      else if alChannelName input = [] \<and> alApprovalHandler input = None then
        ((Inr ApprovalStatusUnavailable, None), s)
      else
        (let (token, s1) = ext (uuid env) s;
             s2 = logged (ApprovalStored token) s1;
             s3 = emit env lrt input (approvalEvent lrt tc isSubAgent token) s2;
             s4 = (case alApprovalHandler input of
                     None \<Rightarrow> s3
                   | Some h \<Rightarrow> s3\<lparr>world := h (approvalRequest lrt tc isSubAgent token) (world s3)\<rparr>);
             (ans, s5) = ext (await_status env token) s4
         in ((ans, Some token), s5)))"

text \<open>The deferred \<open>pendingApprovals.Delete\<close>.\<close>

definition release_token :: "string option \<Rightarrow> 'w st \<Rightarrow> 'w st" where
  "release_token tok s = (case tok of None \<Rightarrow> s | Some token \<Rightarrow> logged (ApprovalDeleted token) s)"

section \<open>One tool call\<close>

definition delegate :: "'w Env \<Rightarrow> 'w run \<Rightarrow> 'w LocalRuntime \<Rightarrow> 'w AgentLoopInput \<Rightarrow> ToolCallRequest
    \<Rightarrow> 'w subAgentRoute \<Rightarrow> 'w st \<Rightarrow> string \<times> 'w st" where
  "delegate env run lrt input tc route s =
     (let stepName = (if trim_space (routeName route) = [] then tcrName tc else trim_space (routeName route));
          (canDelegate, msg) = CheckSubAgentDepth (alSubAgentDepth input) (alMaxSubAgentDepth input)
      in if \<not> canDelegate then (msg, s)
         else case routeRuntime route of
                None \<Rightarrow> (''Sub-agent delegation not available for this runtime.'', s)
              | Some sub \<Rightarrow>
                  (let s1 = emit env lrt input (EvStepStarted stepName) s;
                       (runID, s2) = ext (uuid env) s1;
                       (res, s3) = run sub
                          \<lparr>alUserPrompt = SubAgentQuery (tcrArgs tc), alConversationID = [],
                           alStreamingEnabled = alStreamingEnabled input, alTools = routeTools route,
                           alChannelName = alChannelName input, alApprovalHandler = alApprovalHandler input,
                           alSubAgentRoutes = routeChildren route, alSubAgentDepth = alSubAgentDepth input + 1,
                           alMaxSubAgentDepth = alMaxSubAgentDepth input,
                           alMemoryScope = SubAgentScope (alMemoryScope input) stepName, alRunID = runID\<rparr> s2;
                       s4 = emit env lrt input (EvStepFinished stepName) s3
                   in (case res of
                         Inl e \<Rightarrow> ''Sub-agent execution failed: '' @ err_msg e
                       | Inr r \<Rightarrow> resContent r, s4)))"

text \<open>The execution of an approved call: its content and whether it failed.\<close>

definition execute_call :: "'w Env \<Rightarrow> 'w run \<Rightarrow> 'w LocalRuntime \<Rightarrow> 'w AgentLoopInput \<Rightarrow> int \<Rightarrow> ToolCallRequest
    \<Rightarrow> 'w st \<Rightarrow> (string \<times> bool) \<times> 'w st" where
  "execute_call env run lrt input iteration tc s =
     (case map_of (alSubAgentRoutes input) (tcrName tc) of
        Some route \<Rightarrow> (let (content, s1) = delegate env run lrt input tc route s in ((content, False), s1))
      | None \<Rightarrow>
          (case ExecuteToolGuarded env (locBase lrt)
                  \<lparr>tiTools = alTools input, tiToolName = tcrName tc, tiArgs = tcrArgs tc,
                   tiToolCallID = tcrID tc, tiRunID = alRunID input, tiIteration = iteration\<rparr>
                  (alMemoryScope input) s of
             (Inl e, s1) \<Rightarrow> ((ToolFailureContent (tcrName tc) (Some e), True), s1)
           | (Inr result, s1) \<Rightarrow> ((RenderToolResultEnvelope (tcrName tc) ToolResultStatusOK result, False), s1)))"

definition emitToolEndThenResult :: "'w Env \<Rightarrow> 'w LocalRuntime \<Rightarrow> 'w AgentLoopInput \<Rightarrow> string \<Rightarrow> string \<Rightarrow> string
    \<Rightarrow> 'w st \<Rightarrow> 'w st" where
  "emitToolEndThenResult env lrt input messageID toolCallID content s =
     emit env lrt input (EvToolCallResult messageID toolCallID content)
       (emit env lrt input (EvToolCallEnd toolCallID) s)"

definition failed_result :: toolResult where
  "failed_result = \<lparr>trMessage = zero_message, trFailed = True\<rparr>"

text \<open>The call from the answer of the approval gate on.\<close>

definition after_approval :: "'w Env \<Rightarrow> 'w run \<Rightarrow> 'w LocalRuntime \<Rightarrow> 'w AgentLoopInput \<Rightarrow> string \<Rightarrow> int
    \<Rightarrow> ToolCallRequest \<Rightarrow> ApprovalStatus \<Rightarrow> 'w st \<Rightarrow> (toolResult \<times> goerr option) \<times> 'w st" where
  "after_approval env run lrt input messageID iteration tc status s =
     (let finish = (\<lambda>content failed s1.
            ((\<lparr>trMessage = BuildToolResultMessage (tcrID tc) (tcrName tc) content, trFailed = failed\<rparr>, None),
             emitToolEndThenResult env lrt input messageID (tcrID tc) content s1))
      in case status of
           ApprovalStatusApproved \<Rightarrow>
             (let ((content, failed), s1) = execute_call env run lrt input iteration tc s in finish content failed s1)
         | ApprovalStatusRejected \<Rightarrow> finish MsgToolRejected False s
         | ApprovalStatusUnavailable \<Rightarrow> finish MsgToolApprovalUnavailable False s
         | _ \<Rightarrow> ((failed_result,
                 Some (new_error (''unexpected approval status '' @ go_quote (approvalStatusText status)
                       @ '' for tool '' @ go_quote (tcrName tc)))), s))"

definition announce_call :: "'w Env \<Rightarrow> 'w LocalRuntime \<Rightarrow> 'w AgentLoopInput \<Rightarrow> string \<Rightarrow> ToolCallRequest
    \<Rightarrow> 'w st \<Rightarrow> 'w st" where
  "announce_call env lrt input messageID tc s =
     (let s1 = emit env lrt input (EvToolCallStart (tcrID tc) (tcrName tc) messageID) s in
      case json env (args_value (tcrArgs tc)) of
        None \<Rightarrow> s1
      | Some j \<Rightarrow>
          (if j \<noteq> [] \<and> j \<noteq> ''null'' \<and> j \<noteq> ''{}'' then emit env lrt input (EvToolCallArgs (tcrID tc) j) s1 else s1))"

definition executeSingleTool :: "'w Env \<Rightarrow> 'w run \<Rightarrow> 'w LocalRuntime \<Rightarrow> 'w AgentLoopInput \<Rightarrow> string \<Rightarrow> int
    \<Rightarrow> ToolCallRequest \<Rightarrow> 'w st \<Rightarrow> (toolResult \<times> goerr option) \<times> 'w st" where
  "executeSingleTool env run lrt input messageID iteration tc s =
     (case AuthorizeTool (alTools input) (tcrName tc) (tcrArgs tc) (announce_call env lrt input messageID tc s) of
        (Inl e, s1) \<Rightarrow>
          ((failed_result, Some (wrap_error (''tool authorization error for '' @ go_quote (tcrName tc) @ '': '') e)), s1)
      | (Inr auth, s1) \<Rightarrow>
          (if \<not> Allowed auth then
             (let content = FormatAuthorizationDeniedMessage (Reason auth) in
              ((\<lparr>trMessage = \<lparr>mRole = RoleTool, mContent = content, mToolName = tcrName tc,
                               mToolCallID = tcrID tc, mToolCalls = []\<rparr>, trFailed = False\<rparr>, None),
               emitToolEndThenResult env lrt input messageID (tcrID tc) content s1))
           else
             (let isSubAgent = map_of (alSubAgentRoutes input) (tcrName tc) \<noteq> None;
                  ((ans, tok), s2) = ask_approval env lrt input tc isSubAgent s1
              in case ans of
                   Inl e \<Rightarrow> ((failed_result, Some e), release_token tok s2)
                 | Inr status \<Rightarrow>
                     (let (r, s3) = after_approval env run lrt input messageID iteration tc status s2
                      in (r, release_token tok s3)))))"

section \<open>The tool calls of one iteration\<close>

definition settle :: "ToolCallRequest \<Rightarrow> toolResult \<times> goerr option \<Rightarrow> toolResult" where
  "settle tc r =
     (case r of
        (result, None) \<Rightarrow> result
      | (result, Some e) \<Rightarrow>
          result\<lparr>trMessage := BuildToolErrorResultMessage (tcrID tc) (tcrName tc) (Some e), trFailed := True\<rparr>)"

definition run_call :: "'w Env \<Rightarrow> 'w run \<Rightarrow> 'w LocalRuntime \<Rightarrow> 'w AgentLoopInput \<Rightarrow> string \<Rightarrow> int
    \<Rightarrow> ToolCallRequest \<Rightarrow> 'w st \<Rightarrow> toolResult \<times> 'w st" where
  "run_call env run lrt input messageID iteration tc s =
     (let (r, s1) = executeSingleTool env run lrt input messageID iteration tc s in (settle tc r, s1))"

definition executeToolsParallel :: "'w Env \<Rightarrow> 'w run \<Rightarrow> 'w LocalRuntime \<Rightarrow> 'w AgentLoopInput \<Rightarrow> string \<Rightarrow> int
    \<Rightarrow> ToolCallRequest list \<Rightarrow> 'w st \<Rightarrow> toolResult list \<times> 'w st" where
  "executeToolsParallel env run lrt input messageID iteration toolCalls s =
     go_all env zero_toolResult (length toolCalls)
       (\<lambda>i. run_call env run lrt input messageID iteration (toolCalls ! i)) s"

fun executeToolsSequential :: "'w Env \<Rightarrow> 'w run \<Rightarrow> 'w LocalRuntime \<Rightarrow> 'w AgentLoopInput \<Rightarrow> string \<Rightarrow> int
    \<Rightarrow> ToolCallRequest list \<Rightarrow> 'w st \<Rightarrow> toolResult list \<times> 'w st" where
  "executeToolsSequential env run lrt input messageID iteration [] s = ([], s)"
| "executeToolsSequential env run lrt input messageID iteration (tc # tcs) s =
     (let (r, s1) = run_call env run lrt input messageID iteration tc s;
          (rs, s2) = executeToolsSequential env run lrt input messageID iteration tcs s1
      in (r # rs, s2))"

section \<open>The conversation\<close>

definition conversationMemoryEnabled :: "'w LocalRuntime \<Rightarrow> 'w AgentLoopInput \<Rightarrow> bool" where
  "conversationMemoryEnabled lrt input \<longleftrightarrow> alConversationID input \<noteq> [] \<and> rtConversation (locBase lrt) \<noteq> None"

definition FetchConversationMessages :: "'w Runtime \<Rightarrow> string \<Rightarrow> 'w st \<Rightarrow> (goerr + Message list) \<times> 'w st" where
  "FetchConversationMessages rt conversationID s =
     (case rtConversation rt of
        None \<Rightarrow> (Inl (new_error ''conversation is not configured''), s)
      | Some conv \<Rightarrow>
          (let limit = (if rtConversationSize rt \<le> 0 then 20 else rtConversationSize rt) in
           case ext (convListMessages conv conversationID limit) s of
             (Inl e, s1) \<Rightarrow> (Inl (wrap_error ''failed to list conversation messages: '' e), s1)
           | (Inr ms, s1) \<Rightarrow> (Inr ms, s1)))"

definition add_message :: "'w Conversation \<Rightarrow> string \<Rightarrow> Message \<Rightarrow> 'w st \<Rightarrow> 'w st" where
  "add_message conv conversationID m s =
     snd (ext (convAddMessage conv conversationID m) (logged (ConversationAdded conversationID m) s))"

text \<open>A message the store refuses is logged and skipped.\<close>

definition persistConversationMessages :: "'w LocalRuntime \<Rightarrow> string \<Rightarrow> Message list \<Rightarrow> 'w st \<Rightarrow> 'w st" where
  "persistConversationMessages lrt conversationID messages s =
     (case rtConversation (locBase lrt) of
        None \<Rightarrow> s
      | Some conv \<Rightarrow> foldl (\<lambda>s m. add_message conv conversationID m s) s messages)"

section \<open>One iteration\<close>

record LoopState =
  lsMessages :: "Message list"
  lsPersisted :: nat
  lsContent :: string
  lsUsage :: "LLMUsage option"
  lsBudget :: "TokenBudget option"
  lsTelemetry :: AgentTelemetry

datatype loop_step = Continue LoopState | Break LoopState | Fail goerr

record LoopContext =
  lcMemory :: string
  lcRetriever :: string

definition call_llm :: "'w Env \<Rightarrow> 'w LocalRuntime \<Rightarrow> 'w AgentLoopInput \<Rightarrow> LoopContext \<Rightarrow> string \<Rightarrow> int
    \<Rightarrow> Message list \<Rightarrow> bool \<Rightarrow> 'w st \<Rightarrow> (goerr + LLMResult) \<times> 'w st" where
  "call_llm env lrt input ctx messageID iter messages skipTools s =
     (let li = \<lparr>liMessageID = messageID, liRunID = alRunID input, liIteration = iter, liMessages = messages,
                liSkipTools = skipTools, liMemoryContext = lcMemory ctx, liRetrieverContext = lcRetriever ctx,
                liTools = alTools input, liEmit = emit env lrt input\<rparr>
      in if alStreamingEnabled input then ExecuteLLMStream env (locBase lrt) li s
         else ExecuteLLM (locBase lrt) li s)"

text \<open>Accounting for a call: telemetry, merged usage, token budget.\<close>

definition count_call :: "AgentTelemetry \<Rightarrow> AgentTelemetry" where
  "count_call tel = tel\<lparr>Run := (Run tel)\<lparr>TotalLLMCalls := TotalLLMCalls (Run tel) + 1\<rparr>\<rparr>"

definition finished :: "FinishReason \<Rightarrow> AgentTelemetry \<Rightarrow> AgentTelemetry" where
  "finished why tel = tel\<lparr>Run := (Run tel)\<lparr>FinishReasonOf := why\<rparr>\<rparr>"

definition charge :: "LLMUsage option \<Rightarrow> TokenBudget option \<Rightarrow> TokenBudget option" where
  "charge u b =
     (case (b, u) of (Some tb, Some _) \<Rightarrow> Some (AddUsage tb (Some (ConvertFromLLMUsage u))) | _ \<Rightarrow> b)"

definition over_budget :: "LLMUsage option \<Rightarrow> TokenBudget option \<Rightarrow> bool" where
  "over_budget u b = (case (b, u) of (Some tb, Some _) \<Rightarrow> IsExceeded tb | _ \<Rightarrow> False)"

definition assistant_message :: "LLMResult \<Rightarrow> Message" where
  "assistant_message r =
     (message RoleAssistant (lrContent r))
       \<lparr>mToolCalls := map (\<lambda>tc. \<lparr>tcID = tcrID tc, tcName = tcrName tc, tcArgs = tcrArgs tc\<rparr>) (lrToolCalls r)\<rparr>"

definition record_result :: "ToolCallRequest \<Rightarrow> toolResult \<Rightarrow> AgentTelemetry \<Rightarrow> AgentTelemetry" where
  "record_result tc result tel =
     (let tel1 = (if CountsTowardToolTelemetry (tcrKind tc)
                  then tel\<lparr>ToolsT := Record (ToolsT tel) (tcrName tc) (trFailed result)\<rparr> else tel);
          st1 = Storage tel1;
          st2 = (if tcrKind tc = ToolKindRetriever
                 then st1\<lparr>TotalRetrieverSearches := TotalRetrieverSearches st1 + 1,
                          AgenticSearches := AgenticSearches st1 + 1,
                          FailedRetrieverSearches := FailedRetrieverSearches st1 + (if trFailed result then 1 else 0)\<rparr>
                 else st1);
          st3 = (if tcrName tc = SaveMemoryToolName
                 then (if trFailed result then st2\<lparr>FailedMemoryStores := FailedMemoryStores st2 + 1\<rparr>
                       else st2\<lparr>TotalMemoryStores := TotalMemoryStores st2 + 1\<rparr>)
                 else st2)
      in tel1\<lparr>Storage := st3\<rparr>)"

definition record_results :: "ToolCallRequest list \<Rightarrow> toolResult list \<Rightarrow> AgentTelemetry \<Rightarrow> AgentTelemetry" where
  "record_results tcs rs tel = foldl (\<lambda>tel (tc, r). record_result tc r tel) tel (zip tcs rs)"

text \<open>The forced last call, without tools.\<close>

definition final_call :: "'w Env \<Rightarrow> 'w LocalRuntime \<Rightarrow> 'w AgentLoopInput \<Rightarrow> LoopContext \<Rightarrow> int \<Rightarrow> LoopState \<Rightarrow> 'w st
    \<Rightarrow> loop_step \<times> 'w st" where
  "final_call env lrt input ctx iter ls s =
     (let (messageID, s1) = ext (uuid env) s in
      case call_llm env lrt input ctx messageID iter (lsMessages ls) True s1 of
        (Inl e, s2) \<Rightarrow> (Fail (wrap_error (''llm final call (iter '' @ int_to_str iter @ ''): '') e), s2)
      | (Inr r, s2) \<Rightarrow>
          (Break (ls\<lparr>lsMessages := lsMessages ls @ [message RoleAssistant (lrContent r)],
                     lsContent := lrContent r,
                     lsUsage := MergeLLMUsage (lsUsage ls) (lrUsage r),
                     lsTelemetry := finished FinishReasonMaxIterations (count_call (lsTelemetry ls))\<rparr>), s2))"

text \<open>The tool calls of an iteration, their messages and counts, and the optional save.\<close>

definition save_iteration :: "'w LocalRuntime \<Rightarrow> 'w AgentLoopInput \<Rightarrow> LoopState \<Rightarrow> 'w st \<Rightarrow> LoopState \<times> 'w st" where
  "save_iteration lrt input ls s =
     (if conversationMemoryEnabled lrt input \<and> rtSaveOnIteration (locBase lrt)
         \<and> length (lsMessages ls) > lsPersisted ls
      then (ls\<lparr>lsPersisted := length (lsMessages ls)\<rparr>,
            persistConversationMessages lrt (alConversationID input) (drop (lsPersisted ls) (lsMessages ls)) s)
      else (ls, s))"

definition tool_round :: "'w Env \<Rightarrow> 'w run \<Rightarrow> 'w LocalRuntime \<Rightarrow> 'w AgentLoopInput \<Rightarrow> string \<Rightarrow> int \<Rightarrow> LLMResult
    \<Rightarrow> LoopState \<Rightarrow> 'w st \<Rightarrow> loop_step \<times> 'w st" where
  "tool_round env run lrt input messageID iter r ls s =
     (let tcs = lrToolCalls r;
          toolExecMode = (if rtToolMode (locBase lrt) = ModeEmpty then ModeParallel else rtToolMode (locBase lrt));
          finish = (\<lambda>(results, s1).
            (let ls1 = ls\<lparr>lsMessages := lsMessages ls @ [assistant_message r] @ map trMessage results,
                          lsTelemetry := record_results tcs results (lsTelemetry ls)\<rparr>;
                 (ls2, s2) = save_iteration lrt input ls1 s1
             in (Continue ls2, s2)))
      in case toolExecMode of
           ModeParallel \<Rightarrow> finish (executeToolsParallel env run lrt input messageID iter tcs s)
         | ModeSequential \<Rightarrow> finish (executeToolsSequential env run lrt input messageID iter tcs s)
         | ModeEmpty \<Rightarrow> finish (executeToolsParallel env run lrt input messageID iter tcs s)
         | ModeOther m \<Rightarrow>
             (Fail (new_error (''invalid tool execution mode '' @ go_quote m @ '': use \"parallel\" or \"sequential\"'')), s))"

definition loop_iter :: "'w Env \<Rightarrow> 'w run \<Rightarrow> 'w LocalRuntime \<Rightarrow> 'w AgentLoopInput \<Rightarrow> LoopContext \<Rightarrow> int \<Rightarrow> int
    \<Rightarrow> LoopState \<Rightarrow> 'w st \<Rightarrow> loop_step \<times> 'w st" where
  "loop_iter env run lrt input ctx maxIter iter ls s =
     (let (messageID, s1) = ext (uuid env) s in
      case call_llm env lrt input ctx messageID iter (lsMessages ls) False s1 of
        (Inl e, s2) \<Rightarrow> (Fail (wrap_error (''llm call (iter '' @ int_to_str iter @ ''): '') e), s2)
      | (Inr r, s2) \<Rightarrow>
          (let ls1 = ls\<lparr>lsTelemetry := count_call (lsTelemetry ls),
                        lsUsage := MergeLLMUsage (lsUsage ls) (lrUsage r),
                        lsBudget := charge (lrUsage r) (lsBudget ls)\<rparr>
           in if over_budget (lrUsage r) (lsBudget ls1) then
                (Break (ls1\<lparr>lsTelemetry := finished FinishReasonTokenBudget (lsTelemetry ls1)\<rparr>), s2)
              else if lrToolCalls r = [] then
                (Break (ls1\<lparr>lsMessages := lsMessages ls1 @ [message RoleAssistant (lrContent r)],
                            lsContent := lrContent r\<rparr>), s2)
              else if iter = maxIter - 1 then final_call env lrt input ctx iter ls1 s2
              else tool_round env run lrt input messageID iter r ls1 s2))"

fun loop_from :: "(int \<Rightarrow> LoopState \<Rightarrow> 'w st \<Rightarrow> loop_step \<times> 'w st) \<Rightarrow> nat \<Rightarrow> int \<Rightarrow> LoopState \<Rightarrow> 'w st
    \<Rightarrow> (goerr + LoopState) \<times> 'w st" where
  "loop_from step 0 iter ls s = (Inr ls, s)"
| "loop_from step (Suc k) iter ls s =
     (case step iter ls s of
        (Continue ls1, s1) \<Rightarrow> loop_from step k (iter + 1) ls1 s1
      | (Break ls1, s1) \<Rightarrow> (Inr ls1, s1)
      | (Fail e, s1) \<Rightarrow> (Inl e, s1))"

section \<open>The loop\<close>

definition load_history :: "'w LocalRuntime \<Rightarrow> 'w AgentLoopInput \<Rightarrow> 'w st \<Rightarrow> Message list \<times> 'w st" where
  "load_history lrt input s =
     (if conversationMemoryEnabled lrt input then
        (case FetchConversationMessages (locBase lrt) (alConversationID input) s of
           (Inl _, s1) \<Rightarrow> ([], s1)
         | (Inr ms, s1) \<Rightarrow> (ms, s1))
      else ([], s))"

text \<open>Recall of long-term memory and prefetching of documents, with their counts.\<close>

definition prefetch_memory :: "'w LocalRuntime \<Rightarrow> 'w AgentLoopInput \<Rightarrow> AgentTelemetry \<Rightarrow> 'w st
    \<Rightarrow> (goerr + string \<times> AgentTelemetry) \<times> 'w st" where
  "prefetch_memory lrt input tel s =
     (if MemoryConfigured (locBase lrt) \<and> RecallEnabled (locBase lrt) then
        (case ExecuteMemoryRecall (locBase lrt) (alRunID input) 0 (alMemoryScope input) (alUserPrompt input) s of
           (Inl e, s1) \<Rightarrow> (Inl (wrap_error ''memory recall: '' e), s1)
         | (Inr res, s1) \<Rightarrow>
             (Inr (mresContext res,
                   tel\<lparr>Storage := (Storage tel)
                     \<lparr>TotalMemoryRecalls := TotalMemoryRecalls (Storage tel) + mresTotal res,
                      FailedMemoryRecalls := FailedMemoryRecalls (Storage tel) + mresFailed res\<rparr>\<rparr>), s1))
      else (Inr ([], tel), s))"

definition prefetch_documents :: "'w Env \<Rightarrow> 'w LocalRuntime \<Rightarrow> 'w AgentLoopInput \<Rightarrow> AgentTelemetry \<Rightarrow> 'w st
    \<Rightarrow> (goerr + string \<times> AgentTelemetry) \<times> 'w st" where
  "prefetch_documents env lrt input tel s =
     (if rtRetrieverMode (locBase lrt) \<in> {RetrieverModePrefetch, RetrieverModeHybrid}
         \<and> rtRetrievers (locBase lrt) \<noteq> [] then
        (case ExecuteRetrievers env (locBase lrt) (alRunID input) 0 (alUserPrompt input) s of
           (Inl e, s1) \<Rightarrow> (Inl (wrap_error ''retriever prefetch: '' e), s1)
         | (Inr res, s1) \<Rightarrow>
             (Inr (rrContext res,
                   tel\<lparr>Storage := (Storage tel)
                     \<lparr>TotalRetrieverSearches := TotalRetrieverSearches (Storage tel) + rrTotal res,
                      FailedRetrieverSearches := FailedRetrieverSearches (Storage tel) + rrFailed res,
                      PrefetchSearches := PrefetchSearches (Storage tel) + rrTotal res\<rparr>\<rparr>), s1))
      else (Inr ([], tel), s))"

definition start_state :: "'w LocalRuntime \<Rightarrow> 'w AgentLoopInput \<Rightarrow> Message list \<Rightarrow> AgentTelemetry \<Rightarrow> LoopState" where
  "start_state lrt input history tel =
     \<lparr>lsMessages = history @ [message RoleUser (alUserPrompt input)], lsPersisted = length history,
      lsContent = [], lsUsage = None,
      lsBudget = (if 0 <s rtMaxTokens (locBase lrt) then Some (NewTokenBudget (rtMaxTokens (locBase lrt))) else None),
      lsTelemetry = tel\<rparr>"

text \<open>What follows the loop: unsaved messages are persisted, memories extracted, the clock read.\<close>

definition save_rest :: "'w LocalRuntime \<Rightarrow> 'w AgentLoopInput \<Rightarrow> LoopState \<Rightarrow> 'w st \<Rightarrow> 'w st" where
  "save_rest lrt input ls s =
     (if conversationMemoryEnabled lrt input \<and> length (lsMessages ls) > lsPersisted ls
      then persistConversationMessages lrt (alConversationID input) (drop (lsPersisted ls) (lsMessages ls)) s
      else s)"

definition store_memories :: "'w Env \<Rightarrow> 'w LocalRuntime \<Rightarrow> 'w AgentLoopInput \<Rightarrow> LoopState \<Rightarrow> 'w st
    \<Rightarrow> AgentTelemetry \<times> 'w st" where
  "store_memories env lrt input ls s =
     (let tel = lsTelemetry ls; st = Storage tel in
      if RunEndMemoryStoreEnabled (locBase lrt) then
        (case ExecuteMemoryStore env (locBase lrt) (alRunID input) 0 (alMemoryScope input) (lsMessages ls) s of
           (Some _, s1) \<Rightarrow> (tel\<lparr>Storage := st\<lparr>FailedMemoryStores := FailedMemoryStores st + 1\<rparr>\<rparr>, s1)
         | (None, s1) \<Rightarrow> (tel\<lparr>Storage := st\<lparr>TotalMemoryStores := TotalMemoryStores st + 1\<rparr>\<rparr>, s1))
      else (tel, s))"

definition finish_run :: "'w Env \<Rightarrow> 'w LocalRuntime \<Rightarrow> 'w AgentLoopInput \<Rightarrow> LoopState \<Rightarrow> 'w st
    \<Rightarrow> AgentLoopResult \<times> 'w st" where
  "finish_run env lrt input ls s =
     (let (tel, s1) = store_memories env lrt input ls (save_rest lrt input ls s);
          (completed, s2) = ext (now env) s1
      in (\<lparr>resContent = lsContent ls, resUsage = lsUsage ls,
           resTelemetry = tel\<lparr>Run := (Run tel)\<lparr>CompletedAt := completed\<rparr>\<rparr>\<rparr>, s2))"

definition max_iterations :: "'w LocalRuntime \<Rightarrow> int" where
  "max_iterations lrt = (if rtMaxIterations (locBase lrt) \<le> 0 then 10 else rtMaxIterations (locBase lrt))"

definition iterate :: "'w Env \<Rightarrow> 'w run \<Rightarrow> 'w LocalRuntime \<Rightarrow> 'w AgentLoopInput \<Rightarrow> LoopContext \<Rightarrow> LoopState \<Rightarrow> 'w st
    \<Rightarrow> (goerr + LoopState) \<times> 'w st" where
  "iterate env run lrt input ctx ls s =
     loop_from (loop_iter env run lrt input ctx (max_iterations lrt)) (nat (max_iterations lrt)) 0 ls s"

definition agent_loop :: "'w Env \<Rightarrow> 'w run \<Rightarrow> 'w run" where
  "agent_loop env run lrt input s =
     (let (started, s1) = ext (now env) s;
          (history, s2) = load_history lrt input s1
      in case prefetch_memory lrt input (NewAgentTelemetry started) s2 of
           (Inl e, s3) \<Rightarrow> (Inl e, s3)
         | (Inr (mem, tel1), s3) \<Rightarrow>
             (case prefetch_documents env lrt input tel1 s3 of
                (Inl e, s4) \<Rightarrow> (Inl e, s4)
              | (Inr (docs, tel2), s4) \<Rightarrow>
                  (case iterate env run lrt input \<lparr>lcMemory = mem, lcRetriever = docs\<rparr>
                          (start_state lrt input history tel2) s4 of
                     (Inl e, s5) \<Rightarrow> (Inl e, s5)
                   | (Inr ls, s5) \<Rightarrow>
                       (let (res, s6) = finish_run env lrt input ls s5 in (Inr res, s6)))))"

text \<open>The nesting of delegations is bounded by the tree of routes.\<close>

fun routes_height :: "(string \<times> 'w subAgentRoute) list \<Rightarrow> nat" where
  "routes_height [] = 0"
| "routes_height ((_, Route n rt children ts) # rs) = max (Suc (routes_height children)) (routes_height rs)"

fun run_level :: "'w Env \<Rightarrow> nat \<Rightarrow> 'w run" where
  "run_level env 0 lrt input s = (Inl (new_error ''nesting bound''), s)"
| "run_level env (Suc n) lrt input s = agent_loop env (run_level env n) lrt input s"

definition RunAgentLoop :: "'w Env \<Rightarrow> 'w run" where
  "RunAgentLoop env lrt input s = run_level env (Suc (routes_height (alSubAgentRoutes input))) lrt input s"

section \<open>The runtime's entry points\<close>

record 'w ExecuteRequest =
  erUserPrompt :: string
  erConversationID :: "string option"
  erStreamingEnabled :: bool
  erSubAgents :: "'w SubAgentSpec option list"
  erMaxSubAgentDepth :: int
  erTools :: "'w Tool list"
  erApprovalHandler :: "(ApprovalRequest \<Rightarrow> 'w \<Rightarrow> 'w) option"

definition GetConversationID :: "'w ExecuteRequest \<Rightarrow> string" where
  "GetConversationID req = (case erConversationID req of None \<Rightarrow> [] | Some i \<Rightarrow> i)"

record AgentRunResult =
  arrContent :: string
  arrAgentName :: string
  arrModel :: string
  arrUsage :: "LLMUsage option"
  arrTelemetry :: AgentTelemetry

definition run_scope :: "'w LocalRuntime \<Rightarrow> go_context \<Rightarrow> MemoryScope" where
  "run_scope lrt c = (case ResolveMemoryScope (locBase lrt) c of Inl _ \<Rightarrow> empty_scope | Inr sc \<Rightarrow> sc)"

definition run_input :: "'w LocalRuntime \<Rightarrow> go_context \<Rightarrow> 'w ExecuteRequest \<Rightarrow> bool \<Rightarrow> string \<Rightarrow> string
    \<Rightarrow> 'w AgentLoopInput" where
  "run_input lrt c req streaming channel runID =
     \<lparr>alUserPrompt = erUserPrompt req, alConversationID = GetConversationID req, alStreamingEnabled = streaming,
      alTools = erTools req, alChannelName = channel, alApprovalHandler = erApprovalHandler req,
      alSubAgentRoutes = buildSubAgentRoutes (erSubAgents req), alSubAgentDepth = 0,
      alMaxSubAgentDepth = erMaxSubAgentDepth req, alMemoryScope = run_scope lrt c, alRunID = runID\<rparr>"

definition run_result :: "'w LocalRuntime \<Rightarrow> AgentLoopResult \<Rightarrow> AgentRunResult" where
  "run_result lrt r =
     \<lparr>arrContent = resContent r, arrAgentName = trim_space (rtName (locBase lrt)),
      arrModel = GetModel (rtClient (locBase lrt)), arrUsage = resUsage r, arrTelemetry = resTelemetry r\<rparr>"

definition Execute :: "'w Env \<Rightarrow> 'w LocalRuntime \<Rightarrow> go_context \<Rightarrow> 'w ExecuteRequest \<Rightarrow> 'w st
    \<Rightarrow> (goerr + AgentRunResult) \<times> 'w st" where
  "Execute env lrt c req s =
     (let (runID, s1) = ext (uuid env) s in
      case RunAgentLoop env lrt (run_input lrt c req False [] runID) s1 of
        (Inl e, s2) \<Rightarrow> (Inl e, s2)
      | (Inr r, s2) \<Rightarrow> (Inr (run_result lrt r), s2))"

definition publishLifecycleEvent :: "'w LocalRuntime \<Rightarrow> string \<Rightarrow> AgentEvent \<Rightarrow> 'w st \<Rightarrow> 'w st" where
  "publishLifecycleEvent lrt channel ev s =
     (if \<not> locBus lrt \<or> channel = [] then s else logged (Published channel ev) s)"

text \<open>The run of a stream: what its goroutine does after the subscription.  The payload of
  \<open>RUN_FINISHED\<close> is represented by the content of the result.\<close>

definition ExecuteStream :: "'w Env \<Rightarrow> 'w LocalRuntime \<Rightarrow> go_context \<Rightarrow> 'w ExecuteRequest \<Rightarrow> 'w st \<Rightarrow> 'w st" where
  "ExecuteStream env lrt c req s =
     (let (runID, s1) = ext (uuid env) s;
          threadID = (if GetConversationID req = [] then runID else GetConversationID req);
          channel = localChannelName runID;
          s2 = publishLifecycleEvent lrt channel (EvRunStarted threadID runID) s1
      in case RunAgentLoop env lrt (run_input lrt c req (erStreamingEnabled req) channel runID) s2 of
           (Inl e, s3) \<Rightarrow> publishLifecycleEvent lrt channel (EvRunError (err_msg e)) s3
         | (Inr r, s3) \<Rightarrow>
             publishLifecycleEvent lrt channel (EvRunFinished threadID runID (arrContent (run_result lrt r))) s3)"

end
