(* ===== verification/LocalFacts.thy ===== *)
theory LocalFacts
  imports LocalLoop LLMFacts ToolFacts
begin

text \<open>
  Facts about the in-process agent loop: delegation ends, what each operation adds to the log, the shape
  of the message list, and the persisting of the conversation.
\<close>

section \<open>Delegation ends\<close>

text \<open>The inputs a loop may delegate with.\<close>

definition child_input :: "'w AgentLoopInput \<Rightarrow> 'w AgentLoopInput \<Rightarrow> bool" where
  "child_input input inp \<longleftrightarrow>
     (\<exists>name route. map_of (alSubAgentRoutes input) name = Some route \<and> alSubAgentRoutes inp = routeChildren route) \<and>
     alSubAgentDepth inp = alSubAgentDepth input + 1 \<and> alMaxSubAgentDepth inp = alMaxSubAgentDepth input \<and>
     alSubAgentDepth input < alMaxSubAgentDepth input"

definition agree_below :: "'w run \<Rightarrow> 'w run \<Rightarrow> 'w AgentLoopInput \<Rightarrow> bool" where
  "agree_below run1 run2 input \<longleftrightarrow> (\<forall>sub inp s. child_input input inp \<longrightarrow> run1 sub inp s = run2 sub inp s)"

lemma delegate_cong:
  assumes "agree_below run1 run2 input" and "map_of (alSubAgentRoutes input) (tcrName tc) = Some route"
  shows "delegate env run1 lrt input tc route s = delegate env run2 lrt input tc route s"
proof (cases "alSubAgentDepth input < alMaxSubAgentDepth input")
  case True
  then have eq: "run1 sub inp s = run2 sub inp s"
    if "alSubAgentRoutes inp = routeChildren route" "alSubAgentDepth inp = alSubAgentDepth input + 1"
      "alMaxSubAgentDepth inp = alMaxSubAgentDepth input" for sub inp s
    using assms that by (auto simp: agree_below_def child_input_def)
  show ?thesis
    by (auto simp: delegate_def Let_def eq split: option.split prod.split)
qed (simp add: delegate_def CheckSubAgentDepth_def)

lemma execute_call_cong:
  "agree_below run1 run2 input \<Longrightarrow>
   execute_call env run1 lrt input it tc s = execute_call env run2 lrt input it tc s"
  by (auto simp: execute_call_def delegate_cong split: option.split)

lemma run_call_cong:
  assumes "agree_below run1 run2 input"
  shows "run_call env run1 lrt input mid it tc s = run_call env run2 lrt input mid it tc s"
proof -
  have eq: "execute_call env run1 lrt input it tc = execute_call env run2 lrt input it tc"
    by (rule HOL.ext) (rule execute_call_cong [OF assms])
  have eq': "after_approval env run1 lrt input mid it tc = after_approval env run2 lrt input mid it tc"
    unfolding after_approval_def eq ..
  show ?thesis unfolding run_call_def executeSingleTool_def eq' ..
qed

lemma executeToolsSequential_cong:
  assumes "agree_below run1 run2 input"
  shows "executeToolsSequential env run1 lrt input mid it tcs s = executeToolsSequential env run2 lrt input mid it tcs s"
  by (induction tcs arbitrary: s) (simp_all add: run_call_cong [OF assms])

lemma loop_iter_cong:
  assumes "agree_below run1 run2 input"
  shows "loop_iter env run1 lrt input ctx m it ls s = loop_iter env run2 lrt input ctx m it ls s"
proof -
  have call: "run_call env run1 lrt input = run_call env run2 lrt input"
    by (intro HOL.ext) (rule run_call_cong [OF assms])
  have par: "executeToolsParallel env run1 lrt input = executeToolsParallel env run2 lrt input"
    by (intro HOL.ext) (simp only: executeToolsParallel_def call)
  have seq: "executeToolsSequential env run1 lrt input = executeToolsSequential env run2 lrt input"
    by (intro HOL.ext) (rule executeToolsSequential_cong [OF assms])
  have round: "tool_round env run1 lrt input = tool_round env run2 lrt input"
    by (intro HOL.ext) (simp only: tool_round_def par seq)
  show ?thesis unfolding loop_iter_def round ..
qed

lemma agent_loop_cong:
  assumes "agree_below run1 run2 input"
  shows "agent_loop env run1 lrt input s = agent_loop env run2 lrt input s"
proof -
  have "loop_iter env run1 lrt input ctx m = loop_iter env run2 lrt input ctx m" for ctx m
    by (intro HOL.ext) (rule loop_iter_cong [OF assms])
  then have eq: "iterate env run1 lrt input = iterate env run2 lrt input"
    by (intro HOL.ext) (simp add: iterate_def)
  show ?thesis unfolding agent_loop_def eq ..
qed

lemma routes_height_child:
  "(name, Route n rt children ts) \<in> set routes \<Longrightarrow> routes_height children < routes_height routes"
  by (induction routes rule: routes_height.induct) auto

lemma child_height: "child_input input inp \<Longrightarrow> routes_height (alSubAgentRoutes inp) < routes_height (alSubAgentRoutes input)"
  by (auto simp: child_input_def dest!: map_of_SomeD)
     (metis routes_height_child subAgentRoute.collapse)

text \<open>Any level above the height of the routes gives the same run.\<close>

lemma run_level_enough:
  "routes_height (alSubAgentRoutes input) < n \<Longrightarrow> run_level env n lrt input s = RunAgentLoop env lrt input s"
proof (induction "routes_height (alSubAgentRoutes input)" arbitrary: n lrt input s rule: less_induct)
  case less
  let ?h = "routes_height (alSubAgentRoutes input)"
  obtain k where n: "n = Suc k" "?h \<le> k" using less.prems by (cases n) auto
  have "run_level env k sub inp t = run_level env ?h sub inp t" if "child_input input inp" for sub inp t
    using less.hyps [OF child_height [OF that]] child_height [OF that] n(2) by simp
  then have "agree_below (run_level env k) (run_level env ?h) input" by (simp add: agree_below_def)
  from agent_loop_cong [OF this] show ?case by (simp add: n(1) RunAgentLoop_def)
qed

text \<open>So the loop satisfies the recursion of the code.\<close>

lemma RunAgentLoop_rec: "RunAgentLoop env lrt input s = agent_loop env (RunAgentLoop env) lrt input s"
proof -
  have "agree_below (run_level env (routes_height (alSubAgentRoutes input))) (RunAgentLoop env) input"
    by (auto simp: agree_below_def dest: child_height intro: run_level_enough)
  from agent_loop_cong [OF this] show ?thesis by (simp add: RunAgentLoop_def)
qed

text \<open>Delegation never nests deeper than the configured maximum: any loop that is only right on inputs
  below depth \<open>d\<close> suffices at the maximum.\<close>

lemma run_level_depth:
  assumes "alMaxSubAgentDepth input - alSubAgentDepth input \<le> int n"
  shows "run_level env (Suc n) lrt input s = RunAgentLoop env lrt input s"
  using assms
proof (induction n arbitrary: lrt input s)
  case 0
  then have "agree_below (run_level env 0) (RunAgentLoop env) input" by (auto simp: agree_below_def child_input_def)
  from agent_loop_cong [OF this] show ?case by (simp add: RunAgentLoop_rec [of env lrt input])
next
  case (Suc n)
  have "agree_below (run_level env (Suc n)) (RunAgentLoop env) input"
    using Suc by (auto simp: agree_below_def child_input_def)
  from agent_loop_cong [OF this] show ?case by (simp add: RunAgentLoop_rec [of env lrt input])
qed

section \<open>What a run adds to the log\<close>

text \<open>Entries of a run that touch no conversation, and memory only for one tenant and user.\<close>

definition in_tenant :: "string \<Rightarrow> string \<Rightarrow> effect \<Rightarrow> bool" where
  "in_tenant tenant user e =
     (case e of
        MemoryStored sc _ _ \<Rightarrow> TenantID sc = tenant \<and> UserID sc = user
      | MemoryLoaded sc _ _ \<Rightarrow> TenantID sc = tenant \<and> UserID sc = user
      | ConversationAdded _ _ \<Rightarrow> False
      | _ \<Rightarrow> True)"

lemma in_tenant_simps [simp]:
  "in_tenant tn us (Counter n as)" "in_tenant tn us (Histogram n as)" "in_tenant tn us (Published c ev)"
  "in_tenant tn us (ApprovalStored tok)" "in_tenant tn us (ApprovalDeleted tok)"
  by (simp_all add: in_tenant_def)

lemma in_scope_tenant: "in_scope sc e \<Longrightarrow> in_tenant (TenantID sc) (UserID sc) e"
  by (auto simp: in_scope_def in_tenant_def split: effect.splits)

lemma llm_effect_tenant: "llm_effect e \<Longrightarrow> in_tenant tn us e"
  by (auto simp: llm_effect_def in_tenant_def split: effect.splits)

definition tenant_of :: "'w AgentLoopInput \<Rightarrow> effect \<Rightarrow> bool" where
  "tenant_of input = in_tenant (TenantID (alMemoryScope input)) (UserID (alMemoryScope input))"

lemma tenant_of_simps [simp]:
  "tenant_of input (Counter n as)" "tenant_of input (Histogram n as)" "tenant_of input (Published c ev)"
  "tenant_of input (ApprovalStored tok)" "tenant_of input (ApprovalDeleted tok)"
  by (simp_all add: tenant_of_def)

lemma scoped_tenant: "adds (in_scope (alMemoryScope input)) s s' \<Longrightarrow> adds (tenant_of input) s s'"
  unfolding tenant_of_def by (erule adds_mono) (rule in_scope_tenant)

lemma llm_tenant: "adds llm_effect s s' \<Longrightarrow> adds (tenant_of input) s s'"
  unfolding tenant_of_def by (erule adds_mono) (rule llm_effect_tenant)

text \<open>The loop used for delegation stays within the tenant and keeps off the conversation.\<close>

definition tame :: "'w run \<Rightarrow> bool" where
  "tame run \<longleftrightarrow>
     (\<forall>sub inp s r s'. alConversationID inp = [] \<longrightarrow> run sub inp s = (r, s') \<longrightarrow> adds (tenant_of inp) s s')"

text \<open>The frame of the tool calls, for any property of log entries that events, approvals, tools and
  memory accesses in the run's scope have, and every delegation keeps.\<close>

locale loop_frame =
  fixes P :: "effect \<Rightarrow> bool" and env :: "'w Env" and run :: "'w run" and lrt :: "'w LocalRuntime"
    and input :: "'w AgentLoopInput"
  assumes published [simp, intro]: "\<not> lifecycle ev \<Longrightarrow> P (Published c ev)"
    and stored [simp, intro]: "P (ApprovalStored tok)"
    and deleted [simp, intro]: "P (ApprovalDeleted tok)"
    and scoped: "in_scope (alMemoryScope input) e \<Longrightarrow> P e"
    and delegated: "map_of (alSubAgentRoutes input) (tcrName tc) = Some route \<Longrightarrow>
      delegate env run lrt input tc route s = (c, s') \<Longrightarrow> adds P s s'"
begin

lemma emit_adds: "adds P s s1 \<Longrightarrow> \<not> lifecycle ev \<Longrightarrow> adds P s (emit env lrt inp ev s1)"
  by (auto simp: emit_def publishEventToChannel_def)

lemma announce_adds: "adds P s s1 \<Longrightarrow> adds P s (announce_call env lrt inp mid tc s1)"
  by (auto simp: announce_call_def Let_def intro!: emit_adds split: option.split)

lemma finish_adds: "adds P s s1 \<Longrightarrow> adds P s (emitToolEndThenResult env lrt inp mid i c s1)"
  by (auto simp: emitToolEndThenResult_def intro!: emit_adds)

lemma release_adds: "adds P s s1 \<Longrightarrow> adds P s (release_token tok s1)"
  by (auto simp: release_token_def split: option.split)

lemma ask_approval_adds:
  assumes "adds P s s0" and "ask_approval env lrt input tc sub s0 = (r, s')"
  shows "adds P s s'"
proof (cases "\<not> tcrNeedsApproval tc \<or> alChannelName input = [] \<and> alApprovalHandler input = None")
  case True
  then show ?thesis using assms by (auto simp: ask_approval_def split: if_splits)
next
  case False
  obtain tok s1 where u: "ext (uuid env) s0 = (tok, s1)" by fastforce
  define s3 where "s3 = emit env lrt input (approvalEvent lrt tc sub tok) (logged (ApprovalStored tok) s1)"
  define s4 where "s4 = (case alApprovalHandler input of None \<Rightarrow> s3
      | Some h \<Rightarrow> s3\<lparr>world := h (approvalRequest lrt tc sub tok) (world s3)\<rparr>)"
  obtain ans s5 where w: "ext (await_status env tok) s4 = (ans, s5)" by fastforce
  have "adds P s s1" using assms(1) u by (rule adds_ext)
  then have "adds P s s3" by (auto simp: s3_def intro!: emit_adds)
  moreover have "trace s4 = trace s3" by (simp add: s4_def split: option.split)
  ultimately have "adds P s s4" by (metis adds_eq adds_trans)
  then have "adds P s s5" using w by (rule adds_ext)
  moreover have "s' = s5"
    using assms(2) False u w
    by (cases "alApprovalHandler input") (auto simp: ask_approval_def Let_def s3_def s4_def split: if_splits)
  ultimately show ?thesis by simp
qed

lemma execute_call_adds:
  assumes s0: "adds P s s0" and x: "execute_call env run lrt input it tc s0 = (r, s')"
  shows "adds P s s'"
proof (cases "map_of (alSubAgentRoutes input) (tcrName tc)")
  case (Some route)
  obtain c s1 where d: "delegate env run lrt input tc route s0 = (c, s1)" by fastforce
  then show ?thesis using adds_trans [OF s0 delegated [OF Some d]] x Some by (simp add: execute_call_def)
next
  case None
  obtain c s1 where g: "ExecuteToolGuarded env (locBase lrt)
      \<lparr>tiTools = alTools input, tiToolName = tcrName tc, tiArgs = tcrArgs tc,
       tiToolCallID = tcrID tc, tiRunID = alRunID input, tiIteration = it\<rparr> (alMemoryScope input) s0 = (c, s1)"
    by fastforce
  have "adds P s0 s1" by (rule adds_mono [OF ExecuteToolGuarded_adds [OF g] scoped])
  with s0 have "adds P s s1" by (rule adds_trans)
  moreover have "s' = s1" using x None g by (cases c) (simp_all add: execute_call_def)
  ultimately show ?thesis by simp
qed

lemma after_approval_adds:
  assumes s0: "adds P s s0"
    and a: "after_approval env run lrt input mid it tc st s0 = (r, s')"
  shows "adds P s s'"
proof (cases "st = ApprovalStatusApproved")
  case True
  obtain c f s1 where x: "execute_call env run lrt input it tc s0 = ((c, f), s1)" by (metis prod.exhaust)
  show ?thesis using a True x execute_call_adds [OF s0 x] by (auto simp: after_approval_def finish_adds)
next
  case False
  then show ?thesis using a s0 by (cases st) (auto simp: after_approval_def finish_adds Let_def)
qed

lemma run_call_adds:
  assumes "run_call env run lrt input mid it tc s = (r, s')"
  shows "adds P s s'"
proof -
  obtain x where x: "executeSingleTool env run lrt input mid it tc s = (x, s')"
    using assms by (auto simp: run_call_def split: prod.splits)
  define s0 where "s0 = announce_call env lrt input mid tc s"
  obtain a s1 where a: "AuthorizeTool (alTools input) (tcrName tc) (tcrArgs tc) s0 = (a, s1)" by fastforce
  have "adds P s s0" by (simp add: s0_def announce_adds)
  then have a1: "adds P s s1" using adds_eq [OF AuthorizeTool_trace [OF a]] by (rule adds_trans)
  show ?thesis
  proof (cases "\<exists>auth. a = Inr auth \<and> Allowed auth")
    case False
    then show ?thesis using x a a1
      by (cases a) (auto simp: executeSingleTool_def Let_def finish_adds simp flip: s0_def)
  next
    case True
    obtain ans tok s2 where ask: "ask_approval env lrt input tc
        (map_of (alSubAgentRoutes input) (tcrName tc) \<noteq> None) s1 = ((ans, tok), s2)" by (metis prod.exhaust)
    have a2: "adds P s s2" using ask_approval_adds [OF a1 ask] .
    show ?thesis
    proof (cases ans)
      case (Inl e)
      then show ?thesis using x a True ask a2
        by (auto simp: executeSingleTool_def Let_def release_adds simp flip: s0_def)
    next
      case (Inr st)
      obtain y s3 where y: "after_approval env run lrt input mid it tc st s2 = (y, s3)" by fastforce
      then show ?thesis using x a True ask Inr after_approval_adds [OF a2 y]
        by (auto simp: executeSingleTool_def Let_def release_adds simp flip: s0_def)
    qed
  qed
qed

lemma executeToolsSequential_adds:
  "executeToolsSequential env run lrt input mid it tcs s = (rs, s') \<Longrightarrow> adds P s s'"
proof (induction tcs arbitrary: s rs)
  case (Cons tc tcs)
  obtain r s1 where r: "run_call env run lrt input mid it tc s = (r, s1)" by fastforce
  obtain rs' s2 where rs': "executeToolsSequential env run lrt input mid it tcs s1 = (rs', s2)" by fastforce
  show ?case using Cons.prems Cons.IH [of s1 rs'] r rs' run_call_adds [OF r] by (auto intro: adds_trans)
qed simp

lemma executeToolsParallel_adds:
  assumes "executeToolsParallel env run lrt input mid it tcs s = (rs, s')"
  shows "adds P s s'"
  by (rule go_all_adds [OF _ assms [unfolded executeToolsParallel_def]]) (rule run_call_adds)

end

text \<open>Without sub-agents no tool call reaches the model through the loop.\<close>

interpretation flat: loop_frame "\<lambda>e. \<not> (\<exists>req. e = LLMCalled req)" env run lrt "input\<lparr>alSubAgentRoutes := []\<rparr>"
  for env run lrt input
  by unfold_locales (auto simp: in_scope_def)

text \<open>With them, what a delegation adds is what the loop of the sub-agent adds, on an input without a
  conversation and for the same tenant.\<close>

definition delegated_input :: "'w AgentLoopInput \<Rightarrow> 'w AgentLoopInput \<Rightarrow> bool" where
  "delegated_input input inp \<longleftrightarrow> alConversationID inp = [] \<and> tenant_of inp = tenant_of input"

lemma delegate_frame:
  assumes pub: "\<And>c ev. \<not> lifecycle ev \<Longrightarrow> P (Published c ev)"
    and run: "\<And>sub inp s r s'. delegated_input input inp \<Longrightarrow> run sub inp s = (r, s') \<Longrightarrow> adds P s s'"
    and d: "delegate env run lrt input tc route s = (c, s')"
  shows "adds P s s'"
proof (cases "alSubAgentDepth input < alMaxSubAgentDepth input \<and> routeRuntime route \<noteq> None")
  case False
  then show ?thesis using d by (auto simp: delegate_def CheckSubAgentDepth_def Let_def split: if_splits)
next
  case True
  then obtain sub where sub: "routeRuntime route = Some sub" by blast
  define name where "name = (if trim_space (routeName route) = [] then tcrName tc else trim_space (routeName route))"
  define s1 where "s1 = emit env lrt input (EvStepStarted name) s"
  obtain rid s2 where u: "ext (uuid env) s1 = (rid, s2)" by fastforce
  define inp where "inp = \<lparr>alUserPrompt = SubAgentQuery (tcrArgs tc), alConversationID = [],
     alStreamingEnabled = alStreamingEnabled input, alTools = routeTools route,
     alChannelName = alChannelName input, alApprovalHandler = alApprovalHandler input,
     alSubAgentRoutes = routeChildren route, alSubAgentDepth = alSubAgentDepth input + 1,
     alMaxSubAgentDepth = alMaxSubAgentDepth input,
     alMemoryScope = SubAgentScope (alMemoryScope input) name, alRunID = rid\<rparr>"
  obtain res s3 where r: "run sub inp s2 = (res, s3)" by fastforce
  have e: "adds P x (emit env lrt input ev x)" if "\<not> lifecycle ev" for ev x
    using pub [OF that] by (auto simp: emit_def publishEventToChannel_def)
  have "delegated_input input inp" by (simp add: delegated_input_def tenant_of_def inp_def)
  then have "adds P s2 s3" using run r by blast
  moreover have "adds P s s2" using e u by (auto simp: s1_def elim!: adds_ext [rotated])
  moreover have "s' = emit env lrt input (EvStepFinished name) s3"
    using d True sub u r by (simp add: delegate_def CheckSubAgentDepth_def Let_def flip: name_def s1_def inp_def)
  ultimately show ?thesis using e [of "EvStepFinished name" s3] by (auto intro: adds_trans)
qed

lemma delegate_adds:
  assumes "tame run" and "delegate env run lrt input tc route s = (c, s')"
  shows "adds (tenant_of input) s s'"
  by (rule delegate_frame [OF _ _ assms(2)])
     (use assms(1) in \<open>auto simp: delegated_input_def tame_def\<close>, metis)

lemma tenant_frame: "tame run \<Longrightarrow> loop_frame (tenant_of input) env run lrt input"
  by unfold_locales (auto simp: tenant_of_def in_scope_tenant intro: delegate_adds [unfolded tenant_of_def])

end
