(* ===== verification/LocalRun.thy ===== *)
theory LocalRun
  imports LocalFacts
begin

text \<open>
  A whole run of the in-process loop: the messages it builds, what it persists, how often it calls the
  model and why it ends.
\<close>

section \<open>The shape of the messages\<close>

definition answers :: "ToolCall \<Rightarrow> Message \<Rightarrow> bool" where
  "answers tc m \<longleftrightarrow>
     mRole m = RoleTool \<and> mToolCallID m = tcID tc \<and> mToolName m = tcName tc \<and> mToolCalls m = []"

text \<open>Assistant turns with tool calls, each followed by one tool message per call, in order.\<close>

fun paired :: "Message list \<Rightarrow> bool" where
  "paired [] \<longleftrightarrow> True"
| "paired (m # ms) \<longleftrightarrow>
     mRole m = RoleAssistant \<and> mToolCalls m \<noteq> [] \<and>
     list_all2 answers (mToolCalls m) (take (length (mToolCalls m)) ms) \<and>
     paired (drop (length (mToolCalls m)) ms)"

lemma paired_append: "paired xs \<Longrightarrow> paired ys \<Longrightarrow> paired (xs @ ys)"
proof (induction xs rule: paired.induct)
  case (2 m ms)
  have "length (take (length (mToolCalls m)) ms) = length (mToolCalls m)"
    using 2(2) by (auto dest: list_all2_lengthD)
  then have "length (mToolCalls m) \<le> length ms" by simp
  then show ?case using 2 by simp
qed simp

lemma paired_round:
  "mRole m = RoleAssistant \<Longrightarrow> mToolCalls m \<noteq> [] \<Longrightarrow> list_all2 answers (mToolCalls m) rs \<Longrightarrow> paired (m # rs)"
  using list_all2_lengthD [of answers "mToolCalls m" rs] by simp

definition call_of :: "ToolCallRequest \<Rightarrow> ToolCall" where
  "call_of tc = \<lparr>tcID = tcrID tc, tcName = tcrName tc, tcArgs = tcrArgs tc\<rparr>"

lemma assistant_message_simps [simp]:
  "mRole (assistant_message r) = RoleAssistant" "mToolCalls (assistant_message r) = map call_of (lrToolCalls r)"
  "mContent (assistant_message r) = lrContent r"
  by (simp_all add: assistant_message_def message_def call_of_def)

lemma build_answers [simp]: "answers (call_of tc) (BuildToolResultMessage (tcrID tc) (tcrName tc) c)"
  by (simp add: answers_def call_of_def BuildToolResultMessage_def BuildToolResultMessageWithLimit_def)

lemma settle_answers:
  "snd r = None \<longrightarrow> answers (call_of tc) (trMessage (fst r)) \<Longrightarrow> answers (call_of tc) (trMessage (settle tc r))"
  by (auto simp: settle_def BuildToolErrorResultMessage_def split: prod.split option.split)

lemma after_approval_answers:
  assumes "after_approval env run lrt input mid it tc st s = (r, s')"
  shows "snd r = None \<longrightarrow> answers (call_of tc) (trMessage (fst r))"
proof (cases "st = ApprovalStatusApproved")
  case True
  obtain c f s1 where "execute_call env run lrt input it tc s = ((c, f), s1)" by (metis prod.exhaust)
  then show ?thesis using assms True by (auto simp: after_approval_def)
next
  case False
  then show ?thesis using assms by (cases st) (auto simp: after_approval_def Let_def)
qed

text \<open>Whatever happens to a tool call, its message answers it.\<close>

lemma run_call_answers:
  assumes "run_call env run lrt input mid it tc s = (r, s')"
  shows "answers (call_of tc) (trMessage r)"
proof -
  obtain x where x: "executeSingleTool env run lrt input mid it tc s = (x, s')" "r = settle tc x"
    using assms by (auto simp: run_call_def split: prod.splits)
  obtain a s1 where a: "AuthorizeTool (alTools input) (tcrName tc) (tcrArgs tc) (announce_call env lrt input mid tc s)
      = (a, s1)" by fastforce
  have "snd x = None \<longrightarrow> answers (call_of tc) (trMessage (fst x))"
  proof (cases "\<exists>auth. a = Inr auth \<and> Allowed auth")
    case False
    then show ?thesis using x a
      by (cases a) (auto simp: executeSingleTool_def Let_def answers_def call_of_def)
  next
    case True
    obtain ans tok s2 where ask: "ask_approval env lrt input tc
        (map_of (alSubAgentRoutes input) (tcrName tc) \<noteq> None) s1 = ((ans, tok), s2)" by (metis prod.exhaust)
    show ?thesis
    proof (cases ans)
      case (Inl e)
      then show ?thesis using x a True ask by (auto simp: executeSingleTool_def Let_def)
    next
      case (Inr st)
      obtain y s3 where y: "after_approval env run lrt input mid it tc st s2 = (y, s3)" by fastforce
      then show ?thesis using x a True ask Inr after_approval_answers [OF y]
        by (auto simp: executeSingleTool_def Let_def)
    qed
  qed
  then show ?thesis unfolding x(2) by (rule settle_answers)
qed

text \<open>A \<open>WaitGroup\<close> waits for every goroutine, so the scheduler runs each of them.\<close>

definition fair :: "'w Env \<Rightarrow> bool" where
  "fair env \<longleftrightarrow> (\<forall>n w. set (fst (schedule env n w)) = {..<n})"

lemma executeToolsParallel_answers:
  assumes "fair env" and "executeToolsParallel env run lrt input mid it tcs s = (rs, s')"
  shows "list_all2 answers (map call_of tcs) (map trMessage rs)"
proof -
  note g = assms(2) [unfolded executeToolsParallel_def]
  have len: "length rs = length tcs" using go_all_length [OF g] .
  have "answers (call_of (tcs ! i)) (trMessage (rs ! i))" if "i < length tcs" for i
    using go_all_nth [OF g that] assms(1) run_call_answers by (fastforce simp: fair_def)
  with len show ?thesis by (simp add: list_all2_conv_all_nth)
qed

lemma executeToolsSequential_answers:
  "executeToolsSequential env run lrt input mid it tcs s = (rs, s') \<Longrightarrow>
   list_all2 answers (map call_of tcs) (map trMessage rs)"
proof (induction tcs arbitrary: s rs)
  case (Cons tc tcs)
  obtain r s1 where r: "run_call env run lrt input mid it tc s = (r, s1)" by fastforce
  obtain rs' s2 where rs': "executeToolsSequential env run lrt input mid it tcs s1 = (rs', s2)" by fastforce
  have "rs = r # rs'" using Cons.prems r rs' by simp
  then show ?case using Cons.IH [of s1 rs'] rs' run_call_answers [OF r] Cons.prems r by simp
qed simp

section \<open>Calls of the model\<close>

text \<open>The number of calls of the model in the log.\<close>

definition called :: "'w st \<Rightarrow> 'w st \<Rightarrow> nat \<Rightarrow> bool" where
  "called s s' n \<longleftrightarrow> (\<exists>es. trace s' = trace s @ es \<and> llm_calls es = n)"

lemma called_trans: "called a b m \<Longrightarrow> called b c n \<Longrightarrow> called a c (m + n)"
  by (auto simp: called_def llm_calls_def)

lemma called_none: "adds P s s' \<Longrightarrow> (\<And>req. \<not> P (LLMCalled req)) \<Longrightarrow> called s s' 0"
  unfolding adds_def called_def llm_calls_def by (fastforce simp: filter_empty_conv split: effect.splits)

lemma called_eq: "trace s' = trace s \<Longrightarrow> called s s' 0"
  by (auto simp: called_def llm_calls_def)

lemma tallied_called: "tallied s s' (n, t) \<Longrightarrow> called s s' n"
  by (auto simp: tallied_def tallies_def called_def)

lemma call_llm_effects:
  assumes "call_llm env lrt input ctx mid it ms skip s = (r, s')"
  shows "adds llm_effect s s'" and "\<not> isl r \<Longrightarrow> called s s' 1" and "called s s' 0 \<or> called s s' 1"
proof -
  define li :: "'a ExecuteLLMInput" where "li = \<lparr>liMessageID = mid, liRunID = alRunID input, liIteration = it, liMessages = ms,
                liSkipTools = skip, liMemoryContext = lcMemory ctx, liRetrieverContext = lcRetriever ctx,
                liTools = alTools input, liEmit = emit env lrt input\<rparr>"
  have "emit env lrt input = publishEventToChannel env (locBus lrt) (alChannelName input)"
    by (simp add: emit_def fun_eq_iff)
  then have q: "quiet_call li" by (intro quiet_call.intro) (simp add: li_def publish_quiet)
  have "\<exists>n t. tallied s s' (n, t) \<and> n \<le> 1 \<and> (\<not> isl r \<longrightarrow> n = 1)"
  proof (cases "alStreamingEnabled input")
    case True
    then have "ExecuteLLMStream env (locBase lrt) li s = (r, s')"
      using assms by (simp add: call_llm_def Let_def flip: li_def)
    from quiet_call.stream_tallied [OF q this] show ?thesis
      by (elim disjE conjE) (rule exI, rule exI, erule conjI, simp)+
  next
    case False
    then have "ExecuteLLM (locBase lrt) li s = (r, s')"
      using assms by (simp add: call_llm_def Let_def flip: li_def)
    from quiet_call.generate_tallied [OF q this] show ?thesis
      by (elim disjE conjE exE) (rule exI, rule exI, erule conjI, simp)+
  qed
  then obtain n t where t: "tallied s s' (n, t)" "n \<le> 1" "\<not> isl r \<longrightarrow> n = 1" by blast
  show "adds llm_effect s s'" using tallied_adds [OF t(1)] .
  show "called s s' 1" if "\<not> isl r" using tallied_called [OF t(1)] t(3) that by simp
  show "called s s' 0 \<or> called s s' 1" using tallied_called [OF t(1)] t(2) by (cases n) auto
qed

end
