(* ===== verification/LocalSaved.thy ===== *)
theory LocalSaved
  imports LocalRun
begin

text \<open>
  What a run of the in-process loop persists: the messages of the run, each once and in order, whether
  they are saved after each iteration or at the end.
\<close>

section \<open>Saved messages\<close>

definition is_saving :: "effect \<Rightarrow> bool" where
  "is_saving e = (case e of ConversationAdded _ _ \<Rightarrow> True | _ \<Rightarrow> False)"

lemma is_saving_simps [simp]: "is_saving (ConversationAdded i m)"
  by (simp add: is_saving_def)

lemma tenant_not_saving: "tenant_of input e \<Longrightarrow> \<not> is_saving e"
  by (auto simp: tenant_of_def in_tenant_def is_saving_def split: effect.splits)

definition saved :: "'w AgentLoopInput \<Rightarrow> 'w st \<Rightarrow> 'w st \<Rightarrow> Message list \<Rightarrow> bool" where
  "saved input s s' ms \<longleftrightarrow>
     (\<exists>es. trace s' = trace s @ es
        \<and> filter is_saving es = map (ConversationAdded (alConversationID input)) ms
        \<and> (\<forall>e \<in> set es. tenant_of input e \<or> is_saving e))"

lemma saved_refl [simp]: "saved input s s []"
  by (simp add: saved_def)

lemma saved_trans: "saved input a b xs \<Longrightarrow> saved input b c ys \<Longrightarrow> saved input a c (xs @ ys)"
  unfolding saved_def by (elim exE conjE) (rule exI, auto)

lemma saved_adds: "adds (tenant_of input) s s' \<Longrightarrow> saved input s s' []"
  unfolding saved_def adds_def by (auto simp: filter_empty_conv dest: tenant_not_saving)

lemma saved_then: "saved input a b xs \<Longrightarrow> adds (tenant_of input) b c \<Longrightarrow> saved input a c xs"
  using saved_trans [OF _ saved_adds] by fastforce

lemma adds_then_saved: "adds (tenant_of input) a b \<Longrightarrow> saved input b c xs \<Longrightarrow> saved input a c xs"
  using saved_trans [OF saved_adds] by fastforce

lemma saved_message: "saved input s (add_message conv (alConversationID input) m s) [m]"
  by (simp add: saved_def add_message_def)

lemma saved_persist:
  assumes "rtConversation (locBase lrt) \<noteq> None"
  shows "saved input s (persistConversationMessages lrt (alConversationID input) ms s) ms"
proof -
  obtain conv where conv: "rtConversation (locBase lrt) = Some conv" using assms by blast
  have "saved input s (foldl (\<lambda>s m. add_message conv (alConversationID input) m s) s ms) ms"
  proof (induction ms arbitrary: s)
    case (Cons m ms)
    show ?case using saved_trans [OF saved_message Cons.IH] by simp
  qed simp
  then show ?thesis by (simp add: persistConversationMessages_def conv)
qed

section \<open>The state of the loop\<close>

abbreviation prompt :: "'w AgentLoopInput \<Rightarrow> Message" where
  "prompt input \<equiv> message RoleUser (alUserPrompt input)"

definition saving :: "'w LocalRuntime \<Rightarrow> 'w AgentLoopInput \<Rightarrow> bool" where
  "saving lrt input \<longleftrightarrow> conversationMemoryEnabled lrt input \<and> rtSaveOnIteration (locBase lrt)"

text \<open>After \<open>n\<close> iterations: the history, the prompt, and complete rounds of tool calls; saved are none of
  the run's own messages or all of them.\<close>

definition loop_inv :: "'w LocalRuntime \<Rightarrow> 'w AgentLoopInput \<Rightarrow> Message list \<Rightarrow> nat \<Rightarrow> LoopState \<Rightarrow> Message list \<Rightarrow> bool" where
  "loop_inv lrt input h n ls ms \<longleftrightarrow>
     (\<exists>c. lsMessages ls = h @ prompt input # c \<and> paired c \<and>
        (lsPersisted ls, ms) =
          (if n = 0 \<or> \<not> saving lrt input then (length h, []) else (length (lsMessages ls), prompt input # c))) \<and>
     lsContent ls = [] \<and> TotalLLMCalls (Run (lsTelemetry ls)) = int n \<and>
     FinishReasonOf (Run (lsTelemetry ls)) = FinishReasonComplete"

text \<open>When the loop has ended, the run's messages close with the answer, unless the budget ran out.\<close>

definition ended :: "LoopState \<Rightarrow> Message list \<Rightarrow> bool" where
  "ended ls tail \<longleftrightarrow>
     tail = [] \<and> FinishReasonOf (Run (lsTelemetry ls)) = FinishReasonTokenBudget \<and> lsContent ls = [] \<or>
     tail = [message RoleAssistant (lsContent ls)] \<and> FinishReasonOf (Run (lsTelemetry ls)) \<noteq> FinishReasonTokenBudget"

definition loop_end :: "'w LocalRuntime \<Rightarrow> 'w AgentLoopInput \<Rightarrow> Message list \<Rightarrow> LoopState \<Rightarrow> Message list \<Rightarrow> bool" where
  "loop_end lrt input h ls ms \<longleftrightarrow>
     (\<exists>c tail. lsMessages ls = h @ prompt input # c @ tail \<and> paired c \<and> ended ls tail \<and>
        (lsPersisted ls = length h \<and> ms = [] \<or>
         lsPersisted ls = length h + 1 + length c \<and> ms = prompt input # c \<and> saving lrt input))"

lemma Run_record_result [simp]: "Run (record_result tc r tel) = Run tel"
  by (simp add: record_result_def Let_def)

lemma Run_record_results [simp]: "Run (record_results tcs rs tel) = Run tel"
proof -
  have "Run (foldl (\<lambda>tel (tc, r). record_result tc r tel) tel ps) = Run tel" for ps
    by (induction ps arbitrary: tel) auto
  then show ?thesis by (simp add: record_results_def)
qed

lemma count_call_simps [simp]:
  "TotalLLMCalls (Run (count_call tel)) = TotalLLMCalls (Run tel) + 1"
  "FinishReasonOf (Run (count_call tel)) = FinishReasonOf (Run tel)"
  "TotalLLMCalls (Run (finished why tel)) = TotalLLMCalls (Run tel)"
  "FinishReasonOf (Run (finished why tel)) = why"
  by (simp_all add: count_call_def finished_def)

lemma start_inv:
  "Run tel = Run (NewAgentTelemetry t) \<Longrightarrow> loop_inv lrt input h 0 (start_state lrt input h tel) []"
  by (simp add: loop_inv_def start_state_def NewAgentTelemetry_def)

section \<open>One iteration\<close>

lemma ext_adds: "ext f s = (r, s') \<Longrightarrow> adds P s s'"
  by (rule adds_eq) (rule trace_ext)

lemma save_iteration_inv:
  assumes inv: "loop_inv lrt input h n ls ms" and d: "paired d" "d \<noteq> []"
    and m: "lsMessages ls1 = lsMessages ls @ d" "lsPersisted ls1 = lsPersisted ls" "lsContent ls1 = lsContent ls"
    and t: "TotalLLMCalls (Run (lsTelemetry ls1)) = int (Suc n)" "FinishReasonOf (Run (lsTelemetry ls1)) = FinishReasonComplete"
    and r: "save_iteration lrt input ls1 s = (ls', s')"
  shows "\<exists>ms'. saved input s s' ms' \<and> loop_inv lrt input h (Suc n) ls' (ms @ ms')"
proof -
  obtain c where c: "lsMessages ls = h @ prompt input # c" "paired c"
      "(lsPersisted ls, ms) =
        (if n = 0 \<or> \<not> saving lrt input then (length h, []) else (length (lsMessages ls), prompt input # c))"
      "lsContent ls = []"
    using inv by (auto simp: loop_inv_def)
  have cd: "paired (c @ d)" using c(2) d(1) by (rule paired_append)
  show ?thesis
  proof (cases "saving lrt input")
    case False
    then have "ls' = ls1" "s' = s" using r by (auto simp: save_iteration_def saving_def split: if_splits)
    then show ?thesis using c cd m t False by (intro exI [of _ "[]"]) (auto simp: loop_inv_def)
  next
    case True
    have len: "lsPersisted ls1 < length (lsMessages ls1)" using c d m by (auto split: if_splits)
    then have ls': "ls' = ls1\<lparr>lsPersisted := length (lsMessages ls1)\<rparr>"
      and s': "s' = persistConversationMessages lrt (alConversationID input)
        (drop (lsPersisted ls1) (lsMessages ls1)) s"
      using r True by (auto simp: save_iteration_def saving_def)
    have "saved input s s' (drop (lsPersisted ls1) (lsMessages ls1))"
      unfolding s' using True by (intro saved_persist) (simp add: saving_def conversationMemoryEnabled_def)
    moreover have "ms @ drop (lsPersisted ls1) (lsMessages ls1) = prompt input # c @ d"
      using c m True by (auto split: if_splits)
    ultimately show ?thesis using c cd m t True
      by (intro exI [of _ "drop (lsPersisted ls1) (lsMessages ls1)"]) (auto simp: loop_inv_def ls')
  qed
qed

text \<open>An iteration keeps the invariant or ends the loop as described.\<close>

definition step_ok :: "'w LocalRuntime \<Rightarrow> 'w AgentLoopInput \<Rightarrow> Message list \<Rightarrow> nat \<Rightarrow> int \<Rightarrow> Message list \<Rightarrow> 'w st
    \<Rightarrow> loop_step \<Rightarrow> 'w st \<Rightarrow> bool" where
  "step_ok lrt input h n maxIter ms s r s' =
     (case r of
        Continue ls' \<Rightarrow> int n < maxIter - 1 \<and> (\<exists>ms'. saved input s s' ms' \<and> loop_inv lrt input h (Suc n) ls' (ms @ ms'))
      | Break ls' \<Rightarrow> saved input s s' [] \<and> loop_end lrt input h ls' ms \<and>
          0 < TotalLLMCalls (Run (lsTelemetry ls')) \<and> TotalLLMCalls (Run (lsTelemetry ls')) \<le> maxIter + 1
      | Fail e \<Rightarrow> saved input s s' [])"

lemma tool_round_ok:
  assumes env: "fair env" "tame run" and inv: "loop_inv lrt input h n ls0 ms"
    and ls: "lsMessages ls = lsMessages ls0" "lsPersisted ls = lsPersisted ls0" "lsContent ls = lsContent ls0"
    and t: "TotalLLMCalls (Run (lsTelemetry ls)) = int (Suc n)" "FinishReasonOf (Run (lsTelemetry ls)) = FinishReasonComplete"
    and n: "int n < maxIter - 1" and tcs: "lrToolCalls r \<noteq> []"
    and run: "tool_round env run lrt input mid it r ls s = (st, s')"
  shows "step_ok lrt input h n maxIter ms s st s'"
proof -
  note frame = tenant_frame [OF env(2), of input env lrt]
  have fin: ?thesis
    if rs: "list_all2 answers (map call_of (lrToolCalls r)) (map trMessage rs)" and a: "adds (tenant_of input) s s1"
      and f: "(let ls1 = ls\<lparr>lsMessages := lsMessages ls @ [assistant_message r] @ map trMessage rs,
                          lsTelemetry := record_results (lrToolCalls r) rs (lsTelemetry ls)\<rparr>;
                 (ls2, s2) = save_iteration lrt input ls1 s1
             in (Continue ls2, s2)) = (st, s')" for rs s1
  proof -
    define ls1 where "ls1 = ls\<lparr>lsMessages := lsMessages ls @ [assistant_message r] @ map trMessage rs,
                          lsTelemetry := record_results (lrToolCalls r) rs (lsTelemetry ls)\<rparr>"
    obtain ls2 s2 where sv: "save_iteration lrt input ls1 s1 = (ls2, s2)" by fastforce
    have d: "paired (assistant_message r # map trMessage rs)" using rs tcs by (intro paired_round) auto
    have "\<exists>ms'. saved input s1 s2 ms' \<and> loop_inv lrt input h (Suc n) ls2 (ms @ ms')"
      by (rule save_iteration_inv [OF inv d _ _ _ _ _ _ sv]) (simp_all add: ls1_def ls t)
    then obtain ms' where ms': "saved input s1 s2 ms'" "loop_inv lrt input h (Suc n) ls2 (ms @ ms')" by blast
    have "(Continue ls2, s2) = (st, s')" using f sv unfolding ls1_def by simp
    then have "st = Continue ls2" "s' = s2" by simp_all
    then show ?thesis using ms' n adds_then_saved [OF a ms'(1)] by (auto simp: step_ok_def)
  qed
  show ?thesis
  proof (cases "rtToolMode (locBase lrt) = ModeSequential")
    case True
    obtain rs s1 where x: "executeToolsSequential env run lrt input mid it (lrToolCalls r) s = (rs, s1)" by fastforce
    show ?thesis
      by (rule fin [OF executeToolsSequential_answers [OF x] loop_frame.executeToolsSequential_adds [OF frame x]])
        (use run True x in \<open>simp add: tool_round_def Let_def\<close>)
  next
    case seq: False
    show ?thesis
    proof (cases "\<exists>m. rtToolMode (locBase lrt) = ModeOther m")
      case True
      then show ?thesis using run by (auto simp: tool_round_def step_ok_def Let_def)
    next
      case False
      obtain rs s1 where x: "executeToolsParallel env run lrt input mid it (lrToolCalls r) s = (rs, s1)" by fastforce
      show ?thesis
        by (rule fin [OF executeToolsParallel_answers [OF env(1) x] loop_frame.executeToolsParallel_adds [OF frame x]])
          (use run False seq x in \<open>cases "rtToolMode (locBase lrt)"; simp add: tool_round_def Let_def\<close>)
    qed
  qed
qed

lemma loop_end_answer:
  assumes "loop_inv lrt input h n ls0 ms"
    and "lsMessages ls = lsMessages ls0 @ tail" "lsPersisted ls = lsPersisted ls0" "ended ls tail"
  shows "loop_end lrt input h ls ms"
proof -
  obtain c where "lsMessages ls0 = h @ prompt input # c" "paired c"
      "(lsPersisted ls0, ms) =
        (if n = 0 \<or> \<not> saving lrt input then (length h, []) else (length (lsMessages ls0), prompt input # c))"
    using assms(1) by (auto simp: loop_inv_def)
  then show ?thesis using assms(2-) unfolding loop_end_def
    by (intro exI [of _ c] exI [of _ tail]) (auto split: if_splits)
qed

lemma final_call_ok:
  assumes inv: "loop_inv lrt input h n ls0 ms"
    and ls: "lsMessages ls = lsMessages ls0" "lsPersisted ls = lsPersisted ls0"
    and t: "TotalLLMCalls (Run (lsTelemetry ls)) = int (Suc n)" and n: "int n = maxIter - 1"
    and run: "final_call env lrt input ctx it ls s = (st, s')"
  shows "step_ok lrt input h n maxIter ms s st s'"
proof -
  obtain mid s1 where u: "ext (uuid env) s = (mid, s1)" by fastforce
  obtain x s2 where x: "call_llm env lrt input ctx mid it (lsMessages ls) True s1 = (x, s2)" by fastforce
  have a: "adds (tenant_of input) s s2"
    using ext_adds [OF u] llm_tenant [OF call_llm_effects(1) [OF x]] by (rule adds_trans)
  show ?thesis
  proof (cases x)
    case (Inl e)
    then show ?thesis using run u x saved_adds [OF a] by (auto simp: final_call_def step_ok_def)
  next
    case (Inr r)
    define ls' where "ls' = ls\<lparr>lsMessages := lsMessages ls @ [message RoleAssistant (lrContent r)],
       lsContent := lrContent r, lsUsage := MergeLLMUsage (lsUsage ls) (lrUsage r),
       lsTelemetry := finished FinishReasonMaxIterations (count_call (lsTelemetry ls))\<rparr>"
    have "st = Break ls'" "s' = s2" using run u x Inr by (simp_all add: final_call_def ls'_def)
    moreover have "loop_end lrt input h ls' ms"
      by (rule loop_end_answer [OF inv, of _ "[message RoleAssistant (lrContent r)]"])
        (simp_all add: ls'_def ls ended_def)
    ultimately show ?thesis using saved_adds [OF a] t n by (simp add: step_ok_def ls'_def)
  qed
qed

lemma loop_iter_ok:
  assumes env: "fair env" "tame run" and inv: "loop_inv lrt input h n ls ms" and n: "int n < maxIter"
    and run: "loop_iter env run lrt input ctx maxIter (int n) ls s = (st, s')"
  shows "step_ok lrt input h n maxIter ms s st s'"
proof -
  obtain mid s1 where u: "ext (uuid env) s = (mid, s1)" by fastforce
  obtain x s2 where x: "call_llm env lrt input ctx mid (int n) (lsMessages ls) False s1 = (x, s2)" by fastforce
  have a: "adds (tenant_of input) s s2"
    using ext_adds [OF u] llm_tenant [OF call_llm_effects(1) [OF x]] by (rule adds_trans)
  have more: "step_ok lrt input h n maxIter ms s st s'" if "step_ok lrt input h n maxIter ms s2 st s'"
    using that adds_then_saved [OF a] by (fastforce simp: step_ok_def split: loop_step.splits)
  show ?thesis
  proof (cases x)
    case (Inl e)
    then show ?thesis using run u x saved_adds [OF a] by (auto simp: loop_iter_def step_ok_def)
  next
    case x': (Inr r)
    define ls1 where "ls1 = ls\<lparr>lsTelemetry := count_call (lsTelemetry ls),
        lsUsage := MergeLLMUsage (lsUsage ls) (lrUsage r), lsBudget := charge (lrUsage r) (lsBudget ls)\<rparr>"
    have run': "(if over_budget (lrUsage r) (lsBudget ls1) then
          (Break (ls1\<lparr>lsTelemetry := finished FinishReasonTokenBudget (lsTelemetry ls1)\<rparr>), s2)
        else if lrToolCalls r = [] then
          (Break (ls1\<lparr>lsMessages := lsMessages ls1 @ [message RoleAssistant (lrContent r)], lsContent := lrContent r\<rparr>), s2)
        else if int n = maxIter - 1 then final_call env lrt input ctx (int n) ls1 s2
        else tool_round env run lrt input mid (int n) r ls1 s2) = (st, s')"
      using run unfolding loop_iter_def u Let_def prod.case x x' sum.case ls1_def .
    have tel: "lsContent ls = []" "TotalLLMCalls (Run (lsTelemetry ls)) = int n"
        "FinishReasonOf (Run (lsTelemetry ls)) = FinishReasonComplete"
      using inv by (simp_all add: loop_inv_def)
    then have t1: "TotalLLMCalls (Run (lsTelemetry ls1)) = int (Suc n)" "FinishReasonOf (Run (lsTelemetry ls1)) = FinishReasonComplete"
      by (simp_all add: ls1_def)
    consider (budget) "over_budget (lrUsage r) (lsBudget ls1)"
      | (answer) "\<not> over_budget (lrUsage r) (lsBudget ls1)" "lrToolCalls r = []"
      | (last) "\<not> over_budget (lrUsage r) (lsBudget ls1)" "lrToolCalls r \<noteq> []" "int n = maxIter - 1"
      | (tools) "\<not> over_budget (lrUsage r) (lsBudget ls1)" "lrToolCalls r \<noteq> []" "int n \<noteq> maxIter - 1" by blast
    then show ?thesis
    proof cases
      case budget
      define ls' where "ls' = ls1\<lparr>lsTelemetry := finished FinishReasonTokenBudget (lsTelemetry ls1)\<rparr>"
      have "st = Break ls'" "s' = s2" using run' budget by (simp_all add: ls'_def)
      moreover have "loop_end lrt input h ls' ms"
        by (rule loop_end_answer [OF inv, of _ "[]"]) (simp_all add: ls'_def ls1_def ended_def tel)
      ultimately show ?thesis using saved_adds [OF a] t1 n by (simp add: step_ok_def ls'_def)
    next
      case answer
      define ls' where "ls' = ls1\<lparr>lsMessages := lsMessages ls1 @ [message RoleAssistant (lrContent r)], lsContent := lrContent r\<rparr>"
      have "st = Break ls'" "s' = s2" using run' answer by (simp_all add: ls'_def)
      moreover have "loop_end lrt input h ls' ms"
        by (rule loop_end_answer [OF inv, of _ "[message RoleAssistant (lrContent r)]"])
          (simp_all add: ls'_def ls1_def ended_def tel)
      ultimately show ?thesis using saved_adds [OF a] t1 n by (simp add: step_ok_def ls'_def)
    next
      case last
      then have "final_call env lrt input ctx (int n) ls1 s2 = (st, s')" using run' by simp
      then show ?thesis
        by (intro more final_call_ok [OF inv _ _ t1(1) last(3)]) (simp_all add: ls1_def)
    next
      case tools
      then have "tool_round env run lrt input mid (int n) r ls1 s2 = (st, s')" using run' by simp
      then show ?thesis using n tools
        by (intro more tool_round_ok [OF env inv _ _ _ t1]) (simp_all add: ls1_def)
    qed
  qed
qed

section \<open>The loop\<close>

text \<open>What is saved when a run fails: nothing, or the prompt and complete rounds.\<close>

definition partial_save :: "'w AgentLoopInput \<Rightarrow> Message list \<Rightarrow> bool" where
  "partial_save input ms \<longleftrightarrow> ms = [] \<or> (\<exists>c. ms = prompt input # c \<and> paired c)"

definition enabled_save :: "'w LocalRuntime \<Rightarrow> 'w AgentLoopInput \<Rightarrow> Message list \<Rightarrow> bool" where
  "enabled_save lrt input ms \<longleftrightarrow> (conversationMemoryEnabled lrt input \<or> ms = [])"

lemma loop_inv_partial: "loop_inv lrt input h n ls ms \<Longrightarrow> partial_save input ms \<and> enabled_save lrt input ms"
  by (auto simp: loop_inv_def partial_save_def enabled_save_def saving_def split: if_splits)

definition loop_ok :: "'w LocalRuntime \<Rightarrow> 'w AgentLoopInput \<Rightarrow> Message list \<Rightarrow> int \<Rightarrow> goerr + LoopState \<Rightarrow> Message list \<Rightarrow> bool" where
  "loop_ok lrt input h maxIter r ms =
     (case r of
        Inl e \<Rightarrow> partial_save input ms \<and> enabled_save lrt input ms
      | Inr ls' \<Rightarrow> loop_end lrt input h ls' ms \<and> 0 < TotalLLMCalls (Run (lsTelemetry ls')) \<and>
          TotalLLMCalls (Run (lsTelemetry ls')) \<le> maxIter + 1)"

lemma loop_from_ok:
  assumes env: "fair env" "tame run"
  shows "loop_inv lrt input h n ls ms \<Longrightarrow> int n + int k = maxIter \<Longrightarrow> 0 < k \<Longrightarrow>
    loop_from (loop_iter env run lrt input ctx maxIter) k (int n) ls s = (r, s') \<Longrightarrow>
    \<exists>ms'. saved input s s' ms' \<and>
      loop_ok lrt input h maxIter r (ms @ ms')"
proof (induction k arbitrary: n ls ms s)
  case (Suc k)
  obtain st s1 where st: "loop_iter env run lrt input ctx maxIter (int n) ls s = (st, s1)" by fastforce
  have ok: "step_ok lrt input h n maxIter ms s st s1"
    by (rule loop_iter_ok [OF env Suc.prems(1) _ st]) (use Suc.prems(2) in simp)
  show ?case
  proof (cases st)
    case (Continue ls1)
    then obtain ms1 where c: "int n < maxIter - 1" "saved input s s1 ms1" "loop_inv lrt input h (Suc n) ls1 (ms @ ms1)"
      using ok by (auto simp: step_ok_def)
    have "\<exists>ms'. saved input s1 s' ms' \<and>
      loop_ok lrt input h maxIter r ((ms @ ms1) @ ms')"
      by (rule Suc.IH [OF c(3)]) (use Suc.prems c(1) Continue st in \<open>auto simp: add.commute\<close>)
    then obtain ms' where "saved input s1 s' ms'" "loop_ok lrt input h maxIter r ((ms @ ms1) @ ms')" by blast
    then show ?thesis using saved_trans [OF c(2)] by (intro exI [of _ "ms1 @ ms'"]) simp
  next
    case (Break ls1)
    then show ?thesis using ok Suc.prems(4) st by (intro exI [of _ "[]"]) (auto simp: step_ok_def loop_ok_def)
  next
    case (Fail e)
    then show ?thesis using ok Suc.prems(4) st loop_inv_partial [OF Suc.prems(1)]
      by (intro exI [of _ "[]"]) (auto simp: step_ok_def loop_ok_def)
  qed
qed simp

lemma iterate_ok:
  assumes env: "fair env" "tame run" and t: "Run tel = Run (NewAgentTelemetry t0)"
    and r: "iterate env run lrt input ctx (start_state lrt input h tel) s = (r, s')"
  shows "\<exists>ms. saved input s s' ms \<and>
      loop_ok lrt input h (max_iterations lrt) r ms"
proof -
  have m: "0 < max_iterations lrt" by (simp add: max_iterations_def)
  have "loop_from (loop_iter env run lrt input ctx (max_iterations lrt)) (nat (max_iterations lrt)) (int 0)
      (start_state lrt input h tel) s = (r, s')"
    using r by (simp add: iterate_def)
  from loop_from_ok [OF env start_inv [OF t] _ _ this] m show ?thesis by simp
qed

section \<open>Before and after the loop\<close>

lemma load_history_adds: "load_history lrt input s = (h, s') \<Longrightarrow> adds P s s'"
  by (auto simp: load_history_def FetchConversationMessages_def Let_def dest!: trace_ext intro!: adds_eq
      split: if_splits option.splits prod.splits sum.splits)

lemma prefetch_memory_ok:
  assumes "prefetch_memory lrt input tel s = (r, s')"
  shows "adds (tenant_of input) s s' \<and> (\<forall>c tel'. r = Inr (c, tel') \<longrightarrow> Run tel' = Run tel)"
proof (cases "MemoryConfigured (locBase lrt) \<and> RecallEnabled (locBase lrt)")
  case True
  obtain x s1 where x: "ExecuteMemoryRecall (locBase lrt) (alRunID input) 0 (alMemoryScope input) (alUserPrompt input) s
      = (x, s1)" by fastforce
  show ?thesis using assms True x scoped_tenant [OF ExecuteMemoryRecall_adds [OF x]]
    by (cases x) (auto simp: prefetch_memory_def)
qed (use assms in \<open>auto simp: prefetch_memory_def\<close>)

lemma prefetch_documents_ok:
  assumes "prefetch_documents env lrt input tel s = (r, s')"
  shows "adds (tenant_of input) s s' \<and> (\<forall>c tel'. r = Inr (c, tel') \<longrightarrow> Run tel' = Run tel)"
proof (cases "rtRetrieverMode (locBase lrt) \<in> {RetrieverModePrefetch, RetrieverModeHybrid} \<and> rtRetrievers (locBase lrt) \<noteq> []")
  case True
  obtain x s1 where x: "ExecuteRetrievers env (locBase lrt) (alRunID input) 0 (alUserPrompt input) s = (x, s1)" by fastforce
  note a = scoped_tenant [OF ExecuteRetrievers_adds [OF x]]
  show ?thesis
  proof (cases x)
    case (Inl e)
    then show ?thesis using assms True x a by (auto simp: prefetch_documents_def)
  next
    case (Inr res)
    then show ?thesis using assms True x a by (auto simp: prefetch_documents_def)
  qed
qed (use assms in \<open>auto simp: prefetch_documents_def\<close>)

lemma finish_run_ok:
  assumes e: "loop_end lrt input h ls ms" and r: "finish_run env lrt input ls s = (res, s')"
  shows "\<exists>ms' c tail. saved input s s' ms' \<and> paired c \<and> enabled_save lrt input (ms @ ms') \<and>
     (conversationMemoryEnabled lrt input \<longrightarrow> ms @ ms' = prompt input # c @ tail) \<and>
     ended (ls\<lparr>lsTelemetry := resTelemetry res\<rparr>) tail \<and> resContent res = lsContent ls \<and>
     TotalLLMCalls (Run (resTelemetry res)) = TotalLLMCalls (Run (lsTelemetry ls))"
proof -
  obtain c tail where c: "lsMessages ls = h @ prompt input # c @ tail" "paired c" "ended ls tail"
     "lsPersisted ls = length h \<and> ms = [] \<or>
      lsPersisted ls = length h + 1 + length c \<and> ms = prompt input # c \<and> saving lrt input"
    using e by (auto simp: loop_end_def)
  define rest where "rest = (if conversationMemoryEnabled lrt input then drop (lsPersisted ls) (lsMessages ls) else [])"
  define s1 where "s1 = save_rest lrt input ls s"
  have s1: "saved input s s1 rest"
  proof (cases "conversationMemoryEnabled lrt input \<and> lsPersisted ls < length (lsMessages ls)")
    case True
    then have "saved input s (persistConversationMessages lrt (alConversationID input)
        (drop (lsPersisted ls) (lsMessages ls)) s) (drop (lsPersisted ls) (lsMessages ls))"
      by (intro saved_persist) (simp add: conversationMemoryEnabled_def)
    then show ?thesis using True by (simp add: s1_def rest_def save_rest_def)
  next
    case False
    then show ?thesis by (auto simp: s1_def rest_def save_rest_def)
  qed
  obtain tel s2 where m: "store_memories env lrt input ls s1 = (tel, s2)" by fastforce
  obtain d s3 where d: "ext (now env) s2 = (d, s3)" by fastforce
  have tel: "Run tel = Run (lsTelemetry ls) \<and> adds (tenant_of input) s1 s2"
  proof (cases "RunEndMemoryStoreEnabled (locBase lrt)")
    case True
    obtain x s' where x: "ExecuteMemoryStore env (locBase lrt) (alRunID input) 0 (alMemoryScope input) (lsMessages ls) s1
        = (x, s')" by fastforce
    show ?thesis using m True x scoped_tenant [OF ExecuteMemoryStore_adds [OF x]]
      by (cases x) (auto simp: store_memories_def Let_def)
  qed (use m in \<open>auto simp: store_memories_def Let_def\<close>)
  have res: "res = \<lparr>resContent = lsContent ls, resUsage = lsUsage ls,
      resTelemetry = tel\<lparr>Run := (Run tel)\<lparr>CompletedAt := d\<rparr>\<rparr>\<rparr>" and s': "s' = s3"
    using r m d by (auto simp: finish_run_def simp flip: s1_def)
  have "saved input s s' rest"
    unfolding s' using saved_then [OF saved_then [OF s1] ext_adds [OF d]] tel by blast
  moreover have "conversationMemoryEnabled lrt input \<longrightarrow> ms @ rest = prompt input # c @ tail"
    using c by (auto simp: rest_def)
  moreover have "enabled_save lrt input (ms @ rest)"
    using c by (auto simp: enabled_save_def rest_def saving_def)
  moreover have "ended (ls\<lparr>lsTelemetry := resTelemetry res\<rparr>) tail"
      "TotalLLMCalls (Run (resTelemetry res)) = TotalLLMCalls (Run (lsTelemetry ls))" "resContent res = lsContent ls"
    using c(3) tel by (simp_all add: res ended_def)
  ultimately show ?thesis using c(2) by blast
qed

section \<open>A whole run\<close>

text \<open>What a run saves and returns.  A run that ends without an error saves its prompt, its rounds of tool
  calls and its answer, or, when the token budget ran out, all but an answer; one that fails has saved a
  well-formed beginning of that.\<close>

definition run_ok :: "'w LocalRuntime \<Rightarrow> 'w AgentLoopInput \<Rightarrow> goerr + AgentLoopResult \<Rightarrow> Message list \<Rightarrow> bool" where
  "run_ok lrt input r ms \<longleftrightarrow> enabled_save lrt input ms \<and>
     (case r of
        Inl e \<Rightarrow> partial_save input ms
      | Inr res \<Rightarrow>
          (\<exists>c tail. paired c \<and> (conversationMemoryEnabled lrt input \<longrightarrow> ms = prompt input # c @ tail) \<and>
             (if FinishReasonOf (Run (resTelemetry res)) = FinishReasonTokenBudget
              then tail = [] \<and> resContent res = [] else tail = [message RoleAssistant (resContent res)])) \<and>
          0 < TotalLLMCalls (Run (resTelemetry res)) \<and> TotalLLMCalls (Run (resTelemetry res)) \<le> max_iterations lrt + 1)"

lemma run_ok_early: "run_ok lrt input (Inl e) []"
  by (simp add: run_ok_def enabled_save_def partial_save_def)

lemma agent_loop_ok:
  assumes env: "fair env" "tame run" and run: "agent_loop env run lrt input s = (r, s')"
  shows "\<exists>ms. saved input s s' ms \<and> run_ok lrt input r ms"
proof -
  obtain t s1 where t: "ext (now env) s = (t, s1)" by fastforce
  obtain h s2 where h: "load_history lrt input s1 = (h, s2)" by fastforce
  obtain x s3 where x: "prefetch_memory lrt input (NewAgentTelemetry t) s2 = (x, s3)" by fastforce
  have a3: "adds (tenant_of input) s s3"
    using ext_adds [OF t] load_history_adds [OF h] prefetch_memory_ok [OF x] by (blast intro: adds_trans)
  show ?thesis
  proof (cases x)
    case (Inl e)
    then have "r = Inl e" "s' = s3" using run t h x by (simp_all add: agent_loop_def)
    then show ?thesis using saved_adds [OF a3] run_ok_early by blast
  next
    case (Inr mt)
    then obtain mem tel1 where mt: "x = Inr (mem, tel1)" by (cases mt) simp
    obtain y s4 where y: "prefetch_documents env lrt input tel1 s3 = (y, s4)" by fastforce
    have a4: "adds (tenant_of input) s s4" using a3 prefetch_documents_ok [OF y] by (blast intro: adds_trans)
    show ?thesis
    proof (cases y)
      case (Inl e)
      then have "r = Inl e" "s' = s4" using run t h x mt y by (simp_all add: agent_loop_def)
      then show ?thesis using saved_adds [OF a4] run_ok_early by blast
    next
      case (Inr dt)
      then obtain docs tel2 where dt: "y = Inr (docs, tel2)" by (cases dt) simp
      have "Run tel1 = Run (NewAgentTelemetry t)" using prefetch_memory_ok [OF x] mt by blast
      moreover have "Run tel2 = Run tel1" using prefetch_documents_ok [OF y] dt by blast
      ultimately have tel: "Run tel2 = Run (NewAgentTelemetry t)" by (simp only:)
      obtain z s5 where z: "iterate env run lrt input \<lparr>lcMemory = mem, lcRetriever = docs\<rparr>
          (start_state lrt input h tel2) s4 = (z, s5)" by fastforce
      from iterate_ok [OF env tel z] obtain ms where ms: "saved input s4 s5 ms"
          "loop_ok lrt input h (max_iterations lrt) z ms" by blast
      have s5: "saved input s s5 ms" using a4 ms(1) by (rule adds_then_saved)
      show ?thesis
      proof (cases z)
        case (Inl e)
        then have "r = Inl e" "s' = s5" using run t h x mt y dt z by (simp_all add: agent_loop_def)
        then show ?thesis using s5 ms(2) Inl by (auto simp: loop_ok_def run_ok_def)
      next
        case (Inr ls)
        obtain res s6 where f: "finish_run env lrt input ls s5 = (res, s6)" by fastforce
        have rs: "r = Inr res" "s' = s6" using run t h x mt y dt z Inr f by (simp_all add: agent_loop_def)
        have e: "loop_end lrt input h ls ms" and n: "0 < TotalLLMCalls (Run (lsTelemetry ls))"
            "TotalLLMCalls (Run (lsTelemetry ls)) \<le> max_iterations lrt + 1"
          using ms(2) Inr by (simp_all add: loop_ok_def)
        from finish_run_ok [OF e f] obtain ms' c tail where m: "saved input s5 s6 ms'" "paired c"
            "enabled_save lrt input (ms @ ms')"
            "conversationMemoryEnabled lrt input \<longrightarrow> ms @ ms' = prompt input # c @ tail"
            "ended (ls\<lparr>lsTelemetry := resTelemetry res\<rparr>) tail" "resContent res = lsContent ls"
            "TotalLLMCalls (Run (resTelemetry res)) = TotalLLMCalls (Run (lsTelemetry ls))" by blast
        have tl: "if FinishReasonOf (Run (resTelemetry res)) = FinishReasonTokenBudget
              then tail = [] \<and> resContent res = [] else tail = [message RoleAssistant (resContent res)]"
          using m(5,6) by (auto simp: ended_def)
        have "run_ok lrt input r (ms @ ms')"
          unfolding run_ok_def rs sum.case m(7)
          by (intro conjI m(3) n exI [of _ c] exI [of _ tail] m(2,4) tl)
        moreover have "saved input s s' (ms @ ms')" using saved_trans [OF s5 m(1)] by (simp add: rs)
        ultimately show ?thesis by blast
      qed
    qed
  qed
qed

text \<open>Runs without a conversation, as those of sub-agents, are tame.\<close>

lemma saved_nothing: "saved input s s' [] \<Longrightarrow> adds (tenant_of input) s s'"
  by (auto simp: saved_def adds_def filter_empty_conv)

lemma tame_run_level: "fair env \<Longrightarrow> tame (run_level env n)"
proof (induction n)
  case 0
  show ?case by (auto simp: tame_def)
next
  case (Suc n)
  show ?case unfolding tame_def
  proof (intro allI impI)
    fix sub inp s r s'
    assume c: "alConversationID inp = []" and r: "run_level env (Suc n) sub inp s = (r, s')"
    have "agent_loop env (run_level env n) sub inp s = (r, s')" using r by simp
    from agent_loop_ok [OF Suc.prems Suc.IH [OF Suc.prems] this]
    obtain ms where ms: "saved inp s s' ms" "run_ok sub inp r ms" by blast
    then have "ms = []" using c by (auto simp: run_ok_def enabled_save_def conversationMemoryEnabled_def)
    then show "adds (tenant_of inp) s s'" using ms(1) saved_nothing by blast
  qed
qed

lemma RunAgentLoop_ok:
  assumes "fair env" and "RunAgentLoop env lrt input s = (r, s')"
  shows "\<exists>ms. saved input s s' ms \<and> run_ok lrt input r ms"
  using agent_loop_ok [OF assms(1) tame_run_level [OF assms(1)]] assms(2) by (simp add: RunAgentLoop_def)

end
