(* ===== verification/LocalCalls.thy ===== *)
theory LocalCalls
  imports LocalSaved
begin

text \<open>
  How a run of the in-process loop deals with a single tool call (what must hold before anything runs,
  what the model reads when it failed), and how often it calls the model.
\<close>

section \<open>The gate before a tool\<close>

text \<open>Entries of a call that ran nothing: events and the registration of an approval.\<close>

definition harmless :: "effect \<Rightarrow> bool" where
  "harmless e = (case e of Published _ _ \<Rightarrow> True | ApprovalStored _ \<Rightarrow> True | ApprovalDeleted _ \<Rightarrow> True | _ \<Rightarrow> False)"

lemma harmless_simps [simp]:
  "harmless (Published c ev)" "harmless (ApprovalStored t)" "harmless (ApprovalDeleted t)"
  by (simp_all add: harmless_def)

text \<open>The policy allows the call, and an approval, where one is needed, was asked for and given.\<close>

definition cleared :: "'w Env \<Rightarrow> 'w LocalRuntime \<Rightarrow> 'w AgentLoopInput \<Rightarrow> string \<Rightarrow> ToolCallRequest \<Rightarrow> 'w st \<Rightarrow> bool" where
  "cleared env lrt input mid tc s =
     (case AuthorizeTool (alTools input) (tcrName tc) (tcrArgs tc) (announce_call env lrt input mid tc s) of
        (Inr auth, s1) \<Rightarrow> Allowed auth \<and>
          (tcrNeedsApproval tc \<longrightarrow>
             fst (fst (ask_approval env lrt input tc (map_of (alSubAgentRoutes input) (tcrName tc) \<noteq> None) s1))
               = Inr ApprovalStatusApproved)
      | _ \<Rightarrow> False)"

lemma emit_harmless: "adds harmless s s1 \<Longrightarrow> adds harmless s (emit env lrt input ev s1)"
  by (auto simp: emit_def publishEventToChannel_def)

lemma announce_harmless: "adds harmless s (announce_call env lrt input mid tc s)"
  by (auto simp: announce_call_def Let_def intro!: emit_harmless split: option.split)

lemma finish_harmless: "adds harmless s s1 \<Longrightarrow> adds harmless s (emitToolEndThenResult env lrt input mid i c s1)"
  by (auto simp: emitToolEndThenResult_def intro!: emit_harmless)

lemma release_harmless: "adds harmless s s1 \<Longrightarrow> adds harmless s (release_token tok s1)"
  by (auto simp: release_token_def split: option.split)

lemma ask_harmless:
  assumes "ask_approval env lrt input tc sub s = (r, s')"
  shows "adds harmless s s'"
proof (cases "\<not> tcrNeedsApproval tc \<or> alChannelName input = [] \<and> alApprovalHandler input = None")
  case True
  then show ?thesis using assms by (auto simp: ask_approval_def split: if_splits)
next
  case False
  obtain tok s1 where u: "ext (uuid env) s = (tok, s1)" by fastforce
  define s3 where "s3 = emit env lrt input (approvalEvent lrt tc sub tok) (logged (ApprovalStored tok) s1)"
  define s4 where "s4 = (case alApprovalHandler input of None \<Rightarrow> s3
      | Some h \<Rightarrow> s3\<lparr>world := h (approvalRequest lrt tc sub tok) (world s3)\<rparr>)"
  obtain ans s5 where w: "ext (await_status env tok) s4 = (ans, s5)" by fastforce
  have "adds harmless s s3" using ext_adds [OF u] by (auto simp: s3_def intro!: emit_harmless)
  moreover have "adds harmless s3 s4" by (rule adds_eq) (simp add: s4_def split: option.split)
  ultimately have "adds harmless s s5" using ext_adds [OF w] by (blast intro: adds_trans)
  moreover have "s' = s5"
    using assms False u w
    by (cases "alApprovalHandler input") (auto simp: ask_approval_def Let_def s3_def s4_def split: if_splits)
  ultimately show ?thesis by simp
qed

lemma not_cleared_harmless:
  assumes run: "executeSingleTool env run lrt input mid it tc s = (r, s')"
    and no: "\<not> cleared env lrt input mid tc s"
  shows "adds harmless s s'"
proof -
  define s0 where "s0 = announce_call env lrt input mid tc s"
  obtain a s1 where a: "AuthorizeTool (alTools input) (tcrName tc) (tcrArgs tc) s0 = (a, s1)" by fastforce
  have a1: "adds harmless s s1"
    using announce_harmless adds_eq [OF AuthorizeTool_trace [OF a]] unfolding s0_def by (rule adds_trans)
  show ?thesis
  proof (cases "\<exists>auth. a = Inr auth \<and> Allowed auth")
    case False
    then show ?thesis using run a a1
      by (cases a) (auto simp: executeSingleTool_def Let_def finish_harmless simp flip: s0_def)
  next
    case True
    obtain ans tok s2 where ask: "ask_approval env lrt input tc
        (map_of (alSubAgentRoutes input) (tcrName tc) \<noteq> None) s1 = ((ans, tok), s2)" by (metis prod.exhaust)
    have a2: "adds harmless s s2" using a1 ask_harmless [OF ask] by (rule adds_trans)
    have ns: "ans \<noteq> Inr ApprovalStatusApproved"
      using no True a ask unfolding cleared_def s0_def [symmetric] by auto
    show ?thesis
    proof (cases ans)
      case (Inl e)
      then show ?thesis using run a True ask a2
        by (auto simp: executeSingleTool_def Let_def release_harmless simp flip: s0_def)
    next
      case (Inr st)
      obtain y s3 where y: "after_approval env run lrt input mid it tc st s2 = (y, s3)" by fastforce
      have "adds harmless s s3" using y ns Inr a2
        by (cases st) (auto simp: after_approval_def Let_def finish_harmless)
      then show ?thesis using run a True ask Inr y
        by (auto simp: executeSingleTool_def Let_def release_harmless simp flip: s0_def)
    qed
  qed
qed

section \<open>What the model reads about a failure\<close>

lemma settle_failed:
  assumes "trFailed (settle tc (res, err))"
    and "err = None \<longrightarrow> trFailed res \<longrightarrow> (\<exists>e. mContent (trMessage res) = ToolFailureContent (tcrName tc) (Some e))"
  shows "\<exists>e. mContent (trMessage (settle tc (res, err))) = ToolFailureContent (tcrName tc) (Some e)"
  using assms
  by (cases err) (auto simp: settle_def BuildToolErrorResultMessage_def BuildToolResultMessage_def
      BuildToolResultMessageWithLimit_def)

lemma content_build [simp]: "mContent (BuildToolResultMessage i n c) = c"
  by (simp add: BuildToolResultMessage_def BuildToolResultMessageWithLimit_def)

lemma execute_call_failed:
  "execute_call env run lrt input it tc s = ((c, True), s') \<Longrightarrow> \<exists>e. c = ToolFailureContent (tcrName tc) (Some e)"
  by (auto simp: execute_call_def split: option.splits prod.splits sum.splits)

lemma after_approval_failed:
  assumes "after_approval env run lrt input mid it tc st s = ((res, None), s')" and "trFailed res"
  shows "\<exists>e. mContent (trMessage res) = ToolFailureContent (tcrName tc) (Some e)"
proof (cases "st = ApprovalStatusApproved")
  case True
  obtain c f s1 where x: "execute_call env run lrt input it tc s = ((c, f), s1)" by (metis prod.exhaust)
  then have "f" "mContent (trMessage res) = c" using assms True by (auto simp: after_approval_def)
  then show ?thesis using execute_call_failed x by auto
next
  case False
  then show ?thesis using assms by (cases st) (auto simp: after_approval_def Let_def)
qed

lemma run_call_failed:
  assumes run: "run_call env run lrt input mid it tc s = (r, s')" and f: "trFailed r"
  shows "\<exists>e. mContent (trMessage r) = ToolFailureContent (tcrName tc) (Some e)"
proof -
  obtain res err where x: "executeSingleTool env run lrt input mid it tc s = ((res, err), s')" "r = settle tc (res, err)"
    using run by (auto simp: run_call_def split: prod.splits)
  define s0 where "s0 = announce_call env lrt input mid tc s"
  obtain a s1 where a: "AuthorizeTool (alTools input) (tcrName tc) (tcrArgs tc) s0 = (a, s1)" by fastforce
  have "err = None \<longrightarrow> trFailed res \<longrightarrow> (\<exists>e. mContent (trMessage res) = ToolFailureContent (tcrName tc) (Some e))"
  proof (cases "\<exists>auth. a = Inr auth \<and> Allowed auth")
    case False
    then show ?thesis using x a
      by (cases a) (auto simp: executeSingleTool_def Let_def simp flip: s0_def)
  next
    case True
    obtain ans tok s2 where ask: "ask_approval env lrt input tc
        (map_of (alSubAgentRoutes input) (tcrName tc) \<noteq> None) s1 = ((ans, tok), s2)" by (metis prod.exhaust)
    show ?thesis
    proof (cases ans)
      case (Inl e)
      then show ?thesis using x a True ask by (auto simp: executeSingleTool_def Let_def simp flip: s0_def)
    next
      case (Inr st)
      obtain y s3 where y: "after_approval env run lrt input mid it tc st s2 = (y, s3)" by fastforce
      have "y = (res, err)"
        using x a True ask Inr y by (auto simp: executeSingleTool_def Let_def simp flip: s0_def)
      then show ?thesis using after_approval_failed y by auto
    qed
  qed
  then show ?thesis using settle_failed f x(2) by blast
qed

section \<open>How often the model is called\<close>

lemma called_scope: "adds (in_scope sc) s s' \<Longrightarrow> called s s' 0"
  by (erule called_none) (simp add: in_scope_def)

lemma called_ext: "ext f s = (r, s') \<Longrightarrow> called s s' 0"
  by (rule called_eq) (rule trace_ext)

lemma persist_called: "called s (persistConversationMessages lrt i ms s) 0"
proof -
  have "called s (foldl (\<lambda>s m. add_message conv i m s) s ms) 0" for conv :: "'a Conversation"
  proof (induction ms arbitrary: s)
    case Nil
    show ?case by (simp add: called_eq)
  next
    case (Cons m ms)
    have "called s (add_message conv i m s) 0" by (simp add: called_def add_message_def llm_calls_def)
    then show ?case using called_trans [OF _ Cons.IH] by fastforce
  qed
  then show ?thesis by (simp add: persistConversationMessages_def called_eq split: option.split)
qed

definition total_calls :: "LoopState \<Rightarrow> int" where
  "total_calls ls = TotalLLMCalls (Run (lsTelemetry ls))"

definition counts :: "'w st \<Rightarrow> LoopState \<Rightarrow> loop_step \<Rightarrow> 'w st \<Rightarrow> bool" where
  "counts s ls st s' =
     (case st of
        Continue ls' \<Rightarrow> \<exists>k. called s s' k \<and> total_calls ls' = total_calls ls + int k
      | Break ls' \<Rightarrow> \<exists>k. called s s' k \<and> total_calls ls' = total_calls ls + int k
      | Fail e \<Rightarrow> True)"

lemma counts_after:
  assumes "called s s2 1" and "total_calls ls1 = total_calls ls + 1" and "counts s2 ls1 st s'"
  shows "counts s ls st s'"
proof -
  have step: "\<exists>k. called s s' k \<and> total_calls ls' = total_calls ls + int k"
    if "called s2 s' j" "total_calls ls' = total_calls ls1 + int j" for ls' j
    using called_trans [OF assms(1) that(1)] assms(2) that(2) by (intro exI [of _ "1 + j"]) simp
  show ?thesis using assms(3) step by (cases st) (auto simp: counts_def)
qed

lemma save_iteration_called:
  "save_iteration lrt input ls s = (ls', s') \<Longrightarrow> called s s' 0 \<and> total_calls ls' = total_calls ls"
  by (auto simp: save_iteration_def total_calls_def persist_called called_eq split: if_splits)

lemma final_call_called:
  assumes "final_call env lrt input ctx it ls s = (st, s')"
  shows "counts s ls st s'"
proof -
  obtain mid s1 where u: "ext (uuid env) s = (mid, s1)" by fastforce
  obtain x s2 where x: "call_llm env lrt input ctx mid it (lsMessages ls) True s1 = (x, s2)" by fastforce
  show ?thesis
  proof (cases x)
    case (Inl e)
    then show ?thesis using assms u x by (auto simp: final_call_def counts_def)
  next
    case (Inr r)
    have "called s s2 1" using called_trans [OF called_ext [OF u] call_llm_effects(2) [OF x]] Inr by simp
    then show ?thesis using assms u x Inr by (auto simp: final_call_def counts_def total_calls_def)
  qed
qed

context loop_frame begin

lemma tool_round_called:
  assumes no: "\<And>req. \<not> P (LLMCalled req)" and run: "tool_round env run lrt input mid it r ls s = (st, s')"
  shows "counts s ls st s'"
proof -
  have fin: ?thesis
    if a: "adds P s s1"
      and f: "(let ls1 = ls\<lparr>lsMessages := lsMessages ls @ [assistant_message r] @ map trMessage rs,
                          lsTelemetry := record_results (lrToolCalls r) rs (lsTelemetry ls)\<rparr>;
                 (ls2, s2) = save_iteration lrt input ls1 s1
             in (Continue ls2, s2)) = (st, s')" for rs s1
  proof -
    define ls1 where "ls1 = ls\<lparr>lsMessages := lsMessages ls @ [assistant_message r] @ map trMessage rs,
                          lsTelemetry := record_results (lrToolCalls r) rs (lsTelemetry ls)\<rparr>"
    obtain ls2 s2 where sv: "save_iteration lrt input ls1 s1 = (ls2, s2)" by fastforce
    have "(Continue ls2, s2) = (st, s')" using f sv unfolding ls1_def by simp
    moreover have "called s s2 0"
      using called_trans [OF called_none [OF a no], of s2 0] save_iteration_called [OF sv] by simp
    moreover have "total_calls ls2 = total_calls ls"
      using save_iteration_called [OF sv] by (simp add: ls1_def total_calls_def)
    ultimately show ?thesis by (auto simp: counts_def intro!: exI [of _ "0::nat"])
  qed
  show ?thesis
  proof (cases "rtToolMode (locBase lrt) = ModeSequential")
    case True
    obtain rs s1 where x: "executeToolsSequential env run lrt input mid it (lrToolCalls r) s = (rs, s1)" by fastforce
    show ?thesis by (rule fin [OF executeToolsSequential_adds [OF x]])
        (use run True x in \<open>simp add: tool_round_def Let_def\<close>)
  next
    case seq: False
    show ?thesis
    proof (cases "\<exists>m. rtToolMode (locBase lrt) = ModeOther m")
      case True
      then show ?thesis using run by (auto simp: tool_round_def counts_def Let_def)
    next
      case False
      obtain rs s1 where x: "executeToolsParallel env run lrt input mid it (lrToolCalls r) s = (rs, s1)" by fastforce
      show ?thesis by (rule fin [OF executeToolsParallel_adds [OF x]])
          (use run False seq x in \<open>cases "rtToolMode (locBase lrt)"; simp add: tool_round_def Let_def\<close>)
    qed
  qed
qed

lemma loop_iter_called:
  assumes no: "\<And>req. \<not> P (LLMCalled req)" and run: "loop_iter env run lrt input ctx maxIter it ls s = (st, s')"
  shows "counts s ls st s'"
proof -
  obtain mid s1 where u: "ext (uuid env) s = (mid, s1)" by fastforce
  obtain x s2 where x: "call_llm env lrt input ctx mid it (lsMessages ls) False s1 = (x, s2)" by fastforce
  show ?thesis
  proof (cases x)
    case (Inl e)
    then show ?thesis using run u x by (auto simp: loop_iter_def counts_def)
  next
    case x': (Inr r)
    have c: "called s s2 1" using called_trans [OF called_ext [OF u] call_llm_effects(2) [OF x]] x' by simp
    define ls1 where "ls1 = ls\<lparr>lsTelemetry := count_call (lsTelemetry ls),
        lsUsage := MergeLLMUsage (lsUsage ls) (lrUsage r), lsBudget := charge (lrUsage r) (lsBudget ls)\<rparr>"
    have run': "(if over_budget (lrUsage r) (lsBudget ls1) then
          (Break (ls1\<lparr>lsTelemetry := finished FinishReasonTokenBudget (lsTelemetry ls1)\<rparr>), s2)
        else if lrToolCalls r = [] then
          (Break (ls1\<lparr>lsMessages := lsMessages ls1 @ [message RoleAssistant (lrContent r)], lsContent := lrContent r\<rparr>), s2)
        else if it = maxIter - 1 then final_call env lrt input ctx it ls1 s2
        else tool_round env run lrt input mid it r ls1 s2) = (st, s')"
      using run unfolding loop_iter_def u Let_def prod.case x x' sum.case ls1_def .
    have t: "total_calls ls1 = total_calls ls + 1" by (simp add: ls1_def total_calls_def)
    have more: "counts s ls st s'" if "counts s2 ls1 st s'"
      by (rule counts_after [OF c t that])
    show ?thesis
    proof (cases "over_budget (lrUsage r) (lsBudget ls1) \<or> lrToolCalls r = []")
      case True
      then show ?thesis using run' t c by (auto simp: counts_def total_calls_def split: if_splits intro!: exI [of _ "1::nat"])
    next
      case False
      then have "final_call env lrt input ctx it ls1 s2 = (st, s') \<or> tool_round env run lrt input mid it r ls1 s2 = (st, s')"
        using run' by (auto split: if_splits)
      then show ?thesis using more final_call_called tool_round_called [OF no] by blast
    qed
  qed
qed

lemma loop_from_called:
  assumes no: "\<And>req. \<not> P (LLMCalled req)"
  shows "loop_from (loop_iter env run lrt input ctx maxIter) k it ls s = (Inr ls', s') \<Longrightarrow>
    \<exists>j. called s s' j \<and> total_calls ls' = total_calls ls + int j"
proof (induction k arbitrary: it ls s)
  case 0
  then show ?case by (auto intro!: exI [of _ "0::nat"] called_eq)
next
  case (Suc k)
  obtain st s1 where st: "loop_iter env run lrt input ctx maxIter it ls s = (st, s1)" by fastforce
  note c = loop_iter_called [OF no st]
  show ?case
  proof (cases st)
    case (Continue ls1)
    then obtain i where i: "called s s1 i" "total_calls ls1 = total_calls ls + int i" using c by (auto simp: counts_def)
    obtain j where "called s1 s' j" "total_calls ls' = total_calls ls1 + int j"
      using Suc.IH [of "it + 1" ls1 s1] Suc.prems st Continue by auto
    then show ?thesis using called_trans [OF i(1)] i(2) by (intro exI [of _ "i + j"]) simp
  qed (use Suc.prems st c in \<open>auto simp: counts_def\<close>)
qed

end

text \<open>A run without sub-agents that returns a result has asked the model as often as its telemetry says.\<close>

lemma agent_loop_flat_called:
  assumes "fair env" "tame run" and flat: "alSubAgentRoutes input = []"
    and run: "agent_loop env run lrt input s = (Inr res, s')"
  shows "\<exists>k. called s s' k \<and> TotalLLMCalls (Run (resTelemetry res)) = int k"
proof -
  have input: "input\<lparr>alSubAgentRoutes := []\<rparr> = input" using flat by simp
  obtain t s1 where t: "ext (now env) s = (t, s1)" by fastforce
  obtain h s2 where h: "load_history lrt input s1 = (h, s2)" by fastforce
  obtain x s3 where x: "prefetch_memory lrt input (NewAgentTelemetry t) s2 = (x, s3)" by fastforce
  obtain mem tel1 where mt: "x = Inr (mem, tel1)"
    using run t h x by (cases x) (auto simp: agent_loop_def)
  obtain y s4 where y: "prefetch_documents env lrt input tel1 s3 = (y, s4)" by fastforce
  obtain docs tel2 where dt: "y = Inr (docs, tel2)"
    using run t h x mt y by (cases y) (auto simp: agent_loop_def)
  define ls0 where "ls0 = start_state lrt input h tel2"
  obtain z s5 where z: "iterate env run lrt input \<lparr>lcMemory = mem, lcRetriever = docs\<rparr> ls0 s4 = (z, s5)" by fastforce
  obtain ls where ls: "z = Inr ls"
    using run t h x mt y dt z by (cases z) (auto simp: agent_loop_def ls0_def)
  obtain res' s6 where f: "finish_run env lrt input ls s5 = (res', s6)" by fastforce
  have rs: "res' = res" "s6 = s'" using run t h x mt y dt z ls f by (auto simp: agent_loop_def ls0_def)
  have "called s s1 0" using t by (rule called_ext)
  moreover have "called s1 s2 0" by (rule called_none [OF load_history_adds [OF h, of "\<lambda>_. False"]]) simp
  moreover have "called s2 s3 0"
    using x
    by (auto simp: prefetch_memory_def called_eq intro: called_scope [OF ExecuteMemoryRecall_adds]
        split: if_splits prod.splits sum.splits)
  moreover have "called s3 s4 0"
    using y
    by (auto simp: prefetch_documents_def called_eq intro: called_scope [OF ExecuteRetrievers_adds]
        split: if_splits prod.splits sum.splits)
  ultimately have c4: "called s s4 0" by (metis add_0 called_trans)
  have "Run tel1 = Run (NewAgentTelemetry t)" using prefetch_memory_ok [OF x] mt by blast
  moreover have "Run tel2 = Run tel1" using prefetch_documents_ok [OF y] dt by blast
  ultimately have "total_calls ls0 = 0" by (simp add: ls0_def total_calls_def start_state_def NewAgentTelemetry_def)
  moreover have "\<exists>j. called s4 s5 j \<and> total_calls ls = total_calls ls0 + int j"
    using flat.loop_from_called [where input = input, unfolded input] z ls unfolding iterate_def by blast
  ultimately obtain j where j: "called s4 s5 j" "total_calls ls = int j" by auto
  define s5' where "s5' = save_rest lrt input ls s5"
  obtain tel s7 where m: "store_memories env lrt input ls s5' = (tel, s7)" by fastforce
  have "called s5 s5' 0" by (simp add: s5'_def save_rest_def persist_called called_eq)
  moreover have tel: "called s5' s7 0 \<and> Run tel = Run (lsTelemetry ls)"
  proof (cases "RunEndMemoryStoreEnabled (locBase lrt)")
    case True
    obtain v s'' where v: "ExecuteMemoryStore env (locBase lrt) (alRunID input) 0 (alMemoryScope input) (lsMessages ls) s5'
        = (v, s'')" by fastforce
    show ?thesis using m True v called_scope [OF ExecuteMemoryStore_adds [OF v]]
      by (cases v) (auto simp: store_memories_def Let_def)
  qed (use m in \<open>auto simp: store_memories_def Let_def called_eq\<close>)
  moreover have "called s7 s6 0 \<and> TotalLLMCalls (Run (resTelemetry res')) = TotalLLMCalls (Run tel)"
    using f m by (auto simp: finish_run_def simp flip: s5'_def split: prod.splits dest: called_ext)
  ultimately have "called s5 s6 0" "TotalLLMCalls (Run (resTelemetry res)) = int j"
    using j(2) by (auto simp: total_calls_def rs dest: called_trans)
  then have "called s s' j" using c4 j(1) rs(2) called_trans by (metis add_0 add_0_right)
  then show ?thesis using \<open>TotalLLMCalls (Run (resTelemetry res)) = int j\<close> by blast
qed

section \<open>A runtime the statements are run on\<close>

text \<open>
  A small runtime on which the statements about the loop are run: a model that asks for one tool call
  and then answers, one tool, a store of messages, and a world that counts the calls of the model.
\<close>

definition demo_env :: "nat Env" where
  "demo_env = \<lparr>uuid = (\<lambda>w. (''u'', w)), now = (\<lambda>w. (7, w)), json = (\<lambda>_. Some ''{}''), sprint = (\<lambda>_. ''v''),
     unmarshal = (\<lambda>_. Inr VNil), schedule = (\<lambda>n w. (rev [0..<n], w)),
     await_status = (\<lambda>_ w. (Inr ApprovalStatusRejected, w))\<rparr>"

definition demo_call :: ToolCall where
  "demo_call = \<lparr>tcID = ''c1'', tcName = ''echo'', tcArgs = Some []\<rparr>"

definition demo_generate :: "LLMRequest \<Rightarrow> nat \<Rightarrow> (goerr + LLMResponse) \<times> nat" where
  "demo_generate req w =
     (Inr \<lparr>RespContent = (if w = 0 then [] else ''done''), RespUsage = None,
           RespToolCalls = (if w = 0 then [Some demo_call] else [])\<rparr>, Suc w)"

definition demo_tool :: "bool \<Rightarrow> nat Tool" where
  "demo_tool approval =
     \<lparr>tName = ''echo'', tDisplayName = [], tDescription = [], tParameters = None, tKind = None,
      tApproval = Some approval, tAuthorizer = None, tExecute = (\<lambda>_ w. (Returned (Inr (VString ''hi'')), w))\<rparr>"

definition demo_rt :: "nat Runtime" where
  "demo_rt =
     \<lparr>rtName = ''demo'', rtSystemPrompt = [], rtResponseFormat = None,
      rtClient = \<lparr>GetModel = ''m'', GetProvider = ''p'', IsStreamSupported = False, Generate = demo_generate,
        GenerateStream = (\<lambda>_ w. (Inl (new_error ''none''), w))\<rparr>,
      rtSampling = None, rtApprovalPolicy = None, rtRetrievers = [], rtRetrieverMode = RetrieverModeAgentic,
      rtConversation = Some \<lparr>convAddMessage = (\<lambda>_ _ w. (None, w)), convListMessages = (\<lambda>_ _ w. (Inr [], w))\<rparr>,
      rtConversationSize = 0, rtSaveOnIteration = True, rtMemory = None, rtMaxIterations = 3, rtMaxTokens = 0,
      rtHooks = [], rtToolMode = ModeEmpty\<rparr>"

definition demo_lrt :: "nat LocalRuntime" where
  "demo_lrt = \<lparr>locBase = demo_rt, locBus = True\<rparr>"

definition demo_input :: "bool \<Rightarrow> nat AgentLoopInput" where
  "demo_input approval =
     \<lparr>alUserPrompt = ''hello'', alConversationID = ''conv'', alStreamingEnabled = False,
      alTools = [demo_tool approval], alChannelName = ''ch'', alApprovalHandler = None, alSubAgentRoutes = [],
      alSubAgentDepth = 0, alMaxSubAgentDepth = 2, alMemoryScope = empty_scope, alRunID = ''r''\<rparr>"

definition demo_st :: "nat st" where
  "demo_st = \<lparr>world = 0, trace = []\<rparr>"

lemma demo_fair [simp]: "fair demo_env"
  by (auto simp: fair_def demo_env_def)

definition demo_run :: "bool \<Rightarrow> (goerr + AgentLoopResult) \<times> nat st" where
  "demo_run approval = RunAgentLoop demo_env demo_lrt (demo_input approval) demo_st"

text \<open>A run on which the model answers at once.\<close>

definition demo_late :: "nat st" where
  "demo_late = \<lparr>world = 1, trace = []\<rparr>"

lemma demo_late_answers: "\<not> isl (fst (RunAgentLoop demo_env demo_lrt (demo_input False) demo_late))"
  by code_simp

end
