(* ===== verification/LocalEvents.thy ===== *)
theory LocalEvents
  imports LocalCalls
begin

text \<open>
  What a whole run of the in-process loop may add to the log, for any property of entries that its parts
  have; with it, the bracketing of a streamed run by its lifecycle events.
\<close>

section \<open>The frame of a run\<close>

locale run_frame = loop_frame P env run lrt input
  for P :: "effect \<Rightarrow> bool" and env :: "'w Env" and run :: "'w run" and lrt :: "'w LocalRuntime"
    and input :: "'w AgentLoopInput" +
  assumes model: "llm_effect e \<Longrightarrow> P e"
    and conversation [simp, intro]: "P (ConversationAdded i m)"
begin

lemma scope_adds: "adds (in_scope (alMemoryScope input)) s s' \<Longrightarrow> adds P s s'"
  by (erule adds_mono) (rule scoped)

lemma call_llm_adds: "call_llm env lrt input ctx mid it ms skip s = (r, s') \<Longrightarrow> adds P s s'"
  by (rule adds_mono [OF call_llm_effects(1) model])

lemma persist_adds: "adds P s (persistConversationMessages lrt i ms s)"
proof -
  have "adds P s (foldl (\<lambda>s m. add_message conv i m s) s ms)" for conv :: "'w Conversation"
  proof (induction ms arbitrary: s)
    case (Cons m ms)
    have "adds P s (add_message conv i m s)"
      by (simp add: adds_def add_message_def)
    then show ?case using Cons.IH [of "add_message conv i m s"] by (auto intro: adds_trans)
  qed simp
  then show ?thesis by (simp add: persistConversationMessages_def split: option.split)
qed

lemma save_iteration_adds: "save_iteration lrt input ls s = (ls', s') \<Longrightarrow> adds P s s'"
  by (auto simp: save_iteration_def persist_adds split: if_splits)

lemma tool_round_adds:
  assumes "tool_round env run lrt input mid it r ls s = (st, s')"
  shows "adds P s s'"
proof -
  have fin: "adds P s s'"
    if "adds P s s1" and "(let (ls2, s2) = save_iteration lrt input ls1 s1 in (Continue ls2, s2)) = (st, s')" for s1 ls1
  proof -
    obtain ls2 s2 where sv: "save_iteration lrt input ls1 s1 = (ls2, s2)" by fastforce
    then show ?thesis using adds_trans [OF that(1) save_iteration_adds [OF sv]] that(2) by simp
  qed
  obtain rs s1 where p: "executeToolsParallel env run lrt input mid it (lrToolCalls r) s = (rs, s1)" by fastforce
  obtain rs' s2 where q: "executeToolsSequential env run lrt input mid it (lrToolCalls r) s = (rs', s2)" by fastforce
  show ?thesis
    using assms fin [OF executeToolsParallel_adds [OF p]] fin [OF executeToolsSequential_adds [OF q]] p q
    by (cases "rtToolMode (locBase lrt)") (simp_all add: tool_round_def Let_def)
qed

lemma final_call_adds:
  assumes "final_call env lrt input ctx it ls s = (st, s')"
  shows "adds P s s'"
proof -
  obtain mid s1 where u: "ext (uuid env) s = (mid, s1)" by fastforce
  obtain x s2 where x: "call_llm env lrt input ctx mid it (lsMessages ls) True s1 = (x, s2)" by fastforce
  have "adds P s s2" using ext_adds [OF u] call_llm_adds [OF x] by (rule adds_trans)
  moreover have "s' = s2" using assms u x by (cases x) (simp_all add: final_call_def)
  ultimately show ?thesis by simp
qed

lemma loop_iter_adds:
  assumes "loop_iter env run lrt input ctx maxIter it ls s = (st, s')"
  shows "adds P s s'"
proof -
  obtain mid s1 where u: "ext (uuid env) s = (mid, s1)" by fastforce
  obtain x s2 where x: "call_llm env lrt input ctx mid it (lsMessages ls) False s1 = (x, s2)" by fastforce
  have a: "adds P s s2" using ext_adds [OF u] call_llm_adds [OF x] by (rule adds_trans)
  show ?thesis
  proof (cases x)
    case (Inl e)
    then show ?thesis using assms u x a by (auto simp: loop_iter_def)
  next
    case (Inr r)
    then have "s' = s2 \<or> (\<exists>ls1. final_call env lrt input ctx it ls1 s2 = (st, s')
        \<or> tool_round env run lrt input mid it r ls1 s2 = (st, s'))"
      using assms u x by (auto simp: loop_iter_def Let_def split: if_splits)
    then show ?thesis using a final_call_adds tool_round_adds adds_trans by blast
  qed
qed

lemma loop_from_adds:
  "loop_from (loop_iter env run lrt input ctx maxIter) k it ls s = (r, s') \<Longrightarrow> adds P s s'"
proof (induction k arbitrary: it ls s)
  case (Suc k)
  obtain st s1 where st: "loop_iter env run lrt input ctx maxIter it ls s = (st, s1)" by fastforce
  show ?case using Suc st loop_iter_adds [OF st]
    by (cases st) (auto intro: adds_trans)
qed auto

lemma prefetch_adds:
  "prefetch_memory lrt input tel s = (r, s') \<Longrightarrow> adds P s s'"
  "prefetch_documents env lrt input tel s = (d, s') \<Longrightarrow> adds P s s'"
  by (auto simp: prefetch_memory_def prefetch_documents_def intro: scope_adds ExecuteMemoryRecall_adds
      ExecuteRetrievers_adds split: if_splits prod.splits sum.splits)

lemma finish_run_adds:
  assumes "finish_run env lrt input ls s = (res, s')"
  shows "adds P s s'"
proof -
  define s1 where "s1 = save_rest lrt input ls s"
  have s1: "adds P s s1" by (simp add: s1_def save_rest_def persist_adds)
  obtain tel s2 where m: "store_memories env lrt input ls s1 = (tel, s2)" by fastforce
  obtain d s3 where d: "ext (now env) s2 = (d, s3)" by fastforce
  have "adds P s1 s2" using m
    by (auto simp: store_memories_def Let_def intro: scope_adds ExecuteMemoryStore_adds
        split: if_splits prod.splits option.splits)
  then have "adds P s s3" using s1 ext_adds [OF d] by (blast intro: adds_trans)
  moreover have "s' = s3" using assms m d by (simp add: finish_run_def flip: s1_def)
  ultimately show ?thesis by simp
qed

lemma agent_loop_adds:
  assumes run: "agent_loop env run lrt input s = (r, s')"
  shows "adds P s s'"
proof -
  obtain t s1 where t: "ext (now env) s = (t, s1)" by fastforce
  obtain h s2 where h: "load_history lrt input s1 = (h, s2)" by fastforce
  obtain x s3 where x: "prefetch_memory lrt input (NewAgentTelemetry t) s2 = (x, s3)" by fastforce
  have a3: "adds P s s3"
    using ext_adds [OF t] load_history_adds [OF h] prefetch_adds(1) [OF x] by (blast intro: adds_trans)
  show ?thesis
  proof (cases x)
    case (Inl e)
    then show ?thesis using run t h x a3 by (simp add: agent_loop_def)
  next
    case (Inr mt)
    then obtain mem tel1 where mt: "x = Inr (mem, tel1)" by (cases mt) simp
    obtain y s4 where y: "prefetch_documents env lrt input tel1 s3 = (y, s4)" by fastforce
    have a4: "adds P s s4" using a3 prefetch_adds(2) [OF y] by (rule adds_trans)
    show ?thesis
    proof (cases y)
      case (Inl e)
      then show ?thesis using run t h x mt y a4 by (simp add: agent_loop_def)
    next
      case (Inr dt)
      then obtain docs tel2 where dt: "y = Inr (docs, tel2)" by (cases dt) simp
      obtain z s5 where z: "iterate env run lrt input \<lparr>lcMemory = mem, lcRetriever = docs\<rparr>
          (start_state lrt input h tel2) s4 = (z, s5)" by fastforce
      have a5: "adds P s s5" using a4 loop_from_adds [OF z [unfolded iterate_def]] by (rule adds_trans)
      show ?thesis
      proof (cases z)
        case (Inl e)
        then show ?thesis using run t h x mt y dt z a5 by (simp add: agent_loop_def)
      next
        case (Inr ls)
        obtain res s6 where f: "finish_run env lrt input ls s5 = (res, s6)" by fastforce
        have "s' = s6" using run t h x mt y dt z Inr f by (simp add: agent_loop_def)
        then show ?thesis using adds_trans [OF a5 finish_run_adds [OF f]] by simp
      qed
    qed
  qed
qed

end

section \<open>The lifecycle of a streamed run\<close>

text \<open>Everything but the events that open and close a run.\<close>

definition inner :: "effect \<Rightarrow> bool" where
  "inner e = (case e of Published _ ev \<Rightarrow> \<not> lifecycle ev | _ \<Rightarrow> True)"

lemma inner_simps [simp]:
  "inner (Published c ev) = (\<not> lifecycle ev)" "inner (ApprovalStored t)" "inner (ApprovalDeleted t)"
  "inner (ConversationAdded i m)"
  by (simp_all add: inner_def)

lemma inner_llm: "llm_effect e \<Longrightarrow> inner e"
  by (auto simp: inner_def llm_effect_def split: effect.splits)

lemma inner_scope: "in_scope sc e \<Longrightarrow> inner e"
  by (auto simp: inner_def in_scope_def split: effect.splits)

lemma inner_frame:
  assumes "\<And>sub inp s r s'. run sub inp s = (r, s') \<Longrightarrow> adds inner s s'"
  shows "run_frame inner env run lrt input"
proof
  fix tc route s c s'
  assume "delegate env run lrt input tc route s = (c, s')"
  then show "adds inner s s'" by (rule delegate_frame [rotated 2]) (simp_all add: assms)
qed (auto simp: inner_llm inner_scope)

lemma run_level_inner: "run_level env n lrt input s = (r, s') \<Longrightarrow> adds inner s s'"
proof (induction n arbitrary: lrt input s r s')
  case (Suc n)
  show ?case using run_frame.agent_loop_adds [OF inner_frame [OF Suc.IH]] Suc.prems by simp
qed auto

interpretation nested: run_frame inner env "run_level env n" lrt input for env n lrt input
  by (rule inner_frame) (rule run_level_inner)

lemma RunAgentLoop_inner: "RunAgentLoop env lrt input s = (r, s') \<Longrightarrow> adds inner s s'"
  unfolding RunAgentLoop_def run_level.simps by (rule nested.agent_loop_adds)

lemma localChannelName_nonempty [simp]: "localChannelName r \<noteq> []"
  by (simp add: localChannelName_def)

lemma ExecuteStream_lifecycle:
  assumes bus: "locBus lrt"
  shows "\<exists>runID threadID es final. trace (ExecuteStream env lrt c req s) =
      trace s @ Published (localChannelName runID) (EvRunStarted threadID runID) # es
        @ [Published (localChannelName runID) final] \<and> list_all inner es \<and>
      (\<exists>x. final = EvRunFinished threadID runID x \<or> final = EvRunError x)"
proof -
  obtain runID s1 where u: "ext (uuid env) s = (runID, s1)" by fastforce
  define tid where "tid = (if GetConversationID req = [] then runID else GetConversationID req)"
  define s2 where "s2 = logged (Published (localChannelName runID) (EvRunStarted tid runID)) s1"
  obtain r s3 where r: "RunAgentLoop env lrt (run_input lrt c req (erStreamingEnabled req) (localChannelName runID) runID) s2
      = (r, s3)" by fastforce
  define final where "final = (case r of Inl e \<Rightarrow> EvRunError (err_msg e)
      | Inr r \<Rightarrow> EvRunFinished tid runID (arrContent (run_result lrt r)))"
  obtain es where es: "trace s3 = trace s2 @ es" "\<forall>e \<in> set es. inner e"
    using RunAgentLoop_inner [OF r] by (auto simp: adds_def)
  have t2: "trace s2 = trace s @ [Published (localChannelName runID) (EvRunStarted tid runID)]"
    using trace_ext [OF u] by (simp add: s2_def)
  have pub: "publishLifecycleEvent lrt (localChannelName runID) ev x = logged (Published (localChannelName runID) ev) x"
    for ev x by (simp add: publishLifecycleEvent_def bus)
  have "ExecuteStream env lrt c req s = logged (Published (localChannelName runID) final) s3"
    unfolding ExecuteStream_def u Let_def prod.case pub final_def tid_def [symmetric] s2_def [symmetric] r
    by (simp split: sum.split)
  moreover have "\<exists>x. final = EvRunFinished tid runID x \<or> final = EvRunError x"
    by (auto simp: final_def split: sum.split)
  ultimately show ?thesis
    by (intro exI [of _ runID] exI [of _ tid] exI [of _ es] exI [of _ final])
       (use es t2 in \<open>simp add: list_all_iff\<close>)
qed

end
