(* ===== verification/LocalApprovals.thy ===== *)
theory LocalApprovals
  imports AgentTypes ToolResults
begin

text \<open>
  Waiting for approvals in the in-process runtime (\<open>pendingApprovals\<close>, \<open>Approve\<close> of
  \<open>internal/runtime/local/runtime.go\<close>, the wait of \<open>executeSingleTool\<close> in \<open>agent_loop.go\<close>) as a state
  machine: tool calls that wait under a fresh token, callers that approve by token, handlers that
  respond, and the context that may end a wait, in any interleaving.
\<close>

section \<open>State\<close>

datatype call_state = Waiting | Answered ApprovalStatus | Cancelled

text \<open>Each token has a channel of capacity one; a sender that finds it full blocks.  \<open>released\<close> are the
  tokens whose call has returned, with its deferred \<open>Delete\<close>.  \<open>accepted\<close> and \<open>sent\<close> record, for the
  statements below, which \<open>Approve\<close> calls succeeded and what was sent.\<close>

record Approvals =
  pendingApprovals :: "string set"
  buffer :: "string \<Rightarrow> ApprovalStatus list"
  blocked :: "(string \<times> ApprovalStatus) list"
  call :: "string \<Rightarrow> call_state option"
  released :: "string set"
  accepted :: "string list"
  sent :: "(string \<times> ApprovalStatus) list"

definition no_approvals :: Approvals where
  "no_approvals = \<lparr>pendingApprovals = {}, buffer = (\<lambda>_. []), blocked = [], call = Map.empty, released = {},
     accepted = [], sent = []\<rparr>"

definition register :: "string \<Rightarrow> Approvals \<Rightarrow> Approvals" where
  "register token a = a\<lparr>pendingApprovals := insert token (pendingApprovals a), call := (call a)(token \<mapsto> Waiting)\<rparr>"

text \<open>A send on the channel of a token.\<close>

definition send :: "string \<Rightarrow> ApprovalStatus \<Rightarrow> Approvals \<Rightarrow> Approvals" where
  "send token status a =
     (let a1 = a\<lparr>sent := (token, status) # sent a\<rparr> in
      if buffer a token = [] then a1\<lparr>buffer := (buffer a)(token := [status])\<rparr>
      else a1\<lparr>blocked := blocked a @ [(token, status)]\<rparr>)"

text \<open>\<open>Approve\<close>: \<open>LoadAndDelete\<close>, then the send; an unknown token is an error.\<close>

definition Approve :: "string \<Rightarrow> ApprovalStatus \<Rightarrow> Approvals \<Rightarrow> goerr option \<times> Approvals" where
  "Approve token status a =
     (if token \<notin> pendingApprovals a then
        (Some (new_error (''local: no pending approval for token '' @ go_quote token)), a)
      else (None, send token status
              (a\<lparr>pendingApprovals := pendingApprovals a - {token}, accepted := token # accepted a\<rparr>)))"

text \<open>The two branches of the \<open>select\<close>: a received status makes room for a blocked sender.\<close>

definition receive :: "string \<Rightarrow> Approvals \<Rightarrow> Approvals" where
  "receive token a =
     (case buffer a token of
        [] \<Rightarrow> a
      | status # _ \<Rightarrow>
          (let a1 = (case find (\<lambda>(t, _). t = token) (blocked a) of
                       None \<Rightarrow> a\<lparr>buffer := (buffer a)(token := [])\<rparr>
                     | Some (t, st) \<Rightarrow>
                         a\<lparr>buffer := (buffer a)(token := [st]), blocked := remove1 (t, st) (blocked a)\<rparr>)
           in a1\<lparr>call := (call a)(token \<mapsto> Answered status)\<rparr>))"

definition cancel :: "string \<Rightarrow> Approvals \<Rightarrow> Approvals" where
  "cancel token a = a\<lparr>call := (call a)(token \<mapsto> Cancelled)\<rparr>"

text \<open>The return of the call, with its deferred \<open>Delete\<close>.\<close>

definition release :: "string \<Rightarrow> Approvals \<Rightarrow> Approvals" where
  "release token a = a\<lparr>pendingApprovals := pendingApprovals a - {token}, released := insert token (released a)\<rparr>"

section \<open>Steps\<close>

inductive ap_step :: "Approvals \<Rightarrow> Approvals \<Rightarrow> bool" where
  Register: "call a token = None \<Longrightarrow> ap_step a (register token a)"
| ApproveStep: "Approve token status a = (e, a') \<Longrightarrow> ap_step a a'"
| Respond: "call a token \<noteq> None \<Longrightarrow> ap_step a (send token status a)"
| Receive: "call a token = Some Waiting \<Longrightarrow> buffer a token \<noteq> [] \<Longrightarrow> ap_step a (receive token a)"
| CtxDone: "call a token = Some Waiting \<Longrightarrow> ap_step a (cancel token a)"
| Return: "call a token = Some c \<Longrightarrow> c \<noteq> Waiting \<Longrightarrow> ap_step a (release token a)"

inductive ap_reach :: "Approvals \<Rightarrow> bool" where
  Init: "ap_reach no_approvals"
| Step: "ap_reach a \<Longrightarrow> ap_step a a' \<Longrightarrow> ap_reach a'"

inductive_cases ap_stepE: "ap_step a a'"

section \<open>Invariants\<close>

text \<open>Tokens in use are known; a token is accepted at most once, and not after its call returned; a
  status that was received was sent to that token.\<close>

definition ap_inv :: "Approvals \<Rightarrow> bool" where
  "ap_inv a \<longleftrightarrow>
     (\<forall>t \<in> pendingApprovals a. call a t \<noteq> None \<and> t \<notin> set (accepted a) \<and> t \<notin> released a) \<and>
     distinct (accepted a) \<and>
     (\<forall>t \<in> released a. call a t \<noteq> None \<and> call a t \<noteq> Some Waiting) \<and>
     (\<forall>t \<in> set (accepted a). call a t \<noteq> None) \<and>
     (\<forall>x \<in> set (sent a). call a (fst x) \<noteq> None) \<and>
     (\<forall>t. \<forall>st \<in> set (buffer a t). (t, st) \<in> set (sent a)) \<and>
     (\<forall>x \<in> set (blocked a). x \<in> set (sent a)) \<and>
     (\<forall>t st. call a t = Some (Answered st) \<longrightarrow> (t, st) \<in> set (sent a))"

lemma ap_inv_init: "ap_inv no_approvals"
  by (simp add: ap_inv_def no_approvals_def)

lemma ap_inv_send: "ap_inv a \<Longrightarrow> call a t \<noteq> None \<Longrightarrow> ap_inv (send t st a)"
  unfolding ap_inv_def send_def Let_def by (auto split: if_splits)

lemma ap_inv_register:
  assumes inv: "ap_inv a" and n: "call a t = None"
  shows "ap_inv (register t a)"
proof -
  have "t \<notin> set (accepted a)" "t \<notin> released a" using inv n by (auto simp: ap_inv_def)
  then show ?thesis using inv unfolding ap_inv_def register_def by (auto split: if_splits)
qed

lemma ap_inv_approve:
  assumes inv: "ap_inv a" and e: "Approve t st a = (e, a')"
  shows "ap_inv a'"
proof (cases "t \<in> pendingApprovals a")
  case True
  let ?b = "a\<lparr>pendingApprovals := pendingApprovals a - {t}, accepted := t # accepted a\<rparr>"
  have "ap_inv ?b" "call ?b t \<noteq> None" using inv True unfolding ap_inv_def by auto
  from ap_inv_send [OF this, of st] show ?thesis using e True by (auto simp: Approve_def)
qed (use inv e in \<open>auto simp: Approve_def\<close>)

lemma find_SomeD: "find P xs = Some x \<Longrightarrow> x \<in> set xs \<and> P x"
  by (induction xs) (auto split: if_splits)

lemma ap_inv_answered:
  assumes inv: "ap_inv a" and st: "(t, st) \<in> set (sent a)" and r: "t \<notin> released a"
    and b: "\<And>u s. s \<in> set (b u) \<Longrightarrow> (u, s) \<in> set (sent a)" and w: "set w \<subseteq> set (sent a)"
  shows "ap_inv (a\<lparr>buffer := b, blocked := w, call := (call a)(t \<mapsto> Answered st)\<rparr>)"
  using inv st r b w unfolding ap_inv_def by (auto split: if_splits)

lemma ap_inv_receive:
  assumes inv: "ap_inv a" and w: "call a t = Some Waiting" and b: "buffer a t \<noteq> []"
  shows "ap_inv (receive t a)"
proof -
  obtain st rest where st: "buffer a t = st # rest" using b by (cases "buffer a t") auto
  have s: "(t, st) \<in> set (sent a)" "t \<notin> released a"
    and bf: "\<And>u s. s \<in> set (buffer a u) \<Longrightarrow> (u, s) \<in> set (sent a)" and bl: "set (blocked a) \<subseteq> set (sent a)"
    using inv st w by (auto simp: ap_inv_def)
  show ?thesis
  proof (cases "find (\<lambda>(u, _). u = t) (blocked a)")
    case None
    have "ap_inv (a\<lparr>buffer := (buffer a)(t := []), blocked := blocked a, call := (call a)(t \<mapsto> Answered st)\<rparr>)"
      using bf bl by (intro ap_inv_answered [OF inv s]) (auto split: if_splits)
    then show ?thesis by (simp add: receive_def st None)
  next
    case (Some x)
    from find_SomeD [OF Some] obtain st' where x: "x = (t, st')" "x \<in> set (blocked a)" by (cases x) auto
    have "set (remove1 (t, st') (blocked a)) \<subseteq> set (sent a)"
      using set_remove1_subset bl by (rule subset_trans)
    then have "ap_inv (a\<lparr>buffer := (buffer a)(t := [st']), blocked := remove1 (t, st') (blocked a),
        call := (call a)(t \<mapsto> Answered st)\<rparr>)"
      using bf bl x by (intro ap_inv_answered [OF inv s]) (auto split: if_splits)
    then show ?thesis by (simp add: receive_def st Some x)
  qed
qed

lemma ap_inv_cancel: "ap_inv a \<Longrightarrow> call a t = Some Waiting \<Longrightarrow> ap_inv (cancel t a)"
  unfolding ap_inv_def cancel_def by (auto split: if_splits)

lemma ap_inv_release: "ap_inv a \<Longrightarrow> call a t = Some c \<Longrightarrow> c \<noteq> Waiting \<Longrightarrow> ap_inv (release t a)"
  unfolding ap_inv_def release_def by auto

lemma ap_inv_reach: "ap_reach a \<Longrightarrow> ap_inv a"
proof (induction rule: ap_reach.induct)
  case (Step a a')
  from Step.hyps(2) show ?case
    by (cases rule: ap_stepE)
      (use Step.IH in \<open>auto intro: ap_inv_register ap_inv_approve ap_inv_send ap_inv_receive ap_inv_cancel ap_inv_release\<close>)
qed (rule ap_inv_init)

text \<open>Sends are conserved: each is in the channel, blocked, or was received, and nobody blocks while the
  channel is empty.\<close>

definition held :: "Approvals \<Rightarrow> string \<Rightarrow> nat" where
  "held a t = length (buffer a t) + length (filter (\<lambda>x. fst x = t) (blocked a))
     + (case call a t of Some (Answered _) \<Rightarrow> 1 | _ \<Rightarrow> 0)"

definition ap_flow :: "Approvals \<Rightarrow> bool" where
  "ap_flow a \<longleftrightarrow> (\<forall>t. held a t = length (filter (\<lambda>x. fst x = t) (sent a)) \<and> length (buffer a t) \<le> 1
     \<and> (buffer a t = [] \<longrightarrow> filter (\<lambda>x. fst x = t) (blocked a) = []))"

lemma ap_flow_send:
  assumes f: "ap_flow a"
  shows "ap_flow (send t st a)"
  unfolding ap_flow_def
proof (intro allI)
  fix u
  have u: "held a u = length (filter (\<lambda>x. fst x = u) (sent a))" "length (buffer a u) \<le> 1"
    "buffer a u = [] \<longrightarrow> filter (\<lambda>x. fst x = u) (blocked a) = []"
    using f by (auto simp: ap_flow_def)
  show "held (send t st a) u = length (filter (\<lambda>x. fst x = u) (sent (send t st a))) \<and>
     length (buffer (send t st a) u) \<le> 1 \<and>
     (buffer (send t st a) u = [] \<longrightarrow> filter (\<lambda>x. fst x = u) (blocked (send t st a)) = [])"
    using u by (cases "u = t"; cases "buffer a t = []") (auto simp: send_def held_def)
qed

lemma length_filter_remove1:
  "x \<in> set xs \<Longrightarrow> P x \<Longrightarrow> Suc (length (filter P (remove1 x xs))) = length (filter P xs)"
  by (induction xs) auto

lemma filter_remove1_other: "\<not> P x \<Longrightarrow> filter P (remove1 x xs) = filter P xs"
  by (induction xs) auto

lemma ap_flow_receive:
  assumes f: "ap_flow a" and w: "call a t = Some Waiting" and b: "buffer a t \<noteq> []"
  shows "ap_flow (receive t a)"
proof -
  have "length (buffer a t) \<le> 1" using f by (simp add: ap_flow_def)
  then obtain st where st: "buffer a t = [st]" using b by (cases "buffer a t") auto
  show ?thesis
  proof (cases "find (\<lambda>(u, _). u = t) (blocked a)")
    case None
    then have "filter (\<lambda>x. fst x = t) (blocked a) = []" by (auto simp: find_None_iff filter_empty_conv)
    moreover have "held a t = length (filter (\<lambda>x. fst x = t) (sent a))" using f by (simp add: ap_flow_def)
    ultimately show ?thesis using f w None by (auto simp: ap_flow_def receive_def held_def st)
  next
    case (Some x)
    from find_SomeD [OF Some] obtain st' where x: "x = (t, st')" "x \<in> set (blocked a)" by (cases x) auto
    have l: "Suc (length (filter (\<lambda>y. fst y = t) (remove1 x (blocked a)))) = length (filter (\<lambda>y. fst y = t) (blocked a))"
      using x by (intro length_filter_remove1) auto
    have o: "filter (\<lambda>y. fst y = u) (remove1 x (blocked a)) = filter (\<lambda>y. fst y = u) (blocked a)" if "u \<noteq> t" for u
      using x that by (intro filter_remove1_other) auto
    show ?thesis unfolding ap_flow_def
    proof (intro allI)
      fix u
      show "held (receive t a) u = length (filter (\<lambda>x. fst x = u) (sent (receive t a))) \<and>
         length (buffer (receive t a) u) \<le> 1 \<and>
         (buffer (receive t a) u = [] \<longrightarrow> filter (\<lambda>x. fst x = u) (blocked (receive t a)) = [])"
      proof (cases "u = t")
        case True
        have "held a t = length (filter (\<lambda>x. fst x = t) (sent a))" using f by (simp add: ap_flow_def)
        then show ?thesis using True l w x Some by (simp add: receive_def st held_def)
      next
        case False
        then show ?thesis using f o [OF False] x Some by (simp add: receive_def st held_def ap_flow_def)
      qed
    qed
  qed
qed

lemma ap_flow_other:
  assumes f: "ap_flow a" and b: "buffer a' = buffer a" "blocked a' = blocked a" "sent a' = sent a"
    and c: "\<And>t. (case call a' t of Some (Answered _) \<Rightarrow> 1 | _ \<Rightarrow> (0::nat)) = (case call a t of Some (Answered _) \<Rightarrow> 1 | _ \<Rightarrow> 0)"
  shows "ap_flow a'"
  using f unfolding ap_flow_def held_def b c .

lemma ap_flow_step: "ap_step a a' \<Longrightarrow> ap_flow a \<Longrightarrow> ap_flow a'"
proof (induction rule: ap_step.induct)
  case (ApproveStep token status a e a')
  have "ap_flow (a\<lparr>pendingApprovals := p, accepted := c\<rparr>)" for p c
    using ApproveStep.prems by (rule ap_flow_other) simp_all
  then show ?case using ApproveStep ap_flow_send by (auto simp: Approve_def split: if_splits)
next
  case (Register a token)
  show ?case using Register.prems by (rule ap_flow_other) (simp_all add: register_def Register.hyps)
next
  case (CtxDone a token)
  show ?case using CtxDone.prems by (rule ap_flow_other) (simp_all add: cancel_def CtxDone.hyps)
next
  case (Return a token c)
  show ?case using Return.prems by (rule ap_flow_other) (simp_all add: release_def)
qed (auto intro: ap_flow_send ap_flow_receive)

lemma ap_flow_init: "ap_flow no_approvals"
  by (simp add: ap_flow_def held_def no_approvals_def)

lemma ap_flow_reach: "ap_reach a \<Longrightarrow> ap_flow a"
  by (induction rule: ap_reach.induct) (auto intro: ap_flow_step ap_flow_init)

text \<open>Consequences.\<close>

lemma sent_once:
  "distinct (map fst xs) \<Longrightarrow> length (filter (\<lambda>x. fst x = t) xs) \<le> 1"
proof (induction xs)
  case (Cons x xs)
  have "fst x \<notin> fst ` set xs" using Cons.prems by simp
  then have "\<forall>y \<in> set xs. fst y \<noteq> fst x" by (metis image_eqI)
  then have "filter (\<lambda>y. fst y = fst x) xs = []" by (simp add: filter_empty_conv)
  then show ?case using Cons by (cases "fst x = t") auto
qed simp

lemma single_senders_never_block:
  assumes r: "ap_reach a" and d: "distinct (map fst (sent a))"
  shows "blocked a = []"
proof (rule ccontr)
  assume "blocked a \<noteq> []"
  then obtain x where x: "x \<in> set (blocked a)" by (cases "blocked a") auto
  then have "filter (\<lambda>y. fst y = fst x) (blocked a) \<noteq> []" by (auto simp: filter_empty_conv)
  moreover from this have "buffer a (fst x) \<noteq> []" using ap_flow_reach [OF r] by (auto simp: ap_flow_def)
  ultimately have "2 \<le> held a (fst x)" unfolding held_def
    by (cases "buffer a (fst x)"; cases "filter (\<lambda>y. fst y = fst x) (blocked a)") auto
  moreover have "held a (fst x) \<le> 1" using sent_once [OF d] ap_flow_reach [OF r] by (simp add: ap_flow_def)
  ultimately show False by simp
qed

lemma waiting_call_can_receive:
  assumes r: "ap_reach a" and w: "call a t = Some Waiting" and s: "(t, st) \<in> set (sent a)"
  shows "ap_step a (receive t a)"
proof (rule Receive [OF w])
  have "filter (\<lambda>y. fst y = t) (sent a) \<noteq> []" using s by (force simp: filter_empty_conv)
  then have "held a t \<noteq> 0" using ap_flow_reach [OF r] by (simp add: ap_flow_def)
  then show "buffer a t \<noteq> []" using w ap_flow_reach [OF r] by (auto simp: held_def ap_flow_def)
qed

lemma released_Approve:
  assumes r: "ap_reach a" and t: "t \<in> released a"
  shows "fst (Approve t st a) \<noteq> None \<and> snd (Approve t st a) = a"
  using ap_inv_reach [OF r] t by (auto simp: ap_inv_def Approve_def)

end
