(* ===== verification/LocalProps.thy ===== *)
theory LocalProps
  imports LocalEvents LocalApprovals LocalCalls
begin

text \<open>
  The properties of the in-process runtime: how a run ends, what it persists and publishes, what guards a
  tool call and what the model reads of it, how deep agents nest, and how approvals are resolved.
\<close>

section \<open>The loop\<close>



text \<open>C5. Nesting ends at the configured depth: a loop that may delegate at most as often as the maximum
  depth leaves already behaves as the unbounded one.\<close>

theorem nesting_bounded:
  assumes "alMaxSubAgentDepth input - alSubAgentDepth input \<le> int n"
  shows "run_level env (Suc n) lrt input s = RunAgentLoop env lrt input s"
  using assms by (rule run_level_depth)

lemma nesting_bounded_witness:
  "run_level demo_env (Suc 2) demo_lrt (demo_input True) demo_st = demo_run True"
proof -
  have "alMaxSubAgentDepth (demo_input True) - alSubAgentDepth (demo_input True) \<le> int 2"
    by (simp add: demo_input_def)
  from nesting_bounded [OF this] show ?thesis unfolding demo_run_def by blast
qed

text \<open>The telemetry of a run without sub-agents counts the calls of the model it made.\<close>

theorem llm_calls_reported:
  assumes "fair env" and "alSubAgentRoutes input = []" and "RunAgentLoop env lrt input s = (Inr res, s')"
  shows "\<exists>k. called s s' k \<and> TotalLLMCalls (Run (resTelemetry res)) = int k"
  using agent_loop_flat_called [OF assms(1) tame_run_level [OF assms(1)] assms(2)] assms(3)
  by (simp add: RunAgentLoop_def)

lemma llm_calls_reported_witness:
  "\<exists>res s' k. RunAgentLoop demo_env demo_lrt (demo_input False) demo_late = (Inr res, s') \<and>
     called demo_late s' k \<and> TotalLLMCalls (Run (resTelemetry res)) = int k"
proof -
  obtain res s' where r: "RunAgentLoop demo_env demo_lrt (demo_input False) demo_late = (Inr res, s')"
    using demo_late_answers by (metis prod.collapse sum.collapse(2))
  have "alSubAgentRoutes (demo_input False) = []" by (simp add: demo_input_def)
  from llm_calls_reported [OF demo_fair this r] r show ?thesis by blast
qed

section \<open>Tool calls\<close>

text \<open>C2. Nothing runs before the gate: unless the policy allows the call and an approval, where one is
  needed, was asked for and given, executing a tool call does nothing but publish events and register
  the approval; no tool, model, memory or sub-agent is reached.\<close>

theorem tool_gate:
  assumes "\<not> cleared env lrt input mid tc s"
  shows "adds harmless s (snd (executeSingleTool env run lrt input mid it tc s))"
  using not_cleared_harmless [OF _ assms] by (metis prod.collapse)

definition demo_request :: ToolCallRequest where
  "demo_request = \<lparr>tcrID = ''c1'', tcrName = ''echo'', tcrDisplayName = [], tcrKind = ToolKindNative,
     tcrArgs = None, tcrNeedsApproval = True\<rparr>"

lemma demo_not_cleared: "\<not> cleared demo_env demo_lrt (demo_input True) ''m'' demo_request demo_st"
proof -
  have "AuthorizeTool (alTools (demo_input True)) ''echo'' None x = (Inr \<lparr>Allowed = True, Reason = []\<rparr>, x)" for x :: "nat st"
    by (simp add: AuthorizeTool_def FindToolByName_def demo_input_def demo_tool_def)
  moreover have "fst (fst (ask_approval demo_env demo_lrt (demo_input True) demo_request b x))
      = Inr ApprovalStatusRejected" for b x
    by (simp add: ask_approval_def ext_def demo_env_def demo_input_def demo_request_def Let_def)
  ultimately show ?thesis by (simp add: cleared_def demo_request_def)
qed

lemma tool_gate_witness:
  "adds harmless demo_st (snd (executeSingleTool demo_env (RunAgentLoop demo_env) demo_lrt (demo_input True) ''m'' 0
     demo_request demo_st))"
  by (rule tool_gate [OF demo_not_cleared])

text \<open>C3. Every tool call of a turn is answered, by a tool message with its identifier and name, in the
  order of the calls, whether they run one after the other or concurrently under any schedule.\<close>

theorem every_call_answered:
  assumes "fair env"
  shows "list_all2 answers (map call_of tcs)
      (map trMessage (fst (executeToolsParallel env run lrt input mid it tcs s))) \<and>
    list_all2 answers (map call_of tcs)
      (map trMessage (fst (executeToolsSequential env run lrt input mid it tcs s)))"
  using executeToolsParallel_answers [OF assms] executeToolsSequential_answers by (metis prod.collapse)

lemma every_call_answered_witness:
  "list_all2 answers (map call_of [demo_request, demo_request])
      (map trMessage (fst (executeToolsParallel demo_env (RunAgentLoop demo_env) demo_lrt (demo_input True) ''m'' 0
        [demo_request, demo_request] demo_st)))"
  using every_call_answered [OF demo_fair] by blast



section \<open>Streaming\<close>

text \<open>C8. A streamed run is bracketed: its first event opens the run, its last one reports the end or the
  error, and in between no event opens or closes a run, sub-agents included.\<close>

theorem stream_bracketed:
  assumes "locBus lrt"
  shows "\<exists>runID threadID es final. trace (ExecuteStream env lrt c req s) =
      trace s @ Published (localChannelName runID) (EvRunStarted threadID runID) # es
        @ [Published (localChannelName runID) final] \<and> list_all inner es \<and>
      (\<exists>x. final = EvRunFinished threadID runID x \<or> final = EvRunError x)"
  using assms by (rule ExecuteStream_lifecycle)

lemma stream_bracketed_witness:
  "\<exists>runID threadID es final. trace (ExecuteStream demo_env demo_lrt (\<lambda>_. None)
      \<lparr>erUserPrompt = ''hello'', erConversationID = None, erStreamingEnabled = False, erSubAgents = [],
       erMaxSubAgentDepth = 0, erTools = [], erApprovalHandler = None\<rparr> demo_st) =
      trace demo_st @ Published (localChannelName runID) (EvRunStarted threadID runID) # es
        @ [Published (localChannelName runID) final] \<and> list_all inner es \<and>
      (\<exists>x. final = EvRunFinished threadID runID x \<or> final = EvRunError x)"
  by (rule stream_bracketed) (simp add: demo_lrt_def)

section \<open>Approvals\<close>

text \<open>C6. Approvals are sound in every interleaving: a status a call received was sent to its token, by
  \<open>Approve\<close> or by its handler; \<open>Approve\<close> succeeds at most once for a token and fails, without effect,
  once the call has returned.\<close>

theorem approvals_sound:
  assumes "ap_reach a"
  shows "(call a t = Some (Answered st) \<longrightarrow> (t, st) \<in> set (sent a)) \<and> distinct (accepted a) \<and>
    (t \<in> released a \<longrightarrow> (\<exists>e. Approve t st' a = (Some e, a)))"
  using ap_inv_reach [OF assms] released_Approve [OF assms, of t st'] by (auto simp: ap_inv_def prod_eq_iff)

definition demo_waiting :: Approvals where
  "demo_waiting = snd (Approve ''t'' ApprovalStatusApproved (register ''t'' no_approvals))"

definition demo_returned :: Approvals where
  "demo_returned = release ''t'' (receive ''t'' demo_waiting)"

lemma demo_waiting_reach: "ap_reach demo_waiting"
proof -
  have "ap_reach (register ''t'' no_approvals)"
    by (rule ap_reach.Step [OF ap_reach.Init Register]) (simp add: no_approvals_def)
  then show ?thesis unfolding demo_waiting_def
    by (rule ap_reach.Step) (rule ApproveStep [OF prod.collapse [symmetric]])
qed

lemma demo_waiting_state:
  "call demo_waiting ''t'' = Some Waiting" "buffer demo_waiting ''t'' = [ApprovalStatusApproved]"
  "sent demo_waiting = [(''t'', ApprovalStatusApproved)]" "blocked demo_waiting = []"
  by (simp_all add: demo_waiting_def Approve_def register_def no_approvals_def send_def Let_def)

lemma demo_returned_reach: "ap_reach demo_returned"
proof -
  have r: "ap_reach (receive ''t'' demo_waiting)"
    by (rule ap_reach.Step [OF demo_waiting_reach Receive]) (simp_all add: demo_waiting_state)
  have "call (receive ''t'' demo_waiting) ''t'' = Some (Answered ApprovalStatusApproved)"
    by (simp add: receive_def demo_waiting_state)
  then show ?thesis unfolding demo_returned_def by (rule ap_reach.Step [OF r Return]) (rule call_state.distinct)
qed

lemma approvals_sound_witness:
  "(''t'', ApprovalStatusApproved) \<in> set (sent demo_returned) \<and>
   (\<exists>e. Approve ''t'' ApprovalStatusRejected demo_returned = (Some e, demo_returned))"
proof -
  have "call demo_returned ''t'' = Some (Answered ApprovalStatusApproved)" "''t'' \<in> released demo_returned"
    by (simp_all add: demo_returned_def release_def receive_def demo_waiting_state)
  then show ?thesis
    using approvals_sound [OF demo_returned_reach, of "''t''" ApprovalStatusApproved ApprovalStatusRejected] by blast
qed



end
