(* ===== verification/TemporalTypes.thy ===== *)
theory TemporalTypes
  imports LocalLoop
begin

text \<open>
  The Temporal runtime (\<open>internal/runtime/temporal\<close>): its data, the fingerprint that ties a caller to its
  workers (\<open>fingerprint.go\<close>), and how the service runs an activity.

  Temporal itself is a parameter.  What the code relies on is its documented contract: an activity is
  attempted until it succeeds, at most as often as its retry policy says; an attempt whose worker or
  result is lost may or may not have had its effects; a cancelled activity is not retried; errors reach
  the workflow wrapped.  \<open>fate\<close> decides what happens to each attempt.
\<close>

section \<open>Fingerprints\<close>

record AgentFingerprintPayload =
  fpVersion :: int
  fpName :: string
  fpDescription :: string
  fpSystemPrompt :: string
  fpResponseFormat :: "ResponseFormat option"
  fpToolNames :: "string list"
  fpPolicy :: string
  fpMCP :: string
  fpA2A :: string
  fpObservability :: string
  fpAgentMode :: string
  fpToolExecutionMode :: string
  fpRetriever :: string
  fpHooks :: string
  fpSampling :: "LLMSampling option"
  fpSessionSize :: int
  fpMaxIterations :: int
  fpTimeoutNs :: int
  fpApprovalTimeoutNs :: int

text \<open>The order of \<open>sort.Strings\<close>: byte-wise.\<close>

fun bytes_le :: "string \<Rightarrow> string \<Rightarrow> bool" where
  "bytes_le [] t \<longleftrightarrow> True"
| "bytes_le (c # s) [] \<longleftrightarrow> False"
| "bytes_le (c # s) (d # t) \<longleftrightarrow>
     (of_char c :: nat) < of_char d \<or> c = d \<and> bytes_le s t"

fun insert_string :: "string \<Rightarrow> string list \<Rightarrow> string list" where
  "insert_string x [] = [x]"
| "insert_string x (y # ys) = (if bytes_le x y then x # y # ys else y # insert_string x ys)"

definition sort_strings :: "string list \<Rightarrow> string list" where
  "sort_strings xs = foldr insert_string xs []"

definition modeText :: "ToolExecutionMode \<Rightarrow> string" where
  "modeText m = (case m of ModeParallel \<Rightarrow> ''parallel'' | ModeSequential \<Rightarrow> ''sequential'' | ModeEmpty \<Rightarrow> [] | ModeOther s \<Rightarrow> s)"

section \<open>The runtime\<close>

record 'w TemporalRuntime =
  tmpBase :: "'w Runtime"
  taskQueue :: string
  tmpBus :: bool
  tmpDescription :: string
  tmpTimeoutNs :: int
  tmpApprovalTimeoutNs :: int
  policyFingerprint :: string
  mcpFingerprint :: string
  a2aFingerprint :: string
  observabilityFingerprint :: string
  agentMode :: string
  retrieverFingerprint :: string
  hooksFingerprint :: string
  disableFingerprintCheck :: bool
  resolveToolsFn :: "('w \<Rightarrow> (goerr + 'w Tool list) \<times> 'w) option"

definition ToolNamesFromTools :: "'w Tool list \<Rightarrow> string list" where
  "ToolNamesFromTools tools = sort_strings (map tName tools)"

definition BuildAgentFingerprintPayload :: "'w TemporalRuntime \<Rightarrow> string list \<Rightarrow> AgentFingerprintPayload" where
  "BuildAgentFingerprintPayload trt toolNames =
     (let rt = tmpBase trt in
      \<lparr>fpVersion = 0, fpName = rtName rt, fpDescription = tmpDescription trt, fpSystemPrompt = rtSystemPrompt rt,
       fpResponseFormat = rtResponseFormat rt, fpToolNames = sort_strings toolNames,
       fpPolicy = policyFingerprint trt, fpMCP = mcpFingerprint trt, fpA2A = a2aFingerprint trt,
       fpObservability = observabilityFingerprint trt,
       fpAgentMode = (if agentMode trt = [] then ''interactive'' else agentMode trt),
       fpToolExecutionMode = (if rtToolMode rt = ModeEmpty then ''parallel'' else modeText (rtToolMode rt)),
       fpRetriever = retrieverFingerprint trt, fpHooks = hooksFingerprint trt, fpSampling = rtSampling rt,
       fpSessionSize = rtConversationSize rt, fpMaxIterations = rtMaxIterations rt,
       fpTimeoutNs = tmpTimeoutNs trt, fpApprovalTimeoutNs = tmpApprovalTimeoutNs trt\<rparr>)"

definition agentFingerprintVersion :: int where "agentFingerprintVersion = 1"

text \<open>\<open>digest\<close> is the hex form of the SHA-256 hash of the JSON encoding; a payload JSON cannot encode has
  the empty digest.\<close>

definition ComputeAgentFingerprint :: "(AgentFingerprintPayload \<Rightarrow> string option) \<Rightarrow> AgentFingerprintPayload \<Rightarrow> string" where
  "ComputeAgentFingerprint digest m =
     (case digest (m\<lparr>fpVersion := agentFingerprintVersion, fpToolNames := sort_strings (fpToolNames m)\<rparr>) of
        None \<Rightarrow> [] | Some h \<Rightarrow> h)"

section \<open>Inputs\<close>

datatype SubAgentRoute =
  TRoute (trName: string) (trTaskQueue: string) (trChildRoutes: "(string \<times> SubAgentRoute) list")
    (trFingerprint: string)

record AgentWorkflowState =
  wsIteration :: int
  wsMessages :: "Message list"
  wsUsage :: "LLMUsage option"
  wsTelemetry :: "AgentTelemetry option"

record AgentWorkflowInput =
  wiUserPrompt :: string
  wiEventWorkflowID :: string
  wiEventTaskQueue :: string
  wiLocalChannelName :: string
  wiStreamingEnabled :: bool
  wiConversationID :: string
  wiFingerprint :: string
  wiRunID :: string
  wiMemoryScope :: MemoryScope
  wiEventTypes :: "string list"
  wiSubAgentDepth :: int
  wiSubAgentRoutes :: "(string \<times> SubAgentRoute) list"
  wiMaxSubAgentDepth :: int
  wiState :: "AgentWorkflowState option"

record AgentLLMInput =
  aliConversationID :: string
  aliMessages :: "Message list"
  aliSkipTools :: bool
  aliFingerprint :: string
  aliMessageID :: string
  aliEventWorkflowID :: string
  aliEventTaskQueue :: string
  aliLocalChannelName :: string
  aliMemoryContext :: string
  aliRetrieverContext :: string
  aliRunID :: string
  aliIteration :: int

section \<open>The service\<close>

datatype fate = Completes | LostBefore goerr | LostAfter goerr | Aborted goerr

text \<open>\<open>fate\<close> decides about an attempt, \<open>act_error\<close> wraps an error on its way to the workflow; \<open>history_full\<close>
  is whether the history crossed the bounds for continue-as-new; \<open>update_events\<close> and \<open>bus_publish\<close> deliver an
  event to the event workflow and to the bus; \<open>worker_of\<close> is the runtime that polls a task queue.\<close>

record 'w TEnv =
  teEnv :: "'w Env"
  fate :: "'w \<Rightarrow> fate \<times> 'w"
  act_error :: "goerr \<Rightarrow> goerr"
  is_canceled :: "goerr \<Rightarrow> bool"
  history_full :: "'w \<Rightarrow> bool \<times> 'w"
  update_events :: "string \<Rightarrow> string \<Rightarrow> string \<Rightarrow> AgentEvent \<Rightarrow> 'w \<Rightarrow> goerr option \<times> 'w"
  bus_publish :: "string \<Rightarrow> AgentEvent \<Rightarrow> 'w \<Rightarrow> goerr option \<times> 'w"
  task_token :: "'w \<Rightarrow> string \<times> 'w"
  fp_digest :: "AgentFingerprintPayload \<Rightarrow> string option"
  worker_of :: "string \<Rightarrow> 'w TemporalRuntime option"

text \<open>Running an activity: attempts as the retry policy allows.\<close>

fun run_attempts :: "'w TEnv \<Rightarrow> nat \<Rightarrow> ('w st \<Rightarrow> (goerr + 'r) \<times> 'w st) \<Rightarrow> goerr \<Rightarrow> 'w st \<Rightarrow> (goerr + 'r) \<times> 'w st" where
  "run_attempts te 0 act err s = (Inl (act_error te err), s)"
| "run_attempts te (Suc k) act err s =
     (case ext (fate te) s of
        (Aborted e, s1) \<Rightarrow> (Inl e, s1)
      | (LostBefore e, s1) \<Rightarrow> run_attempts te k act e s1
      | (LostAfter e, s1) \<Rightarrow> run_attempts te k act e (snd (act s1))
      | (Completes, s1) \<Rightarrow>
          (case act s1 of
             (Inr r, s2) \<Rightarrow> (Inr r, s2)
           | (Inl e, s2) \<Rightarrow> run_attempts te k act e s2))"

definition ExecuteActivity :: "'w TEnv \<Rightarrow> nat \<Rightarrow> ('w st \<Rightarrow> (goerr + 'r) \<times> 'w st) \<Rightarrow> 'w st \<Rightarrow> (goerr + 'r) \<times> 'w st" where
  "ExecuteActivity te attempts act s = run_attempts te attempts act (new_error ''activity not attempted'') s"

definition agentLLMActivityMaxAttempts :: nat where "agentLLMActivityMaxAttempts = 3"
definition agentToolApprovalActivityMaxAttempts :: nat where "agentToolApprovalActivityMaxAttempts = 1"
definition agentToolAuthorizeActivityMaxAttempts :: nat where "agentToolAuthorizeActivityMaxAttempts = 1"
definition agentToolExecuteActivityMaxAttempts :: nat where "agentToolExecuteActivityMaxAttempts = 3"
definition agentRetrieverActivityMaxAttempts :: nat where "agentRetrieverActivityMaxAttempts = 3"
definition sendEventActivityMaxAttempts :: nat where "sendEventActivityMaxAttempts = 1"
definition conversationActivityMaxAttempts :: nat where "conversationActivityMaxAttempts = 1"

lemmas max_attempts = agentLLMActivityMaxAttempts_def agentToolApprovalActivityMaxAttempts_def
  agentToolAuthorizeActivityMaxAttempts_def agentToolExecuteActivityMaxAttempts_def
  agentRetrieverActivityMaxAttempts_def sendEventActivityMaxAttempts_def conversationActivityMaxAttempts_def

section \<open>Sequencing\<close>

text \<open>\<open>if err \<noteq> nil \<close> with an early return.\<close>

definition on_ok :: "(goerr + 'a) \<times> 's \<Rightarrow> ('a \<Rightarrow> 's \<Rightarrow> (goerr + 'b) \<times> 's) \<Rightarrow> (goerr + 'b) \<times> 's" where
  "on_ok r k = (case r of (Inl e, s) \<Rightarrow> (Inl e, s) | (Inr a, s) \<Rightarrow> k a s)"

lemma on_ok_simps [simp]:
  "on_ok (Inl e, s) k = (Inl e, s)" "on_ok (Inr a, s) k = k a s"
  by (simp_all add: on_ok_def)

lemma on_ok_Inr: "on_ok r k = (Inr b, s') \<Longrightarrow> (\<And>a s. r = (Inr a, s) \<Longrightarrow> k a s = (Inr b, s') \<Longrightarrow> thesis) \<Longrightarrow> thesis"
  by (cases r; cases "fst r") auto

section \<open>Tools and fingerprints at activity time\<close>

definition fetchTools :: "'w TemporalRuntime \<Rightarrow> 'w st \<Rightarrow> (goerr + 'w Tool list) \<times> 'w st" where
  "fetchTools trt s =
     (case resolveToolsFn trt of
        None \<Rightarrow> (Inl (new_error ''temporal: tools resolver is not configured''), s)
      | Some resolve \<Rightarrow> ext resolve s)"

definition computeAgentFingerprintFromRuntime :: "'w TEnv \<Rightarrow> 'w TemporalRuntime \<Rightarrow> 'w Tool list \<Rightarrow> string" where
  "computeAgentFingerprintFromRuntime te trt tools =
     ComputeAgentFingerprint (fp_digest te) (BuildAgentFingerprintPayload trt (ToolNamesFromTools tools))"

text \<open>\<open>None\<close> is a nil slice; the activities that resolved tools before pass them.\<close>

definition verifyAgentFingerprint :: "'w TEnv \<Rightarrow> 'w TemporalRuntime \<Rightarrow> string \<Rightarrow> 'w Tool list option \<Rightarrow> 'w st
    \<Rightarrow> (goerr + unit) \<times> 'w st" where
  "verifyAgentFingerprint te trt callerFingerprint tools s =
     (if disableFingerprintCheck trt \<or> callerFingerprint = [] then (Inr (), s)
      else on_ok (case tools of None \<Rightarrow> fetchTools trt s | Some ts \<Rightarrow> (Inr ts, s)) (\<lambda>ts s1.
        (let got = computeAgentFingerprintFromRuntime te trt ts in
         if got \<noteq> callerFingerprint then
           (Inl (new_error (''temporal: agent fingerprint mismatch (caller vs worker); redeploy worker or align config/registries or retry run: worker='' @ go_quote got @ '' caller='' @ go_quote callerFingerprint)), s1)
         else (Inr (), s1))))"

end
