(* ===== verification/TemporalActivities.thy ===== *)
theory TemporalActivities
  imports TemporalTypes
begin

text \<open>
  The activities of the agent workflow (\<open>internal/runtime/temporal/agent_workflow.go\<close>): what runs on a
  worker, outside the deterministic workflow.  Heartbeats, log lines and spans are left out.  The service
  recovers a panic of an activity and reports it as an error, and fails one that outlives its timeout.
\<close>

section \<open>Events\<close>

definition event_type :: "AgentEvent \<Rightarrow> string" where
  "event_type ev =
     (case ev of
        EvRunStarted _ _ \<Rightarrow> ''RUN_STARTED'' | EvRunFinished _ _ _ \<Rightarrow> ''RUN_FINISHED'' | EvRunError _ \<Rightarrow> ''RUN_ERROR''
      | EvStepStarted _ \<Rightarrow> ''STEP_STARTED'' | EvStepFinished _ \<Rightarrow> ''STEP_FINISHED''
      | EvTextMessageStart _ _ \<Rightarrow> ''TEXT_MESSAGE_START'' | EvTextMessageContent _ _ \<Rightarrow> ''TEXT_MESSAGE_CONTENT''
      | EvTextMessageEnd _ \<Rightarrow> ''TEXT_MESSAGE_END''
      | EvReasoningStart _ \<Rightarrow> ''REASONING_START'' | EvReasoningMessageStart _ _ \<Rightarrow> ''REASONING_MESSAGE_START''
      | EvReasoningMessageContent _ _ \<Rightarrow> ''REASONING_MESSAGE_CONTENT''
      | EvReasoningMessageEnd _ \<Rightarrow> ''REASONING_MESSAGE_END'' | EvReasoningEnd _ \<Rightarrow> ''REASONING_END''
      | EvToolCallStart _ _ _ \<Rightarrow> ''TOOL_CALL_START'' | EvToolCallArgs _ _ \<Rightarrow> ''TOOL_CALL_ARGS''
      | EvToolCallEnd _ \<Rightarrow> ''TOOL_CALL_END'' | EvToolCallResult _ _ _ \<Rightarrow> ''TOOL_CALL_RESULT''
      | EvCustom _ _ \<Rightarrow> ''CUSTOM'')"

definition AgentEventAll :: string where "AgentEventAll = ''*''"

text \<open>A delivery that succeeded is logged as published.\<close>

definition delivered :: "string \<Rightarrow> AgentEvent \<Rightarrow> goerr option \<times> 'w st \<Rightarrow> goerr option \<times> 'w st" where
  "delivered ch ev r = (case r of (None, s) \<Rightarrow> (None, logged (Published ch ev) s) | (Some e, s) \<Rightarrow> (Some e, s))"

definition sendAgentEventWorkflowUpdate :: "'w TEnv \<Rightarrow> string \<Rightarrow> string \<Rightarrow> string \<Rightarrow> AgentEvent \<Rightarrow> 'w st
    \<Rightarrow> goerr option \<times> 'w st" where
  "sendAgentEventWorkflowUpdate te eventWorkflowID eventTaskQueue ch ev s =
     delivered ch ev (ext (update_events te eventWorkflowID eventTaskQueue ch ev) s)"

definition bus_deliver :: "'w TEnv \<Rightarrow> string \<Rightarrow> AgentEvent \<Rightarrow> 'w st \<Rightarrow> goerr option \<times> 'w st" where
  "bus_deliver te ch ev s = delivered ch ev (ext (bus_publish te ch ev) s)"

text \<open>The result is \<open>StreamUnavailable\<close>.\<close>

definition SendAgentEventUpdateActivity :: "'w TEnv \<Rightarrow> 'w TemporalRuntime \<Rightarrow> AgentWorkflowInput \<Rightarrow> AgentEvent \<Rightarrow> 'w st
    \<Rightarrow> (goerr + bool) \<times> 'w st" where
  "SendAgentEventUpdateActivity te trt win ev s =
     (if wiEventWorkflowID win \<noteq> [] then
        (case sendAgentEventWorkflowUpdate te (wiEventWorkflowID win) (wiEventTaskQueue win) (wiLocalChannelName win) ev s of
           (Some _, s1) \<Rightarrow> (Inr True, s1) | (None, s1) \<Rightarrow> (Inr False, s1))
      else if \<not> tmpBus trt then (Inl (new_error ''agentChannel required when eventWorkflowID is empty''), s)
      else (case bus_deliver te (wiLocalChannelName win) ev s of
              (Some _, s1) \<Rightarrow> (Inr True, s1) | (None, s1) \<Rightarrow> (Inr False, s1)))"

definition publishAgentEventToStream :: "'w TEnv \<Rightarrow> 'w TemporalRuntime \<Rightarrow> AgentLLMInput \<Rightarrow> AgentEvent \<Rightarrow> 'w st \<Rightarrow> 'w st" where
  "publishAgentEventToStream te trt ali ev s =
     (if trim_space (aliLocalChannelName ali) = [] then s
      else if aliEventWorkflowID ali \<noteq> [] then
        snd (sendAgentEventWorkflowUpdate te (aliEventWorkflowID ali) (aliEventTaskQueue ali) (aliLocalChannelName ali) ev s)
      else if tmpBus trt then snd (bus_deliver te (aliLocalChannelName ali) ev s)
      else s)"

section \<open>Model, retrievers and memory\<close>

definition temporal_conversation_enabled :: "'w TemporalRuntime \<Rightarrow> string \<Rightarrow> bool" where
  "temporal_conversation_enabled trt conversationID \<longleftrightarrow>
     conversationID \<noteq> [] \<and> rtConversation (tmpBase trt) \<noteq> None"

text \<open>\<open>AgentLLMActivity\<close> and \<open>AgentLLMStreamActivity\<close> differ in the call of the base runtime only.\<close>

definition llm_activity :: "bool \<Rightarrow> 'w TEnv \<Rightarrow> 'w TemporalRuntime \<Rightarrow> AgentLLMInput \<Rightarrow> 'w st \<Rightarrow> (goerr + LLMResult) \<times> 'w st" where
  "llm_activity streaming te trt ali s =
     on_ok (fetchTools trt s) (\<lambda>tools s1.
     on_ok (verifyAgentFingerprint te trt (aliFingerprint ali) (Some tools) s1) (\<lambda>_ s2.
     on_ok (if temporal_conversation_enabled trt (aliConversationID ali)
            then FetchConversationMessages (tmpBase trt) (aliConversationID ali) s2 else (Inr [], s2)) (\<lambda>conv s3.
     (let li = \<lparr>liMessageID = aliMessageID ali, liRunID = aliRunID ali, liIteration = aliIteration ali,
                liMessages = conv @ aliMessages ali, liSkipTools = aliSkipTools ali,
                liMemoryContext = aliMemoryContext ali, liRetrieverContext = aliRetrieverContext ali,
                liTools = tools, liEmit = publishAgentEventToStream te trt ali\<rparr>
      in if streaming then ExecuteLLMStream (teEnv te) (tmpBase trt) li s3
         else ExecuteLLM (tmpBase trt) li s3))))"

definition AgentLLMActivity :: "'w TEnv \<Rightarrow> 'w TemporalRuntime \<Rightarrow> AgentLLMInput \<Rightarrow> 'w st \<Rightarrow> (goerr + LLMResult) \<times> 'w st" where
  "AgentLLMActivity = llm_activity False"

definition AgentLLMStreamActivity :: "'w TEnv \<Rightarrow> 'w TemporalRuntime \<Rightarrow> AgentLLMInput \<Rightarrow> 'w st \<Rightarrow> (goerr + LLMResult) \<times> 'w st" where
  "AgentLLMStreamActivity = llm_activity True"

definition AgentRetrieverActivity :: "'w TEnv \<Rightarrow> 'w TemporalRuntime \<Rightarrow> AgentWorkflowInput \<Rightarrow> 'w st
    \<Rightarrow> (goerr + RetrieverResult) \<times> 'w st" where
  "AgentRetrieverActivity te trt win s =
     on_ok (verifyAgentFingerprint te trt (wiFingerprint win) None s) (\<lambda>_ s1.
       ExecuteRetrievers (teEnv te) (tmpBase trt) (wiRunID win) 0 (wiUserPrompt win) s1)"

definition AgentMemoryRecallActivity :: "'w TEnv \<Rightarrow> 'w TemporalRuntime \<Rightarrow> AgentWorkflowInput \<Rightarrow> 'w st
    \<Rightarrow> (goerr + MemoryResult) \<times> 'w st" where
  "AgentMemoryRecallActivity te trt win s =
     on_ok (verifyAgentFingerprint te trt (wiFingerprint win) None s) (\<lambda>_ s1.
       ExecuteMemoryRecall (tmpBase trt) (wiRunID win) 0 (wiMemoryScope win) (wiUserPrompt win) s1)"

definition AgentMemoryStoreActivity :: "'w TEnv \<Rightarrow> 'w TemporalRuntime \<Rightarrow> AgentWorkflowInput \<Rightarrow> Message list \<Rightarrow> 'w st
    \<Rightarrow> (goerr + unit) \<times> 'w st" where
  "AgentMemoryStoreActivity te trt win messages s =
     on_ok (verifyAgentFingerprint te trt (wiFingerprint win) None s) (\<lambda>_ s1.
       (case ExecuteMemoryStore (teEnv te) (tmpBase trt) (wiRunID win) 0 (wiMemoryScope win) messages s1 of
          (Some e, s2) \<Rightarrow> (Inl e, s2) | (None, s2) \<Rightarrow> (Inr (), s2)))"

section \<open>Tools\<close>

definition AgentToolAuthorizeActivity :: "'w TEnv \<Rightarrow> 'w TemporalRuntime \<Rightarrow> AgentWorkflowInput \<Rightarrow> ToolCallRequest \<Rightarrow> 'w st
    \<Rightarrow> (goerr + AuthorizeResult) \<times> 'w st" where
  "AgentToolAuthorizeActivity te trt win tc s =
     on_ok (fetchTools trt s) (\<lambda>tools s1.
     on_ok (verifyAgentFingerprint te trt (wiFingerprint win) (Some tools) s1) (\<lambda>_ s2.
       AuthorizeTool tools (tcrName tc) (tcrArgs tc) s2))"

definition panic_error :: goerr where "panic_error = new_error ''activity panicked''"

definition AgentToolExecuteActivity :: "'w TEnv \<Rightarrow> 'w TemporalRuntime \<Rightarrow> AgentWorkflowInput \<Rightarrow> int \<Rightarrow> ToolCallRequest
    \<Rightarrow> 'w st \<Rightarrow> (goerr + string) \<times> 'w st" where
  "AgentToolExecuteActivity te trt win iteration tc s =
     on_ok (fetchTools trt s) (\<lambda>tools s1.
     on_ok (verifyAgentFingerprint te trt (wiFingerprint win) (Some tools) s1) (\<lambda>_ s2.
       (case ExecuteTool (teEnv te) (tmpBase trt)
               \<lparr>tiTools = tools, tiToolName = tcrName tc, tiArgs = tcrArgs tc, tiToolCallID = tcrID tc,
                tiRunID = wiRunID win, tiIteration = iteration\<rparr> (wiMemoryScope win) s2 of
          (Returned r, s3) \<Rightarrow> (r, s3)
        | (Panicked, s3) \<Rightarrow> (Inl panic_error, s3)
        | (Hangs, s3) \<Rightarrow> (Inl deadline_error, s3))))"

text \<open>The approval activity publishes the request and stays pending until somebody completes it with the
  task token; the status it ends with is read with \<open>await_status\<close>.  A custom event JSON cannot encode ends
  the activity on the bus; on the way to the event workflow its payload is empty.\<close>

definition approval_value :: "'w TemporalRuntime \<Rightarrow> ToolCallRequest \<Rightarrow> string \<Rightarrow> string \<Rightarrow> goany" where
  "approval_value trt tc subAgentName token =
     (if subAgentName = [] then
        VMap (omitempty ''agentName'' (rtName (tmpBase trt)) @ omitempty ''toolCallId'' (tcrID tc)
              @ [(''toolName'', VString (tcrName tc))] @ omitempty ''toolDisplayName'' (tcrDisplayName tc)
              @ omitempty_args (tcrArgs tc) @ omitempty ''approvalToken'' token)
      else
        VMap (omitempty ''agentName'' (rtName (tmpBase trt)) @ omitempty ''subAgentName'' subAgentName
              @ omitempty_args (tcrArgs tc) @ omitempty ''approvalToken'' token))"

definition temporal_approval_event :: "'w TemporalRuntime \<Rightarrow> ToolCallRequest \<Rightarrow> string \<Rightarrow> string \<Rightarrow> AgentEvent" where
  "temporal_approval_event trt tc subAgentName token =
     EvCustom (if subAgentName = [] then ''tool_approval'' else ''sub_agent_delegation'')
       (approval_value trt tc subAgentName token)"

definition AgentToolApprovalActivity :: "'w TEnv \<Rightarrow> 'w TemporalRuntime \<Rightarrow> AgentWorkflowInput \<Rightarrow> ToolCallRequest \<Rightarrow> string
    \<Rightarrow> 'w st \<Rightarrow> (goerr + ApprovalStatus) \<times> 'w st" where
  "AgentToolApprovalActivity te trt win tc subAgentName s =
     on_ok (verifyAgentFingerprint te trt (wiFingerprint win) None s) (\<lambda>_ s1.
       (let (token, s2) = ext (task_token te) s1;
            ev = temporal_approval_event trt tc subAgentName token;
            wait = (\<lambda>s3. ext (await_status (teEnv te) token) s3)
        in if wiEventWorkflowID win \<noteq> [] then
             (case sendAgentEventWorkflowUpdate te (wiEventWorkflowID win) (wiEventTaskQueue win)
                     (wiLocalChannelName win) ev s2 of
                (Some _, s3) \<Rightarrow> (Inr ApprovalStatusUnavailable, s3) | (None, s3) \<Rightarrow> wait s3)
           else if \<not> tmpBus trt then (Inl (new_error ''agentChannel required when eventWorkflowID is empty''), s2)
           else if \<not> encodable (teEnv te) ev then (Inl (new_error ''json: unsupported value''), s2)
           else (case bus_deliver te (wiLocalChannelName win) ev s2 of
                   (Some _, s3) \<Rightarrow> (Inr ApprovalStatusUnavailable, s3) | (None, s3) \<Rightarrow> wait s3)))"

section \<open>The conversation\<close>

text \<open>A message the store refuses is skipped.\<close>

definition AddConversationMessagesActivity :: "'w TEnv \<Rightarrow> 'w TemporalRuntime \<Rightarrow> AgentWorkflowInput \<Rightarrow> Message list \<Rightarrow> 'w st
    \<Rightarrow> (goerr + unit) \<times> 'w st" where
  "AddConversationMessagesActivity te trt win messages s =
     on_ok (verifyAgentFingerprint te trt (wiFingerprint win) None s) (\<lambda>_ s1.
       (case rtConversation (tmpBase trt) of
          None \<Rightarrow> (Inl (new_error ''conversation is not configured''), s1)
        | Some conv \<Rightarrow> (Inr (), foldl (\<lambda>s m. add_message conv (wiConversationID win) m s) s1 messages)))"

end
