(* ===== verification/TemporalLoop.thy ===== *)
theory TemporalLoop
  imports TemporalActivities
begin

text \<open>
  The agent workflow (\<open>internal/runtime/temporal/agent_workflow.go\<close>): the loop over activities, the life of a
  tool call, delegation to child workflows, and continuing as new.  Coroutines of the workflow run as
  steps in an order the scheduler chooses.
\<close>

section \<open>The state of a workflow\<close>

text \<open>The outside, and the variable \<open>streamingUnavailable\<close> that the coroutines share.\<close>

record 'w wf =
  wfSt :: "'w st"
  streamingUnavailable :: bool

definition on_st :: "('w st \<Rightarrow> 'r \<times> 'w st) \<Rightarrow> 'w wf \<Rightarrow> 'r \<times> 'w wf" where
  "on_st f w = (let (r, s) = f (wfSt w) in (r, w\<lparr>wfSt := s\<rparr>))"

type_synonym 'w child_run = "'w TemporalRuntime \<Rightarrow> AgentWorkflowInput \<Rightarrow> 'w st \<Rightarrow> (goerr + AgentRunResult) \<times> 'w st"

definition event_wanted :: "string list \<Rightarrow> AgentEvent \<Rightarrow> bool" where
  "event_wanted eventTypes ev \<longleftrightarrow> (\<exists>et \<in> set eventTypes. et = AgentEventAll \<or> et = event_type ev)"

definition emitAgentEvent :: "'w TEnv \<Rightarrow> 'w TemporalRuntime \<Rightarrow> AgentWorkflowInput \<Rightarrow> AgentEvent \<Rightarrow> 'w wf
    \<Rightarrow> (goerr + unit) \<times> 'w wf" where
  "emitAgentEvent te trt win ev w =
     (if wiEventTypes win = [] \<or> streamingUnavailable w \<or> \<not> event_wanted (wiEventTypes win) ev then (Inr (), w)
      else on_ok (on_st (ExecuteActivity te sendEventActivityMaxAttempts (SendAgentEventUpdateActivity te trt win ev)) w)
             (\<lambda>unavailable w1. (Inr (), if unavailable then w1\<lparr>streamingUnavailable := True\<rparr> else w1)))"

section \<open>Delegation\<close>

text \<open>A child workflow runs on the worker of its task queue; without one it times out.\<close>

definition ExecuteChildWorkflow :: "'w TEnv \<Rightarrow> 'w child_run \<Rightarrow> string \<Rightarrow> AgentWorkflowInput \<Rightarrow> 'w st
    \<Rightarrow> (goerr + AgentRunResult) \<times> 'w st" where
  "ExecuteChildWorkflow te run queue win s =
     (case worker_of te queue of
        None \<Rightarrow> (Inl (act_error te (new_error ''child workflow timed out'')), s)
      | Some sub \<Rightarrow>
          (case ext (fate te) s of
             (Aborted e, s1) \<Rightarrow> (Inl e, s1)
           | (LostBefore e, s1) \<Rightarrow> (Inl (act_error te e), s1)
           | (LostAfter e, s1) \<Rightarrow> (Inl (act_error te e), snd (run sub win s1))
           | (Completes, s1) \<Rightarrow>
               (case run sub win s1 of
                  (Inl e, s2) \<Rightarrow> (Inl (act_error te e), s2) | (Inr r, s2) \<Rightarrow> (Inr r, s2))))"

text \<open>The maximal depth is not handed on.\<close>

definition childInput :: "AgentWorkflowInput \<Rightarrow> ToolCallRequest \<Rightarrow> SubAgentRoute \<Rightarrow> string \<Rightarrow> AgentWorkflowInput" where
  "childInput win tc route childSuffix =
     \<lparr>wiUserPrompt = SubAgentQuery (tcrArgs tc), wiEventWorkflowID = wiEventWorkflowID win,
      wiEventTaskQueue = wiEventTaskQueue win, wiLocalChannelName = wiLocalChannelName win,
      wiStreamingEnabled = wiStreamingEnabled win, wiConversationID = [], wiFingerprint = trFingerprint route,
      wiRunID = childSuffix,
      wiMemoryScope = SubAgentScope (wiMemoryScope win)
        (if trim_space (trName route) = [] then tcrName tc else trim_space (trName route)),
      wiEventTypes = wiEventTypes win, wiSubAgentDepth = wiSubAgentDepth win + 1,
      wiSubAgentRoutes = trChildRoutes route, wiMaxSubAgentDepth = 0, wiState = None\<rparr>"

definition delegateToSubAgent :: "'w TEnv \<Rightarrow> 'w child_run \<Rightarrow> 'w TemporalRuntime \<Rightarrow> AgentWorkflowInput \<Rightarrow> ToolCallRequest
    \<Rightarrow> SubAgentRoute \<Rightarrow> 'w wf \<Rightarrow> (goerr + string) \<times> 'w wf" where
  "delegateToSubAgent te run trt win tc route w =
     (if trim_space (trTaskQueue route) = [] then
        (Inr ''Sub-agent delegation failed: sub-agent task queue is not configured.'', w)
      else if wiSubAgentDepth win \<ge> wiMaxSubAgentDepth win then
        (Inr (''Sub-agent delegation refused: maximum nesting depth ('' @ int_to_str (wiMaxSubAgentDepth win)
              @ '') reached for this agent.''), w)
      else
        (let (childSuffix, w1) = on_st (ext (uuid (teEnv te))) w;
             stepName = (if trim_space (trName route) = [] then tcrName tc else trim_space (trName route))
         in on_ok (emitAgentEvent te trt win (EvStepStarted stepName) w1) (\<lambda>_ w2.
              (case on_st (ExecuteChildWorkflow te run (trTaskQueue route) (childInput win tc route childSuffix)) w2 of
                 (Inl e, w3) \<Rightarrow> (Inr (''Sub-agent workflow failed: '' @ err_msg e), w3)
               | (Inr r, w3) \<Rightarrow>
                   on_ok (emitAgentEvent te trt win (EvStepFinished stepName) w3) (\<lambda>_ w4. (Inr (arrContent r), w4))))))"

section \<open>One tool call\<close>

record agentToolCallOutput =
  toMsg :: Message
  toFailed :: bool
  toStreamingUnavailable :: bool

definition msgToolApprovalUnavailable :: string where
  "msgToolApprovalUnavailable =
     ''Tool approval could not be completed because the event stream is unavailable; continuing without running the tool.''"

definition wf_announce :: "'w TEnv \<Rightarrow> 'w TemporalRuntime \<Rightarrow> AgentWorkflowInput \<Rightarrow> string \<Rightarrow> ToolCallRequest \<Rightarrow> 'w wf
    \<Rightarrow> (goerr + unit) \<times> 'w wf" where
  "wf_announce te trt win messageID tc w =
     on_ok (emitAgentEvent te trt win (EvToolCallStart (tcrID tc) (tcrName tc) messageID) w) (\<lambda>_ w1.
       (case json (teEnv te) (args_value (tcrArgs tc)) of
          None \<Rightarrow> (Inr (), w1)
        | Some j \<Rightarrow>
            (let a = trim_space j in
             if a \<noteq> [] \<and> a \<noteq> ''null'' \<and> a \<noteq> ''{}'' then emitAgentEvent te trt win (EvToolCallArgs (tcrID tc) a) w1
             else (Inr (), w1))))"

definition wf_end_result :: "'w TEnv \<Rightarrow> 'w TemporalRuntime \<Rightarrow> AgentWorkflowInput \<Rightarrow> string \<Rightarrow> string \<Rightarrow> string \<Rightarrow> 'w wf
    \<Rightarrow> (goerr + unit) \<times> 'w wf" where
  "wf_end_result te trt win messageID toolCallID content w =
     on_ok (emitAgentEvent te trt win (EvToolCallEnd toolCallID) w) (\<lambda>_ w1.
       emitAgentEvent te trt win (EvToolCallResult messageID toolCallID content) w1)"

text \<open>The approval gate; \<open>off\<close> is the value of \<open>streamingUnavailable\<close> when the call started.\<close>

definition wf_approval :: "'w TEnv \<Rightarrow> 'w TemporalRuntime \<Rightarrow> AgentWorkflowInput \<Rightarrow> ToolCallRequest \<Rightarrow> bool \<Rightarrow> 'w wf
    \<Rightarrow> (goerr + ApprovalStatus \<times> bool) \<times> 'w wf" where
  "wf_approval te trt win tc off w =
     (if \<not> tcrNeedsApproval tc then (Inr (ApprovalStatusApproved, False), w)
      else if off then (Inr (ApprovalStatusUnavailable, False), w)
      else
        (let subAgentName = (case map_of (wiSubAgentRoutes win) (tcrName tc) of None \<Rightarrow> [] | Some route \<Rightarrow> trName route) in
         on_ok (on_st (ExecuteActivity te agentToolApprovalActivityMaxAttempts
                         (AgentToolApprovalActivity te trt win tc subAgentName)) w) (\<lambda>status w1.
           (Inr (status, status = ApprovalStatusUnavailable), w1))))"

definition wf_execute :: "'w TEnv \<Rightarrow> 'w child_run \<Rightarrow> 'w TemporalRuntime \<Rightarrow> AgentWorkflowInput \<Rightarrow> int \<Rightarrow> ToolCallRequest \<Rightarrow> 'w wf
    \<Rightarrow> (goerr + string \<times> bool) \<times> 'w wf" where
  "wf_execute te run trt win iteration tc w =
     (case map_of (wiSubAgentRoutes win) (tcrName tc) of
        Some route \<Rightarrow> on_ok (delegateToSubAgent te run trt win tc route w) (\<lambda>content w1. (Inr (content, False), w1))
      | None \<Rightarrow>
          (case on_st (ExecuteActivity te agentToolExecuteActivityMaxAttempts
                         (AgentToolExecuteActivity te trt win iteration tc)) w of
             (Inl e, w1) \<Rightarrow> (Inr (ToolFailureContent (tcrName tc) (Some e), True), w1)
           | (Inr result, w1) \<Rightarrow> (Inr (RenderToolResultEnvelope (tcrName tc) ToolResultStatusOK result, False), w1)))"

text \<open>The content a call ends with, by the status of its approval.\<close>

definition wf_content :: "'w TEnv \<Rightarrow> 'w child_run \<Rightarrow> 'w TemporalRuntime \<Rightarrow> AgentWorkflowInput \<Rightarrow> int \<Rightarrow> ToolCallRequest
    \<Rightarrow> ApprovalStatus \<Rightarrow> 'w wf \<Rightarrow> (goerr + string \<times> bool) \<times> 'w wf" where
  "wf_content te run trt win iteration tc status w =
     (case status of
        ApprovalStatusApproved \<Rightarrow> wf_execute te run trt win iteration tc w
      | ApprovalStatusRejected \<Rightarrow> (Inr (MsgToolRejected, False), w)
      | ApprovalStatusUnavailable \<Rightarrow> (Inr (msgToolApprovalUnavailable, False), w)
      | _ \<Rightarrow> (Inl (new_error (''workflow: unexpected approval status '' @ go_quote (approvalStatusText status)
                   @ '' for tool '' @ go_quote (tcrName tc))), w))"

definition executeAgentToolCall :: "'w TEnv \<Rightarrow> 'w child_run \<Rightarrow> 'w TemporalRuntime \<Rightarrow> AgentWorkflowInput \<Rightarrow> string \<Rightarrow> int
    \<Rightarrow> ToolCallRequest \<Rightarrow> bool \<Rightarrow> 'w wf \<Rightarrow> (goerr + agentToolCallOutput) \<times> 'w wf" where
  "executeAgentToolCall te run trt win messageID iteration tc off w =
     on_ok (wf_announce te trt win messageID tc w) (\<lambda>_ w1.
     on_ok (on_st (ExecuteActivity te agentToolAuthorizeActivityMaxAttempts (AgentToolAuthorizeActivity te trt win tc)) w1)
       (\<lambda>auth w2.
        if \<not> Allowed auth then
          (let content = FormatAuthorizationDeniedMessage (Reason auth) in
           on_ok (wf_end_result te trt win messageID (tcrID tc) content w2) (\<lambda>_ w3.
             (Inr \<lparr>toMsg = \<lparr>mRole = RoleTool, mContent = content, mToolName = tcrName tc,
                            mToolCallID = tcrID tc, mToolCalls = []\<rparr>,
                   toFailed = False, toStreamingUnavailable = False\<rparr>, w3)))
        else
          on_ok (wf_approval te trt win tc off w2) (\<lambda>(status, mark) w3.
          on_ok (wf_content te run trt win iteration tc status w3) (\<lambda>(content, failed) w4.
          on_ok (wf_end_result te trt win messageID (tcrID tc) content w4) (\<lambda>_ w5.
            (Inr \<lparr>toMsg = BuildToolResultMessage (tcrID tc) (tcrName tc) content,
                  toFailed = failed, toStreamingUnavailable = mark\<rparr>, w5))))))"

section \<open>The tool calls of one iteration\<close>

text \<open>A hard error becomes a synthetic message.\<close>

definition wf_settle :: "ToolCallRequest \<Rightarrow> goerr + agentToolCallOutput \<Rightarrow> toolResult \<times> bool" where
  "wf_settle tc r =
     (case r of
        Inl e \<Rightarrow> (\<lparr>trMessage = BuildToolErrorResultMessage (tcrID tc) (tcrName tc) (Some e), trFailed = True\<rparr>, False)
      | Inr out \<Rightarrow> (\<lparr>trMessage = toMsg out, trFailed = toFailed out\<rparr>, toStreamingUnavailable out))"

definition wf_call :: "'w TEnv \<Rightarrow> 'w child_run \<Rightarrow> 'w TemporalRuntime \<Rightarrow> AgentWorkflowInput \<Rightarrow> string \<Rightarrow> int
    \<Rightarrow> ToolCallRequest \<Rightarrow> 'w wf \<Rightarrow> (toolResult \<times> bool) \<times> 'w wf" where
  "wf_call te run trt win messageID iteration tc w =
     (let (r, w1) = executeAgentToolCall te run trt win messageID iteration tc (streamingUnavailable w) w
      in (wf_settle tc r, w1))"

definition wf_parallel :: "'w TEnv \<Rightarrow> 'w child_run \<Rightarrow> 'w TemporalRuntime \<Rightarrow> AgentWorkflowInput \<Rightarrow> string \<Rightarrow> int
    \<Rightarrow> ToolCallRequest list \<Rightarrow> 'w wf \<Rightarrow> toolResult list \<times> 'w wf" where
  "wf_parallel te run trt win messageID iteration tcs w =
     (let (order, w1) = on_st (ext (schedule (teEnv te) (length tcs))) w;
          (slots, w2) = run_parallel (\<lambda>i. wf_call te run trt win messageID iteration (tcs ! i)) order Map.empty w1;
          results = collect_slots (zero_toolResult, False) (length tcs) slots
      in (map fst results, w2\<lparr>streamingUnavailable := streamingUnavailable w2 \<or> list_ex snd results\<rparr>))"

fun wf_sequential :: "'w TEnv \<Rightarrow> 'w child_run \<Rightarrow> 'w TemporalRuntime \<Rightarrow> AgentWorkflowInput \<Rightarrow> string \<Rightarrow> int
    \<Rightarrow> ToolCallRequest list \<Rightarrow> 'w wf \<Rightarrow> toolResult list \<times> 'w wf" where
  "wf_sequential te run trt win messageID iteration [] w = ([], w)"
| "wf_sequential te run trt win messageID iteration (tc # tcs) w =
     (let ((r, off), w1) = wf_call te run trt win messageID iteration tc w;
          w2 = (if off then w1\<lparr>streamingUnavailable := True\<rparr> else w1);
          (rs, w3) = wf_sequential te run trt win messageID iteration tcs w2
      in (r # rs, w3))"

section \<open>One iteration\<close>

text \<open>The variable \<open>llmResult\<close> of the loop.  The result of an activity is decoded into it by
  \<open>encoding/json\<close>, over what the previous one left: an absent usage leaves the old one in place, and so does
  an absent (zero) field of a usage or an absent display name; the elements of the slice of tool calls are
  decoded in place, and the argument map of an element that has one is extended, not replaced.  The maps are
  shared with the assistant messages made from the variable: \<open>slShared\<close> holds the indices of the messages whose
  call at this slot has the same map.  A null slice or map starts afresh.\<close>

record call_slot =
  slArgs :: gomap
  slDisplay :: string
  slShared :: "nat list"

record result_var =
  rvUsage :: "LLMUsage option"
  rvSlots :: "call_slot list"

record WLoop =
  wlMessages :: "Message list"
  wlContent :: string
  wlUsage :: "LLMUsage option"
  wlBudget :: "TokenBudget option"
  wlTelemetry :: AgentTelemetry
  wlVar :: result_var

datatype wstep = WContinue WLoop | WBreak WLoop | WFail goerr | WAsNew WLoop

definition keep_if_zero :: "int64 \<Rightarrow> int64 \<Rightarrow> int64" where
  "keep_if_zero old new = (if new = 0 then old else new)"

definition decode_usage :: "LLMUsage option \<Rightarrow> LLMUsage option \<Rightarrow> LLMUsage option" where
  "decode_usage old new =
     (case new of
        None \<Rightarrow> old
      | Some n \<Rightarrow>
          (case old of
             None \<Rightarrow> Some n
           | Some p \<Rightarrow>
               Some \<lparr>PromptTokens = keep_if_zero (PromptTokens p) (PromptTokens n),
                     CompletionTokens = keep_if_zero (CompletionTokens p) (CompletionTokens n),
                     TotalTokens = keep_if_zero (TotalTokens p) (TotalTokens n),
                     CachedPromptTokens = keep_if_zero (CachedPromptTokens p) (CachedPromptTokens n),
                     ReasoningTokens = keep_if_zero (ReasoningTokens p) (ReasoningTokens n)\<rparr>))"

definition zero_slot :: call_slot where
  "zero_slot = \<lparr>slArgs = None, slDisplay = [], slShared = []\<rparr>"

definition decode_args :: "gomap \<Rightarrow> gomap \<Rightarrow> gomap" where
  "decode_args old new =
     (case new of
        None \<Rightarrow> None
      | Some kvs \<Rightarrow>
          (case old of
             None \<Rightarrow> Some kvs
           | Some m \<Rightarrow> Some (foldl (\<lambda>m (k, v). AList.update k v m) m kvs)))"

definition decode_slot :: "call_slot \<Rightarrow> ToolCallRequest \<Rightarrow> call_slot" where
  "decode_slot sl tc =
     \<lparr>slArgs = decode_args (slArgs sl) (tcrArgs tc),
      slDisplay = (if tcrDisplayName tc = [] then slDisplay sl else tcrDisplayName tc),
      slShared = (if slArgs sl = None \<or> tcrArgs tc = None then [] else slShared sl)\<rparr>"

definition decode_call :: "call_slot \<Rightarrow> ToolCallRequest \<Rightarrow> ToolCallRequest" where
  "decode_call sl tc = tc\<lparr>tcrDisplayName := slDisplay (decode_slot sl tc), tcrArgs := slArgs (decode_slot sl tc)\<rparr>"

text \<open>Elements beyond the decoded ones stay in the backing array; a slice without elements is null.\<close>

fun decode_calls :: "call_slot list \<Rightarrow> ToolCallRequest list \<Rightarrow> ToolCallRequest list \<times> call_slot list" where
  "decode_calls slots [] = ([], slots)"
| "decode_calls slots (tc # tcs) =
     (let sl = (case slots of [] \<Rightarrow> zero_slot | sl # _ \<Rightarrow> sl);
          (calls, slots') = decode_calls (tl slots) tcs
      in (decode_call sl tc # calls, decode_slot sl tc # slots'))"

definition decode_result :: "result_var \<Rightarrow> LLMResult \<Rightarrow> LLMResult \<times> result_var" where
  "decode_result var new =
     (let (calls, slots) = (if lrToolCalls new = [] then ([], []) else decode_calls (rvSlots var) (lrToolCalls new));
          usage = decode_usage (rvUsage var) (lrUsage new)
      in (new\<lparr>lrToolCalls := calls, lrUsage := usage\<rparr>, \<lparr>rvUsage = usage, rvSlots = slots\<rparr>))"

text \<open>What the messages that share a map show after it changed.\<close>

definition set_call_args :: "nat \<Rightarrow> gomap \<Rightarrow> Message \<Rightarrow> Message" where
  "set_call_args i args m =
     (if i < length (mToolCalls m)
      then m\<lparr>mToolCalls := (mToolCalls m)[i := (mToolCalls m ! i)\<lparr>tcArgs := args\<rparr>]\<rparr> else m)"

definition relink_slot :: "nat \<Rightarrow> call_slot \<Rightarrow> Message list \<Rightarrow> Message list" where
  "relink_slot i sl ms = foldl (\<lambda>ms k. ms[k := set_call_args i (slArgs sl) (ms ! k)]) ms (slShared sl)"

definition relink :: "call_slot list \<Rightarrow> Message list \<Rightarrow> Message list" where
  "relink slots ms = foldl (\<lambda>ms (i, sl). relink_slot i sl ms) ms (enumerate 0 slots)"

text \<open>The assistant message at index \<open>k\<close> takes over the maps of the calls; saved messages are let go.\<close>

definition share :: "nat \<Rightarrow> nat \<Rightarrow> call_slot list \<Rightarrow> call_slot list" where
  "share n k slots = map (\<lambda>sl. sl\<lparr>slShared := slShared sl @ [k]\<rparr>) (take n slots) @ drop n slots"

definition unshare :: "call_slot list \<Rightarrow> call_slot list" where
  "unshare slots = map (\<lambda>sl. sl\<lparr>slShared := []\<rparr>) slots"

record WContext =
  wcMemory :: string
  wcRetriever :: string
  wcStreaming :: bool

definition wf_llm_input :: "AgentWorkflowInput \<Rightarrow> WContext \<Rightarrow> string \<Rightarrow> int \<Rightarrow> Message list \<Rightarrow> bool \<Rightarrow> AgentLLMInput" where
  "wf_llm_input win ctx messageID iter messages skip =
     \<lparr>aliConversationID = wiConversationID win, aliMessages = messages, aliSkipTools = skip,
      aliFingerprint = wiFingerprint win, aliMessageID = messageID, aliEventWorkflowID = wiEventWorkflowID win,
      aliEventTaskQueue = wiEventTaskQueue win, aliLocalChannelName = wiLocalChannelName win,
      aliMemoryContext = wcMemory ctx, aliRetrieverContext = wcRetriever ctx, aliRunID = wiRunID win,
      aliIteration = iter\<rparr>"

definition wf_llm :: "'w TEnv \<Rightarrow> 'w TemporalRuntime \<Rightarrow> AgentWorkflowInput \<Rightarrow> WContext \<Rightarrow> string \<Rightarrow> int \<Rightarrow> bool \<Rightarrow> WLoop
    \<Rightarrow> 'w wf \<Rightarrow> (goerr + LLMResult \<times> WLoop) \<times> 'w wf" where
  "wf_llm te trt win ctx messageID iter skip wl w =
     on_ok (on_st (ExecuteActivity te agentLLMActivityMaxAttempts
              (llm_activity (wcStreaming ctx) te trt (wf_llm_input win ctx messageID iter (wlMessages wl) skip))) w)
       (\<lambda>new w1.
          (let (r, var) = decode_result (wlVar wl) new
           in (Inr (r, wl\<lparr>wlVar := var, wlMessages := relink (rvSlots var) (wlMessages wl)\<rparr>), w1)))"

text \<open>The forced last call reuses the message identifier of the iteration.\<close>

definition wf_final_call :: "'w TEnv \<Rightarrow> 'w TemporalRuntime \<Rightarrow> AgentWorkflowInput \<Rightarrow> WContext \<Rightarrow> string \<Rightarrow> int \<Rightarrow> WLoop
    \<Rightarrow> 'w wf \<Rightarrow> wstep \<times> 'w wf" where
  "wf_final_call te trt win ctx messageID iter wl w =
     (case wf_llm te trt win ctx messageID iter True wl w of
        (Inl e, w1) \<Rightarrow> (WFail e, w1)
      | (Inr (r, wl1), w1) \<Rightarrow>
          (WBreak (wl1\<lparr>wlMessages := wlMessages wl1 @ [message RoleAssistant (lrContent r)],
                       wlContent := lrContent r, wlUsage := MergeLLMUsage (wlUsage wl1) (lrUsage r),
                       wlTelemetry := finished FinishReasonMaxIterations (count_call (wlTelemetry wl1))\<rparr>), w1))"

text \<open>A successful save clears the messages; a failed one keeps them for the next.\<close>

definition wf_save_iteration :: "'w TEnv \<Rightarrow> 'w TemporalRuntime \<Rightarrow> AgentWorkflowInput \<Rightarrow> WLoop \<Rightarrow> 'w wf \<Rightarrow> WLoop \<times> 'w wf" where
  "wf_save_iteration te trt win wl w =
     (if temporal_conversation_enabled trt (wiConversationID win) \<and> rtSaveOnIteration (tmpBase trt) \<and> wlMessages wl \<noteq> []
      then (case on_st (ExecuteActivity te conversationActivityMaxAttempts
                          (AddConversationMessagesActivity te trt win (wlMessages wl))) w of
              (Inl e, w1) \<Rightarrow> (wl, w1)
            | (Inr _, w1) \<Rightarrow>
                (wl\<lparr>wlMessages := [], wlVar := (wlVar wl)\<lparr>rvSlots := unshare (rvSlots (wlVar wl))\<rparr>\<rparr>, w1))
      else (wl, w))"

definition wf_tool_round :: "'w TEnv \<Rightarrow> 'w child_run \<Rightarrow> 'w TemporalRuntime \<Rightarrow> AgentWorkflowInput \<Rightarrow> string \<Rightarrow> int \<Rightarrow> LLMResult
    \<Rightarrow> WLoop \<Rightarrow> 'w wf \<Rightarrow> wstep \<times> 'w wf" where
  "wf_tool_round te run trt win messageID iter r wl w =
     (let tcs = lrToolCalls r;
          mode = (if rtToolMode (tmpBase trt) = ModeEmpty then ModeParallel else rtToolMode (tmpBase trt));
          finish = (\<lambda>(results, w1).
            (let wl1 = wl\<lparr>wlMessages := wlMessages wl @ [assistant_message r] @ map trMessage results,
                          wlTelemetry := record_results tcs results (wlTelemetry wl),
                          wlVar := (wlVar wl)\<lparr>rvSlots := share (length tcs) (length (wlMessages wl)) (rvSlots (wlVar wl))\<rparr>\<rparr>;
                 (wl2, w2) = wf_save_iteration te trt win wl1 w1;
                 (full, w3) = on_st (ext (history_full te)) w2
             in (if full then WAsNew wl2 else WContinue wl2, w3)))
      in case mode of
           ModeSequential \<Rightarrow> finish (wf_sequential te run trt win messageID iter tcs w)
         | ModeOther m \<Rightarrow>
             (WFail (new_error (''invalid tool execution mode '' @ go_quote m @ '': use \"parallel\" or \"sequential\"'')), w)
         | _ \<Rightarrow> finish (wf_parallel te run trt win messageID iter tcs w))"

definition wf_iter :: "'w TEnv \<Rightarrow> 'w child_run \<Rightarrow> 'w TemporalRuntime \<Rightarrow> AgentWorkflowInput \<Rightarrow> WContext \<Rightarrow> int \<Rightarrow> WLoop \<Rightarrow> 'w wf
    \<Rightarrow> wstep \<times> 'w wf" where
  "wf_iter te run trt win ctx iter wl w =
     (let (messageID, w1) = on_st (ext (uuid (teEnv te))) w in
      case wf_llm te trt win ctx messageID iter False wl w1 of
        (Inl e, w2) \<Rightarrow> (WFail e, w2)
      | (Inr (r, wl0), w2) \<Rightarrow>
          (let wl1 = wl0\<lparr>wlTelemetry := count_call (wlTelemetry wl0),
                         wlUsage := MergeLLMUsage (wlUsage wl0) (lrUsage r),
                         wlBudget := charge (lrUsage r) (wlBudget wl0)\<rparr>
           in if over_budget (lrUsage r) (wlBudget wl1) then
                (WBreak (wl1\<lparr>wlTelemetry := finished FinishReasonTokenBudget (wlTelemetry wl1)\<rparr>), w2)
              else if lrToolCalls r = [] then
                (WBreak (wl1\<lparr>wlMessages := wlMessages wl1 @ [message RoleAssistant (lrContent r)],
                             wlContent := lrContent r\<rparr>), w2)
              else if iter = rtMaxIterations (tmpBase trt) - 1 then wf_final_call te trt win ctx messageID iter wl1 w2
              else wf_tool_round te run trt win messageID iter r wl1 w2))"

text \<open>The loop, with the number of iterations left; \<open>Inr (Some iter)\<close> asks to continue as new.\<close>

fun wf_loop :: "(int \<Rightarrow> WLoop \<Rightarrow> 'w wf \<Rightarrow> wstep \<times> 'w wf) \<Rightarrow> nat \<Rightarrow> int \<Rightarrow> WLoop \<Rightarrow> 'w wf
    \<Rightarrow> (goerr + int option \<times> WLoop) \<times> 'w wf" where
  "wf_loop step 0 iter wl w = (Inr (None, wl), w)"
| "wf_loop step (Suc k) iter wl w =
     (case step iter wl w of
        (WContinue wl1, w1) \<Rightarrow> wf_loop step k (iter + 1) wl1 w1
      | (WBreak wl1, w1) \<Rightarrow> (Inr (None, wl1), w1)
      | (WFail e, w1) \<Rightarrow> (Inl e, w1)
      | (WAsNew wl1, w1) \<Rightarrow> (Inr (Some (iter + 1), wl1), w1))"

section \<open>The workflow\<close>

datatype wf_outcome = WfResult AgentRunResult | WfError goerr | WfAsNew AgentWorkflowInput

definition wf_recall :: "'w TEnv \<Rightarrow> 'w TemporalRuntime \<Rightarrow> AgentWorkflowInput \<Rightarrow> AgentTelemetry \<Rightarrow> 'w wf
    \<Rightarrow> (goerr + string \<times> AgentTelemetry) \<times> 'w wf" where
  "wf_recall te trt win tel w =
     (if MemoryConfigured (tmpBase trt) \<and> RecallEnabled (tmpBase trt) then
        on_ok (on_st (ExecuteActivity te agentRetrieverActivityMaxAttempts (AgentMemoryRecallActivity te trt win)) w)
          (\<lambda>res w1. (Inr (mresContext res,
             tel\<lparr>Storage := (Storage tel)
               \<lparr>TotalMemoryRecalls := TotalMemoryRecalls (Storage tel) + mresTotal res,
                FailedMemoryRecalls := FailedMemoryRecalls (Storage tel) + mresFailed res\<rparr>\<rparr>), w1))
      else (Inr ([], tel), w))"

definition wf_prefetch :: "'w TEnv \<Rightarrow> 'w TemporalRuntime \<Rightarrow> AgentWorkflowInput \<Rightarrow> AgentTelemetry \<Rightarrow> 'w wf
    \<Rightarrow> (goerr + string \<times> AgentTelemetry) \<times> 'w wf" where
  "wf_prefetch te trt win tel w =
     (if rtRetrieverMode (tmpBase trt) \<in> {RetrieverModePrefetch, RetrieverModeHybrid} \<and> rtRetrievers (tmpBase trt) \<noteq> [] then
        on_ok (on_st (ExecuteActivity te agentRetrieverActivityMaxAttempts (AgentRetrieverActivity te trt win)) w)
          (\<lambda>res w1. (Inr (rrContext res,
             tel\<lparr>Storage := (Storage tel)
               \<lparr>TotalRetrieverSearches := TotalRetrieverSearches (Storage tel) + rrTotal res,
                FailedRetrieverSearches := FailedRetrieverSearches (Storage tel) + rrFailed res,
                PrefetchSearches := PrefetchSearches (Storage tel) + rrTotal res\<rparr>\<rparr>), w1))
      else (Inr ([], tel), w))"

text \<open>What follows the loop.  A failed save fails the run unless messages were saved on the way.\<close>

definition wf_save_rest :: "'w TEnv \<Rightarrow> 'w TemporalRuntime \<Rightarrow> AgentWorkflowInput \<Rightarrow> WLoop \<Rightarrow> 'w wf \<Rightarrow> (goerr + unit) \<times> 'w wf" where
  "wf_save_rest te trt win wl w =
     (if temporal_conversation_enabled trt (wiConversationID win) \<and> wlMessages wl \<noteq> [] then
        (case on_st (ExecuteActivity te conversationActivityMaxAttempts
                       (AddConversationMessagesActivity te trt win (wlMessages wl))) w of
           (Inl e, w1) \<Rightarrow> (if \<not> rtSaveOnIteration (tmpBase trt) then Inl e else Inr (), w1)
         | (Inr _, w1) \<Rightarrow> (Inr (), w1))
      else (Inr (), w))"

definition wf_store :: "'w TEnv \<Rightarrow> 'w TemporalRuntime \<Rightarrow> AgentWorkflowInput \<Rightarrow> WLoop \<Rightarrow> 'w wf
    \<Rightarrow> (goerr + AgentTelemetry) \<times> 'w wf" where
  "wf_store te trt win wl w =
     (let tel = wlTelemetry wl; st = Storage tel in
      if RunEndMemoryStoreEnabled (tmpBase trt) then
        (case on_st (ExecuteActivity te agentRetrieverActivityMaxAttempts
                       (AgentMemoryStoreActivity te trt win (wlMessages wl))) w of
           (Inl e, w1) \<Rightarrow>
             (if is_canceled te e then (Inl e, w1)
              else (Inr (tel\<lparr>Storage := st\<lparr>FailedMemoryStores := FailedMemoryStores st + 1\<rparr>\<rparr>), w1))
         | (Inr _, w1) \<Rightarrow> (Inr (tel\<lparr>Storage := st\<lparr>TotalMemoryStores := TotalMemoryStores st + 1\<rparr>\<rparr>), w1))
      else (Inr tel, w))"

definition wf_finish :: "'w TEnv \<Rightarrow> 'w TemporalRuntime \<Rightarrow> AgentWorkflowInput \<Rightarrow> WLoop \<Rightarrow> 'w wf
    \<Rightarrow> (goerr + AgentRunResult) \<times> 'w wf" where
  "wf_finish te trt win wl w =
     on_ok (wf_save_rest te trt win wl w) (\<lambda>_ w1.
     on_ok (wf_store te trt win wl w1) (\<lambda>tel w2.
       (let (completed, w3) = on_st (ext (now (teEnv te))) w2 in
        (Inr \<lparr>arrContent = wlContent wl, arrAgentName = rtName (tmpBase trt), arrModel = GetModel (rtClient (tmpBase trt)),
              arrUsage = wlUsage wl, arrTelemetry = tel\<lparr>Run := (Run tel)\<lparr>CompletedAt := completed\<rparr>\<rparr>\<rparr>, w3))))"

definition initial_state :: "AgentWorkflowInput \<Rightarrow> AgentWorkflowState" where
  "initial_state win =
     (case wiState win of
        Some st \<Rightarrow> st
      | None \<Rightarrow> \<lparr>wsIteration = 0, wsMessages = [message RoleUser (wiUserPrompt win)], wsUsage = None, wsTelemetry = None\<rparr>)"

definition wf_start :: "'w TemporalRuntime \<Rightarrow> AgentWorkflowState \<Rightarrow> AgentTelemetry \<Rightarrow> WLoop" where
  "wf_start trt st tel =
     \<lparr>wlMessages = wsMessages st, wlContent = [], wlUsage = wsUsage st,
      wlBudget = (if 0 <s rtMaxTokens (tmpBase trt) then Some (NewTokenBudget (rtMaxTokens (tmpBase trt))) else None),
      wlTelemetry = tel, wlVar = \<lparr>rvUsage = None, rvSlots = []\<rparr>\<rparr>"

definition wf_telemetry :: "'w TEnv \<Rightarrow> AgentWorkflowState \<Rightarrow> 'w wf \<Rightarrow> AgentTelemetry \<times> 'w wf" where
  "wf_telemetry te st w =
     (case wsTelemetry st of
        Some tel \<Rightarrow> (tel, w)
      | None \<Rightarrow> (let (started, w1) = on_st (ext (now (teEnv te))) w in (NewAgentTelemetry started, w1)))"

definition as_new_input :: "AgentWorkflowInput \<Rightarrow> int \<Rightarrow> WLoop \<Rightarrow> AgentWorkflowInput" where
  "as_new_input win iter wl =
     win\<lparr>wiState := Some \<lparr>wsIteration = iter, wsMessages = wlMessages wl, wsUsage = wlUsage wl,
                          wsTelemetry = Some (wlTelemetry wl)\<rparr>\<rparr>"

definition AgentWorkflow :: "'w TEnv \<Rightarrow> 'w child_run \<Rightarrow> 'w TemporalRuntime \<Rightarrow> AgentWorkflowInput \<Rightarrow> 'w st
    \<Rightarrow> wf_outcome \<times> 'w st" where
  "AgentWorkflow te run trt win s =
     (let w0 = \<lparr>wfSt = snd (ext (uuid (teEnv te)) s), streamingUnavailable = False\<rparr>;
          st = initial_state win;
          (tel0, w1) = wf_telemetry te st w0;
          left = nat (rtMaxIterations (tmpBase trt) - wsIteration st);
          (res, w) =
            on_ok (wf_recall te trt win tel0 w1) (\<lambda>(mem, tel1) w2.
            on_ok (wf_prefetch te trt win tel1 w2) (\<lambda>(docs, tel2) w3.
            on_ok (wf_loop (wf_iter te run trt win
                     \<lparr>wcMemory = mem, wcRetriever = docs,
                      wcStreaming = wiStreamingEnabled win \<and> IsStreamSupported (rtClient (tmpBase trt))\<rparr>)
                     left (wsIteration st) (wf_start trt st tel2) w3) (\<lambda>(again, wl) w4.
              (case again of
                 Some iter \<Rightarrow> (Inr (WfAsNew (as_new_input win iter wl)), w4)
               | None \<Rightarrow> on_ok (wf_finish te trt win wl w4) (\<lambda>r w5. (Inr (WfResult r), w5))))))
      in (case res of Inl e \<Rightarrow> WfError e | Inr o' \<Rightarrow> o', wfSt w))"

section \<open>Runs\<close>

text \<open>The service restarts a workflow that continues as new; every restart starts at a later iteration,
  so the iterations bound the restarts.\<close>

fun run_restarts :: "'w TEnv \<Rightarrow> 'w child_run \<Rightarrow> nat \<Rightarrow> 'w child_run" where
  "run_restarts te run 0 trt win s = (Inl (new_error ''restart bound''), s)"
| "run_restarts te run (Suc n) trt win s =
     (case AgentWorkflow te run trt win s of
        (WfResult r, s1) \<Rightarrow> (Inr r, s1)
      | (WfError e, s1) \<Rightarrow> (Inl e, s1)
      | (WfAsNew win', s1) \<Rightarrow> run_restarts te run n trt win' s1)"

definition run_workflow :: "'w TEnv \<Rightarrow> 'w child_run \<Rightarrow> 'w child_run" where
  "run_workflow te run trt win s =
     run_restarts te run (Suc (nat (rtMaxIterations (tmpBase trt) - wsIteration (initial_state win)))) trt win s"

text \<open>Child workflows are runs again, to a given level of nesting.\<close>

fun wf_level :: "'w TEnv \<Rightarrow> nat \<Rightarrow> 'w child_run" where
  "wf_level te 0 trt win s = (Inl (new_error ''nesting bound''), s)"
| "wf_level te (Suc n) trt win s = run_workflow te (wf_level te n) trt win s"

end
