(* ===== verification/TemporalFacts.thy ===== *)
theory TemporalFacts
  imports TemporalLoop LocalEvents
begin

text \<open>
  Facts about the agent workflow: what its parts may add to the log, as rules that follow the structure of
  the definitions; and what a whole workflow may add, for any property of entries that its parts have.
\<close>

section \<open>What a step adds to the log\<close>

definition acts :: "(effect \<Rightarrow> bool) \<Rightarrow> ('w st \<Rightarrow> 'r \<times> 'w st) \<Rightarrow> bool" where
  "acts P f \<longleftrightarrow> (\<forall>s. adds P s (snd (f s)))"

definition wacts :: "(effect \<Rightarrow> bool) \<Rightarrow> ('w wf \<Rightarrow> 'r \<times> 'w wf) \<Rightarrow> bool" where
  "wacts P f \<longleftrightarrow> (\<forall>w. adds P (wfSt w) (wfSt (snd (f w))))"

named_theorems act_rules

lemma actsD: "acts P f \<Longrightarrow> f s = (r, s') \<Longrightarrow> adds P s s'"
  by (metis acts_def snd_conv)

lemma wactsD: "wacts P f \<Longrightarrow> f w = (r, w') \<Longrightarrow> adds P (wfSt w) (wfSt w')"
  by (metis wacts_def snd_conv)

lemma actsI: "(\<And>s r s'. f s = (r, s') \<Longrightarrow> adds P s s') \<Longrightarrow> acts P f"
  by (metis acts_def prod.collapse)

lemma wactsI: "(\<And>w r w'. f w = (r, w') \<Longrightarrow> adds P (wfSt w) (wfSt w')) \<Longrightarrow> wacts P f"
  by (metis wacts_def prod.collapse)

lemma acts_mono: "acts P f \<Longrightarrow> (\<And>e. P e \<Longrightarrow> Q e) \<Longrightarrow> acts Q f"
  by (auto simp: acts_def intro: adds_mono)

lemma acts_done [act_rules]: "acts P (\<lambda>s. (r s, s))"
  by (simp add: acts_def)

lemma wacts_done [act_rules]: "wacts P (\<lambda>w. (r w, w))"
  by (simp add: wacts_def)

lemma acts_ext [act_rules]: "acts P (ext f)"
  by (rule actsI) (rule ext_adds)

lemma acts_on_ok [act_rules]:
  assumes "acts P f" and "\<And>a. acts P (k a)"
  shows "acts P (\<lambda>s. on_ok (f s) k)"
proof (rule actsI)
  fix s r s'
  assume o: "on_ok (f s) k = (r, s')"
  obtain x s1 where x: "f s = (x, s1)" by fastforce
  show "adds P s s'" using o x actsD [OF assms(1) x]
    by (cases x) (auto intro: adds_trans [OF _ actsD [OF assms(2)]])
qed

lemma wacts_on_ok [act_rules]:
  assumes "wacts P f" and "\<And>a. wacts P (k a)"
  shows "wacts P (\<lambda>w. on_ok (f w) k)"
proof (rule wactsI)
  fix w r w'
  assume o: "on_ok (f w) k = (r, w')"
  obtain x w1 where x: "f w = (x, w1)" by fastforce
  show "adds P (wfSt w) (wfSt w')" using o x wactsD [OF assms(1) x]
    by (cases x) (auto intro: adds_trans [OF _ wactsD [OF assms(2)]])
qed

lemma acts_if [act_rules]: "acts P f \<Longrightarrow> acts P g \<Longrightarrow> acts P (\<lambda>s. if b s then f s else g s)"
  by (simp add: acts_def)

lemma wacts_if [act_rules]: "wacts P f \<Longrightarrow> wacts P g \<Longrightarrow> wacts P (\<lambda>w. if b w then f w else g w)"
  by (simp add: wacts_def)

lemma acts_option [act_rules]:
  "acts P f \<Longrightarrow> (\<And>x. acts P (g x)) \<Longrightarrow> acts P (\<lambda>s. case x of None \<Rightarrow> f s | Some x \<Rightarrow> g x s)"
  by (cases x) simp_all

lemma wacts_option [act_rules]:
  "wacts P f \<Longrightarrow> (\<And>x. wacts P (g x)) \<Longrightarrow> wacts P (\<lambda>w. case x of None \<Rightarrow> f w | Some x \<Rightarrow> g x w)"
  by (cases x) simp_all

lemma acts_sum [act_rules]:
  "(\<And>e. acts P (f e)) \<Longrightarrow> (\<And>x. acts P (g x)) \<Longrightarrow> acts P (\<lambda>s. case x of Inl e \<Rightarrow> f e s | Inr x \<Rightarrow> g x s)"
  by (cases x) simp_all

lemma wacts_sum [act_rules]:
  "(\<And>e. wacts P (f e)) \<Longrightarrow> (\<And>x. wacts P (g x)) \<Longrightarrow> wacts P (\<lambda>w. case x of Inl e \<Rightarrow> f e w | Inr x \<Rightarrow> g x w)"
  by (cases x) simp_all

lemma wacts_pair [act_rules]: "(\<And>x y. wacts P (k x y)) \<Longrightarrow> wacts P (case_prod k p)"
  by (cases p) simp

lemma acts_pair [act_rules]: "(\<And>x y. acts P (k x y)) \<Longrightarrow> acts P (case_prod k p)"
  by (cases p) simp

lemma wacts_pair_arg [act_rules]: "(\<And>x y. wacts P (k x y)) \<Longrightarrow> wacts P (\<lambda>w. case p of (x, y) \<Rightarrow> k x y w)"
  by (cases p) simp

text \<open>A step and what follows on its result.\<close>

lemma acts_bind [act_rules]:
  assumes "acts P f" and "\<And>a. acts P (k a)"
  shows "acts P (\<lambda>s. case f s of (a, s1) \<Rightarrow> k a s1)"
proof (rule actsI)
  fix s r s'
  assume o: "(case f s of (a, s1) \<Rightarrow> k a s1) = (r, s')"
  obtain x s1 where x: "f s = (x, s1)" by fastforce
  show "adds P s s'" using o x actsD [OF assms(1) x]
    by (auto intro: adds_trans [OF _ actsD [OF assms(2)]])
qed

lemma wacts_bind [act_rules]:
  assumes "wacts P f" and "\<And>a. wacts P (k a)"
  shows "wacts P (\<lambda>w. case f w of (a, w1) \<Rightarrow> k a w1)"
proof (rule wactsI)
  fix w r w'
  assume o: "(case f w of (a, w1) \<Rightarrow> k a w1) = (r, w')"
  obtain x w1 where x: "f w = (x, w1)" by fastforce
  show "adds P (wfSt w) (wfSt w')" using o x wactsD [OF assms(1) x]
    by (auto intro: adds_trans [OF _ wactsD [OF assms(2)]])
qed

lemma wacts_on_st [act_rules]: "acts P f \<Longrightarrow> wacts P (on_st f)"
  by (rule wactsI) (auto simp: on_st_def dest: actsD split: prod.splits)

text \<open>An activity is attempted several times, so it may add its entries several times.\<close>

lemma acts_attempts: "acts P act \<Longrightarrow> acts P (run_attempts te k act err)"
proof (induction k arbitrary: err)
  case 0
  show ?case by (simp add: acts_def)
next
  case (Suc k)
  show ?case
  proof (rule actsI)
    fix s r s'
    assume run: "run_attempts te (Suc k) act err s = (r, s')"
    obtain ft s1 where ft: "ext (fate te) s = (ft, s1)" by fastforce
    obtain x s2 where x: "act s1 = (x, s2)" by fastforce
    have a: "adds P s s1" "adds P s1 s2" using ext_adds [OF ft] actsD [OF Suc.prems x] by auto
    have again: "adds P t t'" if "run_attempts te k act e t = (r, t')" for e t t'
      using actsD [OF Suc.IH [OF Suc.prems] that] .
    show "adds P s s'"
      using run ft x a again by (cases ft; cases x) (auto intro: adds_trans)
  qed
qed

lemma acts_activity [act_rules]: "acts P act \<Longrightarrow> acts P (ExecuteActivity te k act)"
  unfolding ExecuteActivity_def [abs_def] by (rule acts_attempts)

section \<open>Events\<close>

lemma acts_delivered:
  assumes "P (Published ch ev)" and "acts P f"
  shows "acts P (\<lambda>s. delivered ch ev (f s))"
proof (rule actsI)
  fix s r s'
  assume o: "delivered ch ev (f s) = (r, s')"
  obtain x s1 where x: "f s = (x, s1)" by fastforce
  show "adds P s s'" using o x assms(1) actsD [OF assms(2) x]
    by (cases x) (auto simp: delivered_def)
qed

lemma acts_update: "P (Published ch ev) \<Longrightarrow> acts P (sendAgentEventWorkflowUpdate te i q ch ev)"
  unfolding sendAgentEventWorkflowUpdate_def [abs_def] by (intro acts_delivered acts_ext)

lemma acts_bus: "P (Published ch ev) \<Longrightarrow> acts P (bus_deliver te ch ev)"
  unfolding bus_deliver_def [abs_def] by (intro acts_delivered acts_ext)

lemma acts_send: "P (Published (wiLocalChannelName win) ev) \<Longrightarrow> acts P (SendAgentEventUpdateActivity te trt win ev)"
  unfolding SendAgentEventUpdateActivity_def [abs_def]
  by (intro act_rules acts_update acts_bus)

lemma publish_adds:
  assumes "P (Published (aliLocalChannelName ali) ev)"
  shows "adds P s (publishAgentEventToStream te trt ali ev s)"
  using acts_update [of P, OF assms, of te] acts_bus [of P, OF assms, of te] by (simp add: publishAgentEventToStream_def acts_def)

lemma published_quiet: "quiet_emit (publishAgentEventToStream te trt ali)"
  unfolding quiet_emit_def
proof (intro allI)
  fix ev s
  show "\<exists>es. trace (publishAgentEventToStream te trt ali ev s) = trace s @ es \<and> (\<forall>e\<in>set es. \<exists>c. e = Published c ev)"
    using publish_adds [of "\<lambda>e. \<exists>c. e = Published c ev" ali ev s te trt] by (simp add: adds_def)
qed

section \<open>The activities\<close>

lemma acts_fetch [act_rules]: "acts P (fetchTools trt)"
  unfolding fetchTools_def [abs_def] by (intro act_rules)

lemma acts_verify [act_rules]: "acts P (verifyAgentFingerprint te trt fp tools)"
  unfolding verifyAgentFingerprint_def [abs_def] Let_def by (intro act_rules)

lemma acts_history [act_rules]: "acts P (FetchConversationMessages rt i)"
  by (rule actsI) (auto simp: FetchConversationMessages_def Let_def dest!: trace_ext intro!: adds_eq
      split: if_splits option.splits prod.splits sum.splits)

lemma acts_llm:
  assumes "\<And>e. llm_effect e \<Longrightarrow> P e"
  shows "acts P (llm_activity streaming te trt ali)"
proof -
  have q: "quiet_call li" if "liEmit li = publishAgentEventToStream te trt ali" for li :: "'a ExecuteLLMInput"
    by (intro quiet_call.intro) (simp add: that published_quiet)
  have tallied: "adds P s s'" if "tallied s s' t" for s s' :: "'a st" and t
    using tallied_adds [OF that] assms by (rule adds_mono)
  have "acts P (ExecuteLLMStream env rt li)" "acts P (ExecuteLLM rt li)"
    if "liEmit li = publishAgentEventToStream te trt ali" for env rt li
    using quiet_call.stream_tallied [OF q [OF that]] quiet_call.generate_tallied [OF q [OF that]]
    by (intro actsI, blast intro: tallied)+
  then show ?thesis
    unfolding llm_activity_def [abs_def] Let_def by (intro act_rules) simp_all
qed

lemma acts_retrievers: "(\<And>e. in_scope sc e \<Longrightarrow> P e) \<Longrightarrow> acts P (AgentRetrieverActivity te trt win)"
  unfolding AgentRetrieverActivity_def [abs_def]
  by (intro act_rules) (rule actsI, erule adds_mono [OF ExecuteRetrievers_adds])

lemma acts_recall: "(\<And>e. in_scope (wiMemoryScope win) e \<Longrightarrow> P e) \<Longrightarrow> acts P (AgentMemoryRecallActivity te trt win)"
  unfolding AgentMemoryRecallActivity_def [abs_def]
  by (intro act_rules) (rule actsI, erule adds_mono [OF ExecuteMemoryRecall_adds])

lemma acts_store:
  assumes "\<And>e. in_scope (wiMemoryScope win) e \<Longrightarrow> P e"
  shows "acts P (AgentMemoryStoreActivity te trt win ms)"
proof -
  have "acts P (ExecuteMemoryStore (teEnv te) (tmpBase trt) (wiRunID win) 0 (wiMemoryScope win) ms)"
    by (rule actsI) (rule adds_mono [OF ExecuteMemoryStore_adds assms])
  then show ?thesis unfolding AgentMemoryStoreActivity_def [abs_def] by (intro act_rules)
qed

lemma acts_authorize [act_rules]: "acts P (AgentToolAuthorizeActivity te trt win tc)"
proof -
  have "acts P (AuthorizeTool tools n args)" for tools :: "'a Tool list" and n args
    by (rule actsI) (auto dest: AuthorizeTool_trace intro: adds_eq)
  then show ?thesis unfolding AgentToolAuthorizeActivity_def [abs_def] by (intro act_rules)
qed

lemma acts_outcome [act_rules]:
  "(\<And>x. acts P (f x)) \<Longrightarrow> acts P g \<Longrightarrow> acts P h \<Longrightarrow>
   acts P (\<lambda>s. case x of Returned x \<Rightarrow> f x s | Panicked \<Rightarrow> g s | Hangs \<Rightarrow> h s)"
  by (cases x) simp_all

lemma acts_tool:
  assumes "\<And>e. in_scope (wiMemoryScope win) e \<Longrightarrow> P e"
  shows "acts P (AgentToolExecuteActivity te trt win it tc)"
proof -
  have "acts P (ExecuteTool env rt ti (wiMemoryScope win))" for env rt ti
    by (rule actsI) (rule adds_mono [OF ExecuteTool_adds assms])
  then show ?thesis unfolding AgentToolExecuteActivity_def [abs_def] by (intro act_rules)
qed

lemma temporal_approval_lifecycle [simp]: "\<not> lifecycle (temporal_approval_event trt tc n tok)"
  by (simp add: temporal_approval_event_def)

lemma acts_approval:
  assumes "\<And>c ev. \<not> lifecycle ev \<Longrightarrow> P (Published c ev)"
  shows "acts P (AgentToolApprovalActivity te trt win tc n)"
  unfolding AgentToolApprovalActivity_def [abs_def] Let_def
  by (intro act_rules acts_update acts_bus assms temporal_approval_lifecycle)

section \<open>The frame of a workflow\<close>

text \<open>Any property of entries that events have is had by whatever the steps around the execution of a tool
  add.\<close>

locale wf_events =
  fixes P :: "effect \<Rightarrow> bool"
  assumes published: "\<not> lifecycle ev \<Longrightarrow> P (Published c ev)"
begin

lemma emits: "\<not> lifecycle ev \<Longrightarrow> wacts P (emitAgentEvent te trt win ev)"
proof -
  assume l: "\<not> lifecycle ev"
  have "wacts P (\<lambda>w1. (Inr (), if b then w1\<lparr>streamingUnavailable := True\<rparr> else w1))" for b
    by (simp add: wacts_def)
  then show ?thesis unfolding emitAgentEvent_def [abs_def]
    by (intro act_rules acts_send published l)
qed

lemma announces: "wacts P (wf_announce te trt win mid tc)"
  unfolding wf_announce_def [abs_def] Let_def by (intro act_rules emits lifecycle_simps)

lemma ends: "wacts P (wf_end_result te trt win mid i c)"
  unfolding wf_end_result_def [abs_def] by (intro act_rules emits lifecycle_simps)

lemma asks: "wacts P (wf_approval te trt win tc off)"
  unfolding wf_approval_def [abs_def] Let_def by (intro act_rules acts_approval published)

end

text \<open>If moreover tools and memory accesses in the scope of the run have it, and every child workflow keeps
  it, a whole tool call does.\<close>

locale wf_frame = wf_events P
  for P :: "effect \<Rightarrow> bool" +
  fixes run :: "'w child_run" and win :: AgentWorkflowInput
  assumes scoped: "in_scope (wiMemoryScope win) e \<Longrightarrow> P e"
    and child: "acts P (run sub (childInput win tc route sfx))"
begin

lemma runs_child: "acts P (ExecuteChildWorkflow te run queue (childInput win tc route sfx))"
proof (rule actsI)
  fix s r s'
  assume x: "ExecuteChildWorkflow te run queue (childInput win tc route sfx) s = (r, s')"
  obtain ft s1 where ft: "ext (fate te) s = (ft, s1)" by fastforce
  have a: "adds P s s1" using ext_adds [OF ft] .
  have c: "adds P s (snd (run sub (childInput win tc route sfx) s1))" for sub
    using a child by (auto simp: acts_def intro: adds_trans)
  show "adds P s s'"
  proof (cases "worker_of te queue")
    case None
    then show ?thesis using x by (simp add: ExecuteChildWorkflow_def)
  next
    case (Some sub)
    obtain y s2 where y: "run sub (childInput win tc route sfx) s1 = (y, s2)" by fastforce
    then show ?thesis using x Some ft a c [of sub]
      by (cases ft; cases y) (auto simp: ExecuteChildWorkflow_def)
  qed
qed

lemma delegates: "wacts P (delegateToSubAgent te run trt win tc route)"
  unfolding delegateToSubAgent_def [abs_def] Let_def by (intro act_rules emits runs_child lifecycle_simps)

lemma executes: "wacts P (wf_execute te run trt win it tc)"
  unfolding wf_execute_def [abs_def] by (intro act_rules delegates acts_tool scoped)

lemma contents: "wacts P (wf_content te run trt win it tc st)"
  using executes by (cases st) (simp_all add: wf_content_def [abs_def] wacts_done)

lemma calls: "wacts P (executeAgentToolCall te run trt win mid it tc off)"
  unfolding executeAgentToolCall_def [abs_def] Let_def by (intro act_rules announces ends asks contents)

lemma settles: "wacts P (wf_call te run trt win mid it tc)"
proof (rule wactsI)
  fix w r w'
  assume c: "wf_call te run trt win mid it tc w = (r, w')"
  obtain x w1 where x: "executeAgentToolCall te run trt win mid it tc (streamingUnavailable w) w = (x, w1)" by fastforce
  show "adds P (wfSt w) (wfSt w')" using c x wactsD [OF calls x] by (simp add: wf_call_def)
qed

lemma sequence: "wacts P (wf_sequential te run trt win mid it tcs)"
proof (induction tcs)
  case (Cons tc tcs)
  show ?case
  proof (rule wactsI)
    fix w rs w'
    assume c: "wf_sequential te run trt win mid it (tc # tcs) w = (rs, w')"
    obtain r off w1 where r: "wf_call te run trt win mid it tc w = ((r, off), w1)" by (metis prod.exhaust)
    define w2 where "w2 = (if off then w1\<lparr>streamingUnavailable := True\<rparr> else w1)"
    obtain rs' w3 where rs: "wf_sequential te run trt win mid it tcs w2 = (rs', w3)" by fastforce
    have "adds P (wfSt w2) (wfSt w3)" using wactsD [OF Cons.IH rs] .
    moreover have "wfSt w2 = wfSt w1" "w' = w3" using c r rs by (simp_all add: w2_def)
    ultimately show "adds P (wfSt w) (wfSt w')" using wactsD [OF settles r] by (auto intro: adds_trans)
  qed
qed (simp add: wacts_def)

lemma coroutines: "wacts P (\<lambda>w. run_parallel (\<lambda>i. wf_call te run trt win mid it (tcs ! i)) order slots w)"
proof (induction order arbitrary: slots)
  case (Cons i order)
  then show ?case by (auto simp: wacts_def split: prod.split) (metis adds_trans settles wacts_def snd_conv)
qed (simp add: wacts_def)

lemma concurrent: "wacts P (wf_parallel te run trt win mid it tcs)"
proof (rule wactsI)
  fix w rs w'
  assume p: "wf_parallel te run trt win mid it tcs w = (rs, w')"
  obtain order w1 where o: "on_st (ext (schedule (teEnv te) (length tcs))) w = (order, w1)" by fastforce
  obtain slots w2 where r: "run_parallel (\<lambda>i. wf_call te run trt win mid it (tcs ! i)) order Map.empty w1 = (slots, w2)"
    by fastforce
  have "wfSt w' = wfSt w2" using p o r by (auto simp: wf_parallel_def Let_def)
  then show "adds P (wfSt w) (wfSt w')"
    using adds_trans [OF wactsD [OF wacts_on_st [OF acts_ext] o] wactsD [OF coroutines r]] by simp
qed

end

text \<open>And so is whatever a run adds, when calls of the model and saves of the conversation have it.\<close>

locale wf_run_frame = wf_frame P run win
  for P :: "effect \<Rightarrow> bool" and run :: "'w child_run" and win :: AgentWorkflowInput +
  fixes trt :: "'w TemporalRuntime"
  assumes model: "llm_effect e \<Longrightarrow> P e"
    and conversation: "temporal_conversation_enabled trt (wiConversationID win) \<Longrightarrow>
      P (ConversationAdded (wiConversationID win) m)"
begin

lemma asks_model: "wacts P (wf_llm te trt win ctx mid it skip wl)"
  unfolding wf_llm_def [abs_def] Let_def by (intro act_rules acts_llm model)

lemma forces: "wacts P (wf_final_call te trt win ctx mid it wl)"
  unfolding wf_final_call_def [abs_def] by (intro act_rules asks_model)

lemma saves:
  assumes "temporal_conversation_enabled trt (wiConversationID win)"
  shows "acts P (AddConversationMessagesActivity te trt win ms)"
proof -
  have "adds P s (foldl (\<lambda>s m. add_message conv (wiConversationID win) m s) s ms)" for conv :: "'w Conversation" and s
  proof (induction ms arbitrary: s)
    case (Cons m ms)
    have "adds P s (add_message conv (wiConversationID win) m s)"
      using conversation [OF assms, of m] by (simp add: adds_def add_message_def)
    then show ?case using Cons.IH [of "add_message conv (wiConversationID win) m s"] by (auto intro: adds_trans)
  qed simp
  then have "acts P (\<lambda>s. (Inr () :: goerr + unit, foldl (\<lambda>s m. add_message conv (wiConversationID win) m s) s ms))"
    for conv :: "'w Conversation"
    by (simp add: acts_def)
  then show ?thesis unfolding AddConversationMessagesActivity_def [abs_def] by (intro act_rules)
qed

lemma saves_iteration: "wacts P (wf_save_iteration te trt win wl)"
proof (cases "temporal_conversation_enabled trt (wiConversationID win)")
  case True
  show ?thesis unfolding wf_save_iteration_def [abs_def] by (intro act_rules saves True)
qed (simp add: wf_save_iteration_def [abs_def] wacts_done)

lemma rounds: "wacts P (wf_tool_round te run trt win mid it r wl)"
proof -
  have fin: "wacts P (\<lambda>w. case wf_save_iteration te trt win wl1 w of
      (wl2, w2) \<Rightarrow> (case on_st (ext (history_full te)) w2 of (full, w3) \<Rightarrow> (if full then WAsNew wl2 else WContinue wl2, w3)))" for wl1
    by (intro act_rules saves_iteration)
  have "wacts P (\<lambda>w. case f w of (rs, w1) \<Rightarrow> (case wf_save_iteration te trt win (upd rs) w1 of
      (wl2, w2) \<Rightarrow> (case on_st (ext (history_full te)) w2 of (full, w3) \<Rightarrow> (if full then WAsNew wl2 else WContinue wl2, w3))))"
    if "wacts P f" for f :: "'w wf \<Rightarrow> toolResult list \<times> 'w wf" and upd
    by (intro act_rules saves_iteration that)
  note fin = this [OF sequence] this [OF concurrent]
  show ?thesis
    by (cases "rtToolMode (tmpBase trt)")
       (auto simp: wf_tool_round_def [abs_def] Let_def wacts_done intro!: fin)
qed

lemma iterations: "wacts P (wf_iter te run trt win ctx it wl)"
  unfolding wf_iter_def [abs_def] Let_def by (intro act_rules asks_model forces rounds)

lemma loops: "wacts P (wf_loop (wf_iter te run trt win ctx) k it wl)"
proof (induction k arbitrary: it wl)
  case (Suc k)
  show ?case
  proof (rule wactsI)
    fix w r w'
    assume l: "wf_loop (wf_iter te run trt win ctx) (Suc k) it wl w = (r, w')"
    obtain st w1 where st: "wf_iter te run trt win ctx it wl w = (st, w1)" by fastforce
    show "adds P (wfSt w) (wfSt w')"
      using l st wactsD [OF iterations st] wactsD [OF Suc.IH] by (cases st) (auto intro: adds_trans)
  qed
qed (simp add: wacts_def)

lemma recalls: "wacts P (wf_recall te trt win tel)"
  unfolding wf_recall_def [abs_def] by (intro act_rules acts_recall scoped)

lemma prefetches: "wacts P (wf_prefetch te trt win tel)"
  unfolding wf_prefetch_def [abs_def] by (intro act_rules acts_retrievers scoped)

lemma saves_rest: "wacts P (wf_save_rest te trt win wl)"
proof (cases "temporal_conversation_enabled trt (wiConversationID win)")
  case True
  show ?thesis unfolding wf_save_rest_def [abs_def] by (intro act_rules saves True)
qed (simp add: wf_save_rest_def [abs_def] wacts_done)

lemma stores: "wacts P (wf_store te trt win wl)"
  unfolding wf_store_def [abs_def] Let_def by (intro act_rules acts_store scoped)

lemma finishes: "wacts P (wf_finish te trt win wl)"
  unfolding wf_finish_def [abs_def] Let_def by (intro act_rules saves_rest stores)

lemma starts: "wacts P (wf_telemetry te st)"
  unfolding wf_telemetry_def [abs_def] Let_def by (intro act_rules)

lemma workflow: "acts P (AgentWorkflow te run trt win)"
proof (rule actsI)
  fix s r s'
  assume wf: "AgentWorkflow te run trt win s = (r, s')"
  define st where "st = initial_state win"
  define w0 where "w0 = \<lparr>wfSt = snd (ext (uuid (teEnv te)) s), streamingUnavailable = False\<rparr>"
  obtain tel0 w1 where t: "wf_telemetry te st w0 = (tel0, w1)" by fastforce
  define body where "body = (\<lambda>w1.
            on_ok (wf_recall te trt win tel0 w1) (\<lambda>(mem, tel1) w2.
            on_ok (wf_prefetch te trt win tel1 w2) (\<lambda>(docs, tel2) w3.
            on_ok (wf_loop (wf_iter te run trt win
                     \<lparr>wcMemory = mem, wcRetriever = docs,
                      wcStreaming = wiStreamingEnabled win \<and> IsStreamSupported (rtClient (tmpBase trt))\<rparr>)
                     (nat (rtMaxIterations (tmpBase trt) - wsIteration st)) (wsIteration st) (wf_start trt st tel2) w3) (\<lambda>(again, wl) w4.
              (case again of
                 Some iter \<Rightarrow> (Inr (WfAsNew (as_new_input win iter wl)), w4)
               | None \<Rightarrow> on_ok (wf_finish te trt win wl w4) (\<lambda>r w5. (Inr (WfResult r), w5)))))))"
  obtain res w where b: "body w1 = (res, w)" by fastforce
  have "wacts P body" unfolding body_def by (intro act_rules recalls prefetches loops finishes)
  then have "adds P (wfSt w1) (wfSt w)" using b by (rule wactsD)
  moreover have "adds P (wfSt w0) (wfSt w1)" using wactsD [OF starts t] .
  moreover have "adds P s (wfSt w0)" by (simp add: w0_def adds_eq)
  moreover have "s' = wfSt w"
    using wf t b unfolding AgentWorkflow_def Let_def body_def st_def w0_def by simp
  ultimately show "adds P s s'" by (blast intro: adds_trans)
qed

lemma later: "wf_run_frame P run (win\<lparr>wiState := st\<rparr>) trt"
proof
  fix tc route sfx sub
  have "childInput (win\<lparr>wiState := st\<rparr>) tc route sfx = childInput win tc route sfx" by (simp add: childInput_def)
  then show "acts P (run sub (childInput (win\<lparr>wiState := st\<rparr>) tc route sfx))" using child by simp
qed (simp_all add: published scoped model conversation)

end

text \<open>Continuing as new changes nothing but the state handed on.\<close>

lemma AgentWorkflow_as_new:
  "AgentWorkflow te run trt win s = (WfAsNew win', s') \<Longrightarrow> \<exists>st. win' = win\<lparr>wiState := st\<rparr>"
  unfolding AgentWorkflow_def Let_def
  by (auto simp: as_new_input_def on_ok_def split: prod.splits sum.splits option.splits)

lemma restarts_acts: "wf_run_frame P run win trt \<Longrightarrow> acts P (run_restarts te run n trt win)"
proof (induction n arbitrary: win)
  case (Suc n)
  show ?case
  proof (rule actsI)
    fix s r s'
    assume x: "run_restarts te run (Suc n) trt win s = (r, s')"
    obtain o1 s1 where o1: "AgentWorkflow te run trt win s = (o1, s1)" by fastforce
    have a: "adds P s s1" using actsD [OF wf_run_frame.workflow [OF Suc.prems] o1] .
    show "adds P s s'"
    proof (cases o1)
      case (WfAsNew win')
      then obtain st where "win' = win\<lparr>wiState := st\<rparr>" using AgentWorkflow_as_new o1 by blast
      then have "acts P (run_restarts te run n trt win')" using Suc.IH wf_run_frame.later [OF Suc.prems] by blast
      then have "adds P s1 s'" by (rule actsD) (use x o1 WfAsNew in simp)
      with a show ?thesis by (rule adds_trans)
    qed (use x o1 a in auto)
  qed
qed (simp add: acts_def)

lemma run_workflow_acts: "wf_run_frame P run win trt \<Longrightarrow> acts P (run_workflow te run trt win)"
  unfolding run_workflow_def [abs_def] by (rule restarts_acts)

end
