(* ===== verification/TemporalRun.thy ===== *)
theory TemporalRun
  imports TemporalFacts
begin

text \<open>
  A whole run of the agent workflow: continuing as new ends, nesting of child workflows, what guards a
  tool call, and a worker whose configuration differs from the caller's.
\<close>

section \<open>Continuing as new ends\<close>

lemma wf_final_no_new: "wf_final_call te trt win ctx mid it wl w = (st, w') \<Longrightarrow> st \<noteq> WAsNew wl'"
  by (auto simp: wf_final_call_def split: prod.splits sum.splits)

lemma wf_iter_as_new:
  assumes "wf_iter te run trt win ctx it wl w = (WAsNew wl', w')"
  shows "it \<noteq> rtMaxIterations (tmpBase trt) - 1"
  using assms by (auto simp: wf_iter_def Let_def dest: wf_final_no_new split: prod.splits sum.splits if_splits)

lemma wf_loop_as_new:
  "wf_loop (wf_iter te run trt win ctx) k it wl w = (Inr (Some it', wl'), w') \<Longrightarrow>
   it + int k \<le> rtMaxIterations (tmpBase trt) \<Longrightarrow> it < it' \<and> it' < rtMaxIterations (tmpBase trt)"
proof (induction k arbitrary: it wl w)
  case (Suc k)
  obtain st w1 where st: "wf_iter te run trt win ctx it wl w = (st, w1)" by fastforce
  show ?case
  proof (cases st)
    case (WContinue wl1)
    then show ?thesis using Suc.IH [of "it + 1" wl1 w1] Suc.prems st by simp
  next
    case (WAsNew wl1)
    then show ?thesis using Suc.prems st wf_iter_as_new [OF st [unfolded WAsNew]] by auto
  qed (use Suc.prems st in auto)
qed simp

lemma initial_state_as_new [simp]: "wsIteration (initial_state (as_new_input win it wl)) = it"
  by (simp add: initial_state_def as_new_input_def)

lemma AgentWorkflow_progress:
  assumes "AgentWorkflow te run trt win s = (WfAsNew win', s')"
  shows "wsIteration (initial_state win) < wsIteration (initial_state win')"
    and "wsIteration (initial_state win') < rtMaxIterations (tmpBase trt)"
proof -
  define it where "it = wsIteration (initial_state win)"
  obtain ctx wl0 w3 it' wl w4 where l: "wf_loop (wf_iter te run trt win ctx) (nat (rtMaxIterations (tmpBase trt) - it)) it
      wl0 w3 = (Inr (Some it', wl), w4)" and win': "win' = as_new_input win it' wl"
    using assms unfolding AgentWorkflow_def Let_def it_def [symmetric]
    by (auto simp: on_ok_def split: prod.splits sum.splits option.splits)
  have "it < it' \<and> it' < rtMaxIterations (tmpBase trt)"
  proof (cases "it < rtMaxIterations (tmpBase trt)")
    case True
    then show ?thesis using wf_loop_as_new [OF l] by simp
  next
    case False
    then show ?thesis using l by simp
  qed
  then show "wsIteration (initial_state win) < wsIteration (initial_state win')"
    "wsIteration (initial_state win') < rtMaxIterations (tmpBase trt)"
    by (simp_all add: win' it_def)
qed

definition restarts_left :: "'w TemporalRuntime \<Rightarrow> AgentWorkflowInput \<Rightarrow> nat" where
  "restarts_left trt win = nat (rtMaxIterations (tmpBase trt) - wsIteration (initial_state win))"

lemma restarts_left_as_new:
  "AgentWorkflow te run trt win s = (WfAsNew win', s') \<Longrightarrow> restarts_left trt win' < restarts_left trt win"
  using AgentWorkflow_progress [of te run trt win s win' s'] by (simp add: restarts_left_def)

lemma run_restarts_enough:
  "restarts_left trt win < m \<Longrightarrow> restarts_left trt win < n \<Longrightarrow>
   run_restarts te run m trt win s = run_restarts te run n trt win s"
proof (induction m arbitrary: n win s)
  case (Suc m)
  obtain n' where n: "n = Suc n'" using Suc.prems by (cases n) auto
  obtain o1 s1 where o1: "AgentWorkflow te run trt win s = (o1, s1)" by fastforce
  show ?case
  proof (cases o1)
    case (WfAsNew win')
    have "restarts_left trt win' < m" "restarts_left trt win' < n'"
      using restarts_left_as_new [OF o1 [unfolded WfAsNew]] Suc.prems n by simp_all
    from Suc.IH [OF this] show ?thesis using o1 WfAsNew n by simp
  qed (use o1 n in simp_all)
qed simp

text \<open>So a run satisfies the recursion of the service.\<close>

lemma run_workflow_rec:
  "run_workflow te run trt win s =
     (case AgentWorkflow te run trt win s of
        (WfResult r, s1) \<Rightarrow> (Inr r, s1)
      | (WfError e, s1) \<Rightarrow> (Inl e, s1)
      | (WfAsNew win', s1) \<Rightarrow> run_workflow te run trt win' s1)"
proof -
  have rw: "run_workflow te run trt win s = run_restarts te run (Suc (restarts_left trt win)) trt win s" for win s
    by (simp add: run_workflow_def restarts_left_def)
  obtain o1 s1 where o1: "AgentWorkflow te run trt win s = (o1, s1)" by fastforce
  show ?thesis
  proof (cases o1)
    case (WfAsNew win')
    then have "restarts_left trt win' < restarts_left trt win" using restarts_left_as_new o1 by blast
    then have "run_restarts te run (restarts_left trt win) trt win' s1 = run_workflow te run trt win' s1"
      unfolding rw by (intro run_restarts_enough) simp_all
    then show ?thesis using o1 WfAsNew by (simp add: rw [of win])
  qed (use o1 in \<open>simp_all add: rw\<close>)
qed

section \<open>Nesting\<close>

definition wf_agree :: "'w child_run \<Rightarrow> 'w child_run \<Rightarrow> AgentWorkflowInput \<Rightarrow> bool" where
  "wf_agree run1 run2 win \<longleftrightarrow>
     (wiSubAgentDepth win < wiMaxSubAgentDepth win \<longrightarrow>
        (\<forall>sub tc route sfx s. run1 sub (childInput win tc route sfx) s = run2 sub (childInput win tc route sfx) s))"

lemma delegateToSubAgent_cong:
  assumes "wf_agree run1 run2 win"
  shows "delegateToSubAgent te run1 trt win tc route w = delegateToSubAgent te run2 trt win tc route w"
proof (cases "wiSubAgentDepth win < wiMaxSubAgentDepth win")
  case True
  then have "ExecuteChildWorkflow te run1 q (childInput win tc route sfx) s
      = ExecuteChildWorkflow te run2 q (childInput win tc route sfx) s" for q sfx s
    using assms by (auto simp: ExecuteChildWorkflow_def wf_agree_def split: option.split prod.split fate.split)
  then have "ExecuteChildWorkflow te run1 q (childInput win tc route sfx)
      = ExecuteChildWorkflow te run2 q (childInput win tc route sfx)" for q sfx by blast
  then show ?thesis by (simp add: delegateToSubAgent_def)
qed (simp add: delegateToSubAgent_def)

lemma AgentWorkflow_cong:
  assumes "wf_agree run1 run2 win"
  shows "AgentWorkflow te run1 trt win s = AgentWorkflow te run2 trt win s"
proof -
  have d: "delegateToSubAgent te run1 trt win = delegateToSubAgent te run2 trt win"
    by (intro HOL.ext) (rule delegateToSubAgent_cong [OF assms])
  have e: "wf_execute te run1 trt win = wf_execute te run2 trt win"
    unfolding wf_execute_def [abs_def] d ..
  have c: "wf_content te run1 trt win = wf_content te run2 trt win"
    unfolding wf_content_def [abs_def] e ..
  have t: "wf_call te run1 trt win = wf_call te run2 trt win"
    unfolding wf_call_def [abs_def] executeAgentToolCall_def c ..
  have sq: "wf_sequential te run1 trt win mid it tcs w = wf_sequential te run2 trt win mid it tcs w" for mid it tcs w
    by (induction tcs arbitrary: w) (simp_all add: t)
  have s: "wf_sequential te run1 trt win = wf_sequential te run2 trt win"
    by (intro HOL.ext) (rule sq)
  have p: "wf_parallel te run1 trt win = wf_parallel te run2 trt win"
    unfolding wf_parallel_def [abs_def] t ..
  have r: "wf_tool_round te run1 trt win = wf_tool_round te run2 trt win"
    unfolding wf_tool_round_def [abs_def] s p ..
  have i: "wf_iter te run1 trt win = wf_iter te run2 trt win"
    unfolding wf_iter_def [abs_def] r ..
  show ?thesis unfolding AgentWorkflow_def i ..
qed

lemma wf_agree_state: "wf_agree run1 run2 win \<Longrightarrow> wf_agree run1 run2 (win\<lparr>wiState := st\<rparr>)"
  by (simp add: wf_agree_def childInput_def)

lemma run_workflow_cong:
  "wf_agree run1 run2 win \<Longrightarrow> run_workflow te run1 trt win s = run_workflow te run2 trt win s"
proof (induction "restarts_left trt win" arbitrary: win s rule: less_induct)
  case less
  note eq = AgentWorkflow_cong [OF less.prems, of te trt s]
  obtain o1 s1 where o1: "AgentWorkflow te run2 trt win s = (o1, s1)" by fastforce
  show ?case
  proof (cases o1)
    case (WfAsNew win')
    have "wf_agree run1 run2 win'"
      using AgentWorkflow_as_new [OF o1 [unfolded WfAsNew]] wf_agree_state [OF less.prems] by blast
    then have "run_workflow te run1 trt win' s1 = run_workflow te run2 trt win' s1"
      using less.hyps restarts_left_as_new [OF o1 [unfolded WfAsNew]] by blast
    then show ?thesis using o1 eq WfAsNew
      by (simp add: run_workflow_rec [of te run1 trt win] run_workflow_rec [of te run2 trt win])
  qed (use o1 eq in \<open>simp_all add: run_workflow_rec [of te run1 trt win] run_workflow_rec [of te run2 trt win]\<close>)
qed

text \<open>A child starts with the maximal depth zero, so it never delegates.\<close>

lemma child_agrees: "0 \<le> wiSubAgentDepth win \<Longrightarrow> wf_agree run1 run2 (childInput win tc route sfx)"
  by (simp add: wf_agree_def childInput_def)

lemma child_refuses:
  assumes "0 \<le> wiSubAgentDepth win" and "trim_space (trTaskQueue route) \<noteq> []"
  shows "delegateToSubAgent te run trt (childInput win tc0 route0 sfx) tc route w =
    (Inr ''Sub-agent delegation refused: maximum nesting depth (0) reached for this agent.'', w)"
proof -
  have "nat_to_str 0 = ''0''" by (subst nat_to_str.simps) code_simp
  then show ?thesis using assms by (simp add: delegateToSubAgent_def childInput_def int_to_str_def)
qed

lemma wf_level_two:
  assumes "0 \<le> wiSubAgentDepth win"
  shows "wf_level te (Suc (Suc n)) trt win s = wf_level te 2 trt win s"
proof -
  have "wf_agree (wf_level te (Suc n)) (wf_level te 1) win"
    unfolding wf_agree_def
  proof (intro impI allI)
    fix sub tc route sfx and s :: "'a st"
    show "wf_level te (Suc n) sub (childInput win tc route sfx) s = wf_level te 1 sub (childInput win tc route sfx) s"
      using run_workflow_cong [OF child_agrees [OF assms]] by simp
  qed
  from run_workflow_cong [OF this] show ?thesis by (simp add: numeral_2_eq_2)
qed

section \<open>The gate before a tool\<close>

definition published_only :: "effect \<Rightarrow> bool" where
  "published_only e = (case e of Published _ _ \<Rightarrow> True | _ \<Rightarrow> False)"

interpretation gate: wf_events published_only
  by unfold_locales (simp add: published_only_def)

text \<open>The policy allows the call, and an approval, where one is needed, was asked for and given.\<close>

definition wf_cleared :: "'w TEnv \<Rightarrow> 'w TemporalRuntime \<Rightarrow> AgentWorkflowInput \<Rightarrow> string \<Rightarrow> ToolCallRequest \<Rightarrow> bool \<Rightarrow> 'w wf \<Rightarrow> bool" where
  "wf_cleared te trt win mid tc off w =
     (case wf_announce te trt win mid tc w of
        (Inl _, _) \<Rightarrow> False
      | (Inr _, w1) \<Rightarrow>
          (case on_st (ExecuteActivity te agentToolAuthorizeActivityMaxAttempts (AgentToolAuthorizeActivity te trt win tc)) w1 of
             (Inl _, _) \<Rightarrow> False
           | (Inr auth, w2) \<Rightarrow> Allowed auth \<and>
               (tcrNeedsApproval tc \<longrightarrow>
                  (\<exists>mark. fst (wf_approval te trt win tc off w2) = Inr (ApprovalStatusApproved, mark)))))"

lemma wf_content_refused:
  assumes "st \<noteq> ApprovalStatusApproved"
  shows "\<exists>r. wf_content te run trt win it tc st w = (r, w)"
  using assms by (cases st) (simp_all add: wf_content_def)

lemma not_cleared_published:
  assumes no: "\<not> wf_cleared te trt win mid tc off w"
    and x: "executeAgentToolCall te run trt win mid it tc off w = (r, w')"
  shows "adds published_only (wfSt w) (wfSt w')"
proof -
  obtain a w1 where a: "wf_announce te trt win mid tc w = (a, w1)" by fastforce
  have a1: "adds published_only (wfSt w) (wfSt w1)" using wactsD [OF gate.announces a] .
  obtain b w2 where b: "on_st (ExecuteActivity te agentToolAuthorizeActivityMaxAttempts
      (AgentToolAuthorizeActivity te trt win tc)) w1 = (b, w2)" by fastforce
  have a2: "adds published_only (wfSt w) (wfSt w2)"
    using a1 wactsD [OF wacts_on_st [OF acts_activity [OF acts_authorize]] b] by (rule adds_trans)
  obtain c w3 where c: "wf_approval te trt win tc off w2 = (c, w3)" by fastforce
  have a3: "adds published_only (wfSt w) (wfSt w3)" using a2 wactsD [OF gate.asks c] by (rule adds_trans)
  have end_adds: "adds published_only (wfSt w) (wfSt w5)"
    if "wf_end_result te trt win mid i d w4 = (q, w5)" and "adds published_only (wfSt w) (wfSt w4)" for i d w4 q w5
    using adds_trans [OF that(2) wactsD [OF gate.ends that(1)]] .
  show ?thesis
  proof (cases "\<exists>u auth. a = Inr u \<and> b = Inr auth")
    case False
    then show ?thesis using x a b a1 a2 by (cases a; cases b) (auto simp: executeAgentToolCall_def)
  next
    case True
    then obtain u auth where ok: "a = Inr u" "b = Inr auth" by blast
    show ?thesis
    proof (cases "Allowed auth")
      case False
      obtain q w5 where q: "wf_end_result te trt win mid (tcrID tc) (FormatAuthorizationDeniedMessage (Reason auth)) w2 = (q, w5)"
        by fastforce
      then show ?thesis using x a b ok False end_adds [OF q a2]
        by (cases q) (auto simp: executeAgentToolCall_def Let_def)
    next
      case True
      show ?thesis
      proof (cases c)
        case (Inl e)
        then show ?thesis using x a b ok True c a3 by (simp add: executeAgentToolCall_def)
      next
        case (Inr sm)
        obtain st mark where sm: "sm = (st, mark)" by fastforce
        have "st \<noteq> ApprovalStatusApproved"
        proof
          assume "st = ApprovalStatusApproved"
          moreover then have "tcrNeedsApproval tc"
            using no a b ok True by (simp add: wf_cleared_def)
          ultimately show False using no a b ok True c Inr sm by (simp add: wf_cleared_def)
        qed
        then obtain d where d: "wf_content te run trt win it tc st w3 = (d, w3)" using wf_content_refused by blast
        show ?thesis
        proof (cases d)
          case (Inl e)
          then show ?thesis using x a b ok True c Inr sm d a3 \<open>c = Inr sm\<close> by (simp add: executeAgentToolCall_def)
        next
          case (Inr cf)
          obtain content failed where cf: "cf = (content, failed)" by fastforce
          obtain q w5 where q: "wf_end_result te trt win mid (tcrID tc) content w3 = (q, w5)" by fastforce
          then show ?thesis using x a b ok True c \<open>c = Inr sm\<close> sm d Inr cf end_adds [OF q a3]
            by (cases q) (auto simp: executeAgentToolCall_def)
        qed
      qed
    qed
  qed
qed

section \<open>A worker of another configuration\<close>

text \<open>No set of tools the worker may resolve yields the fingerprint of the caller.\<close>

definition stale :: "'w TEnv \<Rightarrow> 'w TemporalRuntime \<Rightarrow> string \<Rightarrow> bool" where
  "stale te trt fp \<longleftrightarrow> \<not> disableFingerprintCheck trt \<and> fp \<noteq> [] \<and>
     (\<forall>tools. computeAgentFingerprintFromRuntime te trt tools \<noteq> fp)"

text \<open>A step that fails without leaving a trace.\<close>

definition fails :: "('w st \<Rightarrow> (goerr + 'r) \<times> 'w st) \<Rightarrow> bool" where
  "fails f \<longleftrightarrow> (\<forall>s. \<exists>e s'. f s = (Inl e, s') \<and> trace s' = trace s)"

named_theorems fail_rules

lemma failsD: "fails f \<Longrightarrow> f s = (r, s') \<Longrightarrow> (\<exists>e. r = Inl e) \<and> trace s' = trace s"
  unfolding fails_def by (metis prod.inject)

lemma fails_attempts: "fails f \<Longrightarrow> fails (run_attempts te k f err)"
proof (induction k arbitrary: err)
  case (Suc k)
  show ?case unfolding fails_def
  proof
    fix s
    obtain ft s1 where ft: "ext (fate te) s = (ft, s1)" by fastforce
    obtain x s2 where x: "f s1 = (x, s2)" by fastforce
    have t: "trace s1 = trace s" "trace s2 = trace s" "\<exists>e. x = Inl e"
      using trace_ext [OF ft] failsD [OF Suc.prems x] by auto
    have again: "\<exists>e s'. run_attempts te k f err t = (Inl e, s') \<and> trace s' = trace t" for err t
      using Suc.IH [OF Suc.prems] by (simp add: fails_def)
    show "\<exists>e s'. run_attempts te (Suc k) f err s = (Inl e, s') \<and> trace s' = trace s"
      using t ft x again [of _ s1] again [of _ s2] by (cases ft) auto
  qed
qed (simp add: fails_def)

lemma fails_activity [fail_rules]: "fails f \<Longrightarrow> fails (ExecuteActivity te k f)"
  unfolding ExecuteActivity_def [abs_def] by (rule fails_attempts)

lemma fetchTools_trace: "fetchTools trt s = (r, s') \<Longrightarrow> trace s' = trace s"
  by (auto simp: fetchTools_def dest: trace_ext split: option.splits)

lemma stale_verify [fail_rules]:
  assumes "stale te trt fp"
  shows "fails (\<lambda>s. on_ok (verifyAgentFingerprint te trt fp tools s) k)"
  unfolding fails_def
proof
  fix s
  obtain x s1 where x: "(case tools of None \<Rightarrow> fetchTools trt s | Some ts \<Rightarrow> (Inr ts, s)) = (x, s1)" by fastforce
  have "trace s1 = trace s" using x fetchTools_trace by (auto split: option.splits)
  then show "\<exists>e s'. on_ok (verifyAgentFingerprint te trt fp tools s) k = (Inl e, s') \<and> trace s' = trace s"
    using assms x by (cases x) (simp_all add: verifyAgentFingerprint_def stale_def)
qed

lemma fails_fetch [fail_rules]:
  assumes "\<And>tools. fails (k tools)"
  shows "fails (\<lambda>s. on_ok (fetchTools trt s) k)"
  unfolding fails_def
proof
  fix s
  obtain x s1 where x: "fetchTools trt s = (x, s1)" by fastforce
  note t = fetchTools_trace [OF x]
  show "\<exists>e s'. on_ok (fetchTools trt s) k = (Inl e, s') \<and> trace s' = trace s"
  proof (cases x)
    case (Inr ts)
    obtain y s2 where "k ts s1 = (y, s2)" by fastforce
    then show ?thesis using x t Inr failsD [OF assms] by fastforce
  qed (use x t in simp)
qed

lemmas activity_defs = llm_activity_def [abs_def] AgentRetrieverActivity_def [abs_def] AgentMemoryRecallActivity_def [abs_def]
  AgentMemoryStoreActivity_def [abs_def] AddConversationMessagesActivity_def [abs_def]

lemma stale_activities [fail_rules]:
  "stale te trt (aliFingerprint ali) \<Longrightarrow> fails (llm_activity b te trt ali)"
  "stale te trt (wiFingerprint win) \<Longrightarrow> fails (AgentRetrieverActivity te trt win)"
  "stale te trt (wiFingerprint win) \<Longrightarrow> fails (AgentMemoryRecallActivity te trt win)"
  "stale te trt (wiFingerprint win) \<Longrightarrow> fails (AgentMemoryStoreActivity te trt win ms)"
  "stale te trt (wiFingerprint win) \<Longrightarrow> fails (AddConversationMessagesActivity te trt win ms)"
  unfolding activity_defs by (intro fail_rules; assumption)+

lemma fails_on_st: "fails f \<Longrightarrow> \<exists>e w'. on_st f w = (Inl e, w') \<and> trace (wfSt w') = trace (wfSt w)"
  by (auto simp: on_st_def dest: failsD split: prod.split)

lemma stale_llm:
  assumes "stale te trt (wiFingerprint win)"
  shows "\<exists>e w'. wf_llm te trt win ctx mid it skip wl w = (Inl e, w') \<and> trace (wfSt w') = trace (wfSt w)"
proof -
  have "stale te trt (aliFingerprint (wf_llm_input win ctx mid it ms skip))" for ms
    using assms by (simp add: wf_llm_input_def)
  then obtain e w' where "on_st (ExecuteActivity te agentLLMActivityMaxAttempts
      (llm_activity (wcStreaming ctx) te trt (wf_llm_input win ctx mid it (wlMessages wl) skip))) w = (Inl e, w')"
      "trace (wfSt w') = trace (wfSt w)"
    using fails_on_st [OF fails_activity [OF stale_activities(1)]] by blast
  then show ?thesis by (simp add: wf_llm_def)
qed

lemma stale_loop:
  assumes st: "stale te trt (wiFingerprint win)" and l: "wf_loop (wf_iter te run trt win ctx) k it wl w = (r, w')"
  shows "trace (wfSt w') = trace (wfSt w) \<and> (0 < k \<longrightarrow> isl r) \<and> (k = 0 \<longrightarrow> r = Inr (None, wl))"
proof (cases k)
  case (Suc n)
  obtain mid w1 where u: "on_st (ext (uuid (teEnv te))) w = (mid, w1)" by fastforce
  obtain e w2 where m: "wf_llm te trt win ctx mid it False wl w1 = (Inl e, w2)" "trace (wfSt w2) = trace (wfSt w1)"
    using stale_llm [OF st] by blast
  have "trace (wfSt w1) = trace (wfSt w)" using u by (auto simp: on_st_def dest: trace_ext split: prod.splits)
  then show ?thesis using l Suc u m by (auto simp: wf_iter_def)
qed (use l in auto)

lemma stale_prefetch:
  assumes "stale te trt (wiFingerprint win)"
  shows "wf_recall te trt win tel w = (r, w') \<Longrightarrow> trace (wfSt w') = trace (wfSt w)"
    and "wf_prefetch te trt win tel w = (d, w') \<Longrightarrow> trace (wfSt w') = trace (wfSt w)"
    and "wf_save_rest te trt win wl w = (u, w') \<Longrightarrow> trace (wfSt w') = trace (wfSt w)"
    and "wf_store te trt win wl w = (v, w') \<Longrightarrow> trace (wfSt w') = trace (wfSt w)"
  using fails_on_st [OF fails_activity [OF stale_activities(3) [OF assms]], of te agentRetrieverActivityMaxAttempts w]
    fails_on_st [OF fails_activity [OF stale_activities(2) [OF assms]], of te agentRetrieverActivityMaxAttempts w]
    fails_on_st [OF fails_activity [OF stale_activities(4) [OF assms]], of te agentRetrieverActivityMaxAttempts "wlMessages wl" w]
    fails_on_st [OF fails_activity [OF stale_activities(5) [OF assms]], of te conversationActivityMaxAttempts "wlMessages wl" w]
  by (auto simp: wf_recall_def wf_prefetch_def wf_save_rest_def wf_store_def Let_def split: if_splits)

lemma stale_finish:
  assumes "stale te trt (wiFingerprint win)" and f: "wf_finish te trt win wl w = (r, w')"
  shows "trace (wfSt w') = trace (wfSt w)"
proof -
  obtain u w1 where u: "wf_save_rest te trt win wl w = (u, w1)" by fastforce
  obtain v w2 where v: "wf_store te trt win wl w1 = (v, w2)" by fastforce
  obtain d w3 where d: "on_st (ext (now (teEnv te))) w2 = (d, w3)" by fastforce
  have "trace (wfSt w1) = trace (wfSt w)" "trace (wfSt w2) = trace (wfSt w1)" "trace (wfSt w3) = trace (wfSt w2)"
    using stale_prefetch(3,4) [OF assms(1)] u v d by (auto simp: on_st_def dest: trace_ext split: prod.splits)
  then show ?thesis using f u v d by (cases u; cases v) (auto simp: wf_finish_def)
qed

lemma stale_workflow:
  assumes st: "stale te trt (wiFingerprint win)" and wf: "AgentWorkflow te run trt win s = (r, s')"
  shows "trace s' = trace s \<and> (\<forall>win'. r \<noteq> WfAsNew win') \<and>
     (wsIteration (initial_state win) < rtMaxIterations (tmpBase trt) \<longrightarrow> (\<exists>e. r = WfError e))"
proof -
  define st where "st = initial_state win"
  define w0 where "w0 = \<lparr>wfSt = snd (ext (uuid (teEnv te)) s), streamingUnavailable = False\<rparr>"
  define k where "k = nat (rtMaxIterations (tmpBase trt) - wsIteration st)"
  obtain tel0 w1 where t: "wf_telemetry te st w0 = (tel0, w1)" by fastforce
  have w1: "trace (wfSt w1) = trace s"
    using t by (auto simp: wf_telemetry_def w0_def on_st_def dest: trace_ext split: option.splits prod.splits)
  obtain a w2 where a: "wf_recall te trt win tel0 w1 = (a, w2)" by fastforce
  have w2: "trace (wfSt w2) = trace s" using stale_prefetch(1) [OF assms(1) a] w1 by simp
  note unf = AgentWorkflow_def Let_def st_def [symmetric] w0_def [symmetric] k_def [symmetric]
  show ?thesis
  proof (cases a)
    case (Inl e)
    then show ?thesis using wf t a w2 by (auto simp: unf)
  next
    case (Inr mt)
    obtain mem tel1 where mt: "mt = (mem, tel1)" by fastforce
    obtain b w3 where b: "wf_prefetch te trt win tel1 w2 = (b, w3)" by fastforce
    have w3: "trace (wfSt w3) = trace s" using stale_prefetch(2) [OF assms(1) b] w2 by simp
    show ?thesis
    proof (cases b)
      case (Inl e)
      then show ?thesis using wf t a Inr mt b w3 by (auto simp: unf)
    next
      case dt: (Inr dt)
      obtain docs tel2 where dt2: "dt = (docs, tel2)" by fastforce
      obtain c w4 where c: "wf_loop (wf_iter te run trt win \<lparr>wcMemory = mem, wcRetriever = docs,
          wcStreaming = wiStreamingEnabled win \<and> IsStreamSupported (rtClient (tmpBase trt))\<rparr>) k (wsIteration st)
          (wf_start trt st tel2) w3 = (c, w4)" by fastforce
      note l = stale_loop [OF assms(1) c]
      have w4: "trace (wfSt w4) = trace s" using l w3 by simp
      have k: "0 < k \<longleftrightarrow> wsIteration st < rtMaxIterations (tmpBase trt)" by (simp add: k_def)
      show ?thesis
      proof (cases c)
        case (Inl e)
        then show ?thesis using wf t a Inr mt b dt dt2 c w4 by (auto simp: unf)
      next
        case ok: (Inr ok)
        then have k0: "k = 0" and ok2: "ok = (None, wf_start trt st tel2)" using l by auto
        obtain d w5 where d: "wf_finish te trt win (wf_start trt st tel2) w4 = (d, w5)" by fastforce
        have "trace (wfSt w5) = trace s" using stale_finish [OF assms(1) d] w4 by simp
        then show ?thesis using wf t a Inr mt b dt dt2 c ok ok2 k0 k d by (cases d) (auto simp: unf)
      qed
    qed
  qed
qed

lemma stale_run:
  assumes "stale te trt (wiFingerprint win)"
  shows "trace (snd (run_workflow te run trt win s)) = trace s \<and>
     (wsIteration (initial_state win) < rtMaxIterations (tmpBase trt) \<longrightarrow> isl (fst (run_workflow te run trt win s)))"
proof -
  obtain o1 s1 where o1: "AgentWorkflow te run trt win s = (o1, s1)" by fastforce
  show ?thesis using stale_workflow [OF assms o1] o1
    by (cases o1) (auto simp: run_workflow_rec [of te run trt win])
qed

end
