(* ===== verification/TemporalSaved.thy ===== *)
theory TemporalSaved
  imports TemporalRun
begin

text \<open>
  What a run of the agent workflow persists, across activities that are tried again, saves that fail, and
  continuing as new: the messages of the run, each at most once and in order.
\<close>

section \<open>Tool messages\<close>

lemma error_answers [simp]: "answers (call_of tc) (BuildToolErrorResultMessage (tcrID tc) (tcrName tc) e)"
  by (simp add: BuildToolErrorResultMessage_def)

lemma executeAgentToolCall_answers:
  "executeAgentToolCall te run trt win mid it tc off w = (Inr out, w') \<Longrightarrow> answers (call_of tc) (toMsg out)"
  by (auto simp: executeAgentToolCall_def Let_def answers_def call_of_def BuildToolResultMessage_def
      BuildToolResultMessageWithLimit_def elim!: on_ok_Inr split: if_splits)

lemma wf_call_answers:
  assumes "wf_call te run trt win mid it tc w = ((r, off), w')"
  shows "answers (call_of tc) (trMessage r)"
proof -
  obtain x w1 where x: "executeAgentToolCall te run trt win mid it tc (streamingUnavailable w) w = (x, w1)" by fastforce
  show ?thesis
    using assms x executeAgentToolCall_answers [of te run trt win mid it tc "streamingUnavailable w" w "projr x" w1]
    by (cases x) (auto simp: wf_call_def wf_settle_def)
qed

lemma wf_sequential_answers:
  "wf_sequential te run trt win mid it tcs w = (rs, w') \<Longrightarrow> list_all2 answers (map call_of tcs) (map trMessage rs)"
proof (induction tcs arbitrary: w rs w')
  case (Cons tc tcs)
  obtain r off w1 where r: "wf_call te run trt win mid it tc w = ((r, off), w1)" by (metis prod.exhaust)
  define w2 where "w2 = (if off then w1\<lparr>streamingUnavailable := True\<rparr> else w1)"
  obtain rs' w3 where rs: "wf_sequential te run trt win mid it tcs w2 = (rs', w3)" by fastforce
  have "rs = r # rs'" using Cons.prems r rs by (simp add: w2_def)
  then show ?case using Cons.IH [OF rs] wf_call_answers [OF r] by simp
qed simp

lemma wf_parallel_answers:
  assumes "fair (teEnv te)" and p: "wf_parallel te run trt win mid it tcs w = (rs, w')"
  shows "list_all2 answers (map call_of tcs) (map trMessage rs)"
proof -
  define f where "f i = wf_call te run trt win mid it (tcs ! i)" for i
  obtain order w1 where o: "on_st (ext (schedule (teEnv te) (length tcs))) w = (order, w1)" by fastforce
  obtain slots w2 where r: "run_parallel f order Map.empty w1 = (slots, w2)" by fastforce
  have "order = fst (schedule (teEnv te) (length tcs) (world (wfSt w)))"
    using o by (auto simp: on_st_def ext_def Let_def split: prod.splits)
  then have order: "set order = {..<length tcs}" using assms(1) by (simp add: fair_def)
  have rs: "rs = map fst (collect_slots (zero_toolResult, False) (length tcs) slots)"
    using p o r unfolding wf_parallel_def f_def [symmetric, abs_def] by (simp add: Let_def)
  have "answers (call_of (tcs ! i)) (trMessage (rs ! i))" if i: "i < length tcs" for i
  proof -
    obtain q where q: "slots i = Some q" using run_parallel_all [OF r, of i] order i by auto
    then obtain t t' where "f i t = (q, t')" using run_parallel_slots [OF r q] by auto
    then have "answers (call_of (tcs ! i)) (trMessage (fst q))"
      using wf_call_answers unfolding f_def by (metis prod.collapse)
    then show ?thesis using i q by (simp add: rs collect_slots_def)
  qed
  moreover have "length rs = length tcs" by (simp add: rs collect_slots_def)
  ultimately show ?thesis by (simp add: list_all2_conv_all_nth)
qed

section \<open>Shared argument maps\<close>

text \<open>Messages that differ in the arguments of their calls only.\<close>

definition same_call :: "ToolCall \<Rightarrow> ToolCall \<Rightarrow> bool" where
  "same_call a b \<longleftrightarrow> tcID b = tcID a \<and> tcName b = tcName a"

definition same_shape :: "Message \<Rightarrow> Message \<Rightarrow> bool" where
  "same_shape m m' \<longleftrightarrow>
     mRole m' = mRole m \<and> mContent m' = mContent m \<and> mToolName m' = mToolName m \<and> mToolCallID m' = mToolCallID m \<and>
     list_all2 same_call (mToolCalls m) (mToolCalls m')"

lemma same_shape_refl [simp]: "same_shape m m"
  by (simp add: same_shape_def same_call_def list_all2_refl)

lemma same_shape_trans: "same_shape a b \<Longrightarrow> same_shape b c \<Longrightarrow> same_shape a c"
  using list_all2_trans [of same_call same_call same_call "mToolCalls a" "mToolCalls b" "mToolCalls c"]
  by (simp add: same_shape_def same_call_def)

lemma same_shapes_trans: "list_all2 same_shape xs ys \<Longrightarrow> list_all2 same_shape ys zs \<Longrightarrow> list_all2 same_shape xs zs"
  by (rule list_all2_trans [OF same_shape_trans])

lemma same_shapes_refl [simp]: "list_all2 same_shape ms ms"
  by (simp add: list_all2_refl)

lemma set_call_args_shape: "same_shape m (set_call_args i args m)"
  by (auto simp: same_shape_def same_call_def set_call_args_def list_all2_conv_all_nth nth_list_update)

lemma update_shape: "list_all2 same_shape ms (ms[k := set_call_args i args (ms ! k)])"
  by (cases "k < length ms") (auto simp: list_all2_conv_all_nth nth_list_update set_call_args_shape)

lemma relink_slot_shape: "list_all2 same_shape ms (relink_slot i sl ms)"
proof -
  have "list_all2 same_shape ms (foldl (\<lambda>ms k. ms[k := set_call_args i args (ms ! k)]) ms ks)" for args ks
    by (induction ks arbitrary: ms) (auto intro: same_shapes_trans [OF update_shape])
  then show ?thesis by (simp add: relink_slot_def)
qed

lemma relink_shape: "list_all2 same_shape ms (relink slots ms)"
proof -
  have "list_all2 same_shape ms (foldl (\<lambda>ms (i, sl). relink_slot i sl ms) ms xs)" for xs
    by (induction xs arbitrary: ms) (auto intro: same_shapes_trans [OF relink_slot_shape])
  then show ?thesis by (simp add: relink_def)
qed

lemma same_shape_answers: "same_call a b \<Longrightarrow> same_shape m m' \<Longrightarrow> answers a m \<Longrightarrow> answers b m'"
  by (auto simp: answers_def same_shape_def same_call_def)

lemma paired_shape: "paired ms \<Longrightarrow> list_all2 same_shape ms ms' \<Longrightarrow> paired ms'"
proof (induction ms arbitrary: ms' rule: paired.induct)
  case (2 m ms)
  then obtain m' ns where ms': "ms' = m' # ns" "same_shape m m'" "list_all2 same_shape ms ns"
    by (auto simp: list_all2_Cons1)
  let ?n = "length (mToolCalls m)"
  have calls: "list_all2 same_call (mToolCalls m) (mToolCalls m')" and role: "mRole m' = RoleAssistant"
    using ms'(2) 2(2) by (auto simp: same_shape_def)
  have n: "length (mToolCalls m') = ?n" using calls by (auto dest: list_all2_lengthD)
  have old: "list_all2 answers (mToolCalls m) (take ?n ms)" "paired (drop ?n ms)" "mToolCalls m \<noteq> []" using 2(2) by auto
  have tk: "list_all2 same_shape (take ?n ms) (take ?n ns)" using ms'(3) by (rule list_all2_takeI)
  have "list_all2 answers (mToolCalls m') (take ?n ns)"
  proof (rule list_all2_all_nthI)
    show "length (mToolCalls m') = length (take ?n ns)"
      using n list_all2_lengthD [OF old(1)] list_all2_lengthD [OF tk] by simp
    fix i
    assume "i < length (mToolCalls m')"
    then show "answers (mToolCalls m' ! i) (take ?n ns ! i)"
      using same_shape_answers list_all2_nthD [OF calls] list_all2_nthD2 [OF old(1)] list_all2_nthD [OF tk]
        list_all2_lengthD [OF old(1)] n by metis
  qed
  moreover have "paired (drop ?n ns)" using 2(1) [OF old(2)] ms'(3) by (simp add: list_all2_dropI)
  moreover have "mToolCalls m' \<noteq> []" using n old(3) by auto
  ultimately show ?case using ms'(1) role n by simp
qed simp

lemma same_shape_plain: "same_shape m m' \<Longrightarrow> mToolCalls m = [] \<Longrightarrow> m' = m"
  by (auto simp: same_shape_def)

text \<open>A call whose map an earlier call left behind: the arguments the model gave are extended by what it
  gave before.\<close>

lemma stale_arguments:
  "fst (decode_calls [\<lparr>slArgs = Some [(''path'', VString ''a''), (''force'', VBool True)], slDisplay = [], slShared = [1]\<rparr>]
      [\<lparr>tcrID = ''2'', tcrName = ''rm'', tcrDisplayName = [], tcrKind = ToolKindNative,
        tcrArgs = Some [(''path'', VString ''b'')], tcrNeedsApproval = False\<rparr>]) =
   [\<lparr>tcrID = ''2'', tcrName = ''rm'', tcrDisplayName = [], tcrKind = ToolKindNative,
      tcrArgs = Some [(''path'', VString ''b''), (''force'', VBool True)], tcrNeedsApproval = False\<rparr>]"
  by (simp add: decode_call_def decode_slot_def decode_args_def)

section \<open>The log of a run\<close>

text \<open>The conversation, the prompt and the scope of a workflow, as those of a loop.\<close>

definition as_loop :: "AgentWorkflowInput \<Rightarrow> 'w AgentLoopInput" where
  "as_loop win =
     \<lparr>alUserPrompt = wiUserPrompt win, alConversationID = wiConversationID win,
      alStreamingEnabled = wiStreamingEnabled win, alTools = [], alChannelName = wiLocalChannelName win,
      alApprovalHandler = None, alSubAgentRoutes = [], alSubAgentDepth = wiSubAgentDepth win,
      alMaxSubAgentDepth = wiMaxSubAgentDepth win, alMemoryScope = wiMemoryScope win, alRunID = wiRunID win\<rparr>"

definition wf_tenant :: "AgentWorkflowInput \<Rightarrow> effect \<Rightarrow> bool" where
  "wf_tenant win = in_tenant (TenantID (wiMemoryScope win)) (UserID (wiMemoryScope win))"

lemma as_loop_simps [simp]:
  "tenant_of (as_loop win) = wf_tenant win" "alConversationID (as_loop win) = wiConversationID win"
  "alUserPrompt (as_loop win) = wiUserPrompt win" "as_loop (win\<lparr>wiState := st\<rparr>) = as_loop win"
  "wf_tenant (win\<lparr>wiState := st\<rparr>) = wf_tenant win"
  by (simp_all add: tenant_of_def as_loop_def wf_tenant_def)

definition wf_saved :: "AgentWorkflowInput \<Rightarrow> 'w st \<Rightarrow> 'w st \<Rightarrow> Message list \<Rightarrow> bool" where
  "wf_saved win s s' ms \<longleftrightarrow> saved (as_loop win) s s' ms"

lemma wf_saved_refl [simp]: "wf_saved win s s []"
  by (simp add: wf_saved_def)

lemma wf_saved_trans: "wf_saved win a b xs \<Longrightarrow> wf_saved win b c ys \<Longrightarrow> wf_saved win a c (xs @ ys)"
  unfolding wf_saved_def by (rule saved_trans)

lemma wf_saved_adds: "adds (wf_tenant win) s s' \<Longrightarrow> wf_saved win s s' []"
  unfolding wf_saved_def by (rule saved_adds) simp

lemma adds_wf_saved: "adds (wf_tenant win) a b \<Longrightarrow> wf_saved win b c ms \<Longrightarrow> wf_saved win a c ms"
  using wf_saved_trans [OF wf_saved_adds] by fastforce

lemma wf_saved_then: "wf_saved win a b ms \<Longrightarrow> adds (wf_tenant win) b c \<Longrightarrow> wf_saved win a c ms"
  using wf_saved_trans [OF _ wf_saved_adds] by fastforce

text \<open>No attempt of an activity is reported lost after it had its effects.\<close>

definition lossless :: "'w TEnv \<Rightarrow> bool" where
  "lossless te \<longleftrightarrow> (\<forall>w. case fst (fate te w) of LostAfter _ \<Rightarrow> False | _ \<Rightarrow> True)"

definition kept :: "goerr + unit \<Rightarrow> Message list \<Rightarrow> Message list" where
  "kept r ms = (case r of Inl _ \<Rightarrow> [] | Inr _ \<Rightarrow> ms)"

lemma kept_simps [simp]: "kept (Inl e) ms = []" "kept (Inr u) ms = ms"
  by (simp_all add: kept_def)

lemma verify_adds: "verifyAgentFingerprint te trt fp tools s = (r, s') \<Longrightarrow> adds P s s'"
  by (rule actsD [OF acts_verify])

lemma add_messages_saved:
  assumes "AddConversationMessagesActivity te trt win ms s = (r, s')"
  shows "wf_saved win s s' (kept r ms)"
proof -
  obtain v s1 where v: "verifyAgentFingerprint te trt (wiFingerprint win) None s = (v, s1)" by fastforce
  note a = wf_saved_adds [OF verify_adds [OF v]]
  have fold: "wf_saved win s (foldl (\<lambda>s m. add_message conv (wiConversationID win) m s) s ms) ms" for conv and s :: "'a st"
  proof (induction ms arbitrary: s)
    case (Cons m ms)
    have "wf_saved win s (add_message conv (wiConversationID win) m s) [m]"
      using saved_message [of "as_loop win" s conv m] by (simp add: wf_saved_def)
    from wf_saved_trans [OF this Cons.IH] show ?case by simp
  qed simp
  show ?thesis
    using assms v a wf_saved_trans [OF a fold]
    by (cases v) (auto simp: AddConversationMessagesActivity_def split: option.splits)
qed

lemma save_activity_saved:
  assumes l: "lossless te"
    and x: "ExecuteActivity te conversationActivityMaxAttempts (AddConversationMessagesActivity te trt win ms) s = (r, s')"
  shows "wf_saved win s s' (kept r ms)"
proof -
  obtain ft s1 where ft: "ext (fate te) s = (ft, s1)" by fastforce
  have "ft = fst (fate te (world s))" using ft by (auto simp: ext_def split: prod.splits)
  then have "case ft of LostAfter _ \<Rightarrow> False | _ \<Rightarrow> True" using l by (simp add: lossless_def)
  then have nl: "ft \<noteq> LostAfter e" for e by auto
  have a: "adds (wf_tenant win) s s1" using ext_adds [OF ft] .
  obtain q s2 where q: "AddConversationMessagesActivity te trt win ms s1 = (q, s2)" by fastforce
  note sv = adds_wf_saved [OF a add_messages_saved [OF q]]
  show ?thesis
    using x ft q nl sv wf_saved_adds [OF a]
    by (cases ft; cases q) (auto simp: ExecuteActivity_def conversationActivityMaxAttempts_def)
qed

section \<open>The state of the loop\<close>

definition wf_saving :: "'w TemporalRuntime \<Rightarrow> AgentWorkflowInput \<Rightarrow> bool" where
  "wf_saving trt win \<longleftrightarrow> temporal_conversation_enabled trt (wiConversationID win) \<and> rtSaveOnIteration (tmpBase trt)"

abbreviation wf_prompt :: "AgentWorkflowInput \<Rightarrow> Message" where
  "wf_prompt win \<equiv> message RoleUser (wiUserPrompt win)"

definition fresh_run :: "AgentTelemetry \<Rightarrow> int \<Rightarrow> bool" where
  "fresh_run tel it \<longleftrightarrow> TotalLLMCalls (Run tel) = it \<and> FinishReasonOf (Run tel) = FinishReasonComplete"

text \<open>Saved are no messages, or the prompt and complete rounds of tool calls; saved and unsaved messages
  together are the prompt, complete rounds, and a tail.\<close>

definition wf_parts :: "'w TemporalRuntime \<Rightarrow> AgentWorkflowInput \<Rightarrow> Message list \<Rightarrow> Message list \<Rightarrow> Message list \<Rightarrow> bool" where
  "wf_parts trt win ms rest tail \<longleftrightarrow>
     (\<exists>c. ms @ rest = wf_prompt win # c @ tail \<and> paired c) \<and>
     (ms = [] \<or> wf_saving trt win \<and> (\<exists>c. ms = wf_prompt win # c \<and> paired c))"

definition wf_inv :: "'w TemporalRuntime \<Rightarrow> AgentWorkflowInput \<Rightarrow> int \<Rightarrow> WLoop \<Rightarrow> Message list \<Rightarrow> bool" where
  "wf_inv trt win it wl ms \<longleftrightarrow> wf_parts trt win ms (wlMessages wl) [] \<and> wlContent wl = [] \<and> fresh_run (wlTelemetry wl) it"

definition wf_ended :: "string \<Rightarrow> AgentTelemetry \<Rightarrow> Message list \<Rightarrow> bool" where
  "wf_ended content tel tail \<longleftrightarrow>
     (if FinishReasonOf (Run tel) = FinishReasonTokenBudget then tail = [] \<and> content = []
      else tail = [message RoleAssistant content])"

definition wf_end :: "'w TemporalRuntime \<Rightarrow> AgentWorkflowInput \<Rightarrow> WLoop \<Rightarrow> Message list \<Rightarrow> bool" where
  "wf_end trt win wl ms \<longleftrightarrow>
     (\<exists>tail. wf_parts trt win ms (wlMessages wl) tail \<and> wf_ended (wlContent wl) (wlTelemetry wl) tail) \<and>
     0 < TotalLLMCalls (Run (wlTelemetry wl)) \<and> TotalLLMCalls (Run (wlTelemetry wl)) \<le> rtMaxIterations (tmpBase trt) + 1"

definition wf_step_ok :: "'w TemporalRuntime \<Rightarrow> AgentWorkflowInput \<Rightarrow> int \<Rightarrow> Message list \<Rightarrow> 'w st \<Rightarrow> wstep \<Rightarrow> 'w st \<Rightarrow> bool" where
  "wf_step_ok trt win it ms s st s' =
     (case st of
        WContinue wl \<Rightarrow> it < rtMaxIterations (tmpBase trt) - 1 \<and>
          (\<exists>ms'. wf_saved win s s' ms' \<and> wf_inv trt win (it + 1) wl (ms @ ms'))
      | WAsNew wl \<Rightarrow> it < rtMaxIterations (tmpBase trt) - 1 \<and>
          (\<exists>ms'. wf_saved win s s' ms' \<and> wf_inv trt win (it + 1) wl (ms @ ms'))
      | WBreak wl \<Rightarrow> wf_saved win s s' [] \<and> wf_end trt win wl ms
      | WFail e \<Rightarrow> wf_saved win s s' [])"

lemma wf_parts_tail: "wf_parts trt win ms rest [] \<Longrightarrow> wf_parts trt win ms (rest @ tail) tail"
  by (auto simp: wf_parts_def)

lemma wf_parts_round:
  assumes "wf_parts trt win ms rest []" and "paired d"
  shows "wf_parts trt win ms (rest @ d) []"
proof -
  obtain c where c: "ms @ rest = wf_prompt win # c" "paired c"
      "ms = [] \<or> wf_saving trt win \<and> (\<exists>c. ms = wf_prompt win # c \<and> paired c)"
    using assms(1) by (auto simp: wf_parts_def)
  have "ms @ rest @ d = wf_prompt win # (c @ d)" using c(1) by (metis append.assoc append_Cons)
  then show ?thesis using paired_append [OF c(2) assms(2)] c(3)
    unfolding wf_parts_def by (intro conjI exI [of _ "c @ d"]) simp_all
qed

lemma wf_parts_shape:
  assumes "wf_parts trt win ms rest []" and "list_all2 same_shape rest rest'"
  shows "wf_parts trt win ms rest' []"
proof -
  obtain c where c: "ms @ rest = wf_prompt win # c" "paired c"
      "ms = [] \<or> wf_saving trt win \<and> (\<exists>c. ms = wf_prompt win # c \<and> paired c)"
    using assms(1) by (auto simp: wf_parts_def)
  have "list_all2 same_shape (wf_prompt win # c) (ms @ rest')"
    using assms(2) by (simp add: list_all2_append flip: c(1))
  then obtain c' where "ms @ rest' = wf_prompt win # c'" "list_all2 same_shape c c'"
    by (auto simp: list_all2_Cons1 message_def dest: same_shape_plain)
  then show ?thesis using c(3) paired_shape [OF c(2)] by (auto simp: wf_parts_def)
qed

lemmas wf_parts_relink = wf_parts_shape [OF _ relink_shape]

lemma wf_llm_state:
  assumes "wf_llm te trt win ctx mid it skip wl w = (Inr (r, wl'), w')"
  shows "wlContent wl' = wlContent wl" and "wlTelemetry wl' = wlTelemetry wl"
    and "wf_parts trt win ms (wlMessages wl) [] \<Longrightarrow> wf_parts trt win ms (wlMessages wl') []"
  using assms by (auto simp: wf_llm_def wf_parts_relink elim!: on_ok_Inr split: prod.splits)

lemma wf_parts_move: "wf_parts trt win ms rest [] \<Longrightarrow> wf_saving trt win \<Longrightarrow> wf_parts trt win (ms @ rest) [] []"
  by (simp add: wf_parts_def)

lemma wf_save_iteration_ok:
  assumes l: "lossless te" and inv: "wf_inv trt win it wl ms" and r: "wf_save_iteration te trt win wl w = (wl', w')"
  shows "\<exists>ms'. wf_saved win (wfSt w) (wfSt w') ms' \<and> wf_inv trt win it wl' (ms @ ms')"
proof (cases "wf_saving trt win \<and> wlMessages wl \<noteq> []")
  case False
  then have "wl' = wl" "w' = w" using r by (auto simp: wf_save_iteration_def wf_saving_def split: if_splits)
  then show ?thesis using inv by (intro exI [of _ "[]"]) simp
next
  case True
  obtain x s1 where x: "ExecuteActivity te conversationActivityMaxAttempts
      (AddConversationMessagesActivity te trt win (wlMessages wl)) (wfSt w) = (x, s1)" by fastforce
  note sv = save_activity_saved [OF l x]
  have w': "wfSt w' = s1" "wl' = (case x of Inl _ \<Rightarrow> wl | Inr _ \<Rightarrow>
      wl\<lparr>wlMessages := [], wlVar := (wlVar wl)\<lparr>rvSlots := unshare (rvSlots (wlVar wl))\<rparr>\<rparr>)"
    using r x True by (auto simp: wf_save_iteration_def wf_saving_def on_st_def split: sum.splits)
  have "wf_inv trt win it wl' (ms @ kept x (wlMessages wl))"
    using inv True by (cases x) (simp_all add: wf_inv_def w' wf_parts_move)
  then show ?thesis using sv w' by blast
qed

lemma tenant_wf_frame:
  assumes "\<And>sub tc route sfx. acts (wf_tenant win) (run sub (childInput win tc route sfx))"
  shows "wf_frame (wf_tenant win) run win"
  by unfold_locales (auto simp: wf_tenant_def in_scope_tenant intro: assms [unfolded wf_tenant_def])

text \<open>The loop ends the run, asks to continue as new later, or fails.\<close>

definition wf_partial :: "'w TemporalRuntime \<Rightarrow> AgentWorkflowInput \<Rightarrow> Message list \<Rightarrow> bool" where
  "wf_partial trt win ms \<longleftrightarrow>
     (ms = [] \<or> temporal_conversation_enabled trt (wiConversationID win)) \<and>
     (ms = [] \<or> (\<exists>c tail. ms = wf_prompt win # c @ tail \<and> paired c \<and>
                      (tail = [] \<or> (\<exists>a. tail = [message RoleAssistant a]))))"

definition wf_loop_ok :: "'w TemporalRuntime \<Rightarrow> AgentWorkflowInput \<Rightarrow> int \<Rightarrow> goerr + int option \<times> WLoop \<Rightarrow> Message list \<Rightarrow> bool" where
  "wf_loop_ok trt win it r ms =
     (case r of
        Inl e \<Rightarrow> wf_partial trt win ms
      | Inr (again, wl) \<Rightarrow>
          (case again of
             None \<Rightarrow> wf_end trt win wl ms
           | Some it' \<Rightarrow> it < it' \<and> it' < rtMaxIterations (tmpBase trt) \<and> wf_inv trt win it' wl ms))"

lemma wf_parts_partial: "wf_parts trt win ms rest tail \<Longrightarrow> wf_partial trt win ms"
  by (auto simp: wf_parts_def wf_partial_def wf_saving_def)

lemma wf_inv_partial: "wf_inv trt win it wl ms \<Longrightarrow> wf_partial trt win ms"
  by (auto simp: wf_inv_def dest: wf_parts_partial)

text \<open>The scheduler runs every coroutine, and no attempt is lost after its effects.\<close>

definition reliable :: "'w TEnv \<Rightarrow> bool" where
  "reliable te \<longleftrightarrow> lossless te \<and> fair (teEnv te)"

text \<open>Children keep to the tenant.\<close>

locale saved_run =
  fixes run :: "'w child_run" and win :: AgentWorkflowInput
  assumes child: "acts (wf_tenant win) (run sub (childInput win tc route sfx))"
begin

lemma frame: "wf_frame (wf_tenant win) run win"
  by (rule tenant_wf_frame) (rule child)

lemma acts_model: "wacts (wf_tenant win) (wf_llm te trt win ctx mid it skip wl)"
proof -
  have "acts (wf_tenant win) (llm_activity b te trt ali)" for b ali
    by (rule acts_llm) (simp add: wf_tenant_def llm_effect_tenant)
  then show ?thesis unfolding wf_llm_def [abs_def] Let_def by (intro act_rules)
qed

lemma wf_tool_round_ok:
  assumes rel: "reliable te" and p: "wf_parts trt win ms (wlMessages wl) []" "wlContent wl = []" "fresh_run (wlTelemetry wl) (it + 1)"
    and it: "it < rtMaxIterations (tmpBase trt) - 1" and tcs: "lrToolCalls r \<noteq> []"
    and run: "wf_tool_round te run trt win mid it r wl w = (st, w')"
  shows "wf_step_ok trt win it ms (wfSt w) st (wfSt w')"
proof -
  define upd where "upd rs = wl\<lparr>wlMessages := wlMessages wl @ [assistant_message r] @ map trMessage rs,
                          wlTelemetry := record_results (lrToolCalls r) rs (wlTelemetry wl),
                          wlVar := (wlVar wl)\<lparr>rvSlots := share (length (lrToolCalls r)) (length (wlMessages wl))
                            (rvSlots (wlVar wl))\<rparr>\<rparr>" for rs
  have fin: ?thesis
    if rs: "list_all2 answers (map call_of (lrToolCalls r)) (map trMessage rs)"
      and a: "adds (wf_tenant win) (wfSt w) (wfSt w1)"
      and f: "(case wf_save_iteration te trt win (upd rs) w1 of (wl2, w2) \<Rightarrow>
          case on_st (ext (history_full te)) w2 of (full, w3) \<Rightarrow> (if full then WAsNew wl2 else WContinue wl2, w3)) = (st, w')"
    for rs w1
  proof -
    have "paired (assistant_message r # map trMessage rs)" using rs tcs by (intro paired_round) auto
    then have inv: "wf_inv trt win (it + 1) (upd rs) ms"
      using wf_parts_round [OF p(1)] p(2,3) by (simp add: wf_inv_def upd_def fresh_run_def)
    obtain wl2 w2 where sv: "wf_save_iteration te trt win (upd rs) w1 = (wl2, w2)" by fastforce
    obtain full w3 where h: "on_st (ext (history_full te)) w2 = (full, w3)" by fastforce
    obtain ms' where ms': "wf_saved win (wfSt w1) (wfSt w2) ms'" "wf_inv trt win (it + 1) wl2 (ms @ ms')"
      using wf_save_iteration_ok [OF _ inv sv] rel by (auto simp: reliable_def)
    have "wf_saved win (wfSt w) (wfSt w3) ms'"
      using wf_saved_then [OF adds_wf_saved [OF a ms'(1)] wactsD [OF wacts_on_st [OF acts_ext] h]] .
    then show ?thesis using f sv h ms'(2) it by (auto simp: wf_step_ok_def split: if_splits)
  qed
  note unf = wf_tool_round_def Let_def upd_def
  obtain rs w1 where s: "wf_sequential te run trt win mid it (lrToolCalls r) w = (rs, w1)" by fastforce
  obtain rs' w2 where c: "wf_parallel te run trt win mid it (lrToolCalls r) w = (rs', w2)" by fastforce
  note fin_s = fin [OF wf_sequential_answers [OF s] wactsD [OF wf_frame.sequence [OF frame] s]]
  have "fair (teEnv te)" using rel by (simp add: reliable_def)
  note fin_c = fin [OF wf_parallel_answers [OF this c] wactsD [OF wf_frame.concurrent [OF frame] c]]
  show ?thesis
  proof (cases "rtToolMode (tmpBase trt)")
    case (ModeOther m)
    then show ?thesis using run by (auto simp: unf wf_step_ok_def)
  next
    case ModeSequential
    show ?thesis by (rule fin_s) (use run s ModeSequential in \<open>simp add: unf\<close>)
  next
    case ModeParallel
    show ?thesis by (rule fin_c) (use run c ModeParallel in \<open>simp add: unf\<close>)
  next
    case ModeEmpty
    show ?thesis by (rule fin_c) (use run c ModeEmpty in \<open>simp add: unf\<close>)
  qed
qed

lemma wf_final_call_ok:
  assumes p: "wf_parts trt win ms (wlMessages wl) []" "fresh_run (wlTelemetry wl) (it + 1)" "0 \<le> it"
    and it: "it = rtMaxIterations (tmpBase trt) - 1"
    and run: "wf_final_call te trt win ctx mid it wl w = (st, w')"
  shows "wf_step_ok trt win it ms (wfSt w) st (wfSt w')"
proof -
  obtain x w1 where x: "wf_llm te trt win ctx mid it True wl w = (x, w1)" by fastforce
  note a = wf_saved_adds [OF wactsD [OF acts_model x]]
  show ?thesis
  proof (cases x)
    case (Inl e)
    then show ?thesis using run x a by (auto simp: wf_final_call_def wf_step_ok_def)
  next
    case (Inr rw)
    obtain r wl1 where rw: "rw = (r, wl1)" by fastforce
    note l = wf_llm_state [OF x [unfolded Inr rw]]
    show ?thesis using run x a Inr rw l(2) wf_parts_tail [OF l(3) [OF p(1)], of "[message RoleAssistant (lrContent r)]"] p(2,3) it
      by (fastforce simp: wf_final_call_def wf_step_ok_def wf_end_def wf_ended_def fresh_run_def)
  qed
qed

lemma wf_iter_ok:
  assumes rel: "reliable te" and inv: "wf_inv trt win it wl ms" and it: "0 \<le> it" "it < rtMaxIterations (tmpBase trt)"
    and run: "wf_iter te run trt win ctx it wl w = (st, w')"
  shows "wf_step_ok trt win it ms (wfSt w) st (wfSt w')"
proof -
  obtain mid w1 where u: "on_st (ext (uuid (teEnv te))) w = (mid, w1)" by fastforce
  obtain x w2 where x: "wf_llm te trt win ctx mid it False wl w1 = (x, w2)" by fastforce
  have a: "adds (wf_tenant win) (wfSt w) (wfSt w2)"
    using wactsD [OF wacts_on_st [OF acts_ext] u] wactsD [OF acts_model x] by (rule adds_trans)
  have p: "wf_parts trt win ms (wlMessages wl) []" "wlContent wl = []" "fresh_run (wlTelemetry wl) it"
    using inv by (simp_all add: wf_inv_def)
  show ?thesis
  proof (cases x)
    case (Inl e)
    then show ?thesis using run u x wf_saved_adds [OF a] by (auto simp: wf_iter_def wf_step_ok_def)
  next
    case (Inr rw)
    obtain r wl0 where rw: "rw = (r, wl0)" by fastforce
    note l = wf_llm_state [OF x [unfolded Inr rw]]
    note Inr = Inr [unfolded rw]
    define wl1 where "wl1 = wl0\<lparr>wlTelemetry := count_call (wlTelemetry wl0),
                        wlUsage := MergeLLMUsage (wlUsage wl0) (lrUsage r),
                        wlBudget := charge (lrUsage r) (wlBudget wl0)\<rparr>"
    have p1: "wf_parts trt win ms (wlMessages wl1) []" "wlContent wl1 = []" "fresh_run (wlTelemetry wl1) (it + 1)"
      using p(2,3) l(1,2) l(3) [OF p(1)] by (simp_all add: wl1_def fresh_run_def)
    have eq: "wf_iter te run trt win ctx it wl w =
        (if over_budget (lrUsage r) (wlBudget wl1) then
           (WBreak (wl1\<lparr>wlTelemetry := finished FinishReasonTokenBudget (wlTelemetry wl1)\<rparr>), w2)
         else if lrToolCalls r = [] then
           (WBreak (wl1\<lparr>wlMessages := wlMessages wl1 @ [message RoleAssistant (lrContent r)],
                        wlContent := lrContent r\<rparr>), w2)
         else if it = rtMaxIterations (tmpBase trt) - 1 then wf_final_call te trt win ctx mid it wl1 w2
         else wf_tool_round te run trt win mid it r wl1 w2)"
      unfolding wf_iter_def u x Inr wl1_def Let_def prod.case sum.case by (rule refl)
    have later: "wf_step_ok trt win it ms (wfSt w) st (wfSt w')" if "wf_step_ok trt win it ms (wfSt w2) st (wfSt w')"
      using that by (cases st) (auto simp: wf_step_ok_def intro: adds_wf_saved [OF a])
    consider (budget) "over_budget (lrUsage r) (wlBudget wl1)"
      | (answer) "\<not> over_budget (lrUsage r) (wlBudget wl1)" "lrToolCalls r = []"
      | (final) "\<not> over_budget (lrUsage r) (wlBudget wl1)" "lrToolCalls r \<noteq> []" "it = rtMaxIterations (tmpBase trt) - 1"
      | (tools) "\<not> over_budget (lrUsage r) (wlBudget wl1)" "lrToolCalls r \<noteq> []" "it \<noteq> rtMaxIterations (tmpBase trt) - 1"
      by blast
    then show ?thesis
    proof cases
      case budget
      then have "st = WBreak (wl1\<lparr>wlTelemetry := finished FinishReasonTokenBudget (wlTelemetry wl1)\<rparr>)" "w' = w2"
        using run eq by simp_all
      then show ?thesis using wf_saved_adds [OF a] p1 it
        by (auto simp: wf_step_ok_def wf_end_def wf_ended_def fresh_run_def)
    next
      case answer
      then have "st = WBreak (wl1\<lparr>wlMessages := wlMessages wl1 @ [message RoleAssistant (lrContent r)],
                             wlContent := lrContent r\<rparr>)" "w' = w2"
        using run eq by simp_all
      then show ?thesis using wf_saved_adds [OF a] wf_parts_tail [OF p1(1)] p1(3) it
        by (auto simp: wf_step_ok_def wf_end_def wf_ended_def fresh_run_def)
    next
      case final
      then have "wf_final_call te trt win ctx mid it wl1 w2 = (st, w')"
        using run eq by simp
      from wf_final_call_ok [OF p1(1,3) it(1) final(3) this] show ?thesis by (rule later)
    next
      case tools
      then have "wf_tool_round te run trt win mid it r wl1 w2 = (st, w')"
        using run eq by simp
      from wf_tool_round_ok [OF rel p1 _ tools(2) this] it tools(3) show ?thesis by (intro later) simp
    qed
  qed
qed

lemma wf_loop_ok:
  "reliable te \<Longrightarrow> wf_inv trt win it wl ms \<Longrightarrow> 0 \<le> it \<Longrightarrow> it + int k = rtMaxIterations (tmpBase trt) \<Longrightarrow> 0 < k \<Longrightarrow>
   wf_loop (wf_iter te run trt win ctx) k it wl w = (r, w') \<Longrightarrow>
   \<exists>ms'. wf_saved win (wfSt w) (wfSt w') ms' \<and> wf_loop_ok trt win it r (ms @ ms')"
proof (induction k arbitrary: it wl ms w)
  case (Suc k)
  obtain st w1 where st: "wf_iter te run trt win ctx it wl w = (st, w1)" by fastforce
  have ok: "wf_step_ok trt win it ms (wfSt w) st (wfSt w1)"
    by (rule wf_iter_ok [OF Suc.prems(1,2,3) _ st]) (use Suc.prems(4) in simp)
  show ?case
  proof (cases st)
    case (WContinue wl1)
    then obtain ms1 where c: "it < rtMaxIterations (tmpBase trt) - 1" "wf_saved win (wfSt w) (wfSt w1) ms1"
        "wf_inv trt win (it + 1) wl1 (ms @ ms1)"
      using ok by (auto simp: wf_step_ok_def)
    have "\<exists>ms'. wf_saved win (wfSt w1) (wfSt w') ms' \<and> wf_loop_ok trt win (it + 1) r ((ms @ ms1) @ ms')"
      by (rule Suc.IH [OF Suc.prems(1) c(3)]) (use Suc.prems c(1) WContinue st in \<open>auto simp: add.commute\<close>)
    then obtain ms' where ms': "wf_saved win (wfSt w1) (wfSt w') ms'" "wf_loop_ok trt win (it + 1) r ((ms @ ms1) @ ms')"
      by blast
    then have "wf_loop_ok trt win it r (ms @ ms1 @ ms')"
      by (auto simp: wf_loop_ok_def split: sum.splits option.splits)
    then show ?thesis using wf_saved_trans [OF c(2) ms'(1)] by blast
  next
    case (WBreak wl1)
    then show ?thesis using ok Suc.prems(6) st by (intro exI [of _ "[]"]) (auto simp: wf_step_ok_def wf_loop_ok_def)
  next
    case (WFail e)
    then show ?thesis using ok Suc.prems(6) st wf_inv_partial [OF Suc.prems(2)]
      by (intro exI [of _ "[]"]) (auto simp: wf_step_ok_def wf_loop_ok_def)
  next
    case (WAsNew wl1)
    then show ?thesis using ok Suc.prems(6) st by (auto simp: wf_step_ok_def wf_loop_ok_def)
  qed
qed simp

end

section \<open>A whole run\<close>

text \<open>What a run saves and returns; \<open>lost\<close> are messages whose save failed.\<close>

definition wf_run_ok :: "'w TemporalRuntime \<Rightarrow> AgentWorkflowInput \<Rightarrow> goerr + AgentRunResult \<Rightarrow> Message list \<Rightarrow> Message list \<Rightarrow> bool" where
  "wf_run_ok trt win r ms lost \<longleftrightarrow>
     (case r of
        Inl e \<Rightarrow> wf_partial trt win ms
      | Inr res \<Rightarrow>
          (\<exists>c tail. paired c \<and> wf_ended (arrContent res) (arrTelemetry res) tail \<and>
             (if temporal_conversation_enabled trt (wiConversationID win) then ms @ lost = wf_prompt win # c @ tail else ms = [])) \<and>
          (lost = [] \<or> rtSaveOnIteration (tmpBase trt)) \<and>
          0 < TotalLLMCalls (Run (arrTelemetry res)) \<and> TotalLLMCalls (Run (arrTelemetry res)) \<le> rtMaxIterations (tmpBase trt) + 1)"

text \<open>The state a workflow starts or continues from.\<close>

definition wf_state_inv :: "'w TemporalRuntime \<Rightarrow> AgentWorkflowInput \<Rightarrow> Message list \<Rightarrow> bool" where
  "wf_state_inv trt win ms \<longleftrightarrow>
     (let st = initial_state win in
      wf_parts trt win ms (wsMessages st) [] \<and>
      0 \<le> wsIteration st \<and> wsIteration st < rtMaxIterations (tmpBase trt) \<and>
      (case wsTelemetry st of None \<Rightarrow> wsIteration st = 0 | Some tel \<Rightarrow> fresh_run tel (wsIteration st)))"

lemma wf_state_fresh:
  "wiState win = None \<Longrightarrow> 0 < rtMaxIterations (tmpBase trt) \<Longrightarrow> wf_state_inv trt win []"
  by (simp add: wf_state_inv_def initial_state_def wf_parts_def)

lemma wf_state_as_new:
  "wf_inv trt win it wl ms \<Longrightarrow> 0 \<le> it \<Longrightarrow> it < rtMaxIterations (tmpBase trt) \<Longrightarrow>
   wf_state_inv trt (as_new_input win it wl) ms"
  by (simp add: wf_state_inv_def initial_state_def as_new_input_def wf_inv_def wf_parts_def wf_saving_def)

lemma wf_run_ok_state [simp]: "wf_run_ok trt (win\<lparr>wiState := st\<rparr>) r ms lost = wf_run_ok trt win r ms lost"
  by (simp add: wf_run_ok_def wf_partial_def split: sum.split)

lemma wf_saved_state [simp]: "wf_saved (win\<lparr>wiState := st\<rparr>) s s' ms = wf_saved win s s' ms"
  by (simp add: wf_saved_def)

context saved_run
begin

lemma wf_save_rest_ok:
  assumes rel: "reliable te" and e: "wf_end trt win wl ms" and x: "wf_save_rest te trt win wl w = (r, w')"
  shows "\<exists>ms' lost tail. wf_saved win (wfSt w) (wfSt w') ms' \<and> wf_partial trt win (ms @ ms') \<and>
     wf_ended (wlContent wl) (wlTelemetry wl) tail \<and>
     (\<not> isl r \<longrightarrow> (\<exists>c. paired c \<and> (if temporal_conversation_enabled trt (wiConversationID win)
         then (ms @ ms') @ lost = wf_prompt win # c @ tail else ms @ ms' = [])) \<and> (lost = [] \<or> rtSaveOnIteration (tmpBase trt)))"
proof -
  obtain tail where tail: "wf_parts trt win ms (wlMessages wl) tail" "wf_ended (wlContent wl) (wlTelemetry wl) tail"
    using e by (auto simp: wf_end_def)
  obtain c where c: "ms @ wlMessages wl = wf_prompt win # c @ tail" "paired c"
    using tail(1) by (auto simp: wf_parts_def)
  note part = wf_parts_partial [OF tail(1)]
  have tl: "tail = [] \<or> (\<exists>a. tail = [message RoleAssistant a])"
    using tail(2) by (auto simp: wf_ended_def split: if_splits)
  show ?thesis
  proof (cases "temporal_conversation_enabled trt (wiConversationID win)")
    case False
    then have "ms = []" using tail(1) by (auto simp: wf_parts_def wf_saving_def)
    then show ?thesis using x False tail part c
      by (intro exI [of _ "[]"] exI [of _ tail]) (auto simp: wf_save_rest_def)
  next
    case True
    show ?thesis
    proof (cases "wlMessages wl = []")
      case True
      then show ?thesis using x tail part c \<open>temporal_conversation_enabled _ _\<close>
        by (intro exI [of _ "[]"] exI [of _ tail]) (auto simp: wf_save_rest_def)
    next
      case ne: False
      obtain y s1 where y: "ExecuteActivity te conversationActivityMaxAttempts
          (AddConversationMessagesActivity te trt win (wlMessages wl)) (wfSt w) = (y, s1)" by fastforce
      have "lossless te" using rel by (simp add: reliable_def)
      note sv = save_activity_saved [OF this y]
      have w': "wfSt w' = s1" using x True ne y by (auto simp: wf_save_rest_def on_st_def split: sum.splits)
      show ?thesis
      proof (cases y)
        case (Inr u)
        then have "wf_partial trt win (ms @ wlMessages wl)"
          using True c tl by (auto simp: wf_partial_def)
        then show ?thesis using sv w' Inr c tail(2) True
          by (intro exI [of _ "wlMessages wl"] exI [of _ "[]"] exI [of _ tail]) auto
      next
        case (Inl e)
        have "isl r \<or> rtSaveOnIteration (tmpBase trt)"
          using x True ne y Inl by (auto simp: wf_save_rest_def on_st_def)
        then show ?thesis using sv w' Inl c tail(2) True part
          by (intro exI [of _ "[]"] exI [of _ "wlMessages wl"] exI [of _ tail]) auto
      qed
    qed
  qed
qed

lemma wf_finish_ok:
  assumes rel: "reliable te" and e: "wf_end trt win wl ms" and f: "wf_finish te trt win wl w = (r, w')"
  shows "\<exists>ms' lost. wf_saved win (wfSt w) (wfSt w') ms' \<and> wf_run_ok trt win r (ms @ ms') lost"
proof -
  obtain u w1 where u: "wf_save_rest te trt win wl w = (u, w1)" by fastforce
  obtain v w2 where v: "wf_store te trt win wl w1 = (v, w2)" by fastforce
  obtain d w3 where d: "on_st (ext (now (teEnv te))) w2 = (d, w3)" by fastforce
  have st: "acts (wf_tenant win) (AgentMemoryStoreActivity te trt win m)" for m
    by (rule acts_store) (auto simp: wf_tenant_def in_scope_tenant)
  have "wacts (wf_tenant win) (wf_store te trt win wl)"
    unfolding wf_store_def [abs_def] Let_def by (intro act_rules st)
  note a2 = wactsD [OF this v] and a3 = wactsD [OF wacts_on_st [OF acts_ext] d]
  have tel: "Run tel = Run (wlTelemetry wl)" if "v = Inr tel" for tel
    using v that by (auto simp: wf_store_def Let_def split: if_splits prod.splits sum.splits)
  obtain ms' lost tail where m: "wf_saved win (wfSt w) (wfSt w1) ms'" "wf_partial trt win (ms @ ms')"
      "wf_ended (wlContent wl) (wlTelemetry wl) tail"
      "\<not> isl u \<longrightarrow> (\<exists>c. paired c \<and> (if temporal_conversation_enabled trt (wiConversationID win)
         then (ms @ ms') @ lost = wf_prompt win # c @ tail else ms @ ms' = [])) \<and> (lost = [] \<or> rtSaveOnIteration (tmpBase trt))"
    using wf_save_rest_ok [OF rel e u] by blast
  note s2 = wf_saved_then [OF m(1) a2]
  note s3 = wf_saved_then [OF s2 a3]
  show ?thesis
  proof (cases "\<exists>x tel. u = Inr x \<and> v = Inr tel")
    case False
    then have "isl r" "w' = w1 \<or> w' = w2" using f u v by (cases u; cases v; auto simp: wf_finish_def)+
    then show ?thesis using m(1,2) s2 by (cases r) (auto simp: wf_run_ok_def)
  next
    case True
    then obtain x tel where ok: "u = Inr x" "v = Inr tel" by blast
    then have r: "r = Inr \<lparr>arrContent = wlContent wl, arrAgentName = rtName (tmpBase trt),
          arrModel = GetModel (rtClient (tmpBase trt)), arrUsage = wlUsage wl,
          arrTelemetry = tel\<lparr>Run := (Run tel)\<lparr>CompletedAt := d\<rparr>\<rparr>\<rparr>" and w': "w' = w3"
      using f u v d by (simp_all add: wf_finish_def)
    obtain c where c: "paired c" "if temporal_conversation_enabled trt (wiConversationID win)
         then (ms @ ms') @ lost = wf_prompt win # c @ tail else ms @ ms' = []" "lost = [] \<or> rtSaveOnIteration (tmpBase trt)"
      using m(4) ok(1) by auto
    have "wf_ended (arrContent (projr r)) (arrTelemetry (projr r)) tail"
      using m(3) tel [OF ok(2)] by (simp add: r wf_ended_def)
    then have "wf_run_ok trt win r (ms @ ms') lost"
      using c e tel [OF ok(2)] unfolding wf_run_ok_def r sum.case
      by (intro conjI exI [of _ c] exI [of _ tail]) (simp_all add: wf_end_def)
    then show ?thesis using s3 w' by blast
  qed
qed

lemma workflow_ok:
  assumes rel: "reliable te" and inv: "wf_state_inv trt win ms" and wf: "AgentWorkflow te run trt win s = (o1, s')"
  shows "\<exists>ms'. wf_saved win s s' ms' \<and>
     (case o1 of
        WfAsNew win' \<Rightarrow> wf_state_inv trt win' (ms @ ms')
      | WfError e \<Rightarrow> wf_partial trt win (ms @ ms')
      | WfResult r \<Rightarrow> (\<exists>lost. wf_run_ok trt win (Inr r) (ms @ ms') lost))"
proof -
  define st where "st = initial_state win"
  define w0 where "w0 = \<lparr>wfSt = snd (ext (uuid (teEnv te)) s), streamingUnavailable = False\<rparr>"
  define k where "k = nat (rtMaxIterations (tmpBase trt) - wsIteration st)"
  have p: "wf_parts trt win ms (wsMessages st) []" "0 \<le> wsIteration st" "wsIteration st < rtMaxIterations (tmpBase trt)"
    "case wsTelemetry st of None \<Rightarrow> wsIteration st = 0 | Some tel \<Rightarrow> fresh_run tel (wsIteration st)"
    using inv by (simp_all add: wf_state_inv_def Let_def flip: st_def)
  note part = wf_parts_partial [OF p(1)]
  note unf = AgentWorkflow_def Let_def st_def [symmetric] w0_def [symmetric] k_def [symmetric]
  obtain tel0 w1 where t: "wf_telemetry te st w0 = (tel0, w1)" by fastforce
  have tel0: "fresh_run tel0 (wsIteration st)"
    using t p(4) by (auto simp: wf_telemetry_def fresh_run_def NewAgentTelemetry_def split: option.splits prod.splits)
  have w1: "adds (wf_tenant win) s (wfSt w1)"
    using t by (intro adds_eq) (auto simp: wf_telemetry_def w0_def on_st_def dest: trace_ext split: option.splits prod.splits)
  obtain a w2 where a: "wf_recall te trt win tel0 w1 = (a, w2)" by fastforce
  have rc: "acts (wf_tenant win) (AgentMemoryRecallActivity te trt win)"
    by (rule acts_recall) (simp add: wf_tenant_def in_scope_tenant)
  have pf: "acts (wf_tenant win) (AgentRetrieverActivity te trt win)"
    by (rule acts_retrievers [of "wiMemoryScope win"]) (simp add: wf_tenant_def in_scope_tenant)
  have "wacts (wf_tenant win) (wf_recall te trt win tel0)"
    unfolding wf_recall_def [abs_def] by (intro act_rules rc)
  note a2 = adds_trans [OF w1 wactsD [OF this a]]
  show ?thesis
  proof (cases a)
    case (Inl e)
    then have "o1 = WfError e" "s' = wfSt w2" using wf t a by (auto simp: unf)
    then show ?thesis using wf_saved_adds [OF a2] part by (intro exI [of _ "[]"]) simp
  next
    case mt: (Inr mt)
    obtain mem tel1 where mt2: "mt = (mem, tel1)" by fastforce
    have tel1: "fresh_run tel1 (wsIteration st)"
      using a mt mt2 tel0 by (auto simp: wf_recall_def fresh_run_def elim!: on_ok_Inr split: if_splits)
    obtain b w3 where b: "wf_prefetch te trt win tel1 w2 = (b, w3)" by fastforce
    have "wacts (wf_tenant win) (wf_prefetch te trt win tel1)"
      unfolding wf_prefetch_def [abs_def] by (intro act_rules pf)
    note a3 = adds_trans [OF a2 wactsD [OF this b]]
    show ?thesis
    proof (cases b)
      case (Inl e)
      then have "o1 = WfError e" "s' = wfSt w3" using wf t a mt mt2 b by (auto simp: unf)
      then show ?thesis using wf_saved_adds [OF a3] part by (intro exI [of _ "[]"]) simp
    next
      case dt: (Inr dt)
      obtain docs tel2 where dt2: "dt = (docs, tel2)" by fastforce
      have tel2: "fresh_run tel2 (wsIteration st)"
        using b dt dt2 tel1 by (auto simp: wf_prefetch_def fresh_run_def elim!: on_ok_Inr split: if_splits)
      obtain c w4 where c: "wf_loop (wf_iter te run trt win \<lparr>wcMemory = mem, wcRetriever = docs,
          wcStreaming = wiStreamingEnabled win \<and> IsStreamSupported (rtClient (tmpBase trt))\<rparr>) k (wsIteration st)
          (wf_start trt st tel2) w3 = (c, w4)" by fastforce
      have inv0: "wf_inv trt win (wsIteration st) (wf_start trt st tel2) ms"
        using p(1) tel2 by (simp add: wf_inv_def wf_start_def)
      have k: "wsIteration st + int k = rtMaxIterations (tmpBase trt)" "0 < k" using p(3) by (simp_all add: k_def)
      obtain ms1 where m: "wf_saved win (wfSt w3) (wfSt w4) ms1" "wf_loop_ok trt win (wsIteration st) c (ms @ ms1)"
        using wf_loop_ok [OF rel inv0 p(2) k c] by blast
      note a4 = adds_wf_saved [OF a3 m(1)]
      note eq = wf t a mt mt2 b dt dt2 c
      show ?thesis
      proof (cases c)
        case (Inl e)
        then have "o1 = WfError e" "s' = wfSt w4" using eq by (auto simp: unf)
        then show ?thesis using a4 m(2) Inl by (auto simp: wf_loop_ok_def)
      next
        case ok: (Inr ok)
        obtain again wl where ok2: "ok = (again, wl)" by fastforce
        show ?thesis
        proof (cases again)
          case (Some it')
          then have "o1 = WfAsNew (as_new_input win it' wl)" "s' = wfSt w4" using eq ok ok2 by (auto simp: unf)
          then show ?thesis using a4 m(2) ok ok2 Some p(2) by (auto simp: wf_loop_ok_def intro!: wf_state_as_new)
        next
          case None
          obtain d w5 where d: "wf_finish te trt win wl w4 = (d, w5)" by fastforce
          have e: "wf_end trt win wl (ms @ ms1)" using m(2) ok ok2 None by (simp add: wf_loop_ok_def)
          obtain ms2 lost where f: "wf_saved win (wfSt w4) (wfSt w5) ms2" "wf_run_ok trt win d ((ms @ ms1) @ ms2) lost"
            using wf_finish_ok [OF rel e d] by blast
          have o1: "o1 = (case d of Inl e \<Rightarrow> WfError e | Inr r \<Rightarrow> WfResult r)" "s' = wfSt w5"
            using eq ok ok2 None d by (cases d; auto simp: unf)+
          have "case o1 of WfAsNew win' \<Rightarrow> wf_state_inv trt win' (ms @ ms1 @ ms2)
              | WfError e \<Rightarrow> wf_partial trt win (ms @ ms1 @ ms2)
              | WfResult r \<Rightarrow> (\<exists>lost. wf_run_ok trt win (Inr r) (ms @ ms1 @ ms2) lost)"
            using f(2) o1 by (cases d) (auto simp: wf_run_ok_def [of _ _ "Inl _"])
          then show ?thesis using wf_saved_trans [OF a4 f(1)] o1(2) by blast
        qed
      qed
    qed
  qed
qed

end

text \<open>Restarts: the messages of all of them together.\<close>

lemma saved_run_state: "saved_run run win \<Longrightarrow> saved_run run (win\<lparr>wiState := st\<rparr>)"
  by (simp add: saved_run_def childInput_def)

lemma run_workflow_ok:
  "reliable te \<Longrightarrow> saved_run run win \<Longrightarrow> wf_state_inv trt win ms \<Longrightarrow> run_workflow te run trt win s = (r, s') \<Longrightarrow>
   \<exists>ms' lost. wf_saved win s s' ms' \<and> wf_run_ok trt win r (ms @ ms') lost"
proof (induction "restarts_left trt win" arbitrary: win ms s rule: less_induct)
  case less
  obtain o1 s1 where o1: "AgentWorkflow te run trt win s = (o1, s1)" by fastforce
  obtain ms1 where m: "wf_saved win s s1 ms1"
     "case o1 of WfAsNew win' \<Rightarrow> wf_state_inv trt win' (ms @ ms1)
      | WfError e \<Rightarrow> wf_partial trt win (ms @ ms1)
      | WfResult r \<Rightarrow> (\<exists>lost. wf_run_ok trt win (Inr r) (ms @ ms1) lost)"
    using saved_run.workflow_ok [OF less.prems(2,1,3) o1] by blast
  note rec = less.prems(4) [unfolded run_workflow_rec [of te run trt win]]
  show ?case
  proof (cases o1)
    case (WfResult res)
    then show ?thesis using m rec o1 by auto
  next
    case (WfError e)
    then show ?thesis using m rec o1 by (auto simp: wf_run_ok_def)
  next
    case (WfAsNew win')
    obtain st where win': "win' = win\<lparr>wiState := st\<rparr>" using AgentWorkflow_as_new o1 WfAsNew by blast
    have "saved_run run win'" using saved_run_state [OF less.prems(2), of st] win' by simp
    moreover have "wf_state_inv trt win' (ms @ ms1)" "run_workflow te run trt win' s1 = (r, s')"
      using m(2) rec o1 WfAsNew by simp_all
    ultimately have "\<exists>ms' lost. wf_saved win' s1 s' ms' \<and> wf_run_ok trt win' r ((ms @ ms1) @ ms') lost"
      by (rule less.hyps [OF restarts_left_as_new [OF o1 [unfolded WfAsNew]] less.prems(1)])
    then obtain ms' lost where "wf_saved win s1 s' ms'" "wf_run_ok trt win r ((ms @ ms1) @ ms') lost"
      by (auto simp: win')
    then show ?thesis using wf_saved_trans [OF m(1)] by (metis append.assoc)
  qed
qed

text \<open>Workflows without a conversation, as those of sub-agents, keep to their tenant.\<close>

lemma silent_frame:
  assumes "wiConversationID win = []" and "\<And>sub tc route sfx. acts (wf_tenant win) (run sub (childInput win tc route sfx))"
  shows "wf_run_frame (wf_tenant win) run win trt"
  using assms(2) by unfold_locales
    (auto simp: assms(1) wf_tenant_def in_scope_tenant llm_effect_tenant temporal_conversation_enabled_def)

lemma child_tenant [simp]:
  "wf_tenant (childInput win tc route sfx) = wf_tenant win" "wiConversationID (childInput win tc route sfx) = []"
  by (simp_all add: wf_tenant_def childInput_def)

lemma wf_level_silent: "wiConversationID win = [] \<Longrightarrow> acts (wf_tenant win) (wf_level te n trt win)"
proof (induction n arbitrary: trt win)
  case 0
  show ?case by (simp add: acts_def)
next
  case (Suc n)
  have "wf_run_frame (wf_tenant win) (wf_level te n) win trt"
  proof (rule silent_frame [OF Suc.prems])
    fix sub tc route sfx
    show "acts (wf_tenant win) (wf_level te n sub (childInput win tc route sfx))"
      using Suc.IH [of "childInput win tc route sfx" sub] by simp
  qed
  from run_workflow_acts [OF this] show ?case by (simp add: acts_def)
qed

text \<open>The locales above, for runs whose children are runs.\<close>

interpretation nested_saves: saved_run "wf_level te n" win for te n win
proof
  fix sub tc route sfx
  show "acts (wf_tenant win) (wf_level te n sub (childInput win tc route sfx))"
    using wf_level_silent [of "childInput win tc route sfx" te n sub] by simp
qed

interpretation nested_calls: wf_frame "wf_tenant win" "wf_level te n" win for te n win
  by (rule nested_saves.frame)

lemma inner_run_frame:
  assumes "\<And>sub tc route sfx. acts inner (run sub (childInput win tc route sfx))"
  shows "wf_run_frame inner run win trt"
  using assms by unfold_locales (auto simp: inner_llm inner_scope)

lemma wf_level_inner: "acts inner (wf_level te n trt win)"
proof (induction n arbitrary: trt win)
  case (Suc n)
  have "acts inner (run_workflow te (wf_level te n) trt win)"
    by (rule run_workflow_acts [OF inner_run_frame]) (rule Suc.IH)
  then show ?case by (simp add: acts_def)
qed (simp add: acts_def)

interpretation nested_runs: wf_run_frame inner "wf_level te n" win trt for te n win trt
  by (rule inner_run_frame) (rule wf_level_inner)

text \<open>A run from its beginning.\<close>

lemma wf_level_ok:
  assumes "reliable te" and "wiState win = None" and "0 < rtMaxIterations (tmpBase trt)"
  shows "\<exists>ms lost. wf_saved win s (snd (wf_level te (Suc n) trt win s)) ms \<and>
     wf_run_ok trt win (fst (wf_level te (Suc n) trt win s)) ms lost"
proof -
  obtain r s' where r: "run_workflow te (wf_level te n) trt win s = (r, s')" by fastforce
  from run_workflow_ok [OF assms(1) nested_saves.saved_run_axioms wf_state_fresh [OF assms(2,3)] r]
  show ?thesis using r by simp
qed

end
