(* ===== verification/TemporalEvents.thy ===== *)
theory TemporalEvents
  imports TemporalTypes
begin

text \<open>
  The event workflow (\<open>internal/runtime/temporal/event_workflow.go\<close>): one per agent, shared by its runs.
  Updates hand events to a consumer that publishes them one by one; the workflow continues as new when its
  history is long and ends on a signal.  A state machine over all interleavings of updates, the consumer,
  the signal and the check of the history.
\<close>

section \<open>State\<close>

record AgentEventUpdate =
  upAgentName :: string
  upChannel :: string
  upJSON :: string

definition maxEventsPerWorkflow :: nat where "maxEventsPerWorkflow = 500"
definition eventWorkflowHistoryLength :: nat where "eventWorkflowHistoryLength = 10000"
definition eventWorkflowHistorySizeBytes :: nat where "eventWorkflowHistorySizeBytes = 40000000"

datatype ending = EndedComplete | EndedAsNew

text \<open>\<open>handing\<close> are the handlers blocked on the unbuffered channel, in order; \<open>publishing\<close> is what the consumer
  has taken; \<open>acceptedUpdates\<close> and \<open>attemptedUpdates\<close> are the updates counted and the events whose publish activity
  was run, since the workflow started.\<close>

record event_wf =
  noOfEvents :: nat
  pendingCount :: int
  continueAsNewPending :: bool
  completeReceived :: bool
  handing :: "AgentEventUpdate list"
  publishing :: "AgentEventUpdate option"
  historyLength :: nat
  historySize :: nat
  ewEnded :: "ending option"
  acceptedUpdates :: "AgentEventUpdate list"
  attemptedUpdates :: "AgentEventUpdate list"

definition event_start :: event_wf where
  "event_start = \<lparr>noOfEvents = 0, pendingCount = 0, continueAsNewPending = False, completeReceived = False,
     handing = [], publishing = None, historyLength = 0, historySize = 0, ewEnded = None,
     acceptedUpdates = [], attemptedUpdates = []\<rparr>"

section \<open>Operations\<close>

definition event_validator :: "event_wf \<Rightarrow> goerr option" where
  "event_validator e =
     (if continueAsNewPending e then Some (new_error ''workflow continue-as-new pending, rejecting new events'')
      else if noOfEvents e \<ge> maxEventsPerWorkflow then
        Some (new_error (''event burst limit reached ('' @ nat_to_str maxEventsPerWorkflow @ ''), retry shortly''))
      else None)"

text \<open>\<open>et\<close> reads the type of an event from its JSON (\<open>events.EventTypeFromJSON\<close>).\<close>

definition event_handler :: "(string \<Rightarrow> goerr + string) \<Rightarrow> AgentEventUpdate \<Rightarrow> event_wf \<Rightarrow> goerr option \<times> event_wf" where
  "event_handler et upd e =
     (case et (upJSON upd) of
        Inl err \<Rightarrow> (Some (wrap_error ''failed to get event type from JSON: '' err), e)
      | Inr _ \<Rightarrow> (None, e\<lparr>noOfEvents := noOfEvents e + 1, pendingCount := pendingCount e + 1,
                         handing := handing e @ [upd], acceptedUpdates := acceptedUpdates e @ [upd]\<rparr>))"

text \<open>The consumer receives from the first blocked handler, and publishes; a failure is only logged.\<close>

definition event_take :: "event_wf \<Rightarrow> event_wf" where
  "event_take e = e\<lparr>publishing := Some (hd (handing e)), handing := tl (handing e)\<rparr>"

definition event_publish :: "event_wf \<Rightarrow> event_wf" where
  "event_publish e =
     (case publishing e of
        None \<Rightarrow> e
      | Some upd \<Rightarrow> e\<lparr>publishing := None, pendingCount := pendingCount e - 1, attemptedUpdates := attemptedUpdates e @ [upd]\<rparr>)"

definition history_crossed :: "event_wf \<Rightarrow> bool" where
  "history_crossed e \<longleftrightarrow>
     historyLength e \<ge> eventWorkflowHistoryLength \<or> historySize e \<ge> eventWorkflowHistorySizeBytes"

text \<open>The condition of \<open>workflow.Await\<close>: the state with the flag set, and whether the wait is over.\<close>

definition event_await :: "event_wf \<Rightarrow> bool \<times> event_wf" where
  "event_await e =
     (if completeReceived e then (True, e)
      else
        (let e1 = (if \<not> continueAsNewPending e \<and> history_crossed e then e\<lparr>continueAsNewPending := True\<rparr> else e)
         in if pendingCount e1 > 0 \<or> handing e1 \<noteq> [] then (False, e1) else (continueAsNewPending e1, e1)))"

definition event_exit :: "event_wf \<Rightarrow> event_wf" where
  "event_exit e = e\<lparr>ewEnded := Some (if completeReceived e then EndedComplete else EndedAsNew)\<rparr>"

definition grow_history :: "nat \<Rightarrow> nat \<Rightarrow> event_wf \<Rightarrow> event_wf" where
  "grow_history n b e = e\<lparr>historyLength := historyLength e + n, historySize := historySize e + b\<rparr>"

section \<open>Steps\<close>

text \<open>What the service records grows the history; a rejected update is not recorded.  The consumer stops
  between two events when the workflow exits.\<close>

inductive ev_step :: "(string \<Rightarrow> goerr + string) \<Rightarrow> event_wf \<Rightarrow> event_wf \<Rightarrow> bool" for et where
  EvRejected: "ewEnded e = None \<Longrightarrow> event_validator e = Some err \<Longrightarrow> ev_step et e e"
| EvUpdate: "ewEnded e = None \<Longrightarrow> event_validator e = None \<Longrightarrow> event_handler et upd e = (r, e') \<Longrightarrow>
    ev_step et e (grow_history n b e')"
| EvTake: "ewEnded e = None \<Longrightarrow> publishing e = None \<Longrightarrow> handing e \<noteq> [] \<Longrightarrow> ev_step et e (event_take e)"
| EvPublish: "ewEnded e = None \<Longrightarrow> publishing e \<noteq> None \<Longrightarrow> ev_step et e (grow_history n b (event_publish e))"
| EvSignal: "ewEnded e = None \<Longrightarrow> ev_step et e (grow_history n b (e\<lparr>completeReceived := True\<rparr>))"
| EvAwait: "ewEnded e = None \<Longrightarrow> event_await e = (False, e') \<Longrightarrow> ev_step et e e'"
| EvExit: "ewEnded e = None \<Longrightarrow> event_await e = (True, e') \<Longrightarrow> publishing e' = None \<Longrightarrow> ev_step et e (event_exit e')"

inductive_cases ev_stepE: "ev_step et e e'"

inductive ev_reach :: "(string \<Rightarrow> goerr + string) \<Rightarrow> event_wf \<Rightarrow> event_wf \<Rightarrow> bool" for et where
  EvHere: "ev_reach et e e"
| EvStep: "ev_reach et e e' \<Longrightarrow> ev_step et e' e'' \<Longrightarrow> ev_reach et e e''"

lemma grow_history_simps [simp]:
  "noOfEvents (grow_history n b e) = noOfEvents e" "pendingCount (grow_history n b e) = pendingCount e"
  "continueAsNewPending (grow_history n b e) = continueAsNewPending e"
  "completeReceived (grow_history n b e) = completeReceived e" "handing (grow_history n b e) = handing e"
  "publishing (grow_history n b e) = publishing e" "ewEnded (grow_history n b e) = ewEnded e"
  "acceptedUpdates (grow_history n b e) = acceptedUpdates e" "attemptedUpdates (grow_history n b e) = attemptedUpdates e"
  by (simp_all add: grow_history_def)

section \<open>Order and completeness\<close>

definition in_flight :: "event_wf \<Rightarrow> AgentEventUpdate list" where
  "in_flight e = (case publishing e of None \<Rightarrow> [] | Some u \<Rightarrow> [u]) @ handing e"

definition ev_inv :: "event_wf \<Rightarrow> bool" where
  "ev_inv e \<longleftrightarrow>
     acceptedUpdates e = attemptedUpdates e @ in_flight e \<and> pendingCount e = int (length (in_flight e)) \<and>
     noOfEvents e = length (acceptedUpdates e) \<and> noOfEvents e \<le> maxEventsPerWorkflow \<and>
     (ewEnded e = Some EndedAsNew \<longrightarrow> in_flight e = [])"

lemma ev_inv_start: "ev_inv event_start"
  by (simp add: ev_inv_def event_start_def in_flight_def)

lemma ev_inv_await: "ev_inv e \<Longrightarrow> ewEnded e = None \<Longrightarrow> event_await e = (b, e') \<Longrightarrow> ev_inv e' \<and> ewEnded e' = None \<and>
    (b \<longrightarrow> publishing e' = None \<longrightarrow> \<not> completeReceived e' \<longrightarrow> in_flight e' = [])"
  by (auto simp: event_await_def ev_inv_def in_flight_def Let_def split: if_splits option.splits)

lemma ev_inv_step: "ev_step et e e' \<Longrightarrow> ev_inv e \<Longrightarrow> ev_inv e'"
proof (induction rule: ev_step.induct)
  case (EvUpdate e upd r e' n b)
  then show ?case
    by (auto simp: ev_inv_def in_flight_def event_handler_def event_validator_def split: sum.splits if_splits)
next
  case (EvTake e)
  then show ?case by (cases "handing e") (auto simp: ev_inv_def in_flight_def event_take_def)
next
  case (EvPublish e n b)
  then show ?case by (auto simp: ev_inv_def in_flight_def event_publish_def)
next
  case (EvSignal e n b)
  then show ?case by (cases "publishing e") (auto simp: ev_inv_def in_flight_def)
next
  case (EvAwait e e')
  then show ?case using ev_inv_await by blast
next
  case (EvExit e e')
  from ev_inv_await [OF EvExit(4,1,2)] EvExit(3) show ?case
    by (auto simp: ev_inv_def event_exit_def in_flight_def)
qed simp

lemma ev_inv_reach: "ev_reach et e e' \<Longrightarrow> ev_inv e \<Longrightarrow> ev_inv e'"
  by (induction rule: ev_reach.induct) (auto intro: ev_inv_step)

section \<open>The burst limit\<close>

text \<open>All accepted events are published, the limit of accepted events is reached, and the history is not.\<close>

definition ev_exhausted :: "event_wf \<Rightarrow> bool" where
  "ev_exhausted e \<longleftrightarrow> maxEventsPerWorkflow \<le> noOfEvents e \<and> in_flight e = [] \<and>
     \<not> continueAsNewPending e \<and> (completeReceived e \<or> \<not> history_crossed e)"

lemma ev_exhausted_step:
  assumes "ev_step et e e'" and "ev_exhausted e" and "ewEnded e \<noteq> Some EndedAsNew"
  shows "ev_exhausted e' \<and> acceptedUpdates e' = acceptedUpdates e \<and> ewEnded e' \<noteq> Some EndedAsNew"
  using assms
proof (induction rule: ev_step.induct)
  case (EvUpdate e upd r e' n b)
  then show ?case by (auto simp: event_validator_def ev_exhausted_def split: if_splits)
next
  case (EvAwait e e')
  then show ?case by (auto simp: event_await_def ev_exhausted_def Let_def split: if_splits)
next
  case (EvExit e e')
  then show ?case
    by (auto simp: event_await_def event_exit_def ev_exhausted_def in_flight_def Let_def split: if_splits)
qed (auto simp: ev_exhausted_def in_flight_def history_crossed_def)

lemma ev_exhausted_reach:
  "ev_reach et e e' \<Longrightarrow> ev_exhausted e \<Longrightarrow> ewEnded e \<noteq> Some EndedAsNew \<Longrightarrow>
   ev_exhausted e' \<and> acceptedUpdates e' = acceptedUpdates e \<and> ewEnded e' \<noteq> Some EndedAsNew"
proof (induction rule: ev_reach.induct)
  case (EvStep e e' e'')
  then show ?case using ev_exhausted_step by metis
qed simp

text \<open>One event, published before the next: eleven entries of history, of twenty thousand bytes.\<close>

lemma ev_one_more:
  fixes upd :: AgentEventUpdate
  assumes ok: "et (upJSON upd) = Inr ty" and e: "in_flight e = []" "noOfEvents e < maxEventsPerWorkflow"
    "\<not> continueAsNewPending e" "ewEnded e = None"
  shows "\<exists>e'. (\<forall>e0. ev_reach et e0 e \<longrightarrow> ev_reach et e0 e') \<and> in_flight e' = [] \<and> noOfEvents e' = noOfEvents e + 1 \<and>
    \<not> continueAsNewPending e' \<and> ewEnded e' = None \<and>
    historyLength e' = historyLength e + 11 \<and> historySize e' = historySize e + 20000"
proof -
  define e1 where "e1 = grow_history 6 10000 (snd (event_handler et upd e))"
  define e3 where "e3 = grow_history 5 10000 (event_publish (event_take e1))"
  have idle: "publishing e = None" "handing e = []" using e(1) by (auto simp: in_flight_def split: option.splits)
  have s1: "ev_step et e e1"
    unfolding e1_def using e(2-4) by (intro EvUpdate [where r = None and upd = upd]) (simp_all add: event_validator_def event_handler_def ok)
  have e1: "publishing e1 = None" "handing e1 = [upd]" "ewEnded e1 = None"
    using idle e(4) by (simp_all add: e1_def event_handler_def ok)
  have s2: "ev_step et e1 (event_take e1)" using e1 by (intro EvTake) simp_all
  have e2: "publishing (event_take e1) \<noteq> None" "ewEnded (event_take e1) = None" using e1 by (simp_all add: event_take_def)
  have s3: "ev_step et (event_take e1) e3" unfolding e3_def using e2 by (intro EvPublish) simp_all
  have "ev_reach et e0 e3" if "ev_reach et e0 e" for e0
    using that s1 s2 s3 by (blast intro: ev_reach.EvStep)
  moreover have "in_flight e3 = []" "noOfEvents e3 = noOfEvents e + 1" "\<not> continueAsNewPending e3" "ewEnded e3 = None"
      "historyLength e3 = historyLength e + 11" "historySize e3 = historySize e + 20000"
    using e1 e(3,4) idle
    by (simp_all add: e3_def e1_def event_take_def event_publish_def in_flight_def event_handler_def ok grow_history_def)
  ultimately show ?thesis by blast
qed

lemma ev_fill:
  fixes upd :: AgentEventUpdate
  assumes ok: "et (upJSON upd) = Inr ty"
  shows "n \<le> maxEventsPerWorkflow \<Longrightarrow> \<exists>e. ev_reach et event_start e \<and> in_flight e = [] \<and> noOfEvents e = n \<and>
    \<not> continueAsNewPending e \<and> ewEnded e = None \<and> historyLength e = 11 * n \<and> historySize e = 20000 * n"
proof (induction n)
  case 0
  show ?case by (rule exI [of _ event_start]) (auto simp: event_start_def in_flight_def intro: EvHere)
next
  case (Suc n)
  then obtain e where e: "ev_reach et event_start e" "in_flight e = []" "noOfEvents e = n" "\<not> continueAsNewPending e"
    "ewEnded e = None" "historyLength e = 11 * n" "historySize e = 20000 * n" by auto
  have "noOfEvents e < maxEventsPerWorkflow" using Suc.prems e(3) by simp
  from ev_one_more [of et upd ty e, OF ok e(2) this e(4,5)] e show ?case by fastforce
qed

text \<open>So the pipeline of an agent comes to a point from which it accepts no event any more, ever, and does not
  continue as new.\<close>

lemma ev_exhausts:
  fixes upd :: AgentEventUpdate
  assumes "et (upJSON upd) = Inr ty"
  shows "\<exists>e. ev_reach et event_start e \<and> ev_exhausted e \<and> historyLength e = 5500 \<and>
    (\<forall>e'. ev_reach et e e' \<longrightarrow> acceptedUpdates e' = acceptedUpdates e \<and> ewEnded e' \<noteq> Some EndedAsNew)"
proof -
  obtain e where e: "ev_reach et event_start e" "in_flight e = []" "noOfEvents e = maxEventsPerWorkflow"
      "\<not> continueAsNewPending e" "ewEnded e = None" "historyLength e = 11 * maxEventsPerWorkflow"
      "historySize e = 20000 * maxEventsPerWorkflow"
    using ev_fill [of et upd ty maxEventsPerWorkflow, OF assms] by auto
  have "ev_exhausted e" using e
    by (simp add: ev_exhausted_def history_crossed_def maxEventsPerWorkflow_def eventWorkflowHistoryLength_def
        eventWorkflowHistorySizeBytes_def)
  moreover have "ewEnded e \<noteq> Some EndedAsNew" using e(5) by simp
  ultimately show ?thesis using e(1,6) ev_exhausted_reach [of et e] by (intro exI [of _ e]) (auto simp: maxEventsPerWorkflow_def)
qed

end
