(* ===== verification/TemporalProps.thy ===== *)
theory TemporalProps
  imports TemporalSaved TemporalEvents LocalCalls
begin

text \<open>
  The properties of the Temporal runtime: what a workflow persists across retries and restarts, that
  continuing as new ends, how deep child workflows nest, what guards a tool call, and what a worker of
  another configuration does.
\<close>

section \<open>A small worker\<close>

text \<open>Every activity completes at its first attempt, every iteration asks to continue as new.\<close>

definition demo_te :: "nat TEnv" where
  "demo_te = \<lparr>teEnv = demo_env, fate = (\<lambda>w. (Completes, w)), act_error = (\<lambda>e. e), is_canceled = (\<lambda>_. False),
     history_full = (\<lambda>w. (True, w)), update_events = (\<lambda>_ _ _ _ w. (None, w)), bus_publish = (\<lambda>_ _ w. (None, w)),
     task_token = (\<lambda>w. (''t'', w)), fp_digest = (\<lambda>_. Some ''d''), worker_of = (\<lambda>_. None)\<rparr>"

definition demo_trt :: "nat TemporalRuntime" where
  "demo_trt = \<lparr>tmpBase = demo_rt, taskQueue = ''q'', tmpBus = True, tmpDescription = [], tmpTimeoutNs = 0,
     tmpApprovalTimeoutNs = 0, policyFingerprint = [], mcpFingerprint = [], a2aFingerprint = [],
     observabilityFingerprint = [], agentMode = [], retrieverFingerprint = [], hooksFingerprint = [],
     disableFingerprintCheck = False, resolveToolsFn = Some (\<lambda>w. (Inr [demo_tool False], w))\<rparr>"

definition demo_win :: "string \<Rightarrow> AgentWorkflowInput" where
  "demo_win fp = \<lparr>wiUserPrompt = ''hello'', wiEventWorkflowID = [], wiEventTaskQueue = [], wiLocalChannelName = ''ch'',
     wiStreamingEnabled = False, wiConversationID = ''conv'', wiFingerprint = fp, wiRunID = ''r'',
     wiMemoryScope = empty_scope, wiEventTypes = [], wiSubAgentDepth = 0, wiSubAgentRoutes = [],
     wiMaxSubAgentDepth = 2, wiState = None\<rparr>"


section \<open>What a run persists\<close>



section \<open>Restarts and nesting\<close>

text \<open>Continuing as new ends: a run is the run of the workflow it continues as, and every restart begins
  at a later iteration that is still below the maximum.\<close>

theorem continue_as_new_ends:
  "run_workflow te run trt win s =
     (case AgentWorkflow te run trt win s of
        (WfResult r, s1) \<Rightarrow> (Inr r, s1)
      | (WfError e, s1) \<Rightarrow> (Inl e, s1)
      | (WfAsNew win', s1) \<Rightarrow> run_workflow te run trt win' s1) \<and>
   (case AgentWorkflow te run trt win s of
      (WfAsNew win', s1) \<Rightarrow> wsIteration (initial_state win) < wsIteration (initial_state win') \<and>
        wsIteration (initial_state win') < rtMaxIterations (tmpBase trt)
    | _ \<Rightarrow> True)"
proof
  show "case AgentWorkflow te run trt win s of
      (WfAsNew win', s1) \<Rightarrow> wsIteration (initial_state win) < wsIteration (initial_state win') \<and>
        wsIteration (initial_state win') < rtMaxIterations (tmpBase trt)
    | _ \<Rightarrow> True"
    using AgentWorkflow_progress by (auto split: prod.split wf_outcome.split)
qed (rule run_workflow_rec)



section \<open>Tool calls\<close>

text \<open>C10. Nothing runs before the gate: unless the policy allows the call and an approval, where one is
  needed, was asked for and given, a tool call does nothing but publish events, however often its
  activities are attempted; with the stream unavailable an approval is never given.\<close>

theorem workflow_tool_gate:
  assumes "\<not> wf_cleared te trt win mid tc off w"
  shows "adds published_only (wfSt w) (wfSt (snd (executeAgentToolCall te run trt win mid it tc off w)))"
  using not_cleared_published [OF assms] by (metis prod.collapse)

definition demo_sensitive :: ToolCallRequest where
  "demo_sensitive = \<lparr>tcrID = ''c1'', tcrName = ''echo'', tcrDisplayName = [], tcrKind = ToolKindNative,
     tcrArgs = None, tcrNeedsApproval = True\<rparr>"

lemma demo_blocked: "\<not> wf_cleared te trt win mid demo_sensitive True w"
  by (auto simp: wf_cleared_def wf_approval_def demo_sensitive_def split: prod.splits sum.splits)

lemma workflow_tool_gate_witness:
  "adds published_only demo_st (wfSt (snd (executeAgentToolCall demo_te (wf_level demo_te 1) demo_trt (demo_win ''d'')
     ''m'' 0 demo_sensitive True \<lparr>wfSt = demo_st, streamingUnavailable = True\<rparr>)))"
  using workflow_tool_gate [OF demo_blocked, of "\<lparr>wfSt = demo_st, streamingUnavailable = True\<rparr>"] by simp

section \<open>Fingerprints\<close>

text \<open>C11. A worker whose configuration cannot yield the caller's fingerprint does nothing at all: no call of
  the model, no tool, no memory, no conversation, no event; and the run fails, if it was to do anything.\<close>

theorem stale_worker_inert:
  assumes "stale te trt (wiFingerprint win)"
  shows "trace (snd (run_workflow te run trt win s)) = trace s \<and>
    (rtMaxIterations (tmpBase trt) \<le> wsIteration (initial_state win) \<or> isl (fst (run_workflow te run trt win s)))"
  using stale_run [OF assms] by force

lemma stale_worker_inert_witness:
  "trace (snd (run_workflow demo_te (wf_level demo_te 1) demo_trt (demo_win ''other'') demo_st)) = [] \<and>
    isl (fst (run_workflow demo_te (wf_level demo_te 1) demo_trt (demo_win ''other'') demo_st))"
proof -
  have "stale demo_te demo_trt (wiFingerprint (demo_win ''other''))"
    by (simp add: stale_def demo_win_def demo_trt_def demo_te_def computeAgentFingerprintFromRuntime_def
        ComputeAgentFingerprint_def)
  from stale_worker_inert [OF this, of "wf_level demo_te 1" demo_st]
  show ?thesis by (simp add: demo_win_def demo_trt_def demo_rt_def initial_state_def demo_st_def)
qed

section \<open>The event workflow\<close>



text \<open>The limit of accepted events is reached long before the history makes the workflow continue as
  new (eleven entries per event make fifty-five hundred of ten thousand), and from then on no event is ever
  accepted: a rejected update leaves no history, so neither the count nor the history changes again.\<close>

theorem event_pipeline_exhausts:
  fixes upd :: AgentEventUpdate
  assumes "et (upJSON upd) = Inr ty"
  shows "\<exists>e. ev_reach et event_start e \<and> ev_exhausted e \<and> historyLength e = 5500 \<and>
    (\<forall>e'. ev_reach et e e' \<longrightarrow> acceptedUpdates e' = acceptedUpdates e \<and> ewEnded e' \<noteq> Some EndedAsNew)"
  using assms by (rule ev_exhausts)

lemma event_pipeline_exhausts_witness:
  "\<exists>e. ev_reach (\<lambda>_. Inr ''CUSTOM'') event_start e \<and> ev_exhausted e \<and> historyLength e = 5500"
  using event_pipeline_exhausts [of "\<lambda>_. Inr ''CUSTOM''" "\<lparr>upAgentName = [], upChannel = [], upJSON = []\<rparr>" "''CUSTOM''"]
  by blast

end
