(* ===== verification/McpClient.thy ===== *)
theory McpClient
  imports ToolExec
begin

text \<open>
  The client of MCP servers (\<open>pkg/mcp/client\<close>) and the interface \<open>MCPClient\<close> the agent uses it through.

  The protocol session and the network are third-party code: \<open>MCPWire\<close> holds what the client relies on,
  connecting, one request for a page of tools, one tool call, and waiting between attempts.  The deadline
  of an attempt lets through a bounded number of page requests (\<open>wPages\<close>), after which a request fails
  with the error of the context; this is what ends the paging of a server that always names a next page.
\<close>

section \<open>The interface\<close>

record 'w MCPClient =
  mcName :: string
  mcListTools :: "'w \<Rightarrow> (goerr + ToolSpec list) \<times> 'w"
  mcCallTool :: "string \<Rightarrow> string \<Rightarrow> 'w \<Rightarrow> (goerr + string) \<times> 'w"

section \<open>Transports\<close>

text \<open>\<open>TransportOther\<close> is a type of the user's that implements \<open>MCPTransportConfig\<close>: its kind and what its
  \<open>Validate\<close> answers.  A loopback transport is usable when it holds a protocol transport.\<close>

record MCPStdio =
  Command :: string
  Args :: "string list"
  StdioEnv :: "(string \<times> string) list"

datatype MCPTransport =
    TransportStdio MCPStdio
  | TransportHTTP MCPStreamableHTTP
  | TransportLoopback bool
  | TransportOther string "goerr option"

definition transportKind :: "MCPTransport \<Rightarrow> string" where
  "transportKind t =
     (case t of TransportStdio _ \<Rightarrow> ''stdio'' | TransportHTTP _ \<Rightarrow> ''streamable_http''
              | TransportLoopback _ \<Rightarrow> ''loopback'' | TransportOther kind _ \<Rightarrow> kind)"

definition loopback_error :: goerr where
  "loopback_error = new_error ''mcp loopback transport: Transport must be a non-nil sdkmcp.Transport''"

definition transportValidate :: "MCPTransport \<Rightarrow> goerr option" where
  "transportValidate t =
     (case t of
        TransportStdio s \<Rightarrow> MCPStdioValidate (Command s)
      | TransportHTTP h \<Rightarrow> MCPStreamableHTTPValidate h
      | TransportLoopback usable \<Rightarrow> (if usable then None else Some loopback_error)
      | TransportOther kind answer \<Rightarrow> answer)"

section \<open>HTTP headers\<close>

text \<open>\<open>http.Header\<close>: canonical keys with the list of their values.  A key of token characters is written
  with capitals at the start and after hyphens; any other key is left alone.\<close>

definition is_alpha :: "char \<Rightarrow> bool" where
  "is_alpha c \<longleftrightarrow> (65 \<le> (of_char c :: nat) \<and> (of_char c :: nat) \<le> 90) \<or> (97 \<le> (of_char c :: nat) \<and> (of_char c :: nat) \<le> 122)"

definition to_upper_char :: "char \<Rightarrow> char" where
  "to_upper_char c =
     (if 97 \<le> (of_char c :: nat) \<and> (of_char c :: nat) \<le> 122 then char_of (of_char c - (32 :: nat)) else c)"

definition is_token_char :: "char \<Rightarrow> bool" where
  "is_token_char c \<longleftrightarrow> is_alpha c \<or> is_digit c \<or> c \<in> set ''!#$%&*+-.^_`|~'' \<or> c = CHR 0x27"

fun canonical_from :: "bool \<Rightarrow> string \<Rightarrow> string" where
  "canonical_from upper [] = []"
| "canonical_from upper (c # s) = (if upper then to_upper_char c else to_lower_char c) # canonical_from (c = CHR ''-'') s"

definition canonical_key :: "string \<Rightarrow> string" where
  "canonical_key k = (if list_all is_token_char k then canonical_from True k else k)"

type_synonym http_header = "(string \<times> string list) list"

definition header_values :: "http_header \<Rightarrow> string \<Rightarrow> string list" where
  "header_values h k = (case map_of h (canonical_key k) of None \<Rightarrow> [] | Some vs \<Rightarrow> vs)"

definition header_get :: "http_header \<Rightarrow> string \<Rightarrow> string" where
  "header_get h k = (case header_values h k of [] \<Rightarrow> [] | v # _ \<Rightarrow> v)"

definition header_add :: "string \<Rightarrow> string \<Rightarrow> http_header \<Rightarrow> http_header" where
  "header_add k v h = AList.update (canonical_key k) (header_values h k @ [v]) h"

definition header_set :: "string \<Rightarrow> string \<Rightarrow> http_header \<Rightarrow> http_header" where
  "header_set k v h = AList.update (canonical_key k) [v] h"

fun add_headers :: "(string \<times> string) list \<Rightarrow> http_header option \<Rightarrow> http_header option" where
  "add_headers [] hdr = hdr"
| "add_headers ((k0, v) # kvs) hdr =
     (let k = trim_space k0 in
      if k = [] then add_headers kvs hdr
      else add_headers kvs (Some (header_add k v (case hdr of None \<Rightarrow> [] | Some h \<Rightarrow> h))))"

section \<open>The wire\<close>

text \<open>An HTTP client: a plain one or one of OAuth client credentials, over a base transport that may skip
  the verification of certificates, with headers added to each request.\<close>

datatype http_client =
    PlainHTTP (skips_tls: bool) (sent_headers: "http_header option")
  | OAuthHTTP (oauth_creds: OAuthClientCreds) (skips_tls: bool) (sent_headers: "http_header option")

datatype sdk_transport =
    CommandTransport string "string list" "(string \<times> string) list"
  | StreamableClientTransport string http_client
  | LoopbackWire

definition streamableHTTPClient :: "MCPStreamableHTTP \<Rightarrow> http_client" where
  "streamableHTTPClient h =
     (let hdr = add_headers (HTTPHeaders h) None in
      case OAuth h of
        Some cc \<Rightarrow> OAuthHTTP cc (SkipTLSVerify h) hdr
      | None \<Rightarrow>
          (if trim_space (Token h) \<noteq> [] then
             (let hd0 = (case hdr of None \<Rightarrow> [] | Some x \<Rightarrow> x);
                  hd1 = (if header_get hd0 ''Authorization'' = []
                         then header_set ''Authorization'' (''Bearer '' @ trim_space (Token h)) hd0 else hd0)
              in PlainHTTP (SkipTLSVerify h) (Some hd1))
           else PlainHTTP (SkipTLSVerify h) hdr))"

definition transportFromConfig :: "MCPTransport \<Rightarrow> goerr + sdk_transport" where
  "transportFromConfig t =
     (case t of
        TransportStdio s \<Rightarrow>
          (let cmd = trim_space (Command s) in
           if cmd = [] then Inl (new_error ''mcp stdio transport: Command is empty'')
           else Inr (CommandTransport cmd (Args s) (StdioEnv s)))
      | TransportHTTP h \<Rightarrow>
          (let ep = trim_space (URL h) in
           if ep = [] then Inl (new_error ''mcp streamable_http transport: URL is empty'')
           else Inr (StreamableClientTransport ep (streamableHTTPClient h)))
      | TransportLoopback usable \<Rightarrow> (if usable then Inr LoopbackWire else Inl loopback_error)
      | TransportOther kind _ \<Rightarrow>
          (if kind = ''stdio'' then Inl (new_error ''mcp stdio transport: unexpected config type'')
           else if kind = ''streamable_http'' then Inl (new_error ''mcp streamable_http transport: unexpected config type'')
           else if kind = ''loopback'' then Inl (new_error ''mcp loopback transport: unexpected config type'')
           else Inl (new_error (''unsupported mcp transport kind '' @ go_quote kind))))"

section \<open>Configuration\<close>

record MCPClientConfig =
  ccTimeout :: int
  ccRetryAttempts :: int
  ccToolFilter :: MCPToolFilter

definition second :: int where "second = 1000000000"

definition DefaultMCPTimeout :: int where "DefaultMCPTimeout = 30 * second"
definition DefaultMCPRetryAttempts :: int where "DefaultMCPRetryAttempts = 3"

text \<open>\<open>BuildConfig\<close> on the configuration the options have filled in; loggers are left out.\<close>

definition MCPBuildConfig :: "MCPClientConfig \<Rightarrow> goerr + MCPClientConfig" where
  "MCPBuildConfig c0 =
     (let c1 = (if ccTimeout c0 \<le> 0 then c0\<lparr>ccTimeout := DefaultMCPTimeout\<rparr> else c0);
          c2 = (if ccRetryAttempts c1 \<le> 0 then c1\<lparr>ccRetryAttempts := DefaultMCPRetryAttempts\<rparr> else c1)
      in case MCPFilterValidate (ccToolFilter c2) of
           Some e \<Rightarrow> Inl (wrap_error ''mcp client config: '' e)
         | None \<Rightarrow> Inr c2)"

section \<open>The client\<close>

text \<open>\<open>clOpen\<close> is whether the protocol client is still there (\<open>Close\<close> clears it).\<close>

record MCPClientImpl =
  clName :: string
  clTransport :: MCPTransport
  clOpen :: bool
  clTimeout :: int
  clMaxAttempts :: int
  clFilter :: MCPToolFilter

definition NewMCPClientImpl :: "string \<Rightarrow> MCPTransport option \<Rightarrow> MCPClientConfig \<Rightarrow> goerr + MCPClientImpl" where
  "NewMCPClientImpl name transport opts =
     (if trim_space name = [] then Inl (new_error ''mcp client: name is empty'')
      else case transport of
        None \<Rightarrow> Inl (new_error ''mcp client: transport config is nil'')
      | Some t \<Rightarrow>
          (case transportValidate t of
             Some e \<Rightarrow> Inl (wrap_error ''mcp client: '' e)
           | None \<Rightarrow>
               (case MCPBuildConfig opts of
                  Inl e \<Rightarrow> Inl e
                | Inr cfg \<Rightarrow>
                    (case transportFromConfig t of
                       Inl e \<Rightarrow> Inl e
                     | Inr _ \<Rightarrow>
                         Inr \<lparr>clName = name, clTransport = t, clOpen = True, clTimeout = ccTimeout cfg,
                              clMaxAttempts = (if ccRetryAttempts cfg < 1 then 1 else ccRetryAttempts cfg),
                              clFilter = ccToolFilter cfg\<rparr>))))"

definition MCPClose :: "MCPClientImpl \<Rightarrow> MCPClientImpl" where
  "MCPClose c = c\<lparr>clOpen := False\<rparr>"

section \<open>The protocol\<close>

record sdkTool =
  stName :: string
  stDescription :: string
  stInputSchema :: goany

text \<open>\<open>wListTools\<close> answers one page and the cursor of the next; \<open>wJSON\<close> and \<open>wUnmarshal\<close> are
  \<open>encoding/json\<close>; \<open>wWait\<close> waits some milliseconds and fails when the caller's context is done.  \<open>wCallTool\<close>
  includes the encoding of the result.\<close>

record 'w MCPWire =
  wConnect :: "sdk_transport \<Rightarrow> int \<Rightarrow> 'w \<Rightarrow> goerr option \<times> 'w"
  wClose :: "'w \<Rightarrow> 'w"
  wPing :: "'w \<Rightarrow> goerr option \<times> 'w"
  wListTools :: "string \<Rightarrow> 'w \<Rightarrow> (goerr + sdkTool option list \<times> string) \<times> 'w"
  wCallTool :: "string \<Rightarrow> goany \<Rightarrow> 'w \<Rightarrow> (goerr + string) \<times> 'w"
  wWait :: "int \<Rightarrow> 'w \<Rightarrow> goerr option \<times> 'w"
  wPages :: nat
  wJSON :: "goany \<Rightarrow> string option"
  wUnmarshal :: "string \<Rightarrow> goerr + goany"

definition object_schema :: gomap where
  "object_schema = Some [(''type'', VString ''object'')]"

definition schema_of_json :: "'w MCPWire \<Rightarrow> string \<Rightarrow> gomap" where
  "schema_of_json w b = (case wUnmarshal w b of Inr (VMap kvs) \<Rightarrow> Some kvs | _ \<Rightarrow> object_schema)"

definition inputSchemaToJSONSchema :: "'w MCPWire \<Rightarrow> goany \<Rightarrow> gomap" where
  "inputSchemaToJSONSchema w v =
     (case v of
        VNil \<Rightarrow> object_schema
      | VMap kvs \<Rightarrow> (if kvs = [] then object_schema else Some kvs)
      | VBytes b \<Rightarrow> schema_of_json w b
      | _ \<Rightarrow> (case wJSON w v of None \<Rightarrow> object_schema | Some b \<Rightarrow> schema_of_json w b))"

definition toolToSpec :: "'w MCPWire \<Rightarrow> sdkTool \<Rightarrow> ToolSpec" where
  "toolToSpec w t =
     \<lparr>SpecName = stName t, SpecDescription = stDescription t,
      SpecParameters = (case inputSchemaToJSONSchema w (stInputSchema t) of None \<Rightarrow> object_schema | Some m \<Rightarrow> Some m)\<rparr>"

definition mcpRetryDelay :: "int \<Rightarrow> int" where
  "mcpRetryDelay attempt = (let d = attempt * 50 in if d > 2000 then 2000 else d)"

text \<open>An attempt connects, runs the callback and closes the session.  The callback works on the
  variables it captures, which are the same in every attempt.\<close>

type_synonym ('a, 'w) session_fn = "'a \<Rightarrow> 'w \<Rightarrow> goerr option \<times> 'a \<times> 'w"

definition session_attempt :: "'w MCPWire \<Rightarrow> MCPClientImpl \<Rightarrow> sdk_transport \<Rightarrow> ('a, 'w) session_fn
    \<Rightarrow> 'a \<Rightarrow> 'w \<Rightarrow> goerr option \<times> 'a \<times> 'w" where
  "session_attempt w c tr fn a s =
     (case wConnect w tr (clTimeout c) s of
        (Some e, s1) \<Rightarrow> (Some e, a, s1)
      | (None, s1) \<Rightarrow> (let (r, a1, s2) = fn a s1 in (r, a1, wClose w s2)))"

fun session_from :: "'w MCPWire \<Rightarrow> MCPClientImpl \<Rightarrow> ('a, 'w) session_fn \<Rightarrow> nat \<Rightarrow> int
    \<Rightarrow> 'a \<Rightarrow> 'w \<Rightarrow> goerr option \<times> 'a \<times> 'w" where
  "session_from w c fn 0 attempt a s = (None, a, s)"
| "session_from w c fn (Suc k) attempt a s =
     (case transportFromConfig (clTransport c) of
        Inl e \<Rightarrow> (Some e, a, s)
      | Inr tr \<Rightarrow>
          (case session_attempt w c tr fn a s of
             (None, a1, s1) \<Rightarrow> (None, a1, s1)
           | (Some e, a1, s1) \<Rightarrow>
               (if k = 0 then (Some e, a1, s1)
                else case wWait w (mcpRetryDelay attempt) s1 of
                  (Some e', s2) \<Rightarrow> (Some e', a1, s2)
                | (None, s2) \<Rightarrow> session_from w c fn k (attempt + 1) a1 s2)))"

definition withSession :: "'w MCPWire \<Rightarrow> MCPClientImpl \<Rightarrow> ('a, 'w) session_fn \<Rightarrow> 'a \<Rightarrow> 'w
    \<Rightarrow> goerr option \<times> 'a \<times> 'w" where
  "withSession w c fn a s =
     (if \<not> clOpen c then (Some (new_error ''mcp client: closed''), a, s)
      else session_from w c fn (nat (if clMaxAttempts c < 1 then 1 else clMaxAttempts c)) 1 a s)"

section \<open>Operations\<close>

definition MCPPing :: "'w MCPWire \<Rightarrow> MCPClientImpl \<Rightarrow> 'w \<Rightarrow> goerr option \<times> 'w" where
  "MCPPing w c s =
     (let (r, _, s1) = withSession w c (\<lambda>u s. case wPing w s of (r, s1) \<Rightarrow> (r, u, s1)) () s in (r, s1))"

text \<open>The listing appends the tools of each page to the variable \<open>out\<close> of \<open>ListTools\<close>.\<close>

definition page_specs :: "'w MCPWire \<Rightarrow> sdkTool option list \<Rightarrow> ToolSpec list" where
  "page_specs w ts = map (\<lambda>t. toolToSpec w (the t)) (filter (\<lambda>t. t \<noteq> None) ts)"

fun list_pages :: "'w MCPWire \<Rightarrow> nat \<Rightarrow> string \<Rightarrow> (ToolSpec list, 'w) session_fn" where
  "list_pages w 0 cursor out s = (Some deadline_error, out, s)"
| "list_pages w (Suc n) cursor out s =
     (case wListTools w cursor s of
        (Inl e, s1) \<Rightarrow> (Some e, out, s1)
      | (Inr (ts, next), s1) \<Rightarrow>
          (if next = [] then (None, out @ page_specs w ts, s1)
           else list_pages w n next (out @ page_specs w ts) s1))"

definition MCPListTools :: "'w MCPWire \<Rightarrow> MCPClientImpl \<Rightarrow> 'w \<Rightarrow> (goerr + ToolSpec list) \<times> 'w" where
  "MCPListTools w c s =
     (case withSession w c (list_pages w (wPages w) []) [] s of
        (Some e, _, s1) \<Rightarrow> (Inl e, s1)
      | (None, out, s1) \<Rightarrow> (Inr (MCPFilterApply (clFilter c) out), s1))"

definition MCPCallTool :: "'w MCPWire \<Rightarrow> MCPClientImpl \<Rightarrow> string \<Rightarrow> string \<Rightarrow> 'w \<Rightarrow> (goerr + string) \<times> 'w" where
  "MCPCallTool w c tool input s =
     (let call = (\<lambda>args.
        (case withSession w c (\<lambda>raw s. case wCallTool w tool args s of
                                 (Inl e, s1) \<Rightarrow> (Some e, raw, s1)
                               | (Inr b, s1) \<Rightarrow> (None, b, s1)) [] s of
           (Some e, _, s1) \<Rightarrow> (Inl e, s1)
         | (None, raw, s1) \<Rightarrow> (Inr raw, s1)))
      in if input = [] then call (VMap [])
         else case wUnmarshal w input of
           Inl e \<Rightarrow> (Inl (wrap_error ''mcp tools/call arguments: '' e), s)
         | Inr v \<Rightarrow> call (if v = VNil then VMap [] else v))"

text \<open>The client as the agent sees it.\<close>

definition as_MCPClient :: "'w MCPWire \<Rightarrow> MCPClientImpl \<Rightarrow> 'w MCPClient" where
  "as_MCPClient w c = \<lparr>mcName = clName c, mcListTools = MCPListTools w c, mcCallTool = MCPCallTool w c\<rparr>"

section \<open>Attempts of the client\<close>

text \<open>
  Attempts of the MCP client.  \<open>listing_attempts\<close> collects what each attempt of \<open>ListTools\<close> received on its
  own; the client's listing is all of it together.
\<close>

definition listing_attempt :: "'w MCPWire \<Rightarrow> MCPClientImpl \<Rightarrow> sdk_transport \<Rightarrow> 'w \<Rightarrow> goerr option \<times> ToolSpec list \<times> 'w" where
  "listing_attempt w c tr s = session_attempt w c tr (list_pages w (wPages w) []) [] s"

fun listing_attempts :: "'w MCPWire \<Rightarrow> MCPClientImpl \<Rightarrow> nat \<Rightarrow> int \<Rightarrow> 'w \<Rightarrow> goerr option \<times> ToolSpec list list \<times> 'w" where
  "listing_attempts w c 0 attempt s = (None, [], s)"
| "listing_attempts w c (Suc k) attempt s =
     (case transportFromConfig (clTransport c) of
        Inl e \<Rightarrow> (Some e, [], s)
      | Inr tr \<Rightarrow>
          (case listing_attempt w c tr s of
             (None, got, s1) \<Rightarrow> (None, [got], s1)
           | (Some e, got, s1) \<Rightarrow>
               (if k = 0 then (Some e, [got], s1)
                else case wWait w (mcpRetryDelay attempt) s1 of
                  (Some e', s2) \<Rightarrow> (Some e', [got], s2)
                | (None, s2) \<Rightarrow>
                    (let (r, gots, s3) = listing_attempts w c k (attempt + 1) s2 in (r, got # gots, s3)))))"

lemma list_pages_append:
  "list_pages w n cursor (out @ out') s = (let (r, got, s1) = list_pages w n cursor out' s in (r, out @ got, s1))"
proof (induction n arbitrary: cursor out' s)
  case (Suc n)
  then show ?case by (auto simp: Let_def split: prod.splits sum.splits)
qed simp

lemma list_pages_from_Nil:
  "list_pages w n cursor out s = (let (r, got, s1) = list_pages w n cursor [] s in (r, out @ got, s1))"
  using list_pages_append [of w n cursor out "[]" s] by simp

lemma session_attempt_listing:
  "session_attempt w c tr (list_pages w (wPages w) []) out s
     = (let (r, got, s1) = listing_attempt w c tr s in (r, out @ got, s1))"
  using list_pages_from_Nil [of w "wPages w" "[]" out]
  by (auto simp: listing_attempt_def session_attempt_def Let_def split: prod.splits option.splits)

lemma session_from_listing:
  "session_from w c (list_pages w (wPages w) []) k attempt out s
     = (let (r, gots, s1) = listing_attempts w c k attempt s in (r, out @ concat gots, s1))"
proof (induction k arbitrary: attempt out s)
  case (Suc k)
  show ?case
    by (auto simp: Suc session_attempt_listing Let_def split: sum.splits prod.splits option.splits)
qed simp

definition attempts_allowed :: "MCPClientImpl \<Rightarrow> nat" where
  "attempts_allowed c = nat (if clMaxAttempts c < 1 then 1 else clMaxAttempts c)"

lemma MCPListTools_attempts:
  assumes "clOpen c"
  shows "MCPListTools w c s =
    (case listing_attempts w c (attempts_allowed c) 1 s of
       (Some e, gots, s1) \<Rightarrow> (Inl e, s1)
     | (None, gots, s1) \<Rightarrow> (Inr (MCPFilterApply (clFilter c) (concat gots)), s1))"
  using assms
  by (simp add: MCPListTools_def withSession_def session_from_listing attempts_allowed_def Let_def
      split: prod.splits option.splits)

lemma attempts_two: "2 \<le> clMaxAttempts c \<Longrightarrow> \<exists>k. attempts_allowed c = Suc (Suc k)"
  by (auto simp: attempts_allowed_def intro!: exI [of _ "nat (clMaxAttempts c - 2)"])

lemma MCPListTools_first:
  assumes "clOpen c" "transportFromConfig (clTransport c) = Inr tr"
    and "listing_attempt w c tr s = (None, full, s1)"
  shows "MCPListTools w c s = (Inr (MCPFilterApply (clFilter c) full), s1)"
proof -
  obtain k where "attempts_allowed c = Suc k" by (cases "attempts_allowed c") (auto simp: attempts_allowed_def split: if_splits)
  then show ?thesis using assms by (simp add: MCPListTools_attempts)
qed

lemma MCPListTools_second:
  assumes "clOpen c" "2 \<le> clMaxAttempts c" "transportFromConfig (clTransport c) = Inr tr"
    and "listing_attempt w c tr s = (Some e, got, s1)"
    and "wWait w (mcpRetryDelay 1) s1 = (None, s2)"
    and "listing_attempt w c tr s2 = (None, full, s3)"
  shows "MCPListTools w c s = (Inr (MCPFilterApply (clFilter c) (got @ full)), s3)"
proof -
  obtain k where "attempts_allowed c = Suc (Suc k)" using attempts_two [OF assms(2)] by blast
  then show ?thesis using assms by (simp add: MCPListTools_attempts)
qed

lemma MCPFilterApply_append: "MCPFilterApply f (xs @ ys) = MCPFilterApply f xs @ MCPFilterApply f ys"
  by (simp add: MCPFilterApply_def)

lemma MCPFilterApply_subset: "set (MCPFilterApply f xs) \<subseteq> set xs"
  by (auto simp: MCPFilterApply_def)

lemma repeated_specs:
  assumes "prefix got full" "MCPFilterApply f got \<noteq> []"
  shows "\<not> distinct (map SpecName (MCPFilterApply f (got @ full)))"
proof -
  obtain x xs where x: "MCPFilterApply f got = x # xs" using assms(2) by (cases "MCPFilterApply f got") auto
  obtain rest where "full = got @ rest" using assms(1) by (auto simp: prefix_def)
  then have "SpecName x \<in> set (map SpecName (MCPFilterApply f full))"
    using x by (simp add: MCPFilterApply_append)
  then show ?thesis using x by (auto simp: MCPFilterApply_append)
qed

section \<open>Tool calls\<close>

text \<open>A callback that counts its runs: the client runs it at most as often as attempts are allowed.\<close>

lemma session_from_count:
  assumes "\<And>a s. fst (snd (fn a s)) \<le> Suc a"
  shows "fst (snd (session_from w c fn k attempt a s)) \<le> a + k"
proof (induction k arbitrary: attempt a s)
  case (Suc k)
  have one: "fst (snd (session_attempt w c tr fn a s)) \<le> Suc a" for tr
    using assms by (auto simp: session_attempt_def Let_def split: prod.splits option.splits) (metis fst_conv snd_conv)
  show ?case
  proof (cases "transportFromConfig (clTransport c)")
    case (Inr tr)
    obtain r a1 s1 where att: "session_attempt w c tr fn a s = (r, a1, s1)" by (cases "session_attempt w c tr fn a s")
    with one [of tr] have "a1 \<le> Suc a" by simp
    with Inr att Suc.IH [of "attempt + 1" a1] show ?thesis
      by (auto split: option.splits prod.splits) (metis add_Suc add_Suc_right add_le_mono1 fst_conv le_trans snd_conv)
  qed simp
qed simp

section \<open>Authorization of the HTTP transport\<close>

text \<open>A configuration whose OAuth credentials are present but empty counts as one with a bearer token when it
  is validated, and yet its requests use the empty credentials.\<close>

definition empty_creds :: OAuthClientCreds where
  "empty_creds = \<lparr>ClientID = [], ClientSecret = [], TokenURL = [], Scopes = [], EndpointParams = []\<rparr>"

lemma empty_creds_accepted:
  assumes "OAuth h = Some empty_creds" "trim_space (URL h) \<noteq> []"
  shows "MCPStreamableHTTPValidate h = None"
    and "streamableHTTPClient h = OAuthHTTP empty_creds (SkipTLSVerify h) (add_headers (HTTPHeaders h) None)"
  using assms by (simp_all add: MCPStreamableHTTPValidate_def streamableHTTPClient_def empty_creds_def Let_def)

end
