(* ===== verification/Base64.thy ===== *)
theory Base64
  imports Prelude
begin

text \<open>
  \<open>base64.StdEncoding\<close> of Go's standard library, which \<open>pkg/a2a/client/convert.go\<close> uses for the bytes of
  file parts: the alphabet, encoding with padding, and decoding, which skips line ends and accepts
  padding only at the end.
\<close>

definition b64_digit :: "nat \<Rightarrow> char" where
  "b64_digit n =
     (if n < 26 then char_of (65 + n)
      else if n < 52 then char_of (97 + (n - 26))
      else if n < 62 then char_of (48 + (n - 52))
      else if n = 62 then CHR ''+'' else CHR ''/'')"

definition b64_value :: "char \<Rightarrow> nat option" where
  "b64_value c =
     (let n = (of_char c :: nat) in
      if 65 \<le> n \<and> n \<le> 90 then Some (n - 65)
      else if 97 \<le> n \<and> n \<le> 122 then Some (n - 97 + 26)
      else if 48 \<le> n \<and> n \<le> 57 then Some (n - 48 + 52)
      else if c = CHR ''+'' then Some 62
      else if c = CHR ''/'' then Some 63
      else None)"

fun b64_encode :: "string \<Rightarrow> string" where
  "b64_encode [] = []"
| "b64_encode [a] =
     (let x = (of_char a :: nat) in [b64_digit (x div 4), b64_digit ((x mod 4) * 16), CHR ''='', CHR ''=''])"
| "b64_encode [a, b] =
     (let x = (of_char a :: nat); y = (of_char b :: nat) in
      [b64_digit (x div 4), b64_digit ((x mod 4) * 16 + y div 16), b64_digit ((y mod 16) * 4), CHR ''=''])"
| "b64_encode (a # b # c # s) =
     (let x = (of_char a :: nat); y = (of_char b :: nat); z = (of_char c :: nat) in
      b64_digit (x div 4) # b64_digit ((x mod 4) * 16 + y div 16) # b64_digit ((y mod 16) * 4 + z div 64)
      # b64_digit (z mod 64) # b64_encode s)"

definition b64_byte :: "nat \<Rightarrow> char" where
  "b64_byte n = char_of (n mod 256)"

fun b64_groups :: "string \<Rightarrow> string option" where
  "b64_groups [] = Some []"
| "b64_groups (a # b # c # d # s) =
     (case (b64_value a, b64_value b) of
        (Some p, Some q) \<Rightarrow>
          (if c = CHR ''='' \<and> d = CHR ''='' \<and> s = [] then Some [b64_byte (p * 4 + q div 16)]
           else case b64_value c of
             None \<Rightarrow> None
           | Some r \<Rightarrow>
               (if d = CHR ''='' \<and> s = [] then
                  Some [b64_byte (p * 4 + q div 16), b64_byte (q * 16 + r div 4)]
                else case (b64_value d, b64_groups s) of
                  (Some t, Some rest) \<Rightarrow>
                    Some (b64_byte (p * 4 + q div 16) # b64_byte (q * 16 + r div 4) # b64_byte (r * 64 + t) # rest)
                | _ \<Rightarrow> None))
      | _ \<Rightarrow> None)"
| "b64_groups _ = None"

definition b64_decode :: "string \<Rightarrow> string option" where
  "b64_decode s = b64_groups (filter (\<lambda>c. c \<noteq> CHR 0x0A \<and> c \<noteq> CHR 0x0D) s)"

section \<open>Decoding inverts encoding\<close>

lemma b64_value_digit [simp]: "n < 64 \<Longrightarrow> b64_value (b64_digit n) = Some n"
  by (auto simp: b64_digit_def b64_value_def Let_def)

lemma b64_digit_not_pad [simp]: "n < 64 \<Longrightarrow> b64_digit n \<noteq> CHR ''=''"
  using b64_value_digit [of n] by (auto simp: b64_value_def Let_def)

lemma of_char_lt: "(of_char c :: nat) < 256"
  by simp

lemma b64_byte_of_char [simp]: "n mod 256 = (of_char c :: nat) \<Longrightarrow> b64_byte n = c"
  by (simp add: b64_byte_def)

lemma first_byte: "(x :: nat) < 256 \<Longrightarrow> (x div 4 * 4 + (x mod 4 * 16 + y div 16) div 16) mod 256 = x" if "y < 256" for y
proof -
  assume x: "x < 256"
  have "y div 16 < 16" using that by simp
  then have "(x mod 4 * 16 + y div 16) div 16 = x mod 4" by simp
  then show ?thesis using x by simp
qed

lemma second_byte: "(y :: nat) < 256 \<Longrightarrow> z < 256 \<Longrightarrow>
    ((x mod 4 * 16 + y div 16) * 16 + (y mod 16 * 4 + z div 64) div 4) mod 256 = y"
proof -
  assume y: "y < 256" and z: "z < 256"
  have "z div 64 < 4" using z by simp
  then have "(y mod 16 * 4 + z div 64) div 4 = y mod 16" by simp
  then have "(x mod 4 * 16 + y div 16) * 16 + (y mod 16 * 4 + z div 64) div 4 = x mod 4 * 256 + y"
    by (simp add: algebra_simps)
  then show ?thesis using y by simp
qed

lemma third_byte: "(z :: nat) < 256 \<Longrightarrow> ((y mod 16 * 4 + z div 64) * 64 + z mod 64) mod 256 = z"
proof -
  assume z: "z < 256"
  have "(y mod 16 * 4 + z div 64) * 64 + z mod 64 = y mod 16 * 256 + z"
    by (simp add: algebra_simps)
  then show ?thesis using z by simp
qed

lemma sextets:
  "(of_char c :: nat) div 4 < 64" "(x :: nat) mod 4 * 16 + of_char c div 16 < 64"
  "(x :: nat) mod 16 * 4 + of_char c div 64 < 64" "(x :: nat) mod 4 * 16 < 64" "(x :: nat) mod 16 * 4 < 64"
proof -
  show "(of_char c :: nat) div 4 < 64" by (rule less_mult_imp_div_less) simp
  have "(of_char c :: nat) div 16 < 16" by (rule less_mult_imp_div_less) simp
  moreover have "x mod 4 < 4" by simp
  ultimately show "x mod 4 * 16 + of_char c div 16 < 64" by linarith
  have "(of_char c :: nat) div 64 < 4" by (rule less_mult_imp_div_less) simp
  moreover have "x mod 16 < 16" by simp
  ultimately show "x mod 16 * 4 + of_char c div 64 < 64" by linarith
qed (simp_all add: mult.commute)

lemma b64_digit_visible: "n < 64 \<Longrightarrow> b64_digit n \<noteq> CHR 0x0A \<and> b64_digit n \<noteq> CHR 0x0D"
  using b64_value_digit [of n] by (auto simp: b64_value_def Let_def)

lemma b64_encode_visible: "filter (\<lambda>c. c \<noteq> CHR 0x0A \<and> c \<noteq> CHR 0x0D) (b64_encode s) = b64_encode s"
proof (induction s rule: b64_encode.induct)
  case (2 a)
  then show ?case by (simp add: Let_def b64_digit_visible sextets)
next
  case (3 a b)
  then show ?case by (simp add: Let_def b64_digit_visible sextets)
next
  case (4 a b c s)
  then show ?case by (simp add: Let_def b64_digit_visible sextets)
qed simp

lemma b64_groups_encode: "b64_groups (b64_encode s) = Some s"
proof (induction s rule: b64_encode.induct)
  case (2 a)
  show ?case
    using first_byte [of 0 "of_char a"]
    by (simp add: Let_def sextets)
next
  case (3 a b)
  show ?case
    using first_byte [of "of_char b" "of_char a"] second_byte [of "of_char b" 0 "of_char a"]
    by (simp add: Let_def sextets)
next
  case (4 a b c s)
  then show ?case
    using first_byte [of "of_char b" "of_char a"] second_byte [of "of_char b" "of_char c" "of_char a"]
      third_byte [of "of_char c" "of_char b"]
    by (simp add: Let_def sextets)
qed simp

lemma b64_decode_encode [simp]: "b64_decode (b64_encode s) = Some s"
  by (simp add: b64_decode_def b64_encode_visible b64_groups_encode)

end
