(* ===== verification/A2aClient.thy ===== *)
theory A2aClient
  imports McpClient Base64
begin

text \<open>
  The client of A2A agents (\<open>pkg/a2a/client\<close>): its configuration, the conversion between the agent's types
  and those of the protocol library, and the operations, with the connection the client opens on first
  use.  \<open>A2AWire\<close> holds the protocol library and the network.

  The headers of a configuration are a Go map, which its owner and the client share: \<open>mapheap\<close> is the
  heap of such maps.
\<close>

section \<open>The agent's types (\<open>pkg/interfaces/a2a.go\<close>)\<close>

record A2APart =
  paKind :: string
  paText :: string
  paData :: string
  paMIMEType :: string
  paFileBytes :: string
  paFileURI :: string

definition zero_part :: A2APart where
  "zero_part = \<lparr>paKind = [], paText = [], paData = [], paMIMEType = [], paFileBytes = [], paFileURI = []\<rparr>"

record A2AMessage =
  amMessageID :: string
  amRole :: string
  amParts :: "A2APart list"

record A2ASendMessageRequest =
  asMessage :: A2AMessage
  asTaskID :: string
  asSessionID :: string
  asAcceptedOutputModes :: "string list"

datatype A2ATaskStatus = A2ATaskStatus (status_text: string)

record A2AArtifact =
  aaArtifactID :: string
  aaName :: string
  aaParts :: "A2APart list"

record A2ATask =
  atID :: string
  atSessionID :: string
  atStatus :: A2ATaskStatus
  atMessage :: "A2AMessage option"
  atArtifacts :: "A2AArtifact list"

record A2ASendMessageResult =
  srMessage :: "A2AMessage option"
  srTask :: "A2ATask option"

record A2AStreamEvent =
  seKind :: string
  seTaskID :: string
  seIsFinal :: bool
  seMessage :: "A2AMessage option"
  seTaskStatus :: "(A2ATaskStatus \<times> A2AMessage option) option"
  seArtifact :: "A2AArtifact option"

record A2AAgentCard =
  cardName :: string
  cardDescription :: string
  cardVersion :: string
  cardURL :: string
  cardDocumentationURL :: string
  cardSkills :: "A2ASkillSpec list"
  cardInputModes :: "string list"
  cardOutputModes :: "string list"

record 'w A2AClient =
  acName :: string
  acListSkills :: "'w \<Rightarrow> (goerr + A2ASkillSpec list) \<times> 'w"
  acSendMessage :: "A2ASendMessageRequest \<Rightarrow> 'w \<Rightarrow> (goerr + A2ASendMessageResult) \<times> 'w"

section \<open>The types of the protocol library\<close>

text \<open>\<open>SdkData j\<close> is a data part whose JSON encoding is \<open>j\<close>, \<open>None\<close> when it has none.\<close>

datatype sdkContent = SdkText string | SdkRaw string | SdkData "string option" | SdkURL string | SdkNoContent

record sdkPart =
  spContent :: sdkContent
  spMediaType :: string

datatype sdkRole = RoleUser | RoleAgent | RoleOther string

record sdkMessage =
  smID :: string
  smRole :: sdkRole
  smParts :: "sdkPart option list"
  smTaskID :: string
  smContextID :: string

datatype TaskState =
    TaskStateSubmitted | TaskStateWorking | TaskStateInputRequired | TaskStateCompleted | TaskStateCanceled
  | TaskStateFailed | TaskStateRejected | TaskStateAuthRequired | TaskStateOther string

record sdkArtifact =
  sarID :: string
  sarName :: string
  sarParts :: "sdkPart option list"

record sdkTask =
  skID :: string
  skContextID :: string
  skState :: TaskState
  skMessage :: "sdkMessage option"
  skArtifacts :: "sdkArtifact option list"

datatype sdkSendResult = ResultMessage sdkMessage | ResultTask sdkTask | ResultOther

datatype sdkEvent =
    EventMessage sdkMessage
  | EventTask sdkTask
  | EventStatus string TaskState "sdkMessage option"
  | EventArtifact string sdkArtifact bool
  | EventOther

record sdkSkill =
  skillID :: string
  skillName :: string
  skillDescription :: string
  skillTags :: "string list"
  skillInputModes :: "string list"
  skillOutputModes :: "string list"
  skillExamples :: "string list"

record sdkInterface =
  ifURL :: string
  ifProtocolVersion :: string

record sdkCard =
  scName :: string
  scDescription :: string
  scVersion :: string
  scDocumentationURL :: string
  scInterfaces :: "sdkInterface option list"
  scSkills :: "sdkSkill list"
  scInputModes :: "string list"
  scOutputModes :: "string list"

section \<open>Conversion (\<open>convert.go\<close>)\<close>

definition fromSDKSkill :: "sdkSkill \<Rightarrow> A2ASkillSpec" where
  "fromSDKSkill s =
     \<lparr>SkillID = skillID s, SkillName = skillName s, SkillDescription = skillDescription s, SkillTags = skillTags s,
      SkillInputModes = skillInputModes s, SkillOutputModes = skillOutputModes s, SkillExamples = skillExamples s\<rparr>"

definition fromSDKAgentCard :: "sdkCard \<Rightarrow> string \<Rightarrow> A2AAgentCard" where
  "fromSDKAgentCard c baseURL =
     \<lparr>cardName = scName c, cardDescription = scDescription c, cardVersion = scVersion c,
      cardURL = (case scInterfaces c of
                   Some i # _ \<Rightarrow> if ifURL i \<noteq> [] then ifURL i else baseURL
                 | _ \<Rightarrow> baseURL),
      cardDocumentationURL = scDocumentationURL c, cardSkills = map fromSDKSkill (scSkills c),
      cardInputModes = scInputModes c, cardOutputModes = scOutputModes c\<rparr>"

text \<open>\<open>raw\<close> is the JSON encoding of a \<open>json.RawMessage\<close>: its compact form, \<open>None\<close> for malformed input.\<close>

definition toSDKPart :: "(string \<Rightarrow> string option) \<Rightarrow> A2APart \<Rightarrow> sdkPart" where
  "toSDKPart raw p =
     (let kind = to_lower (trim_space (paKind p));
          text = \<lparr>spContent = SdkText (paText p), spMediaType = []\<rparr>
      in if kind = ''data'' then \<lparr>spContent = SdkData (raw (paData p)), spMediaType = []\<rparr>
         else if kind = ''file'' then
           (if paFileURI p \<noteq> [] then \<lparr>spContent = SdkURL (paFileURI p), spMediaType = paMIMEType p\<rparr>
            else if paFileBytes p \<noteq> [] then
              (case b64_decode (paFileBytes p) of
                 Some bytes \<Rightarrow> \<lparr>spContent = SdkRaw bytes, spMediaType = paMIMEType p\<rparr>
               | None \<Rightarrow> text)
            else text)
         else text)"

text \<open>\<open>newID\<close> is the identifier \<open>a2a.NewMessage\<close> makes.\<close>

definition toSDKMessage :: "(string \<Rightarrow> string option) \<Rightarrow> string \<Rightarrow> A2AMessage \<Rightarrow> sdkMessage" where
  "toSDKMessage raw newID m =
     \<lparr>smID = (if amMessageID m \<noteq> [] then amMessageID m else newID),
      smRole = (if to_lower (amRole m) = ''user'' then RoleUser else RoleAgent),
      smParts = map (\<lambda>p. Some (toSDKPart raw p)) (amParts m), smTaskID = [], smContextID = []\<rparr>"

definition toSDKSendMessageRequest :: "(string \<Rightarrow> string option) \<Rightarrow> string \<Rightarrow> A2ASendMessageRequest
    \<Rightarrow> sdkMessage \<times> string list option" where
  "toSDKSendMessageRequest raw newID req =
     (let m0 = toSDKMessage raw newID (asMessage req);
          m1 = (if asTaskID req \<noteq> [] then m0\<lparr>smTaskID := asTaskID req\<rparr> else m0);
          m2 = (if asSessionID req \<noteq> [] then m1\<lparr>smContextID := asSessionID req\<rparr> else m1)
      in (m2, if asAcceptedOutputModes req \<noteq> [] then Some (asAcceptedOutputModes req) else None))"

definition fromSDKPart :: "sdkPart option \<Rightarrow> A2APart" where
  "fromSDKPart p0 =
     (case p0 of
        None \<Rightarrow> zero_part\<lparr>paKind := ''text''\<rparr>
      | Some p \<Rightarrow>
          (case spContent p of
             SdkText t \<Rightarrow> zero_part\<lparr>paKind := ''text'', paText := t\<rparr>
           | SdkRaw bytes \<Rightarrow> zero_part\<lparr>paKind := ''file'', paFileBytes := b64_encode bytes, paMIMEType := spMediaType p\<rparr>
           | SdkData j \<Rightarrow> zero_part\<lparr>paKind := ''data'', paData := (case j of None \<Rightarrow> [] | Some b \<Rightarrow> b)\<rparr>
           | SdkURL u \<Rightarrow> zero_part\<lparr>paKind := ''file'', paFileURI := u, paMIMEType := spMediaType p\<rparr>
           | SdkNoContent \<Rightarrow> zero_part\<lparr>paKind := ''text''\<rparr>))"

definition from_parts :: "sdkPart option list \<Rightarrow> A2APart list" where
  "from_parts ps = map fromSDKPart (filter (\<lambda>p. p \<noteq> None) ps)"

definition fromSDKMessage :: "sdkMessage \<Rightarrow> A2AMessage" where
  "fromSDKMessage m =
     \<lparr>amMessageID = smID m, amRole = (if smRole m = RoleUser then ''user'' else ''agent''),
      amParts = from_parts (smParts m)\<rparr>"

definition fromSDKTaskState :: "TaskState \<Rightarrow> A2ATaskStatus" where
  "fromSDKTaskState s =
     A2ATaskStatus (case s of
        TaskStateSubmitted \<Rightarrow> ''submitted''
      | TaskStateWorking \<Rightarrow> ''working''
      | TaskStateInputRequired \<Rightarrow> ''input-required''
      | TaskStateCompleted \<Rightarrow> ''completed''
      | TaskStateCanceled \<Rightarrow> ''canceled''
      | TaskStateFailed \<Rightarrow> ''failed''
      | TaskStateRejected \<Rightarrow> ''rejected''
      | TaskStateAuthRequired \<Rightarrow> ''auth-required''
      | TaskStateOther _ \<Rightarrow> ''unknown'')"

definition fromSDKArtifact :: "sdkArtifact \<Rightarrow> A2AArtifact" where
  "fromSDKArtifact a = \<lparr>aaArtifactID = sarID a, aaName = sarName a, aaParts = from_parts (sarParts a)\<rparr>"

definition fromSDKTask :: "sdkTask option \<Rightarrow> A2ATask" where
  "fromSDKTask t0 =
     (case t0 of
        None \<Rightarrow> \<lparr>atID = [], atSessionID = [], atStatus = A2ATaskStatus [], atMessage = None, atArtifacts = []\<rparr>
      | Some t \<Rightarrow>
          \<lparr>atID = skID t, atSessionID = skContextID t, atStatus = fromSDKTaskState (skState t),
           atMessage = map_option fromSDKMessage (skMessage t),
           atArtifacts = map (\<lambda>a. fromSDKArtifact (the a)) (filter (\<lambda>a. a \<noteq> None) (skArtifacts t))\<rparr>)"

definition fromSDKSendMessageResult :: "sdkSendResult \<Rightarrow> A2ASendMessageResult" where
  "fromSDKSendMessageResult r =
     (case r of
        ResultMessage m \<Rightarrow> \<lparr>srMessage = Some (fromSDKMessage m), srTask = None\<rparr>
      | ResultTask t \<Rightarrow> \<lparr>srMessage = None, srTask = Some (fromSDKTask (Some t))\<rparr>
      | ResultOther \<Rightarrow> \<lparr>srMessage = None, srTask = None\<rparr>)"

definition zero_event :: A2AStreamEvent where
  "zero_event = \<lparr>seKind = [], seTaskID = [], seIsFinal = False, seMessage = None, seTaskStatus = None, seArtifact = None\<rparr>"

definition status_update :: "TaskState \<Rightarrow> sdkMessage option \<Rightarrow> A2ATaskStatus \<times> A2AMessage option" where
  "status_update st m = (fromSDKTaskState st, map_option fromSDKMessage m)"

text \<open>\<open>terminal\<close> is the library's \<open>TaskState.Terminal\<close>.\<close>

definition fromSDKEvent :: "(TaskState \<Rightarrow> bool) \<Rightarrow> sdkEvent option \<Rightarrow> A2AStreamEvent" where
  "fromSDKEvent terminal ev =
     (case ev of
        None \<Rightarrow> zero_event
      | Some (EventMessage m) \<Rightarrow>
          zero_event\<lparr>seKind := ''message'', seTaskID := smTaskID m, seMessage := Some (fromSDKMessage m)\<rparr>
      | Some (EventTask t) \<Rightarrow>
          zero_event\<lparr>seKind := ''taskStatus'', seTaskID := skID t, seIsFinal := terminal (skState t),
                     seTaskStatus := Some (status_update (skState t) (skMessage t))\<rparr>
      | Some (EventStatus tid st m) \<Rightarrow>
          zero_event\<lparr>seKind := ''taskStatus'', seTaskID := tid, seIsFinal := terminal st,
                     seTaskStatus := Some (status_update st m)\<rparr>
      | Some (EventArtifact tid a lastChunk) \<Rightarrow>
          zero_event\<lparr>seKind := ''artifact'', seTaskID := tid, seIsFinal := lastChunk,
                     seArtifact := Some (fromSDKArtifact a)\<rparr>
      | Some EventOther \<Rightarrow> zero_event)"

end
