(* ===== verification/A2aConnect.thy ===== *)
theory A2aConnect
  imports A2aClient
begin

text \<open>
  Configuration, headers and connections of the A2A client (\<open>config.go\<close>, \<open>client.go\<close>), its operations, and
  the opening of the shared connection by concurrent calls as a step relation.
\<close>

section \<open>Header maps\<close>

text \<open>Go maps of headers by address; addresses from \<open>mhNext\<close> on are free.\<close>

record mapheap =
  mhNext :: nat
  mhMaps :: "nat \<Rightarrow> (string \<times> string) list"

definition mh_read :: "mapheap \<Rightarrow> nat option \<Rightarrow> (string \<times> string) list" where
  "mh_read h a = (case a of None \<Rightarrow> [] | Some i \<Rightarrow> mhMaps h i)"

definition mh_make :: "mapheap \<Rightarrow> nat \<times> mapheap" where
  "mh_make h = (mhNext h, h\<lparr>mhNext := mhNext h + 1, mhMaps := (mhMaps h)(mhNext h := [])\<rparr>)"

definition mh_put :: "nat \<Rightarrow> string \<Rightarrow> string \<Rightarrow> mapheap \<Rightarrow> mapheap" where
  "mh_put i k v h = h\<lparr>mhMaps := (mhMaps h)(i := AList.update k v (mhMaps h i))\<rparr>"

section \<open>Configuration (\<open>config.go\<close>)\<close>

record A2AClientConfig =
  aoTimeout :: int
  aoToken :: string
  aoHeaders :: "nat option"
  aoSkipTLSVerify :: bool
  aoSkillFilter :: A2ASkillFilter

definition DefaultA2ATimeout :: int where "DefaultA2ATimeout = 30 * second"

definition put_token :: "A2AClientConfig \<Rightarrow> mapheap \<Rightarrow> A2AClientConfig \<times> mapheap" where
  "put_token c h =
     (let tok = trim_space (aoToken c) in
      if tok = [] then (c, h)
      else
        (let (i, h1) = (case aoHeaders c of None \<Rightarrow> mh_make h | Some i \<Rightarrow> (i, h));
             h2 = (if map_of (mhMaps h1 i) ''Authorization'' = None
                   then mh_put i ''Authorization'' (''Bearer '' @ tok) h1 else h1)
         in (c\<lparr>aoHeaders := Some i\<rparr>, h2)))"

definition A2ABuildConfig :: "A2AClientConfig \<Rightarrow> mapheap \<Rightarrow> (goerr + A2AClientConfig) \<times> mapheap" where
  "A2ABuildConfig c0 h =
     (let c1 = (if aoTimeout c0 \<le> 0 then c0\<lparr>aoTimeout := DefaultA2ATimeout\<rparr> else c0);
          (c2, h1) = put_token c1 h
      in case A2AFilterValidate (aoSkillFilter c2) of
           Some e \<Rightarrow> (Inl (wrap_error ''a2a client config: '' e), h1)
         | None \<Rightarrow> (Inr c2, h1))"

text \<open>The HTTP client reads the shared map at each request.\<close>

record a2a_http =
  ahSkipTLS :: bool
  ahHeaders :: "nat option"

definition buildHTTPClient :: "A2AClientConfig \<Rightarrow> mapheap \<Rightarrow> a2a_http" where
  "buildHTTPClient c h =
     \<lparr>ahSkipTLS = aoSkipTLSVerify c, ahHeaders = (if mh_read h (aoHeaders c) \<noteq> [] then aoHeaders c else None)\<rparr>"

fun set_headers :: "(string \<times> string) list \<Rightarrow> http_header \<Rightarrow> http_header" where
  "set_headers [] r = r"
| "set_headers ((k0, v) # kvs) r =
     (let k = trim_space k0 in set_headers kvs (if k \<noteq> [] then header_set k v r else r))"

definition roundTripHeaders :: "a2a_http \<Rightarrow> mapheap \<Rightarrow> http_header" where
  "roundTripHeaders c h = set_headers (mh_read h (ahHeaders c)) []"

section \<open>The client (\<open>client.go\<close>)\<close>

record A2AClientImpl =
  aiName :: string
  aiURL :: string
  aiResolver :: a2a_http
  aiTimeout :: int
  aiSkillFilter :: A2ASkillFilter
  aiClosed :: bool
  aiCard :: "sdkCard option"
  aiInner :: "nat option"

definition NewA2AClientImpl :: "string \<Rightarrow> string \<Rightarrow> A2AClientConfig \<Rightarrow> mapheap
    \<Rightarrow> (goerr + A2AClientImpl) \<times> mapheap" where
  "NewA2AClientImpl name url opts h =
     (if trim_space name = [] then (Inl (new_error ''a2a client: name is empty''), h)
      else if trim_space url = [] then (Inl (new_error ''a2a client: url is empty''), h)
      else case A2ABuildConfig opts h of
        (Inl e, h1) \<Rightarrow> (Inl e, h1)
      | (Inr cfg, h1) \<Rightarrow>
          (Inr \<lparr>aiName = name, aiURL = url, aiResolver = buildHTTPClient cfg h1, aiTimeout = aoTimeout cfg,
                aiSkillFilter = aoSkillFilter cfg, aiClosed = False, aiCard = None, aiInner = None\<rparr>, h1))"

text \<open>Resolving the card goes through the configured HTTP client; \<open>aNewFromCard\<close> is the library's
  \<open>NewFromCard\<close> without options, which connects through the library's own HTTP client.  Connections are
  numbers.\<close>

record 'w A2AWire =
  aResolve :: "bool \<Rightarrow> http_header \<Rightarrow> string \<Rightarrow> int \<Rightarrow> 'w \<Rightarrow> (goerr + sdkCard) \<times> 'w"
  aNewFromCard :: "sdkCard \<Rightarrow> 'w \<Rightarrow> (goerr + nat) \<times> 'w"
  aSendMessage :: "nat \<Rightarrow> sdkMessage \<times> string list option \<Rightarrow> int \<Rightarrow> 'w \<Rightarrow> (goerr + sdkSendResult) \<times> 'w"
  aSendStreaming :: "nat \<Rightarrow> sdkMessage \<times> string list option \<Rightarrow> 'w \<Rightarrow> (goerr + sdkEvent option) list \<times> 'w"
  aGetTask :: "nat \<Rightarrow> string \<Rightarrow> int \<Rightarrow> 'w \<Rightarrow> (goerr + sdkTask option) \<times> 'w"
  aCancelTask :: "nat \<Rightarrow> string \<Rightarrow> int \<Rightarrow> 'w \<Rightarrow> (goerr + sdkTask option) \<times> 'w"
  aDestroy :: "nat \<Rightarrow> 'w \<Rightarrow> goerr option \<times> 'w"
  aMessageID :: "'w \<Rightarrow> string \<times> 'w"
  aRawJSON :: "string \<Rightarrow> string option"
  aTerminal :: "TaskState \<Rightarrow> bool"

definition protocolVersion :: string where "protocolVersion = ''1.0''"

definition normalizeResolvedCard :: "sdkCard \<Rightarrow> bool \<times> sdkCard" where
  "normalizeResolvedCard sdk =
     (list_ex (\<lambda>i. case i of Some x \<Rightarrow> ifProtocolVersion x = [] | None \<Rightarrow> False) (scInterfaces sdk),
      sdk\<lparr>scInterfaces := map (map_option (\<lambda>x. if ifProtocolVersion x = []
                                           then x\<lparr>ifProtocolVersion := protocolVersion\<rparr> else x)) (scInterfaces sdk)\<rparr>)"

definition closed_error :: "A2AClientImpl \<Rightarrow> goerr" where
  "closed_error c = new_error (''a2a client '' @ go_quote (aiName c) @ '': closed'')"

definition resolve_card :: "'w A2AWire \<Rightarrow> A2AClientImpl \<Rightarrow> mapheap \<Rightarrow> 'w \<Rightarrow> (goerr + sdkCard) \<times> 'w" where
  "resolve_card w c h s = aResolve w (ahSkipTLS (aiResolver c)) (roundTripHeaders (aiResolver c) h) (aiURL c) (aiTimeout c) s"

definition A2APing :: "'w A2AWire \<Rightarrow> A2AClientImpl \<Rightarrow> mapheap \<Rightarrow> 'w \<Rightarrow> goerr option \<times> 'w" where
  "A2APing w c h s =
     (if aiClosed c then (Some (closed_error c), s)
      else case resolve_card w c h s of
        (Inl e, s1) \<Rightarrow> (Some (wrap_error ''a2a client ping: '' e), s1)
      | (Inr _, s1) \<Rightarrow> (None, s1))"

definition ResolveCard :: "'w A2AWire \<Rightarrow> A2AClientImpl \<Rightarrow> mapheap \<Rightarrow> 'w
    \<Rightarrow> (goerr + A2AAgentCard) \<times> A2AClientImpl \<times> 'w" where
  "ResolveCard w c h s =
     (if aiClosed c then (Inl (closed_error c), c, s)
      else case resolve_card w c h s of
        (Inl e, s1) \<Rightarrow> (Inl (wrap_error ''a2a client resolve card: '' e), c, s1)
      | (Inr raw_card, s1) \<Rightarrow>
          (let sdk = snd (normalizeResolvedCard raw_card) in
           (Inr (fromSDKAgentCard sdk (aiURL c)), c\<lparr>aiCard := Some sdk\<rparr>, s1)))"

definition ListSkills :: "'w A2AWire \<Rightarrow> A2AClientImpl \<Rightarrow> mapheap \<Rightarrow> 'w
    \<Rightarrow> (goerr + A2ASkillSpec list) \<times> A2AClientImpl \<times> 'w" where
  "ListSkills w c h s =
     (case ResolveCard w c h s of
        (Inl e, c1, s1) \<Rightarrow> (Inl e, c1, s1)
      | (Inr agentCard, c1, s1) \<Rightarrow> (Inr (A2AFilterApply (aiSkillFilter c) (cardSkills agentCard)), c1, s1))"

text \<open>The two critical sections of \<open>getInner\<close> and what happens between them without the lock.\<close>

datatype inner_entry = EntryClosed | EntryInner nat | EntryConnect

definition inner_enter :: "A2AClientImpl \<Rightarrow> inner_entry" where
  "inner_enter c =
     (if aiClosed c then EntryClosed else case aiInner c of Some i \<Rightarrow> EntryInner i | None \<Rightarrow> EntryConnect)"

definition inner_connect :: "'w A2AWire \<Rightarrow> A2AClientImpl \<Rightarrow> mapheap \<Rightarrow> 'w \<Rightarrow> (goerr + sdkCard \<times> nat) \<times> 'w" where
  "inner_connect w c h s =
     (case resolve_card w c h s of
        (Inl e, s1) \<Rightarrow> (Inl (wrap_error (''a2a client '' @ go_quote (aiName c) @ '': resolve card for connect: '') e), s1)
      | (Inr raw_card, s1) \<Rightarrow>
          (let sdk = snd (normalizeResolvedCard raw_card) in
           case aNewFromCard w sdk s1 of
             (Inl e, s2) \<Rightarrow> (Inl (wrap_error (''a2a client '' @ go_quote (aiName c) @ '': connect: '') e), s2)
           | (Inr i, s2) \<Rightarrow> (Inr (sdk, i), s2)))"

text \<open>The answer, the client, and the connection to destroy.\<close>

definition inner_install :: "sdkCard \<Rightarrow> nat \<Rightarrow> A2AClientImpl \<Rightarrow> (goerr + nat) \<times> A2AClientImpl \<times> nat option" where
  "inner_install sdk i c =
     (if aiClosed c then (Inl (closed_error c), c, Some i)
      else case aiInner c of
        Some j \<Rightarrow> (Inr j, c, Some i)
      | None \<Rightarrow> (Inr i, c\<lparr>aiCard := Some sdk, aiInner := Some i\<rparr>, None))"

definition destroy_opt :: "'w A2AWire \<Rightarrow> nat option \<Rightarrow> 'w \<Rightarrow> 'w" where
  "destroy_opt w d s = (case d of None \<Rightarrow> s | Some i \<Rightarrow> snd (aDestroy w i s))"

text \<open>\<open>getInner\<close> when no other call intervenes.\<close>

definition getInner :: "'w A2AWire \<Rightarrow> A2AClientImpl \<Rightarrow> mapheap \<Rightarrow> 'w \<Rightarrow> (goerr + nat) \<times> A2AClientImpl \<times> 'w" where
  "getInner w c h s =
     (case inner_enter c of
        EntryClosed \<Rightarrow> (Inl (closed_error c), c, s)
      | EntryInner i \<Rightarrow> (Inr i, c, s)
      | EntryConnect \<Rightarrow>
          (case inner_connect w c h s of
             (Inl e, s1) \<Rightarrow> (Inl e, c, s1)
           | (Inr (sdk, i), s1) \<Rightarrow>
               (let (r, c1, d) = inner_install sdk i c in (r, c1, destroy_opt w d s1))))"

definition with_inner :: "'w A2AWire \<Rightarrow> A2AClientImpl \<Rightarrow> mapheap \<Rightarrow> (nat \<Rightarrow> 'w \<Rightarrow> (goerr + 'r) \<times> 'w) \<Rightarrow> 'w
    \<Rightarrow> (goerr + 'r) \<times> A2AClientImpl \<times> 'w" where
  "with_inner w c h op s =
     (case getInner w c h s of
        (Inl e, c1, s1) \<Rightarrow> (Inl e, c1, s1)
      | (Inr i, c1, s1) \<Rightarrow> (let (r, s2) = op i s1 in (r, c1, s2)))"

definition SendMessage :: "'w A2AWire \<Rightarrow> A2AClientImpl \<Rightarrow> mapheap \<Rightarrow> A2ASendMessageRequest \<Rightarrow> 'w
    \<Rightarrow> (goerr + A2ASendMessageResult) \<times> A2AClientImpl \<times> 'w" where
  "SendMessage w c h req s =
     with_inner w c h (\<lambda>i s1.
       (let (mid, s2) = aMessageID w s1 in
        case aSendMessage w i (toSDKSendMessageRequest (aRawJSON w) mid req) (aiTimeout c) s2 of
          (Inl e, s3) \<Rightarrow> (Inl (wrap_error ''a2a client send message: '' e), s3)
        | (Inr r, s3) \<Rightarrow> (Inr (fromSDKSendMessageResult r), s3))) s"

text \<open>The events a consumer that never breaks off receives: up to the first error.\<close>

fun stream_events :: "(TaskState \<Rightarrow> bool) \<Rightarrow> (goerr + sdkEvent option) list \<Rightarrow> (goerr + A2AStreamEvent) list" where
  "stream_events terminal [] = []"
| "stream_events terminal (Inl e # rest) = [Inl e]"
| "stream_events terminal (Inr ev # rest) = Inr (fromSDKEvent terminal ev) # stream_events terminal rest"

definition SendStreamingMessage :: "'w A2AWire \<Rightarrow> A2AClientImpl \<Rightarrow> mapheap \<Rightarrow> A2ASendMessageRequest \<Rightarrow> 'w
    \<Rightarrow> (goerr + (goerr + A2AStreamEvent) list) \<times> A2AClientImpl \<times> 'w" where
  "SendStreamingMessage w c h req s =
     with_inner w c h (\<lambda>i s1.
       (let (mid, s2) = aMessageID w s1;
            (evs, s3) = aSendStreaming w i (toSDKSendMessageRequest (aRawJSON w) mid req) s2
        in (Inr (stream_events (aTerminal w) evs), s3))) s"

definition task_call :: "string \<Rightarrow> (nat \<Rightarrow> string \<Rightarrow> int \<Rightarrow> 'w \<Rightarrow> (goerr + sdkTask option) \<times> 'w) \<Rightarrow> 'w A2AWire
    \<Rightarrow> A2AClientImpl \<Rightarrow> mapheap \<Rightarrow> string \<Rightarrow> 'w \<Rightarrow> (goerr + A2ATask) \<times> A2AClientImpl \<times> 'w" where
  "task_call what op w c h taskID s =
     (if trim_space taskID = [] then (Inl (new_error (''a2a client '' @ what @ '' task: taskID is empty'')), c, s)
      else with_inner w c h (\<lambda>i s1.
        (case op i taskID (aiTimeout c) s1 of
           (Inl e, s2) \<Rightarrow> (Inl (wrap_error (''a2a client '' @ what @ '' task: '') e), s2)
         | (Inr t, s2) \<Rightarrow> (Inr (fromSDKTask t), s2))) s)"

definition GetTask :: "'w A2AWire \<Rightarrow> A2AClientImpl \<Rightarrow> mapheap \<Rightarrow> string \<Rightarrow> 'w \<Rightarrow> (goerr + A2ATask) \<times> A2AClientImpl \<times> 'w" where
  "GetTask w = task_call ''get'' (aGetTask w) w"

definition CancelTask :: "'w A2AWire \<Rightarrow> A2AClientImpl \<Rightarrow> mapheap \<Rightarrow> string \<Rightarrow> 'w \<Rightarrow> (goerr + A2ATask) \<times> A2AClientImpl \<times> 'w" where
  "CancelTask w = task_call ''cancel'' (aCancelTask w) w"

text \<open>The first part is what \<open>Close\<close> does under the lock, with the connection it destroys.\<close>

definition close_client :: "A2AClientImpl \<Rightarrow> A2AClientImpl \<times> nat option" where
  "close_client c =
     (if aiClosed c then (c, None) else (c\<lparr>aiClosed := True, aiInner := None, aiCard := None\<rparr>, aiInner c))"

definition A2AClose :: "'w A2AWire \<Rightarrow> A2AClientImpl \<Rightarrow> 'w \<Rightarrow> goerr option \<times> A2AClientImpl \<times> 'w" where
  "A2AClose w c s =
     (case close_client c of
        (c1, None) \<Rightarrow> (None, c1, s)
      | (c1, Some i) \<Rightarrow>
          (case aDestroy w i s of
             (Some e, s1) \<Rightarrow> (Some (wrap_error ''a2a client close: '' e), c1, s1)
           | (None, s1) \<Rightarrow> (None, c1, s1)))"

end
