(* ===== verification/AgentRegistry.thy ===== *)
theory AgentRegistry
  imports McpClient A2aConnect
begin

text \<open>
  The registries of an agent (\<open>pkg/agent\<close>: \<open>tool_registry.go\<close>, \<open>mcp_registry.go\<close>, \<open>a2a_registry.go\<close>,
  \<open>subagent_registry.go\<close>).  Each is a map from trimmed names to entries and the order of registration;
  the four files repeat the same operations, which are stated once here, together with what is
  particular to each: where the name of an entry comes from and how clients are built from their
  configuration.  A nil entry is \<open>None\<close>.

  The contract the agent relies on is the locale \<open>named_registry\<close>: an association list in the order of
  registration.
\<close>

section \<open>Errors (\<open>registry.go\<close>)\<close>

definition ErrRegistryNotFound :: goerr where
  "ErrRegistryNotFound = GoErr ''agent: registry entry not found'' [SOther 1]"

definition ErrRegistryDuplicate :: goerr where
  "ErrRegistryDuplicate = GoErr ''agent: registry entry already exists'' [SOther 2]"

definition ErrRegistryInvalidName :: goerr where
  "ErrRegistryInvalidName = GoErr ''agent: registry name must not be empty'' [SOther 3]"

definition ErrRegistryNilEntry :: goerr where
  "ErrRegistryNilEntry = GoErr ''agent: registry entry must not be nil'' [SOther 4]"

section \<open>The shared operations\<close>

record 'e registryImpl =
  rgEntries :: "string \<Rightarrow> 'e option"
  rgOrder :: "string list"

definition new_registry :: "'e registryImpl" where
  "new_registry = \<lparr>rgEntries = Map.empty, rgOrder = []\<rparr>"

text \<open>\<open>removeFromOrder\<close> removes the first occurrence.\<close>

definition removeFromOrder :: "string list \<Rightarrow> string \<Rightarrow> string list" where
  "removeFromOrder order name = remove1 name order"

text \<open>The part of \<open>Register\<close> after the check for nil, with the name the entry answers.\<close>

definition register_named :: "string \<Rightarrow> 'e \<Rightarrow> 'e registryImpl \<Rightarrow> goerr option \<times> 'e registryImpl" where
  "register_named name0 e r =
     (let name = trim_space name0 in
      if name = [] then (Some ErrRegistryInvalidName, r)
      else if rgEntries r name \<noteq> None then (Some ErrRegistryDuplicate, r)
      else (None, r\<lparr>rgOrder := rgOrder r @ [name], rgEntries := (rgEntries r)(name \<mapsto> e)\<rparr>))"

definition registryUnregister :: "string \<Rightarrow> 'e registryImpl \<Rightarrow> goerr option \<times> 'e registryImpl" where
  "registryUnregister name0 r =
     (let name = trim_space name0 in
      if name = [] then (Some ErrRegistryInvalidName, r)
      else if rgEntries r name = None then (Some ErrRegistryNotFound, r)
      else (None, r\<lparr>rgEntries := (rgEntries r)(name := None), rgOrder := removeFromOrder (rgOrder r) name\<rparr>))"

definition registryGet :: "string \<Rightarrow> 'e registryImpl \<Rightarrow> goerr + 'e" where
  "registryGet name0 r =
     (let name = trim_space name0 in
      if name = [] then Inl ErrRegistryInvalidName
      else case rgEntries r name of None \<Rightarrow> Inl ErrRegistryNotFound | Some e \<Rightarrow> Inr e)"

definition registryList :: "'e registryImpl \<Rightarrow> 'e list" where
  "registryList r = List.map_filter (rgEntries r) (rgOrder r)"

section \<open>The tool registry\<close>

definition toolRegister :: "'w Tool option \<Rightarrow> 'w Tool registryImpl \<Rightarrow> goerr option \<times> 'w Tool registryImpl" where
  "toolRegister tool r =
     (case tool of None \<Rightarrow> (Some ErrRegistryNilEntry, r) | Some t \<Rightarrow> register_named (tName t) t r)"

fun RegisterTools :: "'w Tool option list \<Rightarrow> 'w Tool registryImpl \<Rightarrow> goerr option \<times> 'w Tool registryImpl" where
  "RegisterTools [] r = (None, r)"
| "RegisterTools (t # ts) r =
     (case toolRegister t r of (Some e, r1) \<Rightarrow> (Some e, r1) | (None, r1) \<Rightarrow> RegisterTools ts r1)"

definition toolUnregister :: "string \<Rightarrow> 'w Tool registryImpl \<Rightarrow> goerr option \<times> 'w Tool registryImpl" where
  "toolUnregister = registryUnregister"

definition toolGet :: "string \<Rightarrow> 'w Tool registryImpl \<Rightarrow> goerr + 'w Tool" where
  "toolGet = registryGet"

definition toolList :: "'w Tool registryImpl \<Rightarrow> 'w Tool list" where
  "toolList = registryList"

section \<open>The registry of MCP clients\<close>

record MCPConfig =
  mfTransport :: "MCPTransport option"
  mfToolFilter :: MCPToolFilter
  mfTimeout :: int
  mfRetryAttempts :: int

definition newMCPClient :: "'w MCPWire \<Rightarrow> string \<Rightarrow> MCPConfig \<Rightarrow> goerr + 'w MCPClient" where
  "newMCPClient w name0 cfg =
     (let name = trim_space name0 in
      if name = [] then Inl ErrRegistryInvalidName
      else if mfTransport cfg = None then Inl (new_error (''mcp '' @ go_quote name @ '': Transport is required''))
      else case NewMCPClientImpl name (mfTransport cfg)
                  \<lparr>ccTimeout = mfTimeout cfg, ccRetryAttempts = mfRetryAttempts cfg, ccToolFilter = mfToolFilter cfg\<rparr> of
        Inl e \<Rightarrow> Inl (wrap_error (''mcp '' @ go_quote name @ '': new client: '') e)
      | Inr c \<Rightarrow> Inr (as_MCPClient w c))"

definition mcpRegisterClient :: "'w MCPClient option \<Rightarrow> 'w MCPClient registryImpl \<Rightarrow> goerr option \<times> 'w MCPClient registryImpl" where
  "mcpRegisterClient cl r =
     (case cl of
        None \<Rightarrow> (Some ErrRegistryNilEntry, r)
      | Some c \<Rightarrow> (if trim_space (mcName c) = [] then (Some ErrRegistryInvalidName, r)
                  else register_named (mcName c) c r))"

definition mcpRegister :: "'w MCPWire \<Rightarrow> string \<Rightarrow> MCPConfig \<Rightarrow> 'w MCPClient registryImpl
    \<Rightarrow> goerr option \<times> 'w MCPClient registryImpl" where
  "mcpRegister w name cfg r =
     (case newMCPClient w name cfg of Inl e \<Rightarrow> (Some e, r) | Inr c \<Rightarrow> register_named (mcName c) c r)"

definition mcpUnregister :: "string \<Rightarrow> 'w MCPClient registryImpl \<Rightarrow> goerr option \<times> 'w MCPClient registryImpl" where
  "mcpUnregister = registryUnregister"

definition mcpGet :: "string \<Rightarrow> 'w MCPClient registryImpl \<Rightarrow> goerr + 'w MCPClient" where
  "mcpGet = registryGet"

definition mcpList :: "'w MCPClient registryImpl \<Rightarrow> 'w MCPClient list" where
  "mcpList = registryList"

section \<open>The registry of A2A clients\<close>

text \<open>\<open>methods\<close> is the interface value of a pointer to a client: its name is the client's, its operations
  work on the client, whose connection lives in the world.\<close>

record A2AConfig =
  afURL :: string
  afTimeout :: int
  afToken :: string
  afHeaders :: "nat option"
  afSkillFilter :: A2ASkillFilter
  afSkipTLSVerify :: bool

definition newA2AClient :: "(A2AClientImpl \<Rightarrow> 'w A2AClient) \<Rightarrow> string \<Rightarrow> A2AConfig \<Rightarrow> mapheap
    \<Rightarrow> (goerr + 'w A2AClient) \<times> mapheap" where
  "newA2AClient methods name0 cfg h =
     (let name = trim_space name0 in
      if name = [] then (Inl ErrRegistryInvalidName, h)
      else if trim_space (afURL cfg) = [] then (Inl (new_error (''a2a '' @ go_quote name @ '': URL is required'')), h)
      else case NewA2AClientImpl name (afURL cfg)
                  \<lparr>aoTimeout = afTimeout cfg, aoToken = afToken cfg, aoHeaders = afHeaders cfg,
                   aoSkipTLSVerify = afSkipTLSVerify cfg, aoSkillFilter = afSkillFilter cfg\<rparr> h of
        (Inl e, h1) \<Rightarrow> (Inl (wrap_error (''a2a '' @ go_quote name @ '': new client: '') e), h1)
      | (Inr c, h1) \<Rightarrow> (Inr (methods c), h1))"

definition a2aRegisterClient :: "'w A2AClient option \<Rightarrow> 'w A2AClient registryImpl \<Rightarrow> goerr option \<times> 'w A2AClient registryImpl" where
  "a2aRegisterClient cl r =
     (case cl of None \<Rightarrow> (Some ErrRegistryNilEntry, r) | Some c \<Rightarrow> register_named (acName c) c r)"

definition a2aRegister :: "(A2AClientImpl \<Rightarrow> 'w A2AClient) \<Rightarrow> string \<Rightarrow> A2AConfig
    \<Rightarrow> 'w A2AClient registryImpl \<times> mapheap \<Rightarrow> goerr option \<times> 'w A2AClient registryImpl \<times> mapheap" where
  "a2aRegister methods name cfg rh =
     (case newA2AClient methods name cfg (snd rh) of
        (Inl e, h1) \<Rightarrow> (Some e, fst rh, h1)
      | (Inr c, h1) \<Rightarrow> (case register_named (acName c) c (fst rh) of (e, r1) \<Rightarrow> (e, r1, h1)))"

definition a2aUnregister :: "string \<Rightarrow> 'w A2AClient registryImpl \<Rightarrow> goerr option \<times> 'w A2AClient registryImpl" where
  "a2aUnregister = registryUnregister"

definition a2aGet :: "string \<Rightarrow> 'w A2AClient registryImpl \<Rightarrow> goerr + 'w A2AClient" where
  "a2aGet = registryGet"

definition a2aList :: "'w A2AClient registryImpl \<Rightarrow> 'w A2AClient list" where
  "a2aList = registryList"

section \<open>The registry of sub-agents\<close>

text \<open>Entries are pointers to agents; \<open>name_of\<close> reads the current name of one.\<close>

definition subAgentRegister :: "(nat \<Rightarrow> string) \<Rightarrow> nat option \<Rightarrow> nat registryImpl \<Rightarrow> goerr option \<times> nat registryImpl" where
  "subAgentRegister name_of sub r =
     (case sub of None \<Rightarrow> (Some ErrRegistryNilEntry, r) | Some a \<Rightarrow> register_named (name_of a) a r)"

definition subAgentUnregister :: "string \<Rightarrow> nat registryImpl \<Rightarrow> goerr option \<times> nat registryImpl" where
  "subAgentUnregister = registryUnregister"

definition subAgentGet :: "string \<Rightarrow> nat registryImpl \<Rightarrow> goerr + nat" where
  "subAgentGet = registryGet"

definition subAgentList :: "nat registryImpl \<Rightarrow> nat list" where
  "subAgentList = registryList"

section \<open>The contract\<close>

text \<open>The reference: an association list in the order of registration.\<close>

definition spec_register :: "('e \<Rightarrow> string) \<Rightarrow> 'e option \<Rightarrow> (string \<times> 'e) list \<Rightarrow> goerr option \<times> (string \<times> 'e) list" where
  "spec_register key_of e0 ps =
     (case e0 of
        None \<Rightarrow> (Some ErrRegistryNilEntry, ps)
      | Some e \<Rightarrow>
          (if trim_space (key_of e) = [] then (Some ErrRegistryInvalidName, ps)
           else if trim_space (key_of e) \<in> fst ` set ps then (Some ErrRegistryDuplicate, ps)
           else (None, ps @ [(trim_space (key_of e), e)])))"

definition spec_unregister :: "string \<Rightarrow> (string \<times> 'e) list \<Rightarrow> goerr option \<times> (string \<times> 'e) list" where
  "spec_unregister name ps =
     (if trim_space name = [] then (Some ErrRegistryInvalidName, ps)
      else if trim_space name \<notin> fst ` set ps then (Some ErrRegistryNotFound, ps)
      else (None, filter (\<lambda>p. fst p \<noteq> trim_space name) ps))"

definition spec_get :: "string \<Rightarrow> (string \<times> 'e) list \<Rightarrow> goerr + 'e" where
  "spec_get name ps =
     (if trim_space name = [] then Inl ErrRegistryInvalidName
      else case map_of ps (trim_space name) of None \<Rightarrow> Inl ErrRegistryNotFound | Some e \<Rightarrow> Inr e)"

datatype 'e reg_op = OpRegister "'e option" | OpUnregister string | OpGet string | OpList
datatype 'e reg_result = Answered "goerr option" | Got_entry "goerr + 'e" | Listed "'e list"

fun spec_ops :: "('e \<Rightarrow> string) \<Rightarrow> 'e reg_op list \<Rightarrow> (string \<times> 'e) list \<Rightarrow> 'e reg_result list \<times> (string \<times> 'e) list" where
  "spec_ops key_of [] ps = ([], ps)"
| "spec_ops key_of (OpRegister e # ops) ps =
     (let (a, ps1) = spec_register key_of e ps; (rs, ps2) = spec_ops key_of ops ps1 in (Answered a # rs, ps2))"
| "spec_ops key_of (OpUnregister n # ops) ps =
     (let (a, ps1) = spec_unregister n ps; (rs, ps2) = spec_ops key_of ops ps1 in (Answered a # rs, ps2))"
| "spec_ops key_of (OpGet n # ops) ps =
     (let (rs, ps2) = spec_ops key_of ops ps in (Got_entry (spec_get n ps) # rs, ps2))"
| "spec_ops key_of (OpList # ops) ps =
     (let (rs, ps2) = spec_ops key_of ops ps in (Listed (map snd ps) # rs, ps2))"

text \<open>The same operations on an implementation.\<close>

fun registry_ops :: "('e option \<Rightarrow> 'r \<Rightarrow> goerr option \<times> 'r) \<Rightarrow> (string \<Rightarrow> 'r \<Rightarrow> goerr option \<times> 'r)
    \<Rightarrow> (string \<Rightarrow> 'r \<Rightarrow> goerr + 'e) \<Rightarrow> ('r \<Rightarrow> 'e list) \<Rightarrow> 'e reg_op list \<Rightarrow> 'r \<Rightarrow> 'e reg_result list \<times> 'r" where
  "registry_ops reg unreg get lst [] r = ([], r)"
| "registry_ops reg unreg get lst (OpRegister e # ops) r =
     (let (a, r1) = reg e r; (rs, r2) = registry_ops reg unreg get lst ops r1 in (Answered a # rs, r2))"
| "registry_ops reg unreg get lst (OpUnregister n # ops) r =
     (let (a, r1) = unreg n r; (rs, r2) = registry_ops reg unreg get lst ops r1 in (Answered a # rs, r2))"
| "registry_ops reg unreg get lst (OpGet n # ops) r =
     (let (rs, r2) = registry_ops reg unreg get lst ops r in (Got_entry (get n r) # rs, r2))"
| "registry_ops reg unreg get lst (OpList # ops) r =
     (let (rs, r2) = registry_ops reg unreg get lst ops r in (Listed (lst r) # rs, r2))"

locale named_registry =
  fixes key_of :: "'e \<Rightarrow> string"
    and reg :: "'e option \<Rightarrow> 'r \<Rightarrow> goerr option \<times> 'r"
    and unreg :: "string \<Rightarrow> 'r \<Rightarrow> goerr option \<times> 'r"
    and get :: "string \<Rightarrow> 'r \<Rightarrow> goerr + 'e"
    and lst :: "'r \<Rightarrow> 'e list"
    and fresh :: "'r"
    and entries :: "'r \<Rightarrow> (string \<times> 'e) list"
    and ok :: "'r \<Rightarrow> bool"
  assumes fresh_ok: "ok fresh" and fresh_entries: "entries fresh = []"
    and reg_ok: "ok r \<Longrightarrow> ok (snd (reg e r))"
    and reg_entries: "ok r \<Longrightarrow> map_prod id entries (reg e r) = spec_register key_of e (entries r)"
    and unreg_ok: "ok r \<Longrightarrow> ok (snd (unreg n r))"
    and unreg_entries: "ok r \<Longrightarrow> map_prod id entries (unreg n r) = spec_unregister n (entries r)"
    and get_entries: "ok r \<Longrightarrow> get n r = spec_get n (entries r)"
    and lst_entries: "ok r \<Longrightarrow> lst r = map snd (entries r)"
begin

lemma reg_split: "ok r \<Longrightarrow> reg e r = (a, r1) \<Longrightarrow> ok r1 \<and> spec_register key_of e (entries r) = (a, entries r1)"
  using reg_ok [of r e] reg_entries [of r e] by simp

lemma unreg_split: "ok r \<Longrightarrow> unreg n r = (a, r1) \<Longrightarrow> ok r1 \<and> spec_unregister n (entries r) = (a, entries r1)"
  using unreg_ok [of r n] unreg_entries [of r n] by simp

lemma ops_refine:
  "ok r \<Longrightarrow> registry_ops reg unreg get lst ops r = (rs, r')
   \<Longrightarrow> ok r' \<and> spec_ops key_of ops (entries r) = (rs, entries r')"
proof (induction ops arbitrary: r rs r')
  case (Cons op ops)
  show ?case
  proof (cases op)
    case (OpRegister e)
    then obtain a r1 rs1 where "reg e r = (a, r1)" "registry_ops reg unreg get lst ops r1 = (rs1, r')" "rs = Answered a # rs1"
      using Cons.prems by (auto simp: Let_def split: prod.splits)
    then show ?thesis using Cons.IH [of r1 rs1 r'] Cons.prems(1) OpRegister reg_split [of r e a r1] by simp
  next
    case (OpUnregister n)
    then obtain a r1 rs1 where "unreg n r = (a, r1)" "registry_ops reg unreg get lst ops r1 = (rs1, r')" "rs = Answered a # rs1"
      using Cons.prems by (auto simp: Let_def split: prod.splits)
    then show ?thesis using Cons.IH [of r1 rs1 r'] Cons.prems(1) OpUnregister unreg_split [of r n a r1] by simp
  next
    case (OpGet n)
    then show ?thesis using Cons.prems Cons.IH [of r] get_entries [of r n]
      by (auto simp: Let_def split: prod.splits)
  next
    case OpList
    then show ?thesis using Cons.prems Cons.IH [of r] lst_entries [of r]
      by (auto simp: Let_def split: prod.splits)
  qed
qed simp

theorem refines: "fst (registry_ops reg unreg get lst ops fresh) = fst (spec_ops key_of ops [])"
  using ops_refine [OF fresh_ok, of ops] fresh_entries
  by (cases "registry_ops reg unreg get lst ops fresh") simp

end

section \<open>The registries keep it\<close>

definition registry_entries :: "'e registryImpl \<Rightarrow> (string \<times> 'e) list" where
  "registry_entries r = map (\<lambda>n. (n, the (rgEntries r n))) (rgOrder r)"

definition registry_ok :: "'e registryImpl \<Rightarrow> bool" where
  "registry_ok r \<longleftrightarrow> distinct (rgOrder r) \<and> set (rgOrder r) = dom (rgEntries r)"

lemma new_registry_ok [simp]: "registry_ok new_registry" "registry_entries new_registry = []"
  by (simp_all add: registry_ok_def registry_entries_def new_registry_def)

lemma registry_keys: "fst ` set (registry_entries r) = set (rgOrder r)"
  by (force simp: registry_entries_def)

lemma registry_map_of: "registry_ok r \<Longrightarrow> map_of (registry_entries r) n = rgEntries r n"
proof -
  assume ok: "registry_ok r"
  have "map_of (map (\<lambda>n. (n, the (rgEntries r n))) ns) n = (if n \<in> set ns then Some (the (rgEntries r n)) else None)" for ns
    by (induction ns) auto
  then show ?thesis using ok by (force simp: registry_entries_def registry_ok_def dom_def)
qed

lemma register_named_ok: "registry_ok r \<Longrightarrow> registry_ok (snd (register_named n e r))"
  by (auto simp: registry_ok_def register_named_def Let_def)

lemma register_named_entries:
  "registry_ok r \<Longrightarrow> map_prod id registry_entries (register_named n e r) = spec_register (\<lambda>_. n) (Some e) (registry_entries r)"
proof -
  assume ok: "registry_ok r"
  then have mem: "trim_space n \<in> fst ` set (registry_entries r) \<longleftrightarrow> rgEntries r (trim_space n) \<noteq> None"
    by (auto simp: registry_keys registry_ok_def)
  show ?thesis
  proof (cases "trim_space n = [] \<or> rgEntries r (trim_space n) \<noteq> None")
    case True
    then show ?thesis using mem by (auto simp: register_named_def spec_register_def Let_def)
  next
    case False
    then have "trim_space n \<notin> set (rgOrder r)" using ok by (auto simp: registry_ok_def)
    then show ?thesis using mem False
      by (auto simp: register_named_def spec_register_def Let_def registry_entries_def)
  qed
qed

lemma registryUnregister_ok: "registry_ok r \<Longrightarrow> registry_ok (snd (registryUnregister n r))"
  by (auto simp: registry_ok_def registryUnregister_def Let_def removeFromOrder_def)

lemma registryUnregister_entries:
  "registry_ok r \<Longrightarrow> map_prod id registry_entries (registryUnregister n r) = spec_unregister n (registry_entries r)"
proof -
  assume ok: "registry_ok r"
  have "map (\<lambda>m. (m, the (((rgEntries r)(trim_space n := None)) m))) (filter (\<lambda>m. m \<noteq> trim_space n) (rgOrder r))
      = filter (\<lambda>p. fst p \<noteq> trim_space n) (registry_entries r)"
    by (simp add: registry_entries_def filter_map comp_def)
  then show ?thesis using ok
    by (auto simp: registryUnregister_def spec_unregister_def Let_def registry_keys registry_ok_def removeFromOrder_def
        distinct_remove1_removeAll removeAll_filter_not_eq) (auto simp: registry_entries_def eq_commute)
qed

lemma registryGet_entries: "registry_ok r \<Longrightarrow> registryGet n r = spec_get n (registry_entries r)"
  by (simp add: registryGet_def spec_get_def registry_map_of Let_def)

lemma registryList_entries: "registry_ok r \<Longrightarrow> registryList r = map snd (registry_entries r)"
proof -
  assume ok: "registry_ok r"
  have "set ns \<subseteq> dom (rgEntries r) \<Longrightarrow> List.map_filter (rgEntries r) ns = map (\<lambda>n. the (rgEntries r n)) ns" for ns
    by (induction ns) (auto simp: List.map_filter_simps)
  then show ?thesis using ok by (simp add: registryList_def registry_entries_def registry_ok_def)
qed

lemma spec_register_key: "spec_register (\<lambda>_. key_of e) (Some e) ps = spec_register key_of (Some e) ps"
  by (simp add: spec_register_def)

lemmas registry_laws = register_named_ok register_named_entries registryUnregister_ok registryUnregister_entries
  registryGet_entries registryList_entries

text \<open>Checking for nil first and taking the name from the entry is all that the four add.\<close>

lemma register_entry_laws:
  assumes "registry_ok r"
  shows "registry_ok (snd (case e of None \<Rightarrow> (Some ErrRegistryNilEntry, r) | Some x \<Rightarrow> register_named (key_of x) x r))"
    and "map_prod id registry_entries (case e of None \<Rightarrow> (Some ErrRegistryNilEntry, r) | Some x \<Rightarrow> register_named (key_of x) x r)
       = spec_register key_of e (registry_entries r)"
  using assms
  by (auto simp: registry_laws spec_register_def register_named_entries split: option.split)

lemma mcpRegisterClient_eq:
  "mcpRegisterClient cl r = (case cl of None \<Rightarrow> (Some ErrRegistryNilEntry, r) | Some c \<Rightarrow> register_named (mcName c) c r)"
  by (auto simp: mcpRegisterClient_def register_named_def Let_def split: option.split)

lemmas tool_registry_defs = toolRegister_def toolUnregister_def toolGet_def toolList_def
lemmas mcp_registry_defs = mcpRegisterClient_eq mcpUnregister_def mcpGet_def mcpList_def
lemmas a2a_registry_defs = a2aRegisterClient_def a2aUnregister_def a2aGet_def a2aList_def
lemmas sub_registry_defs = subAgentRegister_def subAgentUnregister_def subAgentGet_def subAgentList_def

interpretation tools: named_registry tName toolRegister toolUnregister toolGet toolList new_registry
  registry_entries registry_ok
  by unfold_locales (simp_all only: tool_registry_defs register_entry_laws registry_laws new_registry_ok)

interpretation mcps: named_registry mcName mcpRegisterClient mcpUnregister mcpGet mcpList new_registry
  registry_entries registry_ok
  by unfold_locales (simp_all only: mcp_registry_defs register_entry_laws registry_laws new_registry_ok)

interpretation a2as: named_registry acName a2aRegisterClient a2aUnregister a2aGet a2aList new_registry
  registry_entries registry_ok
  by unfold_locales (simp_all only: a2a_registry_defs register_entry_laws registry_laws new_registry_ok)

interpretation subs: named_registry name_of "subAgentRegister name_of" subAgentUnregister subAgentGet subAgentList
  new_registry registry_entries registry_ok for name_of
  by unfold_locales (simp_all only: sub_registry_defs register_entry_laws registry_laws new_registry_ok)

text \<open>Registering a server from its configuration registers the client built from it, under the key.\<close>

lemma newMCPClient_name: "newMCPClient w n cfg = Inr c \<Longrightarrow> mcName c = trim_space n \<and> trim_space n \<noteq> []"
  by (auto simp: newMCPClient_def NewMCPClientImpl_def as_MCPClient_def Let_def split: if_splits sum.splits option.splits)

lemma mcpRegister_client:
  "newMCPClient w n cfg = Inr c \<Longrightarrow> mcpRegister w n cfg r = mcpRegisterClient (Some c) r"
  by (simp add: mcpRegister_def mcpRegisterClient_eq)

end
