(* ===== verification/AgentTools.thy ===== *)
theory AgentTools
  imports AgentRegistry TemporalTypes
begin

text \<open>
  The tools an agent offers to its model beside those registered directly (\<open>pkg/agent\<close>: \<open>mcp.go\<close>,
  \<open>a2a.go\<close>, \<open>retriever.go\<close>, \<open>memory.go\<close>, \<open>subagent.go\<close>), with their names, and the approval policies of
  \<open>policy.go\<close>; before them the schema helpers of \<open>pkg/tools/schema.go\<close>.
\<close>

section \<open>Schemas\<close>

text \<open>A \<open>JSONSchema\<close> is a \<open>map[string]any\<close>.\<close>

type_synonym json_schema = "(string \<times> goany) list"

definition param_of :: "string \<Rightarrow> string \<Rightarrow> json_schema" where
  "param_of ty description = [(''type'', VString ty), (''description'', VString description)]"

definition ParamString :: "string \<Rightarrow> json_schema" where
  "ParamString description = param_of ''string'' description"

definition ParamInteger :: "string \<Rightarrow> json_schema" where
  "ParamInteger description = param_of ''integer'' description"

definition ParamNumber :: "string \<Rightarrow> json_schema" where
  "ParamNumber description = param_of ''number'' description"

definition ParamBool :: "string \<Rightarrow> json_schema" where
  "ParamBool description = param_of ''boolean'' description"

definition ParamEnum :: "string \<Rightarrow> goany list \<Rightarrow> json_schema" where
  "ParamEnum description values = param_of ''string'' description @ [(''enum'', VList values)]"

definition ParamArray :: "string \<Rightarrow> json_schema \<Rightarrow> json_schema" where
  "ParamArray description items = param_of ''array'' description @ [(''items'', VMap items)]"

definition Params :: "(string \<times> json_schema) list \<Rightarrow> string list \<Rightarrow> json_schema" where
  "Params properties required =
     [(''type'', VString ''object''), (''properties'', VMap (map (\<lambda>(k, s). (k, VMap s)) properties))]
     @ (if required \<noteq> [] then [(''required'', VList (map VString required))] else [])"

section \<open>Names\<close>

text \<open>\<open>None\<close> where the code answers the empty string for an empty half.\<close>

definition joined_name :: "string \<Rightarrow> string \<Rightarrow> string \<Rightarrow> string" where
  "joined_name pre serverName toolName =
     (let sn = trim_space serverName; tn = trim_space toolName in
      if sn = [] \<or> tn = [] then [] else pre @ ''_'' @ sn @ ''_'' @ tn)"

definition mcpToolName :: "string \<Rightarrow> string \<Rightarrow> string" where
  "mcpToolName = joined_name ''mcp''"

definition a2aToolName :: "string \<Rightarrow> string \<Rightarrow> string" where
  "a2aToolName = joined_name ''a2a''"

definition joined_display :: "string \<Rightarrow> string \<Rightarrow> string \<Rightarrow> string" where
  "joined_display kind serverName toolName =
     (let sn = trim_space serverName; tn = trim_space toolName in
      if sn = [] \<or> tn = [] then [] else sn @ '' '' @ kind @ '' '' @ tn @ '' Tool'')"

definition mcpToolDisplayName :: "string \<Rightarrow> string \<Rightarrow> string" where
  "mcpToolDisplayName = joined_display ''MCP''"

definition a2aToolDisplayName :: "string \<Rightarrow> string \<Rightarrow> string" where
  "a2aToolDisplayName = joined_display ''A2A''"

text \<open>The regular expression \<open>[^a-zA-Z0-9]+\<close> with the replacement \<open>"_"\<close>: a run becomes one underscore.\<close>

definition is_alnum :: "char \<Rightarrow> bool" where
  "is_alnum c \<longleftrightarrow> is_alpha c \<or> is_digit c"

fun collapse :: "bool \<Rightarrow> string \<Rightarrow> string" where
  "collapse in_run [] = []"
| "collapse in_run (c # s) =
     (if is_alnum c then c # collapse False s
      else if in_run then collapse True s else CHR ''_'' # collapse True s)"

definition trim_char :: "char \<Rightarrow> string \<Rightarrow> string" where
  "trim_char c s = rev (dropWhile (\<lambda>x. x = c) (rev (dropWhile (\<lambda>x. x = c) s)))"

definition ErrSubAgentNameInvalid :: sentinel where "ErrSubAgentNameInvalid = SOther 5"

definition subAgentToolName :: "string \<Rightarrow> goerr + string" where
  "subAgentToolName name =
     (let base = trim_space name in
      if base = [] then
        Inl (GoErr ''sub-agent name invalid for delegation tool: set WithName on the sub-agent'' [ErrSubAgentNameInvalid])
      else
        (let safe = trim_char (CHR ''_'') (collapse False base) in
         if safe = [] then
           Inl (GoErr (''sub-agent name invalid for delegation tool: name '' @ go_quote base
                       @ '' must contain at least one letter or digit'') [ErrSubAgentNameInvalid])
         else Inr (''subagent_'' @ safe)))"

section \<open>Tools\<close>

definition json_failed :: goerr where
  "json_failed = new_error ''json: unsupported value''"

definition spec_parameters :: "gomap \<Rightarrow> gomap" where
  "spec_parameters ps = (case ps of None \<Rightarrow> object_schema | Some m \<Rightarrow> Some m)"

definition MCPExecute :: "'w Env \<Rightarrow> ToolSpec \<Rightarrow> 'w MCPClient option \<Rightarrow> gomap \<Rightarrow> 'w \<Rightarrow> goany outcome \<times> 'w" where
  "MCPExecute env spec cl args s =
     (case cl of
        None \<Rightarrow> (Returned (Inl (new_error ''mcp tool: nil client'')), s)
      | Some c \<Rightarrow>
          (case json env (args_value args) of
             None \<Rightarrow> (Returned (Inl json_failed), s)
           | Some raw \<Rightarrow>
               (case mcCallTool c (SpecName spec) raw s of
                  (Inl e, s1) \<Rightarrow> (Returned (Inl e), s1)
                | (Inr out, s1) \<Rightarrow>
                    (Returned (Inr (if out = [] then VString []
                                    else case unmarshal env out of Inl _ \<Rightarrow> VString out | Inr v \<Rightarrow> v)), s1))))"

definition NewMCPTool :: "'w Env \<Rightarrow> string \<Rightarrow> ToolSpec \<Rightarrow> 'w MCPClient option \<Rightarrow> 'w Tool" where
  "NewMCPTool env serverName spec cl =
     \<lparr>tName = mcpToolName serverName (SpecName spec), tDisplayName = mcpToolDisplayName serverName (SpecName spec),
      tDescription = SpecDescription spec, tParameters = spec_parameters (SpecParameters spec),
      tKind = Some ToolKindMCP, tApproval = None, tAuthorizer = None, tExecute = MCPExecute env spec cl\<rparr>"

text \<open>The texts of the text parts, joined by newlines; empty texts are skipped.\<close>

fun join_lines :: "string list \<Rightarrow> string" where
  "join_lines [] = []"
| "join_lines [s] = s"
| "join_lines (s # ss) = s @ nl @ join_lines ss"

definition a2aCollectText :: "A2AMessage \<Rightarrow> string" where
  "a2aCollectText m =
     join_lines (map paText (filter (\<lambda>p. paKind p = ''text'' \<and> paText p \<noteq> []) (amParts m)))"

text \<open>\<open>enc\<close> is the JSON encoding of a task.\<close>

definition A2AExecute :: "'w Env \<Rightarrow> (A2ATask \<Rightarrow> string option) \<Rightarrow> 'w A2AClient option \<Rightarrow> gomap \<Rightarrow> 'w \<Rightarrow> goany outcome \<times> 'w" where
  "A2AExecute env enc cl args s =
     (case cl of
        None \<Rightarrow> (Returned (Inl (new_error ''a2a tool: nil client'')), s)
      | Some c \<Rightarrow>
          (case json env (args_value args) of
             None \<Rightarrow> (Returned (Inl (wrap_error ''a2a tool: marshal args: '' json_failed)), s)
           | Some raw \<Rightarrow>
               (case acSendMessage c
                       \<lparr>asMessage = \<lparr>amMessageID = [], amRole = ''user'',
                                     amParts = [zero_part\<lparr>paKind := ''text'', paText := raw\<rparr>]\<rparr>,
                        asTaskID = [], asSessionID = [], asAcceptedOutputModes = []\<rparr> s of
                  (Inl e, s1) \<Rightarrow> (Returned (Inl e), s1)
                | (Inr r, s1) \<Rightarrow>
                    (Returned (Inr (VString
                       (case srMessage r of
                          Some m \<Rightarrow> a2aCollectText m
                        | None \<Rightarrow>
                            (case srTask r of
                               None \<Rightarrow> []
                             | Some t \<Rightarrow>
                                 (case enc t of
                                    Some b \<Rightarrow> b
                                  | None \<Rightarrow> ''task:'' @ atID t @ '' status:'' @ status_text (atStatus t)))))), s1))))"

definition NewA2ATool :: "'w Env \<Rightarrow> (A2ATask \<Rightarrow> string option) \<Rightarrow> string \<Rightarrow> ToolSpec \<Rightarrow> 'w A2AClient option \<Rightarrow> 'w Tool" where
  "NewA2ATool env enc serverName spec cl =
     \<lparr>tName = a2aToolName serverName (SpecName spec), tDisplayName = a2aToolDisplayName serverName (SpecName spec),
      tDescription = SpecDescription spec, tParameters = spec_parameters (SpecParameters spec),
      tKind = Some ToolKindA2A, tApproval = None, tAuthorizer = None, tExecute = A2AExecute env enc cl\<rparr>"

definition RetrieverExecute :: "'w Retriever \<Rightarrow> gomap \<Rightarrow> 'w \<Rightarrow> goany outcome \<times> 'w" where
  "RetrieverExecute r args s =
     (case RetrieverToolParamQueryValue args of
        Inl e \<Rightarrow> (Returned (Inl e), s)
      | Inr query \<Rightarrow>
          (case rSearch r query s of
             (Inl e, s1) \<Rightarrow> (Returned (Inl e), s1)
           | (Inr docs, s1) \<Rightarrow> (Returned (Inr (VDocuments docs)), s1)))"

definition NewRetrieverTool :: "'w Retriever option \<Rightarrow> 'w Tool option" where
  "NewRetrieverTool r0 =
     (case r0 of
        None \<Rightarrow> None
      | Some r \<Rightarrow>
          (let rn = trim_space (rName r) in
           if rn = [] then None
           else Some \<lparr>tName = RetrieverToolName rn, tDisplayName = RetrieverToolDisplayName rn,
                      tDescription = ''Search the '' @ rn @ '' knowledge base for relevant context. ''
                        @ ''Call this when you need external knowledge to answer the user query.'',
                      tParameters = Some (Params [(RetrieverToolParamQuery,
                          ParamString (''Search query to find relevant knowledge in '' @ rn))] [RetrieverToolParamQuery]),
                      tKind = Some ToolKindRetriever, tApproval = None, tAuthorizer = None,
                      tExecute = RetrieverExecute r\<rparr>))"

text \<open>\<open>save_memory\<close>: the registered tool has no store of its own, the runtime executes it.\<close>

definition MemoryExecute :: "(MemoryRecord list \<Rightarrow> 'w \<Rightarrow> goerr option \<times> 'w) option \<Rightarrow> gomap \<Rightarrow> 'w \<Rightarrow> goany outcome \<times> 'w" where
  "MemoryExecute store args s =
     (case store of
        None \<Rightarrow> (Returned (Inl (new_error ''save_memory must be executed via runtime'')), s)
      | Some f \<Rightarrow>
          (case get_string args ''text'' of
             None \<Rightarrow> (Returned (Inl (new_error (''save_memory: '' @ go_quote ''text'' @ '' parameter required''))), s)
           | Some raw \<Rightarrow>
               (let text = trim_space raw in
                if text = [] then
                  (Returned (Inl (new_error (''save_memory: '' @ go_quote ''text'' @ '' must be non-empty''))), s)
                else case f [\<lparr>mrText = text,
                              mrKind = (case get_string args ''kind'' of None \<Rightarrow> [] | Some k \<Rightarrow> trim_space k),
                              mrMetadata = [], mrExpiresAt = None\<rparr>] s of
                  (Some e, s1) \<Rightarrow> (Returned (Inl e), s1)
                | (None, s1) \<Rightarrow> (Returned (Inr (VString ''memory saved'')), s1))))"

definition memory_tool :: "(MemoryRecord list \<Rightarrow> 'w \<Rightarrow> goerr option \<times> 'w) option \<Rightarrow> 'w Tool" where
  "memory_tool store =
     \<lparr>tName = SaveMemoryToolName, tDisplayName = ''Save Memory'',
      tDescription = ''Save a fact, preference, or decision to long-term memory for future runs. ''
        @ ''Required when the user asks to remember, save, or persist something for later '' @ [CHR 0xE2, CHR 0x80, CHR 0x94] @ '' ''
        @ ''call this tool before acknowledging; a text reply alone does not store memory.'',
      tParameters = Some (Params
        [(''text'', ParamString ''The memory text to store (fact, preference, or decision distilled from the conversation)''),
         (''kind'', ParamString ''Optional memory kind (e.g. preference, fact, decision, instruction, note)'')] [''text'']),
      tKind = Some ToolKindMemory, tApproval = None, tAuthorizer = None, tExecute = MemoryExecute store\<rparr>"

definition NewMemoryTool :: "(MemoryRecord list \<Rightarrow> 'w \<Rightarrow> goerr option \<times> 'w) option \<Rightarrow> 'w Tool option" where
  "NewMemoryTool store = (case store of None \<Rightarrow> None | Some f \<Rightarrow> Some (memory_tool (Some f)))"

definition NewRegisteredMemoryTool :: "'w Tool" where
  "NewRegisteredMemoryTool = memory_tool None"

text \<open>The delegation tool of a sub-agent with this name and description; executing it is an error, since
  the runtime delegates.\<close>

definition SubAgentDescription :: "string \<Rightarrow> string \<Rightarrow> string" where
  "SubAgentDescription name description =
     (let d = trim_space description in
      if d \<noteq> [] then ''Delegate to specialist sub-agent: '' @ d
      else if trim_space name \<noteq> [] then ''Delegate to specialist sub-agent: '' @ name
      else ''Delegate to a specialist sub-agent to handle this request.'')"

definition ErrSubAgentToolNotExecutable :: string where
  "ErrSubAgentToolNotExecutable = ''sub-agent tool must be delegated via runtime (local: in-process runner, temporal: child workflow)''"

definition NewSubAgentTool :: "string \<Rightarrow> string \<Rightarrow> 'w Tool option" where
  "NewSubAgentTool name description =
     (case subAgentToolName name of
        Inl _ \<Rightarrow> None
      | Inr n \<Rightarrow>
          Some \<lparr>tName = n, tDisplayName = ''Sub-Agent '' @ name, tDescription = SubAgentDescription name description,
                tParameters = Some (Params [(SubAgentToolParamQuery,
                    ParamString ''Task or question to send to the sub-agent.'')] [SubAgentToolParamQuery]),
                tKind = Some ToolKindSubAgent, tApproval = None, tAuthorizer = None,
                tExecute = (\<lambda>args s. (Returned (Inl (GoErr (ErrSubAgentToolNotExecutable @ '': '' @ n) [SOther 6])), s))\<rparr>)"

section \<open>Approval policies (\<open>policy.go\<close>)\<close>

text \<open>The allowlist is the set of allowed names, as a list without repetition.  \<open>PolicyOther\<close> is a policy of
  the user's: the name of its type and what it decides.\<close>

datatype 'w Policy =
    RequireAllToolApprovalPolicy
  | autoToolApprovalPolicy
  | allowlistToolApprovalPolicy "string list"
  | PolicyOther string "'w Tool \<Rightarrow> bool"

definition PolicyRequiresApproval :: "'w Policy \<Rightarrow> 'w Tool \<Rightarrow> bool" where
  "PolicyRequiresApproval p t =
     (case p of
        RequireAllToolApprovalPolicy \<Rightarrow> True
      | autoToolApprovalPolicy \<Rightarrow> False
      | allowlistToolApprovalPolicy allowed \<Rightarrow> tName t \<notin> set allowed
      | PolicyOther _ f \<Rightarrow> f t)"

record AllowlistToolApprovalConfig =
  alToolNames :: "string list"
  alSubAgentNames :: "string list"
  alMCPTools :: "(string \<times> string list) list"

definition allow_name :: "string \<Rightarrow> string list \<Rightarrow> string list" where
  "allow_name s m = (let n = trim_space s in if n \<noteq> [] then List.insert n m else m)"

fun allow_sub_agents :: "string list \<Rightarrow> string list \<Rightarrow> goerr + string list" where
  "allow_sub_agents [] m = Inr m"
| "allow_sub_agents (n # ns) m =
     (case subAgentToolName n of
        Inl e \<Rightarrow> Inl (wrap_error (''allowlist SubAgentNames entry '' @ go_quote n @ '': '') e)
      | Inr name \<Rightarrow> allow_sub_agents ns (allow_name name m))"

definition allow_mcp :: "(string \<times> string list) list \<Rightarrow> string list \<Rightarrow> string list" where
  "allow_mcp servers m =
     fold (\<lambda>(server, tools). fold (\<lambda>tid. allow_name (mcpToolName server tid)) tools) servers m"

definition AllowlistToolApprovalPolicy :: "AllowlistToolApprovalConfig \<Rightarrow> goerr + 'w Policy" where
  "AllowlistToolApprovalPolicy c =
     (case allow_sub_agents (alSubAgentNames c) (fold allow_name (alToolNames c) []) of
        Inl e \<Rightarrow> Inl e
      | Inr m \<Rightarrow> Inr (allowlistToolApprovalPolicy (allow_mcp (alMCPTools c) m)))"

fun join_commas :: "string list \<Rightarrow> string" where
  "join_commas [] = []"
| "join_commas [s] = s"
| "join_commas (s # ss) = s @ '','' @ join_commas ss"

definition toolPolicyFingerprint :: "'w Policy option \<Rightarrow> string" where
  "toolPolicyFingerprint p0 =
     (case p0 of
        None \<Rightarrow> ''nil''
      | Some RequireAllToolApprovalPolicy \<Rightarrow> ''require_all''
      | Some autoToolApprovalPolicy \<Rightarrow> ''auto''
      | Some (allowlistToolApprovalPolicy names) \<Rightarrow> ''allowlist:'' @ join_commas (sort_strings names)
      | Some (PolicyOther ty _) \<Rightarrow> ''unknown:'' @ ty)"

text \<open>\<open>agentConfig.requiresApproval\<close>.\<close>

definition requiresApproval :: "'w Policy option \<Rightarrow> 'w Tool \<Rightarrow> bool" where
  "requiresApproval p t =
     (case p of
        None \<Rightarrow> (case tApproval t of Some True \<Rightarrow> True | _ \<Rightarrow> False)
      | Some policy \<Rightarrow> PolicyRequiresApproval policy t)"

end
