(* ===== verification/TemporalIds.thy ===== *)
theory TemporalIds
  imports TemporalActivities
begin

text \<open>
  The identifiers of workflows, channels and queues (\<open>internal/runtime/temporal/runtime.go\<close>): how the name of
  an agent becomes a segment of a workflow ID, and that the segment is short and made of safe bytes.
\<close>

section \<open>UTF-8 (\<open>unicode/utf8\<close>)\<close>

definition byte_in :: "nat \<Rightarrow> nat \<Rightarrow> char \<Rightarrow> bool" where
  "byte_in lo hi c \<longleftrightarrow> lo \<le> of_char c \<and> of_char c \<le> hi"

text \<open>The number of bytes of the rune a string begins with; \<open>None\<close> if its first bytes are not UTF-8.\<close>

definition rune_size :: "char \<Rightarrow> string \<Rightarrow> nat option" where
  "rune_size c s =
     (let cont = byte_in 0x80 0xBF;
          two = (\<lambda>ok. length s \<ge> 1 \<and> ok (s ! 0));
          three = (\<lambda>ok. length s \<ge> 2 \<and> ok (s ! 0) \<and> cont (s ! 1));
          four = (\<lambda>ok. length s \<ge> 3 \<and> ok (s ! 0) \<and> cont (s ! 1) \<and> cont (s ! 2))
      in if byte_in 0 0x7F c then Some 1
         else if byte_in 0xC2 0xDF c then (if two cont then Some 2 else None)
         else if byte_in 0xE0 0xE0 c then (if three (byte_in 0xA0 0xBF) then Some 3 else None)
         else if byte_in 0xED 0xED c then (if three (byte_in 0x80 0x9F) then Some 3 else None)
         else if byte_in 0xE1 0xEF c then (if three cont then Some 3 else None)
         else if byte_in 0xF0 0xF0 c then (if four (byte_in 0x90 0xBF) then Some 4 else None)
         else if byte_in 0xF1 0xF3 c then (if four cont then Some 4 else None)
         else if byte_in 0xF4 0xF4 c then (if four (byte_in 0x80 0x8F) then Some 4 else None)
         else None)"

text \<open>The runes of a \<open>range\<close> loop; a byte that is not UTF-8 is a rune of its own.\<close>

fun runes :: "string \<Rightarrow> string list" where
  "runes [] = []"
| "runes (c # s) = (let n = (case rune_size c s of None \<Rightarrow> 0 | Some k \<Rightarrow> k - 1) in (c # take n s) # runes (drop n s))"

fun ValidString :: "string \<Rightarrow> bool" where
  "ValidString [] \<longleftrightarrow> True"
| "ValidString (c # s) \<longleftrightarrow> (case rune_size c s of None \<Rightarrow> False | Some k \<Rightarrow> ValidString (drop (k - 1) s))"

section \<open>Segments\<close>

definition maxAgentNameWorkflowSegmentBytes :: nat where "maxAgentNameWorkflowSegmentBytes = 128"

definition plain_char :: "char \<Rightarrow> bool" where
  "plain_char c \<longleftrightarrow>
     byte_in 0x61 0x7A c \<or> byte_in 0x41 0x5A c \<or> byte_in 0x30 0x39 c
     \<or> c = CHR ''-'' \<or> c = CHR ''_'' \<or> c = CHR ''.''"

definition segment_char :: "string \<Rightarrow> char" where
  "segment_char r = (case r of [c] \<Rightarrow> if plain_char c then c else CHR ''-'' | _ \<Rightarrow> CHR ''-'')"

definition trim_dashes :: "string \<Rightarrow> string" where
  "trim_dashes s = rev (dropWhile (\<lambda>c. c = CHR ''-'') (rev (dropWhile (\<lambda>c. c = CHR ''-'') s)))"

fun shrink_to_valid :: "string \<Rightarrow> string" where
  "shrink_to_valid s = (if s = [] \<or> ValidString s then s else shrink_to_valid (butlast s))"

declare shrink_to_valid.simps [simp del]

definition truncateUTF8String :: "string \<Rightarrow> nat \<Rightarrow> string" where
  "truncateUTF8String s maxBytes = (if length s \<le> maxBytes then s else shrink_to_valid (take maxBytes s))"

definition sanitizeTemporalWorkflowIDSegment :: "string \<Rightarrow> string" where
  "sanitizeTemporalWorkflowIDSegment s0 =
     (let s = trim_space s0 in
      if s = [] then ''agent''
      else
        (let out = trim_dashes (map segment_char (runes s)) in
         if out = [] then ''agent'' else truncateUTF8String out maxAgentNameWorkflowSegmentBytes))"

definition getWorkflowID :: "string \<Rightarrow> string \<Rightarrow> bool \<Rightarrow> string" where
  "getWorkflowID runID agentName isStream =
     (if isStream then ''agent-stream-'' else ''agent-run-'')
     @ sanitizeTemporalWorkflowIDSegment agentName @ ''-'' @ runID"

definition agentEventChannelPrefix :: string where "agentEventChannelPrefix = ''agent_event_''"

definition eventChannelName :: "string \<Rightarrow> string" where
  "eventChannelName runID = agentEventChannelPrefix @ runID"

definition getEventTaskQueue :: "string \<Rightarrow> string" where "getEventTaskQueue queue = queue @ ''-events''"

section \<open>What a segment is made of\<close>

lemma plain_ascii: "plain_char c \<Longrightarrow> byte_in 0 0x7F c"
  by (auto simp: plain_char_def byte_in_def)

lemma segment_char_plain [simp]: "plain_char (segment_char r)"
  by (auto simp: segment_char_def plain_char_def split: list.split)

lemma ValidString_plain: "\<forall>c \<in> set s. plain_char c \<Longrightarrow> ValidString s"
  by (induction s) (auto simp: rune_size_def plain_ascii)

lemma truncate_plain:
  "\<forall>c \<in> set s. plain_char c \<Longrightarrow> truncateUTF8String s n = take n s"
  using ValidString_plain [of "take n s"] set_take_subset [of n s]
  by (auto simp: truncateUTF8String_def shrink_to_valid.simps [of "take n s"])

lemma trim_dashes_set: "set (trim_dashes s) \<subseteq> set s"
  unfolding trim_dashes_def set_rev by (auto dest!: set_dropWhileD)

text \<open>Trimming takes the dashes from both ends.\<close>

lemma trim_dashes_hd:
  assumes "trim_dashes s \<noteq> []"
  shows "hd (trim_dashes s) \<noteq> CHR ''-''"
proof -
  let ?t = "dropWhile (\<lambda>c. c = CHR ''-'') s"
  have "suffix (dropWhile (\<lambda>c. c = CHR ''-'') (rev ?t)) (rev ?t)" by (rule suffix_dropWhile)
  then have "prefix (trim_dashes s) ?t" by (simp add: trim_dashes_def suffix_to_prefix)
  then obtain u where t: "?t = trim_dashes s @ u" by (rule prefixE)
  then have "?t \<noteq> []" using assms by simp
  then have "hd ?t \<noteq> CHR ''-''" by (rule hd_dropWhile)
  then show ?thesis unfolding t hd_append2 [OF assms] .
qed

lemma segment_cases:
  obtains "sanitizeTemporalWorkflowIDSegment s = ''agent''"
  | t where "sanitizeTemporalWorkflowIDSegment s = take 128 t" "t \<noteq> []" "hd t \<noteq> CHR ''-''" "\<forall>c \<in> set t. plain_char c"
proof -
  define t where "t = trim_dashes (map segment_char (runes (trim_space s)))"
  have t: "\<forall>c \<in> set t. plain_char c" unfolding t_def using trim_dashes_set by fastforce
  have e: "sanitizeTemporalWorkflowIDSegment s =
      (if trim_space s = [] \<or> t = [] then ''agent'' else take 128 t)"
    unfolding sanitizeTemporalWorkflowIDSegment_def Let_def t_def [symmetric] truncate_plain [OF t]
    by (simp add: maxAgentNameWorkflowSegmentBytes_def)
  show ?thesis
  proof (cases "trim_space s = [] \<or> t = []")
    case True
    then show ?thesis using that(1) e by simp
  next
    case False
    then show ?thesis using that(2) [of t] e t trim_dashes_hd [of "map segment_char (runes (trim_space s))"]
      by (simp add: t_def)
  qed
qed

lemma agent_plain: "\<forall>c \<in> set ''agent''. plain_char c"
  by code_simp

lemma segment_plain: "c \<in> set (sanitizeTemporalWorkflowIDSegment s) \<Longrightarrow> plain_char c"
  by (cases rule: segment_cases [of s]) (use agent_plain in \<open>auto dest: in_set_takeD\<close>)

lemma segment_length: "length (sanitizeTemporalWorkflowIDSegment s) \<le> maxAgentNameWorkflowSegmentBytes"
  by (cases rule: segment_cases [of s]) (auto simp: maxAgentNameWorkflowSegmentBytes_def)

lemma segment_start:
  "sanitizeTemporalWorkflowIDSegment s \<noteq> [] \<and> hd (sanitizeTemporalWorkflowIDSegment s) \<noteq> CHR ''-''"
  by (cases rule: segment_cases [of s]) auto

lemma getWorkflowID_run: "getWorkflowID r n b = getWorkflowID r' n b \<longleftrightarrow> r = r'"
  by (auto simp: getWorkflowID_def)

end
