(* ===== verification/TemporalClient.thy ===== *)
theory TemporalClient
  imports TemporalIds Base64
begin

text \<open>
  The client side of the Temporal runtime (\<open>internal/runtime/temporal/runtime.go\<close>, \<open>approval.go\<close>,
  \<open>subagent.go\<close>): what it keeps about its runs, its workers and the event workflow, starting a run and
  waiting for it, answering approvals, closing.

  The service, its workers and the event bus are outside: \<open>Cluster\<close> holds what they answer, and every call
  made to them is logged in \<open>ctCalls\<close>.
\<close>

section \<open>Data\<close>

record 'w TemporalClientRuntime = "'w TemporalRuntime" +
  tcOwnsClient :: bool
  tcInstanceId :: string
  tcEnableRemoteWorkers :: bool
  tcRemoteWorker :: bool
  tcDisableLocalWorker :: bool

record ToolApprovalRequestValue =
  tvAgentName :: string
  tvToolCallID :: string
  tvToolName :: string
  tvToolDisplayName :: string
  tvArgs :: gomap
  tvApprovalToken :: string

record SubAgentDelegationApprovalRequestValue =
  dvAgentName :: string
  dvSubAgentName :: string
  dvArgs :: gomap
  dvApprovalToken :: string

datatype ClientCall =
    CallStartWorker string
  | CallStopEventWorker
  | CallStopAgentWorker
  | CallCloseClient
  | CallExecute string string AgentWorkflowInput
  | CallTerminate string string
  | CallComplete string ApprovalStatus
  | CallSignalComplete string
  | CallAwait string
  | CallSubscribe string
  | CallUnsubscribe string

text \<open>\<open>clCall\<close> answers a call with an error or not; \<open>clHasWorkers\<close> is the polling of \<open>DescribeTaskQueue\<close>;
  \<open>clInterceptor\<close> is the error of building the tracing interceptor; the \<open>clJSON\<close> functions unmarshal.\<close>

record 'w Cluster =
  clCall :: "ClientCall \<Rightarrow> 'w \<Rightarrow> goerr option \<times> 'w"
  clHasWorkers :: "string \<Rightarrow> 'w \<Rightarrow> bool \<times> 'w"
  clInterceptor :: "goerr option"
  clJSONTool :: "string \<Rightarrow> goerr + ToolApprovalRequestValue"
  clJSONDelegation :: "string \<Rightarrow> goerr + SubAgentDelegationApprovalRequestValue"

record 'w client =
  ctSt :: "'w st"
  ctCalls :: "ClientCall list"
  ctRuns :: "string list"
  ctEventWorkflow :: string
  ctEventSuffix :: "string option"
  ctEventWorker :: bool
  ctAgentWorker :: bool

definition on_client :: "('w st \<Rightarrow> 'r \<times> 'w st) \<Rightarrow> 'w client \<Rightarrow> 'r \<times> 'w client" where
  "on_client f s = (let (r, st) = f (ctSt s) in (r, s\<lparr>ctSt := st\<rparr>))"

definition call :: "'w Cluster \<Rightarrow> ClientCall \<Rightarrow> 'w client \<Rightarrow> goerr option \<times> 'w client" where
  "call cl c s = on_client (ext (clCall cl c)) (s\<lparr>ctCalls := ctCalls s @ [c]\<rparr>)"

text \<open>A call whose error the code drops.\<close>

definition tell :: "'w Cluster \<Rightarrow> ClientCall \<Rightarrow> 'w client \<Rightarrow> 'w client" where
  "tell cl c s = snd (call cl c s)"

section \<open>Routes to sub-agents\<close>

text \<open>\<open>rt_of\<close> is the type assertion of a spec's runtime to \<open>*TemporalRuntime\<close>.\<close>

fun temporal_routes :: "'w TEnv \<Rightarrow> ('w AnyRuntime \<Rightarrow> 'w TemporalRuntime option) \<Rightarrow> (string \<times> SubAgentRoute) list
    \<Rightarrow> 'w SubAgentSpec option list \<Rightarrow> (string \<times> SubAgentRoute) list" where
  "temporal_routes te rt_of out [] = out"
| "temporal_routes te rt_of out (None # specs) = temporal_routes te rt_of out specs"
| "temporal_routes te rt_of out (Some (Spec n tn rt ch ts) # specs) =
     (let route = (case rt_of rt of
                     None \<Rightarrow> TRoute n [] (temporal_routes te rt_of [] ch) []
                   | Some tr \<Rightarrow> TRoute n (taskQueue tr) (temporal_routes te rt_of [] ch)
                                 (computeAgentFingerprintFromRuntime te tr ts))
      in temporal_routes te rt_of (AList.update tn route out) specs)"

definition temporalSubAgentRoutes :: "'w TEnv \<Rightarrow> ('w AnyRuntime \<Rightarrow> 'w TemporalRuntime option)
    \<Rightarrow> 'w SubAgentSpec option list \<Rightarrow> (string \<times> SubAgentRoute) list" where
  "temporalSubAgentRoutes te rt_of specs = temporal_routes te rt_of [] specs"

section \<open>Runs and workers\<close>

definition beginRun :: "string \<Rightarrow> 'w client \<Rightarrow> 'w client" where
  "beginRun workflowID s = s\<lparr>ctRuns := List.insert workflowID (ctRuns s)\<rparr>"

definition endRun :: "string \<Rightarrow> 'w client \<Rightarrow> 'w client" where
  "endRun workflowID s = s\<lparr>ctRuns := removeAll workflowID (ctRuns s)\<rparr>"

definition getEventWorkflowID :: "'w TEnv \<Rightarrow> string \<Rightarrow> 'w client \<Rightarrow> string \<times> 'w client" where
  "getEventWorkflowID te agentName s =
     (let (suffix, s1) = (case ctEventSuffix s of
                            Some u \<Rightarrow> (u, s)
                          | None \<Rightarrow> (let (u, s2) = on_client (ext (uuid (teEnv te))) s in (u, s2\<lparr>ctEventSuffix := Some u\<rparr>)))
      in (''agent-event-'' @ sanitizeTemporalWorkflowIDSegment agentName @ ''-'' @ suffix, s1))"

definition resolveEventPipeline :: "'w TEnv \<Rightarrow> 'w TemporalClientRuntime \<Rightarrow> string \<Rightarrow> 'w client
    \<Rightarrow> (string \<times> string) \<times> 'w client" where
  "resolveEventPipeline te rt agentName s =
     (let (i, s1) = getEventWorkflowID te agentName s;
          s2 = (if ctEventWorkflow s1 = [] then s1\<lparr>ctEventWorkflow := i\<rparr> else s1)
      in ((i, getEventTaskQueue (taskQueue rt)), s2))"

text \<open>The start of the event worker runs on its own; its error is dropped.\<close>

definition createEventWorker :: "'w Cluster \<Rightarrow> 'w TemporalClientRuntime \<Rightarrow> 'w client \<Rightarrow> goerr option \<times> 'w client" where
  "createEventWorker cl rt s =
     (if ctEventWorker s then (None, s)
      else case clInterceptor cl of
             Some e \<Rightarrow> (Some e, s)
           | None \<Rightarrow> (None, tell cl (CallStartWorker (getEventTaskQueue (taskQueue rt))) (s\<lparr>ctEventWorker := True\<rparr>)))"

definition StartWorker :: "'w Cluster \<Rightarrow> 'w TemporalClientRuntime \<Rightarrow> 'w client \<Rightarrow> goerr option \<times> 'w client" where
  "StartWorker cl rt s =
     (if ctAgentWorker s then (None, s)
      else case clInterceptor cl of
             Some e \<Rightarrow> (Some e, s)
           | None \<Rightarrow> call cl (CallStartWorker (taskQueue rt)) (s\<lparr>ctAgentWorker := True\<rparr>))"

definition StopWorker :: "'w Cluster \<Rightarrow> 'w TemporalClientRuntime \<Rightarrow> 'w client \<Rightarrow> 'w client" where
  "StopWorker cl rt s =
     (if \<not> tcRemoteWorker rt then s
      else (let s1 = (if ctAgentWorker s then tell cl CallStopAgentWorker s else s)
            in if tcOwnsClient rt then tell cl CallCloseClient s1 else s1))"

text \<open>The runtime's \<open>Close\<close>; the active runs are terminated in an order Go does not fix.\<close>

definition CloseRuntime :: "'w Cluster \<Rightarrow> 'w TemporalClientRuntime \<Rightarrow> 'w client \<Rightarrow> 'w client" where
  "CloseRuntime cl rt s =
     (let s1 = fold (\<lambda>i. tell cl (CallTerminate i ''agent closed'')) (ctRuns s) s;
          s2 = (if ctEventWorkflow s = [] then s1
                else tell cl (CallAwait (ctEventWorkflow s)) (tell cl (CallSignalComplete (ctEventWorkflow s)) s1));
          s3 = (if ctEventWorker s then tell cl CallStopEventWorker s2 else s2);
          s4 = (if ctAgentWorker s then tell cl CallStopAgentWorker s3 else s3)
      in if tcOwnsClient rt then tell cl CallCloseClient s4 else s4)"

definition skipHasWorkersPrecheck :: "'w TemporalClientRuntime \<Rightarrow> bool" where
  "skipHasWorkersPrecheck rt = (if agentMode rt = ''autonomous'' then True else \<not> tcDisableLocalWorker rt)"

section \<open>Approvals\<close>

text \<open>\<open>OnApproval\<close> and \<open>Approve\<close> have the same text.\<close>

definition OnApproval :: "'w Cluster \<Rightarrow> string \<Rightarrow> ApprovalStatus \<Rightarrow> 'w client \<Rightarrow> goerr option \<times> 'w client" where
  "OnApproval cl approvalToken status s =
     (if status \<noteq> ApprovalStatusApproved \<and> status \<noteq> ApprovalStatusRejected then
        (Some (new_error (''invalid approval status: '' @ approvalStatusText status)), s)
      else case b64_decode approvalToken of
             None \<Rightarrow> (Some (new_error ''invalid approval token: illegal base64 data''), s)
           | Some taskToken \<Rightarrow> call cl (CallComplete taskToken status) s)"

definition tool_value :: "ToolApprovalRequestValue \<Rightarrow> goany" where
  "tool_value v =
     VMap (omitempty ''agentName'' (tvAgentName v) @ omitempty ''toolCallId'' (tvToolCallID v)
           @ [(''toolName'', VString (tvToolName v))] @ omitempty ''toolDisplayName'' (tvToolDisplayName v)
           @ omitempty_args (tvArgs v) @ omitempty ''approvalToken'' (tvApprovalToken v))"

definition delegation_request_value :: "SubAgentDelegationApprovalRequestValue \<Rightarrow> goany" where
  "delegation_request_value v =
     VMap (omitempty ''agentName'' (dvAgentName v) @ omitempty ''subAgentName'' (dvSubAgentName v)
           @ omitempty_args (dvArgs v) @ omitempty ''approvalToken'' (dvApprovalToken v))"

text \<open>What arrives on the bus was decoded from JSON, so a payload goes through JSON once more.\<close>

definition parseCustomPayload :: "'w TEnv \<Rightarrow> (string \<Rightarrow> goerr + 'v) \<Rightarrow> goany \<Rightarrow> goerr + 'v" where
  "parseCustomPayload te unmarshal_payload v =
     (case json (teEnv te) v of
        None \<Rightarrow> Inl (new_error ''events: marshal custom value'')
      | Some raw \<Rightarrow> (case unmarshal_payload raw of
                       Inl e \<Rightarrow> Inl (wrap_error ''events: unmarshal custom value: '' e) | Inr x \<Rightarrow> Inr x))"

text \<open>\<open>Inr None\<close> is \<open>ErrNotApprovalCustomEvent\<close>.\<close>

definition prepareApprovalFromCustomEvent :: "'w TEnv \<Rightarrow> 'w Cluster \<Rightarrow> string \<Rightarrow> goany
    \<Rightarrow> goerr + (ApprovalRequest \<times> string) option" where
  "prepareApprovalFromCustomEvent te cl name v =
     (if name = ''tool_approval'' then
        (case parseCustomPayload te (clJSONTool cl) v of
           Inl e \<Rightarrow> Inl e
         | Inr x \<Rightarrow> Inr (Some (\<lparr>arName = ApprovalRequestNameTool, arValue = tool_value x\<rparr>, tvApprovalToken x)))
      else if name = ''sub_agent_delegation'' then
        (case parseCustomPayload te (clJSONDelegation cl) v of
           Inl e \<Rightarrow> Inl e
         | Inr x \<Rightarrow> Inr (Some (\<lparr>arName = ApprovalRequestNameSubAgent, arValue = delegation_request_value x\<rparr>,
                                dvApprovalToken x)))
      else Inr None)"

section \<open>Starting a run\<close>

definition temporal_scope :: "'w TemporalClientRuntime \<Rightarrow> go_context \<Rightarrow> MemoryScope" where
  "temporal_scope rt c = (case ResolveMemoryScope (tmpBase rt) c of Inl _ \<Rightarrow> empty_scope | Inr sc \<Rightarrow> sc)"

definition temporal_thread :: "'w TemporalClientRuntime \<Rightarrow> string \<Rightarrow> string \<Rightarrow> string" where
  "temporal_thread rt conversationID runID =
     (if conversationID \<noteq> [] then conversationID else if tcInstanceId rt \<noteq> [] then tcInstanceId rt else runID)"

definition workflow_input :: "'w TEnv \<Rightarrow> ('w AnyRuntime \<Rightarrow> 'w TemporalRuntime option) \<Rightarrow> 'w TemporalClientRuntime
    \<Rightarrow> go_context \<Rightarrow> 'w ExecuteRequest \<Rightarrow> string \<Rightarrow> string \<Rightarrow> bool \<Rightarrow> string list \<Rightarrow> string \<times> string
    \<Rightarrow> AgentWorkflowInput" where
  "workflow_input te rt_of rt c req runID workflowID streaming eventTypes pipeline =
     \<lparr>wiUserPrompt = erUserPrompt req, wiEventWorkflowID = fst pipeline, wiEventTaskQueue = snd pipeline,
      wiLocalChannelName = eventChannelName workflowID, wiStreamingEnabled = streaming,
      wiConversationID = GetConversationID req,
      wiFingerprint = computeAgentFingerprintFromRuntime te (TemporalRuntime.truncate rt) (erTools req),
      wiRunID = runID, wiMemoryScope = temporal_scope rt c, wiEventTypes = eventTypes, wiSubAgentDepth = 0,
      wiSubAgentRoutes = temporalSubAgentRoutes te rt_of (erSubAgents req),
      wiMaxSubAgentDepth = erMaxSubAgentDepth req, wiState = None\<rparr>"

text \<open>The event pipeline, when workers run elsewhere.\<close>

definition event_pipeline :: "'w TEnv \<Rightarrow> 'w Cluster \<Rightarrow> 'w TemporalClientRuntime \<Rightarrow> 'w client
    \<Rightarrow> (goerr + string \<times> string) \<times> 'w client" where
  "event_pipeline te cl rt s =
     (if \<not> tcEnableRemoteWorkers rt then (Inr ([], []), s)
      else case createEventWorker cl rt s of
             (Some e, s1) \<Rightarrow> (Inl e, s1)
           | (None, s1) \<Rightarrow> (let (p, s2) = resolveEventPipeline te rt (rtName (tmpBase rt)) s1 in (Inr p, s2)))"

definition no_workers :: "string \<Rightarrow> goerr" where
  "no_workers queue = new_error (''no workers available on task queue '' @ queue)"

text \<open>The check for workers and the start of the workflow.\<close>

definition start_workflow :: "'w Cluster \<Rightarrow> 'w TemporalClientRuntime \<Rightarrow> string \<Rightarrow> AgentWorkflowInput \<Rightarrow> 'w client
    \<Rightarrow> goerr option \<times> 'w client" where
  "start_workflow cl rt workflowID win s =
     (let (ok, s1) = (if skipHasWorkersPrecheck rt then (True, s) else on_client (ext (clHasWorkers cl (taskQueue rt))) s)
      in if \<not> ok then (Some (no_workers (taskQueue rt)), s1)
         else call cl (CallExecute workflowID (taskQueue rt) win) s1)"

section \<open>Waiting for a run\<close>

text \<open>What \<open>select\<close> may find ready: the result, the workflow's error, the end of the run's context, an event of
  the run's channel, an answer given to an approval request.\<close>

datatype Ready =
    ResultReady AgentRunResult
  | FailureReady goerr
  | ContextDone goerr
  | EventReady "AgentEvent option"
  | ResponseReady string ApprovalStatus

definition handle_event :: "'w TEnv \<Rightarrow> 'w Cluster \<Rightarrow> (ApprovalRequest \<Rightarrow> 'w \<Rightarrow> 'w) option \<Rightarrow> AgentEvent option \<Rightarrow> 'w client
    \<Rightarrow> 'w client" where
  "handle_event te cl handler ev s =
     (case (ev, handler) of
        (Some (EvCustom name v), Some h) \<Rightarrow>
          (case prepareApprovalFromCustomEvent te cl name v of
             Inr (Some (req, token)) \<Rightarrow> snd (on_client (ext (\<lambda>w. ((), h req w))) s)
           | _ \<Rightarrow> s)
      | _ \<Rightarrow> s)"

text \<open>The \<open>select\<close> loop over what becomes ready, in that order; \<open>None\<close> is a loop that still waits.\<close>

fun execute_loop :: "'w TEnv \<Rightarrow> 'w Cluster \<Rightarrow> (ApprovalRequest \<Rightarrow> 'w \<Rightarrow> 'w) option \<Rightarrow> string \<Rightarrow> Ready list \<Rightarrow> 'w client
    \<Rightarrow> ((goerr + AgentRunResult) \<times> 'w client) option" where
  "execute_loop te cl h workflowID [] s = None"
| "execute_loop te cl h workflowID (ResultReady r # rs) s = Some (Inr r, s)"
| "execute_loop te cl h workflowID (FailureReady e # rs) s = Some (Inl e, s)"
| "execute_loop te cl h workflowID (ContextDone e # rs) s =
     Some (Inl e, tell cl (CallTerminate workflowID ''run timeout'') s)"
| "execute_loop te cl h workflowID (EventReady ev # rs) s =
     execute_loop te cl h workflowID rs (handle_event te cl h ev s)"
| "execute_loop te cl h workflowID (ResponseReady token status # rs) s =
     (case OnApproval cl token status s of
        (Some e, s1) \<Rightarrow> Some (Inl e, s1)
      | (None, s1) \<Rightarrow> execute_loop te cl h workflowID rs s1)"

text \<open>\<open>defer closeEvent()\<close>.\<close>

definition closing_events :: "'w Cluster \<Rightarrow> string \<Rightarrow> ((goerr + 'r) \<times> 'w client) option \<Rightarrow> ((goerr + 'r) \<times> 'w client) option" where
  "closing_events cl channel = map_option (\<lambda>(r, s). (r, tell cl (CallUnsubscribe channel) s))"

definition execute_run :: "'w TEnv \<Rightarrow> 'w Cluster \<Rightarrow> ('w AnyRuntime \<Rightarrow> 'w TemporalRuntime option)
    \<Rightarrow> 'w TemporalClientRuntime \<Rightarrow> go_context \<Rightarrow> 'w ExecuteRequest \<Rightarrow> string \<Rightarrow> string \<Rightarrow> Ready list \<Rightarrow> 'w client
    \<Rightarrow> ((goerr + AgentRunResult) \<times> 'w client) option" where
  "execute_run te cl rt_of rt c req runID workflowID rs s =
     (case event_pipeline te cl rt s of
        (Inl e, s1) \<Rightarrow> Some (Inl e, s1)
      | (Inr pipeline, s1) \<Rightarrow>
          (let win = (\<lambda>types. workflow_input te rt_of rt c req runID workflowID False types pipeline);
               run = (\<lambda>types s2.
                 case start_workflow cl rt workflowID (win types) s2 of
                   (Some e, s3) \<Rightarrow> Some (Inl e, s3)
                 | (None, s3) \<Rightarrow> execute_loop te cl (erApprovalHandler req) workflowID rs s3);
               channel = eventChannelName workflowID
           in if erApprovalHandler req = None then run [] s1
              else case call cl (CallSubscribe channel) s1 of
                     (Some e, s2) \<Rightarrow> Some (Inl e, s2)
                   | (None, s2) \<Rightarrow> closing_events cl channel (run [''CUSTOM''] s2)))"

definition ExecuteTemporal :: "'w TEnv \<Rightarrow> 'w Cluster \<Rightarrow> ('w AnyRuntime \<Rightarrow> 'w TemporalRuntime option)
    \<Rightarrow> 'w TemporalClientRuntime \<Rightarrow> go_context \<Rightarrow> 'w ExecuteRequest \<Rightarrow> Ready list \<Rightarrow> 'w client
    \<Rightarrow> ((goerr + AgentRunResult) \<times> 'w client) option" where
  "ExecuteTemporal te cl rt_of rt c req rs s =
     (let (runID, s1) = on_client (ext (uuid (teEnv te))) s;
          workflowID = getWorkflowID runID (rtName (tmpBase rt)) False
      in map_option (\<lambda>(r, s2). (r, endRun workflowID s2))
           (execute_run te cl rt_of rt c req runID workflowID rs (beginRun workflowID s1)))"

section \<open>Starting a stream\<close>

text \<open>The synchronous part of \<open>ExecuteStream\<close>: it ends with an error, the run withdrawn and the channel
  closed, or with a running workflow whose identifiers it returns.  \<open>pkg/agent\<close> sets no event types.\<close>

definition stream_started :: "'w TEnv \<Rightarrow> 'w Cluster \<Rightarrow> ('w AnyRuntime \<Rightarrow> 'w TemporalRuntime option)
    \<Rightarrow> 'w TemporalClientRuntime \<Rightarrow> go_context \<Rightarrow> 'w ExecuteRequest \<Rightarrow> string \<Rightarrow> string \<Rightarrow> 'w client
    \<Rightarrow> goerr option \<times> 'w client" where
  "stream_started te cl rt_of rt c req runID workflowID s =
     (case event_pipeline te cl rt s of
        (Inl e, s1) \<Rightarrow> (Some e, s1)
      | (Inr pipeline, s1) \<Rightarrow>
          (let channel = eventChannelName workflowID;
               win = workflow_input te rt_of rt c req runID workflowID (erStreamingEnabled req) [AgentEventAll] pipeline
           in case call cl (CallSubscribe channel) s1 of
                (Some e, s2) \<Rightarrow> (Some e, s2)
              | (None, s2) \<Rightarrow>
                  (case start_workflow cl rt workflowID win s2 of
                     (Some e, s3) \<Rightarrow> (Some e, tell cl (CallUnsubscribe channel) s3)
                   | (None, s3) \<Rightarrow> (None, s3))))"

definition ExecuteStreamTemporal :: "'w TEnv \<Rightarrow> 'w Cluster \<Rightarrow> ('w AnyRuntime \<Rightarrow> 'w TemporalRuntime option)
    \<Rightarrow> 'w TemporalClientRuntime \<Rightarrow> go_context \<Rightarrow> 'w ExecuteRequest \<Rightarrow> 'w client
    \<Rightarrow> (goerr + string \<times> string \<times> string) \<times> 'w client" where
  "ExecuteStreamTemporal te cl rt_of rt c req s =
     (let (runID, s1) = on_client (ext (uuid (teEnv te))) s;
          workflowID = getWorkflowID runID (rtName (tmpBase rt)) True
      in case stream_started te cl rt_of rt c req runID workflowID (beginRun workflowID s1) of
           (Some e, s2) \<Rightarrow> (Inl e, endRun workflowID s2)
         | (None, s2) \<Rightarrow> (Inr (runID, temporal_thread rt (GetConversationID req) runID, workflowID), s2))"

end
