(* ===== verification/AgentConfig.thy ===== *)
theory AgentConfig
  imports AgentTools TemporalClient
begin

text \<open>
  The configuration of an agent (\<open>pkg/agent/config.go\<close>, \<open>pkg/conversation/config.go\<close>): its data, the
  options, the registries it builds and the tools it resolves from them before each run.

  Registries, agents and header maps are Go objects that several agents may share, so they live in a heap
  and the configuration holds addresses.  Loggers and the clients of traces and metrics are left out, as
  elsewhere.
\<close>

section \<open>Data\<close>

record 'w ConversationConfig =
  cvConversation :: "'w Conversation option"
  cvDistributed :: bool
  cvSize :: int
  cvSaveOnIteration :: bool

definition DefaultSize :: int where "DefaultSize = 20"

definition ConversationWithDefaults :: "'w ConversationConfig \<Rightarrow> 'w ConversationConfig" where
  "ConversationWithDefaults c = (if cvSize c \<le> 0 then c\<lparr>cvSize := DefaultSize\<rparr> else c)"

definition ConversationValidate :: "'w ConversationConfig \<Rightarrow> goerr option" where
  "ConversationValidate c =
     (if cvConversation c = None then Some (new_error ''conversation config: Conversation is required'') else None)"

definition ValidateDistributed :: "'w ConversationConfig \<Rightarrow> bool \<Rightarrow> goerr option" where
  "ValidateDistributed c remoteWorkers =
     (if remoteWorkers \<and> cvConversation c \<noteq> None \<and> \<not> cvDistributed c then
        Some (new_error (''in-memory conversation cannot be used with remote workers: ''
                         @ ''use distributed storage such as redis.NewRedisConversation''))
      else None)"

record A2AServerConfig =
  svHostname :: string
  svPort :: int
  svBearerTokens :: "string list"
  svAgentCard :: "A2AAgentCard option"

record ObservabilityConfig =
  obEndpoint :: string
  obProtocol :: string
  obInsecure :: bool
  obDisableTraces :: bool
  obDisableMetrics :: bool
  obDisableLogs :: bool

text \<open>Times are nanoseconds; of a Temporal configuration only the task queue is read here.\<close>

record 'w agentConfig =
  agName :: string
  agDescription :: string
  agSystemPrompt :: string
  agTemporalConfig :: "string option"
  agTemporalClient :: bool
  agTaskQueue :: string
  agInstanceId :: string
  agLLMClient :: "'w LLMClient option"
  agTools :: "'w Tool option list"
  agToolRegistry :: "nat option"
  agMCPRegistry :: "nat option"
  agA2ARegistry :: "nat option"
  agSubAgentRegistry :: "nat option"
  agPolicy :: "'w Policy option"
  agMaxIterations :: int
  agMaxTokens :: int64
  agStreamEnabled :: bool
  agApprovalHandler :: "(ApprovalRequest \<Rightarrow> 'w \<Rightarrow> 'w) option"
  agTimeout :: int
  agApprovalTimeout :: int
  agConversation :: "'w ConversationConfig option"
  agMemory :: "'w MemConfig option"
  agResponseFormat :: "ResponseFormat option"
  agSampling :: "LLMSampling option"
  agDisableLocalWorker :: bool
  agEnableRemoteWorkers :: bool
  agRemoteWorker :: bool
  agDisableFingerprintCheck :: bool
  agSubAgents :: "nat option list"
  agMaxSubAgentDepth :: int
  agMCPServers :: "(string \<times> MCPConfig) list"
  agMCPClients :: "'w MCPClient option list"
  agA2AServers :: "(string \<times> A2AConfig) list"
  agA2AClients :: "'w A2AClient option list"
  agRetrievers :: "'w Retriever option list"
  agRetrieverMode :: RetrieverMode
  agA2AServer :: "A2AServerConfig option"
  agMode :: string
  agToolMode :: ToolExecutionMode
  agObservability :: "ObservabilityConfig option"
  agHooks :: "'w HookGroup list"

definition zero_config :: "'w agentConfig" where
  "zero_config =
     \<lparr>agName = [], agDescription = [], agSystemPrompt = [], agTemporalConfig = None, agTemporalClient = False,
      agTaskQueue = [], agInstanceId = [], agLLMClient = None, agTools = [], agToolRegistry = None,
      agMCPRegistry = None, agA2ARegistry = None, agSubAgentRegistry = None, agPolicy = None, agMaxIterations = 0,
      agMaxTokens = 0, agStreamEnabled = False, agApprovalHandler = None, agTimeout = 0, agApprovalTimeout = 0,
      agConversation = None, agMemory = None, agResponseFormat = None, agSampling = None,
      agDisableLocalWorker = False, agEnableRemoteWorkers = False, agRemoteWorker = False,
      agDisableFingerprintCheck = False, agSubAgents = [], agMaxSubAgentDepth = 0, agMCPServers = [],
      agMCPClients = [], agA2AServers = [], agA2AClients = [], agRetrievers = [],
      agRetrieverMode = RetrieverModeOther [], agA2AServer = None, agMode = [], agToolMode = ModeEmpty,
      agObservability = None, agHooks = []\<rparr>"

text \<open>An agent: its configuration, its runtime and whether it embeds a worker.\<close>

datatype 'w AgentRuntime = RunsLocally "'w LocalRuntime" | RunsOnTemporal "'w TemporalClientRuntime"

record 'w Agent =
  aConfig :: "'w agentConfig"
  aRuntime :: "'w AgentRuntime"
  aEmbedsWorker :: bool

record 'w heap =
  hpTools :: "nat \<Rightarrow> 'w Tool registryImpl"
  hpMCPs :: "nat \<Rightarrow> 'w MCPClient registryImpl"
  hpA2As :: "nat \<Rightarrow> 'w A2AClient registryImpl"
  hpSubs :: "nat \<Rightarrow> nat registryImpl"
  hpAgents :: "nat \<Rightarrow> 'w Agent"
  hpHeaders :: mapheap
  hpNext :: nat

definition agent_config :: "'w heap \<Rightarrow> nat \<Rightarrow> 'w agentConfig" where
  "agent_config hp a = aConfig (hpAgents hp a)"

definition agent_name :: "'w heap \<Rightarrow> nat \<Rightarrow> string" where
  "agent_name hp a = agName (agent_config hp a)"

text \<open>The direct sub-agents of an agent, in the order of its registry.\<close>

definition sub_agents_of :: "'w heap \<Rightarrow> 'w agentConfig \<Rightarrow> nat list" where
  "sub_agents_of hp c = (case agSubAgentRegistry c of None \<Rightarrow> [] | Some r \<Rightarrow> subAgentList (hpSubs hp r))"

text \<open>\<open>RetrieverMode\<close> is a string in Go.\<close>

definition retriever_mode_text :: "RetrieverMode \<Rightarrow> string" where
  "retriever_mode_text m =
     (case m of RetrieverModeAgentic \<Rightarrow> ''agentic'' | RetrieverModePrefetch \<Rightarrow> ''prefetch''
      | RetrieverModeHybrid \<Rightarrow> ''hybrid'' | RetrieverModeOther s \<Rightarrow> s)"

section \<open>Options\<close>

type_synonym 'w Option = "'w agentConfig \<Rightarrow> 'w agentConfig"

definition WithName :: "string \<Rightarrow> 'w Option" where "WithName name c = c\<lparr>agName := name\<rparr>"
definition WithDescription :: "string \<Rightarrow> 'w Option" where "WithDescription desc c = c\<lparr>agDescription := desc\<rparr>"
definition WithSystemPrompt :: "string \<Rightarrow> 'w Option" where "WithSystemPrompt prompt c = c\<lparr>agSystemPrompt := prompt\<rparr>"

definition WithTemporalConfig :: "string \<Rightarrow> 'w Option" where
  "WithTemporalConfig queue c = c\<lparr>agTemporalConfig := Some queue, agTaskQueue := queue\<rparr>"

definition WithTemporalClient :: "bool \<Rightarrow> string \<Rightarrow> 'w Option" where
  "WithTemporalClient tc queue c = c\<lparr>agTemporalClient := tc, agTaskQueue := queue\<rparr>"

definition WithInstanceId :: "string \<Rightarrow> 'w Option" where "WithInstanceId i c = c\<lparr>agInstanceId := i\<rparr>"
definition WithAgentMode :: "string \<Rightarrow> 'w Option" where "WithAgentMode mode c = c\<lparr>agMode := mode\<rparr>"

definition WithAgentToolExecutionMode :: "ToolExecutionMode \<Rightarrow> 'w Option" where
  "WithAgentToolExecutionMode mode c = c\<lparr>agToolMode := mode\<rparr>"

definition WithLLMClient :: "'w LLMClient option \<Rightarrow> 'w Option" where "WithLLMClient cl c = c\<lparr>agLLMClient := cl\<rparr>"
definition WithToolApprovalPolicy :: "'w Policy option \<Rightarrow> 'w Option" where "WithToolApprovalPolicy p c = c\<lparr>agPolicy := p\<rparr>"
definition WithTools :: "'w Tool option list \<Rightarrow> 'w Option" where "WithTools ts c = c\<lparr>agTools := ts\<rparr>"
definition WithToolRegistry :: "nat option \<Rightarrow> 'w Option" where "WithToolRegistry r c = c\<lparr>agToolRegistry := r\<rparr>"
definition WithMCPRegistry :: "nat option \<Rightarrow> 'w Option" where "WithMCPRegistry r c = c\<lparr>agMCPRegistry := r\<rparr>"
definition WithA2ARegistry :: "nat option \<Rightarrow> 'w Option" where "WithA2ARegistry r c = c\<lparr>agA2ARegistry := r\<rparr>"
definition WithSubAgentRegistry :: "nat option \<Rightarrow> 'w Option" where "WithSubAgentRegistry r c = c\<lparr>agSubAgentRegistry := r\<rparr>"
definition WithMaxIterations :: "int \<Rightarrow> 'w Option" where "WithMaxIterations n c = c\<lparr>agMaxIterations := n\<rparr>"
definition WithMaxTokens :: "int64 \<Rightarrow> 'w Option" where "WithMaxTokens n c = c\<lparr>agMaxTokens := n\<rparr>"
definition WithStream :: "bool \<Rightarrow> 'w Option" where "WithStream enable c = c\<lparr>agStreamEnabled := enable\<rparr>"

definition WithApprovalHandler :: "(ApprovalRequest \<Rightarrow> 'w \<Rightarrow> 'w) option \<Rightarrow> 'w Option" where
  "WithApprovalHandler fn c = c\<lparr>agApprovalHandler := fn\<rparr>"

definition WithTimeout :: "int \<Rightarrow> 'w Option" where "WithTimeout d c = c\<lparr>agTimeout := d\<rparr>"
definition WithApprovalTimeout :: "int \<Rightarrow> 'w Option" where "WithApprovalTimeout d c = c\<lparr>agApprovalTimeout := d\<rparr>"
definition EnableRemoteWorkers :: "'w Option" where "EnableRemoteWorkers c = c\<lparr>agEnableRemoteWorkers := True\<rparr>"
definition DisableLocalWorker :: "'w Option" where "DisableLocalWorker c = c\<lparr>agDisableLocalWorker := True\<rparr>"

definition WithDisableFingerprintCheck :: "bool \<Rightarrow> 'w Option" where
  "WithDisableFingerprintCheck disable c = c\<lparr>agDisableFingerprintCheck := disable\<rparr>"

definition WithConversation :: "'w ConversationConfig \<Rightarrow> 'w Option" where
  "WithConversation cfg c = c\<lparr>agConversation := Some cfg\<rparr>"

definition WithMemory :: "'w MemConfig \<Rightarrow> 'w Option" where "WithMemory cfg c = c\<lparr>agMemory := Some cfg\<rparr>"
definition WithResponseFormat :: "ResponseFormat option \<Rightarrow> 'w Option" where "WithResponseFormat rf c = c\<lparr>agResponseFormat := rf\<rparr>"
definition WithLLMSampling :: "LLMSampling option \<Rightarrow> 'w Option" where "WithLLMSampling s c = c\<lparr>agSampling := s\<rparr>"
definition WithSubAgents :: "nat option list \<Rightarrow> 'w Option" where "WithSubAgents subs c = c\<lparr>agSubAgents := subs\<rparr>"
definition WithMaxSubAgentDepth :: "int \<Rightarrow> 'w Option" where "WithMaxSubAgentDepth depth c = c\<lparr>agMaxSubAgentDepth := depth\<rparr>"
definition WithMCPConfig :: "(string \<times> MCPConfig) list \<Rightarrow> 'w Option" where "WithMCPConfig servers c = c\<lparr>agMCPServers := servers\<rparr>"
definition WithMCPClients :: "'w MCPClient option list \<Rightarrow> 'w Option" where "WithMCPClients cls c = c\<lparr>agMCPClients := cls\<rparr>"
definition WithA2AConfig :: "(string \<times> A2AConfig) list \<Rightarrow> 'w Option" where "WithA2AConfig servers c = c\<lparr>agA2AServers := servers\<rparr>"
definition WithA2AClients :: "'w A2AClient option list \<Rightarrow> 'w Option" where "WithA2AClients cls c = c\<lparr>agA2AClients := cls\<rparr>"
definition WithRetrievers :: "'w Retriever option list \<Rightarrow> 'w Option" where "WithRetrievers rs c = c\<lparr>agRetrievers := rs\<rparr>"
definition WithRetrieverMode :: "RetrieverMode \<Rightarrow> 'w Option" where "WithRetrieverMode mode c = c\<lparr>agRetrieverMode := mode\<rparr>"

definition defaultA2AHostname :: string where "defaultA2AHostname = ''localhost''"
definition defaultA2APort :: int where "defaultA2APort = 9999"

definition default_server :: A2AServerConfig where
  "default_server = \<lparr>svHostname = defaultA2AHostname, svPort = defaultA2APort, svBearerTokens = [], svAgentCard = None\<rparr>"

definition WithA2ADefaultServer :: "'w Option" where
  "WithA2ADefaultServer c = c\<lparr>agA2AServer := Some default_server\<rparr>"

definition WithA2AServer :: "A2AServerConfig option \<Rightarrow> 'w Option" where
  "WithA2AServer config c =
     (let s0 = (case config of None \<Rightarrow> default_server | Some s \<Rightarrow> s);
          s1 = (if svHostname s0 = [] then s0\<lparr>svHostname := defaultA2AHostname\<rparr> else s0);
          s2 = (if svPort s1 = 0 then s1\<lparr>svPort := defaultA2APort\<rparr> else s1)
      in c\<lparr>agA2AServer := Some s2\<rparr>)"

definition WithObservabilityConfig :: "ObservabilityConfig option \<Rightarrow> 'w Option" where
  "WithObservabilityConfig config c = c\<lparr>agObservability := config\<rparr>"

definition WithHooks :: "string \<Rightarrow> 'w AgentHooks \<Rightarrow> 'w Option" where
  "WithHooks name hooks c = c\<lparr>agHooks := agHooks c @ [\<lparr>GroupName = trim_space name, GroupHooks = hooks\<rparr>]\<rparr>"

end
