(* ===== verification/AgentFingerprint.thy ===== *)
theory AgentFingerprint
  imports AgentConfig
begin

text \<open>
  The digests that let a worker notice a caller wired differently (\<open>pkg/agent\<close>: \<open>mcpConfigFingerprint\<close>,
  \<open>a2aConfigFingerprint\<close>, \<open>retrieverConfigFingerprint\<close>, \<open>hookGroupsFingerprint\<close>,
  \<open>observabilityConfigFingerprint\<close>): what of the configuration is digested, and that neither secrets nor
  the iteration order of Go's maps matter.

  The hexadecimal SHA-256 hash of the JSON encoding is a parameter for each kind of payload; it is \<open>None\<close>
  where the encoding fails.
\<close>

section \<open>Payloads\<close>

record mcpFpStdio =
  msCommand :: string
  msArgs :: "string list"
  msEnvKeys :: "string list"

record mcpFpHTTP =
  mhURL :: string
  mhAuthType :: string
  mhHasBearerToken :: bool
  mhOAuth2TokenURL :: string
  mhOAuth2Scopes :: "string list"
  mhHasOAuth2Secret :: bool
  mhOAuth2EndpointKeys :: "string list"
  mhExtraHeaderKeys :: "string list"

record mcpFpServerRow =
  mrKey :: string
  mrKind :: string
  mrStdio :: "mcpFpStdio option"
  mrHTTP :: "mcpFpHTTP option"
  mrLoopback :: bool
  mrTimeoutNs :: int
  mrRetries :: int
  mrAllowTools :: "string list"
  mrBlockTools :: "string list"

record mcpFpShot =
  mpServers :: "mcpFpServerRow list"
  mpExtraClients :: "string list"

record a2aFpServerRow =
  arKey :: string
  arURL :: string
  arAuthType :: string
  arHasBearerToken :: bool
  arExtraHeaderKeys :: "string list"
  arTimeoutNs :: int
  arSkipTLSVerify :: bool
  arAllowSkills :: "string list"
  arBlockSkills :: "string list"

record a2aFpShot =
  apServers :: "a2aFpServerRow list"
  apExtraClients :: "string list"

record observabilityFpShot =
  osEndpoint :: string
  osProtocol :: string
  osInsecure :: bool
  osDisableTraces :: bool
  osDisableMetrics :: bool
  osDisableLogs :: bool

record Digests =
  dgMCP :: "mcpFpShot \<Rightarrow> string option"
  dgA2A :: "a2aFpShot \<Rightarrow> string option"
  dgRetrievers :: "string \<times> string list \<Rightarrow> string option"
  dgHooks :: "string list \<Rightarrow> string option"
  dgObservability :: "observabilityFpShot \<Rightarrow> string option"

definition or_empty :: "string option \<Rightarrow> string" where
  "or_empty d = (case d of None \<Rightarrow> [] | Some h \<Rightarrow> h)"

text \<open>The keys of a map, trimmed, without the blank ones, sorted.\<close>

definition visible_keys :: "(string \<times> 'v) list \<Rightarrow> string list" where
  "visible_keys m = sort_strings (filter (\<lambda>k. k \<noteq> []) (map (\<lambda>kv. trim_space (fst kv)) m))"

text \<open>The servers of a map in the order of their keys.\<close>

definition sorted_servers :: "(string \<times> 'c) list \<Rightarrow> (string \<times> 'c) list" where
  "sorted_servers m = map (\<lambda>k. (k, the (map_of m k))) (sort_strings (map fst m))"

section \<open>MCP\<close>

definition oauth_given :: "OAuthClientCreds \<Rightarrow> bool" where
  "oauth_given cc \<longleftrightarrow>
     trim_space (ClientID cc) \<noteq> [] \<or> trim_space (ClientSecret cc) \<noteq> [] \<or> trim_space (TokenURL cc) \<noteq> []
     \<or> Scopes cc \<noteq> [] \<or> EndpointParams cc \<noteq> []"

definition authLabel :: "MCPStreamableHTTP \<Rightarrow> string" where
  "authLabel t =
     (if MCPStreamableHTTPValidate t \<noteq> None then ''invalid''
      else if (case OAuth t of None \<Rightarrow> False | Some cc \<Rightarrow> oauth_given cc) then ''oauth2_client_credentials''
      else if trim_space (Token t) \<noteq> [] then ''bearer_token'' else ''none'')"

definition http_row :: "MCPStreamableHTTP \<Rightarrow> mcpFpHTTP" where
  "http_row t =
     (let oauth = (\<lambda>d f. case OAuth t of None \<Rightarrow> d | Some cc \<Rightarrow> f cc) in
      \<lparr>mhURL = trim_space (URL t), mhAuthType = authLabel t, mhHasBearerToken = (trim_space (Token t) \<noteq> []),
       mhOAuth2TokenURL = (case OAuth t of None \<Rightarrow> [] | Some cc \<Rightarrow> trim_space (TokenURL cc)),
       mhOAuth2Scopes = oauth [] (\<lambda>cc. sort_strings (Scopes cc)),
       mhHasOAuth2Secret = (case OAuth t of None \<Rightarrow> False | Some cc \<Rightarrow> trim_space (ClientSecret cc) \<noteq> []),
       mhOAuth2EndpointKeys = oauth [] (\<lambda>cc. visible_keys (EndpointParams cc)),
       mhExtraHeaderKeys = visible_keys (HTTPHeaders t)\<rparr>)"

definition mcp_row :: "string \<Rightarrow> MCPConfig \<Rightarrow> mcpFpServerRow" where
  "mcp_row k cfg =
     (let row = \<lparr>mrKey = k, mrKind = [], mrStdio = None, mrHTTP = None, mrLoopback = False,
                 mrTimeoutNs = (if mfTimeout cfg = 0 then DefaultMCPTimeout else mfTimeout cfg),
                 mrRetries = (if mfRetryAttempts cfg = 0 then DefaultMCPRetryAttempts else mfRetryAttempts cfg),
                 mrAllowTools = sort_strings (AllowTools (mfToolFilter cfg)),
                 mrBlockTools = sort_strings (BlockTools (mfToolFilter cfg))\<rparr>
      in case mfTransport cfg of
           None \<Rightarrow> row\<lparr>mrKind := ''nil_transport''\<rparr>
         | Some tr \<Rightarrow>
             (let row1 = row\<lparr>mrKind := transportKind tr\<rparr> in
              case tr of
                TransportStdio t \<Rightarrow>
                  row1\<lparr>mrStdio := Some \<lparr>msCommand = Command t, msArgs = Args t,
                                         msEnvKeys = sort_strings (map fst (StdioEnv t))\<rparr>\<rparr>
              | TransportHTTP t \<Rightarrow> row1\<lparr>mrHTTP := Some (http_row t)\<rparr>
              | TransportLoopback _ \<Rightarrow> row1\<lparr>mrLoopback := True\<rparr>
              | TransportOther _ _ \<Rightarrow> row1\<lparr>mrKind := ''unknown''\<rparr>))"

definition mcp_shot :: "(string \<times> MCPConfig) list \<Rightarrow> string list \<Rightarrow> mcpFpShot" where
  "mcp_shot servers extra =
     \<lparr>mpServers = map (\<lambda>(k, cfg). mcp_row k cfg) (sorted_servers servers), mpExtraClients = sort_strings extra\<rparr>"

definition mcpConfigFingerprint :: "Digests \<Rightarrow> (string \<times> MCPConfig) list \<Rightarrow> string list \<Rightarrow> string" where
  "mcpConfigFingerprint dg servers extra =
     (if servers = [] \<and> extra = [] then [] else or_empty (dgMCP dg (mcp_shot servers extra)))"

definition extra_names :: "string option list \<Rightarrow> string list" where
  "extra_names ns = sort_strings (filter (\<lambda>n. n \<noteq> []) (map trim_space (List.map_filter (\<lambda>n. n) ns)))"

definition mcpExtraClientNames :: "'w MCPClient option list \<Rightarrow> string list" where
  "mcpExtraClientNames cls = extra_names (map (map_option mcName) cls)"

section \<open>A2A\<close>

definition defaultA2AToolTimeout :: int where "defaultA2AToolTimeout = DefaultA2ATimeout"

text \<open>The header map is the caller's object, read when the fingerprint is taken.\<close>

definition a2a_row :: "mapheap \<Rightarrow> string \<Rightarrow> A2AConfig \<Rightarrow> a2aFpServerRow" where
  "a2a_row h k cfg =
     \<lparr>arKey = k, arURL = trim_space (afURL cfg),
      arAuthType = (if trim_space (afToken cfg) \<noteq> [] then ''bearer_token'' else ''none''),
      arHasBearerToken = (trim_space (afToken cfg) \<noteq> []),
      arExtraHeaderKeys = visible_keys (mh_read h (afHeaders cfg)),
      arTimeoutNs = (if afTimeout cfg = 0 then defaultA2AToolTimeout else afTimeout cfg),
      arSkipTLSVerify = afSkipTLSVerify cfg,
      arAllowSkills = sort_strings (AllowSkills (afSkillFilter cfg)),
      arBlockSkills = sort_strings (BlockSkills (afSkillFilter cfg))\<rparr>"

definition a2a_shot :: "mapheap \<Rightarrow> (string \<times> A2AConfig) list \<Rightarrow> string list \<Rightarrow> a2aFpShot" where
  "a2a_shot h servers extra =
     \<lparr>apServers = map (\<lambda>(k, cfg). a2a_row h k cfg) (sorted_servers servers), apExtraClients = sort_strings extra\<rparr>"

definition a2aConfigFingerprint :: "Digests \<Rightarrow> mapheap \<Rightarrow> (string \<times> A2AConfig) list \<Rightarrow> string list \<Rightarrow> string" where
  "a2aConfigFingerprint dg h servers extra =
     (if servers = [] \<and> extra = [] then [] else or_empty (dgA2A dg (a2a_shot h servers extra)))"

definition a2aExtraClientNames :: "'w A2AClient option list \<Rightarrow> string list" where
  "a2aExtraClientNames cls = extra_names (map (map_option acName) cls)"

section \<open>Retrievers, hooks, observability\<close>

definition retriever_names :: "'w Retriever option list \<Rightarrow> string list" where
  "retriever_names rs =
     sort_strings (remdups (filter (\<lambda>n. n \<noteq> []) (map (\<lambda>r. trim_space (rName r)) (List.map_filter (\<lambda>r. r) rs))))"

definition retrieverConfigFingerprint :: "Digests \<Rightarrow> RetrieverMode \<Rightarrow> 'w Retriever option list \<Rightarrow> string" where
  "retrieverConfigFingerprint dg mode rs =
     (let rm = (if retriever_mode_text mode = [] then ''agentic'' else retriever_mode_text mode);
          names = retriever_names rs
      in if names = [] \<and> rm = ''agentic'' then [] else or_empty (dgRetrievers dg (rm, names)))"

definition hookGroupsFingerprint :: "Digests \<Rightarrow> 'w HookGroup list \<Rightarrow> string" where
  "hookGroupsFingerprint dg gs = (if gs = [] then [] else or_empty (dgHooks dg (sort_strings (map GroupName gs))))"

definition observability_shot :: "ObservabilityConfig \<Rightarrow> observabilityFpShot" where
  "observability_shot ob =
     \<lparr>osEndpoint = trim_space (obEndpoint ob),
      osProtocol = (if trim_space (obProtocol ob) = [] then ''grpc'' else trim_space (obProtocol ob)),
      osInsecure = obInsecure ob, osDisableTraces = obDisableTraces ob, osDisableMetrics = obDisableMetrics ob,
      osDisableLogs = obDisableLogs ob\<rparr>"

definition observabilityConfigFingerprint :: "Digests \<Rightarrow> ObservabilityConfig option \<Rightarrow> string" where
  "observabilityConfigFingerprint dg ob =
     (case ob of None \<Rightarrow> [] | Some c \<Rightarrow> or_empty (dgObservability dg (observability_shot c)))"

end
