(* ===== verification/AgentResolve.thy ===== *)
theory AgentResolve
  imports AgentFingerprint
begin

text \<open>
  What an agent resolves from its registries (\<open>config.go\<close>, \<open>agent.go\<close>): the tools of a run, with the check
  of their names, the check of the graph of sub-agents, and the tree of sub-agent specifications.
\<close>

section \<open>Names\<close>

definition kindText :: "ToolKind \<Rightarrow> string" where
  "kindText k =
     (case k of ToolKindNative \<Rightarrow> ''native'' | ToolKindMCP \<Rightarrow> ''mcp'' | ToolKindA2A \<Rightarrow> ''a2a''
      | ToolKindSubAgent \<Rightarrow> ''sub_agent'' | ToolKindRetriever \<Rightarrow> ''retriever'' | ToolKindMemory \<Rightarrow> ''memory''
      | ToolKindEmpty \<Rightarrow> [] | ToolKindOther s \<Rightarrow> s)"

fun validate_names :: "'w Tool option list \<Rightarrow> (string \<times> string) list \<Rightarrow> goerr option" where
  "validate_names [] seen = None"
| "validate_names (None # ts) seen = Some (new_error ''tool must not be nil'')"
| "validate_names (Some t # ts) seen =
     (let kind = kindText (KindOf (tKind t)) in
      case map_of seen (tName t) of
        Some prev \<Rightarrow> Some (new_error (''duplicate tool name '' @ go_quote (tName t) @ '': '' @ kind
                          @ '' tool conflicts with an existing '' @ prev @ '' tool''))
      | None \<Rightarrow> validate_names ts ((tName t, kind) # seen))"

definition validateToolNames :: "'w Tool option list \<Rightarrow> goerr option" where
  "validateToolNames ts = validate_names ts []"

fun validate_groups :: "'w HookGroup list \<Rightarrow> string list \<Rightarrow> goerr option" where
  "validate_groups [] seen = None"
| "validate_groups (g # gs) seen =
     (if GroupName g = [] then Some (new_error ''WithHooks: hook group name is required'')
      else if GroupName g \<in> set seen then
        Some (new_error (''WithHooks: duplicate hook group name '' @ go_quote (GroupName g)))
      else validate_groups gs (GroupName g # seen))"

definition validateHookGroups :: "'w agentConfig \<Rightarrow> goerr option" where
  "validateHookGroups c = validate_groups (agHooks c) []"

text \<open>The checks of MCP and of A2A clients differ in their texts only; a nil client is \<open>None\<close>.\<close>

fun validate_client_names :: "string \<Rightarrow> string option list \<Rightarrow> string list \<Rightarrow> goerr option" where
  "validate_client_names what [] seen = None"
| "validate_client_names what (None # ns) seen = Some (new_error (what @ '' client must not be nil''))"
| "validate_client_names what (Some n # ns) seen =
     (let name = trim_space n in
      if name = [] then Some (new_error (what @ '' client name must not be empty''))
      else if name \<in> set seen then Some (new_error (''duplicate '' @ what @ '' client name '' @ go_quote name))
      else validate_client_names what ns (name # seen))"

definition validateMCPClients :: "'w MCPClient option list \<Rightarrow> goerr option" where
  "validateMCPClients cls = validate_client_names ''mcp'' (map (map_option mcName) cls) []"

definition validateA2AClients :: "'w A2AClient option list \<Rightarrow> goerr option" where
  "validateA2AClients cls = validate_client_names ''a2a'' (map (map_option acName) cls) []"

section \<open>Retrievers\<close>

fun nil_index :: "nat \<Rightarrow> 'a option list \<Rightarrow> nat option" where
  "nil_index i [] = None"
| "nil_index i (None # xs) = Some i"
| "nil_index i (Some x # xs) = nil_index (Suc i) xs"

definition validateRetrievers :: "'w Retriever option list \<Rightarrow> goerr option" where
  "validateRetrievers rs =
     (case nil_index 0 rs of
        None \<Rightarrow> None
      | Some i \<Rightarrow> Some (new_error (''retriever at index '' @ nat_to_str i @ '' must not be nil'')))"

definition validateRetrieverMode :: "RetrieverMode \<Rightarrow> goerr + RetrieverMode" where
  "validateRetrieverMode mode =
     (case mode of
        RetrieverModeOther s \<Rightarrow>
          (if s = [] then Inr RetrieverModeAgentic
           else Inl (new_error (''invalid retriever mode '' @ go_quote s @ '': use '' @ go_quote ''agentic'' @ '', ''
                       @ go_quote ''prefetch'' @ '', or '' @ go_quote ''hybrid'')))
      | _ \<Rightarrow> Inr mode)"

fun retriever_tools :: "'w Retriever option list \<Rightarrow> string list \<Rightarrow> goerr + 'w Tool list" where
  "retriever_tools [] seen = Inr []"
| "retriever_tools (None # rs) seen = Inl (new_error ''retriever: nil'')"
| "retriever_tools (Some r # rs) seen =
     (let name = trim_space (rName r) in
      if name = [] then Inl (new_error ''retriever name must not be empty'')
      else if name \<in> set seen then Inl (new_error (''duplicate retriever name '' @ go_quote name))
      else case NewRetrieverTool (Some r) of
        None \<Rightarrow> Inl (new_error (''retriever '' @ go_quote name @ '': failed to build tool''))
      | Some t \<Rightarrow> (case retriever_tools rs (name # seen) of Inl e \<Rightarrow> Inl e | Inr ts \<Rightarrow> Inr (t # ts)))"

definition resolveRetrieverTools :: "'w agentConfig \<Rightarrow> goerr + 'w Tool list" where
  "resolveRetrieverTools c =
     (if agRetrieverMode c \<noteq> RetrieverModeAgentic \<and> agRetrieverMode c \<noteq> RetrieverModeHybrid then Inr []
      else retriever_tools (agRetrievers c) [])"

section \<open>Tools of servers, sub-agents and memory\<close>

text \<open>What the code is given to work with: JSON and the encoding of tasks.\<close>

record 'w Host =
  hoEnv :: "'w Env"
  hoTaskJSON :: "A2ATask \<Rightarrow> string option"
  hoMCPWire :: "'w MCPWire"
  hoA2AMethods :: "A2AClientImpl \<Rightarrow> 'w A2AClient"
  hoObservability :: "ObservabilityConfig \<Rightarrow> goerr option"
  hoDuration :: "int \<Rightarrow> string"
  hoDigests :: Digests
  hoDial :: "string \<Rightarrow> 'w \<Rightarrow> goerr option \<times> 'w"

fun mcp_tools :: "'w Host \<Rightarrow> 'w MCPClient list \<Rightarrow> 'w \<Rightarrow> (goerr + 'w Tool list) \<times> 'w" where
  "mcp_tools ho [] s = (Inr [], s)"
| "mcp_tools ho (cl # cls) s =
     (let key = trim_space (mcName cl) in
      case mcListTools cl s of
        (Inl e, s1) \<Rightarrow> (Inl (wrap_error (''mcp '' @ go_quote key @ '': list tools: '') e), s1)
      | (Inr specs, s1) \<Rightarrow>
          (case mcp_tools ho cls s1 of
             (Inl e, s2) \<Rightarrow> (Inl e, s2)
           | (Inr ts, s2) \<Rightarrow> (Inr (map (\<lambda>spec. NewMCPTool (hoEnv ho) key spec (Some cl)) specs @ ts), s2)))"

definition skill_spec :: "A2ASkillSpec \<Rightarrow> ToolSpec" where
  "skill_spec sk = \<lparr>SpecName = SkillID sk, SpecDescription = SkillDescription sk, SpecParameters = None\<rparr>"

fun a2a_tools :: "'w Host \<Rightarrow> 'w A2AClient list \<Rightarrow> 'w \<Rightarrow> (goerr + 'w Tool list) \<times> 'w" where
  "a2a_tools ho [] s = (Inr [], s)"
| "a2a_tools ho (cl # cls) s =
     (let key = trim_space (acName cl) in
      case acListSkills cl s of
        (Inl e, s1) \<Rightarrow> (Inl (wrap_error (''a2a '' @ go_quote key @ '': list skills: '') e), s1)
      | (Inr skills, s1) \<Rightarrow>
          (case a2a_tools ho cls s1 of
             (Inl e, s2) \<Rightarrow> (Inl e, s2)
           | (Inr ts, s2) \<Rightarrow>
               (Inr (map (\<lambda>sk. NewA2ATool (hoEnv ho) (hoTaskJSON ho) key (skill_spec sk) (Some cl)) skills @ ts), s2)))"

definition resolveMCPTools :: "'w Host \<Rightarrow> 'w heap \<Rightarrow> 'w agentConfig \<Rightarrow> 'w \<Rightarrow> (goerr + 'w Tool list) \<times> 'w" where
  "resolveMCPTools ho hp c s =
     (case agMCPRegistry c of None \<Rightarrow> (Inr [], s) | Some r \<Rightarrow> mcp_tools ho (mcpList (hpMCPs hp r)) s)"

definition resolveA2ATools :: "'w Host \<Rightarrow> 'w heap \<Rightarrow> 'w agentConfig \<Rightarrow> 'w \<Rightarrow> (goerr + 'w Tool list) \<times> 'w" where
  "resolveA2ATools ho hp c s =
     (case agA2ARegistry c of None \<Rightarrow> (Inr [], s) | Some r \<Rightarrow> a2a_tools ho (a2aList (hpA2As hp r)) s)"

definition sub_agent_tool :: "'w heap \<Rightarrow> nat \<Rightarrow> 'w Tool option" where
  "sub_agent_tool hp a = NewSubAgentTool (agent_name hp a) (agDescription (agent_config hp a))"

definition resolveSubAgentTools :: "'w heap \<Rightarrow> 'w agentConfig \<Rightarrow> 'w Tool list" where
  "resolveSubAgentTools hp c = List.map_filter (sub_agent_tool hp) (sub_agents_of hp c)"

definition resolveMemoryTools :: "'w agentConfig \<Rightarrow> 'w Tool list" where
  "resolveMemoryTools c =
     (case agMemory c of
        None \<Rightarrow> []
      | Some m \<Rightarrow>
          (let cfg = ConfigWithDefaults m in
           if cfgMemory cfg = None \<or> scMode (cfgStore cfg) \<noteq> StoreModeOnDemand then []
           else [NewRegisteredMemoryTool]))"

section \<open>The graph of sub-agents\<close>

fun first_error :: "('a \<Rightarrow> goerr option) \<Rightarrow> 'a list \<Rightarrow> goerr option" where
  "first_error f [] = None"
| "first_error f (x # xs) = (case f x of Some e \<Rightarrow> Some e | None \<Rightarrow> first_error f xs)"

lemma first_error_cong [fundef_cong]:
  "xs = ys \<Longrightarrow> (\<And>x. x \<in> set ys \<Longrightarrow> f x = g x) \<Longrightarrow> first_error f xs = first_error g ys"
  by (induction xs arbitrary: ys) (auto split: option.split)

lemma first_error_None: "first_error f xs = None \<longleftrightarrow> (\<forall>x \<in> set xs. f x = None)"
  by (induction xs) (auto split: option.splits)

definition defaultMaxSubAgentDepth :: int where "defaultMaxSubAgentDepth = 2"

text \<open>\<open>path\<close> is the set of agents on the way from the root; the code adds a child to it before it descends
  and takes it out afterwards.\<close>

function dfsSubAgentDepth :: "'w heap \<Rightarrow> nat \<Rightarrow> nat list \<Rightarrow> int \<Rightarrow> int \<Rightarrow> goerr option" where
  "dfsSubAgentDepth hp a path depth maxDepth =
     (if depth > maxDepth then
        Some (new_error (''sub-agent depth exceeds max ('' @ int_to_str maxDepth @ ''): at '' @ go_quote (agent_name hp a)))
      else first_error (\<lambda>child.
             if child \<in> set path then
               Some (new_error (''sub-agent cycle detected involving '' @ go_quote (agent_name hp a)
                                 @ '' and '' @ go_quote (agent_name hp child)))
             else dfsSubAgentDepth hp child (child # path) (depth + 1) maxDepth)
           (sub_agents_of hp (agent_config hp a)))"
  by pat_completeness auto
termination
  by (relation "measure (\<lambda>(hp, a, path, depth, maxDepth). nat (maxDepth + 1 - depth))") auto

declare dfsSubAgentDepth.simps [simp del]

fun validate_roots :: "'w heap \<Rightarrow> nat list \<Rightarrow> nat list \<Rightarrow> string list \<Rightarrow> goerr option" where
  "validate_roots hp [] seen seenNames = None"
| "validate_roots hp (a # as) seen seenNames =
     (if a \<in> set seen then
        Some (new_error (''duplicate sub-agent '' @ go_quote (agent_name hp a) @ '' in WithSubAgents''))
      else case subAgentToolName (agent_name hp a) of
        Inl e \<Rightarrow> Some (wrap_error ''WithSubAgents: '' e)
      | Inr toolName \<Rightarrow>
          (if toolName \<in> set seenNames then
             Some (new_error (''duplicate sub-agent tool name '' @ go_quote toolName))
           else validate_roots hp as (a # seen) (toolName # seenNames)))"

definition validateSubAgentRegistry :: "'w heap \<Rightarrow> 'w agentConfig \<Rightarrow> nat list \<Rightarrow> goerr option" where
  "validateSubAgentRegistry hp c agents =
     (let maxDepth = (if agMaxSubAgentDepth c \<le> 0 then defaultMaxSubAgentDepth else agMaxSubAgentDepth c) in
      case validate_roots hp agents [] [] of
        Some e \<Rightarrow> Some e
      | None \<Rightarrow> first_error (\<lambda>a. dfsSubAgentDepth hp a [a] 1 maxDepth) agents)"

section \<open>The tools of a run\<close>

definition resolveTools :: "'w Host \<Rightarrow> 'w heap \<Rightarrow> 'w agentConfig \<Rightarrow> 'w \<Rightarrow> (goerr + 'w Tool list) \<times> 'w" where
  "resolveTools ho hp c s =
     (let registered = (case agToolRegistry c of None \<Rightarrow> [] | Some r \<Rightarrow> toolList (hpTools hp r)) in
      on_ok (resolveMCPTools ho hp c s) (\<lambda>mcp s1.
      on_ok (resolveA2ATools ho hp c s1) (\<lambda>a2a s2.
      on_ok (resolveRetrieverTools c, s2) (\<lambda>rets s3.
        (let tools = registered @ mcp @ a2a @ resolveSubAgentTools hp c @ rets @ resolveMemoryTools c in
         case validateToolNames (map Some tools) of
           Some e \<Rightarrow> (Inl e, s3)
         | None \<Rightarrow>
             (case agSubAgentRegistry c of
                None \<Rightarrow> (Inr tools, s3)
              | Some r \<Rightarrow>
                  (case validateSubAgentRegistry hp c (subAgentList (hpSubs hp r)) of
                     Some e \<Rightarrow> (Inl e, s3)
                   | None \<Rightarrow> (Inr tools, s3))))))))"

section \<open>The tree of specifications\<close>

text \<open>A runtime of another kind is known by the address of its agent.\<close>

definition spec_runtime :: "'w heap \<Rightarrow> nat \<Rightarrow> 'w AnyRuntime" where
  "spec_runtime hp a = (case aRuntime (hpAgents hp a) of RunsLocally lrt \<Rightarrow> LocalRT (Some lrt) | RunsOnTemporal _ \<Rightarrow> OtherRT a)"

text \<open>The recursion follows the graph, which may have cycles, so it is not known to end: it is cut at a
  level, and \<open>None\<close> is a recursion that goes deeper.\<close>

fun sub_specs :: "'w Host \<Rightarrow> 'w heap \<Rightarrow> nat \<Rightarrow> nat list \<Rightarrow> 'w \<Rightarrow> ((goerr + 'w SubAgentSpec list) \<times> 'w) option" where
  "sub_specs ho hp level [] s = Some (Inr [], s)"
| "sub_specs ho hp 0 (a # as) s = None"
| "sub_specs ho hp (Suc k) (a # as) s =
     (case subAgentToolName (agent_name hp a) of
        Inl _ \<Rightarrow> sub_specs ho hp (Suc k) as s
      | Inr toolName \<Rightarrow>
          (case resolveTools ho hp (agent_config hp a) s of
             (Inl e, s1) \<Rightarrow> Some (Inl e, s1)
           | (Inr tools, s1) \<Rightarrow>
               (case sub_specs ho hp k (sub_agents_of hp (agent_config hp a)) s1 of
                  None \<Rightarrow> None
                | Some (Inl e, s2) \<Rightarrow> Some (Inl e, s2)
                | Some (Inr children, s2) \<Rightarrow>
                    (case sub_specs ho hp (Suc k) as s2 of
                       None \<Rightarrow> None
                     | Some (Inl e, s3) \<Rightarrow> Some (Inl e, s3)
                     | Some (Inr specs, s3) \<Rightarrow>
                         Some (Inr (Spec (agent_name hp a) toolName (spec_runtime hp a)
                                      (map Some children) tools # specs), s3)))))"

definition resolveSubAgentSpecs :: "'w Host \<Rightarrow> 'w heap \<Rightarrow> nat \<Rightarrow> 'w agentConfig \<Rightarrow> 'w
    \<Rightarrow> ((goerr + 'w SubAgentSpec list) \<times> 'w) option" where
  "resolveSubAgentSpecs ho hp level c s = sub_specs ho hp level (sub_agents_of hp c) s"

end
