(* ===== verification/AgentGraph.thy ===== *)
theory AgentGraph
  imports AgentResolve
begin

text \<open>
  The check of the graph of sub-agents accepts exactly the graphs without long walks, and what follows from
  it: no cycles, and the recursion over sub-agents ends within the checked depth.
\<close>

section \<open>Walks\<close>

definition child_of :: "'w heap \<Rightarrow> (nat \<times> nat) set" where
  "child_of hp = {(a, b). b \<in> set (sub_agents_of hp (agent_config hp a))}"

lemma child_mem: "(a, b) \<in> child_of hp \<longleftrightarrow> b \<in> set (sub_agents_of hp (agent_config hp a))"
  by (simp add: child_of_def)

text \<open>No walk from \<open>a\<close> has more than \<open>k\<close> agents.\<close>

fun fits :: "'w heap \<Rightarrow> nat \<Rightarrow> nat \<Rightarrow> bool" where
  "fits hp 0 a \<longleftrightarrow> False"
| "fits hp (Suc k) a \<longleftrightarrow> (\<forall>b \<in> set (sub_agents_of hp (agent_config hp a)). fits hp k b)"

lemma fits_walks: "fits hp k a \<longleftrightarrow> (\<forall>b. (a, b) \<notin> child_of hp ^^ k)"
proof (induction k arbitrary: a)
  case (Suc k)
  have "(\<forall>c. (a, c) \<notin> child_of hp ^^ Suc k) \<longleftrightarrow> (\<forall>b. (a, b) \<in> child_of hp \<longrightarrow> (\<forall>c. (b, c) \<notin> child_of hp ^^ k))"
    by (auto simp del: relpow.simps dest: relpow_Suc_D2 intro: relpow_Suc_I2)
  then show ?case by (simp only: fits.simps Suc child_mem Ball_def)
qed simp

lemma fits_step: "fits hp k a \<Longrightarrow> (a, b) \<in> child_of hp \<Longrightarrow> \<exists>j < k. fits hp j b"
  by (cases k) (auto simp: child_of_def)

lemma fits_trancl: "(a, b) \<in> (child_of hp)\<^sup>+ \<Longrightarrow> fits hp k a \<Longrightarrow> \<exists>j < k. fits hp j b"
proof (induction rule: trancl_induct)
  case (base b)
  then show ?case using fits_step by blast
next
  case (step b c)
  then obtain j where "j < k" "fits hp j b" by blast
  then show ?case using fits_step [OF _ step.hyps(2)] less_trans by blast
qed

lemma fits_acyclic: "fits hp k a \<Longrightarrow> (a, a) \<notin> (child_of hp)\<^sup>+"
proof (induction k rule: less_induct)
  case (less k)
  then show ?case using fits_trancl by blast
qed

section \<open>The search\<close>

lemma dfsSubAgentDepth_None:
  assumes "\<forall>p \<in> set path. (p, a) \<in> (child_of hp)\<^sup>*"
  shows "dfsSubAgentDepth hp a path depth maxDepth = None \<longleftrightarrow> depth \<le> maxDepth \<and> fits hp (nat (maxDepth + 1 - depth)) a"
  using assms
proof (induction hp a path depth maxDepth rule: dfsSubAgentDepth.induct)
  case (1 hp a path depth maxDepth)
  show ?case
  proof (cases "depth \<le> maxDepth")
    case False
    then show ?thesis by (simp add: dfsSubAgentDepth.simps [of hp a])
  next
    case True
    define k where "k = nat (maxDepth - depth)"
    have lev: "nat (maxDepth + 1 - depth) = Suc k" "nat (maxDepth + 1 - (depth + 1)) = k" using True by (simp_all add: k_def)
    let ?subs = "set (sub_agents_of hp (agent_config hp a))"
    have IH: "dfsSubAgentDepth hp b (b # path) (depth + 1) maxDepth = None \<longleftrightarrow> depth + 1 \<le> maxDepth \<and> fits hp k b"
      if b: "b \<in> ?subs" "b \<notin> set path" for b
    proof -
      have "(a, b) \<in> child_of hp" using b by (simp add: child_of_def)
      then have "\<forall>p \<in> set (b # path). (p, b) \<in> (child_of hp)\<^sup>*"
        using "1.prems" by (auto intro: rtrancl_into_rtrancl)
      then show ?thesis using "1.IH" [OF _ b(1) b(2)] True lev(2) by simp
    qed
    have "dfsSubAgentDepth hp a path depth maxDepth = None
        \<longleftrightarrow> (\<forall>b \<in> ?subs. b \<notin> set path \<and> dfsSubAgentDepth hp b (b # path) (depth + 1) maxDepth = None)"
      using True by (auto simp: dfsSubAgentDepth.simps [of hp a] first_error_None)
    also have "\<dots> \<longleftrightarrow> (\<forall>b \<in> ?subs. b \<notin> set path \<and> depth + 1 \<le> maxDepth \<and> fits hp k b)"
      using IH by blast
    also have "\<dots> \<longleftrightarrow> fits hp (Suc k) a"
    proof
      assume f: "fits hp (Suc k) a"
      have "b \<notin> set path" if b: "b \<in> ?subs" for b
      proof
        assume "b \<in> set path"
        then have "(b, a) \<in> (child_of hp)\<^sup>*" using "1.prems" by blast
        moreover have "(a, b) \<in> child_of hp" using b by (simp add: child_of_def)
        ultimately have "(a, a) \<in> (child_of hp)\<^sup>+" by (meson r_into_trancl' rtrancl_into_trancl2)
        then show False using fits_acyclic [OF f] by blast
      qed
      moreover have "depth + 1 \<le> maxDepth" if "fits hp k b" for b
        using that by (cases k) (auto simp: k_def)
      ultimately show "\<forall>b \<in> ?subs. b \<notin> set path \<and> depth + 1 \<le> maxDepth \<and> fits hp k b" using f by auto
    qed simp
    finally show ?thesis using True lev(1) by simp
  qed
qed

lemma dfs_root: "dfsSubAgentDepth hp a [a] 1 maxDepth = None \<longleftrightarrow> 1 \<le> maxDepth \<and> fits hp (nat maxDepth) a"
  by (simp add: dfsSubAgentDepth_None)

section \<open>The validation of a registry\<close>

definition root_tool_name :: "'w heap \<Rightarrow> nat \<Rightarrow> goerr + string" where
  "root_tool_name hp a = subAgentToolName (agent_name hp a)"

lemma validate_roots_None:
  "validate_roots hp as seen names = None \<longleftrightarrow>
     distinct as \<and> set as \<inter> set seen = {}
   \<and> (\<exists>ns. map (root_tool_name hp) as = map Inr ns \<and> distinct ns \<and> set ns \<inter> set names = {})"
proof (induction as arbitrary: seen names)
  case (Cons a as)
  show ?case
  proof (cases "a \<in> set seen")
    case False
    show ?thesis
    proof (cases "subAgentToolName (agent_name hp a)")
      case (Inr n)
      have "(\<exists>ns. map (root_tool_name hp) (a # as) = map Inr ns \<and> distinct ns \<and> set ns \<inter> set names = {})
          \<longleftrightarrow> n \<notin> set names \<and> (\<exists>ms. map (root_tool_name hp) as = map Inr ms \<and> distinct ms \<and> set ms \<inter> set (n # names) = {})"
        (is "?l \<longleftrightarrow> ?r")
      proof
        assume ?l
        then obtain ns where ns: "map (root_tool_name hp) (a # as) = map Inr ns" "distinct ns" "set ns \<inter> set names = {}" by blast
        then obtain ms where "ns = n # ms" "map (root_tool_name hp) as = map Inr ms"
          using Inr by (cases ns) (auto simp: root_tool_name_def)
        then show ?r using ns by auto
      next
        assume ?r
        then obtain ms where "map (root_tool_name hp) as = map Inr ms" "distinct ms" "set ms \<inter> set (n # names) = {}" "n \<notin> set names"
          by blast
        then show ?l using Inr by (intro exI [of _ "n # ms"]) (auto simp: root_tool_name_def)
      qed
      then show ?thesis using False Inr Cons.IH [of "a # seen" "n # names"] by auto
    next
      case (Inl e)
      have "\<nexists>ns. map (root_tool_name hp) (a # as) = map Inr ns"
        using Inl by (auto simp: root_tool_name_def Cons_eq_map_conv)
      then show ?thesis using False Inl by auto
    qed
  qed simp
qed simp

definition effective_depth :: "'w agentConfig \<Rightarrow> int" where
  "effective_depth c = (if agMaxSubAgentDepth c \<le> 0 then defaultMaxSubAgentDepth else agMaxSubAgentDepth c)"

lemma validateSubAgentRegistry_None:
  "validateSubAgentRegistry hp c as = None \<longleftrightarrow>
     distinct as \<and> (\<exists>ns. map (root_tool_name hp) as = map Inr ns \<and> distinct ns)
   \<and> (\<forall>a \<in> set as. fits hp (nat (effective_depth c)) a)"
proof -
  have "1 \<le> effective_depth c" by (simp add: effective_depth_def defaultMaxSubAgentDepth_def)
  moreover have "validateSubAgentRegistry hp c as = None \<longleftrightarrow> validate_roots hp as [] [] = None
      \<and> (\<forall>a \<in> set as. dfsSubAgentDepth hp a [a] 1 (effective_depth c) = None)"
    by (auto simp: validateSubAgentRegistry_def Let_def first_error_None
        simp flip: effective_depth_def split: option.splits)
  ultimately show ?thesis by (simp add: dfs_root validate_roots_None)
qed

section \<open>The recursion over sub-agents ends\<close>

lemma sub_specs_total: "\<forall>a \<in> set as. fits hp k a \<Longrightarrow> sub_specs ho hp k as s \<noteq> None"
proof (induction ho hp k as s rule: sub_specs.induct)
  case (3 ho hp k a as s)
  show ?case
  proof (cases "subAgentToolName (agent_name hp a)")
    case (Inl e)
    then show ?thesis using 3 by simp
  next
    case (Inr n)
    show ?thesis
    proof (cases "resolveTools ho hp (agent_config hp a) s")
      case (Pair r s1)
      show ?thesis
      proof (cases r)
        case (Inr tools)
        have "sub_specs ho hp k (sub_agents_of hp (agent_config hp a)) s1 \<noteq> None"
          using "3.IH"(2) [OF \<open>subAgentToolName (agent_name hp a) = Inr n\<close> Pair [unfolded Inr, symmetric]] "3.prems" Inr by simp
        then obtain r2 s2 where kids: "sub_specs ho hp k (sub_agents_of hp (agent_config hp a)) s1 = Some (r2, s2)" by auto
        show ?thesis
        proof (cases r2)
          case (Inl e)
          then show ?thesis using kids Pair Inr \<open>subAgentToolName (agent_name hp a) = Inr n\<close> \<open>r = Inr tools\<close> by simp
        next
          case (Inr children)
          have "sub_specs ho hp (Suc k) as s2 \<noteq> None"
            using "3.IH" "3.prems" kids Pair Inr \<open>subAgentToolName (agent_name hp a) = Inr n\<close> \<open>r = Inr tools\<close> by auto
          then show ?thesis
            using kids Pair Inr \<open>subAgentToolName (agent_name hp a) = Inr n\<close> \<open>r = Inr tools\<close>
            by (auto split: sum.splits)
        qed
      qed (use Pair Inr in simp)
    qed
  qed
qed auto

end
