(* ===== verification/AgentBuild.thy ===== *)
theory AgentBuild
  imports AgentGraph
begin

text \<open>
  Building an agent from options (\<open>config.go\<close>, \<open>agent.go\<close>, \<open>worker.go\<close>, \<open>runtime_factory.go\<close>, the \<open>options.go\<close> of
  both runtimes): validation, defaults, the registries with what is registered in them, and the runtime.
  A registry the caller passes in keeps what was registered, also when building fails.
\<close>

section \<open>Registries\<close>

definition hp_fresh :: "'w heap \<Rightarrow> nat \<times> 'w heap" where
  "hp_fresh hp =
     (hpNext hp, hp\<lparr>hpNext := hpNext hp + 1, hpTools := (hpTools hp)(hpNext hp := new_registry),
        hpMCPs := (hpMCPs hp)(hpNext hp := new_registry), hpA2As := (hpA2As hp)(hpNext hp := new_registry),
        hpSubs := (hpSubs hp)(hpNext hp := new_registry)\<rparr>)"

definition registry_at :: "nat option \<Rightarrow> 'w heap \<Rightarrow> nat \<times> 'w heap" where
  "registry_at r hp = (case r of Some a \<Rightarrow> (a, hp) | None \<Rightarrow> hp_fresh hp)"

text \<open>Registering a list, up to the first error, whose text is prefixed.\<close>

fun register_all :: "string \<Rightarrow> ('x \<Rightarrow> 's \<Rightarrow> goerr option \<times> 's) \<Rightarrow> 'x list \<Rightarrow> 's \<Rightarrow> goerr option \<times> 's" where
  "register_all pre reg [] s = (None, s)"
| "register_all pre reg (x # xs) s =
     (case reg x s of
        (Some e, s1) \<Rightarrow> (Some (wrap_error pre e), s1)
      | (None, s1) \<Rightarrow> register_all pre reg xs s1)"

definition buildToolRegistry :: "'w agentConfig \<Rightarrow> 'w heap \<Rightarrow> (goerr + 'w agentConfig) \<times> 'w heap" where
  "buildToolRegistry c hp0 =
     (let (a, hp) = registry_at (agToolRegistry c) hp0 in
      case register_all ''WithTools: '' toolRegister (agTools c) (hpTools hp a) of
        (e, r) \<Rightarrow>
          (let hp1 = hp\<lparr>hpTools := (hpTools hp)(a := r)\<rparr> in
           case e of Some x \<Rightarrow> (Inl x, hp1) | None \<Rightarrow> (Inr (c\<lparr>agToolRegistry := Some a, agTools := []\<rparr>), hp1)))"

text \<open>Servers are registered in the order of their keys.\<close>

fun no_nil_clients :: "string \<Rightarrow> ('x option \<Rightarrow> 's \<Rightarrow> goerr option \<times> 's) \<Rightarrow> string \<Rightarrow> 'x option list \<Rightarrow> 's \<Rightarrow> goerr option \<times> 's" where
  "no_nil_clients what reg pre [] s = (None, s)"
| "no_nil_clients what reg pre (None # xs) s = (Some (new_error (pre @ what @ '' client must not be nil'')), s)"
| "no_nil_clients what reg pre (Some x # xs) s =
     (case reg (Some x) s of
        (Some e, s1) \<Rightarrow> (Some (wrap_error pre e), s1)
      | (None, s1) \<Rightarrow> no_nil_clients what reg pre xs s1)"

definition buildMCPRegistry :: "'w Host \<Rightarrow> 'w agentConfig \<Rightarrow> 'w heap \<Rightarrow> (goerr + 'w agentConfig) \<times> 'w heap" where
  "buildMCPRegistry ho c hp0 =
     (let (a, hp) = registry_at (agMCPRegistry c) hp0;
          (e1, r1) = register_all ''WithMCPConfig: '' (\<lambda>(k, cfg). mcpRegister (hoMCPWire ho) k cfg)
                       (sorted_servers (agMCPServers c)) (hpMCPs hp a);
          (e2, r2) = (if e1 = None then no_nil_clients ''mcp'' mcpRegisterClient ''WithMCPClients: '' (agMCPClients c) r1
                      else (e1, r1));
          e3 = (if e2 = None then validateMCPClients (map Some (mcpList r2)) else e2);
          hp1 = hp\<lparr>hpMCPs := (hpMCPs hp)(a := r2)\<rparr>
      in case e3 of Some x \<Rightarrow> (Inl x, hp1) | None \<Rightarrow> (Inr (c\<lparr>agMCPRegistry := Some a\<rparr>), hp1))"

definition buildA2ARegistry :: "'w Host \<Rightarrow> 'w agentConfig \<Rightarrow> 'w heap \<Rightarrow> (goerr + 'w agentConfig) \<times> 'w heap" where
  "buildA2ARegistry ho c hp0 =
     (let (a, hp) = registry_at (agA2ARegistry c) hp0;
          (e1, r1, h1) = register_all ''WithA2AConfig: '' (\<lambda>(k, cfg). a2aRegister (hoA2AMethods ho) k cfg)
                       (sorted_servers (agA2AServers c)) (hpA2As hp a, hpHeaders hp);
          (e2, r2) = (if e1 = None then no_nil_clients ''a2a'' a2aRegisterClient ''WithA2AClients: '' (agA2AClients c) r1
                      else (e1, r1));
          e3 = (if e2 = None then validateA2AClients (map Some (a2aList r2)) else e2);
          hp1 = hp\<lparr>hpA2As := (hpA2As hp)(a := r2), hpHeaders := h1\<rparr>
      in case e3 of Some x \<Rightarrow> (Inl x, hp1) | None \<Rightarrow> (Inr (c\<lparr>agA2ARegistry := Some a\<rparr>), hp1))"

definition buildSubAgentRegistry :: "'w agentConfig \<Rightarrow> 'w heap \<Rightarrow> (goerr + 'w agentConfig) \<times> 'w heap" where
  "buildSubAgentRegistry c hp0 =
     (let (a, hp) = registry_at (agSubAgentRegistry c) hp0;
          (e1, r1) = register_all ''WithSubAgents: '' (subAgentRegister (agent_name hp)) (agSubAgents c) (hpSubs hp a);
          hp1 = hp\<lparr>hpSubs := (hpSubs hp)(a := r1)\<rparr>;
          e2 = (if e1 = None then validateSubAgentRegistry hp1 c (subAgentList r1) else e1)
      in case e2 of
           Some x \<Rightarrow> (Inl x, hp1)
         | None \<Rightarrow> (Inr (c\<lparr>agSubAgentRegistry := Some a, agSubAgents := []\<rparr>), hp1))"

definition buildRegistries :: "'w Host \<Rightarrow> 'w agentConfig \<Rightarrow> 'w heap \<Rightarrow> (goerr + 'w agentConfig) \<times> 'w heap" where
  "buildRegistries ho c hp =
     on_ok (buildToolRegistry c hp) (\<lambda>c1 hp1.
     on_ok (buildMCPRegistry ho c1 hp1) (\<lambda>c2 hp2.
     on_ok (buildA2ARegistry ho c2 hp2) buildSubAgentRegistry))"

section \<open>Validation and defaults\<close>

definition hasTemporalRuntime :: "'w agentConfig \<Rightarrow> bool" where
  "hasTemporalRuntime c \<longleftrightarrow> agTemporalConfig c \<noteq> None \<or> agTemporalClient c"

definition check_identity :: "'w agentConfig \<Rightarrow> goerr + 'w agentConfig" where
  "check_identity c0 =
     (let c1 = c0\<lparr>agName := trim_space (agName c0)\<rparr> in
      if agName c1 = [] then Inl (new_error ''name is required'')
      else
        (let c2 = (if agDescription c1 = [] then c1\<lparr>agDescription := agName c1 @ '' is an AI agent.''\<rparr> else c1);
             c3 = (if agPolicy c2 = None then c2\<lparr>agPolicy := Some RequireAllToolApprovalPolicy\<rparr> else c2)
         in case validateHookGroups c3 of Some e \<Rightarrow> Inl e | None \<Rightarrow> Inr c3))"

definition check_backend :: "'w agentConfig \<Rightarrow> goerr + 'w agentConfig" where
  "check_backend c =
     (if agTemporalConfig c \<noteq> None \<and> agTemporalClient c then
        Inl (new_error ''provide either WithTemporalConfig or WithTemporalClient, not both'')
      else if agTemporalConfig c = Some [] then
        Inl (new_error ''TaskQueue is required in TemporalConfig: provide a unique name per agent'')
      else if agTemporalClient c \<and> agTaskQueue c = [] then
        Inl (new_error ''taskQueue is required when using WithTemporalClient'')
      else if agLLMClient c = None then Inl (new_error ''LLM client is required'')
      else Inr c)"

definition check_conversation :: "'w agentConfig \<Rightarrow> goerr + 'w agentConfig" where
  "check_conversation c =
     (case agConversation c of
        None \<Rightarrow> Inr c
      | Some cv \<Rightarrow>
          (let cfg = ConversationWithDefaults cv in
           case ConversationValidate cfg of
             Some e \<Rightarrow> Inl e
           | None \<Rightarrow>
               (case ValidateDistributed cfg (agEnableRemoteWorkers c \<or> agDisableLocalWorker c) of
                  Some e \<Rightarrow> Inl e
                | None \<Rightarrow> Inr (c\<lparr>agConversation := Some cfg\<rparr>))))"

definition check_memory :: "'w agentConfig \<Rightarrow> goerr + 'w agentConfig" where
  "check_memory c =
     (case agMemory c of
        None \<Rightarrow> Inr c
      | Some m \<Rightarrow>
          (let cfg = ConfigWithDefaults m in
           case ConfigValidate cfg of Some e \<Rightarrow> Inl e | None \<Rightarrow> Inr (c\<lparr>agMemory := Some cfg\<rparr>)))"

definition check_modes :: "'w agentConfig \<Rightarrow> goerr + 'w agentConfig" where
  "check_modes c0 =
     (let c1 = (if agMode c0 = [] then c0\<lparr>agMode := ''interactive''\<rparr> else c0) in
      if agMode c1 \<noteq> ''interactive'' \<and> agMode c1 \<noteq> ''autonomous'' then
        Inl (new_error (''invalid agent mode '' @ go_quote (agMode c1) @ '': use '' @ go_quote ''interactive''
                         @ '' or '' @ go_quote ''autonomous''))
      else
        (let c2 = (if agToolMode c1 = ModeEmpty then c1\<lparr>agToolMode := ModeParallel\<rparr> else c1) in
         if agToolMode c2 \<noteq> ModeSequential \<and> agToolMode c2 \<noteq> ModeParallel then
           Inl (new_error (''invalid tool execution mode '' @ go_quote (modeText (agToolMode c2)) @ '': use ''
                            @ go_quote ''sequential'' @ '' or '' @ go_quote ''parallel''))
         else Inr (if agMaxSubAgentDepth c2 \<le> 0 then c2\<lparr>agMaxSubAgentDepth := defaultMaxSubAgentDepth\<rparr> else c2)))"

definition minute :: int where "minute = 60 * second"
definition defaultTimeoutInteractive :: int where "defaultTimeoutInteractive = 5 * minute"
definition defaultTimeoutAutonomous :: int where "defaultTimeoutAutonomous = 60 * minute"
definition MaxApprovalTimeout :: int where "MaxApprovalTimeout = 31 * 24 * hour"
definition defaultMaxIterations :: int where "defaultMaxIterations = 5"

definition check_limits :: "'w Host \<Rightarrow> 'w agentConfig \<Rightarrow> goerr + 'w agentConfig" where
  "check_limits ho c0 =
     (let c1 = (if agTimeout c0 = 0 then
                  c0\<lparr>agTimeout := (if agMode c0 = ''autonomous'' then defaultTimeoutAutonomous else defaultTimeoutInteractive)\<rparr>
                else c0);
          c2 = (if agApprovalTimeout c1 = 0 then c1\<lparr>agApprovalTimeout := wrap64 (agTimeout c1 - 30 * second)\<rparr> else c1)
      in if agApprovalTimeout c2 \<ge> agTimeout c2 then
           Inl (new_error (''approvalTimeout ('' @ hoDuration ho (agApprovalTimeout c2)
                            @ '') must be less than agent timeout ('' @ hoDuration ho (agTimeout c2) @ '')''))
         else if agApprovalTimeout c2 > MaxApprovalTimeout then
           Inl (new_error (''approvalTimeout ('' @ hoDuration ho (agApprovalTimeout c2) @ '') exceeds max (''
                            @ hoDuration ho MaxApprovalTimeout @ '')''))
         else Inr (if agMaxIterations c2 \<le> 0 then c2\<lparr>agMaxIterations := defaultMaxIterations\<rparr> else c2))"

definition check_observability :: "'w Host \<Rightarrow> 'w agentConfig \<Rightarrow> goerr + 'w agentConfig" where
  "check_observability ho c =
     (case agObservability c of
        None \<Rightarrow> Inr c
      | Some ob \<Rightarrow> (case hoObservability ho ob of Some e \<Rightarrow> Inl e | None \<Rightarrow> Inr c))"

text \<open>\<open>and_then\<close> is the early return of an error.\<close>

definition and_then :: "(goerr + 'a) \<Rightarrow> ('a \<Rightarrow> goerr + 'b) \<Rightarrow> goerr + 'b" where
  "and_then m k = (case m of Inl e \<Rightarrow> Inl e | Inr a \<Rightarrow> k a)"

definition check_before_registries :: "'w agentConfig \<Rightarrow> goerr + 'w agentConfig" where
  "check_before_registries c =
     and_then (check_identity c) (\<lambda>c. and_then (check_backend c) (\<lambda>c. and_then (check_conversation c) (\<lambda>c.
       and_then (check_memory c) check_modes)))"

definition check_retrievers :: "'w agentConfig \<Rightarrow> goerr + 'w agentConfig" where
  "check_retrievers c =
     (case validateRetrievers (agRetrievers c) of
        Some e \<Rightarrow> Inl e
      | None \<Rightarrow> and_then (validateRetrieverMode (agRetrieverMode c)) (\<lambda>mode. Inr (c\<lparr>agRetrieverMode := mode\<rparr>)))"

definition buildAgentConfig :: "'w Host \<Rightarrow> 'w Option list \<Rightarrow> 'w heap \<Rightarrow> 'w \<Rightarrow> (goerr + 'w agentConfig) \<times> 'w heap \<times> 'w" where
  "buildAgentConfig ho opts hp s =
     (case check_before_registries (fold (\<lambda>opt c. opt c) opts zero_config) of
        Inl e \<Rightarrow> (Inl e, hp, s)
      | Inr c1 \<Rightarrow>
          (case buildRegistries ho c1 hp of
             (Inl e, hp1) \<Rightarrow> (Inl e, hp1, s)
           | (Inr c2, hp1) \<Rightarrow>
               (case check_retrievers c2 of
                  Inl e \<Rightarrow> (Inl e, hp1, s)
                | Inr c3 \<Rightarrow>
                    (case resolveTools ho hp1 c3 s of
                       (Inl e, s1) \<Rightarrow> (Inl e, hp1, s1)
                     | (Inr _, s1) \<Rightarrow>
                         (and_then (check_limits ho c3) (check_observability ho), hp1, s1)))))"

section \<open>Runtimes\<close>

definition responseFormatForLLM :: "'w agentConfig \<Rightarrow> ResponseFormat" where
  "responseFormatForLLM c = (case agResponseFormat c of Some rf \<Rightarrow> rf | None \<Rightarrow> \<lparr>rfType = ResponseFormatText, rfName = [], rfSchema = None\<rparr>)"

definition runtimeAgentMemory :: "'w agentConfig \<Rightarrow> 'w MemConfig option" where
  "runtimeAgentMemory c = map_option ConfigWithDefaults (agMemory c)"

definition runtimeAgentSession :: "'w agentConfig \<Rightarrow> 'w Conversation option \<times> int \<times> bool" where
  "runtimeAgentSession c =
     (case agConversation c of None \<Rightarrow> (None, 0, False) | Some cv \<Rightarrow> (cvConversation cv, cvSize cv, cvSaveOnIteration cv))"

text \<open>\<open>runtimeAgentSpec\<close> and \<open>runtimeAgentConfig\<close> together; timeouts are fields of the Temporal runtime.\<close>

definition runtimeAgentConfig :: "'w agentConfig \<Rightarrow> 'w LLMClient \<Rightarrow> 'w Runtime" where
  "runtimeAgentConfig c client =
     (let (conv, size, save) = runtimeAgentSession c in
      \<lparr>rtName = agName c, rtSystemPrompt = agSystemPrompt c, rtResponseFormat = Some (responseFormatForLLM c),
       rtClient = client, rtSampling = agSampling c, rtApprovalPolicy = map_option PolicyRequiresApproval (agPolicy c),
       rtRetrievers = List.map_filter (\<lambda>r. r) (agRetrievers c), rtRetrieverMode = agRetrieverMode c,
       rtConversation = conv, rtConversationSize = size, rtSaveOnIteration = save, rtMemory = runtimeAgentMemory c,
       rtMaxIterations = agMaxIterations c, rtMaxTokens = agMaxTokens c, rtHooks = agHooks c, rtToolMode = agToolMode c\<rparr>)"

definition no_llm :: goerr where "no_llm = new_error ''llm client is required''"

definition buildLocalRuntime :: "'w agentConfig \<Rightarrow> goerr + 'w LocalRuntime" where
  "buildLocalRuntime c =
     (case agLLMClient c of
        None \<Rightarrow> Inl no_llm
      | Some client \<Rightarrow> Inr \<lparr>locBase = runtimeAgentConfig c client, locBus = True\<rparr>)"

text \<open>The digests are taken when the runtime is built.  Its tools resolver is a closure over the
  configuration; it is put in where a worker runs (\<open>worker_view\<close>), since it reads the registries then.\<close>

definition temporal_runtime :: "'w Host \<Rightarrow> bool \<Rightarrow> 'w agentConfig \<Rightarrow> 'w heap \<Rightarrow> 'w LLMClient
    \<Rightarrow> 'w TemporalClientRuntime" where
  "temporal_runtime ho remoteWorker c hp client =
     (let queue = (case agTemporalConfig c of Some q \<Rightarrow> q | None \<Rightarrow> agTaskQueue c) in
      \<lparr>tmpBase = runtimeAgentConfig c client,
       taskQueue = (if agInstanceId c \<noteq> [] then queue @ ''-'' @ agInstanceId c else queue),
       tmpBus = True, tmpDescription = agDescription c, tmpTimeoutNs = agTimeout c,
       tmpApprovalTimeoutNs = agApprovalTimeout c, policyFingerprint = toolPolicyFingerprint (agPolicy c),
       mcpFingerprint = mcpConfigFingerprint (hoDigests ho) (agMCPServers c) (mcpExtraClientNames (agMCPClients c)),
       a2aFingerprint = a2aConfigFingerprint (hoDigests ho) (hpHeaders hp) (agA2AServers c)
                          (a2aExtraClientNames (agA2AClients c)),
       observabilityFingerprint = observabilityConfigFingerprint (hoDigests ho) (agObservability c),
       agentMode = agMode c,
       retrieverFingerprint = retrieverConfigFingerprint (hoDigests ho) (agRetrieverMode c) (agRetrievers c),
       hooksFingerprint = hookGroupsFingerprint (hoDigests ho) (agHooks c),
       disableFingerprintCheck = (agDisableFingerprintCheck c \<and> \<not> remoteWorker), resolveToolsFn = None,
       tcOwnsClient = (agTemporalConfig c \<noteq> None), tcInstanceId = agInstanceId c,
       tcEnableRemoteWorkers = (\<not> remoteWorker \<and> agEnableRemoteWorkers c), tcRemoteWorker = remoteWorker,
       tcDisableLocalWorker = agDisableLocalWorker c\<rparr>)"

definition buildTemporalRuntime :: "'w Host \<Rightarrow> bool \<Rightarrow> 'w agentConfig \<Rightarrow> 'w heap \<Rightarrow> 'w
    \<Rightarrow> (goerr + 'w TemporalClientRuntime) \<times> 'w" where
  "buildTemporalRuntime ho remoteWorker c hp s =
     (let (e, s1) = (case agTemporalConfig c of Some q \<Rightarrow> hoDial ho q s | None \<Rightarrow> (None, s)) in
      if \<not> hasTemporalRuntime c then (Inl (new_error ''temporal config or client is required''), s)
      else case e of
             Some x \<Rightarrow> (Inl x, s1)
           | None \<Rightarrow>
               (case agLLMClient c of
                  None \<Rightarrow> (Inl no_llm, s1)
                | Some client \<Rightarrow> (Inr (temporal_runtime ho remoteWorker c hp client), s1)))"

definition worker_view :: "'w Host \<Rightarrow> 'w heap \<Rightarrow> 'w agentConfig \<Rightarrow> 'w TemporalClientRuntime \<Rightarrow> 'w TemporalRuntime" where
  "worker_view ho hp c rt = (TemporalRuntime.truncate rt)\<lparr>resolveToolsFn := Some (resolveTools ho hp c)\<rparr>"

definition buildAgentRuntime :: "'w Host \<Rightarrow> bool \<Rightarrow> 'w agentConfig \<Rightarrow> 'w heap \<Rightarrow> 'w \<Rightarrow> (goerr + 'w AgentRuntime) \<times> 'w" where
  "buildAgentRuntime ho remoteWorker c hp s =
     (if hasTemporalRuntime c then
        (case buildTemporalRuntime ho remoteWorker c hp s of
           (Inl e, s1) \<Rightarrow> (Inl e, s1) | (Inr rt, s1) \<Rightarrow> (Inr (RunsOnTemporal rt), s1))
      else (case buildLocalRuntime c of Inl e \<Rightarrow> (Inl e, s) | Inr rt \<Rightarrow> (Inr (RunsLocally rt), s)))"

section \<open>Agents and workers\<close>

definition buildAgent :: "'w Host \<Rightarrow> 'w Option list \<Rightarrow> 'w heap \<Rightarrow> 'w \<Rightarrow> (goerr + 'w Agent) \<times> 'w heap \<times> 'w" where
  "buildAgent ho opts hp s =
     (case buildAgentConfig ho opts hp s of
        (Inl e, hp1, s1) \<Rightarrow> (Inl e, hp1, s1)
      | (Inr c, hp1, s1) \<Rightarrow>
          if hasTemporalRuntime c \<and> agDisableLocalWorker c \<and> agStreamEnabled c \<and> \<not> agEnableRemoteWorkers c then
            (Inl (new_error ''DisableLocalWorker with streaming requires EnableRemoteWorkers()''), hp1, s1)
          else
            (case buildAgentRuntime ho False c hp1 s1 of
               (Inl e, s2) \<Rightarrow> (Inl e, hp1, s2)
             | (Inr rt, s2) \<Rightarrow>
                 (Inr \<lparr>aConfig = c, aRuntime = rt, aEmbedsWorker = (\<not> agDisableLocalWorker c \<and> hasTemporalRuntime c)\<rparr>,
                  hp1, s2)))"

text \<open>The agent is a new object; its embedded worker is started on its own.\<close>

definition NewAgent :: "'w Host \<Rightarrow> 'w Option list \<Rightarrow> 'w heap \<Rightarrow> 'w \<Rightarrow> (goerr + nat) \<times> 'w heap \<times> 'w" where
  "NewAgent ho opts hp s =
     (case buildAgent ho opts hp s of
        (Inl e, hp1, s1) \<Rightarrow> (Inl e, hp1, s1)
      | (Inr a, hp1, s1) \<Rightarrow>
          (Inr (hpNext hp1), hp1\<lparr>hpAgents := (hpAgents hp1)(hpNext hp1 := a), hpNext := hpNext hp1 + 1\<rparr>, s1))"

definition NewAgentWorker :: "'w Host \<Rightarrow> 'w Option list \<Rightarrow> 'w heap \<Rightarrow> 'w
    \<Rightarrow> (goerr + 'w agentConfig \<times> 'w AgentRuntime) \<times> 'w heap \<times> 'w" where
  "NewAgentWorker ho opts hp s =
     (case buildAgentConfig ho opts hp s of
        (Inl e, hp1, s1) \<Rightarrow> (Inl e, hp1, s1)
      | (Inr c, hp1, s1) \<Rightarrow>
          if \<not> hasTemporalRuntime c then
            (Inl (new_error ''AgentWorker requires a Temporal backend: use WithTemporalConfig or WithTemporalClient''), hp1, s1)
          else if agDisableFingerprintCheck c then
            (Inl (new_error ''WithDisableFingerprintCheck is not allowed on AgentWorker (remote worker process)''), hp1, s1)
          else
            (let c1 = c\<lparr>agRemoteWorker := True\<rparr> in
             case buildAgentRuntime ho True c1 hp1 s1 of
               (Inl e, s2) \<Rightarrow> (Inl e, hp1, s2)
             | (Inr rt, s2) \<Rightarrow> (Inr (c1, rt), hp1, s2)))"

section \<open>Starting and closing\<close>

text \<open>The worker of an agent and the agent's \<open>Close\<close>; exporters are outside.\<close>

definition AgentWorkerStart :: "'w Cluster \<Rightarrow> 'w AgentRuntime \<Rightarrow> 'w client \<Rightarrow> goerr option \<times> 'w client" where
  "AgentWorkerStart cl rt s =
     (case rt of
        RunsOnTemporal trt \<Rightarrow> StartWorker cl trt s
      | RunsLocally _ \<Rightarrow> (Some (new_error (''runtime does not implement WorkerRuntime (in-process Start/Stop); ''
                                @ ''use a backend that supports local workers'')), s))"

definition AgentWorkerStop :: "'w Cluster \<Rightarrow> 'w AgentRuntime \<Rightarrow> 'w client \<Rightarrow> 'w client" where
  "AgentWorkerStop cl rt s = (case rt of RunsOnTemporal trt \<Rightarrow> StopWorker cl trt s | RunsLocally _ \<Rightarrow> s)"

definition AgentClose :: "'w Cluster \<Rightarrow> 'w Agent \<Rightarrow> 'w client \<Rightarrow> 'w client" where
  "AgentClose cl a s =
     (let s1 = (if aEmbedsWorker a then AgentWorkerStop cl (aRuntime a) s else s) in
      case aRuntime a of RunsOnTemporal trt \<Rightarrow> CloseRuntime cl trt s1 | RunsLocally _ \<Rightarrow> s1)"

end
