(* ===== verification/TemporalStream.thy ===== *)
theory TemporalStream
  imports TemporalClient
begin

text \<open>
  What happens around a run of the Temporal runtime (\<open>internal/runtime/temporal/runtime.go\<close>): a run leaves the
  runtime's set of active runs, closing makes its calls in order, an approval reaches the activity that waits
  for it; and the goroutines of a stream as a step relation, with the events they publish.
\<close>

section \<open>Calls\<close>

lemma tell_simps [simp]:
  "ctCalls (tell cl c s) = ctCalls s @ [c]"
  "ctRuns (tell cl c s) = ctRuns s"
  "ctEventWorkflow (tell cl c s) = ctEventWorkflow s"
  "ctEventSuffix (tell cl c s) = ctEventSuffix s"
  "ctEventWorker (tell cl c s) = ctEventWorker s"
  "ctAgentWorker (tell cl c s) = ctAgentWorker s"
  by (simp_all add: tell_def call_def on_client_def Let_def split: prod.split)

lemma on_client_keeps:
  "on_client f s = (r, s') \<Longrightarrow> ctRuns s' = ctRuns s \<and> ctCalls s' = ctCalls s"
  by (auto simp: on_client_def Let_def split: prod.splits)

lemma call_keeps: "call cl c s = (e, s') \<Longrightarrow> ctRuns s' = ctRuns s \<and> ctCalls s' = ctCalls s @ [c]"
  by (auto simp: call_def dest!: on_client_keeps)

lemma tell_all_calls:
  "ctCalls (fold (\<lambda>i. tell cl (f i)) is s) = ctCalls s @ map f is"
  by (induction "is" arbitrary: s) simp_all

lemma CloseRuntime_calls:
  "ctCalls (CloseRuntime cl rt s) =
     ctCalls s @ map (\<lambda>i. CallTerminate i ''agent closed'') (ctRuns s)
     @ (if ctEventWorkflow s = [] then [] else [CallSignalComplete (ctEventWorkflow s), CallAwait (ctEventWorkflow s)])
     @ (if ctEventWorker s then [CallStopEventWorker] else [])
     @ (if ctAgentWorker s then [CallStopAgentWorker] else [])
     @ (if tcOwnsClient rt then [CallCloseClient] else [])"
  by (simp add: CloseRuntime_def Let_def tell_all_calls)

section \<open>Approvals\<close>

lemma OnApproval_token:
  "status = ApprovalStatusApproved \<or> status = ApprovalStatusRejected \<Longrightarrow>
     OnApproval cl (b64_encode token) status s = call cl (CallComplete token status) s"
  by (auto simp: OnApproval_def)

lemma OnApproval_runs: "OnApproval cl token status s = (e, s') \<Longrightarrow> ctRuns s' = ctRuns s"
  by (auto simp: OnApproval_def dest: call_keeps split: if_splits option.splits)

section \<open>Active runs\<close>

lemma handle_event_keeps: "ctRuns (handle_event te cl h ev s) = ctRuns s \<and> ctCalls (handle_event te cl h ev s) = ctCalls s"
  by (auto simp: handle_event_def on_client_def Let_def split: prod.splits option.splits AgentEvent.splits sum.splits)

lemma execute_loop_runs: "execute_loop te cl h i rs s = Some (r, s') \<Longrightarrow> ctRuns s' = ctRuns s"
proof (induction te cl h i rs s rule: execute_loop.induct)
  case (6 te cl h i token status rs s)
  then show ?case by (auto split: prod.splits option.splits dest: OnApproval_runs)
qed (auto simp: handle_event_keeps)

lemma event_pipeline_runs: "event_pipeline te cl rt s = (r, s') \<Longrightarrow> ctRuns s' = ctRuns s"
  by (auto simp: event_pipeline_def createEventWorker_def resolveEventPipeline_def getEventWorkflowID_def Let_def
      split: if_splits prod.splits option.splits dest!: on_client_keeps)

lemma start_workflow_runs: "start_workflow cl rt i win s = (e, s') \<Longrightarrow> ctRuns s' = ctRuns s"
  by (auto simp: start_workflow_def Let_def split: if_splits prod.splits dest!: on_client_keeps call_keeps)

lemma execute_run_runs:
  "execute_run te cl rt_of rt c req runID i rs s = Some (r, s') \<Longrightarrow> ctRuns s' = ctRuns s"
  by (auto simp: execute_run_def closing_events_def Let_def split: prod.splits sum.splits if_splits option.splits
      dest!: event_pipeline_runs call_keeps start_workflow_runs execute_loop_runs)

lemma beginRun_endRun: "removeAll i (ctRuns (beginRun i s)) = removeAll i (ctRuns s)"
  by (simp add: beginRun_def List.insert_def)

lemma ExecuteTemporal_runs:
  assumes "ExecuteTemporal te cl rt_of rt c req rs s = Some (r, s')"
    and "\<forall>i \<in> set (ctRuns s). i \<noteq> getWorkflowID (fst (uuid (teEnv te) (world (ctSt s)))) (rtName (tmpBase rt)) False"
  shows "ctRuns s' = ctRuns s"
proof -
  obtain runID s1 where u: "on_client (ext (uuid (teEnv te))) s = (runID, s1)" by fastforce
  then have runID: "runID = fst (uuid (teEnv te) (world (ctSt s)))"
    by (auto simp: on_client_def ext_def Let_def split: prod.splits)
  let ?i = "getWorkflowID runID (rtName (tmpBase rt)) False"
  obtain s2 where e: "execute_run te cl rt_of rt c req runID ?i rs (beginRun ?i s1) = Some (r, s2)"
    and s': "s' = endRun ?i s2"
    using assms(1) u by (auto simp: ExecuteTemporal_def Let_def)
  have "ctRuns s' = removeAll ?i (ctRuns s)"
    using execute_run_runs [OF e] on_client_keeps [OF u] beginRun_endRun [of ?i s1] by (simp add: s' endRun_def)
  then show ?thesis using assms(2) runID by (auto simp: removeAll_id)
qed

text \<open>Which calls the loop makes; a run cut off by its context is terminated.\<close>

lemma execute_loop_cut:
  "execute_loop te cl h i (map EventReady evs @ ContextDone e # rs) s
     = Some (Inl e, tell cl (CallTerminate i ''run timeout'') (fold (handle_event te cl h) evs s))"
  by (induction evs arbitrary: s) simp_all

text \<open>An answer the service refuses ends the run's \<open>Execute\<close>, and the workflow goes on without it.\<close>

lemma execute_loop_refused:
  assumes "b64_decode token = None" and "status = ApprovalStatusApproved \<or> status = ApprovalStatusRejected"
  shows "execute_loop te cl h i (ResponseReady token status # rs) s
     = Some (Inl (new_error ''invalid approval token: illegal base64 data''), s)"
  using assms by (auto simp: OnApproval_def)

section \<open>The goroutines of a stream\<close>

text \<open>One waits for the workflow (\<open>smGet\<close>), one for what ends the stream.  \<open>smTimed\<close>: the stream has a timeout
  of its own, so that there is a \<open>runCancel\<close>.\<close>

datatype GetState = GetWaits | GetFailed goerr | GetDone

record stream =
  smTimed :: bool
  smGet :: GetState
  smContextDone :: bool
  smErr :: "goerr option"
  smResult :: "AgentRunResult option option"
  smEnded :: bool
  smPublished :: "AgentEvent list"
  smTerminated :: bool
  smActive :: bool

definition stream_begin :: "bool \<Rightarrow> string \<Rightarrow> string \<Rightarrow> stream" where
  "stream_begin timed threadID runID =
     \<lparr>smTimed = timed, smGet = GetWaits, smContextDone = False, smErr = None, smResult = None, smEnded = False,
      smPublished = [EvRunStarted threadID runID], smTerminated = False, smActive = True\<rparr>"

text \<open>Beside the event, the name and the content of the result it carries; \<open>None\<close> is a nil result.\<close>

definition syntheticStreamCompleteEvent :: "AgentRunResult option \<Rightarrow> string \<Rightarrow> string \<Rightarrow> string
    \<Rightarrow> (string \<times> string) option \<times> AgentEvent" where
  "syntheticStreamCompleteEvent result threadID runID rootName =
     (let root = trim_space rootName;
          res = (case result of
                   Some r \<Rightarrow> Some (if trim_space (arrAgentName r) \<noteq> [] then trim_space (arrAgentName r)
                                   else if root \<noteq> [] then root else arrAgentName r, arrContent r)
                 | None \<Rightarrow> (if root = [] then None else Some (root, [])))
      in (res, EvRunFinished threadID runID (case res of None \<Rightarrow> [] | Some (_, content) \<Rightarrow> content)))"

definition timed_out_event :: AgentEvent where
  "timed_out_event = EvRunError ''request timed out (approval expired or deadline exceeded)''"

inductive stream_step :: "string \<Rightarrow> string \<Rightarrow> string \<Rightarrow> stream \<Rightarrow> stream \<Rightarrow> bool" for threadID runID rootName where
  context_done: "\<not> smContextDone m \<Longrightarrow> stream_step threadID runID rootName m (m\<lparr>smContextDone := True\<rparr>)"
| get_result: "smGet m = GetWaits \<Longrightarrow>
    stream_step threadID runID rootName m (m\<lparr>smGet := GetDone, smResult := Some r, smActive := False\<rparr>)"
| get_fails: "smGet m = GetWaits \<Longrightarrow>
    stream_step threadID runID rootName m (m\<lparr>smGet := GetFailed e, smContextDone := smContextDone m \<or> smTimed m\<rparr>)"
| get_reports: "smGet m = GetFailed e \<Longrightarrow>
    stream_step threadID runID rootName m (m\<lparr>smGet := GetDone, smErr := Some e, smActive := False\<rparr>)"
| end_context: "\<not> smEnded m \<Longrightarrow> smContextDone m \<Longrightarrow>
    stream_step threadID runID rootName m
      (m\<lparr>smEnded := True, smTerminated := True, smPublished := smPublished m @ [timed_out_event]\<rparr>)"
| end_error: "\<not> smEnded m \<Longrightarrow> smErr m = Some e \<Longrightarrow>
    stream_step threadID runID rootName m
      (m\<lparr>smEnded := True, smTerminated := (err_is e SDeadlineExceeded \<or> err_is e SCanceled),
         smPublished := smPublished m @ [EvRunError (err_msg e)]\<rparr>)"
| end_result: "\<not> smEnded m \<Longrightarrow> smResult m = Some r \<Longrightarrow>
    stream_step threadID runID rootName m
      (m\<lparr>smEnded := True, smContextDone := smContextDone m \<or> smTimed m,
         smPublished := smPublished m @ [snd (syntheticStreamCompleteEvent r threadID runID rootName)]\<rparr>)"

inductive stream_reach :: "bool \<Rightarrow> string \<Rightarrow> string \<Rightarrow> string \<Rightarrow> stream \<Rightarrow> bool" for timed threadID runID rootName where
  start: "stream_reach timed threadID runID rootName (stream_begin timed threadID runID)"
| step: "stream_reach timed threadID runID rootName m \<Longrightarrow> stream_step threadID runID rootName m m' \<Longrightarrow>
    stream_reach timed threadID runID rootName m'"

text \<open>What has been published, and by which way the goroutine that waits came to its end.\<close>

definition stream_inv :: "string \<Rightarrow> string \<Rightarrow> string \<Rightarrow> stream \<Rightarrow> bool" where
  "stream_inv threadID runID rootName m \<longleftrightarrow>
     (smGet m = GetDone \<longleftrightarrow> smErr m \<noteq> None \<or> smResult m \<noteq> None)
   \<and> (smErr m = None \<or> smResult m = None)
   \<and> (smActive m \<longleftrightarrow> smGet m \<noteq> GetDone)
   \<and> (if smEnded m
      then \<exists>final. smPublished m = [EvRunStarted threadID runID, final]
             \<and> (final = timed_out_event \<and> smContextDone m \<and> smTerminated m
                \<or> (\<exists>e. smErr m = Some e \<and> final = EvRunError (err_msg e))
                \<or> (\<exists>r. smResult m = Some r \<and> final = snd (syntheticStreamCompleteEvent r threadID runID rootName)))
      else smPublished m = [EvRunStarted threadID runID])"

lemma stream_inv_start: "stream_inv threadID runID rootName (stream_begin timed threadID runID)"
  by (simp add: stream_inv_def stream_begin_def)

lemma stream_inv_step:
  assumes "stream_step threadID runID rootName m m'" and "stream_inv threadID runID rootName m"
  shows "stream_inv threadID runID rootName m'"
  using assms by (cases rule: stream_step.cases) (auto simp: stream_inv_def split: if_splits)

lemma stream_inv_reach: "stream_reach timed threadID runID rootName m \<Longrightarrow> stream_inv threadID runID rootName m"
  by (induction rule: stream_reach.induct) (auto intro: stream_inv_start stream_inv_step)

text \<open>The stream ends: while it has not, the waiting goroutine or the ending one can go on.\<close>

lemma stream_live:
  assumes "stream_reach timed threadID runID rootName m" and "\<not> smEnded m" and "smGet m \<noteq> GetWaits"
  shows "\<exists>m'. stream_step threadID runID rootName m m' \<and> (smEnded m' \<or> smGet m' = GetDone \<and> smGet m \<noteq> GetDone)"
proof (cases "smGet m")
  case GetWaits
  then show ?thesis using assms(3) by simp
next
  case (GetFailed e)
  have "stream_step threadID runID rootName m (m\<lparr>smGet := GetDone, smErr := Some e, smActive := False\<rparr>)"
    by (rule stream_step.get_reports [OF GetFailed])
  then show ?thesis using GetFailed by force
next
  case GetDone
  then consider e where "smErr m = Some e" | r where "smResult m = Some r"
    using stream_inv_reach [OF assms(1)] by (auto simp: stream_inv_def)
  then show ?thesis
  proof cases
    case 1
    show ?thesis using stream_step.end_error [OF assms(2) 1, of threadID runID rootName] by force
  next
    case 2
    show ?thesis using stream_step.end_result [OF assms(2) 2, of threadID runID rootName] by force
  qed
qed

text \<open>With a timeout, the failure of the workflow cancels the context before it is reported, so that the stream
  can end as timed out although neither the deadline passed nor the caller cancelled.\<close>

lemma failure_masked:
  "\<exists>m1 m2. stream_step threadID runID rootName (stream_begin True threadID runID) m1
     \<and> smGet m1 = GetFailed e \<and> smErr m1 = None
     \<and> (\<forall>m'. stream_step threadID runID rootName m1 m' \<longrightarrow> smGet m' = GetFailed e \<longrightarrow> m' = m2)
     \<and> smPublished m2 = [EvRunStarted threadID runID, timed_out_event] \<and> smTerminated m2"
proof -
  let ?m0 = "stream_begin True threadID runID"
  let ?m1 = "?m0\<lparr>smGet := GetFailed e, smContextDone := smContextDone ?m0 \<or> smTimed ?m0\<rparr>"
  let ?m2 = "?m1\<lparr>smEnded := True, smTerminated := True, smPublished := smPublished ?m1 @ [timed_out_event]\<rparr>"
  have "stream_step threadID runID rootName ?m0 ?m1" by (rule stream_step.get_fails) (simp add: stream_begin_def)
  moreover have "m' = ?m2" if "stream_step threadID runID rootName ?m1 m'" "smGet m' = GetFailed e" for m'
    using that by (cases rule: stream_step.cases) (auto simp: stream_begin_def)
  ultimately show ?thesis by (intro exI [of _ ?m1] exI [of _ ?m2]) (auto simp: stream_begin_def)
qed

end
