(* ===== verification/AgentRun.thy ===== *)
theory AgentRun
  imports AgentBuild TemporalStream
begin

text \<open>
  Running an agent (\<open>agent.go\<close>): \<open>Run\<close> and \<open>Stream\<close> check the conversation ID, resolve the tools, check that
  approvals can be answered, resolve the sub-agents, and hand over to the runtime; \<open>OnApproval\<close>.

  Both runtimes work on a \<open>client\<close>, whose \<open>ctSt\<close> is the state of the in-process runtime; the rest of it
  belongs to the agent's Temporal runtime.  The event bus that sub-agents share with their parent is one log
  here, and the pointer to it is never nil, so \<open>shareEventBusWithSubAgents\<close> changes nothing.
\<close>

section \<open>Metrics\<close>

definition MetricRunStarted :: string where "MetricRunStarted = ''agent.run.started''"
definition MetricRunCompleted :: string where "MetricRunCompleted = ''agent.run.completed''"
definition MetricRunFailed :: string where "MetricRunFailed = ''agent.run.failed''"
definition MetricRunDurationMs :: string where "MetricRunDurationMs = ''agent.run.duration_ms''"
definition MetricStreamStarted :: string where "MetricStreamStarted = ''agent.stream.started''"
definition MetricStreamDispatched :: string where "MetricStreamDispatched = ''agent.stream.dispatched''"
definition MetricStreamFailed :: string where "MetricStreamFailed = ''agent.stream.failed''"
definition MetricStreamDurationMs :: string where "MetricStreamDurationMs = ''agent.stream.duration_ms''"

lemmas run_metrics = MetricRunStarted_def MetricRunCompleted_def MetricRunFailed_def MetricRunDurationMs_def
  MetricStreamStarted_def MetricStreamDispatched_def MetricStreamFailed_def MetricStreamDurationMs_def

definition on_run :: "('w st \<Rightarrow> 'w st) \<Rightarrow> 'w client \<Rightarrow> 'w client" where
  "on_run f s = s\<lparr>ctSt := f (ctSt s)\<rparr>"

text \<open>A failure is counted under its label, then the duration is recorded.\<close>

definition run_failed :: "string \<Rightarrow> string \<Rightarrow> string \<Rightarrow> 'w client \<Rightarrow> 'w client" where
  "run_failed failedMetric durationMetric label s =
     on_run (\<lambda>st. observe_ms durationMetric [] (count failedMetric [(''error'', label)] st)) s"

section \<open>The parts of a run\<close>

definition attachMemoryScopeContext :: "'w agentConfig \<Rightarrow> go_context \<Rightarrow> go_context" where
  "attachMemoryScopeContext c ctx =
     (if agName c \<noteq> [] then ctx(''memory:agent_id'' := Some (VString (agName c))) else ctx)"

definition conversationIDFromOpts :: "string option \<Rightarrow> string" where
  "conversationIDFromOpts conv = (case conv of Some i \<Rightarrow> i | None \<Rightarrow> [])"

definition validateConversationID :: "'w agentConfig \<Rightarrow> string \<Rightarrow> goerr option" where
  "validateConversationID c i =
     (if i \<noteq> [] \<and> agConversation c = None then
        Some (new_error (''conversationID '' @ i @ '' requires conversation configuration''))
      else if i = [] \<and> agConversation c \<noteq> None then
        Some (new_error ''conversationID is required when using conversation'')
      else None)"

definition hasApprovalTools :: "'w agentConfig \<Rightarrow> 'w Tool list \<Rightarrow> bool" where
  "hasApprovalTools c tools \<longleftrightarrow> list_ex (requiresApproval (agPolicy c)) tools"

definition executeRequest :: "'w agentConfig \<Rightarrow> string \<Rightarrow> string option \<Rightarrow> bool \<Rightarrow> 'w Tool list \<Rightarrow> 'w SubAgentSpec list
    \<Rightarrow> 'w ExecuteRequest" where
  "executeRequest c prompt conv streaming tools subAgents =
     \<lparr>erUserPrompt = prompt, erConversationID = conv, erStreamingEnabled = streaming,
      erSubAgents = map Some subAgents, erMaxSubAgentDepth = agMaxSubAgentDepth c, erTools = tools,
      erApprovalHandler = agApprovalHandler c\<rparr>"

text \<open>What the runtimes are given: the environment of each, the service, what becomes ready while a run is
  waited for, and the level at which the recursion over sub-agents is cut.\<close>

record 'w Machine =
  maHost :: "'w Host"
  maTEnv :: "'w TEnv"
  maCluster :: "'w Cluster"
  maReady :: "Ready list"
  maLevel :: nat

definition temporal_of :: "'w heap \<Rightarrow> 'w AnyRuntime \<Rightarrow> 'w TemporalRuntime option" where
  "temporal_of hp rt =
     (case rt of
        LocalRT _ \<Rightarrow> None
      | OtherRT a \<Rightarrow> (case aRuntime (hpAgents hp a) of RunsLocally _ \<Rightarrow> None | RunsOnTemporal t \<Rightarrow> Some (TemporalRuntime.truncate t)))"

definition runtime_execute :: "'w Machine \<Rightarrow> 'w heap \<Rightarrow> 'w AgentRuntime \<Rightarrow> go_context \<Rightarrow> 'w ExecuteRequest \<Rightarrow> 'w client
    \<Rightarrow> ((goerr + AgentRunResult) \<times> 'w client) option" where
  "runtime_execute ma hp rt ctx req s =
     (case rt of
        RunsLocally lrt \<Rightarrow> Some (on_client (Execute (hoEnv (maHost ma)) lrt ctx req) s)
      | RunsOnTemporal trt \<Rightarrow> ExecuteTemporal (maTEnv ma) (maCluster ma) (temporal_of hp) trt ctx req (maReady ma) s)"

text \<open>A stream of the in-process runtime is run to its end; on Temporal it is started.\<close>

definition runtime_stream :: "'w Machine \<Rightarrow> 'w heap \<Rightarrow> 'w AgentRuntime \<Rightarrow> go_context \<Rightarrow> 'w ExecuteRequest \<Rightarrow> 'w client
    \<Rightarrow> goerr option \<times> 'w client" where
  "runtime_stream ma hp rt ctx req s =
     (case rt of
        RunsLocally lrt \<Rightarrow> (None, on_run (ExecuteStream (hoEnv (maHost ma)) lrt ctx req) s)
      | RunsOnTemporal trt \<Rightarrow>
          (case ExecuteStreamTemporal (maTEnv ma) (maCluster ma) (temporal_of hp) trt ctx req s of
             (Inl e, s1) \<Rightarrow> (Some e, s1) | (Inr _, s1) \<Rightarrow> (None, s1)))"

section \<open>Gates\<close>

text \<open>What \<open>Run\<close> and \<open>Stream\<close> check before they hand over, each failure with its label; \<open>Stream\<close> does not
  ask for an approval handler.  \<open>None\<close> is a recursion over sub-agents cut off.\<close>

definition missing_handler :: goerr where
  "missing_handler = new_error ''tools require approval but WithApprovalHandler was not set (required for Run)''"

definition run_gates :: "'w Machine \<Rightarrow> 'w heap \<Rightarrow> bool \<Rightarrow> 'w agentConfig \<Rightarrow> string \<Rightarrow> 'w client
    \<Rightarrow> ((string \<times> goerr + 'w Tool list \<times> 'w SubAgentSpec list) \<times> 'w client) option" where
  "run_gates ma hp asks c conversationID s =
     (case validateConversationID c conversationID of
        Some e \<Rightarrow> Some (Inl (''conversation_id_invalid'', e), s)
      | None \<Rightarrow>
          (case on_client (ext (resolveTools (maHost ma) hp c)) s of
             (Inl e, s1) \<Rightarrow> Some (Inl (''tools_list_failed'', e), s1)
           | (Inr tools, s1) \<Rightarrow>
               if asks \<and> hasApprovalTools c tools \<and> agApprovalHandler c = None then
                 Some (Inl (''missing_approval_handler'', missing_handler), s1)
               else
                 (case resolveSubAgentSpecs (maHost ma) hp (maLevel ma) c (world (ctSt s1)) of
                    None \<Rightarrow> None
                  | Some (Inl e, w) \<Rightarrow>
                      Some (Inl (''build_sub_agent_specs_failed'', e), on_run (\<lambda>st. st\<lparr>world := w\<rparr>) s1)
                  | Some (Inr specs, w) \<Rightarrow> Some (Inr (tools, specs), on_run (\<lambda>st. st\<lparr>world := w\<rparr>) s1))))"

section \<open>Run and Stream\<close>

definition runInternal :: "'w Machine \<Rightarrow> 'w heap \<Rightarrow> 'w Agent \<Rightarrow> go_context \<Rightarrow> string \<Rightarrow> string option \<Rightarrow> 'w client
    \<Rightarrow> ((goerr + AgentRunResult) \<times> 'w client) option" where
  "runInternal ma hp a ctx0 prompt conv s0 =
     (let c = aConfig a;
          ctx = attachMemoryScopeContext c ctx0;
          failed = run_failed MetricRunFailed MetricRunDurationMs;
          s = on_run (count MetricRunStarted []) s0
      in case run_gates ma hp True c (conversationIDFromOpts conv) s of
           None \<Rightarrow> None
         | Some (Inl (label, e), s1) \<Rightarrow> Some (Inl e, failed label s1)
         | Some (Inr (tools, specs), s1) \<Rightarrow>
             (case runtime_execute ma hp (aRuntime a) ctx (executeRequest c prompt conv False tools specs) s1 of
                None \<Rightarrow> None
              | Some (Inl e, s2) \<Rightarrow> Some (Inl e, failed ''runtime_execute_failed'' s2)
              | Some (Inr r, s2) \<Rightarrow>
                  Some (Inr r, on_run (\<lambda>st. count MetricRunCompleted [] (observe_ms MetricRunDurationMs [] st)) s2)))"

text \<open>\<open>Run\<close> is \<open>runInternal\<close>; \<open>RunAsync\<close> runs it on its own and sends what it returned, once.\<close>

definition RunAsync :: "'w Machine \<Rightarrow> 'w heap \<Rightarrow> 'w Agent \<Rightarrow> go_context \<Rightarrow> string \<Rightarrow> string option \<Rightarrow> 'w client
    \<Rightarrow> ((goerr + AgentRunResult) list \<times> 'w client) option" where
  "RunAsync ma hp a ctx prompt conv s = map_option (\<lambda>(r, s1). ([r], s1)) (runInternal ma hp a ctx prompt conv s)"

definition AgentStream :: "'w Machine \<Rightarrow> 'w heap \<Rightarrow> 'w Agent \<Rightarrow> go_context \<Rightarrow> string \<Rightarrow> string option \<Rightarrow> 'w client
    \<Rightarrow> (goerr option \<times> 'w client) option" where
  "AgentStream ma hp a ctx0 prompt conv s0 =
     (let c = aConfig a;
          ctx = attachMemoryScopeContext c ctx0;
          failed = run_failed MetricStreamFailed MetricStreamDurationMs;
          s = on_run (count MetricStreamStarted []) s0
      in case run_gates ma hp False c (conversationIDFromOpts conv) s of
           None \<Rightarrow> None
         | Some (Inl (label, e), s1) \<Rightarrow> Some (Some e, failed label s1)
         | Some (Inr (tools, specs), s1) \<Rightarrow>
             (case runtime_stream ma hp (aRuntime a) ctx (executeRequest c prompt conv True tools specs) s1 of
                (Some e, s2) \<Rightarrow> Some (Some e, failed ''runtime_execute_stream_failed'' s2)
              | (None, s2) \<Rightarrow>
                  Some (None, on_run (\<lambda>st. count MetricStreamDispatched [] (observe_ms MetricStreamDurationMs [] st)) s2)))"

end
