(* ===== verification/AgentFacts.thy ===== *)
theory AgentFacts
  imports AgentRun
begin

text \<open>
  What holds of a configuration that was built, of the tools resolved for a run, of the gates of \<open>Run\<close>, and of
  the digests of the wiring.
\<close>

section \<open>Tool names\<close>

lemma validate_names_None:
  "validate_names (map Some ts) seen = None \<longleftrightarrow>
     distinct (map tName ts) \<and> fst ` set seen \<inter> tName ` set ts = {}"
proof (induction ts arbitrary: seen)
  case (Cons t ts)
  show ?case
  proof (cases "map_of seen (tName t)")
    case None
    then have "tName t \<notin> fst ` set seen" by (simp add: map_of_eq_None_iff)
    then show ?thesis using None Cons.IH by (auto simp: Let_def)
  next
    case (Some k)
    then have "tName t \<in> fst ` set seen" by (metis domI dom_map_of_conv_image_fst)
    then show ?thesis using Some by (auto simp: Let_def)
  qed
qed simp

lemma validateToolNames_None: "validateToolNames (map Some ts) = None \<longleftrightarrow> distinct (map tName ts)"
  by (simp add: validateToolNames_def validate_names_None)

text \<open>The tools of a run, in the order in which the model sees them.\<close>

lemma resolveTools_Inr:
  assumes "resolveTools ho hp c s = (Inr tools, s')"
  obtains mcp a2a rets s1 where
    "resolveMCPTools ho hp c s = (Inr mcp, s1)" "resolveA2ATools ho hp c s1 = (Inr a2a, s')"
    "resolveRetrieverTools c = Inr rets"
    "tools = (case agToolRegistry c of None \<Rightarrow> [] | Some r \<Rightarrow> toolList (hpTools hp r)) @ mcp @ a2a
             @ resolveSubAgentTools hp c @ rets @ resolveMemoryTools c"
    "distinct (map tName tools)"
    "agSubAgentRegistry c \<noteq> None \<longrightarrow> validateSubAgentRegistry hp c (sub_agents_of hp c) = None"
proof -
  obtain r1 s1 where m: "resolveMCPTools ho hp c s = (r1, s1)" by fastforce
  then obtain mcp where m: "resolveMCPTools ho hp c s = (Inr mcp, s1)" using assms
    by (cases r1) (auto simp: resolveTools_def on_ok_def)
  obtain r2 s2 where a: "resolveA2ATools ho hp c s1 = (r2, s2)" by fastforce
  then obtain a2a where a: "resolveA2ATools ho hp c s1 = (Inr a2a, s2)" using assms m
    by (cases r2) (auto simp: resolveTools_def on_ok_def)
  obtain rets where r: "resolveRetrieverTools c = Inr rets" using assms m a
    by (cases "resolveRetrieverTools c") (auto simp: resolveTools_def on_ok_def)
  let ?ts = "(case agToolRegistry c of None \<Rightarrow> [] | Some r \<Rightarrow> toolList (hpTools hp r)) @ mcp @ a2a
             @ resolveSubAgentTools hp c @ rets @ resolveMemoryTools c"
  have "(case validateToolNames (map Some ?ts) of
           Some e \<Rightarrow> (Inl e, s2)
         | None \<Rightarrow> (case agSubAgentRegistry c of
                None \<Rightarrow> (Inr ?ts, s2)
              | Some r \<Rightarrow> (case validateSubAgentRegistry hp c (subAgentList (hpSubs hp r)) of
                     Some e \<Rightarrow> (Inl e, s2) | None \<Rightarrow> (Inr ?ts, s2)))) = (Inr tools, s')"
    using assms by (simp add: resolveTools_def Let_def on_ok_def m a r del: map_append)
  then have "validateToolNames (map Some ?ts) = None" "tools = ?ts" "s' = s2"
    and "agSubAgentRegistry c \<noteq> None \<longrightarrow> validateSubAgentRegistry hp c (sub_agents_of hp c) = None"
    by (auto simp: sub_agents_of_def split: option.splits)
  then show ?thesis using that [OF m, of a2a rets] a r by (simp add: validateToolNames_None del: map_append)
qed

section \<open>A built configuration\<close>

lemma and_then_Inr: "and_then m k = Inr x \<longleftrightarrow> (\<exists>a. m = Inr a \<and> k a = Inr x)"
  by (simp add: and_then_def split: sum.split)

lemma check_identity_Inr:
  "check_identity c = Inr c' \<Longrightarrow>
     \<exists>n d p. c' = c\<lparr>agName := n, agDescription := d, agPolicy := Some p\<rparr> \<and> n \<noteq> [] \<and> trim_space n = n \<and> d \<noteq> []"
  by (rule exI [of _ "agName c'"], rule exI [of _ "agDescription c'"], rule exI [of _ "the (agPolicy c')"])
     (auto simp: check_identity_def Let_def split: if_splits option.splits)

lemma check_backend_Inr:
  "check_backend c = Inr c' \<Longrightarrow> c' = c \<and> agLLMClient c \<noteq> None
     \<and> \<not> (agTemporalConfig c \<noteq> None \<and> agTemporalClient c) \<and> agTemporalConfig c \<noteq> Some []
     \<and> (agTemporalClient c \<longrightarrow> agTaskQueue c \<noteq> [])"
  by (auto simp: check_backend_def split: if_splits)

lemma check_conversation_Inr:
  "check_conversation c = Inr c' \<Longrightarrow> \<exists>cv. c' = c\<lparr>agConversation := cv\<rparr> \<and>
     (\<forall>v. cv = Some v \<longrightarrow> cvConversation v \<noteq> None \<and> cvSize v > 0
        \<and> (agEnableRemoteWorkers c \<or> agDisableLocalWorker c \<longrightarrow> cvDistributed v))"
  by (cases "agConversation c")
     (auto simp: check_conversation_def Let_def ConversationValidate_def ValidateDistributed_def
        ConversationWithDefaults_def DefaultSize_def split: option.splits if_splits intro!: exI [of _ "agConversation c'"])

lemma check_memory_Inr:
  "check_memory c = Inr c' \<Longrightarrow> \<exists>m. c' = c\<lparr>agMemory := m\<rparr> \<and> (\<forall>v. m = Some v \<longrightarrow> ConfigValidate v = None)"
  by (cases "agMemory c") (auto simp: check_memory_def Let_def split: option.splits intro!: exI [of _ "agMemory c'"])

lemma check_modes_Inr:
  "check_modes c = Inr c' \<Longrightarrow> \<exists>m t d. c' = c\<lparr>agMode := m, agToolMode := t, agMaxSubAgentDepth := d\<rparr>
     \<and> m \<in> {''interactive'', ''autonomous''} \<and> t \<in> {ModeSequential, ModeParallel} \<and> d > 0"
  by (rule exI [of _ "agMode c'"], rule exI [of _ "agToolMode c'"], rule exI [of _ "agMaxSubAgentDepth c'"])
     (auto simp: check_modes_def Let_def defaultMaxSubAgentDepth_def split: if_splits)

lemma check_limits_Inr:
  "check_limits ho c = Inr c' \<Longrightarrow> \<exists>t a i. c' = c\<lparr>agTimeout := t, agApprovalTimeout := a, agMaxIterations := i\<rparr>
     \<and> a < t \<and> a \<le> MaxApprovalTimeout \<and> i > 0 \<and> t \<noteq> 0"
  by (rule exI [of _ "agTimeout c'"], rule exI [of _ "agApprovalTimeout c'"], rule exI [of _ "agMaxIterations c'"])
     (auto simp: check_limits_def Let_def defaultMaxIterations_def defaultTimeoutAutonomous_def
        defaultTimeoutInteractive_def minute_def second_def split: if_splits)

lemma check_observability_Inr: "check_observability ho c = Inr c' \<Longrightarrow> c' = c"
  by (auto simp: check_observability_def split: option.splits)

lemma nil_index_None: "nil_index i xs = None \<longleftrightarrow> None \<notin> set xs"
  by (induction i xs rule: nil_index.induct) auto

lemma check_retrievers_Inr:
  "check_retrievers c = Inr c' \<Longrightarrow> \<exists>m. c' = c\<lparr>agRetrieverMode := m\<rparr>
     \<and> m \<in> {RetrieverModeAgentic, RetrieverModePrefetch, RetrieverModeHybrid} \<and> None \<notin> set (agRetrievers c)"
  by (auto simp: check_retrievers_def validateRetrievers_def nil_index_None and_then_Inr validateRetrieverMode_def
      split: option.splits RetrieverMode.splits if_splits)

text \<open>What the four registries leave in the configuration.\<close>

lemma buildToolRegistry_Inr:
  "buildToolRegistry c hp = (Inr c', hp') \<Longrightarrow> \<exists>a. c' = c\<lparr>agToolRegistry := Some a, agTools := []\<rparr>"
  by (auto simp: buildToolRegistry_def Let_def split: prod.splits option.splits)

lemma buildMCPRegistry_Inr:
  "buildMCPRegistry ho c hp = (Inr c', hp') \<Longrightarrow> \<exists>a. c' = c\<lparr>agMCPRegistry := Some a\<rparr>"
  by (auto simp: buildMCPRegistry_def Let_def split: prod.splits option.splits if_splits)

lemma buildA2ARegistry_Inr:
  "buildA2ARegistry ho c hp = (Inr c', hp') \<Longrightarrow> \<exists>a. c' = c\<lparr>agA2ARegistry := Some a\<rparr>"
  by (auto simp: buildA2ARegistry_def Let_def split: prod.splits option.splits if_splits)

lemma validateSubAgentRegistry_depth:
  "agMaxSubAgentDepth c' = agMaxSubAgentDepth c \<Longrightarrow> validateSubAgentRegistry hp c' as = validateSubAgentRegistry hp c as"
  unfolding validateSubAgentRegistry_def Let_def by (simp only:)

lemma buildSubAgentRegistry_Inr:
  assumes "buildSubAgentRegistry c hp = (Inr c', hp')"
  shows "\<exists>a. c' = c\<lparr>agSubAgentRegistry := Some a, agSubAgents := []\<rparr>
     \<and> validateSubAgentRegistry hp' c' (sub_agents_of hp' c') = None"
proof -
  obtain a hp1 where r: "registry_at (agSubAgentRegistry c) hp = (a, hp1)" by fastforce
  obtain e1 r1 where g: "register_all ''WithSubAgents: '' (subAgentRegister (agent_name hp1)) (agSubAgents c) (hpSubs hp1 a) = (e1, r1)"
    by fastforce
  let ?hp = "hp1\<lparr>hpSubs := (hpSubs hp1)(a := r1)\<rparr>"
  have "e1 = None" "validateSubAgentRegistry ?hp c (subAgentList r1) = None"
    and c': "c' = c\<lparr>agSubAgentRegistry := Some a, agSubAgents := []\<rparr>" and hp': "hp' = ?hp"
    using assms by (auto simp: buildSubAgentRegistry_def Let_def r g split: option.splits if_splits)
  then have "validateSubAgentRegistry hp' c' (sub_agents_of hp' c') = None"
    using validateSubAgentRegistry_depth [of c' c hp'] by (simp add: sub_agents_of_def)
  then show ?thesis using c' by blast
qed

lemma buildRegistries_Inr:
  assumes "buildRegistries ho c hp = (Inr c', hp')"
  shows "\<exists>t m a s. c' = c\<lparr>agToolRegistry := Some t, agTools := [], agMCPRegistry := Some m, agA2ARegistry := Some a,
                         agSubAgentRegistry := Some s, agSubAgents := []\<rparr>
     \<and> validateSubAgentRegistry hp' c' (sub_agents_of hp' c') = None"
proof -
  obtain c1 hp1 c2 hp2 c3 hp3 where b: "buildToolRegistry c hp = (Inr c1, hp1)" "buildMCPRegistry ho c1 hp1 = (Inr c2, hp2)"
    "buildA2ARegistry ho c2 hp2 = (Inr c3, hp3)" "buildSubAgentRegistry c3 hp3 = (Inr c', hp')"
    using assms by (auto simp: buildRegistries_def on_ok_def split: prod.splits sum.splits)
  obtain t where "c1 = c\<lparr>agToolRegistry := Some t, agTools := []\<rparr>" using buildToolRegistry_Inr [OF b(1)] by blast
  moreover obtain m where "c2 = c1\<lparr>agMCPRegistry := Some m\<rparr>" using buildMCPRegistry_Inr [OF b(2)] by blast
  moreover obtain a where "c3 = c2\<lparr>agA2ARegistry := Some a\<rparr>" using buildA2ARegistry_Inr [OF b(3)] by blast
  moreover obtain s where "c' = c3\<lparr>agSubAgentRegistry := Some s, agSubAgents := []\<rparr>"
    and "validateSubAgentRegistry hp' c' (sub_agents_of hp' c') = None" using buildSubAgentRegistry_Inr [OF b(4)] by blast
  ultimately show ?thesis by auto
qed

text \<open>What every configuration satisfies that came out of \<open>buildAgentConfig\<close>.\<close>

definition config_ok :: "'w heap \<Rightarrow> 'w agentConfig \<Rightarrow> bool" where
  "config_ok hp c \<longleftrightarrow>
     agName c \<noteq> [] \<and> trim_space (agName c) = agName c \<and> agDescription c \<noteq> []
   \<and> agPolicy c \<noteq> None \<and> agLLMClient c \<noteq> None
   \<and> \<not> (agTemporalConfig c \<noteq> None \<and> agTemporalClient c) \<and> agTemporalConfig c \<noteq> Some []
   \<and> (agTemporalClient c \<longrightarrow> agTaskQueue c \<noteq> [])
   \<and> (case agConversation c of None \<Rightarrow> True
      | Some cv \<Rightarrow> cvConversation cv \<noteq> None \<and> cvSize cv > 0
                   \<and> (agEnableRemoteWorkers c \<or> agDisableLocalWorker c \<longrightarrow> cvDistributed cv))
   \<and> (case agMemory c of None \<Rightarrow> True | Some m \<Rightarrow> ConfigValidate m = None)
   \<and> agMode c \<in> {''interactive'', ''autonomous''} \<and> agToolMode c \<in> {ModeSequential, ModeParallel}
   \<and> agRetrieverMode c \<in> {RetrieverModeAgentic, RetrieverModePrefetch, RetrieverModeHybrid}
   \<and> None \<notin> set (agRetrievers c)
   \<and> agMaxSubAgentDepth c > 0 \<and> agMaxIterations c > 0
   \<and> agTimeout c \<noteq> 0 \<and> agApprovalTimeout c < agTimeout c \<and> agApprovalTimeout c \<le> MaxApprovalTimeout
   \<and> agToolRegistry c \<noteq> None \<and> agMCPRegistry c \<noteq> None \<and> agA2ARegistry c \<noteq> None \<and> agSubAgentRegistry c \<noteq> None
   \<and> validateSubAgentRegistry hp c (sub_agents_of hp c) = None"

lemma check_before_registries_Inr:
  assumes "check_before_registries c0 = Inr c"
  shows "agName c \<noteq> [] \<and> trim_space (agName c) = agName c \<and> agDescription c \<noteq> []
   \<and> agPolicy c \<noteq> None \<and> agLLMClient c \<noteq> None
   \<and> \<not> (agTemporalConfig c \<noteq> None \<and> agTemporalClient c) \<and> agTemporalConfig c \<noteq> Some []
   \<and> (agTemporalClient c \<longrightarrow> agTaskQueue c \<noteq> [])
   \<and> (case agConversation c of None \<Rightarrow> True
      | Some cv \<Rightarrow> cvConversation cv \<noteq> None \<and> cvSize cv > 0
                   \<and> (agEnableRemoteWorkers c \<or> agDisableLocalWorker c \<longrightarrow> cvDistributed cv))
   \<and> (case agMemory c of None \<Rightarrow> True | Some m \<Rightarrow> ConfigValidate m = None)
   \<and> agMode c \<in> {''interactive'', ''autonomous''} \<and> agToolMode c \<in> {ModeSequential, ModeParallel}
   \<and> agMaxSubAgentDepth c > 0"
proof -
  obtain c1 c2 c3 c4 where s: "check_identity c0 = Inr c1" "check_backend c1 = Inr c2" "check_conversation c2 = Inr c3"
    "check_memory c3 = Inr c4" "check_modes c4 = Inr c"
    using assms unfolding check_before_registries_def and_then_Inr by blast
  obtain n d p where 1: "c1 = c0\<lparr>agName := n, agDescription := d, agPolicy := Some p\<rparr>" "n \<noteq> []" "trim_space n = n" "d \<noteq> []"
    using check_identity_Inr [OF s(1)] by blast
  note 2 = check_backend_Inr [OF s(2)]
  obtain cv where 3: "c3 = c2\<lparr>agConversation := cv\<rparr>" "\<forall>v. cv = Some v \<longrightarrow> cvConversation v \<noteq> None \<and> cvSize v > 0
        \<and> (agEnableRemoteWorkers c2 \<or> agDisableLocalWorker c2 \<longrightarrow> cvDistributed v)"
    using check_conversation_Inr [OF s(3)] by blast
  obtain m where 4: "c4 = c3\<lparr>agMemory := m\<rparr>" "\<forall>v. m = Some v \<longrightarrow> ConfigValidate v = None"
    using check_memory_Inr [OF s(4)] by blast
  obtain mo t de where 5: "c = c4\<lparr>agMode := mo, agToolMode := t, agMaxSubAgentDepth := de\<rparr>"
    "mo \<in> {''interactive'', ''autonomous''}" "t \<in> {ModeSequential, ModeParallel}" "de > 0"
    using check_modes_Inr [OF s(5)] by blast
  have c2: "c2 = c1" using 2 by blast
  show ?thesis
    unfolding 5(1) 4(1) 3(1) c2
    using 1(2-4) 2 3(2) 4(2) 5(2-4) unfolding c2 1(1) by (simp split: option.split)
qed

lemma buildAgentConfig_Inr:
  assumes "buildAgentConfig ho opts hp s = (Inr c, hp', s')"
  obtains c1 c2 c3 c4 tools where "check_before_registries (fold (\<lambda>opt c. opt c) opts zero_config) = Inr c1"
    "buildRegistries ho c1 hp = (Inr c2, hp')" "check_retrievers c2 = Inr c3" "resolveTools ho hp' c3 s = (Inr tools, s')"
    "check_limits ho c3 = Inr c"
proof -
  obtain c1 where 1: "check_before_registries (fold (\<lambda>opt c. opt c) opts zero_config) = Inr c1"
    using assms by (auto simp: buildAgentConfig_def split: sum.splits)
  obtain r2 hp1 where "buildRegistries ho c1 hp = (r2, hp1)" by fastforce
  then obtain c2 where 2: "buildRegistries ho c1 hp = (Inr c2, hp1)"
    using assms 1 by (cases r2) (auto simp: buildAgentConfig_def)
  obtain c3 where 3: "check_retrievers c2 = Inr c3"
    using assms 1 2 by (auto simp: buildAgentConfig_def split: sum.splits)
  obtain r4 s1 where "resolveTools ho hp1 c3 s = (r4, s1)" by fastforce
  then obtain tools where 4: "resolveTools ho hp1 c3 s = (Inr tools, s1)"
    using assms 1 2 3 by (cases r4) (auto simp: buildAgentConfig_def)
  have "and_then (check_limits ho c3) (check_observability ho) = Inr c" "hp1 = hp'" "s1 = s'"
    using assms by (simp_all add: buildAgentConfig_def 1 2 3 4)
  then show ?thesis using that [OF 1 _ 3] 2 4 by (auto simp: and_then_Inr dest: check_observability_Inr)
qed

lemma buildAgentConfig_ok:
  assumes "buildAgentConfig ho opts hp s = (Inr c, hp', s')"
  shows "config_ok hp' c"
proof -
  obtain c1 c2 c3 tools where 1: "check_before_registries (fold (\<lambda>opt c. opt c) opts zero_config) = Inr c1"
    and 2: "buildRegistries ho c1 hp = (Inr c2, hp')" and 3: "check_retrievers c2 = Inr c3"
    and 4: "check_limits ho c3 = Inr c"
    using buildAgentConfig_Inr [OF assms] by metis
  obtain t m a sr where c2: "c2 = c1\<lparr>agToolRegistry := Some t, agTools := [], agMCPRegistry := Some m,
      agA2ARegistry := Some a, agSubAgentRegistry := Some sr, agSubAgents := []\<rparr>"
    and v: "validateSubAgentRegistry hp' c2 (sub_agents_of hp' c2) = None" using buildRegistries_Inr [OF 2] by blast
  obtain mo where c3: "c3 = c2\<lparr>agRetrieverMode := mo\<rparr>"
    and r: "mo \<in> {RetrieverModeAgentic, RetrieverModePrefetch, RetrieverModeHybrid}" "None \<notin> set (agRetrievers c2)"
    using check_retrievers_Inr [OF 3] by blast
  obtain ti ap it where c: "c = c3\<lparr>agTimeout := ti, agApprovalTimeout := ap, agMaxIterations := it\<rparr>"
    and l: "ap < ti" "ap \<le> MaxApprovalTimeout" "it > 0" "ti \<noteq> 0" using check_limits_Inr [OF 4] by blast
  have g: "agSubAgentRegistry c = agSubAgentRegistry c2" "agMaxSubAgentDepth c = agMaxSubAgentDepth c2"
    by (simp_all add: c c3)
  have "validateSubAgentRegistry hp' c (sub_agents_of hp' c) = None"
    using v validateSubAgentRegistry_depth [OF g(2), of hp' "sub_agents_of hp' c2"] g(1) by (simp add: sub_agents_of_def)
  then show ?thesis
    using check_before_registries_Inr [OF 1] r l unfolding config_ok_def
    by (simp add: c c3 c2 split: option.splits)
qed

section \<open>The gates of a run\<close>

lemma run_gates_quiet:
  assumes "run_gates ma hp asks c i s = Some (r, s')"
  shows "\<exists>w. s' = on_run (\<lambda>st. st\<lparr>world := w\<rparr>) s"
proof -
  have e: "\<exists>w. snd (on_client (ext f) s) = on_run (\<lambda>st. st\<lparr>world := w\<rparr>) s" for f :: "'a \<Rightarrow> 'b \<times> 'a"
    by (auto simp: on_client_def ext_def on_run_def Let_def split: prod.splits)
  obtain q s1 where t: "on_client (ext (resolveTools (maHost ma) hp c)) s = (q, s1)" by fastforce
  then obtain w where s1: "s1 = on_run (\<lambda>st. st\<lparr>world := w\<rparr>) s" using e [of "resolveTools (maHost ma) hp c"] by auto
  have "\<exists>w. s = on_run (\<lambda>st. st\<lparr>world := w\<rparr>) s" by (rule exI [of _ "world (ctSt s)"]) (simp add: on_run_def)
  moreover have "on_run (\<lambda>st. st\<lparr>world := v\<rparr>) s1 = on_run (\<lambda>st. st\<lparr>world := v\<rparr>) s" for v by (simp add: s1 on_run_def)
  ultimately show ?thesis using assms s1
    by (auto simp: run_gates_def t split: option.splits sum.splits prod.splits if_splits)
qed

text \<open>A run its gates refuse leaves three metrics and nothing else.\<close>

lemma refused_run:
  assumes "run_gates ma hp True (aConfig a) (conversationIDFromOpts conv) (on_run (count MetricRunStarted []) s)
             = Some (Inl (label, e), s1)"
  shows "\<exists>s'. runInternal ma hp a ctx prompt conv s = Some (Inl e, s')
     \<and> trace (ctSt s') = trace (ctSt s) @ [Counter MetricRunStarted [], Counter MetricRunFailed [(''error'', label)],
                                            Histogram MetricRunDurationMs []]
     \<and> ctCalls s' = ctCalls s \<and> ctRuns s' = ctRuns s"
proof -
  obtain w where "s1 = on_run (\<lambda>st. st\<lparr>world := w\<rparr>) (on_run (count MetricRunStarted []) s)"
    using run_gates_quiet [OF assms] by blast
  then show ?thesis using assms
    by (simp add: runInternal_def Let_def run_failed_def on_run_def)
qed

lemma approval_gate:
  assumes "validateConversationID c i = None" "resolveTools (maHost ma) hp c (world (ctSt s)) = (Inr tools, w)"
    and "t \<in> set tools" "requiresApproval (agPolicy c) t" "agApprovalHandler c = None"
  shows "\<exists>s1. run_gates ma hp True c i s = Some (Inl (''missing_approval_handler'', missing_handler), s1)"
proof -
  have "hasApprovalTools c tools" using assms(3,4) by (auto simp: hasApprovalTools_def list_ex_iff)
  then show ?thesis using assms by (simp add: run_gates_def on_client_def ext_def Let_def)
qed

text \<open>The gates end for a built configuration, as long as the graph of sub-agents is the one checked.\<close>

lemma fits_mono: "fits hp k a \<Longrightarrow> k \<le> n \<Longrightarrow> fits hp n a"
proof (induction k arbitrary: a n)
  case (Suc k)
  then show ?case by (cases n) auto
qed simp

lemma run_gates_total:
  assumes "nat (effective_depth c) \<le> maLevel ma" "agSubAgentRegistry c \<noteq> None"
  shows "run_gates ma hp asks c i s \<noteq> None"
proof -
  obtain r s1 where t: "resolveTools (maHost ma) hp c (world (ctSt s)) = (r, s1)" by fastforce
  show ?thesis
  proof (cases r)
    case (Inr tools)
    have "validateSubAgentRegistry hp c (sub_agents_of hp c) = None"
      using t Inr assms(2) by (auto elim: resolveTools_Inr)
    then have "\<forall>a \<in> set (sub_agents_of hp c). fits hp (maLevel ma) a"
      by (auto simp: validateSubAgentRegistry_None intro: fits_mono [OF _ assms(1)])
    then have "sub_specs (maHost ma) hp (maLevel ma) (sub_agents_of hp c) s1 \<noteq> None" by (rule sub_specs_total)
    then show ?thesis using t Inr
      by (auto simp: run_gates_def on_client_def ext_def Let_def resolveSubAgentSpecs_def split: option.splits sum.splits)
  qed (use t in \<open>auto simp: run_gates_def on_client_def ext_def Let_def split: option.splits\<close>)
qed

end
