(* ===== verification/AgentWiring.thy ===== *)
theory AgentWiring
  imports AgentRun "HOL-Library.Multiset"
begin

text \<open>
  The digests of the wiring: they do not depend on the order of Go's maps nor on secrets, and a worker built
  like its caller accepts the caller's runs.
\<close>

section \<open>Sorting\<close>

lemma bytes_le_refl [simp]: "bytes_le s s"
  by (induction s) auto

lemma bytes_le_total: "bytes_le s t \<or> bytes_le t s"
proof (induction s t rule: bytes_le.induct)
  case (3 c s d t)
  have "(of_char c :: nat) < of_char d \<or> c = d \<or> (of_char d :: nat) < of_char c"
    by (metis linorder_neqE_nat of_char_eq_iff)
  then show ?case using 3 by auto
qed auto

lemma bytes_le_antisym: "bytes_le s t \<Longrightarrow> bytes_le t s \<Longrightarrow> s = t"
proof (induction s t rule: bytes_le.induct)
  case (2 c s)
  then show ?case by simp
next
  case (1 t)
  then show ?case by (cases t) auto
qed auto

lemma bytes_le_trans: "bytes_le s t \<Longrightarrow> bytes_le t u \<Longrightarrow> bytes_le s u"
proof (induction s t arbitrary: u rule: bytes_le.induct)
  case (3 c s d t)
  then show ?case by (cases u) auto
qed auto

lemma insert_string_commute: "insert_string x (insert_string y zs) = insert_string y (insert_string x zs)"
proof (induction zs)
  case Nil
  then show ?case using bytes_le_total bytes_le_antisym by auto
next
  case (Cons z zs)
  have f: "bytes_le x y \<or> bytes_le y x" "bytes_le x z \<or> bytes_le z x" "bytes_le y z \<or> bytes_le z y"
    "bytes_le x y \<Longrightarrow> bytes_le y x \<Longrightarrow> x = y"
    "bytes_le x z \<Longrightarrow> bytes_le z y \<Longrightarrow> bytes_le x y" "bytes_le y z \<Longrightarrow> bytes_le z x \<Longrightarrow> bytes_le y x"
    by (fact bytes_le_total bytes_le_antisym bytes_le_trans)+
  show ?case using f Cons by (cases "bytes_le x z"; cases "bytes_le y z") auto
qed

lemma sort_strings_perm: "mset xs = mset ys \<Longrightarrow> sort_strings xs = sort_strings ys"
proof -
  assume "mset xs = mset ys"
  then have "fold insert_string (rev xs) = fold insert_string (rev ys)"
    by (intro fold_multiset_equiv) (auto simp: fun_eq_iff insert_string_commute)
  then show ?thesis by (simp add: sort_strings_def foldr_conv_fold)
qed

lemma mset_insert_string: "mset (insert_string x xs) = add_mset x (mset xs)"
  by (induction xs) auto

lemma mset_sort_strings [simp]: "mset (sort_strings xs) = mset xs"
  by (induction xs) (auto simp: sort_strings_def mset_insert_string)

lemma sort_strings_idem [simp]: "sort_strings (sort_strings xs) = sort_strings xs"
  by (rule sort_strings_perm) simp

lemma sorted_servers_perm:
  assumes "mset m = mset m'" "distinct (map fst m)"
  shows "sorted_servers m = sorted_servers m'"
proof -
  have f: "mset (map fst m) = mset (map fst m')" using assms(1) by simp
  then have "distinct (map fst m')" using assms(2) mset_eq_imp_distinct_iff by blast
  moreover have "set m = set m'" using assms(1) by (rule mset_eq_setD)
  ultimately have "map_of m = map_of m'" using assms(2) map_of_inject_set by blast
  then show ?thesis using sort_strings_perm [OF f] by (simp add: sorted_servers_def)
qed

section \<open>Secrets\<close>

text \<open>Two configurations of a transport that differ in secrets only: the token, the values of headers,
  environment and endpoint parameters, the client's ID and secret.\<close>

definition blank_alike :: "string \<Rightarrow> string \<Rightarrow> bool" where
  "blank_alike s t \<longleftrightarrow> (trim_space s = []) = (trim_space t = [])"

definition creds_alike :: "OAuthClientCreds \<Rightarrow> OAuthClientCreds \<Rightarrow> bool" where
  "creds_alike c d \<longleftrightarrow>
     blank_alike (ClientID c) (ClientID d) \<and> blank_alike (ClientSecret c) (ClientSecret d)
   \<and> trim_space (TokenURL c) = trim_space (TokenURL d) \<and> mset (Scopes c) = mset (Scopes d)
   \<and> mset (map fst (EndpointParams c)) = mset (map fst (EndpointParams d))"

definition http_alike :: "MCPStreamableHTTP \<Rightarrow> MCPStreamableHTTP \<Rightarrow> bool" where
  "http_alike t u \<longleftrightarrow>
     trim_space (URL t) = trim_space (URL u) \<and> blank_alike (Token t) (Token u)
   \<and> mset (map fst (HTTPHeaders t)) = mset (map fst (HTTPHeaders u))
   \<and> rel_option creds_alike (OAuth t) (OAuth u)"

fun transport_alike :: "MCPTransport \<Rightarrow> MCPTransport \<Rightarrow> bool" where
  "transport_alike (TransportStdio t) (TransportStdio u) \<longleftrightarrow>
     Command t = Command u \<and> Args t = Args u \<and> mset (map fst (StdioEnv t)) = mset (map fst (StdioEnv u))"
| "transport_alike (TransportHTTP t) (TransportHTTP u) \<longleftrightarrow> http_alike t u"
| "transport_alike (TransportLoopback _) (TransportLoopback _) \<longleftrightarrow> True"
| "transport_alike (TransportOther _ _) (TransportOther _ _) \<longleftrightarrow> True"
| "transport_alike _ _ \<longleftrightarrow> False"

definition mcp_alike :: "MCPConfig \<Rightarrow> MCPConfig \<Rightarrow> bool" where
  "mcp_alike c d \<longleftrightarrow>
     rel_option transport_alike (mfTransport c) (mfTransport d) \<and> mfToolFilter c = mfToolFilter d
   \<and> mfTimeout c = mfTimeout d \<and> mfRetryAttempts c = mfRetryAttempts d"

lemma visible_keys_perm:
  assumes "mset (map fst m) = mset (map fst m')"
  shows "visible_keys m = visible_keys m'"
proof -
  have "mset (filter (\<lambda>k. k \<noteq> []) (map trim_space (map fst m))) = mset (filter (\<lambda>k. k \<noteq> []) (map trim_space (map fst m')))"
    using assms by (simp only: mset_filter mset_map)
  then show ?thesis unfolding visible_keys_def by (intro sort_strings_perm) (simp add: comp_def)
qed

lemma mset_nil: "mset xs = mset ys \<Longrightarrow> (xs = []) = (ys = [])"
  by (metis mset_zero_iff)

lemma creds_alike_facts:
  assumes "creds_alike c d"
  shows "oauth_given c = oauth_given d" "sort_strings (Scopes c) = sort_strings (Scopes d)"
    "visible_keys (EndpointParams c) = visible_keys (EndpointParams d)"
proof -
  have "mset (map fst (EndpointParams c)) = mset (map fst (EndpointParams d))" using assms by (simp add: creds_alike_def)
  from mset_nil [OF this] mset_nil [of "Scopes c" "Scopes d"] assms show "oauth_given c = oauth_given d"
    by (simp add: creds_alike_def oauth_given_def blank_alike_def)
  show "sort_strings (Scopes c) = sort_strings (Scopes d)" "visible_keys (EndpointParams c) = visible_keys (EndpointParams d)"
    using assms by (auto simp: creds_alike_def intro: sort_strings_perm visible_keys_perm)
qed

lemma validate_given:
  "OAuth t = Some c \<Longrightarrow> MCPStreamableHTTPValidate t = None \<longleftrightarrow>
     trim_space (URL t) \<noteq> []
   \<and> (oauth_given c \<longrightarrow> trim_space (ClientID c) \<noteq> [] \<and> trim_space (ClientSecret c) \<noteq> [] \<and> trim_space (TokenURL c) \<noteq> []
        \<and> trim_space (Token t) = [])"
  by (auto simp: MCPStreamableHTTPValidate_def oauth_given_def Let_def)

lemma validate_alike: "http_alike t u \<Longrightarrow> (MCPStreamableHTTPValidate t = None) = (MCPStreamableHTTPValidate u = None)"
proof -
  assume h: "http_alike t u"
  show ?thesis
  proof (cases "OAuth t")
    case None
    then show ?thesis using h by (simp add: http_alike_def MCPStreamableHTTPValidate_def)
  next
    case (Some c)
    then obtain d where d: "OAuth u = Some d" "creds_alike c d" using h by (auto simp: http_alike_def option_rel_Some1)
    then have "oauth_given c = oauth_given d" by (intro creds_alike_facts)
    then show ?thesis using h d by (simp add: validate_given Some http_alike_def creds_alike_def blank_alike_def)
  qed
qed

lemma http_row_alike: "http_alike t u \<Longrightarrow> http_row t = http_row u"
proof -
  assume h: "http_alike t u"
  have v: "visible_keys (HTTPHeaders t) = visible_keys (HTTPHeaders u)"
    using h by (auto simp: http_alike_def intro: visible_keys_perm)
  show ?thesis
  proof (cases "OAuth t")
    case None
    then have "OAuth u = None" using h by (auto simp: http_alike_def)
    then show ?thesis using h None v validate_alike [OF h]
      by (simp add: http_row_def authLabel_def http_alike_def blank_alike_def)
  next
    case (Some c)
    then obtain d where d: "OAuth u = Some d" "creds_alike c d" using h by (auto simp: http_alike_def option_rel_Some1)
    then show ?thesis using h Some v validate_alike [OF h] creds_alike_facts [OF d(2)]
      by (simp add: http_row_def authLabel_def http_alike_def blank_alike_def creds_alike_def)
  qed
qed

lemma mcp_row_alike:
  assumes "mcp_alike c d"
  shows "mcp_row k c = mcp_row k d"
proof (cases "mfTransport c")
  case None
  then show ?thesis using assms by (simp add: mcp_alike_def mcp_row_def Let_def)
next
  case (Some t)
  then obtain u where u: "mfTransport d = Some u" "transport_alike t u" using assms by (auto simp: mcp_alike_def option_rel_Some1)
  then show ?thesis using assms Some
    by (cases t; cases u) (auto simp: mcp_alike_def mcp_row_def Let_def transportKind_def http_row_alike intro: sort_strings_perm)
qed

lemma sorted_servers_alike:
  assumes "list_all2 (\<lambda>(k, c) (k', d). k = k' \<and> P c d) m m'"
  shows "list_all2 (\<lambda>(k, c) (k', d). k = k' \<and> P c d) (sorted_servers m) (sorted_servers m')"
proof -
  have k: "map fst m = map fst m'" using assms by (induction rule: list_all2_induct) auto
  have p: "P (the (map_of m k)) (the (map_of m' k))" if "k \<in> set (map fst m)" for k
    using assms that by (induction rule: list_all2_induct) auto
  have "set (sort_strings (map fst m)) = set (map fst m)" by (metis mset_sort_strings mset_eq_setD)
  then show ?thesis using p unfolding sorted_servers_def k [symmetric]
    by (auto simp: list_all2_map1 list_all2_map2 intro!: list.rel_refl_strong)
qed

lemma mcp_shot_alike:
  assumes "list_all2 (\<lambda>(k, c) (k', d). k = k' \<and> mcp_alike c d) m m'"
  shows "mcp_shot m extra = mcp_shot m' extra"
proof -
  have "map (\<lambda>(k, c). mcp_row k c) (sorted_servers m) = map (\<lambda>(k, c). mcp_row k c) (sorted_servers m')"
    using sorted_servers_alike [OF assms] by (induction rule: list_all2_induct) (auto simp: mcp_row_alike)
  then show ?thesis by (simp add: mcp_shot_def)
qed

lemma mcp_fingerprint_alike:
  assumes "mset m = mset n" "distinct (map fst m)" "mset extra = mset extra'"
    and "list_all2 (\<lambda>(k, c) (k', d). k = k' \<and> mcp_alike c d) n m'"
  shows "mcpConfigFingerprint dg m extra = mcpConfigFingerprint dg m' extra'"
proof -
  have "mcp_shot m extra = mcp_shot n extra'"
    using sorted_servers_perm [OF assms(1,2)] sort_strings_perm [OF assms(3)] by (simp add: mcp_shot_def)
  moreover have "(m = []) = (m' = [])" using mset_nil [OF assms(1)] assms(4) by auto
  ultimately show ?thesis
    using mcp_shot_alike [OF assms(4)] mset_nil [OF assms(3)] by (simp add: mcpConfigFingerprint_def)
qed

section \<open>A worker and its caller\<close>

lemma buildTemporalRuntime_Inr:
  assumes "buildTemporalRuntime ho remote c hp s = (Inr rt, s')"
  shows "\<exists>client. rt = temporal_runtime ho remote c hp client \<and> agLLMClient c = Some client"
  using assms by (auto simp: buildTemporalRuntime_def Let_def split: prod.splits if_splits option.splits)

text \<open>The payload reads nothing that tells a worker from its caller.\<close>

lemma payload_worker:
  "BuildAgentFingerprintPayload ((TemporalRuntime.truncate (temporal_runtime ho True (c\<lparr>agRemoteWorker := b\<rparr>) hp' client))\<lparr>resolveToolsFn := f\<rparr>) ns
   = BuildAgentFingerprintPayload (TemporalRuntime.truncate (temporal_runtime ho False c hp client)) ns"
  if "hpHeaders hp' = hpHeaders hp"
  using that
  by (simp add: BuildAgentFingerprintPayload_def TemporalRuntime.truncate_def temporal_runtime_def Let_def
      runtimeAgentConfig_def runtimeAgentSession_def runtimeAgentMemory_def responseFormatForLLM_def
      cong: option.case_cong prod.case_cong)

lemma payload_names: "mset ns = mset ns' \<Longrightarrow> BuildAgentFingerprintPayload rt ns = BuildAgentFingerprintPayload rt ns'"
  using sort_strings_perm [of ns ns'] by (simp add: BuildAgentFingerprintPayload_def Let_def)

lemma worker_accepts:
  assumes "buildTemporalRuntime ho False c hp w1 = (Inr a, w2)"
    and "buildTemporalRuntime ho True (c\<lparr>agRemoteWorker := True\<rparr>) hp' w3 = (Inr wk, w4)"
    and "hpHeaders hp' = hpHeaders hp" "mset (map tName tools') = mset (map tName (erTools req))"
  shows "verifyAgentFingerprint te (worker_view ho hp'' c' wk)
           (wiFingerprint (workflow_input te rt_of a ctx req runID i streaming types pipeline)) (Some tools') s = (Inr (), s)"
proof -
  obtain client where a: "a = temporal_runtime ho False c hp client" "agLLMClient c = Some client"
    using buildTemporalRuntime_Inr [OF assms(1)] by blast
  have wk: "wk = temporal_runtime ho True (c\<lparr>agRemoteWorker := True\<rparr>) hp' client"
    using buildTemporalRuntime_Inr [OF assms(2)] a(2) by auto
  have "computeAgentFingerprintFromRuntime te (worker_view ho hp'' c' wk) tools'
      = computeAgentFingerprintFromRuntime te (TemporalRuntime.truncate a) (erTools req)"
    using payload_names [of "ToolNamesFromTools tools'" "ToolNamesFromTools (erTools req)"
        "TemporalRuntime.truncate (temporal_runtime ho False c hp client)"] assms(4)
    by (simp add: computeAgentFingerprintFromRuntime_def worker_view_def wk a(1) payload_worker [OF assms(3)] ToolNamesFromTools_def)
  then show ?thesis by (simp add: verifyAgentFingerprint_def workflow_input_def on_ok_def)
qed

end
