(* ===== verification/A2aFacts.thy ===== *)
theory A2aFacts
  imports A2aConnect
begin

text \<open>
  What the A2A client promises: concurrent calls share one connection and none is left open after
  \<open>Close\<close>; parts of messages survive the conversion; and which authorization a request carries.
\<close>

section \<open>Opening and closing the connection concurrently\<close>

text \<open>Where a call to \<open>getInner\<close> stands: before its first critical section, connecting without the lock,
  holding a new connection, or done.\<close>

datatype call_pc = Idle | Connecting | Connected sdkCard nat | Got "goerr + nat"

record conn_state =
  csClient :: A2AClientImpl
  csCalls :: "nat \<Rightarrow> call_pc"
  csLive :: "nat set"
  csNext :: nat

definition conn_start :: "A2AClientImpl \<Rightarrow> conn_state" where
  "conn_start c = \<lparr>csClient = c\<lparr>aiClosed := False, aiCard := None, aiInner := None\<rparr>, csCalls = (\<lambda>_. Idle),
                   csLive = {}, csNext = 0\<rparr>"

definition set_call :: "nat \<Rightarrow> call_pc \<Rightarrow> conn_state \<Rightarrow> conn_state" where
  "set_call t pc cs = cs\<lparr>csCalls := (csCalls cs)(t := pc)\<rparr>"

definition entered :: "A2AClientImpl \<Rightarrow> call_pc" where
  "entered c = (case inner_enter c of EntryClosed \<Rightarrow> Got (Inl (closed_error c)) | EntryInner i \<Rightarrow> Got (Inr i)
                | EntryConnect \<Rightarrow> Connecting)"

inductive conn_step :: "conn_state \<Rightarrow> conn_state \<Rightarrow> bool" where
  enter: "csCalls cs t = Idle \<Longrightarrow> conn_step cs (set_call t (entered (csClient cs)) cs)"
| fail: "csCalls cs t = Connecting \<Longrightarrow> conn_step cs (set_call t (Got (Inl e)) cs)"
| connect: "csCalls cs t = Connecting \<Longrightarrow>
    conn_step cs (set_call t (Connected sdk (csNext cs)) (cs\<lparr>csLive := insert (csNext cs) (csLive cs), csNext := Suc (csNext cs)\<rparr>))"
| install: "csCalls cs t = Connected sdk i \<Longrightarrow> inner_install sdk i (csClient cs) = (r, c, d) \<Longrightarrow>
    conn_step cs (set_call t (Got r) (cs\<lparr>csClient := c, csLive := csLive cs - set_option d\<rparr>))"
| leave: "csCalls cs t = Got r \<Longrightarrow> conn_step cs (set_call t Idle cs)"
| close: "close_client (csClient cs) = (c, d) \<Longrightarrow>
    conn_step cs (cs\<lparr>csClient := c, csLive := csLive cs - set_option d\<rparr>)"

inductive_cases conn_stepE: "conn_step cs cs'"

inductive conn_reach :: "A2AClientImpl \<Rightarrow> conn_state \<Rightarrow> bool" for c0 where
  start: "conn_reach c0 (conn_start c0)"
| step: "conn_reach c0 cs \<Longrightarrow> conn_step cs cs' \<Longrightarrow> conn_reach c0 cs'"

text \<open>The live connections are the client's and those held by calls about to install them, each held once.\<close>

fun held_by :: "call_pc \<Rightarrow> nat option" where
  "held_by (Connected sdk i) = Some i"
| "held_by _ = None"

definition held :: "conn_state \<Rightarrow> nat set" where
  "held cs = {i. \<exists>t. held_by (csCalls cs t) = Some i}"

definition held_once :: "(nat \<Rightarrow> call_pc) \<Rightarrow> bool" where
  "held_once calls \<longleftrightarrow> (\<forall>t u i. held_by (calls t) = Some i \<longrightarrow> held_by (calls u) = Some i \<longrightarrow> t = u)"

definition conn_inv :: "conn_state \<Rightarrow> bool" where
  "conn_inv cs \<longleftrightarrow>
     csLive cs = set_option (aiInner (csClient cs)) \<union> held cs
   \<and> set_option (aiInner (csClient cs)) \<inter> held cs = {}
   \<and> held_once (csCalls cs)
   \<and> (\<forall>i \<in> csLive cs. i < csNext cs)
   \<and> (aiClosed (csClient cs) \<longrightarrow> aiInner (csClient cs) = None)"

lemma held_onceD: "held_once calls \<Longrightarrow> held_by (calls t) = Some i \<Longrightarrow> held_by (calls u) = Some i \<Longrightarrow> t = u"
  by (simp add: held_once_def)

lemma held_once_upd:
  assumes "held_once calls" "\<And>i u. held_by pc = Some i \<Longrightarrow> u \<noteq> t \<Longrightarrow> held_by (calls u) \<noteq> Some i"
  shows "held_once (calls(t := pc))"
  unfolding held_once_def
proof (intro allI impI)
  fix u v i assume "held_by ((calls(t := pc)) u) = Some i" "held_by ((calls(t := pc)) v) = Some i"
  then show "u = v" using assms(2) [of i u] assms(2) [of i v] held_onceD [OF assms(1), of u i v]
    by (cases "u = t"; cases "v = t") simp_all
qed

lemma set_call_simps [simp]:
  "csClient (set_call t pc cs) = csClient cs" "csLive (set_call t pc cs) = csLive cs"
  "csNext (set_call t pc cs) = csNext cs" "csCalls (set_call t pc cs) = (csCalls cs)(t := pc)"
  by (simp_all add: set_call_def)

lemma held_simps [simp]:
  "held (cs\<lparr>csClient := c\<rparr>) = held cs" "held (cs\<lparr>csLive := l\<rparr>) = held cs" "held (cs\<lparr>csNext := n\<rparr>) = held cs"
  by (simp_all add: held_def)

lemma held_set_call:
  "held (set_call t pc cs) = set_option (held_by pc) \<union> {i. \<exists>u. u \<noteq> t \<and> held_by (csCalls cs u) = Some i}"
  by (auto simp: held_def)

lemma held_split:
  "held cs = set_option (held_by (csCalls cs t)) \<union> {i. \<exists>u. u \<noteq> t \<and> held_by (csCalls cs u) = Some i}"
  by (auto simp: held_def)

lemma conn_inv_quiet:
  assumes "conn_inv cs" "held_by (csCalls cs t) = None" "held_by pc = None"
  shows "conn_inv (set_call t pc cs)"
proof -
  have "held (set_call t pc cs) = held cs"
    using assms(2,3) by (simp add: held_set_call held_split [of cs t])
  moreover have "held_once ((csCalls cs)(t := pc))"
    using assms by (intro held_once_upd) (simp_all add: conn_inv_def)
  ultimately show ?thesis using assms(1) by (simp add: conn_inv_def)
qed

lemma conn_inv_connect:
  assumes inv: "conn_inv cs" and t: "csCalls cs t = Connecting"
  shows "conn_inv (set_call t (Connected sdk (csNext cs)) (cs\<lparr>csLive := insert (csNext cs) (csLive cs), csNext := Suc (csNext cs)\<rparr>))"
    (is "conn_inv ?cs'")
proof -
  have h: "held ?cs' = insert (csNext cs) (held cs)"
    using t by (simp add: held_set_call held_split [of cs t])
  have fresh: "csNext cs \<notin> csLive cs" using inv by (auto simp: conn_inv_def)
  moreover have "held cs \<subseteq> csLive cs" using inv by (auto simp: conn_inv_def)
  ultimately have new: "held_by (csCalls cs u) \<noteq> Some (csNext cs)" for u by (auto simp: held_def)
  have "held_once (csCalls ?cs')"
    using inv new held_once_upd [of "csCalls cs" "Connected sdk (csNext cs)" t] by (auto simp: conn_inv_def)
  moreover have "\<forall>i \<in> csLive ?cs'. i < csNext ?cs'" using inv by (auto simp: conn_inv_def intro: less_SucI)
  moreover have "set_option (aiInner (csClient cs)) \<inter> held ?cs' = {}"
    unfolding h using inv fresh by (auto simp: conn_inv_def)
  moreover have "csLive ?cs' = set_option (aiInner (csClient ?cs')) \<union> held ?cs'"
    unfolding h using inv by (simp add: conn_inv_def)
  ultimately show ?thesis using inv by (simp add: conn_inv_def)
qed

lemma conn_inv_install:
  assumes inv: "conn_inv cs" and t: "csCalls cs t = Connected sdk i"
    and i: "inner_install sdk i (csClient cs) = (r, c, d)"
  shows "conn_inv (set_call t (Got r) (cs\<lparr>csClient := c, csLive := csLive cs - set_option d\<rparr>))" (is "conn_inv ?cs'")
proof -
  let ?others = "{j. \<exists>u. u \<noteq> t \<and> held_by (csCalls cs u) = Some j}"
  have h: "held ?cs' = ?others" by (simp add: held_set_call)
  have h0: "held cs = insert i ?others" using t by (simp add: held_split [of cs t])
  have "held_by (csCalls cs t) = Some i" using t by simp
  moreover have "held_once (csCalls cs)" using inv by (simp add: conn_inv_def)
  ultimately have alone: "i \<notin> ?others" by (blast dest: held_onceD)
  have apart: "i \<notin> set_option (aiInner (csClient cs))" using inv h0 by (auto simp: conn_inv_def)
  have live: "csLive cs = set_option (aiInner (csClient cs)) \<union> insert i ?others" using inv h0 by (simp add: conn_inv_def)
  have cases: "(d = Some i \<and> c = csClient cs \<and> (aiClosed c \<longrightarrow> aiInner c = None))
      \<or> (d = None \<and> aiInner (csClient cs) = None \<and> aiInner c = Some i \<and> \<not> aiClosed c)"
    using i inv by (auto simp: inner_install_def conn_inv_def split: if_splits option.splits)
  have "csLive ?cs' = set_option (aiInner c) \<union> ?others"
    using cases live alone apart by auto
  moreover have "set_option (aiInner c) \<inter> ?others = {}"
    using cases inv h0 alone by (auto simp: conn_inv_def)
  moreover have "held_once (csCalls ?cs')"
    using inv held_once_upd [of "csCalls cs" "Got r" t] by (simp add: conn_inv_def)
  moreover have "\<forall>j \<in> csLive cs. j < csNext cs" using inv by (simp add: conn_inv_def)
  then have "\<forall>j \<in> set_option (aiInner c) \<union> ?others. j < csNext cs"
    using cases unfolding live by auto
  moreover have "aiClosed c \<longrightarrow> aiInner c = None" using cases by auto
  ultimately show ?thesis unfolding conn_inv_def h by simp
qed

lemma conn_inv_close:
  assumes "conn_inv cs" "close_client (csClient cs) = (c, d)"
  shows "conn_inv (cs\<lparr>csClient := c, csLive := csLive cs - set_option d\<rparr>)"
  using assms by (auto simp: conn_inv_def close_client_def split: if_splits)

lemma held_by_entered [simp]: "held_by (entered c) = None"
  by (simp add: entered_def split: inner_entry.split)

lemma conn_inv_step: "conn_step cs cs' \<Longrightarrow> conn_inv cs \<Longrightarrow> conn_inv cs'"
  by (induction rule: conn_step.induct)
     (auto intro: conn_inv_quiet conn_inv_connect conn_inv_install conn_inv_close)

lemma conn_inv_reach: "conn_reach c0 cs \<Longrightarrow> conn_inv cs"
proof (induction rule: conn_reach.induct)
  case start
  show ?case by (simp add: conn_inv_def conn_start_def held_def held_once_def)
qed (rule conn_inv_step)

text \<open>Once closed, a client stays closed.\<close>

lemma closed_step: "conn_step cs cs' \<Longrightarrow> aiClosed (csClient cs) \<Longrightarrow> aiClosed (csClient cs')"
  by (erule conn_stepE) (auto simp: close_client_def inner_install_def split: if_splits)

section \<open>Authorization\<close>

definition canonical_entry :: "string \<Rightarrow> string \<times> string \<Rightarrow> bool" where
  "canonical_entry K kv \<longleftrightarrow> trim_space (fst kv) \<noteq> [] \<and> canonical_key (trim_space (fst kv)) = K"

text \<open>Of the entries of a map that become one header, the last one counts.\<close>

lemma set_headers_lookup:
  "map_of (set_headers kvs r) K =
     (case rev (filter (canonical_entry K) kvs) of [] \<Rightarrow> map_of r K | kv # _ \<Rightarrow> Some [snd kv])"
proof (induction kvs r rule: set_headers.induct)
  case (2 k0 v kvs r)
  let ?r = "if trim_space k0 \<noteq> [] then header_set (trim_space k0) v r else r"
  have "map_of ?r K = (if canonical_entry K (k0, v) then Some [v] else map_of r K)"
    by (auto simp: canonical_entry_def header_set_def update_conv')
  moreover have "map_of (set_headers ((k0, v) # kvs) r) K
      = (case rev (filter (canonical_entry K) kvs) of [] \<Rightarrow> map_of ?r K | kv # _ \<Rightarrow> Some [snd kv])"
    using 2 by (simp add: Let_def)
  ultimately show ?case by (cases "rev (filter (canonical_entry K) kvs)") auto
qed simp

lemma update_absent: "k \<notin> fst ` set m \<Longrightarrow> AList.update k v m = m @ [(k, v)]"
  by (induction m) auto

lemma authorization_canonical [simp]: "canonical_entry ''Authorization'' (''Authorization'', v)"
  "canonical_key ''Authorization'' = ''Authorization''"
proof -
  have "trim_space ''Authorization'' = ''Authorization''" by code_simp
  moreover show "canonical_key ''Authorization'' = ''Authorization''" by code_simp
  ultimately show "canonical_entry ''Authorization'' (''Authorization'', v)" by (simp add: canonical_entry_def)
qed

definition plain_headers :: "(string \<times> string) list \<Rightarrow> bool" where
  "plain_headers m \<longleftrightarrow> (\<forall>kv \<in> set m. \<not> canonical_entry ''Authorization'' kv)"

lemma plain_headers_lookup: "plain_headers m \<Longrightarrow> map_of m ''Authorization'' = None"
  by (auto simp: plain_headers_def map_of_eq_None_iff) (metis authorization_canonical(1))

lemma sent_authorization:
  assumes "plain_headers m"
  shows "header_get (set_headers (AList.update ''Authorization'' v m) []) ''Authorization'' = v"
proof -
  have "''Authorization'' \<notin> fst ` set m"
    using plain_headers_lookup [OF assms] by (simp add: map_of_eq_None_iff)
  moreover have "filter (canonical_entry ''Authorization'') m = []"
    using assms by (auto simp: plain_headers_def filter_empty_conv)
  ultimately show ?thesis
    by (simp add: update_absent header_get_def header_values_def set_headers_lookup)
qed

lemma NewA2AClientImpl_Inr:
  assumes "NewA2AClientImpl n u c h = (Inr cl, h1)"
  shows "\<exists>c'. put_token (if aoTimeout c \<le> 0 then c\<lparr>aoTimeout := DefaultA2ATimeout\<rparr> else c) h = (c', h1)
      \<and> aiResolver cl = buildHTTPClient c' h1"
  using assms
  by (auto simp: NewA2AClientImpl_def A2ABuildConfig_def Let_def split: if_splits prod.splits sum.splits option.splits)

lemma mh_read_Some [simp]: "mh_read h (Some i) = mhMaps h i"
  by (simp add: mh_read_def)

lemma put_token_first:
  assumes "put_token c h = (c', h1)" "aoHeaders c = Some i" "trim_space (aoToken c) \<noteq> []"
    and "plain_headers (mhMaps h i)"
  shows "mhMaps h1 i = AList.update ''Authorization'' (''Bearer '' @ trim_space (aoToken c)) (mhMaps h i)"
    and "aoHeaders c' = Some i"
  using assms by (auto simp: put_token_def Let_def mh_put_def plain_headers_lookup split: prod.splits)

lemma put_token_again:
  assumes "put_token c h = (c', h1)" "aoHeaders c = Some i" "map_of (mhMaps h i) ''Authorization'' \<noteq> None"
  shows "h1 = h" and "aoHeaders c' = Some i"
  using assms by (auto simp: put_token_def Let_def split: if_splits prod.splits)

lemma update_lookup: "map_of (AList.update k v m) k = Some v"
  by (simp add: update_conv')

lemma shared_headers_token:
  assumes c1: "aoHeaders c1 = Some i" "trim_space (aoToken c1) \<noteq> []" and c2: "aoHeaders c2 = Some i"
    and plain: "plain_headers (mhMaps h i)"
    and n1: "NewA2AClientImpl n1 u1 c1 h = (Inr cl1, h1)" and n2: "NewA2AClientImpl n2 u2 c2 h1 = (Inr cl2, h2)"
  shows "header_get (roundTripHeaders (aiResolver cl2) h2) ''Authorization'' = ''Bearer '' @ trim_space (aoToken c1)"
proof -
  let ?tok = "''Bearer '' @ trim_space (aoToken c1)"
  obtain d1 where "put_token (if aoTimeout c1 \<le> 0 then c1\<lparr>aoTimeout := DefaultA2ATimeout\<rparr> else c1) h = (d1, h1)"
    using NewA2AClientImpl_Inr [OF n1] by blast
  from put_token_first(1) [OF this] c1 plain
  have m1: "mhMaps h1 i = AList.update ''Authorization'' ?tok (mhMaps h i)" by (simp split: if_splits)
  obtain d2 where d2: "put_token (if aoTimeout c2 \<le> 0 then c2\<lparr>aoTimeout := DefaultA2ATimeout\<rparr> else c2) h1 = (d2, h2)"
    and r2: "aiResolver cl2 = buildHTTPClient d2 h2"
    using NewA2AClientImpl_Inr [OF n2] by blast
  from put_token_again [OF d2] c2 m1 have h2: "h2 = h1" "aoHeaders d2 = Some i"
    by (simp_all add: update_lookup split: if_splits)
  have "mhMaps h1 i \<noteq> []" using m1 by (metis list.distinct(1) map_of.simps(1) option.distinct(1) update_lookup)
  then show ?thesis
    using sent_authorization [OF plain] by (simp add: roundTripHeaders_def r2 buildHTTPClient_def h2 m1)
qed

lemma own_headers_token:
  assumes c: "aoHeaders c = None" "trim_space (aoToken c) \<noteq> []"
    and n: "NewA2AClientImpl n u c h = (Inr cl, h1)"
  shows "header_get (roundTripHeaders (aiResolver cl) h1) ''Authorization'' = ''Bearer '' @ trim_space (aoToken c)"
proof -
  obtain d where d: "put_token (if aoTimeout c \<le> 0 then c\<lparr>aoTimeout := DefaultA2ATimeout\<rparr> else c) h = (d, h1)"
    and r: "aiResolver cl = buildHTTPClient d h1"
    using NewA2AClientImpl_Inr [OF n] by blast
  from d c have "aoHeaders d = Some (mhNext h)"
    and "mhMaps h1 (mhNext h) = AList.update ''Authorization'' (''Bearer '' @ trim_space (aoToken c)) []"
    by (auto simp: put_token_def Let_def mh_make_def mh_put_def split: if_splits)
  then show ?thesis
    using sent_authorization [of "[]" "''Bearer '' @ trim_space (aoToken c)"]
    by (simp add: roundTripHeaders_def r buildHTTPClient_def plain_headers_def)
qed

section \<open>Conversion of parts\<close>

text \<open>Parts that name their kind in full and whose data is compact JSON survive the conversion.\<close>

definition sendable_part :: "(string \<Rightarrow> string option) \<Rightarrow> A2APart \<Rightarrow> bool" where
  "sendable_part raw p \<longleftrightarrow>
     (\<exists>t. p = zero_part\<lparr>paKind := ''text'', paText := t\<rparr>)
   \<or> (\<exists>d. p = zero_part\<lparr>paKind := ''data'', paData := d\<rparr> \<and> raw d = Some d)
   \<or> (\<exists>u m. p = zero_part\<lparr>paKind := ''file'', paFileURI := u, paMIMEType := m\<rparr> \<and> u \<noteq> [])
   \<or> (\<exists>b m. p = zero_part\<lparr>paKind := ''file'', paFileBytes := b64_encode b, paMIMEType := m\<rparr> \<and> b \<noteq> [])"

lemma kinds [simp]:
  "to_lower (trim_space ''text'') = ''text''" "to_lower (trim_space ''data'') = ''data''"
  "to_lower (trim_space ''file'') = ''file''"
  by code_simp+

lemma b64_encode_nonempty: "b \<noteq> [] \<Longrightarrow> b64_encode b \<noteq> []"
  by (cases b rule: b64_encode.cases) (auto simp: Let_def)

lemma part_roundtrip: "sendable_part raw p \<Longrightarrow> fromSDKPart (Some (toSDKPart raw p)) = p"
  by (auto simp: sendable_part_def toSDKPart_def fromSDKPart_def zero_part_def Let_def b64_encode_nonempty)

lemma from_parts_Some: "from_parts (map (\<lambda>p. Some (f p)) ps) = map (\<lambda>p. fromSDKPart (Some (f p))) ps"
  by (simp add: from_parts_def comp_def)

lemma message_roundtrip:
  assumes "\<forall>p \<in> set (amParts m). sendable_part raw p" "amMessageID m \<noteq> []" "amRole m = ''user'' \<or> amRole m = ''agent''"
  shows "fromSDKMessage (toSDKMessage raw newID m) = m"
proof -
  have "map (\<lambda>p. fromSDKPart (Some (toSDKPart raw p))) (amParts m) = amParts m"
    using assms(1) by (intro map_idI) (simp add: part_roundtrip)
  then show ?thesis
    using assms(2,3) by (auto simp: fromSDKMessage_def toSDKMessage_def from_parts_Some to_lower_def to_lower_char_def)
qed

end
