(* ===== verification/AgentDemo.thy ===== *)
theory AgentDemo
  imports AgentFacts AgentWiring TemporalProps McpClient A2aFacts
begin

text \<open>
  A small agent on which the statements about agents are run: a tool server whose first listing breaks off,
  two agents of which one delegates to the other, and the options an agent is built from.
\<close>

section \<open>A tool server\<close>

definition demo_sdk_tool :: sdkTool where
  "demo_sdk_tool = \<lparr>stName = ''find'', stDescription = [], stInputSchema = VNil\<rparr>"

definition demo_wire :: "nat MCPWire" where
  "demo_wire =
     \<lparr>wConnect = (\<lambda>_ _ w. (None, w)), wClose = (\<lambda>w. w), wPing = (\<lambda>w. (None, w)),
      wListTools = (\<lambda>_ w. if w = 0 then (Inr ([Some demo_sdk_tool], ''more''), 1)
                          else if w = 1 then (Inl (new_error ''lost''), 2)
                          else (Inr ([Some demo_sdk_tool], []), w)),
      wCallTool = (\<lambda>_ _ w. (Inr [], w)), wWait = (\<lambda>_ w. (None, w)), wPages = 3,
      wJSON = (\<lambda>_. None), wUnmarshal = (\<lambda>_. Inr VNil)\<rparr>"

definition demo_filter :: MCPToolFilter where
  "demo_filter = \<lparr>AllowTools = [], BlockTools = []\<rparr>"

definition demo_mcp :: MCPClientImpl where
  "demo_mcp = \<lparr>clName = ''srv'', clTransport = TransportLoopback True, clOpen = True, clTimeout = second,
     clMaxAttempts = 3, clFilter = demo_filter\<rparr>"

section \<open>An agent\<close>

definition demo_digests :: Digests where
  "demo_digests =
     \<lparr>dgMCP = (\<lambda>s. Some (concat (map mrKey (mpServers s)))), dgA2A = (\<lambda>_. Some []), dgRetrievers = (\<lambda>_. Some []),
      dgHooks = (\<lambda>_. Some []), dgObservability = (\<lambda>_. Some [])\<rparr>"

definition demo_host :: "nat Host" where
  "demo_host =
     \<lparr>hoEnv = demo_env, hoTaskJSON = (\<lambda>_. None), hoMCPWire = demo_wire,
      hoA2AMethods = (\<lambda>c. \<lparr>acName = aiName c, acListSkills = (\<lambda>w. (Inr [], w)),
                           acSendMessage = (\<lambda>_ w. (Inl (new_error ''none''), w))\<rparr>),
      hoObservability = (\<lambda>_. None), hoDuration = int_to_str, hoDigests = demo_digests, hoDial = (\<lambda>_ w. (None, w))\<rparr>"

definition demo_opts :: "nat Option list" where
  "demo_opts = [WithName '' demo'', WithLLMClient (Some (rtClient demo_rt))]"

definition demo_heap :: "nat heap" where
  "demo_heap =
     \<lparr>hpTools = (\<lambda>_. new_registry), hpMCPs = (\<lambda>_. new_registry), hpA2As = (\<lambda>_. new_registry),
      hpSubs = (\<lambda>_. new_registry),
      hpAgents = (\<lambda>_. \<lparr>aConfig = zero_config, aRuntime = RunsLocally demo_lrt, aEmbedsWorker = False\<rparr>),
      hpHeaders = \<lparr>mhNext = 0, mhMaps = (\<lambda>_. [])\<rparr>, hpNext = 0\<rparr>"

text \<open>What is built from the options, with four empty registries.\<close>

definition demo_before :: "nat agentConfig" where
  "demo_before =
     zero_config\<lparr>agName := ''demo'', agDescription := ''demo is an AI agent.'', agLLMClient := Some (rtClient demo_rt),
       agPolicy := Some RequireAllToolApprovalPolicy, agMode := ''interactive'', agToolMode := ModeParallel,
       agMaxSubAgentDepth := 2\<rparr>"

definition demo_registered :: "nat agentConfig" where
  "demo_registered =
     demo_before\<lparr>agToolRegistry := Some 0, agMCPRegistry := Some 1, agA2ARegistry := Some 2, agSubAgentRegistry := Some 3\<rparr>"

definition demo_config :: "nat agentConfig" where
  "demo_config = demo_registered\<lparr>agRetrieverMode := RetrieverModeAgentic, agTimeout := 5 * minute,
     agApprovalTimeout := 5 * minute - 30 * second, agMaxIterations := 5\<rparr>"

definition demo_built_heap :: "nat heap" where "demo_built_heap = demo_heap\<lparr>hpNext := 4\<rparr>"

lemma demo_name: "trim_space '' demo'' = ''demo''"
  by code_simp

lemma demo_checked: "check_before_registries (fold (\<lambda>opt c. opt c) demo_opts zero_config) = Inr demo_before"
  by (simp add: check_before_registries_def demo_opts_def WithName_def WithLLMClient_def zero_config_def and_then_def
      check_identity_def demo_name validateHookGroups_def check_backend_def check_conversation_def check_memory_def
      check_modes_def defaultMaxSubAgentDepth_def demo_before_def Let_def)

lemma demo_empty_registries:
  "toolList new_registry = []" "mcpList new_registry = []" "a2aList new_registry = []" "subAgentList new_registry = []"
  by (simp_all add: toolList_def mcpList_def a2aList_def subAgentList_def registryList_def new_registry_def)

lemma demo_no_update: "(\<lambda>_. new_registry)(i := new_registry) = (\<lambda>_. new_registry)"
  by auto

lemma demo_registries: "buildRegistries demo_host demo_before demo_heap = (Inr demo_registered, demo_built_heap)"
  by (simp add: buildRegistries_def buildToolRegistry_def buildMCPRegistry_def buildA2ARegistry_def
      buildSubAgentRegistry_def registry_at_def hp_fresh_def demo_before_def zero_config_def demo_heap_def on_ok_def
      sorted_servers_def sort_strings_def demo_empty_registries demo_no_update validateMCPClients_def validateA2AClients_def
      validateSubAgentRegistry_def demo_registered_def demo_built_heap_def Let_def)

lemma demo_no_tools: "resolveTools demo_host demo_built_heap (demo_registered\<lparr>agRetrieverMode := m\<rparr>) w = (Inr [], w)"
  if "m = RetrieverModeAgentic"
  by (simp add: that resolveTools_def resolveMCPTools_def resolveA2ATools_def resolveRetrieverTools_def
      resolveSubAgentTools_def resolveMemoryTools_def sub_agents_of_def demo_registered_def demo_before_def
      zero_config_def demo_built_heap_def demo_heap_def demo_empty_registries on_ok_def validateToolNames_def
      validateSubAgentRegistry_def List.map_filter_def Let_def)

lemma demo_builds: "buildAgentConfig demo_host demo_opts demo_heap 0 = (Inr demo_config, demo_built_heap, 0)"
proof -
  have r: "check_retrievers demo_registered = Inr (demo_registered\<lparr>agRetrieverMode := RetrieverModeAgentic\<rparr>)"
    by (simp add: check_retrievers_def validateRetrievers_def validateRetrieverMode_def and_then_def demo_registered_def
        demo_before_def zero_config_def)
  have "check_limits demo_host (demo_registered\<lparr>agRetrieverMode := RetrieverModeAgentic\<rparr>) = Inr demo_config"
    by (simp add: check_limits_def demo_registered_def demo_before_def zero_config_def demo_config_def Let_def
        defaultTimeoutInteractive_def defaultMaxIterations_def MaxApprovalTimeout_def minute_def second_def hour_def
        wrap64_def)
  moreover have "check_observability demo_host demo_config = Inr demo_config"
    by (simp add: check_observability_def demo_config_def demo_registered_def demo_before_def zero_config_def)
  ultimately show ?thesis
    by (simp add: buildAgentConfig_def demo_checked demo_registries r demo_no_tools and_then_def)
qed

definition demo_agent :: "nat Agent" where
  "demo_agent = \<lparr>aConfig = demo_config, aRuntime = RunsLocally demo_lrt, aEmbedsWorker = False\<rparr>"

definition demo_cluster :: "nat Cluster" where
  "demo_cluster =
     \<lparr>clCall = (\<lambda>_ w. (None, w)), clHasWorkers = (\<lambda>_ w. (True, w)), clInterceptor = None,
      clJSONTool = (\<lambda>_. Inl (new_error ''none'')), clJSONDelegation = (\<lambda>_. Inl (new_error ''none''))\<rparr>"

definition demo_machine :: "nat Machine" where
  "demo_machine = \<lparr>maHost = demo_host, maTEnv = demo_te, maCluster = demo_cluster, maReady = [], maLevel = 2\<rparr>"

definition demo_client :: "nat client" where
  "demo_client = \<lparr>ctSt = demo_st, ctCalls = [], ctRuns = [], ctEventWorkflow = [], ctEventSuffix = None,
     ctEventWorker = False, ctAgentWorker = False\<rparr>"

end
