(* ===== verification/AgentProps.thy ===== *)
theory AgentProps
  imports AgentDemo
begin

text \<open>
  What holds of agents: how they are built and checked, what a run passes through before the runtime takes
  over, their registries, their connections to tool servers and other agents, and the client of the Temporal
  runtime.
\<close>

section \<open>Building\<close>



text \<open>C26. The check of the sub-agents of an agent accepts exactly the lists without repetition whose tool names
  are defined and distinct and from which no walk is as long as the maximal depth.\<close>

theorem sub_agent_graph_exact:
  "validateSubAgentRegistry hp c as = None \<longleftrightarrow>
     distinct as \<and> (\<exists>ns. map (\<lambda>a. subAgentToolName (agent_name hp a)) as = map Inr ns \<and> distinct ns)
   \<and> set as \<inter> Domain (child_of hp ^^ nat (effective_depth c)) = {}"
proof -
  have "(\<forall>a \<in> set as. fits hp (nat (effective_depth c)) a) \<longleftrightarrow> set as \<inter> Domain (child_of hp ^^ nat (effective_depth c)) = {}"
    unfolding fits_walks by blast
  moreover have "root_tool_name hp = (\<lambda>a. subAgentToolName (agent_name hp a))" by (simp add: fun_eq_iff root_tool_name_def)
  ultimately show ?thesis by (simp add: validateSubAgentRegistry_None)
qed

text \<open>C23. A run or a stream on the in-process runtime comes to an end, whatever its tools answer: the recursion over
  the sub-agents, whose graph may have cycles as long as nobody checks it, stays within the maximal depth.\<close>

theorem local_run_returns:
  assumes "agSubAgentRegistry (aConfig a) \<noteq> None" "nat (effective_depth (aConfig a)) \<le> maLevel ma"
    and "aRuntime a = RunsLocally lrt"
  shows "(\<exists>r s'. runInternal ma hp a ctx userPrompt conv s = Some (r, s'))
       \<and> (\<exists>r s'. AgentStream ma hp a ctx userPrompt conv s = Some (r, s'))"
proof -
  note g = run_gates_total [OF assms(2,1)]
  show ?thesis
    using g [of hp True "conversationIDFromOpts conv" "on_run (Effects.count MetricRunStarted []) s"]
      g [of hp False "conversationIDFromOpts conv" "on_run (Effects.count MetricStreamStarted []) s"] assms(3)
    by (auto simp: runInternal_def AgentStream_def Let_def runtime_execute_def runtime_stream_def
        split: option.splits sum.splits prod.splits)
qed

lemma local_run_returns_witness:
  "(\<exists>r s'. runInternal demo_machine demo_built_heap demo_agent (\<lambda>_. None) ''hello'' None demo_client = Some (r, s'))
 \<and> (\<exists>r s'. AgentStream demo_machine demo_built_heap demo_agent (\<lambda>_. None) ''hello'' None demo_client = Some (r, s'))"
  by (rule local_run_returns [where lrt = demo_lrt])
     (simp_all add: demo_agent_def demo_config_def demo_registered_def demo_before_def demo_machine_def effective_depth_def)

section \<open>The gates of a run\<close>

text \<open>C24. Without an approval handler, a run whose tools include one that needs approval fails before the runtime
  sees it: it leaves three metrics, calls neither model nor service, and starts nothing.\<close>

theorem run_needs_approval_handler:
  assumes "resolveTools (maHost ma) hp (aConfig a) (world (ctSt s)) = (Inr tools, w)"
    and "t \<in> set tools" "requiresApproval (agPolicy (aConfig a)) t" "agApprovalHandler (aConfig a) = None"
  shows "\<exists>label e s'. runInternal ma hp a ctx userPrompt conv s = Some (Inl e, s')
     \<and> trace (ctSt s') = trace (ctSt s) @ [Counter MetricRunStarted [], Counter MetricRunFailed [(''error'', label)],
                                            Histogram MetricRunDurationMs []]
     \<and> ctCalls s' = ctCalls s \<and> ctRuns s' = ctRuns s"
proof -
  let ?i = "conversationIDFromOpts conv" and ?s = "on_run (Effects.count MetricRunStarted []) s"
  have w: "resolveTools (maHost ma) hp (aConfig a) (world (ctSt ?s)) = (Inr tools, w)"
    using assms(1) by (simp add: on_run_def Effects.count_def logged_def)
  have "\<exists>label e s1. run_gates ma hp True (aConfig a) ?i ?s = Some (Inl (label, e), s1)"
  proof (cases "validateConversationID (aConfig a) ?i")
    case None
    then show ?thesis using approval_gate [OF None w assms(2-4)] by blast
  qed (simp add: run_gates_def)
  then obtain label e s1 where "run_gates ma hp True (aConfig a) ?i ?s = Some (Inl (label, e), s1)" by blast
  from refused_run [OF this] show ?thesis by blast
qed

text \<open>An agent with one tool.\<close>

definition demo_tooled_heap :: "nat heap" where
  "demo_tooled_heap = demo_built_heap\<lparr>hpTools := (hpTools demo_built_heap)(0 := snd (toolRegister (Some (demo_tool True)) new_registry))\<rparr>"

lemma demo_tool_resolved: "resolveTools demo_host demo_tooled_heap demo_config w = (Inr [demo_tool True], w)"
proof -
  have "trim_space ''echo'' = ''echo''" by code_simp
  then have l: "toolList (snd (toolRegister (Some (demo_tool True)) new_registry)) = [demo_tool True]"
    by (simp add: tool_registry_defs registryList_def register_named_def new_registry_def demo_tool_def Let_def)
  then show ?thesis
    by (simp add: resolveTools_def resolveMCPTools_def resolveA2ATools_def resolveRetrieverTools_def
      resolveSubAgentTools_def resolveMemoryTools_def sub_agents_of_def demo_config_def demo_registered_def demo_before_def
      zero_config_def demo_tooled_heap_def demo_built_heap_def demo_heap_def demo_empty_registries on_ok_def
      validateToolNames_def validateSubAgentRegistry_def List.map_filter_def Let_def l)
qed

lemma run_needs_approval_handler_witness:
  "\<exists>label e s'. runInternal demo_machine demo_tooled_heap demo_agent (\<lambda>_. None) ''hello'' None demo_client = Some (Inl e, s')
     \<and> trace (ctSt s') = [Counter MetricRunStarted [], Counter MetricRunFailed [(''error'', label)],
                          Histogram MetricRunDurationMs []]
     \<and> ctCalls s' = [] \<and> ctRuns s' = []"
  using run_needs_approval_handler [of demo_machine demo_tooled_heap demo_agent demo_client "[demo_tool True]" 0 "demo_tool True"
      "\<lambda>_. None" "''hello''" None]
  by (simp add: demo_machine_def demo_agent_def demo_tool_resolved demo_client_def demo_st_def)
     (simp add: demo_config_def demo_registered_def demo_before_def zero_config_def requiresApproval_def PolicyRequiresApproval_def)

section \<open>Registries\<close>

text \<open>C30. Each registry answers every sequence of registrations, removals, lookups and listings as an ordered list
  of named entries does: names are trimmed, taken names and blank ones refused, order of registration kept.\<close>

theorem registries_refine:
  "fst (registry_ops toolRegister toolUnregister toolGet toolList ops new_registry) = fst (spec_ops tName ops [])
 \<and> fst (registry_ops mcpRegisterClient mcpUnregister mcpGet mcpList mops new_registry) = fst (spec_ops mcName mops [])
 \<and> fst (registry_ops a2aRegisterClient a2aUnregister a2aGet a2aList aops new_registry) = fst (spec_ops acName aops [])
 \<and> fst (registry_ops (subAgentRegister name_of) subAgentUnregister subAgentGet subAgentList sops new_registry)
     = fst (spec_ops name_of sops [])"
  by (intro conjI tools.refines mcps.refines a2as.refines subs.refines)

section \<open>Fingerprints\<close>

text \<open>The digest of the tool servers is the same for wirings that differ in secrets only, and does not depend on
  the order in which Go iterates over its maps or on that of the additional clients.\<close>

theorem secrets_not_fingerprinted:
  assumes "mset m = mset n" "distinct (map fst m)" "mset extra = mset extra'"
    and "list_all2 (\<lambda>(k, c) (k', d). k = k' \<and> mcp_alike c d) n m'"
  shows "mcpConfigFingerprint dg m extra = mcpConfigFingerprint dg m' extra'"
  using assms by (rule mcp_fingerprint_alike)

definition demo_http :: "string \<Rightarrow> MCPConfig" where
  "demo_http token =
     \<lparr>mfTransport = Some (TransportHTTP \<lparr>URL = ''u'', Token = token, OAuth = None, HTTPHeaders = [(''h'', token)],
                                         SkipTLSVerify = False\<rparr>),
      mfToolFilter = demo_filter, mfTimeout = 0, mfRetryAttempts = 0\<rparr>"

lemma demo_alike: "mcp_alike (demo_http ''s1'') (demo_http ''s2'')" "mcp_alike (demo_http ''s3'') (demo_http ''s4'')"
proof -
  have "trim_space ''s1'' = ''s1''" "trim_space ''s2'' = ''s2''" "trim_space ''s3'' = ''s3''" "trim_space ''s4'' = ''s4''"
    by code_simp+
  then show "mcp_alike (demo_http ''s1'') (demo_http ''s2'')" "mcp_alike (demo_http ''s3'') (demo_http ''s4'')"
    by (simp_all add: mcp_alike_def demo_http_def http_alike_def blank_alike_def)
qed

lemma secrets_not_fingerprinted_witness:
  "mcpConfigFingerprint demo_digests [(''b'', demo_http ''s3''), (''a'', demo_http ''s1'')] [''x'', ''y''] =
   mcpConfigFingerprint demo_digests [(''a'', demo_http ''s2''), (''b'', demo_http ''s4'')] [''y'', ''x'']"
  by (rule secrets_not_fingerprinted [of _ "[(''a'', demo_http ''s1''), (''b'', demo_http ''s3'')]"])
     (simp_all add: add_mset_commute demo_alike)

text \<open>C27. A worker built from the configuration of its caller accepts the caller's runs: the fingerprint the caller
  sends passes the check of every activity, as long as both resolve tools of the same names, in any order.\<close>

theorem worker_accepts_caller:
  assumes "buildTemporalRuntime ho False c hp w1 = (Inr a, w2)"
    and "buildTemporalRuntime ho True (c\<lparr>agRemoteWorker := True\<rparr>) hp' w3 = (Inr wk, w4)"
    and "hpHeaders hp' = hpHeaders hp" "mset (map tName tools') = mset (map tName (erTools req))"
  shows "verifyAgentFingerprint te (worker_view ho hp'' c' wk)
           (wiFingerprint (workflow_input te rt_of a ctx req runID i streaming types pipeline)) (Some tools') s = (Inr (), s)"
  using assms by (rule worker_accepts)

definition demo_temporal :: "nat agentConfig" where
  "demo_temporal = demo_config\<lparr>agTemporalConfig := Some ''q''\<rparr>"

lemma demo_temporal_builds:
  "buildTemporalRuntime demo_host b (demo_temporal\<lparr>agRemoteWorker := r\<rparr>) hp w
     = (Inr (temporal_runtime demo_host b (demo_temporal\<lparr>agRemoteWorker := r\<rparr>) hp (rtClient demo_rt)), w)"
  by (simp add: buildTemporalRuntime_def demo_host_def hasTemporalRuntime_def demo_temporal_def demo_config_def
      demo_registered_def demo_before_def zero_config_def)

lemma demo_temporal_caller:
  "buildTemporalRuntime demo_host False demo_temporal hp w
     = (Inr (temporal_runtime demo_host False demo_temporal hp (rtClient demo_rt)), w)"
  using demo_temporal_builds [of False False hp w]
  by (simp add: demo_temporal_def demo_config_def demo_registered_def demo_before_def zero_config_def)

lemma worker_accepts_caller_witness:
  "verifyAgentFingerprint demo_te
     (worker_view demo_host demo_heap demo_temporal
        (temporal_runtime demo_host True (demo_temporal\<lparr>agRemoteWorker := True\<rparr>) demo_heap (rtClient demo_rt)))
     (wiFingerprint (workflow_input demo_te (\<lambda>_. None) (temporal_runtime demo_host False demo_temporal demo_heap (rtClient demo_rt))
        (\<lambda>_. None) (executeRequest demo_temporal ''hello'' None False [demo_tool True] []) ''r'' ''i'' False [] ([], [])))
     (Some [demo_tool False]) demo_st = (Inr (), demo_st)"
  by (rule worker_accepts_caller [OF demo_temporal_caller demo_temporal_builds])
     (simp_all add: executeRequest_def demo_tool_def)

section \<open>The client of the Temporal runtime\<close>




text \<open>When a workflow fails under a run timeout, the context is cancelled before the error is reported: the only
  step left to the goroutine that ends the stream publishes a timeout and terminates the run, although no deadline
  has passed.\<close>

theorem stream_failure_masked:
  assumes "\<not> smEnded m" "smGet m = GetWaits" "smTimed m" "smErr m = None" "smResult m = None"
  shows "\<exists>m1. stream_step threadID runID rootName m m1 \<and> smGet m1 = GetFailed e
     \<and> {m'. stream_step threadID runID rootName m1 m' \<and> smEnded m'}
       = {m1\<lparr>smEnded := True, smTerminated := True, smPublished := smPublished m @ [timed_out_event]\<rparr>}"
proof -
  define m1 where "m1 = m\<lparr>smGet := GetFailed e, smContextDone := smContextDone m \<or> smTimed m\<rparr>"
  define m2 where "m2 = m1\<lparr>smEnded := True, smTerminated := True, smPublished := smPublished m @ [timed_out_event]\<rparr>"
  have p: "smPublished m1 = smPublished m" by (simp add: m1_def)
  have 1: "stream_step threadID runID rootName m m1" unfolding m1_def by (rule stream_step.get_fails [OF assms(2)])
  have 2: "stream_step threadID runID rootName m1 m2"
    unfolding m2_def p [symmetric] by (rule stream_step.end_context) (simp_all add: m1_def assms)
  have 3: "m' = m2" if "stream_step threadID runID rootName m1 m'" "smEnded m'" for m'
    using that by (cases rule: stream_step.cases) (simp_all add: m2_def m1_def assms)
  have "smEnded m2" by (simp add: m2_def)
  then have "{m'. stream_step threadID runID rootName m1 m' \<and> smEnded m'} = {m2}" using 2 3 by blast
  moreover have "smGet m1 = GetFailed e" by (simp add: m1_def)
  ultimately show ?thesis using 1 unfolding m2_def by blast
qed

lemma stream_failure_masked_witness:
  "\<exists>m1. stream_step ''t'' ''r'' ''n'' (stream_begin True ''t'' ''r'') m1 \<and> smGet m1 = GetFailed (new_error ''boom'')
     \<and> {m'. stream_step ''t'' ''r'' ''n'' m1 m' \<and> smEnded m'}
       = {m1\<lparr>smEnded := True, smTerminated := True,
            smPublished := smPublished (stream_begin True ''t'' ''r'') @ [timed_out_event]\<rparr>}"
  by (rule stream_failure_masked) (simp_all add: stream_begin_def)

text \<open>Whatever an agent is called, the segment of the workflow IDs made from its name is not empty, of at most 128
  bytes, only letters, digits, hyphens, underscores and dots, and does not begin with a hyphen; the IDs of two runs
  differ.\<close>

theorem workflow_ids_safe:
  "sanitizeTemporalWorkflowIDSegment name \<noteq> [] \<and> length (sanitizeTemporalWorkflowIDSegment name) \<le> 128
 \<and> list_all plain_char (sanitizeTemporalWorkflowIDSegment name) \<and> hd (sanitizeTemporalWorkflowIDSegment name) \<noteq> CHR ''-''
 \<and> (getWorkflowID runID name isStream = getWorkflowID runID' name isStream \<longleftrightarrow> runID = runID')"
proof -
  have "list_all plain_char (sanitizeTemporalWorkflowIDSegment name)"
    unfolding list_all_iff using segment_plain by blast
  then show ?thesis
    using segment_start [of name] segment_length [of name] unfolding getWorkflowID_run maxAgentNameWorkflowSegmentBytes_def
    by (intro conjI) (simp_all only: simp_thms)
qed

section \<open>Servers and other agents\<close>

text \<open>C29. In every interleaving of calls and \<open>Close\<close> the live connections of an A2A client are the installed one and
  those that calls are about to install; each has one holder, and a closed client has none installed.\<close>

theorem a2a_connections_owned:
  assumes "conn_reach c0 cs"
  shows "csLive cs = set_option (aiInner (csClient cs)) \<union> held cs
   \<and> set_option (aiInner (csClient cs)) \<inter> held cs = {} \<and> held_once (csCalls cs)
   \<and> (\<not> aiClosed (csClient cs) \<or> aiInner (csClient cs) = None)"
  using conn_inv_reach [OF assms] by (auto simp: conn_inv_def)

definition demo_a2a :: A2AClientImpl where
  "demo_a2a = \<lparr>aiName = ''peer'', aiURL = ''u'', aiResolver = \<lparr>ahSkipTLS = False, ahHeaders = None\<rparr>, aiTimeout = second,
     aiSkillFilter = \<lparr>AllowSkills = [], BlockSkills = []\<rparr>, aiClosed = False, aiCard = None, aiInner = None\<rparr>"

lemma demo_connecting: "conn_reach demo_a2a (set_call 0 Connecting (conn_start demo_a2a))"
proof -
  have "conn_step (conn_start demo_a2a) (set_call 0 (entered (csClient (conn_start demo_a2a))) (conn_start demo_a2a))"
    by (rule conn_step.enter) (simp add: conn_start_def)
  moreover have "entered (csClient (conn_start demo_a2a)) = Connecting"
    by (simp add: entered_def inner_enter_def conn_start_def demo_a2a_def)
  ultimately show ?thesis using conn_reach.step [OF conn_reach.start] by metis
qed

lemma a2a_connections_owned_witness:
  "csLive (set_call 0 Connecting (conn_start demo_a2a)) =
     set_option (aiInner (csClient (set_call 0 Connecting (conn_start demo_a2a))))
     \<union> held (set_call 0 Connecting (conn_start demo_a2a))"
  using a2a_connections_owned [OF demo_connecting] by blast

text \<open>Of two A2A clients configured with one shared map of headers, the second sends the token of the first, to its
  own server, whatever its own configuration says.\<close>

theorem shared_headers_leak:
  assumes "aoHeaders c1 = Some i" "trim_space (aoToken c1) \<noteq> []" "aoHeaders c2 = Some i" "plain_headers (mhMaps h i)"
    and "NewA2AClientImpl n1 u1 c1 h = (Inr cl1, h1)" and "NewA2AClientImpl n2 u2 c2 h1 = (Inr cl2, h2)"
  shows "header_get (roundTripHeaders (aiResolver cl2) h2) ''Authorization'' = ''Bearer '' @ trim_space (aoToken c1)"
  using shared_headers_token [OF assms(1-6)] .

definition demo_a2a_config :: "string \<Rightarrow> A2AClientConfig" where
  "demo_a2a_config token = \<lparr>aoTimeout = second, aoToken = token, aoHeaders = Some 0, aoSkipTLSVerify = False,
     aoSkillFilter = \<lparr>AllowSkills = [], BlockSkills = []\<rparr>\<rparr>"

definition demo_maps :: mapheap where
  "demo_maps = \<lparr>mhNext = 1, mhMaps = (\<lambda>_. [(''x'', ''y'')])\<rparr>"

definition demo_first :: "(goerr + A2AClientImpl) \<times> mapheap" where
  "demo_first = NewA2AClientImpl ''a'' ''ua'' (demo_a2a_config ''secret'') demo_maps"

definition demo_second :: "(goerr + A2AClientImpl) \<times> mapheap" where
  "demo_second = NewA2AClientImpl ''b'' ''ub'' (demo_a2a_config []) (snd demo_first)"

lemma demo_both: "\<exists>cl1. demo_first = (Inr cl1, snd demo_first)" "\<exists>cl2. demo_second = (Inr cl2, snd demo_second)"
proof -
  have "\<not> isl (fst demo_first)" "\<not> isl (fst demo_second)" by code_simp+
  then show "\<exists>cl1. demo_first = (Inr cl1, snd demo_first)" "\<exists>cl2. demo_second = (Inr cl2, snd demo_second)"
    by (metis prod.collapse sum.collapse(2))+
qed

lemma shared_headers_leak_witness:
  "header_get (roundTripHeaders (aiResolver (projr (fst demo_second))) (snd demo_second)) ''Authorization'' = ''Bearer secret''"
proof -
  obtain cl1 where 1: "NewA2AClientImpl ''a'' ''ua'' (demo_a2a_config ''secret'') demo_maps = (Inr cl1, snd demo_first)"
    using demo_both(1) by (auto simp: demo_first_def)
  obtain cl2 where 2: "demo_second = (Inr cl2, snd demo_second)" using demo_both(2) by blast
  then have b2: "NewA2AClientImpl ''b'' ''ub'' (demo_a2a_config []) (snd demo_first) = (Inr cl2, snd demo_second)"
    by (simp add: demo_second_def)
  have t: "trim_space ''secret'' = ''secret''" by code_simp
  have p: "plain_headers (mhMaps demo_maps 0)" unfolding plain_headers_def canonical_entry_def by code_simp
  have "header_get (roundTripHeaders (aiResolver cl2) (snd demo_second)) ''Authorization''
      = ''Bearer '' @ trim_space (aoToken (demo_a2a_config ''secret''))"
    by (rule shared_headers_leak [OF _ _ _ p 1 b2]) (simp_all add: demo_a2a_config_def t)
  then show ?thesis using 2 t by (simp add: demo_a2a_config_def) (metis fst_conv sum.sel(2))
qed





text \<open>When the first attempt at listing a server's tools breaks off after some pages and the second succeeds, the
  tools already received are listed twice; the names clash, and no run of an agent with this server can start.\<close>

theorem mcp_retry_repeats_tools:
  assumes "clOpen c" "2 \<le> clMaxAttempts c" "transportFromConfig (clTransport c) = Inr tr"
    and "listing_attempt w c tr s = (Some e, got, s1)" "wWait w (mcpRetryDelay 1) s1 = (None, s2)"
    and "listing_attempt w c tr s2 = (None, full, s3)" "prefix got full" "MCPFilterApply (clFilter c) got \<noteq> []"
    and "agMCPRegistry cfg = Some r" "mcpList (hpMCPs hp r) = [as_MCPClient w c]"
  shows "isl (fst (resolveTools ho hp cfg s))"
proof (rule ccontr)
  assume "\<not> isl (fst (resolveTools ho hp cfg s))"
  then obtain tools s' where "resolveTools ho hp cfg s = (Inr tools, s')"
    by (metis prod.collapse sum.collapse(2))
  then obtain mcp s4 where m: "resolveMCPTools ho hp cfg s = (Inr mcp, s4)" and d: "distinct (map tName mcp)"
    by (rule resolveTools_Inr) auto
  have "mcListTools (as_MCPClient w c) s = (Inr (MCPFilterApply (clFilter c) (got @ full)), s3)"
    using MCPListTools_second [OF assms(1-6)] by (simp add: as_MCPClient_def)
  then have "map tName mcp = map (mcpToolName (trim_space (mcName (as_MCPClient w c))))
      (map SpecName (MCPFilterApply (clFilter c) (got @ full)))"
    using m assms(9,10) by (auto simp: resolveMCPTools_def NewMCPTool_def Let_def)
  then have "distinct (map SpecName (MCPFilterApply (clFilter c) (got @ full)))" using d by (auto simp: distinct_map intro: inj_on_imageI2)
  then show False using repeated_specs [OF assms(7,8)] by blast
qed

definition demo_server_heap :: "nat heap" where
  "demo_server_heap = demo_heap\<lparr>hpMCPs := (\<lambda>_. snd (mcpRegisterClient (Some (as_MCPClient demo_wire demo_mcp)) new_registry))\<rparr>"

lemma demo_listing:
  "transportFromConfig (clTransport demo_mcp) = Inr tr \<Longrightarrow>
     listing_attempt demo_wire demo_mcp tr 0 = (Some (new_error ''lost''), [toolToSpec demo_wire demo_sdk_tool], 2)
   \<and> listing_attempt demo_wire demo_mcp tr 2 = (None, [toolToSpec demo_wire demo_sdk_tool], 2)"
  by (simp add: listing_attempt_def session_attempt_def demo_wire_def demo_mcp_def page_specs_def numeral_3_eq_3 Let_def)

lemma mcp_retry_repeats_tools_witness: "isl (fst (resolveTools demo_host demo_server_heap demo_registered 0))"
proof -
  have "\<not> isl (transportFromConfig (clTransport demo_mcp))" by code_simp
  then obtain tr where tr: "transportFromConfig (clTransport demo_mcp) = Inr tr" by (metis sum.collapse(2))
  have n: "trim_space ''srv'' = ''srv''" by code_simp
  have l: "mcpList (hpMCPs demo_server_heap 1) = [as_MCPClient demo_wire demo_mcp]"
    by (simp add: demo_server_heap_def mcpRegisterClient_eq mcpList_def registryList_def register_named_def new_registry_def
        as_MCPClient_def demo_mcp_def n Let_def)
  have c: "clOpen demo_mcp" "2 \<le> clMaxAttempts demo_mcp" "wWait demo_wire (mcpRetryDelay 1) 2 = (None, 2)"
    "MCPFilterApply (clFilter demo_mcp) [toolToSpec demo_wire demo_sdk_tool] \<noteq> []" "agMCPRegistry demo_registered = Some 1"
    by (simp_all add: demo_mcp_def demo_wire_def demo_filter_def MCPFilterApply_def demo_registered_def)
  show ?thesis
    by (rule mcp_retry_repeats_tools [OF c(1,2) tr conjunct1 [OF demo_listing [OF tr]] c(3) conjunct2 [OF demo_listing [OF tr]]
          _ c(4,5) l]) simp
qed

end
