(* ===== verification/ConversationStore.thy ===== *)
theory ConversationStore
  imports RuntimeTypes
begin

text \<open>
  The conversation stores: in memory (\<open>pkg/conversation/inmem\<close>) and over Redis
  (\<open>pkg/conversation/redis\<close>), and the contract they share.  Of Redis the model knows the commands the
  code sends; each may fail, and acts on an arbitrary world.
\<close>

section \<open>Options of a listing (\<open>pkg/interfaces/conversation.go\<close>)\<close>

record ListMessagesOptions =
  loLimit :: int
  loOffset :: int
  loRoles :: "MessageRole list"

type_synonym ListMessagesOption = "ListMessagesOptions \<Rightarrow> ListMessagesOptions"

definition WithLimit :: "int \<Rightarrow> ListMessagesOption" where
  "WithLimit limit o0 = o0\<lparr>loLimit := limit\<rparr>"

definition WithOffset :: "int \<Rightarrow> ListMessagesOption" where
  "WithOffset offset o0 = o0\<lparr>loOffset := offset\<rparr>"

definition WithRoles :: "MessageRole list \<Rightarrow> ListMessagesOption" where
  "WithRoles roles o0 = o0\<lparr>loRoles := roles\<rparr>"

text \<open>Both stores start from the same defaults and resolve negative values in the same way; \<open>list_range\<close> are
  the indices the code then reads.\<close>

definition list_defaults :: ListMessagesOptions where
  "list_defaults = \<lparr>loLimit = - 1, loOffset = - 1, loRoles = [RoleUser, RoleAssistant, RoleTool]\<rparr>"

definition list_options :: "nat \<Rightarrow> ListMessagesOption list \<Rightarrow> ListMessagesOptions" where
  "list_options n opts =
     (let lmo = fold (\<lambda>f. f) opts list_defaults in
      lmo\<lparr>loLimit := (if loLimit lmo < 0 then int n else loLimit lmo),
          loOffset := (if loOffset lmo < 0 then 0 else loOffset lmo)\<rparr>)"

definition list_range :: "nat \<Rightarrow> ListMessagesOptions \<Rightarrow> int \<times> int" where
  "list_range n lmo =
     (let end = int n - loOffset lmo; start = end - loLimit lmo
      in (if start < 0 then 0 else start, if end > int n then int n else end))"

definition roleIn :: "MessageRole \<Rightarrow> MessageRole list \<Rightarrow> bool" where
  "roleIn role roles \<longleftrightarrow> list_ex (\<lambda>r. role = r) roles"

definition role_kept :: "ListMessagesOptions \<Rightarrow> Message \<Rightarrow> bool" where
  "role_kept lmo m \<longleftrightarrow> loRoles lmo = [] \<or> roleIn (mRole m) (loRoles lmo)"

definition defaultMaxSize :: int where "defaultMaxSize = 100"

section \<open>In memory\<close>

record InMemoryConversation =
  icMaxSize :: int
  icMessages :: "string \<rightharpoonup> Message list"

text \<open>The only option sets the maximal size.\<close>

definition NewInMemoryConversation :: "int list \<Rightarrow> InMemoryConversation" where
  "NewInMemoryConversation options =
     (let c = fold (\<lambda>size c. c\<lparr>icMaxSize := size\<rparr>) options
                \<lparr>icMaxSize = defaultMaxSize, icMessages = (\<lambda>_. None)\<rparr>
      in if icMaxSize c \<le> 0 then c\<lparr>icMaxSize := defaultMaxSize\<rparr> else c)"

definition InmemAddMessage :: "string \<Rightarrow> Message \<Rightarrow> InMemoryConversation \<Rightarrow> goerr option \<times> InMemoryConversation" where
  "InmemAddMessage cid msg c =
     (if cid = [] then (None, c)
      else
        (let msgs = (case icMessages c cid of None \<Rightarrow> [] | Some ms \<Rightarrow> ms) @ [msg];
             kept = (if icMaxSize c > 0 \<and> int (length msgs) > icMaxSize c
                     then drop (length msgs - nat (icMaxSize c)) msgs else msgs)
         in (None, c\<lparr>icMessages := (icMessages c)(cid \<mapsto> kept)\<rparr>)))"

text \<open>A slice cannot be made with a negative capacity: the call panics.\<close>

definition InmemListMessages :: "string \<Rightarrow> ListMessagesOption list \<Rightarrow> InMemoryConversation \<Rightarrow> Message list outcome" where
  "InmemListMessages cid opts c =
     (if cid = [] then Returned (Inr [])
      else case icMessages c cid of
        None \<Rightarrow> Returned (Inr [])
      | Some cp \<Rightarrow>
          (let lmo = list_options (length cp) opts; (start, end) = list_range (length cp) lmo
           in if end - start < 0 then Panicked
              else Returned (Inr (filter (role_kept lmo) (map (\<lambda>i. cp ! i) [nat start ..< nat end])))))"

definition InmemClear :: "string \<Rightarrow> InMemoryConversation \<Rightarrow> goerr option \<times> InMemoryConversation" where
  "InmemClear cid c =
     (if cid = [] then (None, c) else (None, c\<lparr>icMessages := (icMessages c)(cid := None)\<rparr>))"

definition InmemIsDistributed :: bool where "InmemIsDistributed = False"

section \<open>Redis\<close>

text \<open>The commands the store sends.  \<open>rdPushLen\<close> is the pipeline of \<open>RPUSH\<close> and \<open>LLEN\<close>: its error, or the
  result of the second command.\<close>

record 'w RedisWire =
  rdPushLen :: "string \<Rightarrow> string \<Rightarrow> 'w \<Rightarrow> (goerr + (goerr + int)) \<times> 'w"
  rdLTrim :: "string \<Rightarrow> int \<Rightarrow> int \<Rightarrow> 'w \<Rightarrow> goerr option \<times> 'w"
  rdExpire :: "string \<Rightarrow> int \<Rightarrow> 'w \<Rightarrow> goerr option \<times> 'w"
  rdLLen :: "string \<Rightarrow> 'w \<Rightarrow> (goerr + int) \<times> 'w"
  rdLRange :: "string \<Rightarrow> int \<Rightarrow> int \<Rightarrow> 'w \<Rightarrow> (goerr + string list) \<times> 'w"
  rdDel :: "string \<Rightarrow> 'w \<Rightarrow> goerr option \<times> 'w"
  rdMarshal :: "Message \<Rightarrow> goerr + string"
  rdUnmarshal :: "string \<Rightarrow> goerr + Message"

record RedisConversation =
  rcMaxSize :: int
  rcTTL :: int
  rcKeyPrefix :: string
  rcClient :: bool
  rcOwnClient :: bool
  rcAddr :: string

definition redisKeyPrefix :: string where "redisKeyPrefix = ''conversation''"

datatype RedisOption = WithClient bool | WithAddr string | WithTTL int | WithKeyPrefix string | WithMaxSize int

fun redis_option :: "RedisOption \<Rightarrow> RedisConversation \<Rightarrow> RedisConversation" where
  "redis_option (WithClient given) c = c\<lparr>rcClient := given, rcOwnClient := False\<rparr>"
| "redis_option (WithAddr a) c = c\<lparr>rcAddr := a\<rparr>"
| "redis_option (WithTTL d) c = c\<lparr>rcTTL := d\<rparr>"
| "redis_option (WithKeyPrefix p) c = c\<lparr>rcKeyPrefix := p\<rparr>"
| "redis_option (WithMaxSize n) c = c\<lparr>rcMaxSize := n\<rparr>"

definition NewRedisConversation :: "RedisOption list \<Rightarrow> goerr + RedisConversation" where
  "NewRedisConversation opts =
     (let c0 = fold redis_option opts
                 \<lparr>rcMaxSize = defaultMaxSize, rcTTL = 0, rcKeyPrefix = [], rcClient = False, rcOwnClient = False, rcAddr = []\<rparr>;
          c1 = (if rcMaxSize c0 \<le> 0 then c0\<lparr>rcMaxSize := defaultMaxSize\<rparr> else c0);
          c2 = (if rcKeyPrefix c1 = [] then c1\<lparr>rcKeyPrefix := redisKeyPrefix\<rparr> else c1);
          c3 = (if rcTTL c2 \<le> 0 then c2\<lparr>rcTTL := 24 * 3600 * 1000000000\<rparr> else c2)
      in if rcClient c3 then Inr c3
         else if rcAddr c3 = [] then Inl (new_error ''addr is required when not using WithClient'')
         else Inr (c3\<lparr>rcClient := True, rcOwnClient := True\<rparr>))"

definition getKey :: "RedisConversation \<Rightarrow> string \<Rightarrow> string" where
  "getKey c cid = (if rcKeyPrefix c = [] then redisKeyPrefix else rcKeyPrefix c) @ '':'' @ cid @ '':messages''"

definition id_required :: goerr where "id_required = new_error ''id is required''"

text \<open>\<open>AddMessage\<close> in two parts, since other clients may come between its commands: \<open>redis_push\<close> answers the
  length the list then had, \<open>redis_trim\<close> cuts the list by what that length is too much.\<close>

definition redis_push :: "'w RedisWire \<Rightarrow> RedisConversation \<Rightarrow> string \<Rightarrow> Message \<Rightarrow> 'w \<Rightarrow> (goerr + int) \<times> 'w" where
  "redis_push w c cid msg s =
     (if cid = [] then (Inl id_required, s)
      else case rdMarshal w msg of
        Inl e \<Rightarrow> (Inl (wrap_error ''marshal message: '' e), s)
      | Inr data \<Rightarrow>
          (case rdPushLen w (getKey c cid) data s of
             (Inl e, s1) \<Rightarrow> (Inl (wrap_error ''redis rpush: '' e), s1)
           | (Inr (Inl e), s1) \<Rightarrow> (Inl (wrap_error ''redis llen: '' e), s1)
           | (Inr (Inr n), s1) \<Rightarrow> (Inr n, s1)))"

definition redis_expire :: "'w RedisWire \<Rightarrow> RedisConversation \<Rightarrow> string \<Rightarrow> 'w \<Rightarrow> goerr option \<times> 'w" where
  "redis_expire w c cid s =
     (if rcTTL c > 0 then
        (case rdExpire w (getKey c cid) (rcTTL c) s of
           (Some e, s1) \<Rightarrow> (Some (wrap_error ''redis expire: '' e), s1) | (None, s1) \<Rightarrow> (None, s1))
      else (None, s))"

definition redis_trim :: "'w RedisWire \<Rightarrow> RedisConversation \<Rightarrow> string \<Rightarrow> int \<Rightarrow> 'w \<Rightarrow> goerr option \<times> 'w" where
  "redis_trim w c cid n s =
     (if rcMaxSize c > 0 \<and> n > rcMaxSize c then
        (case rdLTrim w (getKey c cid) (n - rcMaxSize c) (- 1) s of
           (Some e, s1) \<Rightarrow> (Some (wrap_error ''redis ltrim: '' e), s1)
         | (None, s1) \<Rightarrow> redis_expire w c cid s1)
      else redis_expire w c cid s)"

definition RedisAddMessage :: "'w RedisWire \<Rightarrow> RedisConversation \<Rightarrow> string \<Rightarrow> Message \<Rightarrow> 'w \<Rightarrow> goerr option \<times> 'w" where
  "RedisAddMessage w c cid msg s =
     (case redis_push w c cid msg s of (Inl e, s1) \<Rightarrow> (Some e, s1) | (Inr n, s1) \<Rightarrow> redis_trim w c cid n s1)"

fun decode_messages :: "'w RedisWire \<Rightarrow> ListMessagesOptions \<Rightarrow> string list \<Rightarrow> goerr + Message list" where
  "decode_messages w lmo [] = Inr []"
| "decode_messages w lmo (v # vs) =
     (case rdUnmarshal w v of
        Inl e \<Rightarrow> Inl (wrap_error ''unmarshal message: '' e)
      | Inr msg \<Rightarrow>
          (case decode_messages w lmo vs of
             Inl e \<Rightarrow> Inl e | Inr out \<Rightarrow> Inr (if role_kept lmo msg then msg # out else out)))"

definition RedisListMessages :: "'w RedisWire \<Rightarrow> RedisConversation \<Rightarrow> string \<Rightarrow> ListMessagesOption list \<Rightarrow> 'w
    \<Rightarrow> (goerr + Message list) \<times> 'w" where
  "RedisListMessages w c cid opts s =
     (if cid = [] then (Inl id_required, s)
      else case rdLLen w (getKey c cid) s of
        (Inl e, s1) \<Rightarrow> (Inl (wrap_error ''redis llen: '' e), s1)
      | (Inr n, s1) \<Rightarrow>
          (let lmo = list_options (nat n) opts; (start, end) = list_range (nat n) lmo in
           if start \<ge> end then (Inr [], s1)
           else case rdLRange w (getKey c cid) start (end - 1) s1 of
             (Inl e, s2) \<Rightarrow> (Inl (wrap_error ''redis lrange: '' e), s2)
           | (Inr vals, s2) \<Rightarrow> (decode_messages w lmo vals, s2)))"

definition RedisClear :: "'w RedisWire \<Rightarrow> RedisConversation \<Rightarrow> string \<Rightarrow> 'w \<Rightarrow> goerr option \<times> 'w" where
  "RedisClear w c cid s =
     (if cid = [] then (Some id_required, s)
      else case rdDel w (getKey c cid) s of
        (Some e, s1) \<Rightarrow> (Some (wrap_error ''redis del: '' e), s1) | (None, s1) \<Rightarrow> (None, s1))"

definition RedisIsDistributed :: bool where "RedisIsDistributed = True"

text \<open>Whether \<open>Close\<close> closes the client.\<close>

definition RedisClose :: "RedisConversation \<Rightarrow> bool" where
  "RedisClose c \<longleftrightarrow> rcOwnClient c \<and> rcClient c"

end
