(* ===== verification/ConversationFacts.thy ===== *)
theory ConversationFacts
  imports ConversationStore LocalLoop
begin

text \<open>
  What a conversation store promises, as a locale: it keeps the most recent messages of each conversation,
  and a listing is a window of them.  Both stores are shown to keep the promise, the one over Redis as long
  as no command fails and no other client comes between its commands.
\<close>

section \<open>The contract\<close>

definition recent :: "nat \<Rightarrow> 'a list \<Rightarrow> 'a list" where
  "recent n xs = drop (length xs - n) xs"

lemma recent_recent [simp]: "recent n (recent n xs @ ys) = recent n (xs @ ys)"
proof (cases "length xs \<le> n")
  case True
  then show ?thesis by (simp add: recent_def)
next
  case False
  then show ?thesis by (simp add: recent_def add.commute)
qed

lemma recent_all [simp]: "length xs \<le> n \<Longrightarrow> recent n xs = xs"
  by (simp add: recent_def)

lemma length_recent [simp]: "length (recent n xs) = min n (length xs)"
  by (simp add: recent_def)

lemma recent_map: "recent n (map f xs) = map f (recent n xs)"
  by (simp add: recent_def drop_map)

lemma recent_min: "recent l (recent n xs) = recent (min l n) xs"
proof -
  have "length xs - (length xs - n) - l + (length xs - n) = length xs - min l n" by arith
  then show ?thesis by (simp add: recent_def)
qed

lemma recent_subset: "set (recent n xs) \<subseteq> set xs"
  by (simp add: recent_def set_drop_subset)

text \<open>The window of a listing: the last messages are skipped, and of the rest the last are read.\<close>

definition window :: "nat \<Rightarrow> nat \<Rightarrow> 'a list \<Rightarrow> 'a list" where
  "window offset limit xs = recent limit (take (length xs - offset) xs)"

definition spec_listing :: "Message list outcome \<Rightarrow> ListMessagesOption list \<Rightarrow> Message list \<Rightarrow> Message list outcome" where
  "spec_listing beyond opts xs =
     (let lmo = list_options (length xs) opts in
      if xs \<noteq> [] \<and> loOffset lmo > int (length xs) then beyond
      else Returned (Inr (filter (role_kept lmo) (window (nat (loOffset lmo)) (nat (loLimit lmo)) xs))))"

datatype conv_op = ConvAdd string Message | ConvList string "ListMessagesOption list" | ConvClear string

datatype conv_reply = ConvDone "goerr option" | ConvListed "Message list outcome"

text \<open>The specification remembers every message since a conversation was last cleared.\<close>

fun spec_conv :: "nat \<Rightarrow> Message list outcome \<Rightarrow> conv_op \<Rightarrow> (string \<Rightarrow> Message list)
    \<Rightarrow> conv_reply \<times> (string \<Rightarrow> Message list)" where
  "spec_conv n beyond (ConvAdd i m) h = (ConvDone None, h(i := h i @ [m]))"
| "spec_conv n beyond (ConvList i opts) h = (ConvListed (spec_listing beyond opts (recent n (h i))), h)"
| "spec_conv n beyond (ConvClear i) h = (ConvDone None, h(i := []))"

fun conv_ops :: "(conv_op \<Rightarrow> 's \<Rightarrow> conv_reply \<times> 's) \<Rightarrow> conv_op list \<Rightarrow> 's \<Rightarrow> conv_reply list \<times> 's" where
  "conv_ops step [] s = ([], s)"
| "conv_ops step (op # ops) s =
     (let (r, s1) = step op s; (rs, s2) = conv_ops step ops s1 in (r # rs, s2))"

fun store_conv :: "(string \<Rightarrow> Message \<Rightarrow> 's \<Rightarrow> goerr option \<times> 's)
    \<Rightarrow> (string \<Rightarrow> ListMessagesOption list \<Rightarrow> 's \<Rightarrow> Message list outcome \<times> 's)
    \<Rightarrow> (string \<Rightarrow> 's \<Rightarrow> goerr option \<times> 's) \<Rightarrow> conv_op \<Rightarrow> 's \<Rightarrow> conv_reply \<times> 's" where
  "store_conv add listing clr (ConvAdd i m) s = map_prod ConvDone (\<lambda>x. x) (add i m s)"
| "store_conv add listing clr (ConvList i opts) s = map_prod ConvListed (\<lambda>x. x) (listing i opts s)"
| "store_conv add listing clr (ConvClear i) s = map_prod ConvDone (\<lambda>x. x) (clr i s)"

text \<open>Operations on named conversations, with messages the store can encode.\<close>

fun conv_op_ok :: "(Message \<Rightarrow> bool) \<Rightarrow> conv_op \<Rightarrow> bool" where
  "conv_op_ok storable (ConvAdd i m) = (i \<noteq> [] \<and> storable m)"
| "conv_op_ok storable (ConvList i opts) = (i \<noteq> [])"
| "conv_op_ok storable (ConvClear i) = (i \<noteq> [])"

locale conversation_store =
  fixes maxSize :: nat and beyond :: "Message list outcome" and storable :: "Message \<Rightarrow> bool"
    and wf_store :: "'s \<Rightarrow> bool" and kept :: "'s \<Rightarrow> string \<Rightarrow> Message list"
    and add :: "string \<Rightarrow> Message \<Rightarrow> 's \<Rightarrow> goerr option \<times> 's"
    and listing :: "string \<Rightarrow> ListMessagesOption list \<Rightarrow> 's \<Rightarrow> Message list outcome \<times> 's"
    and clr :: "string \<Rightarrow> 's \<Rightarrow> goerr option \<times> 's"
  assumes add_law: "wf_store s \<Longrightarrow> i \<noteq> [] \<Longrightarrow> storable m \<Longrightarrow>
      \<exists>s'. add i m s = (None, s') \<and> wf_store s' \<and> kept s' = (kept s)(i := recent maxSize (kept s i @ [m]))"
    and list_law: "wf_store s \<Longrightarrow> i \<noteq> [] \<Longrightarrow>
      \<exists>s'. listing i opts s = (spec_listing beyond opts (kept s i), s') \<and> wf_store s' \<and> kept s' = kept s"
    and clear_law: "wf_store s \<Longrightarrow> i \<noteq> [] \<Longrightarrow>
      \<exists>s'. clr i s = (None, s') \<and> wf_store s' \<and> kept s' = (kept s)(i := [])"
begin

lemma step_refines:
  assumes "wf_store s" "kept s = recent maxSize \<circ> h" "conv_op_ok storable op"
  shows "\<exists>s'. store_conv add listing clr op s = (fst (spec_conv maxSize beyond op h), s')
     \<and> wf_store s' \<and> kept s' = recent maxSize \<circ> snd (spec_conv maxSize beyond op h)"
proof (cases op)
  case (ConvAdd i m)
  with assms show ?thesis using add_law [of s i m] by (auto simp: fun_eq_iff)
next
  case (ConvList i opts)
  with assms show ?thesis using list_law [of s i opts] by (auto simp: fun_eq_iff)
next
  case (ConvClear i)
  with assms show ?thesis using clear_law [of s i] by (auto simp: fun_eq_iff)
qed

lemma refines:
  assumes "wf_store s" "kept s = recent maxSize \<circ> h" "list_all (conv_op_ok storable) ops"
  shows "fst (conv_ops (store_conv add listing clr) ops s) = fst (conv_ops (spec_conv maxSize beyond) ops h)"
  using assms
proof (induction ops arbitrary: s h)
  case (Cons op ops)
  then obtain s' where s': "store_conv add listing clr op s = (fst (spec_conv maxSize beyond op h), s')"
    "wf_store s'" "kept s' = recent maxSize \<circ> snd (spec_conv maxSize beyond op h)"
    using step_refines [OF Cons.prems(1,2), of op] by (auto simp del: comp_apply)
  from Cons.IH [OF s'(2,3)] Cons.prems(3) s'(1) show ?case by (simp add: Let_def case_prod_beta)
qed simp

end

section \<open>The range a listing reads\<close>

lemma list_options_bounds: "0 \<le> loOffset (list_options n opts)" "0 \<le> loLimit (list_options n opts)"
  by (simp_all add: list_options_def Let_def)

lemma list_range_window:
  assumes "0 \<le> loOffset lmo" "0 \<le> loLimit lmo" "list_range (length xs) lmo = (start, end)"
  shows "take (nat end - nat start) (drop (nat start) xs) = window (nat (loOffset lmo)) (nat (loLimit lmo)) xs"
proof -
  have 1: "start = max 0 (int (length xs) - loOffset lmo - loLimit lmo)"
    "end = int (length xs) - loOffset lmo" using assms by (auto simp: list_range_def Let_def split: if_splits)
  show ?thesis
  proof (cases "loOffset lmo \<le> int (length xs)")
    case True
    then have "nat end = length xs - nat (loOffset lmo)" using 1 assms(1) by linarith
    moreover have "nat start = length xs - nat (loOffset lmo) - nat (loLimit lmo)" using 1 True assms(1,2) by linarith
    ultimately show ?thesis by (simp add: window_def recent_def drop_take)
  next
    case False
    then show ?thesis using 1 by (simp add: window_def recent_def)
  qed
qed

lemma list_range_empty:
  assumes "0 \<le> loOffset lmo" "0 \<le> loLimit lmo" "list_range n lmo = (start, end)"
  shows "end - start < 0 \<longleftrightarrow> loOffset lmo > int n" "0 \<le> start" "start < end \<Longrightarrow> end \<le> int n"
  using assms by (auto simp: list_range_def Let_def split: if_splits)

lemma nth_range: "j \<le> length xs \<Longrightarrow> map (\<lambda>i. xs ! i) [i ..< j] = take (j - i) (drop i xs)"
  by (rule nth_equalityI) auto

section \<open>In memory\<close>

definition inmem_kept :: "InMemoryConversation \<Rightarrow> string \<Rightarrow> Message list" where
  "inmem_kept c i = (case icMessages c i of None \<Rightarrow> [] | Some ms \<Rightarrow> ms)"

definition inmem_wf :: "nat \<Rightarrow> InMemoryConversation \<Rightarrow> bool" where
  "inmem_wf n c \<longleftrightarrow> icMaxSize c = int n \<and> 0 < n
     \<and> (\<forall>i. icMessages c i \<noteq> Some [] \<and> length (inmem_kept c i) \<le> n)"

definition inmem_listing :: "string \<Rightarrow> ListMessagesOption list \<Rightarrow> InMemoryConversation
    \<Rightarrow> Message list outcome \<times> InMemoryConversation" where
  "inmem_listing i opts c = (InmemListMessages i opts c, c)"

lemma inmem_add:
  assumes "inmem_wf n c" "i \<noteq> []"
  shows "\<exists>c'. InmemAddMessage i m c = (None, c') \<and> inmem_wf n c'
     \<and> inmem_kept c' = (inmem_kept c)(i := recent n (inmem_kept c i @ [m]))"
proof -
  have "recent n (inmem_kept c i @ [m]) \<noteq> []" using assms(1) by (simp add: inmem_wf_def recent_def)
  moreover have "InmemAddMessage i m c = (None, c\<lparr>icMessages := (icMessages c)(i \<mapsto> recent n (inmem_kept c i @ [m]))\<rparr>)"
    using assms by (auto simp: InmemAddMessage_def inmem_wf_def inmem_kept_def recent_def Let_def split: option.splits)
  ultimately show ?thesis using assms(1) by (auto simp: inmem_wf_def inmem_kept_def fun_eq_iff)
qed

lemma inmem_list:
  assumes "inmem_wf n c" "i \<noteq> []"
  shows "InmemListMessages i opts c = spec_listing Panicked opts (inmem_kept c i)"
proof (cases "icMessages c i")
  case None
  then show ?thesis using assms(2)
    by (simp add: InmemListMessages_def spec_listing_def inmem_kept_def window_def recent_def Let_def)
next
  case (Some xs)
  define lmo where "lmo = list_options (length xs) opts"
  note b = list_options_bounds [of "length xs" opts, folded lmo_def]
  obtain start fin where r: "list_range (length xs) lmo = (start, fin)" by fastforce
  note e = list_range_empty [OF b r]
  have x: "xs \<noteq> []" using assms(1) Some by (auto simp: inmem_wf_def)
  have k: "inmem_kept c i = xs" by (simp add: inmem_kept_def Some)
  show ?thesis
  proof (cases "fin - start < 0")
    case True
    then show ?thesis using assms(2) Some r e(1) x
      by (simp add: InmemListMessages_def spec_listing_def k Let_def flip: lmo_def)
  next
    case False
    then have "nat fin \<le> length xs" using r e(1) b by (auto simp: list_range_def Let_def split: if_splits)
    then have "map (\<lambda>i. xs ! i) [nat start ..< nat fin] = window (nat (loOffset lmo)) (nat (loLimit lmo)) xs"
      using nth_range [of "nat fin" xs "nat start"] list_range_window [OF b r] by simp
    then show ?thesis using assms(2) Some r e(1) False
      by (simp add: InmemListMessages_def spec_listing_def k Let_def flip: lmo_def)
  qed
qed

interpretation inmem: conversation_store n Panicked "\<lambda>_. True" "inmem_wf n" inmem_kept
  InmemAddMessage inmem_listing InmemClear for n
proof unfold_locales
  fix s :: InMemoryConversation and i :: string and m and opts
  assume "inmem_wf n s" "i \<noteq> []"
  then show "\<exists>s'. inmem_listing i opts s = (spec_listing Panicked opts (inmem_kept s i), s')
     \<and> inmem_wf n s' \<and> inmem_kept s' = inmem_kept s" by (simp add: inmem_listing_def inmem_list)
  show "\<exists>s'. InmemClear i s = (None, s') \<and> inmem_wf n s' \<and> inmem_kept s' = (inmem_kept s)(i := [])"
    using \<open>inmem_wf n s\<close> \<open>i \<noteq> []\<close> by (auto simp: InmemClear_def inmem_wf_def inmem_kept_def fun_eq_iff)
qed (rule inmem_add)

lemma NewInMemoryConversation_wf:
  "inmem_wf (nat (icMaxSize (NewInMemoryConversation options))) (NewInMemoryConversation options)"
  "inmem_kept (NewInMemoryConversation options) = (\<lambda>_. [])"
proof -
  have "icMessages (fold (\<lambda>size c. c\<lparr>icMaxSize := size\<rparr>) options c) = icMessages c" for c :: InMemoryConversation
    by (induction options arbitrary: c) auto
  then have "icMessages (NewInMemoryConversation options) = (\<lambda>_. None)"
    by (simp add: NewInMemoryConversation_def Let_def)
  moreover have "icMaxSize (NewInMemoryConversation options) > 0"
    by (simp add: NewInMemoryConversation_def defaultMaxSize_def Let_def)
  ultimately show "inmem_wf (nat (icMaxSize (NewInMemoryConversation options))) (NewInMemoryConversation options)"
    "inmem_kept (NewInMemoryConversation options) = (\<lambda>_. [])" by (simp_all add: inmem_wf_def inmem_kept_def fun_eq_iff)
qed

section \<open>The in-memory store in a runtime\<close>

text \<open>The store as part of the world of a runtime, which lists with a limit and no offset.\<close>

definition inmem_conversation :: "('w \<Rightarrow> InMemoryConversation) \<Rightarrow> (InMemoryConversation \<Rightarrow> 'w \<Rightarrow> 'w) \<Rightarrow> 'w Conversation" where
  "inmem_conversation get put =
     \<lparr>convAddMessage = (\<lambda>i m w. map_prod (\<lambda>x. x) (\<lambda>c. put c w) (InmemAddMessage i m (get w))),
      convListMessages = (\<lambda>i limit w.
        (case InmemListMessages i [WithLimit limit] (get w) of Returned r \<Rightarrow> r | _ \<Rightarrow> Inr [], w))\<rparr>"

definition history_role :: "Message \<Rightarrow> bool" where
  "history_role m \<longleftrightarrow> mRole m \<in> {RoleUser, RoleAssistant, RoleTool}"

lemma InmemListMessages_limit:
  assumes "inmem_wf n c" "i \<noteq> []" "0 \<le> limit"
  shows "InmemListMessages i [WithLimit limit] c = Returned (Inr (filter history_role (recent (nat limit) (inmem_kept c i))))"
proof -
  have "role_kept \<lparr>loLimit = limit, loOffset = 0, loRoles = [RoleUser, RoleAssistant, RoleTool]\<rparr> = history_role"
    by (auto simp: fun_eq_iff role_kept_def roleIn_def history_role_def)
  then show ?thesis using inmem_list [OF assms(1,2), of "[WithLimit limit]"] assms(3)
    by (simp add: spec_listing_def list_options_def list_defaults_def WithLimit_def window_def Let_def)
qed

lemma persist_inmem:
  assumes "inmem_wf n (get (world s))" "i \<noteq> []" "\<And>c w. get (put c w) = c"
  shows "inmem_wf n (get (world (foldl (\<lambda>s m. add_message (inmem_conversation get put) i m s) s ms)))
     \<and> inmem_kept (get (world (foldl (\<lambda>s m. add_message (inmem_conversation get put) i m s) s ms))) i
       = recent n (inmem_kept (get (world s)) i @ ms)"
  using assms(1)
proof (induction ms arbitrary: s)
  case Nil
  then show ?case by (simp add: inmem_wf_def)
next
  case (Cons m ms)
  let ?s = "add_message (inmem_conversation get put) i m s"
  obtain c' where "InmemAddMessage i m (get (world s)) = (None, c')" "inmem_wf n c'"
    "inmem_kept c' = (inmem_kept (get (world s)))(i := recent n (inmem_kept (get (world s)) i @ [m]))"
    using inmem_add [OF Cons.prems assms(2)] by blast
  moreover from this(1) have "get (world ?s) = c'"
    by (simp add: add_message_def inmem_conversation_def ext_def logged_def assms(3))
  ultimately show ?case using Cons.IH [of ?s] by simp
qed

lemma next_run_reads:
  assumes "rtConversation (locBase lrt) = Some (inmem_conversation get put)" "\<And>c w. get (put c w) = c"
    and "inmem_wf n (get (world s))" "i \<noteq> []"
  shows "fst (FetchConversationMessages (locBase lrt) i (persistConversationMessages lrt i ms s))
     = Inr (filter history_role
         (recent (nat (if rtConversationSize (locBase lrt) \<le> 0 then 20 else rtConversationSize (locBase lrt)))
            (recent n (inmem_kept (get (world s)) i @ ms))))"
proof -
  let ?limit = "if rtConversationSize (locBase lrt) \<le> 0 then 20 else rtConversationSize (locBase lrt)"
  let ?s = "foldl (\<lambda>s m. add_message (inmem_conversation get put) i m s) s ms"
  have "0 \<le> ?limit" by simp
  note p = persist_inmem [OF assms(3,4,2), where ms = ms]
  show ?thesis using InmemListMessages_limit [OF conjunct1 [OF p] assms(4) \<open>0 \<le> ?limit\<close>] conjunct2 [OF p] assms(1)
    by (simp add: FetchConversationMessages_def persistConversationMessages_def inmem_conversation_def ext_def Let_def)
qed

section \<open>Redis\<close>

text \<open>What the commands do to the lists of the server, when none fails and no key expires meanwhile.\<close>

definition redis_lists :: "'w RedisWire \<Rightarrow> ('w \<Rightarrow> string \<Rightarrow> string list) \<Rightarrow> bool" where
  "redis_lists w vals \<longleftrightarrow>
     (\<forall>k v s. \<exists>s'. rdPushLen w k v s = (Inr (Inr (int (length (vals s k @ [v])))), s') \<and> vals s' = (vals s)(k := vals s k @ [v]))
   \<and> (\<forall>k a s. 0 \<le> a \<longrightarrow> (\<exists>s'. rdLTrim w k a (- 1) s = (None, s') \<and> vals s' = (vals s)(k := drop (nat a) (vals s k))))
   \<and> (\<forall>k d s. \<exists>s'. rdExpire w k d s = (None, s') \<and> vals s' = vals s)
   \<and> (\<forall>k s. \<exists>s'. rdLLen w k s = (Inr (int (length (vals s k))), s') \<and> vals s' = vals s)
   \<and> (\<forall>k a b s. 0 \<le> a \<and> a \<le> b \<longrightarrow>
        (\<exists>s'. rdLRange w k a b s = (Inr (take (nat (b + 1) - nat a) (drop (nat a) (vals s k))), s') \<and> vals s' = vals s))
   \<and> (\<forall>k s. \<exists>s'. rdDel w k s = (None, s') \<and> vals s' = (vals s)(k := []))"

definition redis_storable :: "'w RedisWire \<Rightarrow> Message \<Rightarrow> bool" where
  "redis_storable w m \<longleftrightarrow> (\<exists>d. rdMarshal w m = Inr d \<and> rdUnmarshal w d = Inr m)"

definition redis_kept :: "'w RedisWire \<Rightarrow> ('w \<Rightarrow> string \<Rightarrow> string list) \<Rightarrow> RedisConversation \<Rightarrow> 'w \<Rightarrow> string \<Rightarrow> Message list" where
  "redis_kept w vals c s i = map (\<lambda>v. projr (rdUnmarshal w v)) (vals s (getKey c i))"

definition redis_wf :: "'w RedisWire \<Rightarrow> ('w \<Rightarrow> string \<Rightarrow> string list) \<Rightarrow> RedisConversation \<Rightarrow> 'w \<Rightarrow> bool" where
  "redis_wf w vals c s \<longleftrightarrow> 0 < rcMaxSize c
     \<and> (\<forall>i. length (vals s (getKey c i)) \<le> nat (rcMaxSize c) \<and> (\<forall>v \<in> set (vals s (getKey c i)). \<not> isl (rdUnmarshal w v)))"

lemma getKey_inj [simp]: "getKey c i = getKey c j \<longleftrightarrow> i = j"
  by (simp add: getKey_def)

lemma redis_expire_lists:
  assumes "redis_lists w vals"
  shows "\<exists>s'. redis_expire w c i s = (None, s') \<and> vals s' = vals s"
proof -
  obtain s' where "rdExpire w (getKey c i) (rcTTL c) s = (None, s')" "vals s' = vals s"
    using assms unfolding redis_lists_def by metis
  then show ?thesis by (auto simp: redis_expire_def)
qed

lemma redis_push_lists:
  assumes "redis_lists w vals" "i \<noteq> []" "rdMarshal w m = Inr d"
  shows "\<exists>s'. redis_push w c i m s = (Inr (int (length (vals s (getKey c i)) + 1)), s')
     \<and> vals s' = (vals s)(getKey c i := vals s (getKey c i) @ [d])"
proof -
  obtain s' where "rdPushLen w (getKey c i) d s = (Inr (Inr (int (length (vals s (getKey c i) @ [d])))), s')"
    "vals s' = (vals s)(getKey c i := vals s (getKey c i) @ [d])"
    using assms(1) unfolding redis_lists_def by metis
  then show ?thesis using assms(2,3) by (simp add: redis_push_def)
qed

text \<open>The list is cut by what the length \<open>n\<close> read earlier is too much, whatever its length is by then.\<close>

lemma redis_trim_lists:
  assumes "redis_lists w vals" "0 < rcMaxSize c"
  shows "\<exists>s'. redis_trim w c i n s = (None, s')
     \<and> vals s' = (vals s)(getKey c i := drop (nat (n - rcMaxSize c)) (vals s (getKey c i)))"
proof (cases "n > rcMaxSize c")
  case True
  then obtain s1 where "rdLTrim w (getKey c i) (n - rcMaxSize c) (- 1) s = (None, s1)"
    "vals s1 = (vals s)(getKey c i := drop (nat (n - rcMaxSize c)) (vals s (getKey c i)))"
    using assms(1) unfolding redis_lists_def by (metis diff_ge_0_iff_ge less_imp_le)
  with True assms(2) redis_expire_lists [OF assms(1), of c i s1] show ?thesis by (auto simp: redis_trim_def)
next
  case False
  with redis_expire_lists [OF assms(1), of c i s] show ?thesis by (auto simp: redis_trim_def)
qed

lemma redis_add:
  assumes "redis_lists w vals" "redis_wf w vals c s" "i \<noteq> []" "redis_storable w m"
  shows "\<exists>s'. RedisAddMessage w c i m s = (None, s') \<and> redis_wf w vals c s'
     \<and> redis_kept w vals c s' = (redis_kept w vals c s)(i := recent (nat (rcMaxSize c)) (redis_kept w vals c s i @ [m]))"
proof -
  obtain d where d: "rdMarshal w m = Inr d" "rdUnmarshal w d = Inr m" using assms(4) by (auto simp: redis_storable_def)
  let ?k = "getKey c i"
  obtain s1 where s1: "redis_push w c i m s = (Inr (int (length (vals s ?k) + 1)), s1)"
    "vals s1 = (vals s)(?k := vals s ?k @ [d])" using redis_push_lists [OF assms(1,3) d(1)] by blast
  have pos: "0 < rcMaxSize c" using assms(2) by (simp add: redis_wf_def)
  obtain s2 where s2: "redis_trim w c i (int (length (vals s ?k) + 1)) s1 = (None, s2)"
    "vals s2 = (vals s1)(?k := drop (nat (int (length (vals s ?k) + 1) - rcMaxSize c)) (vals s1 ?k))"
    using redis_trim_lists [OF assms(1) pos] by blast
  have n: "nat (int (length (vals s ?k) + 1) - rcMaxSize c) = length (vals s ?k @ [d]) - nat (rcMaxSize c)"
    using pos by simp
  have l: "vals s2 = (vals s)(?k := recent (nat (rcMaxSize c)) (vals s ?k @ [d]))"
    unfolding s2(2) s1(2) n by (simp add: recent_def fun_upd_upd)
  have "RedisAddMessage w c i m s = (None, s2)" using s1(1) s2(1) by (simp add: RedisAddMessage_def)
  moreover have "redis_wf w vals c s2"
    using assms(2) d(2) recent_subset [of "nat (rcMaxSize c)" "vals s ?k @ [d]"]
    unfolding redis_wf_def l by (auto simp: isl_def)
  moreover have "redis_kept w vals c s2 = (redis_kept w vals c s)(i := recent (nat (rcMaxSize c)) (redis_kept w vals c s i @ [m]))"
    by (rule ext) (simp add: redis_kept_def l d(2) flip: recent_map)
  ultimately show ?thesis by blast
qed

lemma decode_messages_Inr:
  "\<forall>v \<in> set vs. \<not> isl (rdUnmarshal w v) \<Longrightarrow>
     decode_messages w lmo vs = Inr (filter (role_kept lmo) (map (\<lambda>v. projr (rdUnmarshal w v)) vs))"
  by (induction vs) (auto simp: isl_def split: sum.splits)

lemma redis_list:
  assumes "redis_lists w vals" "redis_wf w vals c s" "i \<noteq> []"
  shows "\<exists>s'. map_prod Returned (\<lambda>x. x) (RedisListMessages w c i opts s)
        = (spec_listing (Returned (Inr [])) opts (redis_kept w vals c s i), s') \<and> vals s' = vals s"
proof -
  let ?xs = "vals s (getKey c i)" and ?f = "\<lambda>v. projr (rdUnmarshal w v)"
  define lmo where "lmo = list_options (length ?xs) opts"
  note b = list_options_bounds [of "length ?xs" opts, folded lmo_def]
  obtain start fin where r: "list_range (length ?xs) lmo = (start, fin)" by fastforce
  note e = list_range_empty [OF b r]
  obtain s1 where s1: "rdLLen w (getKey c i) s = (Inr (int (length ?xs)), s1)" "vals s1 = vals s"
    using assms(1) unfolding redis_lists_def by metis
  have k: "redis_kept w vals c s i = map ?f ?xs" by (simp add: redis_kept_def)
  have w: "window (nat (loOffset lmo)) (nat (loLimit lmo)) (map ?f ?xs)
      = map ?f (take (nat fin - nat start) (drop (nat start) ?xs))"
    using list_range_window [OF b r] by (simp add: window_def recent_map take_map)
  show ?thesis
  proof (cases "start \<ge> fin")
    case True
    then show ?thesis using s1 assms(3) r w
      by (auto simp: RedisListMessages_def spec_listing_def k Let_def simp flip: lmo_def)
  next
    case False
    then have "0 \<le> start \<and> start \<le> fin - 1" using e(2) by simp
    then obtain s2 where s2: "rdLRange w (getKey c i) start (fin - 1) s1
        = (Inr (take (nat (fin - 1 + 1) - nat start) (drop (nat start) (vals s1 (getKey c i)))), s2)" "vals s2 = vals s1"
      using assms(1) unfolding redis_lists_def by metis
    have "\<forall>v \<in> set (take (nat fin - nat start) (drop (nat start) ?xs)). \<not> isl (rdUnmarshal w v)"
      using assms(2) unfolding redis_wf_def by (meson in_set_dropD in_set_takeD)
    from decode_messages_Inr [OF this] show ?thesis using False s1 s2 assms(3) r w e(1)
      by (auto simp: RedisListMessages_def spec_listing_def k Let_def simp flip: lmo_def)
  qed
qed

lemma redis_clear:
  assumes "redis_lists w vals" "redis_wf w vals c s" "i \<noteq> []"
  shows "\<exists>s'. RedisClear w c i s = (None, s') \<and> redis_wf w vals c s'
     \<and> redis_kept w vals c s' = (redis_kept w vals c s)(i := [])"
proof -
  obtain s' where "rdDel w (getKey c i) s = (None, s')" "vals s' = (vals s)(getKey c i := [])"
    using assms(1) unfolding redis_lists_def by metis
  then show ?thesis using assms(2,3) by (auto simp: RedisClear_def redis_wf_def redis_kept_def fun_eq_iff)
qed

lemma redis_store:
  assumes "redis_lists w vals"
  shows "conversation_store (nat (rcMaxSize c)) (Returned (Inr [])) (redis_storable w) (redis_wf w vals c) (redis_kept w vals c)
     (RedisAddMessage w c) (\<lambda>i opts s. map_prod Returned (\<lambda>x. x) (RedisListMessages w c i opts s)) (RedisClear w c)"
proof unfold_locales
  fix s and i :: string and opts assume a: "redis_wf w vals c s" "i \<noteq> []"
  obtain s' where "map_prod Returned (\<lambda>x. x) (RedisListMessages w c i opts s)
      = (spec_listing (Returned (Inr [])) opts (redis_kept w vals c s i), s')" "vals s' = vals s"
    using redis_list [OF assms a] by blast
  then show "\<exists>s'. map_prod Returned (\<lambda>x. x) (RedisListMessages w c i opts s)
        = (spec_listing (Returned (Inr [])) opts (redis_kept w vals c s i), s')
      \<and> redis_wf w vals c s' \<and> redis_kept w vals c s' = redis_kept w vals c s"
    using a(1) by (auto simp: redis_wf_def redis_kept_def fun_eq_iff)
qed (auto intro: redis_add [OF assms] redis_clear [OF assms])

text \<open>Two clients that add to a full conversation at the same time cut it twice.\<close>

lemma redis_overtrims:
  assumes "redis_lists w vals" "0 < rcMaxSize c" "i \<noteq> []" "rdMarshal w m1 = Inr d1" "rdMarshal w m2 = Inr d2"
    and "length (vals s (getKey c i)) = nat (rcMaxSize c)"
  shows "\<exists>n1 s1 n2 s2 s3 s4. redis_push w c i m1 s = (Inr n1, s1) \<and> redis_push w c i m2 s1 = (Inr n2, s2)
     \<and> redis_trim w c i n1 s2 = (None, s3) \<and> redis_trim w c i n2 s3 = (None, s4)
     \<and> vals s4 (getKey c i) = drop 3 (vals s (getKey c i) @ [d1, d2])"
proof -
  let ?k = "getKey c i"
  obtain s1 where 1: "redis_push w c i m1 s = (Inr (int (length (vals s ?k) + 1)), s1)"
    "vals s1 = (vals s)(?k := vals s ?k @ [d1])" using redis_push_lists [OF assms(1,3,4)] by blast
  obtain s2 where 2: "redis_push w c i m2 s1 = (Inr (int (length (vals s1 ?k) + 1)), s2)"
    "vals s2 = (vals s1)(?k := vals s1 ?k @ [d2])" using redis_push_lists [OF assms(1,3,5)] by blast
  obtain s3 where 3: "redis_trim w c i (int (length (vals s ?k) + 1)) s2 = (None, s3)"
    "vals s3 = (vals s2)(?k := drop (nat (int (length (vals s ?k) + 1) - rcMaxSize c)) (vals s2 ?k))"
    using redis_trim_lists [OF assms(1,2)] by blast
  obtain s4 where 4: "redis_trim w c i (int (length (vals s1 ?k) + 1)) s3 = (None, s4)"
    "vals s4 = (vals s3)(?k := drop (nat (int (length (vals s1 ?k) + 1) - rcMaxSize c)) (vals s3 ?k))"
    using redis_trim_lists [OF assms(1,2)] by blast
  have "vals s4 ?k = drop 3 (vals s ?k @ [d1, d2])"
    using assms(2,6) by (simp add: 4(2) 3(2) 2(2) 1(2) numeral_3_eq_3)
  with 1(1) 2(1) 3(1) 4(1) show ?thesis by blast
qed

end
