(* ===== verification/EventBus.thy ===== *)
theory EventBus
  imports Prelude
begin

text \<open>
  The in-process event bus (\<open>internal/eventbus/inmem.go\<close>): channels with subscribers, each a Go channel of
  capacity 64.  Publishing copies the list of subscribers under the lock and sends outside of it; closing a
  subscription takes it from the list under the lock and then closes the Go channel.  So a call of
  \<open>Publish\<close> or of a close function is several steps, between which others may come, and the bus is a step
  relation over all of them.
\<close>

section \<open>State\<close>

definition subscriberCapacity :: nat where "subscriberCapacity = 64"

text \<open>A call of \<open>Publish\<close> in flight: what it sends, to whom it has sent it, and to whom it has yet to.\<close>

record publisher =
  puPayload :: string
  puDone :: "nat list"
  puTodo :: "nat list"

text \<open>\<open>buSent\<close> and \<open>buGot\<close> are the histories of a Go channel: what was sent to it and what was received.
  \<open>buClosing\<close> counts the close functions that have left the lock and not yet closed the channel.\<close>

record bus =
  buSubs :: "string \<Rightarrow> nat list"
  buNext :: nat
  buQueue :: "nat \<Rightarrow> string list"
  buClosed :: "nat \<Rightarrow> bool"
  buClosing :: "nat \<Rightarrow> nat"
  buPubs :: "nat \<Rightarrow> publisher option"
  buSent :: "nat \<Rightarrow> string list"
  buGot :: "nat \<Rightarrow> string list"
  buPanic :: bool

definition NewInmem :: bus where
  "NewInmem = \<lparr>buSubs = (\<lambda>_. []), buNext = 0, buQueue = (\<lambda>_. []), buClosed = (\<lambda>_. False), buClosing = (\<lambda>_. 0),
     buPubs = (\<lambda>_. None), buSent = (\<lambda>_. []), buGot = (\<lambda>_. []), buPanic = False\<rparr>"

section \<open>Operations\<close>

definition Subscribe :: "string \<Rightarrow> bus \<Rightarrow> nat \<times> bus" where
  "Subscribe ch b =
     (buNext b, b\<lparr>buNext := buNext b + 1, buSubs := (buSubs b)(ch := buSubs b ch @ [buNext b])\<rparr>)"

definition publish_begin :: "nat \<Rightarrow> string \<Rightarrow> string \<Rightarrow> bus \<Rightarrow> bus" where
  "publish_begin p ch data b =
     b\<lparr>buPubs := (buPubs b)(p \<mapsto> \<lparr>puPayload = data, puDone = [], puTodo = buSubs b ch\<rparr>)\<rparr>"

text \<open>The next send: a closed channel panics, a full one blocks (\<open>None\<close>).\<close>

definition publish_send :: "nat \<Rightarrow> bus \<Rightarrow> bus option" where
  "publish_send p b =
     (case buPubs b p of
        Some pu \<Rightarrow>
          (case puTodo pu of
             i # todo \<Rightarrow>
               if buClosed b i then Some (b\<lparr>buPanic := True\<rparr>)
               else if length (buQueue b i) < subscriberCapacity then
                 Some (b\<lparr>buQueue := (buQueue b)(i := buQueue b i @ [puPayload pu]),
                         buSent := (buSent b)(i := buSent b i @ [puPayload pu]),
                         buPubs := (buPubs b)(p \<mapsto> pu\<lparr>puDone := puDone pu @ [i], puTodo := todo\<rparr>)\<rparr>)
               else None
           | [] \<Rightarrow> None)
      | None \<Rightarrow> None)"

text \<open>\<open>Publish\<close> returns when all was sent, or when its context is done.\<close>

definition publish_end :: "nat \<Rightarrow> bus \<Rightarrow> bus" where
  "publish_end p b = b\<lparr>buPubs := (buPubs b)(p := None)\<rparr>"

definition close_remove :: "string \<Rightarrow> nat \<Rightarrow> bus \<Rightarrow> bus" where
  "close_remove ch i b =
     b\<lparr>buSubs := (buSubs b)(ch := remove1 i (buSubs b ch)), buClosing := (buClosing b)(i := buClosing b i + 1)\<rparr>"

definition close_channel :: "nat \<Rightarrow> bus \<Rightarrow> bus" where
  "close_channel i b =
     (let b1 = b\<lparr>buClosing := (buClosing b)(i := buClosing b i - 1)\<rparr> in
      if buClosed b i then b1\<lparr>buPanic := True\<rparr> else b1\<lparr>buClosed := (buClosed b)(i := True)\<rparr>)"

definition receive_event :: "nat \<Rightarrow> bus \<Rightarrow> (string \<times> bus) option" where
  "receive_event i b =
     (case buQueue b i of
        [] \<Rightarrow> None
      | e # es \<Rightarrow> Some (e, b\<lparr>buQueue := (buQueue b)(i := es), buGot := (buGot b)(i := buGot b i @ [e])\<rparr>))"

section \<open>Steps\<close>

text \<open>\<open>safe\<close> restricts who may close: each subscription is closed once, on its own channel, and only while no
  call of \<open>Publish\<close> still has to send to it.\<close>

definition may_close :: "string \<Rightarrow> nat \<Rightarrow> bus \<Rightarrow> bool" where
  "may_close ch i b \<longleftrightarrow> i \<in> set (buSubs b ch) \<and> (\<forall>p pu. buPubs b p = Some pu \<longrightarrow> i \<notin> set (puTodo pu))"

inductive bus_step :: "bool \<Rightarrow> bus \<Rightarrow> bus \<Rightarrow> bool" for safe :: bool where
  subscribe: "\<not> buPanic b \<Longrightarrow> bus_step safe b (snd (Subscribe ch b))"
| publish: "\<not> buPanic b \<Longrightarrow> buPubs b p = None \<Longrightarrow> bus_step safe b (publish_begin p ch data b)"
| send: "\<not> buPanic b \<Longrightarrow> publish_send p b = Some b' \<Longrightarrow> bus_step safe b b'"
| return: "\<not> buPanic b \<Longrightarrow> buPubs b p \<noteq> None \<Longrightarrow> bus_step safe b (publish_end p b)"
| remove: "\<not> buPanic b \<Longrightarrow> i < buNext b \<Longrightarrow> (safe \<Longrightarrow> may_close ch i b) \<Longrightarrow> bus_step safe b (close_remove ch i b)"
| close: "\<not> buPanic b \<Longrightarrow> 0 < buClosing b i \<Longrightarrow> bus_step safe b (close_channel i b)"
| receive: "\<not> buPanic b \<Longrightarrow> receive_event i b = Some (e, b') \<Longrightarrow> bus_step safe b b'"

inductive bus_reach :: "bool \<Rightarrow> bus \<Rightarrow> bool" for safe :: bool where
  start: "bus_reach safe NewInmem"
| step: "bus_reach safe b \<Longrightarrow> bus_step safe b b' \<Longrightarrow> bus_reach safe b'"

lemmas bus_ops = Subscribe_def publish_begin_def publish_send_def publish_end_def close_remove_def close_channel_def
  receive_event_def Let_def

section \<open>Delivery\<close>

text \<open>Each subscriber receives what was sent to it, in order and once; at most 64 events wait; and a call of
  \<open>Publish\<close> has sent to every subscriber it has passed.\<close>

definition channels_ok :: "bus \<Rightarrow> bool" where
  "channels_ok b \<longleftrightarrow> (\<forall>i. buSent b i = buGot b i @ buQueue b i \<and> length (buQueue b i) \<le> subscriberCapacity)"

definition passed_ok :: "bus \<Rightarrow> bool" where
  "passed_ok b \<longleftrightarrow> (\<forall>p pu. buPubs b p = Some pu \<longrightarrow> (\<forall>i \<in> set (puDone pu). puPayload pu \<in> set (buSent b i)))"

definition bus_inv :: "bus \<Rightarrow> bool" where
  "bus_inv b \<longleftrightarrow> channels_ok b \<and> passed_ok b"

lemma bus_inv_start: "bus_inv NewInmem"
  by (simp add: bus_inv_def channels_ok_def passed_ok_def NewInmem_def)

lemma publish_send_cases:
  assumes "publish_send p b = Some b'"
  obtains pu i todo where "buPubs b p = Some pu" "puTodo pu = i # todo" "buClosed b i" "b' = b\<lparr>buPanic := True\<rparr>"
  | pu i todo where "buPubs b p = Some pu" "puTodo pu = i # todo" "\<not> buClosed b i"
      "length (buQueue b i) < subscriberCapacity"
      "b' = b\<lparr>buQueue := (buQueue b)(i := buQueue b i @ [puPayload pu]), buSent := (buSent b)(i := buSent b i @ [puPayload pu]),
              buPubs := (buPubs b)(p \<mapsto> pu\<lparr>puDone := puDone pu @ [i], puTodo := todo\<rparr>)\<rparr>"
  using assms by (auto simp: publish_send_def split: option.splits list.splits if_splits)

lemma bus_inv_send:
  assumes "bus_inv b" "publish_send p b = Some b'"
  shows "bus_inv b'"
  using assms(2)
proof (cases rule: publish_send_cases)
  case 1
  have "channels_ok b'" using assms(1) unfolding 1(4) by (simp add: bus_inv_def channels_ok_def)
  moreover have "passed_ok b'" using assms(1) unfolding 1(4) by (simp add: bus_inv_def passed_ok_def)
  ultimately show ?thesis by (simp add: bus_inv_def)
next
  case (2 pu i todo)
  have "channels_ok b'" using assms(1) 2(4) unfolding 2(5) by (auto simp: bus_inv_def channels_ok_def)
  moreover have "passed_ok b'" using assms(1) 2(1) unfolding 2(5) by (auto simp: bus_inv_def passed_ok_def)
  ultimately show ?thesis by (simp add: bus_inv_def)
qed

lemma bus_inv_receive:
  assumes "bus_inv b" "receive_event i b = Some (e, b')"
  shows "bus_inv b'"
proof -
  obtain es where q: "buQueue b i = e # es"
    "b' = b\<lparr>buQueue := (buQueue b)(i := es), buGot := (buGot b)(i := buGot b i @ [e])\<rparr>"
    using assms(2) by (auto simp: receive_event_def split: list.splits)
  have "buSent b i = buGot b i @ buQueue b i" "length (buQueue b i) \<le> subscriberCapacity"
    using assms(1) by (simp_all add: bus_inv_def channels_ok_def)
  then have "channels_ok b'" using assms(1) q(1) unfolding q(2) by (auto simp: bus_inv_def channels_ok_def)
  moreover have "passed_ok b'" using assms(1) unfolding q(2) by (simp add: bus_inv_def passed_ok_def)
  ultimately show ?thesis by (simp add: bus_inv_def)
qed

lemma bus_inv_step:
  assumes "bus_step safe b b'" "bus_inv b"
  shows "bus_inv b'"
  using assms
proof cases
  case (send p)
  then show ?thesis using bus_inv_send assms(2) by blast
next
  case (receive i e)
  then show ?thesis using bus_inv_receive assms(2) by blast
qed (use assms(2) in \<open>auto simp: bus_ops bus_inv_def channels_ok_def passed_ok_def split: if_splits\<close>)

lemma bus_inv_reach: "bus_reach safe b \<Longrightarrow> bus_inv b"
  by (induction rule: bus_reach.induct) (auto intro: bus_inv_start bus_inv_step)

section \<open>Closing\<close>

text \<open>Under the restriction, a subscription that is being closed or closed is in no list and has no sender.\<close>

definition gone :: "bus \<Rightarrow> nat \<Rightarrow> bool" where
  "gone b i \<longleftrightarrow> (\<forall>ch. i \<notin> set (buSubs b ch)) \<and> (\<forall>p pu. buPubs b p = Some pu \<longrightarrow> i \<notin> set (puTodo pu))"

definition close_inv :: "bus \<Rightarrow> bool" where
  "close_inv b \<longleftrightarrow> \<not> buPanic b
     \<and> (\<forall>ch. distinct (buSubs b ch)) \<and> (\<forall>c d i. i \<in> set (buSubs b c) \<and> i \<in> set (buSubs b d) \<longrightarrow> c = d)
     \<and> (\<forall>ch. \<forall>i \<in> set (buSubs b ch). i < buNext b)
     \<and> (\<forall>i. buClosing b i \<le> 1 \<and> (buClosed b i \<longrightarrow> buClosing b i = 0)
          \<and> (buClosed b i \<or> 0 < buClosing b i \<longrightarrow> i < buNext b \<and> gone b i))"

lemma close_inv_start: "close_inv NewInmem"
  by (simp add: close_inv_def NewInmem_def)

lemma close_inv_keep:
  assumes "close_inv b" "buPanic b' = buPanic b" "buSubs b' = buSubs b" "buNext b' = buNext b"
    and "buClosing b' = buClosing b" "buClosed b' = buClosed b" "\<And>j. gone b j \<Longrightarrow> gone b' j"
  shows "close_inv b'"
  using assms(1) unfolding close_inv_def assms(2-6) by (intro conjI) (blast intro: assms(7))+

lemma close_inv_subscribe: "close_inv b \<Longrightarrow> close_inv (snd (Subscribe ch b))"
  by (auto simp: close_inv_def gone_def Subscribe_def less_Suc_eq)
     (meson less_irrefl | metis less_irrefl)+

lemma close_inv_publish: "close_inv b \<Longrightarrow> close_inv (publish_begin p ch data b)"
  by (auto simp: close_inv_def gone_def publish_begin_def)

lemma close_inv_send:
  assumes "close_inv b" "publish_send p b = Some b'"
  shows "close_inv b'"
  using assms(2)
proof (cases rule: publish_send_cases)
  case (1 pu i todo)
  then have "i \<in> set (puTodo pu)" by simp
  then have "\<not> gone b i" using 1(1) unfolding gone_def by blast
  then show ?thesis using assms(1) 1(3) by (auto simp: close_inv_def)
next
  case (2 pu i todo)
  have t: "set todo \<subseteq> set (puTodo pu)" using 2(2) by auto
  have "gone b' j" if "gone b j" for j
  proof -
    have "j \<notin> set todo" using that 2(1) t unfolding gone_def by blast
    then show ?thesis using that by (simp add: gone_def 2(5))
  qed
  then show ?thesis by (intro close_inv_keep [OF assms(1)]) (simp_all add: 2(5))
qed

lemma close_inv_remove:
  assumes "close_inv b" "may_close ch i b"
  shows "close_inv (close_remove ch i b)"
proof -
  let ?b = "close_remove ch i b"
  have i: "i \<in> set (buSubs b ch)" using assms(2) by (simp add: may_close_def)
  then have "\<not> gone b i" unfolding gone_def by blast
  then have z: "buClosing b i = 0" "\<not> buClosed b i" using assms(1) by (auto simp: close_inv_def)
  have d: "\<forall>c. distinct (buSubs b c)" using assms(1) by (simp add: close_inv_def)
  have s: "set (buSubs ?b c) \<subseteq> set (buSubs b c)" for c
    using set_remove1_subset [of i "buSubs b ch"] by (auto simp: close_remove_def)
  have gi: "gone ?b i"
    using assms d i unfolding gone_def may_close_def close_inv_def by (auto simp: close_remove_def) blast
  have g: "gone b j \<Longrightarrow> gone ?b j" for j
    using s by (fastforce simp: gone_def close_remove_def)
  have "\<forall>c. distinct (buSubs ?b c)" using d by (simp add: close_remove_def)
  moreover have "\<forall>c e j. j \<in> set (buSubs ?b c) \<and> j \<in> set (buSubs ?b e) \<longrightarrow> c = e"
    using s assms(1) unfolding close_inv_def by blast
  moreover have "\<forall>c. \<forall>j \<in> set (buSubs ?b c). j < buNext ?b"
    using s assms(1) by (fastforce simp: close_inv_def close_remove_def)
  moreover have "buClosing ?b = (buClosing b)(i := 1)" "buClosed ?b = buClosed b" "buNext ?b = buNext b" "buPanic ?b = buPanic b"
    using z by (simp_all add: close_remove_def)
  ultimately show ?thesis using assms(1) g gi i z unfolding close_inv_def by auto
qed

lemma close_inv_close:
  assumes "close_inv b" "0 < buClosing b i"
  shows "close_inv (close_channel i b)"
proof -
  have "buClosing b i \<le> 1" "buClosed b i \<longrightarrow> buClosing b i = 0" "gone b i" "i < buNext b"
    using assms by (simp_all add: close_inv_def)
  then have c: "\<not> buClosed b i" "buClosing b i = 1" "gone b i" "i < buNext b" using assms(2) by auto
  have b': "close_channel i b = b\<lparr>buClosing := (buClosing b)(i := 0), buClosed := (buClosed b)(i := True)\<rparr>"
    using c(1,2) by (simp add: close_channel_def)
  have "gone (close_channel i b) j \<longleftrightarrow> gone b j" for j by (simp add: gone_def b')
  then have "\<forall>j. buClosed (close_channel i b) j \<or> 0 < buClosing (close_channel i b) j \<longrightarrow> j < buNext b \<and> gone (close_channel i b) j"
    using assms(1) c unfolding close_inv_def by (simp add: b')
  then show ?thesis using assms(1) c unfolding close_inv_def by (simp add: b')
qed

lemma close_inv_step:
  assumes "bus_step True b b'" "close_inv b"
  shows "close_inv b'"
  using assms
proof cases
  case (subscribe ch)
  then show ?thesis using close_inv_subscribe assms(2) by blast
next
  case (publish p ch data)
  then show ?thesis using close_inv_publish assms(2) by blast
next
  case (send p)
  then show ?thesis using close_inv_send assms(2) by blast
next
  case (return p)
  have "gone b j \<Longrightarrow> gone b' j" for j using return(1) by (auto simp: gone_def publish_end_def)
  then show ?thesis using return(1) by (intro close_inv_keep [OF assms(2)]) (simp_all add: publish_end_def)
next
  case (remove i ch)
  then show ?thesis using close_inv_remove assms(2) by blast
next
  case (close i)
  then show ?thesis using close_inv_close assms(2) by blast
next
  case (receive i e)
  then obtain es where b': "b' = b\<lparr>buQueue := (buQueue b)(i := es), buGot := (buGot b)(i := buGot b i @ [e])\<rparr>"
    by (auto simp: receive_event_def split: list.splits)
  show ?thesis by (rule close_inv_keep [OF assms(2)]) (simp_all add: b' gone_def)
qed

lemma close_inv_reach: "bus_reach True b \<Longrightarrow> close_inv b"
  by (induction rule: bus_reach.induct) (auto intro: close_inv_start close_inv_step)

text \<open>A subscriber that no longer receives blocks whoever sends to it, once its channel is full.\<close>

lemma publish_blocks:
  assumes "buPubs b p = Some pu" "puTodo pu = i # todo" "\<not> buClosed b i"
  shows "publish_send p b = None \<longleftrightarrow> subscriberCapacity \<le> length (buQueue b i)"
  using assms by (simp add: publish_send_def)

end
