(* ===== verification/LlmClients.thy ===== *)
theory LlmClients
  imports RuntimeTypes
begin

text \<open>
  The clients of the model providers (\<open>pkg/llm\<close>): how a request of the runtime becomes one of the provider's
  library, and what the library answers a response of the runtime.  The libraries' types appear with the
  fields the code sets and reads; their calls and the encoding of JSON are parameters.
\<close>

section \<open>Configuration (\<open>config.go\<close>)\<close>

record LLMConfig =
  lcAPIKey :: string
  lcModel :: string
  lcBaseURL :: string

definition DefaultMaxTokens :: int where "DefaultMaxTokens = 1024"

definition LLMBuildConfig :: "(LLMConfig \<Rightarrow> LLMConfig) list \<Rightarrow> goerr + LLMConfig" where
  "LLMBuildConfig opts =
     (let c = fold (\<lambda>opt. opt) opts \<lparr>lcAPIKey = [], lcModel = [], lcBaseURL = []\<rparr> in
      if lcAPIKey c = [] then Inl (new_error ''APIKey is required'') else Inr c)"

text \<open>JSON as the code uses it: \<open>jsEncode\<close> is \<open>json.Marshal\<close> of arguments; \<open>jsDecode\<close> what a fresh map holds after
  \<open>json.Unmarshal\<close> of a text into it, errors ignored; \<open>jsObject\<close> the map a text decodes to, if it is one.\<close>

record Codec =
  jsEncode :: "gomap \<Rightarrow> string option"
  jsDecode :: "string \<Rightarrow> gomap"
  jsObject :: "string \<Rightarrow> (string \<times> goany) list option"

text \<open>The name a tool call is sent under.\<close>

definition sent_name :: "string \<Rightarrow> string" where
  "sent_name n = (let name = trim_space n in if name = [] then ''tool'' else name)"

definition empty_map :: gomap where "empty_map = Some []"

section \<open>Anthropic\<close>

datatype anthropicBlock =
    TextBlock string
  | ToolUseBlock string gomap string
  | ToolResultBlock string string bool

datatype anthropicMessage = AnthropicUser "anthropicBlock list" | AnthropicAssistant "anthropicBlock list"

text \<open>The two loops of \<open>messagesToAnthropic\<close>: the inner one collects a run of tool messages.\<close>

definition tool_result_block :: "Message \<Rightarrow> anthropicBlock" where
  "tool_result_block t = ToolResultBlock (mToolCallID t) (mContent t) False"

definition assistant_blocks :: "Message \<Rightarrow> anthropicBlock list" where
  "assistant_blocks m =
     (if mContent m \<noteq> [] then [TextBlock (mContent m)] else [])
     @ map (\<lambda>tc. ToolUseBlock (tcID tc) (tcArgs tc) (sent_name (tcName tc))) (mToolCalls m)"

function anthropic_turns :: "Message list \<Rightarrow> anthropicMessage list" where
  "anthropic_turns [] = []"
| "anthropic_turns (m # ms) =
     (case mRole m of
        RoleUser \<Rightarrow> AnthropicUser [TextBlock (mContent m)] # anthropic_turns ms
      | RoleAssistant \<Rightarrow>
          (if assistant_blocks m \<noteq> [] then [AnthropicAssistant (assistant_blocks m)] else []) @ anthropic_turns ms
      | RoleTool \<Rightarrow>
          AnthropicUser (map tool_result_block (m # takeWhile (\<lambda>t. mRole t = RoleTool) ms))
          # anthropic_turns (dropWhile (\<lambda>t. mRole t = RoleTool) ms)
      | _ \<Rightarrow> anthropic_turns ms)"
  by pat_completeness auto
termination by (relation "measure length") (auto simp: le_imp_less_Suc length_dropWhile_le)

definition messagesToAnthropic :: "LLMRequest \<Rightarrow> anthropicMessage list" where
  "messagesToAnthropic req =
     (if ReqMessages req = [] then [AnthropicUser [TextBlock []]] else anthropic_turns (ReqMessages req))"

record anthropicTool =
  anName :: string
  anDescription :: string
  anProperties :: gomap
  anRequired :: "string list"

definition toolInputSchema :: "gomap \<Rightarrow> gomap \<times> string list" where
  "toolInputSchema params =
     (case params of
        None \<Rightarrow> (empty_map, [])
      | Some _ \<Rightarrow>
          (case map_get params ''properties'' of Some (VMap p) \<Rightarrow> Some p | _ \<Rightarrow> empty_map,
           case map_get params ''required'' of
             Some (VList vs) \<Rightarrow> List.map_filter (\<lambda>v. case v of VString s \<Rightarrow> Some s | _ \<Rightarrow> None) vs
           | _ \<Rightarrow> []))"

definition toolsToAnthropic :: "ToolSpec list \<Rightarrow> anthropicTool list" where
  "toolsToAnthropic specs =
     map (\<lambda>s. \<lparr>anName = SpecName s, anDescription = SpecDescription s,
                anProperties = fst (toolInputSchema (SpecParameters s)),
                anRequired = snd (toolInputSchema (SpecParameters s))\<rparr>) specs"

definition anthropicThinkingBudget :: "LLMReasoning option \<Rightarrow> int option" where
  "anthropicThinkingBudget r =
     (case r of
        None \<Rightarrow> None
      | Some x \<Rightarrow> if BudgetTokens x > 0 then Some (max 1024 (BudgetTokens x)) else if Enabled x then Some 1024 else None)"

text \<open>The JSON schema the answer has to follow, if one is sent.\<close>

definition responseFormatToAnthropic :: "ResponseFormat \<Rightarrow> gomap" where
  "responseFormatToAnthropic rf =
     (if rfType rf = ResponseFormatJSON \<and> map_len (rfSchema rf) > 0 then rfSchema rf else None)"

record anthropicParams =
  apModel :: string
  apMaxTokens :: int
  apMessages :: "anthropicMessage list"
  apTemperature :: "rat option"
  apTopK :: "int option"
  apSystem :: "string option"
  apTools :: "anthropicTool list"
  apToolChoiceAuto :: bool
  apOutput :: gomap
  apThinking :: "int option"

definition buildMessageParams :: "LLMConfig \<Rightarrow> anthropicMessage list \<Rightarrow> LLMRequest \<Rightarrow> anthropicParams" where
  "buildMessageParams c messages req =
     \<lparr>apModel = lcModel c,
      apMaxTokens = (if MaxTokens req > 0 then MaxTokens req else DefaultMaxTokens),
      apMessages = messages, apTemperature = Temperature req, apTopK = TopK req,
      apSystem = (if SystemMessage req \<noteq> [] then Some (SystemMessage req) else None),
      apTools = toolsToAnthropic (ReqTools req), apToolChoiceAuto = (ReqTools req \<noteq> []),
      apOutput = (case ReqFormat req of None \<Rightarrow> None | Some rf \<Rightarrow> responseFormatToAnthropic rf),
      apThinking = anthropicThinkingBudget (Reasoning req)\<rparr>"

datatype anthropicContent = AnthropicText string | AnthropicToolUse string string string | AnthropicOther

fun content_text :: "anthropicContent \<Rightarrow> string" where
  "content_text (AnthropicText t) = t"
| "content_text _ = []"

fun content_call :: "Codec \<Rightarrow> anthropicContent \<Rightarrow> ToolCall option" where
  "content_call js (AnthropicToolUse i name input) =
     Some \<lparr>tcID = i, tcName = name, tcArgs = (if input = [] then empty_map else jsDecode js input)\<rparr>"
| "content_call js _ = None"

definition extractContentAndToolCalls :: "Codec \<Rightarrow> anthropicContent list \<Rightarrow> string \<times> ToolCall list" where
  "extractContentAndToolCalls js blocks = (concat (map content_text blocks), List.map_filter (content_call js) blocks)"

record anthropicUsage =
  auInput :: int64
  auOutput :: int64
  auCacheRead :: int64

definition anthropicUsageToLLM :: "anthropicUsage \<Rightarrow> LLMUsage option" where
  "anthropicUsageToLLM u =
     (if auInput u = 0 \<and> auOutput u = 0 then None
      else Some \<lparr>PromptTokens = auInput u, CompletionTokens = auOutput u, TotalTokens = auInput u + auOutput u,
                 CachedPromptTokens = auCacheRead u, ReasoningTokens = 0\<rparr>)"

record anthropicReply =
  arContent :: "anthropicContent list"
  arUsage :: anthropicUsage

definition anthropic_response :: "Codec \<Rightarrow> anthropicReply \<Rightarrow> LLMResponse" where
  "anthropic_response js msg =
     (let (content, toolCalls) = extractContentAndToolCalls js (arContent msg) in
      \<lparr>RespContent = content, RespUsage = anthropicUsageToLLM (arUsage msg), RespToolCalls = map Some toolCalls\<rparr>)"

definition AnthropicGenerate :: "Codec \<Rightarrow> (anthropicParams \<Rightarrow> 'w \<Rightarrow> (goerr + anthropicReply) \<times> 'w) \<Rightarrow> LLMConfig
    \<Rightarrow> LLMRequest \<Rightarrow> 'w \<Rightarrow> (goerr + LLMResponse) \<times> 'w" where
  "AnthropicGenerate js send c req s =
     (case send (buildMessageParams c (messagesToAnthropic req) req) s of
        (Inl e, s1) \<Rightarrow> (Inl e, s1) | (Inr msg, s1) \<Rightarrow> (Inr (anthropic_response js msg), s1))"

text \<open>A stream: for each event whether the library could accumulate it and what it carries; the error it ends
  with and the message accumulated.\<close>

datatype anthropicDelta = DeltaText string | DeltaThinking string | DeltaOther

definition anthropic_current :: "bool \<times> anthropicDelta \<Rightarrow> LLMStreamChunk" where
  "anthropic_current ev =
     (case ev of
        (True, DeltaText t) \<Rightarrow> \<lparr>ContentDelta = t, ThinkingDelta = []\<rparr>
      | (True, DeltaThinking t) \<Rightarrow> \<lparr>ContentDelta = [], ThinkingDelta = t\<rparr>
      | _ \<Rightarrow> \<lparr>ContentDelta = [], ThinkingDelta = []\<rparr>)"

definition anthropic_stream :: "Codec \<Rightarrow> (bool \<times> anthropicDelta) list \<Rightarrow> goerr option \<Rightarrow> anthropicReply \<Rightarrow> LLMStream" where
  "anthropic_stream js evs err acc =
     \<lparr>strChunks = map (\<lambda>ev. Some (anthropic_current ev)) evs, strErr = err, strResult = Some (anthropic_response js acc)\<rparr>"

section \<open>OpenAI\<close>

record openaiCall =
  ocID :: string
  ocName :: string
  ocArguments :: string

datatype openaiMessage =
    DeveloperMessage string
  | UserMessage string
  | AssistantMessage string
  | AssistantCalls string "openaiCall list"
  | ToolMessage string string

definition openai_call :: "Codec \<Rightarrow> ToolCall \<Rightarrow> openaiCall" where
  "openai_call js tc =
     \<lparr>ocID = tcID tc, ocName = sent_name (tcName tc),
      ocArguments = (case jsEncode js (tcArgs tc) of Some b \<Rightarrow> if b = [] then ''{}'' else b | None \<Rightarrow> ''{}'')\<rparr>"

definition openai_message :: "Codec \<Rightarrow> Message \<Rightarrow> openaiMessage list" where
  "openai_message js m =
     (case mRole m of
        RoleUser \<Rightarrow> [UserMessage (mContent m)]
      | RoleAssistant \<Rightarrow>
          if mToolCalls m \<noteq> [] then [AssistantCalls (mContent m) (map (openai_call js) (mToolCalls m))]
          else [AssistantMessage (mContent m)]
      | RoleTool \<Rightarrow> [ToolMessage (mContent m) (mToolCallID m)]
      | _ \<Rightarrow> [])"

definition messagesToOpenAI :: "Codec \<Rightarrow> LLMRequest \<Rightarrow> openaiMessage list" where
  "messagesToOpenAI js req =
     (if SystemMessage req \<noteq> [] then [DeveloperMessage (SystemMessage req)] else [])
     @ concat (map (openai_message js) (ReqMessages req))"

definition toolsToOpenAI :: "ToolSpec list \<Rightarrow> (string \<times> string \<times> gomap) list" where
  "toolsToOpenAI specs =
     map (\<lambda>s. (SpecName s, SpecDescription s,
               case SpecParameters s of
                 None \<Rightarrow> Some [(''type'', VString ''object''), (''properties'', VMap [])] | Some p \<Rightarrow> Some p)) specs"

datatype openaiFormat = FormatText | FormatSchema string gomap | FormatObject | FormatNone

definition responseFormatToOpenAI :: "ResponseFormat \<Rightarrow> openaiFormat" where
  "responseFormatToOpenAI rf =
     (case rfType rf of
        ResponseFormatText \<Rightarrow> FormatText
      | ResponseFormatJSON \<Rightarrow>
          if map_len (rfSchema rf) > 0 then FormatSchema (if rfName rf = [] then ''response'' else rfName rf) (rfSchema rf)
          else FormatObject
      | ResponseFormatOther _ \<Rightarrow> FormatNone)"

definition openAIReasoningEffort :: "LLMReasoning option \<Rightarrow> string option" where
  "openAIReasoningEffort r =
     (case r of None \<Rightarrow> None
      | Some x \<Rightarrow> (let effort = trim_space (Effort x) in if effort = [] then None else Some effort))"

record openaiParams =
  opMessages :: "openaiMessage list"
  opModel :: string
  opTemperature :: "rat option"
  opMaxTokens :: "int option"
  opTopP :: "rat option"
  opTools :: "(string \<times> string \<times> gomap) list"
  opToolChoiceAuto :: bool
  opFormat :: openaiFormat
  opEffort :: "string option"
  opIncludeUsage :: bool

definition buildCompletionParams :: "LLMConfig \<Rightarrow> openaiMessage list \<Rightarrow> LLMRequest \<Rightarrow> openaiParams" where
  "buildCompletionParams c messages req =
     \<lparr>opMessages = messages, opModel = lcModel c, opTemperature = Temperature req,
      opMaxTokens = (if MaxTokens req > 0 then Some (MaxTokens req) else None), opTopP = TopP req,
      opTools = toolsToOpenAI (ReqTools req), opToolChoiceAuto = (ReqTools req \<noteq> []),
      opFormat = (case ReqFormat req of None \<Rightarrow> FormatNone | Some rf \<Rightarrow> responseFormatToOpenAI rf),
      opEffort = openAIReasoningEffort (Reasoning req), opIncludeUsage = False\<rparr>"

record openaiUsage =
  ouPrompt :: int64
  ouCompletion :: int64
  ouTotal :: int64
  ouCached :: int64
  ouReasoning :: int64

record openaiReply =
  orChoices :: "(string \<times> openaiCall list) list"
  orUsage :: openaiUsage

definition openAICompletionUsageToLLM :: "openaiUsage \<Rightarrow> LLMUsage option" where
  "openAICompletionUsageToLLM u =
     (if ouPrompt u = 0 \<and> ouCompletion u = 0 \<and> ouTotal u = 0 then None
      else Some \<lparr>PromptTokens = ouPrompt u, CompletionTokens = ouCompletion u, TotalTokens = ouTotal u,
                 CachedPromptTokens = ouCached u, ReasoningTokens = ouReasoning u\<rparr>)"

text \<open>The code indexes the first choice, and panics when there is none.\<close>

definition openAIResponseToLLM :: "Codec \<Rightarrow> openaiReply \<Rightarrow> LLMResponse outcome" where
  "openAIResponseToLLM js resp =
     (case orChoices resp of
        [] \<Rightarrow> Panicked
      | (content, calls) # _ \<Rightarrow>
          Returned (Inr
            \<lparr>RespContent = content, RespUsage = openAICompletionUsageToLLM (orUsage resp),
             RespToolCalls =
               map (\<lambda>tc. Some \<lparr>tcID = ocID tc, tcName = ocName tc,
                            tcArgs = (if ocArguments tc = [] then empty_map else jsDecode js (ocArguments tc))\<rparr>)
                 (filter (\<lambda>tc. ocName tc \<noteq> []) calls)\<rparr>))"

definition OpenAIGenerate :: "Codec \<Rightarrow> (openaiParams \<Rightarrow> 'w \<Rightarrow> (goerr + openaiReply) \<times> 'w) \<Rightarrow> LLMConfig
    \<Rightarrow> LLMRequest \<Rightarrow> 'w \<Rightarrow> LLMResponse outcome \<times> 'w" where
  "OpenAIGenerate js send c req s =
     (case send (buildCompletionParams c (messagesToOpenAI js req) req) s of
        (Inl e, s1) \<Rightarrow> (Returned (Inl e), s1) | (Inr resp, s1) \<Rightarrow> (openAIResponseToLLM js resp, s1))"

definition openai_stream_params :: "Codec \<Rightarrow> LLMConfig \<Rightarrow> LLMRequest \<Rightarrow> openaiParams" where
  "openai_stream_params js c req = (buildCompletionParams c (messagesToOpenAI js req) req)\<lparr>opIncludeUsage := True\<rparr>"

text \<open>A stream: the content deltas of the choices of each chunk; the reply accumulated by the library.\<close>

definition openai_current :: "string list \<Rightarrow> LLMStreamChunk" where
  "openai_current choices =
     \<lparr>ContentDelta = (case choices of [] \<Rightarrow> [] | d # _ \<Rightarrow> d), ThinkingDelta = []\<rparr>"

definition openai_stream :: "Codec \<Rightarrow> string list list \<Rightarrow> goerr option \<Rightarrow> openaiReply \<Rightarrow> LLMStream" where
  "openai_stream js chunks err acc =
     \<lparr>strChunks = map (\<lambda>ch. Some (openai_current ch)) chunks, strErr = err,
      strResult = (case openAIResponseToLLM js acc of Returned (Inr r) \<Rightarrow> Some r | _ \<Rightarrow> None)\<rparr>"

section \<open>Gemini\<close>

datatype geminiPart =
    PartText string
  | PartFunctionCall string gomap
  | PartFunctionResponse string string "(string \<times> goany) list"

datatype geminiContent = GeminiUser "geminiPart list" | GeminiModel "geminiPart list"

definition parseToolResponse :: "Codec \<Rightarrow> string \<Rightarrow> (string \<times> goany) list" where
  "parseToolResponse js content =
     (case jsObject js content of Some m \<Rightarrow> m | None \<Rightarrow> [(''result'', VString content)])"

definition function_response :: "Codec \<Rightarrow> Message \<Rightarrow> geminiPart" where
  "function_response js t =
     PartFunctionResponse (mToolCallID t) (sent_name (mToolName t)) (parseToolResponse js (mContent t))"

definition model_parts :: "Message \<Rightarrow> geminiPart list" where
  "model_parts m =
     (if mContent m \<noteq> [] then [PartText (mContent m)] else [])
     @ map (\<lambda>tc. PartFunctionCall (tcName tc) (tcArgs tc)) (mToolCalls m)"

function gemini_turns :: "Codec \<Rightarrow> Message list \<Rightarrow> geminiContent list" where
  "gemini_turns js [] = []"
| "gemini_turns js (m # ms) =
     (case mRole m of
        RoleUser \<Rightarrow> GeminiUser [PartText (mContent m)] # gemini_turns js ms
      | RoleAssistant \<Rightarrow> (if model_parts m \<noteq> [] then [GeminiModel (model_parts m)] else []) @ gemini_turns js ms
      | RoleTool \<Rightarrow>
          GeminiUser (map (function_response js) (m # takeWhile (\<lambda>t. mRole t = RoleTool) ms))
          # gemini_turns js (dropWhile (\<lambda>t. mRole t = RoleTool) ms)
      | _ \<Rightarrow> gemini_turns js ms)"
  by pat_completeness auto
termination by (relation "measure (\<lambda>(js, ms). length ms)") (auto simp: le_imp_less_Suc length_dropWhile_le)

definition messagesToGemini :: "Codec \<Rightarrow> LLMRequest \<Rightarrow> geminiContent list" where
  "messagesToGemini js req =
     (if ReqMessages req = [] then [GeminiUser [PartText []]] else gemini_turns js (ReqMessages req))"

text \<open>\<open>None\<close> where there are no tools.\<close>

definition toolsToGemini :: "ToolSpec list \<Rightarrow> (string \<times> string \<times> (string \<times> goany) list) list option" where
  "toolsToGemini specs =
     (if specs = [] then None
      else Some (map (\<lambda>s. (SpecName s, SpecDescription s, case SpecParameters s of None \<Rightarrow> [] | Some p \<Rightarrow> p)) specs))"

datatype ThinkingLevel = ThinkingLow | ThinkingMedium | ThinkingHigh | ThinkingMinimal

definition geminiThinkingLevelFromEffort :: "string \<Rightarrow> ThinkingLevel option" where
  "geminiThinkingLevelFromEffort effort =
     (let e = to_lower (trim_space effort) in
      if e = ''low'' then Some ThinkingLow else if e = ''medium'' then Some ThinkingMedium
      else if e = ''high'' then Some ThinkingHigh else if e = ''minimal'' then Some ThinkingMinimal else None)"

definition to_int32 :: "int \<Rightarrow> int" where
  "to_int32 x = sint (word_of_int x :: 32 word)"

record geminiThinking =
  gtBudget :: "int option"
  gtLevel :: "ThinkingLevel option"

definition geminiThinkingConfig :: "LLMReasoning option \<Rightarrow> geminiThinking option" where
  "geminiThinkingConfig r =
     (case r of
        None \<Rightarrow> None
      | Some x \<Rightarrow>
          if \<not> (Enabled x \<or> BudgetTokens x > 0 \<or> trim_space (Effort x) \<noteq> []) then None
          else if BudgetTokens x > 0 then Some \<lparr>gtBudget = Some (to_int32 (BudgetTokens x)), gtLevel = None\<rparr>
          else Some \<lparr>gtBudget = None, gtLevel = geminiThinkingLevelFromEffort (Effort x)\<rparr>)"

record geminiConfig =
  gcSystem :: "string option"
  gcMaxOutputTokens :: int
  gcTemperature :: "rat option"
  gcTopP :: "rat option"
  gcTopK :: "int option"
  gcTools :: "(string \<times> string \<times> (string \<times> goany) list) list option"
  gcToolsAuto :: bool
  gcSchema :: gomap
  gcThinking :: "geminiThinking option"

text \<open>The JSON schema goes with the media type \<open>application/json\<close>.\<close>

definition applyResponseFormat :: "ResponseFormat \<Rightarrow> geminiConfig \<Rightarrow> geminiConfig" where
  "applyResponseFormat rf cfg =
     (if rfType rf = ResponseFormatJSON \<and> map_len (rfSchema rf) > 0 then cfg\<lparr>gcSchema := rfSchema rf\<rparr> else cfg)"

definition geminiBuildConfig :: "LLMRequest \<Rightarrow> geminiConfig" where
  "geminiBuildConfig req =
     (let cfg = \<lparr>gcSystem = (if SystemMessage req \<noteq> [] then Some (SystemMessage req) else None),
                 gcMaxOutputTokens = (if MaxTokens req > 0 then to_int32 (MaxTokens req) else DefaultMaxTokens),
                 gcTemperature = Temperature req, gcTopP = TopP req, gcTopK = TopK req,
                 gcTools = toolsToGemini (ReqTools req), gcToolsAuto = (ReqTools req \<noteq> []),
                 gcSchema = None, gcThinking = None\<rparr>;
          cfg1 = (case ReqFormat req of None \<Rightarrow> cfg | Some rf \<Rightarrow> applyResponseFormat rf cfg)
      in case geminiThinkingConfig (Reasoning req) of None \<Rightarrow> cfg1 | Some tc \<Rightarrow> cfg1\<lparr>gcThinking := Some tc\<rparr>)"

text \<open>A reply: the parts of the first candidate's content, if there is one, each with its text and whether it is
  a thought; and the function calls the library finds in it.\<close>

record geminiCall =
  gfID :: string
  gfName :: string
  gfArgs :: gomap

record geminiUsage =
  guPrompt :: "32 word"
  guCandidates :: "32 word"
  guTotal :: "32 word"
  guCached :: "32 word"
  guThoughts :: "32 word"

record geminiReply =
  grContent :: "(string \<times> bool) option list option"
  grCalls :: "geminiCall option list"
  grUsage :: "geminiUsage option"

definition geminiResponseText :: "geminiReply \<Rightarrow> string" where
  "geminiResponseText resp =
     (case grContent resp of
        None \<Rightarrow> []
      | Some parts \<Rightarrow>
          concat (map (\<lambda>p. case p of Some (t, thought) \<Rightarrow> if t \<noteq> [] \<and> \<not> thought then t else [] | None \<Rightarrow> []) parts))"

definition geminiUsageMetadataToLLM :: "geminiUsage option \<Rightarrow> LLMUsage option" where
  "geminiUsageMetadataToLLM um =
     (case um of
        None \<Rightarrow> None
      | Some u \<Rightarrow>
          if guPrompt u = 0 \<and> guCandidates u = 0 \<and> guTotal u = 0 then None
          else Some \<lparr>PromptTokens = word_of_int (sint (guPrompt u)), CompletionTokens = word_of_int (sint (guCandidates u)),
                     TotalTokens = word_of_int (sint (guTotal u)), CachedPromptTokens = word_of_int (sint (guCached u)),
                     ReasoningTokens = word_of_int (sint (guThoughts u))\<rparr>)"

definition geminiToolCallsToInterface :: "geminiCall option list \<Rightarrow> ToolCall list" where
  "geminiToolCallsToInterface calls =
     List.map_filter (\<lambda>c. case c of
         None \<Rightarrow> None
       | Some fc \<Rightarrow>
           if gfName fc = [] then None
           else Some \<lparr>tcID = gfID fc, tcName = gfName fc,
                      tcArgs = (case gfArgs fc of None \<Rightarrow> empty_map | Some a \<Rightarrow> Some a)\<rparr>) calls"

definition gemini_response :: "geminiReply \<Rightarrow> LLMResponse" where
  "gemini_response resp =
     \<lparr>RespContent = geminiResponseText resp, RespUsage = geminiUsageMetadataToLLM (grUsage resp),
      RespToolCalls = map Some (geminiToolCallsToInterface (grCalls resp))\<rparr>"

definition GeminiGenerate :: "Codec \<Rightarrow> (geminiContent list \<Rightarrow> geminiConfig \<Rightarrow> 'w \<Rightarrow> (goerr + geminiReply) \<times> 'w)
    \<Rightarrow> LLMRequest \<Rightarrow> 'w \<Rightarrow> (goerr + LLMResponse) \<times> 'w" where
  "GeminiGenerate js send req s =
     (case send (messagesToGemini js req) (geminiBuildConfig req) s of
        (Inl e, s1) \<Rightarrow> (Inl e, s1) | (Inr resp, s1) \<Rightarrow> (Inr (gemini_response resp), s1))"

text \<open>The stream adapter: the library's sequence of replies and errors, which ends with its first error, is read
  through a channel; each \<open>Next\<close> takes one.\<close>

record geminiAdapter =
  gaResult :: "LLMResponse option"
  gaErr :: "goerr option"
  gaDelta :: string

definition new_adapter :: geminiAdapter where
  "new_adapter = \<lparr>gaResult = None, gaErr = None, gaDelta = []\<rparr>"

fun until_error :: "(geminiReply option \<times> goerr option) list \<Rightarrow> (geminiReply option \<times> goerr option) list" where
  "until_error [] = []"
| "until_error (c # cs) = (if snd c = None then c # until_error cs else [c])"

definition gemini_next :: "geminiReply option \<times> goerr option \<Rightarrow> geminiAdapter \<Rightarrow> geminiAdapter" where
  "gemini_next chunk a0 =
     (let a = a0\<lparr>gaErr := snd chunk\<rparr> in
      case fst chunk of
        None \<Rightarrow> a
      | Some resp \<Rightarrow>
          (let content = geminiResponseText resp;
               prevLen = (case gaResult a of None \<Rightarrow> 0 | Some r \<Rightarrow> length (RespContent r))
           in a\<lparr>gaDelta := (if prevLen < length content then drop prevLen content else []),
                gaResult := Some (gemini_response resp)\<rparr>))"

definition gemini_current :: "geminiAdapter \<Rightarrow> LLMStreamChunk" where
  "gemini_current a =
     \<lparr>ContentDelta = (if gaResult a = None then [] else gaDelta a), ThinkingDelta = []\<rparr>"

text \<open>The adapter after each of the chunks.\<close>

fun gemini_states :: "geminiAdapter \<Rightarrow> (geminiReply option \<times> goerr option) list \<Rightarrow> geminiAdapter list" where
  "gemini_states a [] = []"
| "gemini_states a (c # cs) = gemini_next c a # gemini_states (gemini_next c a) cs"

definition gemini_stream :: "(geminiReply option \<times> goerr option) list \<Rightarrow> LLMStream" where
  "gemini_stream chunks =
     (let states = gemini_states new_adapter (until_error chunks);
          final = (if states = [] then new_adapter else last states)
      in \<lparr>strChunks = map (\<lambda>a. Some (gemini_current a)) states, strErr = gaErr final, strResult = gaResult final\<rparr>)"

end
