(* ===== verification/ProviderFacts.thy ===== *)
theory ProviderFacts
  imports LlmClients ConversationFacts LocalRun
begin

text \<open>
  What the providers ask of a list of messages: tool results directly after the turn that asked for them, for
  exactly its calls.  Lists as the runs build them keep this through each translation; a window of a stored
  conversation keeps it unless it begins inside a round of tool calls.
\<close>

section \<open>Dialogs\<close>

fun dialog :: "Message list \<Rightarrow> bool" where
  "dialog [] \<longleftrightarrow> True"
| "dialog (m # ms) \<longleftrightarrow>
     (if mRole m = RoleAssistant \<and> mToolCalls m \<noteq> []
      then list_all2 answers (mToolCalls m) (take (length (mToolCalls m)) ms) \<and> dialog (drop (length (mToolCalls m)) ms)
      else mRole m \<noteq> RoleTool \<and> dialog ms)"

lemma dialog_append: "dialog xs \<Longrightarrow> dialog ys \<Longrightarrow> dialog (xs @ ys)"
proof (induction xs rule: dialog.induct)
  case (2 m ms)
  show ?case
  proof (cases "mRole m = RoleAssistant \<and> mToolCalls m \<noteq> []")
    case True
    have "length (take (length (mToolCalls m)) ms) = length (mToolCalls m)"
      using 2(3) True by (auto dest: list_all2_lengthD)
    then have "length (mToolCalls m) \<le> length ms" by simp
    then show ?thesis using 2 True by simp
  next
    case False
    then show ?thesis using 2 by simp
  qed
qed simp

lemma paired_dialog: "paired ms \<Longrightarrow> dialog ms"
  by (induction ms rule: paired.induct) simp_all

lemma dialog_plain [simp]: "mToolCalls m = [] \<Longrightarrow> dialog [m] \<longleftrightarrow> mRole m \<noteq> RoleTool"
  by simp

lemma dialog_round:
  assumes "dialog (m # ms)" "mRole m = RoleAssistant" "mToolCalls m \<noteq> []"
  obtains rs rest where "ms = rs @ rest" "list_all2 answers (mToolCalls m) rs" "rs \<noteq> []"
    "\<forall>r \<in> set rs. mRole r = RoleTool" "dialog rest"
proof -
  let ?n = "length (mToolCalls m)"
  have a: "list_all2 answers (mToolCalls m) (take ?n ms)" "dialog (drop ?n ms)" using assms by simp_all
  have "take ?n ms \<noteq> []" using list_all2_lengthD [OF a(1)] assms(3) by auto
  moreover have "\<forall>r \<in> set (take ?n ms). mRole r = RoleTool"
    using a(1) by (auto simp: list_all2_conv_all_nth in_set_conv_nth answers_def)
  ultimately show ?thesis using that [of "take ?n ms" "drop ?n ms"] a by simp
qed

lemma dialog_head: "dialog (m # ms) \<Longrightarrow> mRole m \<noteq> RoleTool"
  by (auto split: if_splits)

lemma tool_prefix:
  assumes "\<forall>r \<in> set rs. mRole r = RoleTool" "dialog rest"
  shows "takeWhile (\<lambda>t. mRole t = RoleTool) (rs @ rest) = rs" "dropWhile (\<lambda>t. mRole t = RoleTool) (rs @ rest) = rest"
proof -
  have "takeWhile (\<lambda>t. mRole t = RoleTool) rest = []" "dropWhile (\<lambda>t. mRole t = RoleTool) rest = rest"
  proof (atomize (full), cases rest)
    case (Cons r rs')
    then have "mRole r \<noteq> RoleTool" using assms(2) dialog_head by blast
    then show "takeWhile (\<lambda>t. mRole t = RoleTool) rest = [] \<and> dropWhile (\<lambda>t. mRole t = RoleTool) rest = rest"
      by (simp add: Cons)
  qed simp
  then show "takeWhile (\<lambda>t. mRole t = RoleTool) (rs @ rest) = rs" "dropWhile (\<lambda>t. mRole t = RoleTool) (rs @ rest) = rest"
    using assms(1) by (simp_all add: takeWhile_append2 dropWhile_append2)
qed

section \<open>What each provider accepts\<close>

fun block_use :: "anthropicBlock \<Rightarrow> string option" where
  "block_use (ToolUseBlock i a n) = Some i"
| "block_use _ = None"

fun block_result :: "anthropicBlock \<Rightarrow> string option" where
  "block_result (ToolResultBlock i c e) = Some i"
| "block_result _ = None"

text \<open>The first argument are the calls still to be answered.\<close>

fun anthropic_owes :: "string list \<Rightarrow> anthropicMessage list \<Rightarrow> bool" where
  "anthropic_owes p [] \<longleftrightarrow> p = []"
| "anthropic_owes p (AnthropicUser bs # ms) \<longleftrightarrow>
     List.map_filter block_result bs = p \<and> List.map_filter block_use bs = [] \<and> anthropic_owes [] ms"
| "anthropic_owes p (AnthropicAssistant bs # ms) \<longleftrightarrow>
     p = [] \<and> List.map_filter block_result bs = [] \<and> anthropic_owes (List.map_filter block_use bs) ms"

fun openai_owes :: "string list \<Rightarrow> openaiMessage list \<Rightarrow> bool" where
  "openai_owes p [] \<longleftrightarrow> p = []"
| "openai_owes p (AssistantCalls c calls # ms) \<longleftrightarrow> p = [] \<and> openai_owes (map ocID calls) ms"
| "openai_owes p (ToolMessage c i # ms) \<longleftrightarrow> p \<noteq> [] \<and> hd p = i \<and> openai_owes (tl p) ms"
| "openai_owes p (_ # ms) \<longleftrightarrow> p = [] \<and> openai_owes [] ms"

fun part_call :: "geminiPart \<Rightarrow> string option" where
  "part_call (PartFunctionCall n a) = Some (sent_name n)"
| "part_call _ = None"

fun part_response :: "geminiPart \<Rightarrow> string option" where
  "part_response (PartFunctionResponse i n r) = Some n"
| "part_response _ = None"

fun gemini_owes :: "string list \<Rightarrow> geminiContent list \<Rightarrow> bool" where
  "gemini_owes p [] \<longleftrightarrow> p = []"
| "gemini_owes p (GeminiUser ps # cs) \<longleftrightarrow>
     List.map_filter part_response ps = p \<and> List.map_filter part_call ps = [] \<and> gemini_owes [] cs"
| "gemini_owes p (GeminiModel ps # cs) \<longleftrightarrow>
     p = [] \<and> List.map_filter part_response ps = [] \<and> gemini_owes (List.map_filter part_call ps) cs"

section \<open>Translation keeps dialogs\<close>

lemma map_filter_all [simp]: "List.map_filter (\<lambda>x. Some (f x)) xs = map f xs" "List.map_filter (\<lambda>x. None) xs = []"
  by (induction xs) (simp_all add: List.map_filter_def)

lemma map_filter_append [simp]: "List.map_filter f (xs @ ys) = List.map_filter f xs @ List.map_filter f ys"
  by (simp add: List.map_filter_def)

lemma map_filter_Cons [simp]: "List.map_filter f (x # xs) = (case f x of None \<Rightarrow> [] | Some y \<Rightarrow> [y]) @ List.map_filter f xs"
  by (simp add: List.map_filter_def split: option.split)

lemma map_filter_Nil [simp]: "List.map_filter f [] = []"
  by (simp add: List.map_filter_def)

lemma map_filter_map [simp]: "List.map_filter f (map g xs) = List.map_filter (\<lambda>x. f (g x)) xs"
  by (simp add: List.map_filter_def comp_def filter_map)

lemma block_simps [simp]:
  "List.map_filter block_use (assistant_blocks m) = map tcID (mToolCalls m)"
  "List.map_filter block_result (assistant_blocks m) = []"
  "block_result (tool_result_block t) = Some (mToolCallID t)" "block_use (tool_result_block t) = None"
  by (simp_all add: assistant_blocks_def tool_result_block_def)

lemma part_simps [simp]:
  "List.map_filter part_call (model_parts m) = map (\<lambda>tc. sent_name (tcName tc)) (mToolCalls m)"
  "List.map_filter part_response (model_parts m) = []"
  "part_response (function_response js t) = Some (sent_name (mToolName t))" "part_call (function_response js t) = None"
  by (simp_all add: model_parts_def function_response_def)

lemma answers_ids:
  "list_all2 answers calls rs \<Longrightarrow> map mToolCallID rs = map tcID calls"
  "list_all2 answers calls rs \<Longrightarrow> map mToolName rs = map tcName calls"
  by (induction rule: list_all2_induct) (simp_all add: answers_def)

lemma tool_turn:
  assumes "rs \<noteq> []" "\<forall>r \<in> set rs. mRole r = RoleTool" "dialog rest"
  shows "anthropic_turns (rs @ rest) = AnthropicUser (map tool_result_block rs) # anthropic_turns rest"
    "gemini_turns js (rs @ rest) = GeminiUser (map (function_response js) rs) # gemini_turns js rest"
proof -
  obtain r rs' where r: "rs = r # rs'" using assms(1) by (cases rs) auto
  have p: "takeWhile (\<lambda>t. mRole t = RoleTool) (rs' @ rest) = rs'" "dropWhile (\<lambda>t. mRole t = RoleTool) (rs' @ rest) = rest"
    using tool_prefix [of rs' rest] assms(2,3) r by simp_all
  show "anthropic_turns (rs @ rest) = AnthropicUser (map tool_result_block rs) # anthropic_turns rest"
    "gemini_turns js (rs @ rest) = GeminiUser (map (function_response js) rs) # gemini_turns js rest"
    using assms(2) by (simp_all add: r p)
qed

lemma tool_messages:
  assumes "list_all2 answers calls rs" "\<forall>r \<in> set rs. mRole r = RoleTool"
  shows "openai_owes (map tcID calls) (concat (map (openai_message js) rs) @ ms) \<longleftrightarrow> openai_owes [] ms"
  using assms by (induction rule: list_all2_induct) (simp_all add: openai_message_def answers_def)

lemma dialog_accepted:
  "dialog ms \<Longrightarrow> anthropic_owes [] (anthropic_turns ms) \<and> openai_owes [] (concat (map (openai_message js) ms))
     \<and> gemini_owes [] (gemini_turns js ms)"
proof (induction "length ms" arbitrary: ms rule: less_induct)
  case less
  show ?case
  proof (cases ms)
    case (Cons m ms')
    show ?thesis
    proof (cases "mRole m = RoleAssistant \<and> mToolCalls m \<noteq> []")
      case True
      then obtain rs rest where r: "ms' = rs @ rest" "list_all2 answers (mToolCalls m) rs" "rs \<noteq> []"
        "\<forall>r \<in> set rs. mRole r = RoleTool" "dialog rest" using dialog_round less.prems Cons by blast
      have ih: "anthropic_owes [] (anthropic_turns rest)" "openai_owes [] (concat (map (openai_message js) rest))"
        "gemini_owes [] (gemini_turns js rest)" using less.hyps [of rest] r Cons by auto
      have b: "assistant_blocks m \<noteq> []" "model_parts m \<noteq> []" using True by (simp_all add: assistant_blocks_def model_parts_def)
      have n: "map (\<lambda>t. sent_name (mToolName t)) rs = map (\<lambda>tc. sent_name (tcName tc)) (mToolCalls m)"
        using answers_ids(2) [OF r(2)] by (metis (mono_tags, lifting) list.map_comp comp_apply map_cong)
      have "ocID \<circ> openai_call js = tcID" by (simp add: fun_eq_iff openai_call_def)
      then show ?thesis using True b ih n answers_ids(1) [OF r(2)] tool_turn [OF r(3,4,5)] tool_messages [OF r(2,4)]
        by (simp add: Cons r(1) openai_message_def)
    next
      case False
      then have d: "dialog ms'" "mRole m \<noteq> RoleTool" using less.prems Cons by auto
      from less.hyps [of ms'] d Cons have "anthropic_owes [] (anthropic_turns ms')"
        "openai_owes [] (concat (map (openai_message js) ms'))" "gemini_owes [] (gemini_turns js ms')" by auto
      then show ?thesis using False d(2) by (cases "mRole m") (auto simp: Cons openai_message_def)
    qed
  qed simp
qed

lemma requests_accepted:
  assumes "dialog (ReqMessages req)"
  shows "anthropic_owes [] (messagesToAnthropic req) \<and> openai_owes [] (messagesToOpenAI js req)
     \<and> gemini_owes [] (messagesToGemini js req)"
  using dialog_accepted [OF assms] by (simp add: messagesToAnthropic_def messagesToOpenAI_def messagesToGemini_def)

lemma orphan_rejected:
  assumes "ReqMessages req = m # ms" "mRole m = RoleTool"
  shows "\<not> anthropic_owes [] (messagesToAnthropic req)" "\<not> openai_owes [] (messagesToOpenAI js req)"
    "\<not> gemini_owes [] (messagesToGemini js req)"
  using assms by (simp_all add: messagesToAnthropic_def messagesToOpenAI_def messagesToGemini_def openai_message_def)

section \<open>Windows of a conversation\<close>

lemma dialog_drop: "dialog ms \<Longrightarrow> dialog (drop n ms) \<longleftrightarrow> drop n ms = [] \<or> mRole (hd (drop n ms)) \<noteq> RoleTool"
proof (induction "length ms" arbitrary: ms n rule: less_induct)
  case less
  show ?case
  proof (cases n)
    case 0
    then show ?thesis using less.prems dialog_head by (cases ms) auto
  next
    case (Suc k)
    show ?thesis
    proof (cases ms)
      case (Cons m ms')
      show ?thesis
      proof (cases "mRole m = RoleAssistant \<and> mToolCalls m \<noteq> []")
        case True
        then obtain rs rest where r: "ms' = rs @ rest" "list_all2 answers (mToolCalls m) rs" "rs \<noteq> []"
          "\<forall>r \<in> set rs. mRole r = RoleTool" "dialog rest" using dialog_round less.prems Cons by blast
        show ?thesis
        proof (cases "k < length rs")
          case True
          then have h: "hd (drop k rs @ rest) = rs ! k" "drop k rs \<noteq> []" by (simp_all add: hd_drop_conv_nth)
          then have "mRole (hd (drop n ms)) = RoleTool" using r(1,4) True Suc Cons by simp
          then show ?thesis using dialog_head h(2) by (cases "drop n ms") (auto simp: Suc Cons r(1))
        next
          case False
          then show ?thesis using less.hyps [of rest "k - length rs"] r(1,5) Suc Cons by simp
        qed
      next
        case False
        then show ?thesis using less.hyps [of ms' k] less.prems Suc Cons by simp
      qed
    qed simp
  qed
qed

lemma dialog_recent: "dialog ms \<Longrightarrow> dialog (recent k ms) \<longleftrightarrow> recent k ms = [] \<or> mRole (hd (recent k ms)) \<noteq> RoleTool"
  unfolding recent_def by (rule dialog_drop)

lemma dialog_roles: "dialog ms \<Longrightarrow> filter history_role ms = ms \<Longrightarrow> filter history_role (recent k ms) = recent k ms"
  unfolding recent_def by (metis append_take_drop_id filter_append filter_id_conv in_set_dropD)

section \<open>The stream of Gemini\<close>

definition texts_of :: "(geminiReply option \<times> goerr option) list \<Rightarrow> string list" where
  "texts_of chunks = map (\<lambda>c. geminiResponseText (the (fst c))) chunks"

definition all_replies :: "(geminiReply option \<times> goerr option) list \<Rightarrow> bool" where
  "all_replies chunks \<longleftrightarrow> (\<forall>c \<in> set chunks. fst c \<noteq> None \<and> snd c = None)"

lemma until_error_replies: "all_replies chunks \<Longrightarrow> until_error chunks = chunks"
  by (induction chunks) (simp_all add: all_replies_def)

definition adapter_text :: "geminiAdapter \<Rightarrow> string" where
  "adapter_text a = (case gaResult a of None \<Rightarrow> [] | Some r \<Rightarrow> RespContent r)"

lemma gemini_next_text:
  assumes "fst c = Some r"
  shows "adapter_text (gemini_next c a) = geminiResponseText r"
    "prefix (adapter_text a) (geminiResponseText r) \<Longrightarrow>
       adapter_text a @ ContentDelta (gemini_current (gemini_next c a)) = geminiResponseText r"
  using assms by (auto simp: gemini_next_def adapter_text_def gemini_current_def gemini_response_def Let_def prefix_def
      split: option.splits)

lemma gemini_states_cumulative:
  assumes "all_replies chunks" "chunks \<noteq> []" "sorted_wrt prefix (adapter_text a # texts_of chunks)"
  shows "adapter_text a @ concat (map (\<lambda>x. ContentDelta (gemini_current x)) (gemini_states a chunks)) = last (texts_of chunks)
     \<and> adapter_text (last (gemini_states a chunks)) = last (texts_of chunks)"
  using assms
proof (induction chunks arbitrary: a)
  case (Cons c cs)
  obtain r where r: "fst c = Some r" using Cons.prems(1) by (auto simp: all_replies_def)
  have p: "prefix (adapter_text a) (geminiResponseText r)" using Cons.prems(3) r by (simp add: texts_of_def)
  note n = gemini_next_text(1) [OF r, of a] gemini_next_text(2) [OF r p]
  show ?case
  proof (cases "cs = []")
    case True
    then show ?thesis using n r by (simp add: texts_of_def)
  next
    case False
    have "sorted_wrt prefix (adapter_text (gemini_next c a) # texts_of cs)"
      using Cons.prems(3) n(1) r by (simp add: texts_of_def)
    from Cons.IH [OF _ False this] Cons.prems(1)
    have "adapter_text (gemini_next c a) @ concat (map (\<lambda>x. ContentDelta (gemini_current x)) (gemini_states (gemini_next c a) cs))
        = last (texts_of cs)" "adapter_text (last (gemini_states (gemini_next c a) cs)) = last (texts_of cs)"
      by (simp_all add: all_replies_def)
    moreover have "gemini_states (gemini_next c a) cs \<noteq> []" "texts_of cs \<noteq> []"
      using False by (cases cs; simp add: texts_of_def)+
    ultimately show ?thesis using n by (simp add: texts_of_def) (metis append_assoc)
  qed
qed simp

lemma gemini_stream_cumulative:
  assumes "all_replies chunks" "chunks \<noteq> []" "sorted_wrt prefix (texts_of chunks)"
  shows "concat (map (\<lambda>c. ContentDelta (the c)) (strChunks (gemini_stream chunks))) = last (texts_of chunks)
     \<and> map_option RespContent (strResult (gemini_stream chunks)) = Some (last (texts_of chunks))"
proof -
  have e: "adapter_text new_adapter = []" by (simp add: adapter_text_def new_adapter_def)
  have s: "gemini_states new_adapter chunks \<noteq> []" using assms(2) by (cases chunks) simp_all
  have "gaResult (last (gemini_states a chunks)) \<noteq> None" for a
    using assms(1,2)
  proof (induction chunks arbitrary: a)
    case (Cons c cs)
    then show ?case by (cases "cs = []") (auto simp: all_replies_def gemini_next_def Let_def neq_Nil_conv)
  qed simp
  then have "map_option RespContent (gaResult (last (gemini_states new_adapter chunks)))
      = Some (adapter_text (last (gemini_states new_adapter chunks)))"
    by (auto simp: adapter_text_def split: option.split)
  then show ?thesis using gemini_states_cumulative [OF assms(1,2), of new_adapter] assms(3) s
    by (simp add: e gemini_stream_def until_error_replies [OF assms(1)] comp_def Let_def)
qed

text \<open>Replies that carry only what is new are taken for shorter ones: the answer is what came last.\<close>

lemma gemini_stream_increments:
  assumes "length (geminiResponseText r2) \<le> length (geminiResponseText r1)"
  shows "map (\<lambda>c. ContentDelta (the c)) (strChunks (gemini_stream [(Some r1, None), (Some r2, None)]))
       = [geminiResponseText r1, []]
     \<and> map_option RespContent (strResult (gemini_stream [(Some r1, None), (Some r2, None)])) = Some (geminiResponseText r2)"
  using assms by (simp add: gemini_stream_def gemini_next_def gemini_current_def gemini_response_def new_adapter_def Let_def)

end
