(* ===== verification/A2aServer.thy ===== *)
theory A2aServer
  imports AgentRun A2aConnect
begin

text \<open>
  The server that offers an agent to others (\<open>pkg/agent/a2a_server.go\<close>): its card, the executor that turns a
  message into a run and a run into the protocol's events, and the check of tokens.  The HTTP server, the
  JSON-RPC handler and the store of tasks are the protocol library's.
\<close>

section \<open>The card\<close>

definition a2aServerVersion :: string where "a2aServerVersion = ''1.0.0''"

definition toSDKSkill :: "A2ASkillSpec \<Rightarrow> sdkSkill" where
  "toSDKSkill s =
     \<lparr>skillID = SkillID s, skillName = SkillName s, skillDescription = SkillDescription s, skillTags = SkillTags s,
      skillInputModes = SkillInputModes s, skillOutputModes = SkillOutputModes s, skillExamples = SkillExamples s\<rparr>"

text \<open>What the dynamic type of a tool is, as far as the code asks: an \<open>A2ATool\<close> with its skill, an \<open>MCPTool\<close> with
  its server, or another.\<close>

datatype toolOrigin = FromA2A A2ASkillSpec | FromMCP string | FromElsewhere

definition skill_of_tool :: "('w Tool \<Rightarrow> toolOrigin) \<Rightarrow> 'w Tool \<Rightarrow> sdkSkill option" where
  "skill_of_tool origin t =
     (let tid = trim_space (tName t);
          skill = (\<lambda>tags. \<lparr>skillID = tid, skillName = tDisplayName t, skillDescription = tDescription t, skillTags = tags,
                           skillInputModes = [], skillOutputModes = [], skillExamples = []\<rparr>)
      in if tid = [] then None
         else case origin t of
           FromA2A spec \<Rightarrow> Some (toSDKSkill spec)
         | FromMCP server \<Rightarrow> Some (skill [''mcp'', server])
         | FromElsewhere \<Rightarrow> Some (skill [''tool'', tName t]))"

definition deriveSDKSkills :: "'w Host \<Rightarrow> 'w heap \<Rightarrow> ('w Tool \<Rightarrow> toolOrigin) \<Rightarrow> 'w agentConfig \<Rightarrow> 'w \<Rightarrow> sdkSkill list \<times> 'w" where
  "deriveSDKSkills ho hp origin c s =
     (case resolveTools ho hp c s of
        (Inl _, s1) \<Rightarrow> ([], s1)
      | (Inr tools, s1) \<Rightarrow> (List.map_filter (skill_of_tool origin) tools, s1))"

record sdkServerCard =
  scvCard :: sdkCard
  scvStreaming :: bool
  scvBearer :: bool

definition server_url :: "A2AServerConfig \<Rightarrow> string" where
  "server_url cfg = ''http://'' @ svHostname cfg @ '':'' @ int_to_str (svPort cfg)"

definition trim_slashes :: "string \<Rightarrow> string" where
  "trim_slashes u = rev (dropWhile (\<lambda>c. c = CHR ''/'') (rev u))"

definition or_default :: "string \<Rightarrow> string \<Rightarrow> string" where
  "or_default s d = (if trim_space s \<noteq> [] then trim_space s else d)"

definition streams :: "'w agentConfig \<Rightarrow> bool" where
  "streams c \<longleftrightarrow> agStreamEnabled c \<and> (case agLLMClient c of None \<Rightarrow> False | Some cl \<Rightarrow> IsStreamSupported cl)"

definition buildSDKAgentCard :: "'w Host \<Rightarrow> 'w heap \<Rightarrow> ('w Tool \<Rightarrow> toolOrigin) \<Rightarrow> 'w agentConfig \<Rightarrow> A2AServerConfig \<Rightarrow> 'w
    \<Rightarrow> sdkServerCard \<times> 'w" where
  "buildSDKAgentCard ho hp origin c cfg s =
     (let field = (\<lambda>f d. case svAgentCard cfg of None \<Rightarrow> d | Some ic \<Rightarrow> or_default (f ic) d);
          modes = (\<lambda>f. case svAgentCard cfg of None \<Rightarrow> [''text/plain''] | Some ic \<Rightarrow> if f ic \<noteq> [] then f ic else [''text/plain'']);
          baseURL = (case svAgentCard cfg of
                       None \<Rightarrow> server_url cfg
                     | Some ic \<Rightarrow> if trim_space (cardURL ic) \<noteq> [] then trim_slashes (trim_space (cardURL ic)) else server_url cfg);
          given = (case svAgentCard cfg of None \<Rightarrow> [] | Some ic \<Rightarrow> map toSDKSkill (cardSkills ic));
          (skills, s1) = (if given = [] then deriveSDKSkills ho hp origin c s else (given, s))
      in (\<lparr>scvCard =
             \<lparr>scName = field cardName (agName c), scDescription = field cardDescription (agDescription c),
              scVersion = field cardVersion a2aServerVersion,
              scDocumentationURL = (case svAgentCard cfg of None \<Rightarrow> [] | Some ic \<Rightarrow> trim_space (cardDocumentationURL ic)),
              scInterfaces = [Some \<lparr>ifURL = baseURL, ifProtocolVersion = protocolVersion\<rparr>],
              scSkills = skills, scInputModes = modes cardInputModes, scOutputModes = modes cardOutputModes\<rparr>,
           scvStreaming = streams c, scvBearer = (svBearerTokens cfg \<noteq> [])\<rparr>, s1))"

text \<open>The address the served JSON names beside the card: always the one the server listens on.\<close>

definition CardJSON :: "'w Host \<Rightarrow> 'w heap \<Rightarrow> ('w Tool \<Rightarrow> toolOrigin) \<Rightarrow> 'w agentConfig \<Rightarrow> A2AServerConfig
    \<Rightarrow> (sdkServerCard \<Rightarrow> string \<Rightarrow> goerr + string) \<Rightarrow> 'w \<Rightarrow> (goerr + string) \<times> 'w" where
  "CardJSON ho hp origin c cfg render s =
     (let (card, s1) = buildSDKAgentCard ho hp origin c cfg s in
      (case render card (server_url cfg) of Inl e \<Rightarrow> Inl (wrap_error ''a2a card: marshal: '' e) | Inr out \<Rightarrow> Inr out, s1))"

section \<open>The executor\<close>

datatype serverEvent =
    SrvSubmitted "sdkMessage option"
  | SrvWorking
  | SrvArtifact string string
  | SrvArtifactUpdate string string
  | SrvCompleted
  | SrvFailed string
  | SrvCanceled
  | SrvMessage string

definition collectMessageText :: "sdkMessage option \<Rightarrow> string" where
  "collectMessageText msg =
     (case msg of
        None \<Rightarrow> []
      | Some m \<Rightarrow>
          foldl (\<lambda>sb p.
              (case p of
                 None \<Rightarrow> sb
               | Some part \<Rightarrow>
                   (case spContent part of
                      SdkText txt \<Rightarrow> if txt = [] then sb else (if sb \<noteq> [] then sb @ [CHR 0x0A] else sb) @ txt
                    | _ \<Rightarrow> sb)))
            [] (smParts m))"

text \<open>The events of a streamed run, as the protocol's: the first piece of text makes an artifact with a fresh
  identifier, the others are appended to it.\<close>

fun forward_stream :: "string \<Rightarrow> string option \<Rightarrow> AgentEvent list \<Rightarrow> serverEvent list" where
  "forward_stream newID art [] = [SrvCompleted]"
| "forward_stream newID art (ev # evs) =
     (case ev of
        EvTextMessageContent mid delta \<Rightarrow>
          (if delta = [] then forward_stream newID art evs
           else case art of
             None \<Rightarrow> SrvArtifact newID delta # forward_stream newID (Some newID) evs
           | Some a \<Rightarrow> SrvArtifactUpdate a delta # forward_stream newID art evs)
      | EvRunFinished t r content \<Rightarrow> [SrvCompleted]
      | EvRunError m \<Rightarrow> [SrvFailed m]
      | _ \<Rightarrow> forward_stream newID art evs)"

text \<open>\<open>quit\<close> is the number of events after which the consumer of the sequence stops it.  \<open>deliver\<close> is what the
  channel of the stream carries until it is closed, given the states before and after the run.\<close>

definition ExecuteA2A :: "'w Machine \<Rightarrow> 'w heap \<Rightarrow> 'w Agent \<Rightarrow> ('w client \<Rightarrow> 'w client \<Rightarrow> AgentEvent list) \<Rightarrow> string \<Rightarrow> go_context
    \<Rightarrow> sdkMessage option \<Rightarrow> nat \<Rightarrow> 'w client \<Rightarrow> (serverEvent list \<times> 'w client) option" where
  "ExecuteA2A ma hp a deliver newID ctx msg quit s =
     (let inputText = collectMessageText msg in
      if \<not> streams (aConfig a) then
        (case runInternal ma hp a ctx inputText None s of
           None \<Rightarrow> None
         | Some (Inl e, s1) \<Rightarrow> Some ([SrvFailed (err_msg e)], s1)
         | Some (Inr r, s1) \<Rightarrow> Some ([SrvMessage (arrContent r)], s1))
      else if quit \<le> 1 then Some ([SrvSubmitted msg], s)
      else if quit = 2 then Some ([SrvSubmitted msg, SrvWorking], s)
      else
        (case AgentStream ma hp a ctx inputText None s of
           None \<Rightarrow> None
         | Some (Some e, s1) \<Rightarrow> Some ([SrvSubmitted msg, SrvWorking, SrvFailed (err_msg e)], s1)
         | Some (None, s1) \<Rightarrow>
             Some (take quit ([SrvSubmitted msg, SrvWorking] @ forward_stream newID None (deliver s s1)), s1)))"

definition CancelA2A :: "serverEvent list" where
  "CancelA2A = [SrvCanceled]"

section \<open>The server\<close>

text \<open>The interceptor that checks tokens: \<open>vals\<close> are the values of the header, if it was sent.\<close>

definition bearer_before :: "string list \<Rightarrow> string list option \<Rightarrow> bool" where
  "bearer_before tokens vals \<longleftrightarrow>
     (case vals of
        Some (raw # _) \<Rightarrow> prefix ''Bearer '' raw \<and> list_ex (\<lambda>t. drop (length ''Bearer '') raw = t) tokens
      | _ \<Rightarrow> False)"

text \<open>Whether a call reaches the executor: the interceptor is installed only when there are tokens.\<close>

definition call_admitted :: "A2AServerConfig \<Rightarrow> string list option \<Rightarrow> bool" where
  "call_admitted cfg vals \<longleftrightarrow> svBearerTokens cfg = [] \<or> bearer_before (svBearerTokens cfg) vals"

text \<open>Whether the request's context is detached from the connection.\<close>

definition a2aJSONRPCDetachInboundCancel :: "string \<Rightarrow> string \<Rightarrow> bool" where
  "a2aJSONRPCDetachInboundCancel httpMethod path \<longleftrightarrow> \<not> (httpMethod \<noteq> ''POST'' \<or> path \<noteq> ''/'')"

text \<open>The writer that remembers the status for the access log: the first one written, zero for none.\<close>

datatype writer_call = WriteHeader int | WriteBody

fun status_writer :: "writer_call \<Rightarrow> int \<Rightarrow> int" where
  "status_writer (WriteHeader code) status = (if status = 0 then code else status)"
| "status_writer WriteBody status = (if status = 0 then 200 else status)"

definition logged_status :: "writer_call list \<Rightarrow> int" where
  "logged_status calls = (let status = fold status_writer calls 0 in if status = 0 then 200 else status)"

text \<open>How the server ends: its context is done and it shut down, or it stopped listening by itself.\<close>

datatype serverEnd = ContextDone "goerr option" | ListenEnded "goerr option"

definition RunA2A :: "'w agentConfig \<Rightarrow> serverEnd \<Rightarrow> goerr option" where
  "RunA2A c ended =
     (case agA2AServer c of
        None \<Rightarrow> Some (new_error (''a2a server: not configured '' @ [CHR 0xE2, CHR 0x80, CHR 0x94]
                                @ '' use WithA2ADefaultServer() or WithA2AServer()''))
      | Some cfg \<Rightarrow>
          (case ended of
             ContextDone (Some e) \<Rightarrow> Some (wrap_error ''a2a server: shutdown: '' e)
           | ContextDone None \<Rightarrow> None
           | ListenEnded (Some e) \<Rightarrow> Some (wrap_error ''a2a server: '' e)
           | ListenEnded None \<Rightarrow> None))"

section \<open>What the executor answers\<close>

definition text_deltas :: "AgentEvent list \<Rightarrow> string list" where
  "text_deltas evs = List.map_filter (\<lambda>ev. case ev of EvTextMessageContent i d \<Rightarrow> if d = [] then None else Some d | _ \<Rightarrow> None) evs"

definition pieces :: "string \<Rightarrow> string option \<Rightarrow> string list \<Rightarrow> serverEvent list" where
  "pieces newID art ds =
     (case art of
        Some a \<Rightarrow> map (SrvArtifactUpdate a) ds
      | None \<Rightarrow> (case ds of [] \<Rightarrow> [] | d # ds' \<Rightarrow> SrvArtifact newID d # map (SrvArtifactUpdate newID) ds'))"

fun terminal_event :: "AgentEvent \<Rightarrow> serverEvent option" where
  "terminal_event (EvRunFinished t r c) = Some SrvCompleted"
| "terminal_event (EvRunError m) = Some (SrvFailed m)"
| "terminal_event _ = None"

lemma forward_stream_shape:
  assumes "\<forall>ev \<in> set evs. terminal_event ev = None" "terminal_event final = Some out"
  shows "forward_stream newID art (evs @ final # rest) = pieces newID art (text_deltas evs) @ [out]"
  using assms(1)
proof (induction evs arbitrary: art)
  case Nil
  then show ?case using assms(2) by (cases final) (simp_all add: text_deltas_def pieces_def List.map_filter_def split: option.split)
next
  case (Cons ev evs)
  then have ih: "forward_stream newID art (evs @ final # rest) = pieces newID art (text_deltas evs) @ [out]" for art by simp
  have "terminal_event ev = None" using Cons.prems by simp
  then show ?case
    by (cases ev) (simp_all add: ih text_deltas_def pieces_def List.map_filter_def split: option.split)
qed

text \<open>The executor runs the agent without a conversation ID, which an agent with a conversation refuses.\<close>

lemma a2a_conversation_refused:
  assumes "agConversation (aConfig a) \<noteq> None" "2 < quit"
  shows "\<exists>s' m. ExecuteA2A ma hp a deliver newID ctx msg quit s =
      Some ((if streams (aConfig a) then [SrvSubmitted msg, SrvWorking] else []) @ [SrvFailed m], s')
     \<and> ctCalls s' = ctCalls s \<and> ctRuns s' = ctRuns s \<and> world (ctSt s') = world (ctSt s)"
  using assms
  by (auto simp: ExecuteA2A_def runInternal_def AgentStream_def run_gates_def validateConversationID_def
      conversationIDFromOpts_def run_failed_def on_run_def Effects.count_def observe_ms_def logged_def Let_def split: option.splits)

text \<open>A card read by the agent's own client names the skills the server was given or derived.\<close>

lemma skill_roundtrip [simp]: "fromSDKSkill (toSDKSkill sk) = sk"
  by (cases sk) (simp add: fromSDKSkill_def toSDKSkill_def)

end
