(* ===== verification/A2aServing.thy ===== *)
theory A2aServing
  imports A2aServer AgentFacts LocalEvents A2aFacts
begin

text \<open>
  The server over an agent on the in-process runtime: what a caller of the protocol is sent for a streamed
  run, and what the agent's own client makes of it.
\<close>

section \<open>A streamed run\<close>

text \<open>What the stream carries when the bus loses nothing: the events published since the state before.\<close>

definition published_since :: "'w client \<Rightarrow> 'w client \<Rightarrow> AgentEvent list" where
  "published_since s s1 = published (drop (length (trace (ctSt s))) (trace (ctSt s1)))"

lemma published_append [simp]: "published (xs @ ys) = published xs @ published ys"
  by (simp add: published_def)

lemma published_histogram [simp]: "published [Histogram n as] = []" "published [Counter n as] = []"
  by (simp_all add: published_def)

lemma inner_published: "list_all inner es \<Longrightarrow> ev \<in> set (published es) \<Longrightarrow> \<not> lifecycle ev"
  by (induction es) (auto simp: published_def inner_def split: effect.splits)

lemma terminal_lifecycle: "\<not> lifecycle ev \<Longrightarrow> terminal_event ev = None"
  by (cases ev) (simp_all add: lifecycle_def)

lemma AgentStream_local:
  assumes "AgentStream ma hp a ctx userPrompt conv s = Some (None, s1)" "aRuntime a = RunsLocally lrt" "locBus lrt"
  shows "\<exists>t r es final. published_since s s1 = EvRunStarted t r # es @ [final]
     \<and> (\<forall>ev \<in> set es. \<not> lifecycle ev) \<and> (\<exists>x. final = EvRunFinished t r x \<or> final = EvRunError x)"
proof -
  let ?s0 = "on_run (Effects.count MetricStreamStarted []) s"
  obtain tools specs s2 where g: "run_gates ma hp False (aConfig a) (conversationIDFromOpts conv) ?s0 = Some (Inr (tools, specs), s2)"
    and s1: "s1 = on_run (\<lambda>st. Effects.count MetricStreamDispatched [] (observe_ms MetricStreamDurationMs [] st))
      (on_run (ExecuteStream (hoEnv (maHost ma)) lrt (attachMemoryScopeContext (aConfig a) ctx)
                 (executeRequest (aConfig a) userPrompt conv True tools specs)) s2)"
    using assms(1,2) by (auto simp: AgentStream_def runtime_stream_def Let_def split: option.splits sum.splits prod.splits)
  from run_gates_quiet [OF g] obtain w where s2: "trace (ctSt s2) = trace (ctSt s) @ [Counter MetricStreamStarted []]"
    by (auto simp: on_run_def Effects.count_def logged_def)
  from ExecuteStream_lifecycle [OF assms(3), of "hoEnv (maHost ma)" "attachMemoryScopeContext (aConfig a) ctx"
      "executeRequest (aConfig a) userPrompt conv True tools specs" "ctSt s2"]
  obtain r t es final where x: "trace (ExecuteStream (hoEnv (maHost ma)) lrt (attachMemoryScopeContext (aConfig a) ctx)
        (executeRequest (aConfig a) userPrompt conv True tools specs) (ctSt s2))
      = trace (ctSt s2) @ Published (localChannelName r) (EvRunStarted t r) # es @ [Published (localChannelName r) final]"
    "list_all inner es" "\<exists>x. final = EvRunFinished t r x \<or> final = EvRunError x" by blast
  have "published_since s s1 = EvRunStarted t r # published es @ [final]"
    by (simp add: published_since_def s1 on_run_def Effects.count_def observe_ms_def logged_def x(1) s2)
  moreover have "\<forall>ev \<in> set (published es). \<not> lifecycle ev" using inner_published [OF x(2)] by blast
  ultimately show ?thesis using x(3) by blast
qed

lemma AgentStream_refused:
  assumes "AgentStream ma hp a ctx userPrompt conv s = Some (Some e, s1)" "aRuntime a = RunsLocally lrt"
  shows "published_since s s1 = []"
proof -
  let ?s0 = "on_run (Effects.count MetricStreamStarted []) s"
  obtain label s2 where g: "run_gates ma hp False (aConfig a) (conversationIDFromOpts conv) ?s0 = Some (Inl (label, e), s2)"
    and s1: "s1 = run_failed MetricStreamFailed MetricStreamDurationMs label s2"
    using assms by (auto simp: AgentStream_def runtime_stream_def Let_def split: option.splits sum.splits prod.splits)
  from run_gates_quiet [OF g] show ?thesis
    by (auto simp: published_since_def s1 run_failed_def on_run_def Effects.count_def observe_ms_def logged_def published_def)
qed

text \<open>The whole answer to a message, as long as the caller listens.\<close>

lemma served_stream:
  assumes "streams (aConfig a)" "aRuntime a = RunsLocally lrt" "locBus lrt" "2 < quit"
    and "ExecuteA2A ma hp a published_since newID ctx msg quit s = Some (evs, s1)"
  shows "(\<exists>m. evs = [SrvSubmitted msg, SrvWorking, SrvFailed m] \<and> published_since s s1 = [])
   \<or> (\<exists>t r es final out. published_since s s1 = EvRunStarted t r # es @ [final]
       \<and> evs = take quit ([SrvSubmitted msg, SrvWorking] @ pieces newID None (text_deltas es) @ [out])
       \<and> (\<exists>x. final = EvRunFinished t r x \<and> out = SrvCompleted \<or> final = EvRunError x \<and> out = SrvFailed x))"
proof -
  obtain q where q: "AgentStream ma hp a ctx (collectMessageText msg) None s = Some (q, s1)"
    "evs = (case q of Some e \<Rightarrow> [SrvSubmitted msg, SrvWorking, SrvFailed (err_msg e)]
      | None \<Rightarrow> take quit ([SrvSubmitted msg, SrvWorking] @ forward_stream newID None (published_since s s1)))"
    using assms(1,4,5) by (auto simp: ExecuteA2A_def Let_def split: option.splits prod.splits if_splits)
  show ?thesis
  proof (cases q)
    case (Some e)
    then show ?thesis using q AgentStream_refused [OF _ assms(2)] by auto
  next
    case None
    then obtain t r es final where p: "published_since s s1 = EvRunStarted t r # es @ [final]" "\<forall>ev \<in> set es. \<not> lifecycle ev"
      "\<exists>x. final = EvRunFinished t r x \<or> final = EvRunError x"
      using AgentStream_local [OF _ assms(2,3)] q(1) by blast
    then obtain out where o: "terminal_event final = Some out"
      "\<exists>x. final = EvRunFinished t r x \<and> out = SrvCompleted \<or> final = EvRunError x \<and> out = SrvFailed x" by auto
    have "\<forall>ev \<in> set es. terminal_event ev = None" using p(2) terminal_lifecycle by blast
    from forward_stream_shape [OF this o(1), of newID None "[]"]
    have f: "forward_stream newID None (published_since s s1) = pieces newID None (text_deltas es) @ [out]" by (simp add: p(1))
    have "evs = take quit ([SrvSubmitted msg, SrvWorking] @ pieces newID None (text_deltas es) @ [out])"
      using q(2) None f by simp
    then show ?thesis using p(1) o(2) by blast
  qed
qed

lemma pieces_text: "concat (List.map_filter (\<lambda>e. case e of SrvArtifact i d \<Rightarrow> Some d | SrvArtifactUpdate i d \<Rightarrow> Some d | _ \<Rightarrow> None)
    (pieces newID None ds)) = concat ds"
proof -
  have "List.map_filter (\<lambda>e. case e of SrvArtifact i d \<Rightarrow> Some d | SrvArtifactUpdate i d \<Rightarrow> Some d | _ \<Rightarrow> None)
      (map (SrvArtifactUpdate i) xs) = xs" for i xs by (induction xs) (simp_all add: List.map_filter_def)
  then show ?thesis by (cases ds) (simp_all add: pieces_def List.map_filter_def)
qed

section \<open>The card, served and read\<close>

text \<open>The agent's own client reads from the served card the skills and modes the server wrote into it, and the
  address of the interface.\<close>

lemma card_roundtrip:
  assumes "buildSDKAgentCard ho hp origin c cfg s = (crd, s1)"
  shows "cardName (fromSDKAgentCard (scvCard crd) base) = scName (scvCard crd)
     \<and> map toSDKSkill (cardSkills (fromSDKAgentCard (scvCard crd) base)) = scSkills (scvCard crd)
     \<and> cardURL (fromSDKAgentCard (scvCard crd) base) =
         (case svAgentCard cfg of
            Some ic \<Rightarrow> if trim_space (cardURL ic) = [] then server_url cfg
                       else if trim_slashes (trim_space (cardURL ic)) = [] then base else trim_slashes (trim_space (cardURL ic))
          | None \<Rightarrow> server_url cfg)"
proof -
  have u: "server_url cfg \<noteq> []" by (simp add: server_url_def)
  have k: "toSDKSkill (fromSDKSkill sk) = sk" for sk by (cases sk) (simp add: fromSDKSkill_def toSDKSkill_def)
  show ?thesis using assms u
    by (auto simp: buildSDKAgentCard_def fromSDKAgentCard_def Let_def k comp_def split: prod.splits option.splits)
qed

section \<open>Tokens\<close>

lemma bearer_before_iff: "bearer_before tokens vals \<longleftrightarrow> (\<exists>t \<in> set tokens. \<exists>rest. vals = Some ((''Bearer '' @ t) # rest))"
proof -
  have "prefix ''Bearer '' raw \<and> list_ex (\<lambda>t. drop (length ''Bearer '') raw = t) tokens \<longleftrightarrow> (\<exists>t \<in> set tokens. raw = ''Bearer '' @ t)" for raw
    by (auto simp: prefix_def list_ex_iff)
  then show ?thesis by (auto simp: bearer_before_def split: option.splits list.splits)
qed

end
