(* ===== verification/ServiceProps.thy ===== *)
theory ServiceProps
  imports ConversationFacts EventBus ProviderFacts A2aServing AgentDemo
begin

text \<open>
  What holds of the services around the runtimes: the conversation stores, the event bus, the clients of the
  model providers and the server for other agents.
\<close>

section \<open>Conversation stores\<close>






section \<open>Event bus\<close>


definition demo_publishing :: bus where
  "demo_publishing = publish_begin 0 ''ch'' ''e'' (snd (Subscribe ''ch'' NewInmem))"

lemma demo_publishing_reach: "bus_reach safe demo_publishing"
proof -
  have "bus_reach safe (snd (Subscribe ''ch'' NewInmem))"
    by (rule bus_reach.step [OF bus_reach.start bus_step.subscribe]) (simp add: NewInmem_def)
  from bus_reach.step [OF this bus_step.publish] show ?thesis
    unfolding demo_publishing_def by (simp add: NewInmem_def Subscribe_def)
qed

lemma demo_sent: "\<exists>b. bus_reach True b \<and> buQueue b 0 = [''e''] \<and> buPubs b 0 = Some \<lparr>puPayload = ''e'', puDone = [0], puTodo = []\<rparr>"
proof -
  obtain b where b: "publish_send 0 demo_publishing = Some b" "buQueue b 0 = [''e'']"
    "buPubs b 0 = Some \<lparr>puPayload = ''e'', puDone = [0], puTodo = []\<rparr>"
    by (simp add: demo_publishing_def bus_ops NewInmem_def subscriberCapacity_def)
  have "\<not> buPanic demo_publishing" by (simp add: demo_publishing_def bus_ops NewInmem_def)
  from bus_reach.step [OF demo_publishing_reach bus_step.send [OF this b(1)]] b(2,3) show ?thesis by blast
qed


text \<open>C18. The bus never panics when each subscription is closed once and only while no call of \<open>Publish\<close> still has
  to send to it; without this it can, since a publisher that copied the list of subscribers may send to a
  channel that was closed since.\<close>

theorem event_bus_closes_safely:
  "(bus_reach True b \<longrightarrow> \<not> buPanic b) \<and> (\<exists>b. bus_reach False b \<and> buPanic b)"
proof
  show "bus_reach True b \<longrightarrow> \<not> buPanic b" using close_inv_reach by (auto simp: close_inv_def)
  define b1 where "b1 = close_remove ''ch'' 0 demo_publishing"
  define b2 where "b2 = close_channel 0 b1"
  have 0: "\<not> buPanic demo_publishing" "0 < buNext demo_publishing"
    by (simp_all add: demo_publishing_def bus_ops NewInmem_def)
  have 1: "bus_reach False b1" unfolding b1_def by (rule bus_reach.step [OF demo_publishing_reach bus_step.remove [OF 0]]) simp
  have "\<not> buPanic b1" "0 < buClosing b1 0" by (simp_all add: b1_def demo_publishing_def bus_ops NewInmem_def)
  from bus_reach.step [OF 1 bus_step.close [OF this]] have 2: "bus_reach False b2" by (simp add: b2_def)
  have "\<not> buPanic b2" "publish_send 0 b2 = Some (b2\<lparr>buPanic := True\<rparr>)"
    by (simp_all add: b2_def b1_def demo_publishing_def bus_ops NewInmem_def)
  from bus_reach.step [OF 2 bus_step.send [OF this]] show "\<exists>b. bus_reach False b \<and> buPanic b" by auto
qed

lemma event_bus_closes_safely_witness: "\<exists>b. bus_reach True b \<and> buQueue b 0 = [''e''] \<and> \<not> buPanic b"
  using event_bus_closes_safely demo_sent by blast

section \<open>Requests to the providers\<close>











section \<open>The server for other agents\<close>





text \<open>The executor runs the agent without a conversation ID, so an agent with a conversation refuses every
  message of another agent: the task fails, and neither the world nor the service is touched.\<close>

theorem a2a_conversation_fails:
  assumes "agConversation (aConfig a) \<noteq> None" "2 < quit"
  shows "\<exists>s' m. ExecuteA2A ma hp a deliver newID ctx msg quit s =
      Some ((if streams (aConfig a) then [SrvSubmitted msg, SrvWorking] else []) @ [SrvFailed m], s')
     \<and> ctCalls s' = ctCalls s \<and> ctRuns s' = ctRuns s \<and> world (ctSt s') = world (ctSt s)"
  using assms by (rule a2a_conversation_refused)

definition demo_remembering :: "nat Agent" where
  "demo_remembering = demo_agent\<lparr>aConfig := demo_config\<lparr>agConversation :=
     Some \<lparr>cvConversation = rtConversation demo_rt, cvDistributed = False, cvSize = 20, cvSaveOnIteration = False\<rparr>\<rparr>\<rparr>"

lemma a2a_conversation_fails_witness:
  "\<exists>s' m. ExecuteA2A demo_machine demo_built_heap demo_remembering published_since ''id'' (\<lambda>_. None) None 3 demo_client =
      Some ((if streams (aConfig demo_remembering) then [SrvSubmitted None, SrvWorking] else []) @ [SrvFailed m], s')
     \<and> ctCalls s' = [] \<and> world (ctSt s') = 0"
proof -
  have "agConversation (aConfig demo_remembering) \<noteq> None" by (simp add: demo_remembering_def)
  from a2a_conversation_fails [OF this, of 3 demo_machine demo_built_heap published_since "''id''" "\<lambda>_. None" None demo_client]
  have "\<exists>s' m. ExecuteA2A demo_machine demo_built_heap demo_remembering published_since ''id'' (\<lambda>_. None) None 3 demo_client =
      Some ((if streams (aConfig demo_remembering) then [SrvSubmitted None, SrvWorking] else []) @ [SrvFailed m], s')
     \<and> ctCalls s' = ctCalls demo_client \<and> world (ctSt s') = world (ctSt demo_client)" by auto
  then show ?thesis by (simp only: demo_client_def demo_st_def client.simps st.simps)
qed

end
