(* ===== verification/MemoryStores.thy ===== *)
theory MemoryStores
  imports MemoryConfig "HOL-Library.Multiset"
begin

text \<open>
  What a memory backend promises, and the one in memory (\<open>internal/testing/inmem_memory.go\<close>): a store is a
  list of entries with distinct identifiers; an entry is recalled by the scopes its own scope matches.  A Go
  map is ranged over in any order: \<open>visit\<close> stands for the order of one range.  Times are read from the clock
  as \<open>now\<close>, a fresh UUID is \<open>fresh\<close>.
\<close>

section \<open>Options (\<open>pkg/interfaces/memory.go\<close>)\<close>

record LoadMemoryOptions =
  lmLimit :: int
  lmMinScore :: rat
  lmKinds :: "string list"

fun load_option :: "LoadMemoryOption \<Rightarrow> LoadMemoryOptions \<Rightarrow> LoadMemoryOptions" where
  "load_option (WithLoadLimit limit) o0 = o0\<lparr>lmLimit := limit\<rparr>"
| "load_option (WithMinScore minScore) o0 = o0\<lparr>lmMinScore := minScore\<rparr>"
| "load_option (WithLoadKinds kinds) o0 = o0\<lparr>lmKinds := kinds\<rparr>"

definition load_options :: "LoadMemoryOption list \<Rightarrow> LoadMemoryOptions" where
  "load_options opts = fold load_option opts \<lparr>lmLimit = 0, lmMinScore = 0, lmKinds = []\<rparr>"

fun store_option :: "StoreMemoryOption \<Rightarrow> string \<Rightarrow> string" where
  "store_option (WithMemoryID i) _ = i"

definition store_id :: "StoreMemoryOption list \<Rightarrow> string" where
  "store_id opts = fold store_option opts []"

section \<open>Scopes and kinds\<close>

definition scopeMatches :: "MemoryScope \<Rightarrow> MemoryScope \<Rightarrow> bool" where
  "scopeMatches stored filt \<longleftrightarrow>
     list_all (\<lambda>(key, want). map_of (ScopeMetadata stored) key = Some want) (ScopeMetadata filt)"

definition kindMatches :: "string \<Rightarrow> string list \<Rightarrow> bool" where
  "kindMatches kind kinds \<longleftrightarrow> kinds = [] \<or> list_ex (\<lambda>allowed. kind = allowed) kinds"

definition scopeIsEmpty :: "MemoryScope \<Rightarrow> bool" where
  "scopeIsEmpty s \<longleftrightarrow> UserID s = [] \<and> TenantID s = [] \<and> AgentID s = [] \<and> Tags s = []"

text \<open>Copies of maps; \<open>clone\<close> is what \<open>json.Marshal\<close> and \<open>json.Unmarshal\<close> make of metadata.\<close>

definition cloneScope :: "MemoryScope \<Rightarrow> MemoryScope" where
  "cloneScope s = \<lparr>UserID = UserID s, TenantID = TenantID s, AgentID = AgentID s,
     Tags = (if Tags s \<noteq> [] then map (\<lambda>(k, v). (k, v)) (Tags s) else [])\<rparr>"

type_synonym metadata = "(string \<times> string) list"

definition cloneMetadata :: "(metadata \<Rightarrow> metadata) \<Rightarrow> metadata \<Rightarrow> metadata" where
  "cloneMetadata clone m = (if m = [] then [] else clone m)"

definition cloneEntry :: "(metadata \<Rightarrow> metadata) \<Rightarrow> MemoryEntry \<Rightarrow> MemoryEntry" where
  "cloneEntry clone e = e\<lparr>meScope := cloneScope (meScope e), meMetadata := cloneMetadata clone (meMetadata e)\<rparr>"

section \<open>In memory\<close>

type_synonym inmem_records = "(string \<times> MemoryEntry) list"

definition InmemStore :: "(metadata \<Rightarrow> metadata) \<Rightarrow> int \<Rightarrow> string \<Rightarrow> MemoryScope \<Rightarrow> MemoryRecord \<Rightarrow>
    StoreMemoryOption list \<Rightarrow> inmem_records \<Rightarrow> (goerr + string) \<times> inmem_records" where
  "InmemStore clone now fresh scope r opts m =
     (let trimmed = trim_space (store_id opts);
          i = (if trimmed = [] then fresh else trimmed);
          createdAt = (case map_of m i of None \<Rightarrow> now | Some existing \<Rightarrow> meCreatedAt existing);
          entry = \<lparr>meID = i, meText = mrText r, meKind = mrKind r, meScope = cloneScope scope,
                   meMetadata = cloneMetadata clone (mrMetadata r), meExpiresAt = mrExpiresAt r, meScore = 0,
                   meCreatedAt = createdAt, meUpdatedAt = now\<rparr>
      in (Inr i, AList.update i entry m))"

text \<open>One record of the range: the entry that is recalled, if it is.\<close>

definition inmem_match :: "int \<Rightarrow> MemoryScope \<Rightarrow> string \<Rightarrow> LoadMemoryOptions \<Rightarrow> MemoryEntry \<Rightarrow> MemoryEntry option" where
  "inmem_match now scope query lo entry =
     (if Expired now entry then None
      else if \<not> scopeMatches (meScope entry) scope then None
      else if \<not> kindMatches (meKind entry) (lmKinds lo) then None
      else if query = [] then Some entry
      else if \<not> str_contains (to_lower (meText entry)) query then None
      else (let matched = entry\<lparr>meScore := 1\<rparr>
            in if lmMinScore lo > 0 \<and> meScore matched < lmMinScore lo then None else Some matched))"

text \<open>\<open>sort.Slice\<close> need not be stable, but what it may do with equal times is what another order of the range
  and a stable sort do.\<close>

definition newest_first :: "MemoryEntry list \<Rightarrow> MemoryEntry list" where
  "newest_first es = sort_key (\<lambda>e. - meUpdatedAt e) es"

definition InmemLoad :: "(metadata \<Rightarrow> metadata) \<Rightarrow> int \<Rightarrow> (inmem_records \<Rightarrow> inmem_records) \<Rightarrow> MemoryScope \<Rightarrow> string \<Rightarrow>
    LoadMemoryOption list \<Rightarrow> inmem_records \<Rightarrow> goerr + MemoryEntry list" where
  "InmemLoad clone now visit scope query opts m =
     (let lo = load_options opts;
          limit = (if lmLimit lo \<le> 0 then 10 else lmLimit lo);
          q = to_lower (trim_space query);
          matches = List.map_filter (\<lambda>(_, entry). inmem_match now scope q lo entry) (visit m);
          sorted = newest_first matches;
          cut = (if int (length sorted) > limit then take (nat limit) sorted else sorted)
      in Inr (map (cloneEntry clone) cut))"

definition InmemClearMemories :: "MemoryScope \<Rightarrow> inmem_records \<Rightarrow> goerr option \<times> inmem_records" where
  "InmemClearMemories scope m =
     (if scopeIsEmpty scope then (None, m)
      else (None, filter (\<lambda>(_, entry). \<not> scopeMatches (meScope entry) scope) m))"

section \<open>Scopes as sets of pairs\<close>

text \<open>A scope as the code can build it: a map has each key once.\<close>

definition wf_scope :: "MemoryScope \<Rightarrow> bool" where
  "wf_scope s \<longleftrightarrow> distinct (map fst (Tags s))"

lemma distinct_put_nonempty [simp]: "distinct (map fst m) \<Longrightarrow> distinct (map fst (put_nonempty k v m))"
  by (simp add: put_nonempty_def distinct_update)

lemma distinct_ScopeMetadata: "wf_scope s \<Longrightarrow> distinct (map fst (ScopeMetadata s))"
  by (simp add: wf_scope_def ScopeMetadata_def Let_def distinct_map_filter)

lemma scopeMatches_map_le:
  assumes "wf_scope filt"
  shows "scopeMatches stored filt \<longleftrightarrow> map_of (ScopeMetadata filt) \<subseteq>\<^sub>m map_of (ScopeMetadata stored)"
proof -
  note d = distinct_ScopeMetadata [OF assms]
  show ?thesis
    unfolding scopeMatches_def list_all_iff map_le_def
    using map_of_eq_Some_iff [OF d] by (force simp: dom_map_of_conv_image_fst)
qed

lemma scopeMatches_refl: "wf_scope s \<Longrightarrow> scopeMatches s s"
  by (simp add: scopeMatches_map_le)

lemma scopeMatches_trans:
  "wf_scope b \<Longrightarrow> wf_scope c \<Longrightarrow> scopeMatches a b \<Longrightarrow> scopeMatches b c \<Longrightarrow> scopeMatches a c"
  by (auto simp: scopeMatches_map_le intro: map_le_trans)

lemma scopeMatches_fields:
  assumes "wf_scope filt" "scopeMatches stored filt"
  shows "UserID filt \<noteq> [] \<Longrightarrow> UserID stored = UserID filt"
    and "TenantID filt \<noteq> [] \<Longrightarrow> TenantID stored = TenantID filt"
    and "AgentID filt \<noteq> [] \<Longrightarrow> AgentID stored = AgentID filt"
proof -
  have le: "map_of (ScopeMetadata filt) k = Some v \<Longrightarrow> map_of (ScopeMetadata stored) k = Some v" for k v
    using assms by (metis scopeMatches_map_le map_le_def domI)
  show "UserID filt \<noteq> [] \<Longrightarrow> UserID stored = UserID filt"
    using le [of ScopeKeyUserID "UserID filt"]
    by (auto simp: ScopeMetadata_lookup ScopeKeyUserID_def ScopeKeyTenantID_def ScopeKeyAgentID_def split: if_splits)
  show "TenantID filt \<noteq> [] \<Longrightarrow> TenantID stored = TenantID filt"
    using le [of ScopeKeyTenantID "TenantID filt"]
    by (auto simp: ScopeMetadata_lookup ScopeKeyUserID_def ScopeKeyTenantID_def ScopeKeyAgentID_def split: if_splits)
  show "AgentID filt \<noteq> [] \<Longrightarrow> AgentID stored = AgentID filt"
    using le [of ScopeKeyAgentID "AgentID filt"]
    by (auto simp: ScopeMetadata_lookup ScopeKeyUserID_def ScopeKeyTenantID_def ScopeKeyAgentID_def split: if_splits)
qed

lemma scopeMatches_empty: "ScopeMetadata filt = [] \<Longrightarrow> scopeMatches stored filt"
  by (simp add: scopeMatches_def)

lemma scopeMatches_perm:
  assumes "mset ms = mset (ScopeMetadata filt)"
  shows "scopeMatches stored filt \<longleftrightarrow> (\<forall>(k, v) \<in> set ms. map_of (ScopeMetadata stored) k = Some v)"
proof -
  have "set ms = set (ScopeMetadata filt)" using assms by (metis set_mset_mset)
  then show ?thesis by (simp add: scopeMatches_def list_all_iff)
qed

lemma cloneScope_id [simp]: "cloneScope s = s"
  by (simp add: cloneScope_def)

lemma kindMatches_iff: "kindMatches kind kinds \<longleftrightarrow> kinds = [] \<or> kind \<in> set kinds"
  by (auto simp: kindMatches_def list_ex_iff)

section \<open>The contract\<close>

text \<open>The identifier a store is asked to use, and the entry it then keeps, up to the form of its maps.\<close>

definition mem_id :: "string \<Rightarrow> StoreMemoryOption list \<Rightarrow> string" where
  "mem_id fresh opts = (let trimmed = trim_space (store_id opts) in if trimmed = [] then fresh else trimmed)"

definition same_scope :: "MemoryScope \<Rightarrow> MemoryScope \<Rightarrow> bool" where
  "same_scope a b \<longleftrightarrow> map_of (ScopeMetadata a) = map_of (ScopeMetadata b)"

definition keeps :: "string \<Rightarrow> MemoryScope \<Rightarrow> MemoryRecord \<Rightarrow> MemoryEntry \<Rightarrow> bool" where
  "keeps i scope r e \<longleftrightarrow> meID e = i \<and> meText e = mrText r \<and> meKind e = mrKind r
     \<and> meExpiresAt e = mrExpiresAt r \<and> same_scope (meScope e) scope
     \<and> map_of (meMetadata e) = map_of (mrMetadata r)"

definition stored_at :: "int \<Rightarrow> MemoryEntry option \<Rightarrow> MemoryEntry \<Rightarrow> bool" where
  "stored_at now before e \<longleftrightarrow> meUpdatedAt e = now
     \<and> meCreatedAt e = (case before of None \<Rightarrow> now | Some b \<Rightarrow> meCreatedAt b)"

definition visible :: "int \<Rightarrow> MemoryScope \<Rightarrow> string list \<Rightarrow> MemoryEntry \<Rightarrow> bool" where
  "visible now scope kinds e \<longleftrightarrow>
     \<not> Expired now e \<and> scopeMatches (meScope e) scope \<and> kindMatches (meKind e) kinds"

text \<open>Not expired a moment from now either: the backends differ at the very instant of the expiry.\<close>

definition lasting :: "int \<Rightarrow> MemoryEntry \<Rightarrow> bool" where
  "lasting now e \<longleftrightarrow> (case meExpiresAt e of None \<Rightarrow> True | Some t \<Rightarrow> now < t)"

definition cleared :: "MemoryScope \<Rightarrow> (string \<rightharpoonup> MemoryEntry) \<Rightarrow> string \<rightharpoonup> MemoryEntry" where
  "cleared scope c = (\<lambda>i. case c i of None \<Rightarrow> None
     | Some e \<Rightarrow> if scopeMatches (meScope e) scope then None else Some e)"

datatype mem_op = MemStore int string MemoryScope MemoryRecord "StoreMemoryOption list"
  | MemLoad int MemoryScope string "LoadMemoryOption list"
  | MemClear MemoryScope

datatype mem_reply = MemStored "goerr + string" | MemLoaded "goerr + MemoryEntry list" | MemCleared "goerr option"

fun store_mem :: "(int \<Rightarrow> string \<Rightarrow> MemoryScope \<Rightarrow> MemoryRecord \<Rightarrow> StoreMemoryOption list \<Rightarrow> 's \<Rightarrow> (goerr + string) \<times> 's)
    \<Rightarrow> (int \<Rightarrow> MemoryScope \<Rightarrow> string \<Rightarrow> LoadMemoryOption list \<Rightarrow> 's \<Rightarrow> (goerr + MemoryEntry list) \<times> 's)
    \<Rightarrow> (MemoryScope \<Rightarrow> 's \<Rightarrow> goerr option \<times> 's) \<Rightarrow> mem_op \<Rightarrow> 's \<Rightarrow> mem_reply \<times> 's" where
  "store_mem put recall forget (MemStore now fresh scope r opts) s = map_prod MemStored (\<lambda>x. x) (put now fresh scope r opts s)"
| "store_mem put recall forget (MemLoad now scope q opts) s = map_prod MemLoaded (\<lambda>x. x) (recall now scope q opts s)"
| "store_mem put recall forget (MemClear scope) s = map_prod MemCleared (\<lambda>x. x) (forget scope s)"

fun mem_ops :: "(mem_op \<Rightarrow> 's \<Rightarrow> mem_reply \<times> 's) \<Rightarrow> mem_op list \<Rightarrow> 's \<Rightarrow> mem_reply list \<times> 's" where
  "mem_ops step [] s = ([], s)"
| "mem_ops step (op # ops) s = (let (r, s1) = step op s; (rs, s2) = mem_ops step ops s1 in (r # rs, s2))"

text \<open>Where the memories kept after a history may come from: the stores that no later store under the same
  identifier replaced and no later clearing reached.  A store that failed may have been carried out or not.\<close>

type_synonym origin = "string \<times> MemoryScope \<times> MemoryRecord"

fun originate :: "mem_op \<times> mem_reply \<Rightarrow> origin list \<Rightarrow> origin list" where
  "originate (MemStore now fresh scope r opts, MemStored (Inr i)) os = (i, scope, r) # filter (\<lambda>(j, _). j \<noteq> i) os"
| "originate (MemStore now fresh scope r opts, _) os = (mem_id fresh opts, scope, r) # os"
| "originate (MemClear scope, MemCleared None) os =
     (if ScopeMetadata scope = [] then os else filter (\<lambda>(_, s, _). \<not> scopeMatches s scope) os)"
| "originate _ os = os"

definition origins :: "(mem_op \<times> mem_reply) list \<Rightarrow> origin list" where
  "origins h = fold originate h []"

text \<open>Operations a store is meant for.\<close>

definition mem_op_ok :: "(MemoryScope \<Rightarrow> bool) \<Rightarrow> (MemoryRecord \<Rightarrow> bool) \<Rightarrow> mem_op \<Rightarrow> bool" where
  "mem_op_ok scope_ok storable op = (case op of MemStore now fresh scope r opts \<Rightarrow> scope_ok scope \<and> storable r
     | MemLoad now scope q opts \<Rightarrow> scope_ok scope | MemClear scope \<Rightarrow> scope_ok scope)"

locale memory_store =
  fixes wf_mem :: "'s \<Rightarrow> bool" and contents :: "'s \<Rightarrow> string \<rightharpoonup> MemoryEntry"
    and scope_ok :: "MemoryScope \<Rightarrow> bool" and storable :: "MemoryRecord \<Rightarrow> bool"
    and put :: "int \<Rightarrow> string \<Rightarrow> MemoryScope \<Rightarrow> MemoryRecord \<Rightarrow> StoreMemoryOption list \<Rightarrow> 's \<Rightarrow> (goerr + string) \<times> 's"
    and recall :: "int \<Rightarrow> MemoryScope \<Rightarrow> string \<Rightarrow> LoadMemoryOption list \<Rightarrow> 's \<Rightarrow> (goerr + MemoryEntry list) \<times> 's"
    and forget :: "MemoryScope \<Rightarrow> 's \<Rightarrow> goerr option \<times> 's"
  assumes put_law: "wf_mem s \<Longrightarrow> scope_ok scope \<Longrightarrow> storable r \<Longrightarrow> put now fresh scope r opts s = (res, s') \<Longrightarrow>
      wf_mem s' \<and> (\<exists>e. keeps (mem_id fresh opts) scope r e \<and> stored_at now (contents s (mem_id fresh opts)) e
        \<and> (case res of Inl _ \<Rightarrow> contents s' = contents s \<or> contents s' = (contents s)(mem_id fresh opts \<mapsto> e)
           | Inr i \<Rightarrow> i = mem_id fresh opts \<and> contents s' = (contents s)(i \<mapsto> e)))"
    and recall_law: "wf_mem s \<Longrightarrow> scope_ok scope \<Longrightarrow> recall now scope q lopts s = (got, s') \<Longrightarrow>
      wf_mem s' \<and> contents s' = contents s
      \<and> (\<forall>es. got = Inr es \<longrightarrow> (\<forall>e \<in> set es. \<exists>e0. contents s (meID e) = Some e0 \<and> e = e0\<lparr>meScore := meScore e\<rparr>
           \<and> visible now scope (lmKinds (load_options lopts)) e0))"
    and recent_law: "wf_mem s \<Longrightarrow> scope_ok scope \<Longrightarrow> trim_space q = [] \<Longrightarrow> recall now scope q lopts s = (Inr es, s') \<Longrightarrow>
      contents s i = Some e0 \<Longrightarrow> visible now scope (lmKinds (load_options lopts)) e0 \<Longrightarrow> lasting now e0 \<Longrightarrow>
      i \<in> meID ` set es \<or> es \<noteq> [] \<and> (\<forall>e \<in> set es. meUpdatedAt e0 \<le> meUpdatedAt e)"
    and forget_law: "wf_mem s \<Longrightarrow> scope_ok scope \<Longrightarrow> forget scope s = (err, s') \<Longrightarrow>
      wf_mem s' \<and> (contents s' = contents s \<or> contents s' = cleared scope (contents s))
      \<and> (err = None \<and> ScopeMetadata scope \<noteq> [] \<longrightarrow> contents s' = cleared scope (contents s))"
begin

definition justified :: "origin list \<Rightarrow> 's \<Rightarrow> bool" where
  "justified os s \<longleftrightarrow> (\<forall>i e. contents s i = Some e \<longrightarrow> (\<exists>(j, scope, r) \<in> set os. j = i \<and> keeps i scope r e))"

lemma step_justified:
  assumes "wf_mem s" "justified os s" "mem_op_ok scope_ok storable op" "store_mem put recall forget op s = (reply, s')"
  shows "wf_mem s' \<and> justified (originate (op, reply) os) s'"
proof (cases op)
  case (MemStore now fresh scope r opts)
  obtain res where res: "put now fresh scope r opts s = (res, s')" "reply = MemStored res"
    using assms(4) MemStore by (cases "put now fresh scope r opts s") auto
  from put_law [OF assms(1) _ _ res(1)] assms(3) MemStore obtain e where
    e: "wf_mem s'" "keeps (mem_id fresh opts) scope r e"
      "case res of Inl _ \<Rightarrow> contents s' = contents s \<or> contents s' = (contents s)(mem_id fresh opts \<mapsto> e)
       | Inr i \<Rightarrow> i = mem_id fresh opts \<and> contents s' = (contents s)(i \<mapsto> e)"
    by (auto simp: mem_op_ok_def)
  show ?thesis
  proof (cases res)
    case (Inl err)
    then show ?thesis using e assms(2) MemStore res(2)
      by (auto simp: justified_def split: if_splits) blast+
  next
    case (Inr i)
    then show ?thesis using e assms(2) MemStore res(2)
      by (auto simp: justified_def split: if_splits) blast
  qed
next
  case (MemLoad now scope q lopts)
  obtain res where res: "recall now scope q lopts s = (res, s')" "reply = MemLoaded res"
    using assms(4) MemLoad by (cases "recall now scope q lopts s") auto
  from recall_law [OF assms(1) _ res(1)] assms MemLoad res(2) show ?thesis
    by (simp add: mem_op_ok_def justified_def)
next
  case (MemClear scope)
  obtain err where res: "forget scope s = (err, s')" "reply = MemCleared err"
    using assms(4) MemClear by (cases "forget scope s") auto
  have l: "wf_mem s'" "contents s' = contents s \<or> contents s' = cleared scope (contents s)"
    "err = None \<and> ScopeMetadata scope \<noteq> [] \<longrightarrow> contents s' = cleared scope (contents s)"
    using forget_law [OF assms(1) _ res(1)] assms(3) MemClear by (auto simp: mem_op_ok_def)
  have sub: "contents s' i = Some e \<Longrightarrow> contents s i = Some e" for i e
    using l(2) by (auto simp: cleared_def split: option.splits if_splits)
  have "\<exists>(j, sc, r) \<in> set (originate (op, reply) os). j = i \<and> keeps i sc r e" if "contents s' i = Some e" for i e
  proof -
    have "contents s i = Some e" by (rule sub) (rule that)
    then obtain sc r where o: "(i, sc, r) \<in> set os" "keeps i sc r e"
      using assms(2) unfolding justified_def by blast
    have "(i, sc, r) \<in> set (originate (op, reply) os)"
    proof (cases "err = None \<and> ScopeMetadata scope \<noteq> []")
      case True
      then have "\<not> scopeMatches (meScope e) scope"
        using l(3) that by (auto simp: cleared_def split: option.splits if_splits)
      then have "\<not> scopeMatches sc scope" using o(2) by (simp add: keeps_def same_scope_def scopeMatches_def)
      then show ?thesis using o(1) True MemClear res(2) by simp
    next
      case False
      then show ?thesis using o(1) MemClear res(2) by (cases err) auto
    qed
    with o(2) show ?thesis by blast
  qed
  with l(1) show ?thesis unfolding justified_def by blast
qed

lemma ops_justified:
  "wf_mem s \<Longrightarrow> justified os s \<Longrightarrow> list_all (mem_op_ok scope_ok storable) ops \<Longrightarrow> mem_ops (store_mem put recall forget) ops s = (rs, s') \<Longrightarrow>
   wf_mem s' \<and> justified (fold originate (zip ops rs) os) s'"
proof (induction ops arbitrary: os s rs)
  case (Cons op ops)
  obtain reply s1 rs' where
    1: "store_mem put recall forget op s = (reply, s1)" "mem_ops (store_mem put recall forget) ops s1 = (rs', s')" "rs = reply # rs'"
    using Cons.prems(4) by (auto split: prod.splits)
  have "wf_mem s1" "justified (originate (op, reply) os) s1"
    using step_justified [OF Cons.prems(1,2) _ 1(1)] Cons.prems(3) by simp_all
  from Cons.IH [OF this _ 1(2)] Cons.prems(3) 1(3) show ?case by simp
qed simp

text \<open>What is recalled after any history was stored in it, in a scope the recall matches.\<close>

lemma recalled_was_stored:
  assumes "wf_mem s0" "contents s0 = Map.empty" "list_all (mem_op_ok scope_ok storable) ops" "scope_ok scope"
    and "mem_ops (store_mem put recall forget) ops s0 = (rs, s)" "recall now scope q lopts s = (Inr es, s')" "e \<in> set es"
  shows "\<exists>(i, stored, r) \<in> set (origins (zip ops rs)). keeps i stored r e \<and> scopeMatches stored scope
     \<and> \<not> Expired now e \<and> kindMatches (meKind e) (lmKinds (load_options lopts))"
proof -
  have "justified [] s0" using assms(2) by (simp add: justified_def)
  from ops_justified [OF assms(1) this assms(3,5)]
  have s: "wf_mem s" "justified (origins (zip ops rs)) s" by (simp_all add: origins_def)
  from recall_law [OF s(1) assms(4,6)] assms(7) obtain e0 where
    e0: "contents s (meID e) = Some e0" "e = e0\<lparr>meScore := meScore e\<rparr>" "visible now scope (lmKinds (load_options lopts)) e0"
    by blast
  then obtain stored r where o: "(meID e, stored, r) \<in> set (origins (zip ops rs))" "keeps (meID e) stored r e0"
    using s(2) unfolding justified_def by blast
  have k: "keeps (meID e) stored r e" using o(2) by (subst e0(2)) (simp add: keeps_def)
  have "scopeMatches stored scope" using o(2) e0(3) by (simp add: keeps_def same_scope_def visible_def scopeMatches_def)
  moreover have "\<not> Expired now e" by (subst e0(2)) (use e0(3) in \<open>simp add: visible_def Expired_def\<close>)
  moreover have "kindMatches (meKind e) (lmKinds (load_options lopts))" by (subst e0(2)) (use e0(3) in \<open>simp add: visible_def\<close>)
  ultimately show ?thesis using o(1) k by blast
qed

text \<open>What was just stored is listed by recency, or only memories stored no earlier are.\<close>

lemma stored_is_recalled:
  assumes "wf_mem s" "scope_ok stored" "scope_ok scope" "storable r" "put now fresh stored r opts s = (Inr i, s1)"
    and "recall later scope q lopts s1 = (Inr es, s2)" "trim_space q = []"
    and "scopeMatches stored scope" "kindMatches (mrKind r) (lmKinds (load_options lopts))"
    and "case mrExpiresAt r of None \<Rightarrow> True | Some t \<Rightarrow> later < t"
  shows "i \<in> meID ` set es \<or> es \<noteq> [] \<and> (\<forall>e \<in> set es. now \<le> meUpdatedAt e)"
proof -
  from put_law [OF assms(1,2,4,5)] obtain e where e: "wf_mem s1" "keeps i stored r e" "meUpdatedAt e = now" "contents s1 i = Some e"
    by (auto simp: stored_at_def)
  have "visible later scope (lmKinds (load_options lopts)) e" "lasting later e"
    using e(2) assms(8-10)
    by (auto simp: visible_def lasting_def keeps_def Expired_def same_scope_def scopeMatches_def split: option.splits)
  from recent_law [OF e(1) assms(3,7,6) e(4) this] e(3) show ?thesis by simp
qed

end

section \<open>The store in memory keeps the contract\<close>

definition wf_inmem :: "(metadata \<Rightarrow> metadata) \<Rightarrow> inmem_records \<Rightarrow> bool" where
  "wf_inmem clone m \<longleftrightarrow> distinct (map fst m)
     \<and> (\<forall>(i, e) \<in> set m. meID e = i \<and> cloneMetadata clone (meMetadata e) = meMetadata e)"

lemma set_map_filter: "set (List.map_filter f xs) = {y. \<exists>x \<in> set xs. f x = Some y}"
  by (induction xs) (auto simp: List.map_filter_simps split: option.splits)

lemma inmem_match_visible:
  "inmem_match now scope q lo entry = Some e \<Longrightarrow>
   visible now scope (lmKinds lo) entry \<and> e = entry\<lparr>meScore := meScore e\<rparr>"
  by (auto simp: inmem_match_def visible_def Let_def split: if_splits)

lemma inmem_match_recent: "inmem_match now scope [] lo entry = (if visible now scope (lmKinds lo) entry then Some entry else None)"
  by (simp add: inmem_match_def visible_def)

text \<open>Of a list sorted by recency, what is cut off is no newer than what is kept.\<close>

lemma newest_first_cut:
  assumes "y \<in> set xs" "y \<notin> set (take n (newest_first xs))" "x \<in> set (take n (newest_first xs))"
  shows "meUpdatedAt y \<le> meUpdatedAt x"
proof -
  let ?s = "newest_first xs" and ?f = "\<lambda>e :: MemoryEntry. - meUpdatedAt e"
  have "sorted (map ?f (take n ?s) @ map ?f (drop n ?s))"
    unfolding map_append [symmetric] append_take_drop_id by (simp add: newest_first_def)
  moreover have "y \<in> set (take n ?s) \<union> set (drop n ?s)"
    using assms(1) by (metis append_take_drop_id newest_first_def set_append set_sort)
  ultimately show ?thesis using assms(2,3) by (auto simp: sorted_append)
qed

lemma cloneEntry_id: "cloneMetadata clone (meMetadata e) = meMetadata e \<Longrightarrow> cloneEntry clone e = e"
  by (simp add: cloneEntry_def)

lemma set_AList_update: "x \<in> set (AList.update k v m) \<Longrightarrow> x = (k, v) \<or> x \<in> set m"
  by (induction m) (auto split: if_splits)

lemma inmem_load_elem:
  assumes "wf_inmem clone m" "set (visit m) = set m" "InmemLoad clone now visit scope q lopts m = Inr es" "e \<in> set es"
  shows "\<exists>e0. map_of m (meID e) = Some e0 \<and> e = e0\<lparr>meScore := meScore e\<rparr> \<and> visible now scope (lmKinds (load_options lopts)) e0"
proof -
  define ms where "ms = List.map_filter (\<lambda>(_, entry). inmem_match now scope (to_lower (trim_space q)) (load_options lopts) entry) (visit m)"
  have "set es \<subseteq> cloneEntry clone ` set ms"
    using assms(3) set_take_subset [of _ "newest_first ms"]
    by (fastforce simp: InmemLoad_def Let_def ms_def [symmetric] newest_first_def split: if_splits)
  then obtain e1 where e1: "e = cloneEntry clone e1" "e1 \<in> set ms" using assms(4) by blast
  then obtain i e0 where e0: "(i, e0) \<in> set m" "inmem_match now scope (to_lower (trim_space q)) (load_options lopts) e0 = Some e1"
    using assms(2) by (auto simp: ms_def set_map_filter)
  have w: "meID e0 = i" "cloneMetadata clone (meMetadata e0) = meMetadata e0" "map_of m i = Some e0"
    using assms(1) e0(1) by (auto simp: wf_inmem_def)
  have v: "visible now scope (lmKinds (load_options lopts)) e0" "e1 = e0\<lparr>meScore := meScore e1\<rparr>"
    using inmem_match_visible [OF e0(2)] by auto
  then have same: "meMetadata e1 = meMetadata e0" "meID e1 = meID e0"
    by (metis MemoryEntry.select_convs(1,5) MemoryEntry.surjective MemoryEntry.update_convs(7))+
  then have "e = e1" using e1(1) w(2) cloneEntry_id by metis
  then show ?thesis using v w same by metis
qed

lemma inmem_load_recent:
  assumes "wf_inmem clone m" "set (visit m) = set m" "trim_space q = []" "InmemLoad clone now visit scope q lopts m = Inr es"
    and "map_of m i = Some e0" "visible now scope (lmKinds (load_options lopts)) e0"
  shows "i \<in> meID ` set es \<or> es \<noteq> [] \<and> (\<forall>e \<in> set es. meUpdatedAt e0 \<le> meUpdatedAt e)"
proof -
  define ms where "ms = List.map_filter (\<lambda>(_, entry). inmem_match now scope [] (load_options lopts) entry) (visit m)"
  define limit where "limit = nat (if lmLimit (load_options lopts) \<le> 0 then 10 else lmLimit (load_options lopts))"
  have pos: "0 < limit" by (simp add: limit_def)
  have q: "to_lower (trim_space q) = []" using assms(3) by (simp add: to_lower_def)
  have es: "es = map (cloneEntry clone) (take limit (newest_first ms))"
    using assms(4) by (auto simp: InmemLoad_def q Let_def ms_def limit_def split: if_splits)
  have sub: "x \<in> set ms \<Longrightarrow> \<exists>j. (j, x) \<in> set m" for x
    using assms(2) by (auto simp: ms_def set_map_filter inmem_match_recent split: if_splits)
  have e0: "(i, e0) \<in> set m" using assms(5) by (rule map_of_SomeD)
  then have in_ms: "e0 \<in> set ms" using assms(2,6) by (force simp: ms_def set_map_filter inmem_match_recent)
  have id: "meID e0 = i" using assms(1) e0 by (auto simp: wf_inmem_def)
  have keep: "x \<in> set m \<Longrightarrow> meUpdatedAt (cloneEntry clone (snd x)) = meUpdatedAt (snd x)" for x by (simp add: cloneEntry_def)
  show ?thesis
  proof (cases "e0 \<in> set (take limit (newest_first ms))")
    case True
    then have "cloneEntry clone e0 \<in> set es" by (simp add: es)
    moreover have "meID (cloneEntry clone e0) = i" using id by (simp add: cloneEntry_def)
    ultimately show ?thesis by (metis image_eqI)
  next
    case False
    have "newest_first ms \<noteq> []" using in_ms by (auto simp: newest_first_def dest: arg_cong [of _ _ set])
    then have "es \<noteq> []" using pos by (simp add: es)
    moreover have "meUpdatedAt e0 \<le> meUpdatedAt e" if "e \<in> set es" for e
      using that newest_first_cut [OF in_ms False] by (auto simp: es cloneEntry_def)
    ultimately show ?thesis by blast
  qed
qed

lemma cleared_map_of:
  "distinct (map fst m) \<Longrightarrow> map_of (filter (\<lambda>(_, e). \<not> scopeMatches (meScope e) scope) m) = cleared scope (map_of m)"
proof (induction m)
  case (Cons x m)
  obtain i e where x: "x = (i, e)" by (cases x)
  have "map_of m i = None" using Cons.prems x by (simp add: map_of_eq_None_iff)
  then show ?case using Cons x by (auto simp: cleared_def fun_eq_iff)
qed (simp add: cleared_def fun_eq_iff)

text \<open>Metadata survive a copy through JSON; a scope may have any tags, each once.\<close>

lemma inmem_memory_store:
  assumes visit: "\<And>m. set (visit m) = set m"
  shows "memory_store (wf_inmem clone) map_of wf_scope (\<lambda>r. clone (mrMetadata r) = mrMetadata r)
    (InmemStore clone) (\<lambda>now scope q lopts m. (InmemLoad clone now visit scope q lopts m, m)) InmemClearMemories"
proof unfold_locales
  fix m m' :: inmem_records and scope r now fresh opts res
  assume a: "wf_inmem clone m" "clone (mrMetadata r) = mrMetadata r" "InmemStore clone now fresh scope r opts m = (res, m')"
  define i where "i = mem_id fresh opts"
  define e where "e = \<lparr>meID = i, meText = mrText r, meKind = mrKind r, meScope = cloneScope scope,
      meMetadata = cloneMetadata clone (mrMetadata r), meExpiresAt = mrExpiresAt r, meScore = 0,
      meCreatedAt = (case map_of m i of None \<Rightarrow> now | Some existing \<Rightarrow> meCreatedAt existing), meUpdatedAt = now\<rparr>"
  have s: "res = Inr i" "m' = AList.update i e m"
    using a(3) by (auto simp: InmemStore_def Let_def i_def e_def mem_id_def)
  have cm: "cloneMetadata clone (mrMetadata r) = mrMetadata r" using a(2) by (simp add: cloneMetadata_def)
  then have k: "keeps i scope r e" "stored_at now (map_of m i) e" "meID e = i" "meMetadata e = mrMetadata r"
    by (simp_all add: e_def keeps_def stored_at_def same_scope_def)
  have "wf_inmem clone m'"
    using a(1) cm k(3,4) unfolding wf_inmem_def s(2)
    by (auto simp: distinct_update dest!: set_AList_update)
  moreover have "map_of m' = (map_of m)(i \<mapsto> e)" by (simp add: s(2) update_conv')
  ultimately show "wf_inmem clone m' \<and> (\<exists>e. keeps (mem_id fresh opts) scope r e \<and> stored_at now (map_of m (mem_id fresh opts)) e
        \<and> (case res of Inl _ \<Rightarrow> map_of m' = map_of m \<or> map_of m' = (map_of m)(mem_id fresh opts \<mapsto> e)
           | Inr i \<Rightarrow> i = mem_id fresh opts \<and> map_of m' = (map_of m)(i \<mapsto> e)))"
    using k(1,2) s(1) unfolding i_def [symmetric] by auto
next
  fix m m' :: inmem_records and scope now q lopts got
  assume a: "wf_inmem clone m" "(InmemLoad clone now visit scope q lopts m, m) = (got, m')"
  then show "wf_inmem clone m' \<and> map_of m' = map_of m
      \<and> (\<forall>es. got = Inr es \<longrightarrow> (\<forall>e \<in> set es. \<exists>e0. map_of m (meID e) = Some e0 \<and> e = e0\<lparr>meScore := meScore e\<rparr>
           \<and> visible now scope (lmKinds (load_options lopts)) e0))"
    using inmem_load_elem [where clone = clone and visit = visit, OF a(1) visit] by auto
next
  fix m m' :: inmem_records and scope now q lopts es i e0
  assume a: "wf_inmem clone m" "trim_space q = []" "(InmemLoad clone now visit scope q lopts m, m) = (Inr es, m')"
    "map_of m i = Some e0" "visible now scope (lmKinds (load_options lopts)) e0"
  have "InmemLoad clone now visit scope q lopts m = Inr es" using a(3) by auto
  from inmem_load_recent [where visit = visit, OF a(1) visit a(2) this a(4,5)]
  show "i \<in> meID ` set es \<or> es \<noteq> [] \<and> (\<forall>e \<in> set es. meUpdatedAt e0 \<le> meUpdatedAt e)" .
next
  fix m m' :: inmem_records and scope err
  assume a: "wf_inmem clone m" "InmemClearMemories scope m = (err, m')"
  have "ScopeMetadata scope = []" if "scopeIsEmpty scope"
    using that by (simp add: scopeIsEmpty_def ScopeMetadata_def Let_def put_nonempty_def)
  then show "wf_inmem clone m' \<and> (map_of m' = map_of m \<or> map_of m' = cleared scope (map_of m))
      \<and> (err = None \<and> ScopeMetadata scope \<noteq> [] \<longrightarrow> map_of m' = cleared scope (map_of m))"
    using a cleared_map_of [of m scope]
    by (auto simp: InmemClearMemories_def wf_inmem_def distinct_map_filter split: if_splits)
qed

interpretation inmem_mem: memory_store "wf_inmem (\<lambda>x. x)" map_of wf_scope "\<lambda>_. True"
  "InmemStore (\<lambda>x. x)" "\<lambda>now scope q lopts m. (InmemLoad (\<lambda>x. x) now (\<lambda>x. x) scope q lopts m, m)" InmemClearMemories
  using inmem_memory_store [of "\<lambda>x. x" "\<lambda>x. x"] by simp

end
