(* ===== verification/PgMemory.thy ===== *)
theory PgMemory
  imports MemoryStores
begin

text \<open>
  The memory backend over PostgreSQL with pgvector (\<open>pkg/memory/pgvector/memory.go\<close>, \<open>schema.go\<close>).  A
  statement is kept as a tree together with the text it is sent as; the database, the embedding function and
  the JSON of metadata are parameters.
\<close>

section \<open>Schema\<close>

definition DefaultTable :: string where "DefaultTable = ''agent_memories''"
definition DefaultTextCol :: string where "DefaultTextCol = ''text''"
definition DefaultEmbeddingCol :: string where "DefaultEmbeddingCol = ''embedding''"
definition ColID :: string where "ColID = ''id''"
definition ColKind :: string where "ColKind = ''kind''"
definition ColMetadata :: string where "ColMetadata = ''metadata''"
definition ColScopeTags :: string where "ColScopeTags = ''scope_tags''"
definition ColExpiresAt :: string where "ColExpiresAt = ''expires_at''"
definition ColCreatedAt :: string where "ColCreatedAt = ''created_at''"
definition ColUpdatedAt :: string where "ColUpdatedAt = ''updated_at''"
definition DefaultLoadLimit :: int where "DefaultLoadLimit = 10"
definition DefaultLoadScore :: rat where "DefaultLoadScore = 35 / 100"

section \<open>Building\<close>

record PgMemory =
  pgConnected :: bool
  pgTable :: string
  pgTextCol :: string
  pgEmbeddingCol :: string
  pgDefaultLimit :: int
  pgDefaultMinScore :: rat
  pgDsn :: string

datatype PgOption = PgPool | PgDSN string | PgTable string | PgTextCol string | PgEmbeddingCol string
  | PgLimit int | PgScore rat

fun pg_option :: "PgOption \<Rightarrow> PgMemory \<Rightarrow> PgMemory" where
  "pg_option PgPool m = m\<lparr>pgConnected := True\<rparr>"
| "pg_option (PgDSN dsn) m = m\<lparr>pgDsn := dsn\<rparr>"
| "pg_option (PgTable table) m = m\<lparr>pgTable := table\<rparr>"
| "pg_option (PgTextCol col) m = m\<lparr>pgTextCol := col\<rparr>"
| "pg_option (PgEmbeddingCol col) m = m\<lparr>pgEmbeddingCol := col\<rparr>"
| "pg_option (PgLimit limit) m = m\<lparr>pgDefaultLimit := limit\<rparr>"
| "pg_option (PgScore minScore) m = m\<lparr>pgDefaultMinScore := minScore\<rparr>"

text \<open>\<open>parse\<close> and \<open>connect\<close> are the library's: the error of reading the DSN and of making the pool.\<close>

definition NewPgMemory :: "(string \<Rightarrow> goerr option) \<Rightarrow> (string \<Rightarrow> goerr option) \<Rightarrow> bool \<Rightarrow> PgOption list \<Rightarrow> goerr + PgMemory" where
  "NewPgMemory parse connect embed_given opts =
     (if \<not> embed_given then Inl (new_error ''embed func is required'')
      else
        (let m0 = fold pg_option opts
               \<lparr>pgConnected = False, pgTable = [], pgTextCol = [], pgEmbeddingCol = [], pgDefaultLimit = 0,
                pgDefaultMinScore = 0, pgDsn = []\<rparr>;
             m1 = (if pgTable m0 = [] then m0\<lparr>pgTable := DefaultTable\<rparr> else m0);
             m2 = (if pgTextCol m1 = [] then m1\<lparr>pgTextCol := DefaultTextCol\<rparr> else m1);
             m3 = (if pgEmbeddingCol m2 = [] then m2\<lparr>pgEmbeddingCol := DefaultEmbeddingCol\<rparr> else m2);
             m4 = (if pgDefaultLimit m3 \<le> 0 then m3\<lparr>pgDefaultLimit := DefaultLoadLimit\<rparr> else m3);
             m5 = (if pgDefaultMinScore m4 = 0 then m4\<lparr>pgDefaultMinScore := DefaultLoadScore\<rparr> else m4)
         in if pgConnected m5 then Inr m5
            else if pgDsn m5 = [] then
              Inl (new_error ''DSN is required when not using WithPool; use WithDSN or WithPool'')
            else (case parse (pgDsn m5) of
                Some e \<Rightarrow> Inl (wrap_error ''parse DSN: '' e)
              | None \<Rightarrow> (case connect (pgDsn m5) of
                  Some e \<Rightarrow> Inl (wrap_error ''create pgx pool: '' e)
                | None \<Rightarrow> Inr (m5\<lparr>pgConnected := True\<rparr>)))))"

section \<open>Scope tags\<close>

definition reserved_key :: "string \<Rightarrow> bool" where
  "reserved_key k \<longleftrightarrow> k \<in> {ScopeKeyUserID, ScopeKeyTenantID, ScopeKeyAgentID}"

definition scopeTagToken :: "string \<Rightarrow> string \<Rightarrow> string" where
  "scopeTagToken key val = key @ ''='' @ val"

definition encodeScopeTags :: "(string \<times> string) list \<Rightarrow> string list" where
  "encodeScopeTags meta = map (\<lambda>(k, v). scopeTagToken k v) (filter (\<lambda>(k, _). \<not> reserved_key k) meta)"

text \<open>\<open>strings.Cut\<close> at the first equals sign.\<close>

fun cut_equals :: "string \<Rightarrow> (string \<times> string) option" where
  "cut_equals [] = None"
| "cut_equals (c # s) =
     (if c = CHR ''='' then Some ([], s)
      else case cut_equals s of None \<Rightarrow> None | Some (k, v) \<Rightarrow> Some (c # k, v))"

definition decode_tag :: "string \<Rightarrow> (string \<times> string) list \<Rightarrow> (string \<times> string) list" where
  "decode_tag token out =
     (case cut_equals token of None \<Rightarrow> out | Some (k, v) \<Rightarrow> (if k = [] then out else AList.update k v out))"

definition decodeScopeTags :: "string list \<Rightarrow> (string \<times> string) list" where
  "decodeScopeTags tags = fold decode_tag tags []"

section \<open>Statements\<close>

datatype pg_cond =
    CondCol string nat
  | CondTags nat
  | CondKind nat
  | CondKinds nat
  | CondNotExpired

datatype pg_arg = ArgNull | ArgText string | ArgTexts "string list" | ArgBytes string | ArgTime int
  | ArgVector "rat list" | ArgFloat rat | ArgInt int

definition placeholder :: "nat \<Rightarrow> string" where
  "placeholder n = ''$'' @ nat_to_str n"

fun cond_sql :: "pg_cond \<Rightarrow> string" where
  "cond_sql (CondCol key n) = key @ '' = '' @ placeholder n"
| "cond_sql (CondTags n) = ColScopeTags @ '' @> '' @ placeholder n @ ''::text[]''"
| "cond_sql (CondKind n) = ColKind @ '' = '' @ placeholder n"
| "cond_sql (CondKinds n) = ColKind @ '' = ANY('' @ placeholder n @ ''::text[])''"
| "cond_sql CondNotExpired = ''('' @ ColExpiresAt @ '' IS NULL OR '' @ ColExpiresAt @ '' > now())''"

fun join_sql :: "string \<Rightarrow> string list \<Rightarrow> string" where
  "join_sql sep [] = []"
| "join_sql sep [s] = s"
| "join_sql sep (s # ss) = s @ sep @ join_sql sep ss"

text \<open>The condition of a \<open>WHERE\<close>; no conjunct stands for \<open>TRUE\<close>.\<close>

definition where_sql :: "pg_cond list \<Rightarrow> string" where
  "where_sql cs = (if cs = [] then ''TRUE'' else join_sql '' AND '' (map cond_sql cs))"

text \<open>The conjuncts of a scope, one argument each, numbered from \<open>n\<close> on.\<close>

fun scope_parts :: "nat \<Rightarrow> (string \<times> string) list \<Rightarrow> (pg_cond \<times> pg_arg) list" where
  "scope_parts n [] = []"
| "scope_parts n ((k, v) # meta) =
     (if reserved_key k then (CondCol k n, ArgText v) else (CondTags n, ArgTexts [scopeTagToken k v]))
     # scope_parts (Suc n) meta"

definition kind_parts :: "nat \<Rightarrow> string list \<Rightarrow> (pg_cond \<times> pg_arg) list" where
  "kind_parts n kinds =
     (case kinds of [] \<Rightarrow> [] | [k] \<Rightarrow> [(CondKind n, ArgText k)] | _ \<Rightarrow> [(CondKinds n, ArgTexts kinds)])"

definition buildScopeArgs :: "((string \<times> string) list \<Rightarrow> (string \<times> string) list) \<Rightarrow> MemoryScope \<Rightarrow> string list \<Rightarrow> nat
    \<Rightarrow> pg_cond list \<times> pg_arg list" where
  "buildScopeArgs visit scope kinds startArg =
     (let meta = visit (ScopeMetadata scope);
          parts = scope_parts startArg meta @ kind_parts (startArg + length meta) kinds
      in (map fst parts, map snd parts))"

definition appendNotExpired :: "pg_cond list \<Rightarrow> pg_cond list" where
  "appendNotExpired cs = cs @ [CondNotExpired]"

datatype pg_stmt = InsertMemory | SelectNear "pg_cond list" | SelectRecent "pg_cond list" nat | DeleteWhere "pg_cond list"

text \<open>Lines of a raw string, each after a newline and some tabs.\<close>

definition sql_lines :: "(nat \<times> string) list \<Rightarrow> string" where
  "sql_lines ls = concat (map (\<lambda>(tabs, l). CHR 0x0A # replicate tabs (CHR 0x09) @ l) ls)"

definition excluded :: "string \<Rightarrow> string" where
  "excluded col = col @ '' = EXCLUDED.'' @ col"

definition insert_sql :: "PgMemory \<Rightarrow> string" where
  "insert_sql m = sql_lines
     ([(2, ''INSERT INTO '' @ pgTable m @ '' (''),
       (3, join_sql '', '' [ColID, pgTextCol m, ColKind, ScopeKeyUserID, ScopeKeyTenantID, ScopeKeyAgentID, ColScopeTags,
             ColMetadata, ColExpiresAt, ColCreatedAt, ColUpdatedAt, pgEmbeddingCol m]),
       (2, '') VALUES (''),
       (3, join_sql '', '' (map placeholder [1 ..< 13])),
       (2, '')''),
       (2, ''ON CONFLICT ('' @ ColID @ '') DO UPDATE SET'')]
      @ map (\<lambda>col. (3, excluded col @ '',''))
          [pgTextCol m, ColKind, ScopeKeyUserID, ScopeKeyTenantID, ScopeKeyAgentID, ColScopeTags, ColMetadata,
           ColExpiresAt, ColUpdatedAt]
      @ [(3, ColCreatedAt @ '' = '' @ pgTable m @ ''.'' @ ColCreatedAt @ '',''),
         (3, excluded (pgEmbeddingCol m)),
         (2, ''RETURNING '' @ ColID)])"

definition score_expr :: "PgMemory \<Rightarrow> string" where
  "score_expr m = ''1 - ('' @ pgEmbeddingCol m @ '' <=> $1)''"

definition selected_cols :: "PgMemory \<Rightarrow> string list" where
  "selected_cols m = [ColID, pgTextCol m, ColKind, ScopeKeyUserID, ScopeKeyTenantID, ScopeKeyAgentID, ColScopeTags,
     ColMetadata, ColExpiresAt, ColCreatedAt, ColUpdatedAt]"

definition select_near_sql :: "PgMemory \<Rightarrow> pg_cond list \<Rightarrow> string" where
  "select_near_sql m cs = sql_lines
     [(3, ''SELECT '' @ join_sql '', '' (selected_cols m @ [score_expr m @ '' AS score''])),
      (3, ''FROM '' @ pgTable m),
      (3, ''WHERE '' @ where_sql cs @ '' AND '' @ score_expr m @ '' >= $2''),
      (3, ''ORDER BY '' @ pgEmbeddingCol m @ '' <=> $1''),
      (3, ''LIMIT $3'')]"

definition select_recent_sql :: "PgMemory \<Rightarrow> pg_cond list \<Rightarrow> nat \<Rightarrow> string" where
  "select_recent_sql m cs limitArg = sql_lines
     [(2, ''SELECT '' @ join_sql '', '' (selected_cols m @ [''0::float8 AS score''])),
      (2, ''FROM '' @ pgTable m),
      (2, ''WHERE '' @ where_sql cs),
      (2, ''ORDER BY '' @ ColUpdatedAt @ '' DESC''),
      (2, ''LIMIT '' @ placeholder limitArg)]"

fun stmt_sql :: "PgMemory \<Rightarrow> pg_stmt \<Rightarrow> string" where
  "stmt_sql m InsertMemory = insert_sql m"
| "stmt_sql m (SelectNear cs) = select_near_sql m cs"
| "stmt_sql m (SelectRecent cs limitArg) = select_recent_sql m cs limitArg"
| "stmt_sql m (DeleteWhere cs) = ''DELETE FROM '' @ pgTable m @ '' WHERE '' @ where_sql cs"

section \<open>Rows\<close>

record pgRow =
  rwId :: string
  rwText :: string
  rwKind :: string
  rwUser :: "string option"
  rwTenant :: "string option"
  rwAgent :: "string option"
  rwTags :: "string list"
  rwMetadata :: string
  rwExpires :: "int option"
  rwCreated :: int
  rwUpdated :: int

text \<open>The rows a query answers: what each \<open>Scan\<close> gives, and the error the iteration ends with.\<close>

record 'r pgRows =
  rsRows :: "(goerr + 'r) list"
  rsErr :: "goerr option"

text \<open>The database at a time of its clock; \<open>Query\<close> is split by what is scanned.\<close>

record 'w PgDB =
  dbReturning :: "int \<Rightarrow> pg_stmt \<Rightarrow> pg_arg list \<Rightarrow> 'w \<Rightarrow> (goerr + string pgRows) \<times> 'w"
  dbSelect :: "int \<Rightarrow> pg_stmt \<Rightarrow> pg_arg list \<Rightarrow> 'w \<Rightarrow> (goerr + (pgRow \<times> rat) pgRows) \<times> 'w"
  dbExec :: "int \<Rightarrow> pg_stmt \<Rightarrow> pg_arg list \<Rightarrow> 'w \<Rightarrow> goerr option \<times> 'w"

record MetaCodec =
  mdMarshal :: "metadata \<Rightarrow> goerr + string"
  mdUnmarshal :: "string \<Rightarrow> goerr + metadata"

definition nullIfEmpty :: "string \<Rightarrow> pg_arg" where
  "nullIfEmpty s = (if s = [] then ArgNull else ArgText s)"

definition derefString :: "string option \<Rightarrow> string" where
  "derefString s = (case s of None \<Rightarrow> [] | Some x \<Rightarrow> x)"

definition marshalMetadata :: "MetaCodec \<Rightarrow> metadata \<Rightarrow> goerr + string" where
  "marshalMetadata mc md =
     (if md = [] then Inr ''{}''
      else case mdMarshal mc md of Inl e \<Rightarrow> Inl (wrap_error ''marshal metadata: '' e) | Inr raw \<Rightarrow> Inr raw)"

definition meta_get :: "(string \<times> string) list \<Rightarrow> string \<Rightarrow> string" where
  "meta_get meta k = (case map_of meta k of None \<Rightarrow> [] | Some v \<Rightarrow> v)"

definition row_entry :: "MetaCodec \<Rightarrow> pgRow \<Rightarrow> rat \<Rightarrow> goerr + MemoryEntry" where
  "row_entry mc row score =
     (let entry = \<lparr>meID = rwId row, meText = rwText row, meKind = rwKind row,
            meScope = \<lparr>UserID = derefString (rwUser row), TenantID = derefString (rwTenant row),
                       AgentID = derefString (rwAgent row), Tags = decodeScopeTags (rwTags row)\<rparr>,
            meMetadata = [], meExpiresAt = rwExpires row, meScore = score,
            meCreatedAt = rwCreated row, meUpdatedAt = rwUpdated row\<rparr>
      in if rwMetadata row = [] then Inr entry
         else case mdUnmarshal mc (rwMetadata row) of
             Inl e \<Rightarrow> Inl (wrap_error ''unmarshal metadata: '' e)
           | Inr md \<Rightarrow> Inr (entry\<lparr>meMetadata := md\<rparr>))"

fun scan_rows :: "MetaCodec \<Rightarrow> int \<Rightarrow> (goerr + pgRow \<times> rat) list \<Rightarrow> goerr + MemoryEntry list" where
  "scan_rows mc now [] = Inr []"
| "scan_rows mc now (Inl e # rs) = Inl (wrap_error ''scan memory row: '' e)"
| "scan_rows mc now (Inr (row, score) # rs) =
     (case row_entry mc row score of
        Inl e \<Rightarrow> Inl e
      | Inr entry \<Rightarrow>
          (case scan_rows mc now rs of
             Inl e \<Rightarrow> Inl e
           | Inr entries \<Rightarrow> Inr (if Expired now entry then entries else entry # entries)))"

definition scanMemoryRows :: "MetaCodec \<Rightarrow> int \<Rightarrow> (pgRow \<times> rat) pgRows \<Rightarrow> goerr + MemoryEntry list" where
  "scanMemoryRows mc now rows =
     (case scan_rows mc now (rsRows rows) of
        Inl e \<Rightarrow> Inl e
      | Inr entries \<Rightarrow>
          (case rsErr rows of Some e \<Rightarrow> Inl (wrap_error ''iterate memory rows: '' e) | None \<Rightarrow> Inr entries))"

section \<open>The operations\<close>

record 'w PgEnv =
  peDB :: "'w PgDB"
  peCodec :: MetaCodec
  peEmbed :: "string \<Rightarrow> 'w \<Rightarrow> (goerr + rat list) \<times> 'w"
  peVisit :: "(string \<times> string) list \<Rightarrow> (string \<times> string) list"

definition db_unset :: goerr where "db_unset = new_error ''database is not set''"

text \<open>The identifier the database answers the insertion with.\<close>

definition returned_id :: "string pgRows \<Rightarrow> goerr + string" where
  "returned_id rows =
     (case rsRows rows of
        [] \<Rightarrow> (case rsErr rows of
                Some e \<Rightarrow> Inl (wrap_error ''pgvector store memory: '' e)
              | None \<Rightarrow> Inl (new_error ''pgvector store memory: no id returned''))
      | Inl e # _ \<Rightarrow> Inl (wrap_error ''pgvector store memory scan id: '' e)
      | Inr i # _ \<Rightarrow> (case rsErr rows of
                Some e \<Rightarrow> Inl (wrap_error ''pgvector store memory: '' e) | None \<Rightarrow> Inr i))"

definition insert_args :: "'w PgEnv \<Rightarrow> int \<Rightarrow> string \<Rightarrow> MemoryScope \<Rightarrow> MemoryRecord \<Rightarrow> StoreMemoryOption list
    \<Rightarrow> string \<Rightarrow> rat list \<Rightarrow> pg_arg list" where
  "insert_args env now fresh scope r opts metadataJSON vec =
     (let meta = ScopeMetadata scope;
          trimmed = trim_space (store_id opts);
          i = (if trimmed = [] then fresh else trimmed)
      in [ArgText i, ArgText (mrText r), ArgText (mrKind r),
          nullIfEmpty (meta_get meta ScopeKeyUserID), nullIfEmpty (meta_get meta ScopeKeyTenantID),
          nullIfEmpty (meta_get meta ScopeKeyAgentID),
          ArgTexts (encodeScopeTags (peVisit env meta)), ArgBytes metadataJSON,
          (case mrExpiresAt r of None \<Rightarrow> ArgNull | Some t \<Rightarrow> ArgTime t),
          ArgTime now, ArgTime now, ArgVector vec])"

definition PgStore :: "'w PgEnv \<Rightarrow> PgMemory \<Rightarrow> int \<Rightarrow> string \<Rightarrow> MemoryScope \<Rightarrow> MemoryRecord \<Rightarrow> StoreMemoryOption list \<Rightarrow> 'w
    \<Rightarrow> (goerr + string) \<times> 'w" where
  "PgStore env m now fresh scope r opts w =
     (if \<not> pgConnected m then (Inl db_unset, w)
      else case peEmbed env (mrText r) w of
        (Inl e, w1) \<Rightarrow> (Inl (wrap_error ''embed memory text: '' e), w1)
      | (Inr vec, w1) \<Rightarrow>
          (case marshalMetadata (peCodec env) (mrMetadata r) of
             Inl e \<Rightarrow> (Inl e, w1)
           | Inr metadataJSON \<Rightarrow>
               (case dbReturning (peDB env) now InsertMemory (insert_args env now fresh scope r opts metadataJSON vec) w1 of
                  (Inl e, w2) \<Rightarrow> (Inl (wrap_error ''pgvector store memory: '' e), w2)
                | (Inr rows, w2) \<Rightarrow> (returned_id rows, w2))))"

definition load_answer :: "'w PgEnv \<Rightarrow> int \<Rightarrow> (goerr + (pgRow \<times> rat) pgRows) \<times> 'w \<Rightarrow> (goerr + MemoryEntry list) \<times> 'w" where
  "load_answer env now res =
     (case res of
        (Inl e, w) \<Rightarrow> (Inl (wrap_error ''pgvector load memories: '' e), w)
      | (Inr rows, w) \<Rightarrow> (scanMemoryRows (peCodec env) now rows, w))"

definition PgLoad :: "'w PgEnv \<Rightarrow> PgMemory \<Rightarrow> int \<Rightarrow> MemoryScope \<Rightarrow> string \<Rightarrow> LoadMemoryOption list \<Rightarrow> 'w
    \<Rightarrow> (goerr + MemoryEntry list) \<times> 'w" where
  "PgLoad env m now scope query opts w =
     (if \<not> pgConnected m then (Inl db_unset, w)
      else
        (let lo = load_options opts;
             limit = (if lmLimit lo \<le> 0 then pgDefaultLimit m else lmLimit lo);
             minScore = (if lmMinScore lo = 0 then pgDefaultMinScore m else lmMinScore lo);
             q = trim_space query
         in if q \<noteq> [] then
              (case peEmbed env q w of
                 (Inl e, w1) \<Rightarrow> (Inl (wrap_error ''embed recall query: '' e), w1)
               | (Inr vec, w1) \<Rightarrow>
                   (let (cs, scopeArgs) = buildScopeArgs (peVisit env) scope (lmKinds lo) 4
                    in load_answer env now
                         (dbSelect (peDB env) now (SelectNear (appendNotExpired cs))
                            ([ArgVector vec, ArgFloat minScore, ArgInt limit] @ scopeArgs) w1)))
            else
              (let (cs, args0) = buildScopeArgs (peVisit env) scope (lmKinds lo) 1; args = args0 @ [ArgInt limit]
               in load_answer env now
                    (dbSelect (peDB env) now (SelectRecent (appendNotExpired cs) (length args)) args w))))"

definition PgClear :: "'w PgEnv \<Rightarrow> PgMemory \<Rightarrow> int \<Rightarrow> MemoryScope \<Rightarrow> 'w \<Rightarrow> goerr option \<times> 'w" where
  "PgClear env m now scope w =
     (if \<not> pgConnected m then (Some db_unset, w)
      else if ScopeMetadata scope = [] then
        (Some (new_error ''scope must include at least one non-empty field''), w)
      else
        (let (cs, args) = buildScopeArgs (peVisit env) scope [] 1
         in case dbExec (peDB env) now (DeleteWhere cs) args w of
              (Some e, w1) \<Rightarrow> (Some (wrap_error ''pgvector clear memories: '' e), w1)
            | (None, w1) \<Rightarrow> (None, w1)))"

end
