(* ===== verification/PgFacts.thy ===== *)
theory PgFacts
  imports PgMemory
begin

text \<open>
  The memory backend over PostgreSQL keeps the contract of \<open>MemoryStores\<close>, provided the database does what SQL
  says of the statements the code sends: an insertion with \<open>ON CONFLICT\<close>, selections with their conditions,
  order and limit, a deletion with its conditions.  Every command may fail, and one that failed may have been
  carried out or not.
\<close>

section \<open>What the statements mean\<close>

definition arg_at :: "pg_arg list \<Rightarrow> nat \<Rightarrow> pg_arg option" where
  "arg_at args n = (if 1 \<le> n \<and> n \<le> length args then Some (args ! (n - 1)) else None)"

definition col_of :: "pgRow \<Rightarrow> string \<Rightarrow> string option" where
  "col_of row k = (if k = ScopeKeyUserID then rwUser row else if k = ScopeKeyTenantID then rwTenant row
     else if k = ScopeKeyAgentID then rwAgent row else None)"

fun pg_holds :: "int \<Rightarrow> pg_arg list \<Rightarrow> pgRow \<Rightarrow> pg_cond \<Rightarrow> bool" where
  "pg_holds now args row (CondCol k n) = (case arg_at args n of Some (ArgText v) \<Rightarrow> col_of row k = Some v | _ \<Rightarrow> False)"
| "pg_holds now args row (CondTags n) = (case arg_at args n of Some (ArgTexts ts) \<Rightarrow> set ts \<subseteq> set (rwTags row) | _ \<Rightarrow> False)"
| "pg_holds now args row (CondKind n) = (arg_at args n = Some (ArgText (rwKind row)))"
| "pg_holds now args row (CondKinds n) = (case arg_at args n of Some (ArgTexts ks) \<Rightarrow> rwKind row \<in> set ks | _ \<Rightarrow> False)"
| "pg_holds now args row CondNotExpired = (case rwExpires row of None \<Rightarrow> True | Some t \<Rightarrow> now < t)"

fun text_or_null :: "pg_arg \<Rightarrow> string option" where
  "text_or_null (ArgText s) = Some s"
| "text_or_null _ = None"

fun time_or_null :: "pg_arg \<Rightarrow> int option" where
  "time_or_null (ArgTime t) = Some t"
| "time_or_null _ = None"

text \<open>The columns an argument of the insertion fills.\<close>

fun arg_texts :: "pg_arg \<Rightarrow> string list" where
  "arg_texts (ArgTexts ss) = ss"
| "arg_texts _ = []"

fun arg_bytes :: "pg_arg \<Rightarrow> string" where
  "arg_bytes (ArgBytes s) = s"
| "arg_bytes _ = []"

type_synonym pg_table = "string \<rightharpoonup> pgRow"

definition inserted_row :: "pg_arg list \<Rightarrow> pgRow option \<Rightarrow> pgRow" where
  "inserted_row args old =
     \<lparr>rwId = derefString (text_or_null (args ! 0)), rwText = derefString (text_or_null (args ! 1)),
      rwKind = derefString (text_or_null (args ! 2)), rwUser = text_or_null (args ! 3),
      rwTenant = text_or_null (args ! 4), rwAgent = text_or_null (args ! 5), rwTags = arg_texts (args ! 6),
      rwMetadata = arg_bytes (args ! 7), rwExpires = time_or_null (args ! 8),
      rwCreated = (case old of Some row \<Rightarrow> rwCreated row
                   | None \<Rightarrow> case time_or_null (args ! 9) of Some t \<Rightarrow> t | None \<Rightarrow> 0),
      rwUpdated = (case time_or_null (args ! 10) of Some t \<Rightarrow> t | None \<Rightarrow> 0)\<rparr>"

definition upsert_row :: "pg_arg list \<Rightarrow> pg_table \<Rightarrow> pg_table" where
  "upsert_row args t =
     (if length args \<noteq> 12 then t
      else let i = derefString (text_or_null (args ! 0)) in t(i \<mapsto> inserted_row args (t i)))"

definition delete_rows :: "int \<Rightarrow> pg_cond list \<Rightarrow> pg_arg list \<Rightarrow> pg_table \<Rightarrow> pg_table" where
  "delete_rows now cs args t = (\<lambda>i. case t i of None \<Rightarrow> None
     | Some row \<Rightarrow> if list_all (pg_holds now args row) cs then None else Some row)"

text \<open>The answer to an insertion: one row with the identifier and no error, or no row that can be read.\<close>

definition returns_row :: "pg_arg list \<Rightarrow> string pgRows \<Rightarrow> bool" where
  "returns_row args rows \<longleftrightarrow> rsErr rows = None \<and> (\<exists>i. arg_at args 1 = Some (ArgText i) \<and> rsRows rows = [Inr i])"

definition returns_nothing :: "string pgRows \<Rightarrow> bool" where
  "returns_nothing rows \<longleftrightarrow> (case rsRows rows of Inr _ # _ \<Rightarrow> rsErr rows \<noteq> None | _ \<Rightarrow> True)"

text \<open>\<open>tbl\<close> reads the table off the world.\<close>

definition insert_law :: "'w PgDB \<Rightarrow> ('w \<Rightarrow> pg_table) \<Rightarrow> bool" where
  "insert_law db tbl \<longleftrightarrow> (\<forall>now args w res w'. dbReturning db now InsertMemory args w = (res, w') \<longrightarrow>
     (case res of Inl _ \<Rightarrow> tbl w' = tbl w \<or> tbl w' = upsert_row args (tbl w)
      | Inr rows \<Rightarrow> returns_row args rows \<and> tbl w' = upsert_row args (tbl w)
          \<or> returns_nothing rows \<and> (tbl w' = tbl w \<or> tbl w' = upsert_row args (tbl w))))"

definition selection :: "int \<Rightarrow> pg_cond list \<Rightarrow> pg_arg list \<Rightarrow> pg_table \<Rightarrow> pgRow set" where
  "selection now cs args t = {row \<in> ran t. list_all (pg_holds now args row) cs}"

definition select_law :: "'w PgDB \<Rightarrow> ('w \<Rightarrow> pg_table) \<Rightarrow> bool" where
  "select_law db tbl \<longleftrightarrow> (\<forall>now stmt cs n args w res w'.
     stmt = SelectNear cs \<or> stmt = SelectRecent cs n \<longrightarrow> dbSelect db now stmt args w = (res, w') \<longrightarrow>
     tbl w' = tbl w \<and> (\<forall>rows row score. res = Inr rows \<longrightarrow> Inr (row, score) \<in> set (rsRows rows) \<longrightarrow>
       row \<in> selection now cs args (tbl w)))"

text \<open>A listing that ends without an error leaves a row out only if the limit was used up on rows no older.\<close>

definition recency_law :: "'w PgDB \<Rightarrow> ('w \<Rightarrow> pg_table) \<Rightarrow> bool" where
  "recency_law db tbl \<longleftrightarrow> (\<forall>now cs n args w rows w' limit row.
     dbSelect db now (SelectRecent cs n) args w = (Inr rows, w') \<longrightarrow> rsErr rows = None \<longrightarrow>
     arg_at args n = Some (ArgInt limit) \<longrightarrow> 0 < limit \<longrightarrow> row \<in> selection now cs args (tbl w) \<longrightarrow>
     (\<exists>score. Inr (row, score) \<in> set (rsRows rows)) \<or> (\<exists>e. Inl e \<in> set (rsRows rows))
     \<or> rsRows rows \<noteq> [] \<and> (\<forall>other score. Inr (other, score) \<in> set (rsRows rows) \<longrightarrow> rwUpdated row \<le> rwUpdated other))"

definition delete_law :: "'w PgDB \<Rightarrow> ('w \<Rightarrow> pg_table) \<Rightarrow> bool" where
  "delete_law db tbl \<longleftrightarrow> (\<forall>now cs args w err w'. dbExec db now (DeleteWhere cs) args w = (err, w') \<longrightarrow>
     tbl w' = delete_rows now cs args (tbl w) \<or> err \<noteq> None \<and> tbl w' = tbl w)"

definition sql_laws :: "'w PgDB \<Rightarrow> ('w \<Rightarrow> pg_table) \<Rightarrow> bool" where
  "sql_laws db tbl \<longleftrightarrow> insert_law db tbl \<and> select_law db tbl \<and> recency_law db tbl \<and> delete_law db tbl"

section \<open>Tags\<close>

text \<open>A key that a token can carry: not empty and without an equals sign.\<close>

definition tag_key :: "string \<Rightarrow> bool" where
  "tag_key k \<longleftrightarrow> k \<noteq> [] \<and> CHR ''='' \<notin> set k"

definition plain_tags :: "(string \<times> string) list \<Rightarrow> bool" where
  "plain_tags kvs \<longleftrightarrow> distinct (map fst kvs) \<and> (\<forall>(k, _) \<in> set kvs. tag_key k \<and> \<not> reserved_key k)"

lemma cut_equals_token [simp]: "CHR ''='' \<notin> set k \<Longrightarrow> cut_equals (scopeTagToken k v) = Some (k, v)"
  by (induction k) (auto simp: scopeTagToken_def)

lemma scopeTagToken_inject:
  "CHR ''='' \<notin> set k \<Longrightarrow> CHR ''='' \<notin> set k' \<Longrightarrow> scopeTagToken k v = scopeTagToken k' v' \<longleftrightarrow> k = k' \<and> v = v'"
  by (metis cut_equals_token option.inject prod.inject)

lemma update_new: "k \<notin> fst ` set m \<Longrightarrow> AList.update k v m = m @ [(k, v)]"
  by (induction m) auto

lemma decode_tokens:
  "plain_tags (acc @ kvs) \<Longrightarrow> fold decode_tag (map (\<lambda>(k, v). scopeTagToken k v) kvs) acc = acc @ kvs"
proof (induction kvs arbitrary: acc)
  case (Cons kv kvs)
  obtain k v where kv: "kv = (k, v)" by (cases kv)
  have "k \<notin> fst ` set acc" "tag_key k" using Cons.prems by (auto simp: plain_tags_def kv)
  then have "decode_tag (scopeTagToken k v) acc = acc @ [(k, v)]"
    by (simp add: decode_tag_def tag_key_def update_new)
  with Cons.IH [of "acc @ [(k, v)]"] Cons.prems show ?case by (simp add: kv)
qed simp

text \<open>The round trip of tags.\<close>

lemma decodeScopeTags_tokens: "plain_tags kvs \<Longrightarrow> decodeScopeTags (map (\<lambda>(k, v). scopeTagToken k v) kvs) = kvs"
  using decode_tokens [of "[]"] by (simp add: decodeScopeTags_def)

text \<open>A key with an equals sign is not told apart from another tag.\<close>

lemma token_ambiguous: "scopeTagToken ''a=b'' ''c'' = scopeTagToken ''a'' ''b=c''"
  by (simp add: scopeTagToken_def)

definition tags_ok :: "MemoryScope \<Rightarrow> bool" where
  "tags_ok s \<longleftrightarrow> wf_scope s \<and> (\<forall>(k, _) \<in> set (Tags s). tag_key k)"

lemma reserved_in_fields: "reserved_key k \<Longrightarrow> map_of (ScopeMetadata s) k = Some v \<longleftrightarrow>
   v \<noteq> [] \<and> v = (if k = ScopeKeyTenantID then TenantID s else if k = ScopeKeyUserID then UserID s else AgentID s)"
  by (auto simp: ScopeMetadata_lookup reserved_key_def)

lemma meta_pairs:
  assumes "tags_ok s"
  shows "(k, v) \<in> set (ScopeMetadata s) \<longleftrightarrow> map_of (ScopeMetadata s) k = Some v"
    and "(k, v) \<in> set (ScopeMetadata s) \<Longrightarrow> \<not> reserved_key k \<Longrightarrow> tag_key k"
proof -
  have w: "wf_scope s" using assms by (simp add: tags_ok_def)
  show 1: "(k, v) \<in> set (ScopeMetadata s) \<longleftrightarrow> map_of (ScopeMetadata s) k = Some v" for k v
    using map_of_eq_Some_iff [OF distinct_ScopeMetadata [OF w]] by simp
  assume "(k, v) \<in> set (ScopeMetadata s)" "\<not> reserved_key k"
  then have "map_of (Tags s) k = Some v" using 1 by (simp add: ScopeMetadata_lookup reserved_key_def)
  then show "tag_key k" using assms map_of_SomeD [of "Tags s"] by (fastforce simp: tags_ok_def)
qed

lemma plain_encoded:
  assumes "tags_ok s" "mset ms = mset (ScopeMetadata s)"
  shows "plain_tags (filter (\<lambda>(k, _). \<not> reserved_key k) ms)"
proof -
  have "set ms = set (ScopeMetadata s)" using assms(2) by (metis set_mset_mset)
  moreover have "distinct (map fst ms)"
    using assms distinct_ScopeMetadata [of s] mset_eq_imp_distinct_iff [of "map fst ms" "map fst (ScopeMetadata s)"]
    by (simp add: tags_ok_def)
  ultimately show ?thesis
    using meta_pairs(2) [OF assms(1)] by (auto simp: plain_tags_def distinct_map_filter)
qed

section \<open>Conditions and scopes\<close>

lemma arg_at_middle [simp]: "arg_at (pre @ a # post) (Suc (length pre)) = Some a"
  by (simp add: arg_at_def)

definition cond_of :: "pgRow \<Rightarrow> string \<times> string \<Rightarrow> bool" where
  "cond_of row kv = (case kv of (k, v) \<Rightarrow>
     if reserved_key k then col_of row k = Some v else scopeTagToken k v \<in> set (rwTags row))"

text \<open>Each conjunct finds its argument: the placeholders are numbered as the arguments are passed.\<close>

lemma scope_parts_hold:
  "n = Suc (length pre) \<Longrightarrow>
   list_all (pg_holds now (pre @ map snd (scope_parts n meta) @ post) row) (map fst (scope_parts n meta))
   \<longleftrightarrow> list_all (cond_of row) meta"
proof (induction meta arbitrary: n pre)
  case (Cons kv meta)
  obtain k v where kv: "kv = (k, v)" by (cases kv)
  let ?a = "if reserved_key k then ArgText v else ArgTexts [scopeTagToken k v]"
  have args: "pre @ map snd (scope_parts n (kv # meta)) @ post = (pre @ [?a]) @ map snd (scope_parts (Suc n) meta) @ post"
    by (simp add: kv)
  have "pg_holds now (pre @ ?a # rest) row (if reserved_key k then CondCol k n else CondTags n) \<longleftrightarrow> cond_of row kv" for rest
    by (simp add: Cons.prems kv cond_of_def)
  moreover have "map fst (scope_parts n (kv # meta)) =
      (if reserved_key k then CondCol k n else CondTags n) # map fst (scope_parts (Suc n) meta)" by (simp add: kv)
  ultimately show ?case using Cons.IH [of "Suc n" "pre @ [?a]"] Cons.prems unfolding args by simp
qed simp

lemma length_scope_parts [simp]: "length (scope_parts n meta) = length meta"
  by (induction n meta rule: scope_parts.induct) simp_all

lemma kind_parts_hold:
  "n = Suc (length pre) \<Longrightarrow>
   list_all (pg_holds now (pre @ map snd (kind_parts n kinds) @ post) row) (map fst (kind_parts n kinds))
   \<longleftrightarrow> kindMatches (rwKind row) kinds"
  by (auto simp: kind_parts_def kindMatches_iff split: list.split)

lemma buildScopeArgs_hold:
  assumes "buildScopeArgs visit scope kinds n = (cs, args)" "n = Suc (length pre)"
  shows "list_all (pg_holds now (pre @ args @ post) row) cs \<longleftrightarrow>
     list_all (cond_of row) (visit (ScopeMetadata scope)) \<and> kindMatches (rwKind row) kinds"
proof -
  define meta where "meta = visit (ScopeMetadata scope)"
  have cs: "cs = map fst (scope_parts n meta) @ map fst (kind_parts (n + length meta) kinds)"
    and args: "args = map snd (scope_parts n meta) @ map snd (kind_parts (n + length meta) kinds)"
    using assms(1) by (auto simp: buildScopeArgs_def meta_def Let_def)
  have 1: "list_all (pg_holds now (pre @ args @ post) row) (map fst (scope_parts n meta)) \<longleftrightarrow> list_all (cond_of row) meta"
    using scope_parts_hold [OF assms(2), of now meta "map snd (kind_parts (n + length meta) kinds) @ post"] by (simp add: args)
  have 2: "list_all (pg_holds now (pre @ args @ post) row) (map fst (kind_parts (n + length meta) kinds)) \<longleftrightarrow> kindMatches (rwKind row) kinds"
    using kind_parts_hold [of "n + length meta" "pre @ map snd (scope_parts n meta)" now kinds post] assms(2) by (simp add: args)
  show ?thesis unfolding cs list_all_append 1 2 by (simp add: meta_def)
qed

definition row_scope :: "pgRow \<Rightarrow> MemoryScope" where
  "row_scope row = \<lparr>UserID = derefString (rwUser row), TenantID = derefString (rwTenant row),
     AgentID = derefString (rwAgent row), Tags = decodeScopeTags (rwTags row)\<rparr>"

definition row_ok :: "pgRow \<Rightarrow> bool" where
  "row_ok row \<longleftrightarrow> rwUser row \<noteq> Some [] \<and> rwTenant row \<noteq> Some [] \<and> rwAgent row \<noteq> Some []
     \<and> (\<exists>kvs. plain_tags kvs \<and> rwTags row = map (\<lambda>(k, v). scopeTagToken k v) kvs)"

lemma scope_keys_differ [simp]:
  "ScopeKeyUserID \<noteq> ScopeKeyTenantID" "ScopeKeyTenantID \<noteq> ScopeKeyUserID" "ScopeKeyUserID \<noteq> ScopeKeyAgentID"
  "ScopeKeyAgentID \<noteq> ScopeKeyUserID" "ScopeKeyTenantID \<noteq> ScopeKeyAgentID" "ScopeKeyAgentID \<noteq> ScopeKeyTenantID"
  by (simp_all add: ScopeKeyUserID_def ScopeKeyTenantID_def ScopeKeyAgentID_def)

lemma row_scope_meta:
  assumes "row_ok row"
  shows "reserved_key k \<Longrightarrow> map_of (ScopeMetadata (row_scope row)) k = col_of row k"
    and "tag_key k \<Longrightarrow> \<not> reserved_key k \<Longrightarrow>
      map_of (ScopeMetadata (row_scope row)) k = Some v \<longleftrightarrow> scopeTagToken k v \<in> set (rwTags row)"
proof -
  show "reserved_key k \<Longrightarrow> map_of (ScopeMetadata (row_scope row)) k = col_of row k"
    using assms by (auto simp: ScopeMetadata_lookup reserved_key_def row_scope_def row_ok_def col_of_def derefString_def
      split: option.splits)
  obtain kvs where kvs: "plain_tags kvs" "rwTags row = map (\<lambda>(k, v). scopeTagToken k v) kvs"
    using assms by (auto simp: row_ok_def)
  assume k: "tag_key k" "\<not> reserved_key k"
  have "map_of (ScopeMetadata (row_scope row)) k = map_of kvs k"
    using k by (simp add: ScopeMetadata_lookup reserved_key_def row_scope_def kvs decodeScopeTags_tokens)
  moreover have "map_of kvs k = Some v \<longleftrightarrow> (k, v) \<in> set kvs"
    using kvs(1) map_of_eq_Some_iff [of kvs k v] by (simp add: plain_tags_def)
  moreover have "(k, v) \<in> set kvs \<longleftrightarrow> scopeTagToken k v \<in> set (rwTags row)"
  proof
    assume "scopeTagToken k v \<in> set (rwTags row)"
    then obtain k' v' where kv': "(k', v') \<in> set kvs" "scopeTagToken k v = scopeTagToken k' v'" by (auto simp: kvs(2))
    then have "tag_key k'" using kvs(1) by (auto simp: plain_tags_def)
    with kv' k(1) scopeTagToken_inject [of k k' v v'] show "(k, v) \<in> set kvs" by (simp add: tag_key_def)
  qed (auto simp: kvs(2) intro: rev_image_eqI)
  ultimately show "map_of (ScopeMetadata (row_scope row)) k = Some v \<longleftrightarrow> scopeTagToken k v \<in> set (rwTags row)" by simp
qed

text \<open>The conditions of a scope select the rows whose scope matches it.\<close>

lemma conditions_select:
  assumes "row_ok row" "tags_ok filt" "mset ms = mset (ScopeMetadata filt)"
  shows "list_all (cond_of row) ms \<longleftrightarrow> scopeMatches (row_scope row) filt"
proof -
  have ms: "set ms = set (ScopeMetadata filt)" using assms(3) by (metis set_mset_mset)
  have "cond_of row (k, v) \<longleftrightarrow> map_of (ScopeMetadata (row_scope row)) k = Some v" if "(k, v) \<in> set (ScopeMetadata filt)" for k v
    using row_scope_meta [OF assms(1), of k] meta_pairs(2) [OF assms(2) that] by (simp add: cond_of_def)
  then show ?thesis unfolding scopeMatches_def list_all_iff ms by auto
qed

text \<open>The row an insertion writes for a scope.\<close>

lemma meta_get_fields [simp]:
  "meta_get (ScopeMetadata s) ScopeKeyUserID = UserID s"
  "meta_get (ScopeMetadata s) ScopeKeyTenantID = TenantID s"
  "meta_get (ScopeMetadata s) ScopeKeyAgentID = AgentID s"
  by (simp_all add: meta_get_def ScopeMetadata_lookup)

lemma text_nullIfEmpty [simp]: "text_or_null (nullIfEmpty x) = (if x = [] then None else Some x)"
  by (simp add: nullIfEmpty_def)

lemma inserted_row_scope:
  assumes "tags_ok scope" "mset (peVisit env (ScopeMetadata scope)) = mset (ScopeMetadata scope)"
    and row_def: "row = inserted_row (insert_args env now fresh scope r opts raw vec) old"
  shows "row_ok row" "same_scope (row_scope row) scope"
proof -
  define ms where "ms = peVisit env (ScopeMetadata scope)"
  define kvs where "kvs = filter (\<lambda>(k, _). \<not> reserved_key k) ms"
  have plain: "plain_tags kvs" unfolding kvs_def by (rule plain_encoded [OF assms(1)]) (simp add: ms_def assms(2))
  have cols: "rwUser row = (if UserID scope = [] then None else Some (UserID scope))"
    "rwTenant row = (if TenantID scope = [] then None else Some (TenantID scope))"
    "rwAgent row = (if AgentID scope = [] then None else Some (AgentID scope))"
    and tags: "rwTags row = map (\<lambda>(k, v). scopeTagToken k v) kvs"
    by (simp_all add: row_def inserted_row_def insert_args_def Let_def encodeScopeTags_def kvs_def ms_def)
  show ok: "row_ok row" using plain tags by (auto simp: row_ok_def cols)
  have set_ms: "set ms = set (ScopeMetadata scope)" using assms(2) unfolding ms_def by (metis set_mset_mset)
  have "map_of kvs k = map_of (ScopeMetadata scope) k" if "\<not> reserved_key k" for k
  proof -
    have "map_of kvs k = Some v \<longleftrightarrow> map_of (ScopeMetadata scope) k = Some v" for v
      using that plain map_of_eq_Some_iff [of kvs k v] meta_pairs(1) [OF assms(1), of k v] set_ms
      by (auto simp: plain_tags_def kvs_def)
    then show ?thesis by (metis not_Some_eq)
  qed
  then have "map_of (ScopeMetadata (row_scope row)) k = map_of (ScopeMetadata scope) k" for k
    by (cases "reserved_key k")
      (auto simp: ScopeMetadata_lookup row_scope_def cols tags decodeScopeTags_tokens [OF plain] derefString_def reserved_key_def)
  then show "same_scope (row_scope row) scope" by (simp add: same_scope_def fun_eq_iff)
qed

section \<open>The contract holds\<close>

definition meta_storable :: "MetaCodec \<Rightarrow> metadata \<Rightarrow> bool" where
  "meta_storable mc md \<longleftrightarrow> (\<forall>raw. marshalMetadata mc md = Inr raw \<longrightarrow> raw \<noteq> []
     \<and> (\<exists>out. mdUnmarshal mc raw = Inr out \<and> map_of out = map_of md))"

definition pg_contents :: "MetaCodec \<Rightarrow> pg_table \<Rightarrow> string \<rightharpoonup> MemoryEntry" where
  "pg_contents mc t = (\<lambda>i. case t i of None \<Rightarrow> None
     | Some row \<Rightarrow> (case row_entry mc row 0 of Inl _ \<Rightarrow> None | Inr e \<Rightarrow> Some e))"

definition wf_table :: "MetaCodec \<Rightarrow> pg_table \<Rightarrow> bool" where
  "wf_table mc t \<longleftrightarrow> (\<forall>i row. t i = Some row \<longrightarrow> rwId row = i \<and> row_ok row \<and> (\<exists>e. row_entry mc row 0 = Inr e))"

lemma row_entry_fields:
  assumes "row_entry mc row score = Inr e"
  shows "meID e = rwId row" "meText e = rwText row" "meKind e = rwKind row" "meScope e = row_scope row"
    "meExpiresAt e = rwExpires row" "meCreatedAt e = rwCreated row" "meUpdatedAt e = rwUpdated row"
    "row_entry mc row 0 = Inr (e\<lparr>meScore := 0\<rparr>)" "meScore e = score"
  using assms by (auto simp: row_entry_def Let_def row_scope_def split: if_splits sum.splits)

lemma scan_rows_elem:
  "scan_rows mc now rs = Inr es \<Longrightarrow> e \<in> set es \<Longrightarrow>
   \<exists>row score. Inr (row, score) \<in> set rs \<and> row_entry mc row score = Inr e \<and> \<not> Expired now e"
  by (induction mc now rs arbitrary: es rule: scan_rows.induct) (fastforce split: sum.splits if_splits)+

lemma scan_rows_all:
  "scan_rows mc now rs = Inr es \<Longrightarrow> (\<forall>e. Inl e \<notin> set rs)
   \<and> (\<forall>row score. Inr (row, score) \<in> set rs \<longrightarrow> (\<exists>e. row_entry mc row score = Inr e \<and> (Expired now e \<or> e \<in> set es)))"
proof (induction mc now rs arbitrary: es rule: scan_rows.induct)
  case (3 mc now row score rs)
  then obtain e es' where "row_entry mc row score = Inr e" "scan_rows mc now rs = Inr es'"
    "es = (if Expired now e then es' else e # es')" by (auto split: sum.splits)
  with "3.IH" show ?case by (cases "Expired now e") fastforce+
qed auto

lemma scanMemoryRows_Inr: "scanMemoryRows mc now rows = Inr es \<longleftrightarrow> scan_rows mc now (rsRows rows) = Inr es \<and> rsErr rows = None"
  by (auto simp: scanMemoryRows_def split: sum.splits option.splits)

lemma insert_args_simps:
  "length (insert_args env now fresh scope r opts raw vec) = 12"
  "insert_args env now fresh scope r opts raw vec ! 0 = ArgText (mem_id fresh opts)"
  by (simp_all add: insert_args_def Let_def mem_id_def)

text \<open>What an insertion leaves in the table.\<close>

lemma pg_inserted:
  assumes "wf_table (peCodec env) t" "tags_ok scope"
    and "mset (peVisit env (ScopeMetadata scope)) = mset (ScopeMetadata scope)"
    and "marshalMetadata (peCodec env) (mrMetadata r) = Inr raw" "meta_storable (peCodec env) (mrMetadata r)"
    and i_def: "i = mem_id fresh opts" and args_def: "args = insert_args env now fresh scope r opts raw vec"
  shows "wf_table (peCodec env) (upsert_row args t) \<and> (\<exists>e. keeps i scope r e
     \<and> stored_at now (pg_contents (peCodec env) t i) e
     \<and> pg_contents (peCodec env) (upsert_row args t) = (pg_contents (peCodec env) t)(i \<mapsto> e))"
proof -
  define row where "row = inserted_row args (t i)"
  have up: "upsert_row args t = t(i \<mapsto> row)"
    by (simp add: upsert_row_def args_def insert_args_simps i_def row_def Let_def derefString_def)
  have scope: "row_ok row" "same_scope (row_scope row) scope"
    using inserted_row_scope [OF assms(2,3)] by (simp_all add: row_def args_def)
  have cols: "rwId row = i" "rwText row = mrText r" "rwKind row = mrKind r" "rwMetadata row = raw"
    "rwExpires row = mrExpiresAt r" "rwUpdated row = now"
    "rwCreated row = (case t i of None \<Rightarrow> now | Some old \<Rightarrow> rwCreated old)"
    by (simp_all add: row_def args_def inserted_row_def insert_args_def Let_def i_def mem_id_def derefString_def
        split: option.splits)
  obtain out where out: "raw \<noteq> []" "mdUnmarshal (peCodec env) raw = Inr out" "map_of out = map_of (mrMetadata r)"
    using assms(4,5) by (auto simp: meta_storable_def)
  then obtain e where e: "row_entry (peCodec env) row 0 = Inr e" "meMetadata e = out"
    by (simp add: row_entry_def Let_def cols)
  note f = row_entry_fields [OF e(1)]
  have k: "keeps i scope r e" using scope(2) by (simp add: keeps_def f cols e(2) out(3))
  have "stored_at now (pg_contents (peCodec env) t i) e"
  proof (cases "t i")
    case (Some old)
    then obtain e1 where "row_entry (peCodec env) old 0 = Inr e1" using assms(1) by (auto simp: wf_table_def)
    with Some show ?thesis using row_entry_fields(6) [of _ old 0 e1] by (simp add: stored_at_def f cols pg_contents_def)
  qed (simp add: stored_at_def f cols pg_contents_def)
  moreover have "pg_contents (peCodec env) (upsert_row args t) = (pg_contents (peCodec env) t)(i \<mapsto> e)"
    by (simp add: up pg_contents_def fun_eq_iff e(1))
  moreover have "wf_table (peCodec env) (upsert_row args t)"
    using assms(1) scope(1) cols(1) e(1) by (auto simp: up wf_table_def)
  ultimately show ?thesis using k by blast
qed

lemma keeps_some: "\<exists>e. keeps i scope r e \<and> stored_at now before e"
proof
  let ?e = "\<lparr>meID = i, meText = mrText r, meKind = mrKind r, meScope = scope, meMetadata = mrMetadata r,
    meExpiresAt = mrExpiresAt r, meScore = 0,
    meCreatedAt = (case before of None \<Rightarrow> now | Some b \<Rightarrow> meCreatedAt b), meUpdatedAt = now\<rparr>"
  show "keeps i scope r ?e \<and> stored_at now before ?e" by (simp add: keeps_def stored_at_def same_scope_def)
qed

lemma returned_id_cases:
  "returns_row args rows \<Longrightarrow> arg_at args 1 = Some (ArgText i) \<Longrightarrow> returned_id rows = Inr i"
  "returns_nothing rows \<Longrightarrow> \<exists>e. returned_id rows = Inl e"
  by (auto simp: returns_row_def returns_nothing_def returned_id_def split: list.splits sum.splits option.splits)

lemma pg_put:
  assumes "sql_laws (peDB env) tbl" "wf_table (peCodec env) (tbl w)" "tags_ok scope"
    and "mset (peVisit env (ScopeMetadata scope)) = mset (ScopeMetadata scope)"
    and "meta_storable (peCodec env) (mrMetadata r)"
    and embed: "\<And>text w. tbl (snd (peEmbed env text w)) = tbl w"
    and run: "PgStore env m now fresh scope r opts w = (res, w')"
  defines "i \<equiv> mem_id fresh opts" and "c \<equiv> pg_contents (peCodec env)"
  shows "wf_table (peCodec env) (tbl w') \<and> (\<exists>e. keeps i scope r e \<and> stored_at now (c (tbl w) i) e
     \<and> (case res of Inl _ \<Rightarrow> c (tbl w') = c (tbl w) \<or> c (tbl w') = (c (tbl w))(i \<mapsto> e)
        | Inr j \<Rightarrow> j = i \<and> c (tbl w') = (c (tbl w))(j \<mapsto> e)))" (is ?goal)
proof -
  have failed: ?goal if "tbl w' = tbl w" "\<exists>e. res = Inl e"
    using that assms(2) keeps_some [of i scope r now "c (tbl w) i"] by auto
  obtain emb w1 where w1: "peEmbed env (mrText r) w = (emb, w1)" by fastforce
  then have t1: "tbl w1 = tbl w" using embed [of "mrText r" w] by simp
  show ?thesis
  proof (cases "pgConnected m \<and> (\<exists>vec raw. emb = Inr vec \<and> marshalMetadata (peCodec env) (mrMetadata r) = Inr raw)")
    case False
    then have "tbl w' = tbl w" "\<exists>e. res = Inl e"
      using run t1 by (cases "marshalMetadata (peCodec env) (mrMetadata r)"; cases emb;
        auto simp: PgStore_def w1 split: if_splits)+
    then show ?thesis by (rule failed)
  next
    case True
    then obtain vec raw where ok: "pgConnected m" "emb = Inr vec" "marshalMetadata (peCodec env) (mrMetadata r) = Inr raw" by blast
    define args where "args = insert_args env now fresh scope r opts raw vec"
    obtain got w2 where w2: "dbReturning (peDB env) now InsertMemory args w1 = (got, w2)" by fastforce
    have res: "w' = w2" "res = (case got of Inl e \<Rightarrow> Inl (wrap_error ''pgvector store memory: '' e) | Inr rows \<Rightarrow> returned_id rows)"
      using run ok w1 w2 by (auto simp: PgStore_def args_def split: sum.splits)
    have law: "case got of Inl _ \<Rightarrow> tbl w2 = tbl w1 \<or> tbl w2 = upsert_row args (tbl w1)
      | Inr rows \<Rightarrow> returns_row args rows \<and> tbl w2 = upsert_row args (tbl w1)
          \<or> returns_nothing rows \<and> (tbl w2 = tbl w1 \<or> tbl w2 = upsert_row args (tbl w1))"
      using assms(1) w2 unfolding sql_laws_def insert_law_def by blast
    obtain e where e: "wf_table (peCodec env) (upsert_row args (tbl w))" "keeps i scope r e" "stored_at now (c (tbl w) i) e"
      "c (upsert_row args (tbl w)) = (c (tbl w))(i \<mapsto> e)"
      using pg_inserted [OF assms(2-4) ok(3) assms(5) i_def [THEN meta_eq_to_obj_eq] args_def] unfolding c_def by blast
    have first: "arg_at args 1 = Some (ArgText i)" by (simp add: arg_at_def args_def insert_args_simps i_def)
    show ?thesis
    proof (cases "(\<exists>er. res = Inl er) \<and> tbl w2 = tbl w1")
      case True
      then show ?thesis using failed res(1) t1 by simp
    next
      case False
      then have "tbl w2 = upsert_row args (tbl w)" "res = Inr i \<or> (\<exists>er. res = Inl er)"
        using law t1 res(2) returned_id_cases(1) [OF _ first] returned_id_cases(2) by (auto split: sum.splits)
      then show ?thesis using e assms(2) unfolding res(1) by auto
    qed
  qed
qed

text \<open>What a selection under the conditions of a recall yields.\<close>

lemma selected_visible:
  assumes "wf_table mc t" "tags_ok scope" "\<And>ms. mset (visit ms) = mset ms"
    and "buildScopeArgs visit scope kinds n = (cs, args)" "n = Suc (length pre)"
    and "t i = Some row" "pg_contents mc t i = Some e0"
  shows "list_all (pg_holds now (pre @ args @ post) row) (appendNotExpired cs) \<longleftrightarrow>
     scopeMatches (meScope e0) scope \<and> kindMatches (meKind e0) kinds \<and> lasting now e0"
proof -
  have ok: "row_ok row" "row_entry mc row 0 = Inr e0"
    using assms(1,6,7) by (auto simp: wf_table_def pg_contents_def split: sum.splits)
  note f = row_entry_fields [OF ok(2)]
  show ?thesis
    using buildScopeArgs_hold [OF assms(4,5), of now post row]
      conditions_select [OF ok(1) assms(2) assms(3) [of "ScopeMetadata scope"]]
    by (simp add: appendNotExpired_def f lasting_def)
qed

lemma pg_row_entry:
  assumes "wf_table mc t" "row \<in> ran t" "row_entry mc row score = Inr e"
  shows "\<exists>e0. pg_contents mc t (meID e) = Some e0 \<and> e = e0\<lparr>meScore := meScore e\<rparr> \<and> t (meID e) = Some row"
proof -
  obtain i where i: "t i = Some row" "rwId row = i" using assms(1,2) by (auto simp: ran_def wf_table_def)
  note f = row_entry_fields [OF assms(3)]
  have "pg_contents mc t (meID e) = Some (e\<lparr>meScore := 0\<rparr>)" by (simp add: pg_contents_def f i)
  then show ?thesis using i f(1) by simp
qed

text \<open>The selection a recall makes.\<close>

lemma PgLoad_Inr:
  assumes "PgLoad env m now scope q lopts w = (Inr es, w')"
    and embed: "\<And>text w. tbl (snd (peEmbed env text w)) = tbl w"
  obtains stmt args cs sargs pre post rows w1 where
    "buildScopeArgs (peVisit env) scope (lmKinds (load_options lopts)) (Suc (length pre)) = (cs, sargs)"
    "args = pre @ sargs @ post" "tbl w1 = tbl w"
    "stmt = SelectNear (appendNotExpired cs) \<or> stmt = SelectRecent (appendNotExpired cs) (length args)"
    "dbSelect (peDB env) now stmt args w1 = (Inr rows, w')" "scanMemoryRows (peCodec env) now rows = Inr es"
    "trim_space q = [] \<Longrightarrow> stmt = SelectRecent (appendNotExpired cs) (length args)
       \<and> (0 < pgDefaultLimit m \<longrightarrow> (\<exists>limit > 0. arg_at args (length args) = Some (ArgInt limit)))"
proof (cases "trim_space q = []")
  case True
  define limit where "limit = (if lmLimit (load_options lopts) \<le> 0 then pgDefaultLimit m else lmLimit (load_options lopts))"
  obtain cs sargs where b: "buildScopeArgs (peVisit env) scope (lmKinds (load_options lopts)) 1 = (cs, sargs)" by fastforce
  obtain rows where r: "dbSelect (peDB env) now (SelectRecent (appendNotExpired cs) (Suc (length sargs))) (sargs @ [ArgInt limit]) w = (Inr rows, w')"
    "scanMemoryRows (peCodec env) now rows = Inr es"
    using assms(1) True b by (auto simp: PgLoad_def Let_def load_answer_def limit_def split: if_splits prod.splits sum.splits)
  show ?thesis
    by (rule that [of "[]" cs sargs "sargs @ [ArgInt limit]" "[ArgInt limit]" w
          "SelectRecent (appendNotExpired cs) (Suc (length sargs))" rows])
      (use b r in \<open>auto simp: arg_at_def limit_def\<close>)
next
  case False
  define limit where "limit = (if lmLimit (load_options lopts) \<le> 0 then pgDefaultLimit m else lmLimit (load_options lopts))"
  define minScore where "minScore = (if lmMinScore (load_options lopts) = 0 then pgDefaultMinScore m else lmMinScore (load_options lopts))"
  obtain emb w1 where w1: "peEmbed env (trim_space q) w = (emb, w1)" by fastforce
  then have t: "tbl w1 = tbl w" using embed [of "trim_space q" w] by simp
  obtain cs sargs where b: "buildScopeArgs (peVisit env) scope (lmKinds (load_options lopts)) 4 = (cs, sargs)" by fastforce
  obtain vec where vec: "emb = Inr vec"
    using assms(1) False w1 by (cases emb) (auto simp: PgLoad_def Let_def split: if_splits)
  let ?pre = "[ArgVector vec, ArgFloat minScore, ArgInt limit]"
  obtain rows where r: "dbSelect (peDB env) now (SelectNear (appendNotExpired cs)) (?pre @ sargs) w1 = (Inr rows, w')"
    "scanMemoryRows (peCodec env) now rows = Inr es"
    using assms(1) False b w1 vec
    by (auto simp: PgLoad_def Let_def load_answer_def limit_def minScore_def split: if_splits prod.splits sum.splits)
  show ?thesis
    by (rule that [of ?pre cs sargs "?pre @ sargs" "[]" w1 "SelectNear (appendNotExpired cs)" rows])
      (use b r t False in \<open>auto simp: eval_nat_numeral\<close>)
qed

lemma PgLoad_tbl:
  assumes "select_law (peDB env) tbl" "\<And>text w. tbl (snd (peEmbed env text w)) = tbl w"
    and "PgLoad env m now scope q lopts w = (res, w')"
  shows "tbl w' = tbl w"
proof -
  have sel: "tbl (snd (load_answer env now (dbSelect (peDB env) now stmt args v))) = tbl v"
    if "stmt = SelectNear cs \<or> stmt = SelectRecent cs n" for stmt cs n args v
  proof -
    obtain got v' where g: "dbSelect (peDB env) now stmt args v = (got, v')" by fastforce
    then have "tbl v' = tbl v" using assms(1) that unfolding select_law_def by blast
    then show ?thesis by (cases got) (simp_all add: load_answer_def g)
  qed
  have "tbl (snd (PgLoad env m now scope q lopts w)) = tbl w"
    using sel assms(2) [of "trim_space q" w]
    by (cases "peEmbed env (trim_space q) w"; cases "fst (peEmbed env (trim_space q) w)")
      (auto simp: PgLoad_def Let_def split: prod.splits)
  then show ?thesis using assms(3) by simp
qed

lemma pg_recall:
  assumes laws: "select_law (peDB env) tbl" and visit: "\<And>ms. mset (peVisit env ms) = mset ms"
    and embed: "\<And>text w. tbl (snd (peEmbed env text w)) = tbl w"
    and wf: "wf_table (peCodec env) (tbl w)" "tags_ok scope"
    and run: "PgLoad env m now scope q lopts w = (Inr es, w')" and "e \<in> set es"
  shows "\<exists>e0. pg_contents (peCodec env) (tbl w) (meID e) = Some e0 \<and> e = e0\<lparr>meScore := meScore e\<rparr>
     \<and> visible now scope (lmKinds (load_options lopts)) e0"
proof (rule PgLoad_Inr [where tbl = tbl, OF run embed])
  fix stmt args cs sargs rows w1 and pre post :: "pg_arg list"
  assume a: "buildScopeArgs (peVisit env) scope (lmKinds (load_options lopts)) (Suc (length pre)) = (cs, sargs)"
    "args = pre @ sargs @ post" "tbl w1 = tbl w"
    "stmt = SelectNear (appendNotExpired cs) \<or> stmt = SelectRecent (appendNotExpired cs) (length args)"
    "dbSelect (peDB env) now stmt args w1 = (Inr rows, w')" "scanMemoryRows (peCodec env) now rows = Inr es"
  obtain row score where row: "Inr (row, score) \<in> set (rsRows rows)" "row_entry (peCodec env) row score = Inr e" "\<not> Expired now e"
    using scan_rows_elem [of "peCodec env" now "rsRows rows" es e] a(6) assms(7) by (auto simp: scanMemoryRows_Inr)
  have "row \<in> selection now (appendNotExpired cs) args (tbl w1)"
    using laws a(4,5) row(1) unfolding select_law_def by blast
  then have sel: "row \<in> ran (tbl w)" "list_all (pg_holds now (pre @ sargs @ post) row) (appendNotExpired cs)"
    by (simp_all add: selection_def a(2,3))
  obtain e0 where e0: "pg_contents (peCodec env) (tbl w) (meID e) = Some e0" "e = e0\<lparr>meScore := meScore e\<rparr>"
    "tbl w (meID e) = Some row" using pg_row_entry [OF wf(1) sel(1) row(2)] by blast
  have "\<not> Expired now e0" using row(3) by (subst (asm) e0(2)) (simp add: Expired_def)
  then have "visible now scope (lmKinds (load_options lopts)) e0"
    using sel(2) selected_visible [OF wf visit a(1) refl e0(3,1), of now post] by (simp add: visible_def)
  with e0 show ?thesis by blast
qed

lemma pg_recent:
  assumes laws_select: "select_law (peDB env) tbl" and laws: "recency_law (peDB env) tbl"
    and visit: "\<And>ms. mset (peVisit env ms) = mset ms"
    and embed: "\<And>text w. tbl (snd (peEmbed env text w)) = tbl w" and "0 < pgDefaultLimit m"
    and wf: "wf_table (peCodec env) (tbl w)" "tags_ok scope" and q: "trim_space q = []"
    and run: "PgLoad env m now scope q lopts w = (Inr es, w')"
    and e0: "pg_contents (peCodec env) (tbl w) i = Some e0" "visible now scope (lmKinds (load_options lopts)) e0" "lasting now e0"
  shows "i \<in> meID ` set es \<or> es \<noteq> [] \<and> (\<forall>e \<in> set es. meUpdatedAt e0 \<le> meUpdatedAt e)"
proof (rule PgLoad_Inr [where tbl = tbl, OF run embed])
  fix stmt args cs sargs rows w1 and pre post :: "pg_arg list"
  assume a: "buildScopeArgs (peVisit env) scope (lmKinds (load_options lopts)) (Suc (length pre)) = (cs, sargs)"
    "args = pre @ sargs @ post" "tbl w1 = tbl w"
    "dbSelect (peDB env) now stmt args w1 = (Inr rows, w')" "scanMemoryRows (peCodec env) now rows = Inr es"
    "trim_space q = [] \<Longrightarrow> stmt = SelectRecent (appendNotExpired cs) (length args)
       \<and> (0 < pgDefaultLimit m \<longrightarrow> (\<exists>limit > 0. arg_at args (length args) = Some (ArgInt limit)))"
  obtain limit where stmt: "stmt = SelectRecent (appendNotExpired cs) (length args)"
    and limit: "0 < limit" "arg_at args (length args) = Some (ArgInt limit)" using a(6) [OF q] assms(5) by blast
  have scan: "scan_rows (peCodec env) now (rsRows rows) = Inr es" "rsErr rows = None"
    using a(5) by (simp_all add: scanMemoryRows_Inr)
  note all = scan_rows_all [OF scan(1)]
  obtain row where row: "tbl w i = Some row" "row_entry (peCodec env) row 0 = Inr e0"
    using e0(1) by (auto simp: pg_contents_def split: option.splits sum.splits)
  note f = row_entry_fields [OF row(2)]
  have "list_all (pg_holds now (pre @ sargs @ post) row) (appendNotExpired cs)"
    using selected_visible [OF wf visit a(1) refl row(1) e0(1), of now post] e0(2,3) by (simp add: visible_def)
  then have sel: "row \<in> selection now (appendNotExpired cs) args (tbl w1)"
    using row(1) by (auto simp: selection_def a(2,3) ran_def)
  have answered: "\<exists>e. row_entry (peCodec env) other score = Inr e \<and> e \<in> set es" if found: "Inr (other, score) \<in> set (rsRows rows)" for other score
  proof -
    obtain e where e: "row_entry (peCodec env) other score = Inr e" "Expired now e \<or> e \<in> set es" using all found by blast
    have "other \<in> selection now (appendNotExpired cs) args (tbl w1)"
      using laws_select a(4) found stmt unfolding select_law_def by blast
    then have "\<not> Expired now e"
      using row_entry_fields(5) [OF e(1)] by (auto simp: selection_def appendNotExpired_def Expired_def split: option.splits)
    with e show ?thesis by blast
  qed
  have "(\<exists>score. Inr (row, score) \<in> set (rsRows rows)) \<or> (\<exists>e. Inl e \<in> set (rsRows rows))
     \<or> rsRows rows \<noteq> [] \<and> (\<forall>other score. Inr (other, score) \<in> set (rsRows rows) \<longrightarrow> rwUpdated row \<le> rwUpdated other)"
    using laws a(4) stmt scan(2) limit sel unfolding recency_law_def by blast
  then consider score where "Inr (row, score) \<in> set (rsRows rows)"
    | "rsRows rows \<noteq> []" "\<And>other score. Inr (other, score) \<in> set (rsRows rows) \<Longrightarrow> rwUpdated row \<le> rwUpdated other"
    using all by blast
  then show ?thesis
  proof cases
    case 1
    then obtain e where e: "row_entry (peCodec env) row score = Inr e" "e \<in> set es" using answered by blast
    have "rwId row = i" using wf(1) row(1) by (simp add: wf_table_def)
    then have "meID e = i" using row_entry_fields(1) [OF e(1)] by simp
    then show ?thesis using e(2) by blast
  next
    case 2
    then obtain x where "x \<in> set (rsRows rows)" by (meson hd_in_set)
    then obtain other score where "Inr (other, score) \<in> set (rsRows rows)"
      using all by (metis sum.exhaust surj_pair)
    then have "es \<noteq> []" using answered by fastforce
    moreover have "meUpdatedAt e0 \<le> meUpdatedAt e" if "e \<in> set es" for e
      using scan_rows_elem [OF scan(1) that] 2(2) row_entry_fields(7) f(7) by metis
    ultimately show ?thesis by blast
  qed
qed

lemma pg_forget:
  assumes laws: "delete_law (peDB env) tbl" and visit: "\<And>ms. mset (peVisit env ms) = mset ms"
    and wf: "wf_table (peCodec env) (tbl w)" "tags_ok scope" and run: "PgClear env m now scope w = (err, w')"
  defines "c \<equiv> pg_contents (peCodec env)"
  shows "wf_table (peCodec env) (tbl w') \<and> (c (tbl w') = c (tbl w) \<or> c (tbl w') = cleared scope (c (tbl w)))
     \<and> (err = None \<and> ScopeMetadata scope \<noteq> [] \<longrightarrow> c (tbl w') = cleared scope (c (tbl w)))"
proof -
  obtain cs args where b: "buildScopeArgs (peVisit env) scope [] 1 = (cs, args)" by fastforce
  let ?del = "delete_rows now cs args (tbl w)"
  have holds: "list_all (pg_holds now args row) cs \<longleftrightarrow> scopeMatches (row_scope row) scope" if "row_ok row" for row
    using buildScopeArgs_hold [of "peVisit env" scope "[]" 1 cs args "[]" now "[]" row] b
      conditions_select [OF that wf(2) visit [of "ScopeMetadata scope"]] by (simp add: kindMatches_iff)
  have "c ?del i = cleared scope (c (tbl w)) i" for i
  proof (cases "tbl w i")
    case (Some row)
    then obtain e where "row_ok row" "row_entry (peCodec env) row 0 = Inr e" using wf(1) by (auto simp: wf_table_def)
    with Some holds show ?thesis
      using row_entry_fields(4) [of _ row 0 e] by (simp add: c_def pg_contents_def delete_rows_def cleared_def)
  qed (simp add: c_def pg_contents_def delete_rows_def cleared_def)
  then have del: "c ?del = cleared scope (c (tbl w))" by blast
  have "wf_table (peCodec env) ?del" using wf(1) by (auto simp: wf_table_def delete_rows_def split: option.splits if_splits)
  moreover have "tbl w' = ?del \<or> tbl w' = tbl w \<and> (err \<noteq> None \<or> ScopeMetadata scope = [])"
  proof (cases "pgConnected m \<and> ScopeMetadata scope \<noteq> []")
    case True
    obtain er w1 where e: "dbExec (peDB env) now (DeleteWhere cs) args w = (er, w1)" by fastforce
    then have "tbl w1 = ?del \<or> er \<noteq> None \<and> tbl w1 = tbl w" using laws unfolding delete_law_def by blast
    then show ?thesis using run True b e by (auto simp: PgClear_def split: option.splits)
  next
    case False
    then show ?thesis using run by (auto simp: PgClear_def split: if_splits)
  qed
  ultimately show ?thesis using wf(1) del by auto
qed

text \<open>Over any database that keeps the laws, with metadata that survive JSON and tag keys without an equals sign.\<close>

lemma pg_memory_store:
  assumes laws: "sql_laws (peDB env) tbl" and visit: "\<And>ms. mset (peVisit env ms) = mset ms"
    and embed: "\<And>text w. tbl (snd (peEmbed env text w)) = tbl w" and "0 < pgDefaultLimit m"
  shows "memory_store (\<lambda>w. wf_table (peCodec env) (tbl w)) (\<lambda>w. pg_contents (peCodec env) (tbl w)) tags_ok
     (\<lambda>r. meta_storable (peCodec env) (mrMetadata r)) (PgStore env m) (PgLoad env m) (PgClear env m clock)"
proof -
  have law: "select_law (peDB env) tbl" "recency_law (peDB env) tbl" "delete_law (peDB env) tbl"
    using laws by (simp_all add: sql_laws_def)
  show ?thesis
  proof unfold_locales
    fix w w' scope r now fresh opts res
    assume "wf_table (peCodec env) (tbl w)" "tags_ok scope" "meta_storable (peCodec env) (mrMetadata r)"
      "PgStore env m now fresh scope r opts w = (res, w')"
    then show "wf_table (peCodec env) (tbl w') \<and> (\<exists>e. keeps (mem_id fresh opts) scope r e
        \<and> stored_at now (pg_contents (peCodec env) (tbl w) (mem_id fresh opts)) e
        \<and> (case res of Inl _ \<Rightarrow> pg_contents (peCodec env) (tbl w') = pg_contents (peCodec env) (tbl w)
              \<or> pg_contents (peCodec env) (tbl w') = (pg_contents (peCodec env) (tbl w))(mem_id fresh opts \<mapsto> e)
           | Inr i \<Rightarrow> i = mem_id fresh opts \<and> pg_contents (peCodec env) (tbl w') = (pg_contents (peCodec env) (tbl w))(i \<mapsto> e)))"
      by (intro pg_put [OF laws _ _ visit _ embed])
  next
    fix w w' scope now q lopts got
    assume a: "wf_table (peCodec env) (tbl w)" "tags_ok scope" "PgLoad env m now scope q lopts w = (got, w')"
    have "tbl w' = tbl w" by (rule PgLoad_tbl [OF law(1) embed a(3)])
    moreover have "\<forall>es. got = Inr es \<longrightarrow> (\<forall>e \<in> set es. \<exists>e0. pg_contents (peCodec env) (tbl w) (meID e) = Some e0
           \<and> e = e0\<lparr>meScore := meScore e\<rparr> \<and> visible now scope (lmKinds (load_options lopts)) e0)"
      using a(3) by (intro allI impI ballI pg_recall [OF law(1) visit embed a(1,2)]) simp_all
    ultimately show "wf_table (peCodec env) (tbl w') \<and> pg_contents (peCodec env) (tbl w') = pg_contents (peCodec env) (tbl w)
      \<and> (\<forall>es. got = Inr es \<longrightarrow> (\<forall>e \<in> set es. \<exists>e0. pg_contents (peCodec env) (tbl w) (meID e) = Some e0
           \<and> e = e0\<lparr>meScore := meScore e\<rparr> \<and> visible now scope (lmKinds (load_options lopts)) e0))"
      using a(1) by simp
  next
    fix w w' scope now q lopts es i e0
    assume "wf_table (peCodec env) (tbl w)" "tags_ok scope" "trim_space q = []"
      "PgLoad env m now scope q lopts w = (Inr es, w')" "pg_contents (peCodec env) (tbl w) i = Some e0"
      "visible now scope (lmKinds (load_options lopts)) e0" "lasting now e0"
    then show "i \<in> meID ` set es \<or> es \<noteq> [] \<and> (\<forall>e \<in> set es. meUpdatedAt e0 \<le> meUpdatedAt e)"
      by (rule pg_recent [OF law(1,2) visit embed assms(4)])
  next
    fix w w' scope err
    assume "wf_table (peCodec env) (tbl w)" "tags_ok scope" "PgClear env m clock scope w = (err, w')"
    then show "wf_table (peCodec env) (tbl w') \<and> (pg_contents (peCodec env) (tbl w') = pg_contents (peCodec env) (tbl w)
         \<or> pg_contents (peCodec env) (tbl w') = cleared scope (pg_contents (peCodec env) (tbl w)))
      \<and> (err = None \<and> ScopeMetadata scope \<noteq> [] \<longrightarrow>
          pg_contents (peCodec env) (tbl w') = cleared scope (pg_contents (peCodec env) (tbl w)))"
      by (rule pg_forget [OF law(3) visit])
  qed
qed

end
