(* ===== verification/WeaviateMemory.thy ===== *)
theory WeaviateMemory
  imports PgMemory
begin

text \<open>
  The memory backend over Weaviate (\<open>pkg/memory/weaviate/memory.go\<close>, \<open>schema.go\<close>).  The client of the database
  is a parameter; filters and properties are the values its builders are given.
\<close>

section \<open>Schema and building\<close>

definition DefaultClassName :: string where "DefaultClassName = ''AgentMemory''"
definition DefaultTextField :: string where "DefaultTextField = ''text''"
definition DefaultScheme :: string where "DefaultScheme = ''http''"
definition wvDefaultLimit :: int where "wvDefaultLimit = 10"
definition wvDefaultScore :: rat where "wvDefaultScore = 35 / 100"

record WvMemory =
  wvConnected :: bool
  wvClass :: string
  wvTextField :: string
  wvTenant :: string
  wvLimit :: int
  wvScore :: rat
  wvHost :: string
  wvScheme :: string

datatype WvOption = WvClientGiven | WvHost string | WvScheme string | WvClassName string | WvTextField string
  | WvTenant string | WvLimit int | WvScore rat

fun wv_option :: "WvOption \<Rightarrow> WvMemory \<Rightarrow> WvMemory" where
  "wv_option WvClientGiven m = m\<lparr>wvConnected := True\<rparr>"
| "wv_option (WvHost host) m = m\<lparr>wvHost := host\<rparr>"
| "wv_option (WvScheme scheme) m = m\<lparr>wvScheme := scheme\<rparr>"
| "wv_option (WvClassName className) m = m\<lparr>wvClass := className\<rparr>"
| "wv_option (WvTextField textField) m = m\<lparr>wvTextField := textField\<rparr>"
| "wv_option (WvTenant tenant) m = m\<lparr>wvTenant := tenant\<rparr>"
| "wv_option (WvLimit limit) m = m\<lparr>wvLimit := limit\<rparr>"
| "wv_option (WvScore minScore) m = m\<lparr>wvScore := minScore\<rparr>"

definition NewWvMemory :: "(string \<Rightarrow> string \<Rightarrow> goerr option) \<Rightarrow> WvOption list \<Rightarrow> goerr + WvMemory" where
  "NewWvMemory connect opts =
     (let m0 = fold wv_option opts
            \<lparr>wvConnected = False, wvClass = [], wvTextField = [], wvTenant = [], wvLimit = 0, wvScore = 0,
             wvHost = [], wvScheme = []\<rparr>;
          m1 = (if wvClass m0 = [] then m0\<lparr>wvClass := DefaultClassName\<rparr> else m0);
          m2 = (if wvTextField m1 = [] then m1\<lparr>wvTextField := DefaultTextField\<rparr> else m1);
          m3 = (if wvLimit m2 \<le> 0 then m2\<lparr>wvLimit := wvDefaultLimit\<rparr> else m2);
          m4 = (if wvScore m3 = 0 then m3\<lparr>wvScore := wvDefaultScore\<rparr> else m3)
      in if wvConnected m4 then Inr m4
         else if wvHost m4 = [] then Inl (new_error ''host is required when not using WithClient'')
         else
           (let m5 = (if wvScheme m4 = [] then m4\<lparr>wvScheme := DefaultScheme\<rparr> else m4)
            in case connect (wvScheme m5) (wvHost m5) of
                 Some e \<Rightarrow> Inl (wrap_error ''create weaviate client: '' e)
               | None \<Rightarrow> Inr (m5\<lparr>wvConnected := True\<rparr>)))"

section \<open>Properties of an object\<close>

datatype wvProp = PropText string | PropTexts "string list" | PropTime int

type_synonym wv_props = "(string \<times> wvProp) list"

definition wvEncodeTags :: "(string \<times> string) list \<Rightarrow> string list" where
  "wvEncodeTags meta =
     List.map_filter (\<lambda>(k, v). if reserved_key k then None else Some (scopeTagToken k v)) meta"

definition put_text :: "string \<Rightarrow> string \<Rightarrow> wv_props \<Rightarrow> wv_props" where
  "put_text k v props = (if v \<noteq> [] then AList.update k (PropText v) props else props)"

definition buildProperties :: "MetaCodec \<Rightarrow> ((string \<times> string) list \<Rightarrow> (string \<times> string) list) \<Rightarrow> string \<Rightarrow> MemoryScope \<Rightarrow>
    MemoryRecord \<Rightarrow> int \<Rightarrow> bool \<Rightarrow> goerr + wv_props" where
  "buildProperties mc visit textField scope r now setCreated =
     (let meta = ScopeMetadata scope;
          p0 = AList.update ColUpdatedAt (PropTime now)
                 (AList.update ColKind (PropText (mrKind r)) [(textField, PropText (mrText r))]);
          p1 = (if setCreated then AList.update ColCreatedAt (PropTime now) p0 else p0);
          p2 = put_text ScopeKeyAgentID (meta_get meta ScopeKeyAgentID)
                 (put_text ScopeKeyTenantID (meta_get meta ScopeKeyTenantID)
                   (put_text ScopeKeyUserID (meta_get meta ScopeKeyUserID) p1));
          tags = wvEncodeTags (visit meta);
          p3 = (if tags \<noteq> [] then AList.update ColScopeTags (PropTexts tags) p2 else p2);
          expire = (\<lambda>p. case mrExpiresAt r of None \<Rightarrow> p | Some t \<Rightarrow> AList.update ColExpiresAt (PropTime t) p)
      in if mrMetadata r = [] then Inr (expire p3)
         else case mdMarshal mc (mrMetadata r) of
             Inl e \<Rightarrow> Inl (wrap_error ''marshal metadata: '' e)
           | Inr raw \<Rightarrow> Inr (expire (AList.update ColMetadata (PropText raw) p3)))"

section \<open>Filters\<close>

datatype whereFilter = WhereEqual string string | WhereContainsAll string "string list"
  | WhereContainsAny string "string list" | WhereAnd "whereFilter list"

definition combineWhereOperands :: "whereFilter list \<Rightarrow> whereFilter option" where
  "combineWhereOperands operands =
     (case operands of [] \<Rightarrow> None | [w] \<Rightarrow> Some w | _ \<Rightarrow> Some (WhereAnd operands))"

definition combineWhere :: "whereFilter option list \<Rightarrow> whereFilter option" where
  "combineWhere parts = combineWhereOperands (List.map_filter (\<lambda>p. p) parts)"

definition scope_operand :: "string \<times> string \<Rightarrow> whereFilter" where
  "scope_operand kv = (case kv of (k, v) \<Rightarrow>
     if reserved_key k then WhereEqual k v else WhereContainsAll ColScopeTags [scopeTagToken k v])"

definition scopeWhere :: "((string \<times> string) list \<Rightarrow> (string \<times> string) list) \<Rightarrow> MemoryScope \<Rightarrow> whereFilter option" where
  "scopeWhere visit scope =
     (let meta = ScopeMetadata scope
      in if meta = [] then None else combineWhereOperands (map scope_operand (visit meta)))"

definition kindsWhere :: "string list \<Rightarrow> whereFilter option" where
  "kindsWhere kinds =
     (case kinds of [] \<Rightarrow> None | [k] \<Rightarrow> Some (WhereEqual ColKind k) | _ \<Rightarrow> Some (WhereContainsAny ColKind kinds))"

section \<open>The client\<close>

text \<open>An error of the client and the status of the Weaviate error in its chain, if there is one.\<close>

datatype wvErr = WvErr (wvCause: goerr) (wvStatus: "int option")

definition isNotFound :: "wvErr \<Rightarrow> bool" where
  "isNotFound e \<longleftrightarrow> (case wvStatus e of None \<Rightarrow> False | Some code \<Rightarrow> code = 404)"

record wvQuery =
  wqClass :: string
  wqLimit :: int
  wqFields :: "string list"
  wqSortDesc :: string
  wqWhere :: "whereFilter option"
  wqNear :: "(string \<times> rat) option"

record graphqlResponse =
  grData :: gomap
  grErrors :: "string option list"

text \<open>Class, tenant (empty for none), identifier and properties; what is created may come without an object or
  identifier.\<close>

record 'w WvClient =
  wcMerge :: "string \<Rightarrow> string \<Rightarrow> string \<Rightarrow> wv_props \<Rightarrow> 'w \<Rightarrow> wvErr option \<times> 'w"
  wcCreate :: "string \<Rightarrow> string \<Rightarrow> string option \<Rightarrow> wv_props \<Rightarrow> 'w \<Rightarrow> (wvErr + string option option) \<times> 'w"
  wcGet :: "wvQuery \<Rightarrow> 'w \<Rightarrow> (goerr + graphqlResponse option) \<times> 'w"
  wcDelete :: "string \<Rightarrow> string \<Rightarrow> whereFilter \<Rightarrow> 'w \<Rightarrow> goerr option \<times> 'w"

text \<open>\<open>time.Parse\<close> with the layout with and without fractions, and a number's value.\<close>

record 'w WvEnv =
  weClient :: "'w WvClient"
  weCodec :: MetaCodec
  weVisit :: "(string \<times> string) list \<Rightarrow> (string \<times> string) list"
  weParseNano :: "string \<Rightarrow> int option"
  weParse :: "string \<Rightarrow> int option"
  weNumber :: "string \<Rightarrow> rat"

section \<open>Store\<close>

definition objectID :: "string option option \<Rightarrow> string" where
  "objectID wrapper = (case wrapper of Some (Some i) \<Rightarrow> i | _ \<Rightarrow> [])"

definition client_unset :: goerr where "client_unset = new_error ''client is not set''"

definition wv_create :: "'w WvEnv \<Rightarrow> WvMemory \<Rightarrow> string option \<Rightarrow> wv_props \<Rightarrow> 'w \<Rightarrow> (goerr + string) \<times> 'w" where
  "wv_create env m i props w =
     (case wcCreate (weClient env) (wvClass m) (wvTenant m) i props w of
        (Inl e, w1) \<Rightarrow> (Inl (wrap_error ''weaviate create memory: '' (wvCause e)), w1)
      | (Inr wrapper, w1) \<Rightarrow> (Inr (objectID wrapper), w1))"

definition WvStore :: "'w WvEnv \<Rightarrow> WvMemory \<Rightarrow> int \<Rightarrow> string \<Rightarrow> MemoryScope \<Rightarrow> MemoryRecord \<Rightarrow> StoreMemoryOption list \<Rightarrow> 'w
    \<Rightarrow> (goerr + string) \<times> 'w" where
  "WvStore env m now fresh scope r opts w =
     (if \<not> wvConnected m then (Inl client_unset, w)
      else case buildProperties (weCodec env) (weVisit env) (wvTextField m) scope r now (store_id opts = []) of
        Inl e \<Rightarrow> (Inl e, w)
      | Inr props \<Rightarrow>
          (let i = trim_space (store_id opts)
           in if i \<noteq> [] then
                (case wcMerge (weClient env) (wvClass m) (wvTenant m) i props w of
                   (None, w1) \<Rightarrow> (Inr i, w1)
                 | (Some e, w1) \<Rightarrow>
                     (if \<not> isNotFound e then (Inl (wrap_error ''weaviate update memory: '' (wvCause e)), w1)
                      else wv_create env m (Some i) props w1))
              else
                (case wv_create env m None props w of
                   (Inl e, w1) \<Rightarrow> (Inl e, w1)
                 | (Inr got, w1) \<Rightarrow> (Inr (if got \<noteq> [] then got else fresh), w1))))"

section \<open>Load\<close>

definition graphqlErrors :: "graphqlResponse option \<Rightarrow> goerr option" where
  "graphqlErrors result =
     (case result of
        None \<Rightarrow> None
      | Some res \<Rightarrow>
          (if grErrors res = [] then None
           else Some (new_error (''graphql: '' @
             join_sql ''; '' (map (\<lambda>e. case e of Some msg \<Rightarrow> msg | None \<Rightarrow> []) (grErrors res))))))"

definition wv_get_string :: "(string \<times> goany) list \<Rightarrow> string \<Rightarrow> string" where
  "wv_get_string obj key = (case get_string (Some obj) key of Some v \<Rightarrow> v | None \<Rightarrow> [])"

definition wv_get_time :: "'w WvEnv \<Rightarrow> (string \<times> goany) list \<Rightarrow> string \<Rightarrow> int option" where
  "wv_get_time env obj key =
     (let raw = wv_get_string obj key
      in if raw = [] then None
         else case weParseNano env raw of
             Some t \<Rightarrow> Some t
           | None \<Rightarrow> weParse env raw)"

text \<open>The zero time, as nanoseconds since 1970.\<close>

definition zero_time :: int where "zero_time = - 62135596800 * 1000000000"

definition or_zero :: "int option \<Rightarrow> int" where
  "or_zero t = (case t of None \<Rightarrow> zero_time | Some x \<Rightarrow> x)"

definition additionalID :: "(string \<times> goany) list \<Rightarrow> string" where
  "additionalID obj =
     (case map_of obj ''_additional'' of
        Some (VMap additional) \<Rightarrow> wv_get_string additional ''id'' | _ \<Rightarrow> [])"

definition wv_certainty :: "'w WvEnv \<Rightarrow> (string \<times> goany) list \<Rightarrow> rat" where
  "wv_certainty env obj =
     (case map_of obj ''_additional'' of
        Some (VMap additional) \<Rightarrow>
          (case map_of additional ''certainty'' of Some (VNumber n) \<Rightarrow> weNumber env n | _ \<Rightarrow> 0)
      | _ \<Rightarrow> 0)"

definition decode_item :: "goany \<Rightarrow> (string \<times> string) list \<Rightarrow> (string \<times> string) list" where
  "decode_item item out = (case item of VString token \<Rightarrow> decode_tag token out | _ \<Rightarrow> out)"

definition wvDecodeTags :: "goany option \<Rightarrow> (string \<times> string) list" where
  "wvDecodeTags raw = (case raw of Some (VList values) \<Rightarrow> fold decode_item values [] | _ \<Rightarrow> [])"

definition parseEntry :: "'w WvEnv \<Rightarrow> string \<Rightarrow> (string \<times> goany) list \<Rightarrow> goerr + MemoryEntry" where
  "parseEntry env textField obj =
     (let entry = \<lparr>meID = additionalID obj, meText = wv_get_string obj textField, meKind = wv_get_string obj ColKind,
            meScope = \<lparr>UserID = wv_get_string obj ScopeKeyUserID, TenantID = wv_get_string obj ScopeKeyTenantID,
                       AgentID = wv_get_string obj ScopeKeyAgentID, Tags = wvDecodeTags (map_of obj ColScopeTags)\<rparr>,
            meMetadata = [], meExpiresAt = wv_get_time env obj ColExpiresAt, meScore = wv_certainty env obj,
            meCreatedAt = or_zero (wv_get_time env obj ColCreatedAt),
            meUpdatedAt = or_zero (wv_get_time env obj ColUpdatedAt)\<rparr>;
          raw = wv_get_string obj ColMetadata
      in if raw = [] then Inr entry
         else case mdUnmarshal (weCodec env) raw of
             Inl e \<Rightarrow> Inl (wrap_error ''unmarshal metadata: '' e)
           | Inr md \<Rightarrow> Inr (entry\<lparr>meMetadata := md\<rparr>))"

fun parse_items :: "'w WvEnv \<Rightarrow> string \<Rightarrow> int \<Rightarrow> goany list \<Rightarrow> goerr + MemoryEntry list" where
  "parse_items env textField now [] = Inr []"
| "parse_items env textField now (item # items) =
     (case item of
        VMap obj \<Rightarrow>
          (case parseEntry env textField obj of
             Inl e \<Rightarrow> Inl e
           | Inr entry \<Rightarrow>
               (case parse_items env textField now items of
                  Inl e \<Rightarrow> Inl e
                | Inr entries \<Rightarrow> Inr (if Expired now entry then entries else entry # entries)))
      | _ \<Rightarrow> parse_items env textField now items)"

definition parseEntries :: "'w WvEnv \<Rightarrow> WvMemory \<Rightarrow> int \<Rightarrow> graphqlResponse option \<Rightarrow> goerr + MemoryEntry list" where
  "parseEntries env m now result =
     (case result of
        None \<Rightarrow> Inr []
      | Some res \<Rightarrow>
          (if grData res = None then Inr []
           else case map_get (grData res) ''Get'' of
               Some (VMap got) \<Rightarrow>
                 (case map_of got (wvClass m) of
                    None \<Rightarrow> Inr []
                  | Some VNil \<Rightarrow> Inr []
                  | Some (VList items) \<Rightarrow> parse_items env (wvTextField m) now items
                  | Some _ \<Rightarrow> Inl (new_error ''invalid response: missing class data''))
             | _ \<Rightarrow> Inl (new_error ''invalid response: missing Get'')))"

definition wv_query :: "'w WvEnv \<Rightarrow> WvMemory \<Rightarrow> MemoryScope \<Rightarrow> string \<Rightarrow> LoadMemoryOption list \<Rightarrow> wvQuery" where
  "wv_query env m scope query opts =
     (let lo = load_options opts;
          limit = (if lmLimit lo \<le> 0 then wvLimit m else lmLimit lo);
          minScore = (if lmMinScore lo = 0 then wvScore m else lmMinScore lo);
          q = trim_space query
      in \<lparr>wqClass = wvClass m, wqLimit = limit,
          wqFields = [wvTextField m, ColKind, ScopeKeyUserID, ScopeKeyTenantID, ScopeKeyAgentID, ColScopeTags, ColMetadata,
                      ColExpiresAt, ColCreatedAt, ColUpdatedAt, ''_additional { id certainty }''],
          wqSortDesc = ColUpdatedAt,
          wqWhere = combineWhere [scopeWhere (weVisit env) scope, kindsWhere (lmKinds lo)],
          wqNear = (if q \<noteq> [] then Some (q, minScore) else None)\<rparr>)"

definition WvLoad :: "'w WvEnv \<Rightarrow> WvMemory \<Rightarrow> int \<Rightarrow> MemoryScope \<Rightarrow> string \<Rightarrow> LoadMemoryOption list \<Rightarrow> 'w
    \<Rightarrow> (goerr + MemoryEntry list) \<times> 'w" where
  "WvLoad env m now scope query opts w =
     (if \<not> wvConnected m then (Inl client_unset, w)
      else case wcGet (weClient env) (wv_query env m scope query opts) w of
        (Inl e, w1) \<Rightarrow> (Inl (wrap_error ''weaviate load memories: '' e), w1)
      | (Inr result, w1) \<Rightarrow>
          (case graphqlErrors result of
             Some e \<Rightarrow> (Inl (wrap_error ''weaviate load memories: '' e), w1)
           | None \<Rightarrow>
               (case parseEntries env m now result of
                  Inl e \<Rightarrow> (Inl e, w1)
                | Inr entries \<Rightarrow>
                    (let minScore = (if lmMinScore (load_options opts) = 0 then wvScore m else lmMinScore (load_options opts))
                     in (Inr (if minScore > 0 \<and> trim_space query \<noteq> [] then filter (\<lambda>e. meScore e \<ge> minScore) entries
                              else entries), w1)))))"

definition WvClear :: "'w WvEnv \<Rightarrow> WvMemory \<Rightarrow> MemoryScope \<Rightarrow> 'w \<Rightarrow> goerr option \<times> 'w" where
  "WvClear env m scope w =
     (if \<not> wvConnected m then (Some client_unset, w)
      else case scopeWhere (weVisit env) scope of
        None \<Rightarrow> (Some (new_error ''scope must include at least one non-empty field''), w)
      | Some filt \<Rightarrow>
          (case wcDelete (weClient env) (wvClass m) (wvTenant m) filt w of
             (Some e, w1) \<Rightarrow> (Some (wrap_error ''weaviate clear memories: '' e), w1)
           | (None, w1) \<Rightarrow> (None, w1)))"

end
