(* ===== verification/WeaviateFacts.thy ===== *)
theory WeaviateFacts
  imports WeaviateMemory PgFacts
begin

text \<open>
  The filters sent to Weaviate select what the scope asks for, where comparisons of text are exact (tokenization
  \<open>field\<close>); what an update that merges leaves of an earlier object; round trip of the tags.
\<close>

section \<open>What the filters mean\<close>

fun wv_holds :: "wv_props \<Rightarrow> whereFilter \<Rightarrow> bool" where
  "wv_holds props (WhereEqual k v) = (map_of props k = Some (PropText v))"
| "wv_holds props (WhereContainsAll k vs) = (case map_of props k of Some (PropTexts ts) \<Rightarrow> set vs \<subseteq> set ts | _ \<Rightarrow> False)"
| "wv_holds props (WhereContainsAny k vs) =
     (case map_of props k of Some (PropText v) \<Rightarrow> v \<in> set vs | Some (PropTexts ts) \<Rightarrow> set vs \<inter> set ts \<noteq> {} | _ \<Rightarrow> False)"
| "wv_holds props (WhereAnd ws) = list_all (wv_holds props) ws"

definition wv_where :: "wv_props \<Rightarrow> whereFilter option \<Rightarrow> bool" where
  "wv_where props w = (case w of None \<Rightarrow> True | Some f \<Rightarrow> wv_holds props f)"

lemma wv_where_operands [simp]: "wv_where props (combineWhereOperands ws) \<longleftrightarrow> list_all (wv_holds props) ws"
  by (auto simp: combineWhereOperands_def wv_where_def split: list.split)

lemma wv_where_combine [simp]: "wv_where props (combineWhere parts) \<longleftrightarrow> list_all (wv_where props) parts"
  unfolding combineWhere_def wv_where_operands
  by (induction parts) (auto simp: List.map_filter_simps wv_where_def split: option.split)

lemma wv_kindsWhere: "map_of props ColKind = Some (PropText k) \<Longrightarrow> wv_where props (kindsWhere kinds) \<longleftrightarrow> kindMatches k kinds"
  by (auto simp: kindsWhere_def wv_where_def kindMatches_iff split: list.split)

section \<open>The properties of a stored memory\<close>

text \<open>The field of the text has a name of its own.\<close>

definition text_field_ok :: "string \<Rightarrow> bool" where
  "text_field_ok f \<longleftrightarrow> f \<notin> {ColKind, ScopeKeyUserID, ScopeKeyTenantID, ScopeKeyAgentID, ColScopeTags, ColMetadata,
     ColExpiresAt, ColCreatedAt, ColUpdatedAt}"

lemma map_of_put_text: "map_of (put_text k v props) j = (if k = j \<and> v \<noteq> [] then Some (PropText v) else map_of props j)"
  by (auto simp: put_text_def update_conv')

lemmas column_names = ColKind_def ScopeKeyUserID_def ScopeKeyTenantID_def ScopeKeyAgentID_def ColScopeTags_def
  ColMetadata_def ColExpiresAt_def ColCreatedAt_def ColUpdatedAt_def

lemma buildProperties_lookup:
  assumes "buildProperties mc visit f scope r now setCreated = Inr props" "text_field_ok f"
  shows "map_of props f = Some (PropText (mrText r))" "map_of props ColKind = Some (PropText (mrKind r))"
    "map_of props ScopeKeyUserID = (if UserID scope = [] then None else Some (PropText (UserID scope)))"
    "map_of props ScopeKeyTenantID = (if TenantID scope = [] then None else Some (PropText (TenantID scope)))"
    "map_of props ScopeKeyAgentID = (if AgentID scope = [] then None else Some (PropText (AgentID scope)))"
    "map_of props ColScopeTags = (let ts = wvEncodeTags (visit (ScopeMetadata scope)) in if ts = [] then None else Some (PropTexts ts))"
    "map_of props ColExpiresAt = map_option PropTime (mrExpiresAt r)"
    "map_of props ColCreatedAt = (if setCreated then Some (PropTime now) else None)"
    "map_of props ColUpdatedAt = Some (PropTime now)"
    "map_of props ColMetadata = (if mrMetadata r = [] then None
       else case mdMarshal mc (mrMetadata r) of Inl _ \<Rightarrow> None | Inr raw \<Rightarrow> Some (PropText raw))"
proof -
  note [simp] = update_conv' map_of_put_text
  have f: "f \<noteq> ColKind" "f \<noteq> ScopeKeyUserID" "f \<noteq> ScopeKeyTenantID" "f \<noteq> ScopeKeyAgentID" "f \<noteq> ColScopeTags"
    "f \<noteq> ColMetadata" "f \<noteq> ColExpiresAt" "f \<noteq> ColCreatedAt" "f \<noteq> ColUpdatedAt"
    using assms(2) by (simp_all add: text_field_ok_def)
  have d: "distinct [ColKind, ScopeKeyUserID, ScopeKeyTenantID, ScopeKeyAgentID, ColScopeTags, ColMetadata, ColExpiresAt,
      ColCreatedAt, ColUpdatedAt]" by (simp add: column_names)
  have d2: "distinct (rev [ColKind, ScopeKeyUserID, ScopeKeyTenantID, ScopeKeyAgentID, ColScopeTags, ColMetadata, ColExpiresAt,
      ColCreatedAt, ColUpdatedAt])" using d by (simp only: distinct_rev)
  note [simp] = f f [symmetric] d [simplified] d2 [simplified]
  note g = assms(1) [unfolded buildProperties_def Let_def]
  show "map_of props f = Some (PropText (mrText r))"
    using g by (auto split: if_splits sum.splits option.splits)
  show "map_of props ColKind = Some (PropText (mrKind r))"
    using g by (auto split: if_splits sum.splits option.splits)
  show "map_of props ScopeKeyUserID = (if UserID scope = [] then None else Some (PropText (UserID scope)))"
    using g by (auto split: if_splits sum.splits option.splits)
  show "map_of props ScopeKeyTenantID = (if TenantID scope = [] then None else Some (PropText (TenantID scope)))"
    using g by (auto split: if_splits sum.splits option.splits)
  show "map_of props ScopeKeyAgentID = (if AgentID scope = [] then None else Some (PropText (AgentID scope)))"
    using g by (auto split: if_splits sum.splits option.splits)
  show "map_of props ColScopeTags = (let ts = wvEncodeTags (visit (ScopeMetadata scope)) in if ts = [] then None else Some (PropTexts ts))"
    using g by (auto simp: Let_def split: if_splits sum.splits option.splits)
  show "map_of props ColExpiresAt = map_option PropTime (mrExpiresAt r)"
    using g by (auto split: if_splits sum.splits option.splits)
  show "map_of props ColCreatedAt = (if setCreated then Some (PropTime now) else None)"
    using g by (auto split: if_splits sum.splits option.splits)
  show "map_of props ColUpdatedAt = Some (PropTime now)"
    using g by (auto split: if_splits sum.splits option.splits)
  show "map_of props ColMetadata = (if mrMetadata r = [] then None
       else case mdMarshal mc (mrMetadata r) of Inl _ \<Rightarrow> None | Inr raw \<Rightarrow> Some (PropText raw))"
    using g by (auto split: if_splits sum.splits option.splits)
qed

lemma wvEncodeTags_eq: "wvEncodeTags meta = encodeScopeTags meta"
  by (induction meta) (auto simp: wvEncodeTags_def encodeScopeTags_def List.map_filter_simps)

text \<open>A filter selects an object exactly if the object's scope matches the scope of the filter.\<close>

lemma wv_scope_exact:
  assumes built: "buildProperties mc visit f stored r now setCreated = Inr props" "text_field_ok f"
    and perm: "\<And>ms. mset (visit ms) = mset ms" "\<And>ms. mset (visit' ms) = mset ms" and ok: "tags_ok stored" "tags_ok filt"
  shows "wv_where props (scopeWhere visit' filt) \<longleftrightarrow> scopeMatches stored filt"
proof -
  note look = buildProperties_lookup [OF built]
  have set_visit: "set (visit (ScopeMetadata stored)) = set (ScopeMetadata stored)"
    "set (visit' (ScopeMetadata filt)) = set (ScopeMetadata filt)"
    using perm by (metis set_mset_mset)+
  have tag: "(case map_of props ColScopeTags of Some (PropTexts ts) \<Rightarrow> scopeTagToken k v \<in> set ts | _ \<Rightarrow> False)
      \<longleftrightarrow> map_of (ScopeMetadata stored) k = Some v" if k: "tag_key k" "\<not> reserved_key k" for k v
  proof -
    have "(case map_of props ColScopeTags of Some (PropTexts ts) \<Rightarrow> scopeTagToken k v \<in> set ts | _ \<Rightarrow> False)
        \<longleftrightarrow> scopeTagToken k v \<in> set (encodeScopeTags (visit (ScopeMetadata stored)))"
      by (auto simp: look(6) Let_def wvEncodeTags_eq)
    also have "\<dots> \<longleftrightarrow> (k, v) \<in> set (ScopeMetadata stored)"
    proof
      assume "scopeTagToken k v \<in> set (encodeScopeTags (visit (ScopeMetadata stored)))"
      then obtain k' v' where kv: "(k', v') \<in> set (ScopeMetadata stored)" "\<not> reserved_key k'" "scopeTagToken k v = scopeTagToken k' v'"
        by (auto simp: encodeScopeTags_def set_visit)
      with meta_pairs(2) [OF ok(1) kv(1,2)] k(1) show "(k, v) \<in> set (ScopeMetadata stored)"
        by (auto simp: tag_key_def dest: scopeTagToken_inject [THEN iffD1, rotated 2])
    qed (use k(2) in \<open>force simp: encodeScopeTags_def set_visit\<close>)
    also have "\<dots> \<longleftrightarrow> map_of (ScopeMetadata stored) k = Some v" by (rule meta_pairs(1) [OF ok(1)])
    finally show ?thesis .
  qed
  have operand: "wv_holds props (scope_operand (k, v)) \<longleftrightarrow> map_of (ScopeMetadata stored) k = Some v"
    if kv: "(k, v) \<in> set (ScopeMetadata filt)" for k v
  proof (cases "reserved_key k")
    case True
    then show ?thesis using look(3-5) by (auto simp: scope_operand_def reserved_key_def ScopeMetadata_lookup)
  next
    case False
    then have "wv_holds props (scope_operand (k, v)) \<longleftrightarrow>
        (case map_of props ColScopeTags of Some (PropTexts ts) \<Rightarrow> scopeTagToken k v \<in> set ts | _ \<Rightarrow> False)"
      by (simp add: scope_operand_def split: option.split wvProp.split)
    with tag [OF meta_pairs(2) [OF ok(2) kv False] False] show ?thesis by simp
  qed
  show ?thesis
  proof (cases "ScopeMetadata filt = []")
    case True
    then show ?thesis by (simp add: scopeWhere_def wv_where_def scopeMatches_empty)
  next
    case False
    then have "wv_where props (scopeWhere visit' filt) \<longleftrightarrow> (\<forall>kv \<in> set (ScopeMetadata filt). wv_holds props (scope_operand kv))"
      by (simp add: scopeWhere_def list_all_iff set_visit)
    then show ?thesis using operand unfolding scopeMatches_def list_all_iff by auto
  qed
qed

text \<open>What an update that merges the properties of a record leaves of the object before: an expiry, an owner and
  tags the record does not have stay.\<close>

definition merge_props :: "wv_props \<Rightarrow> wv_props \<Rightarrow> wv_props" where
  "merge_props old new = fold (\<lambda>(k, v). AList.update k v) new old"

lemma map_of_merge: "distinct (map fst new) \<Longrightarrow>
   map_of (merge_props old new) k = (case map_of new k of None \<Rightarrow> map_of old k | Some v \<Rightarrow> Some v)"
proof (induction new arbitrary: old)
  case (Cons kv new)
  obtain j v where kv: "kv = (j, v)" by (cases kv)
  have "map_of new j = None" using Cons.prems kv by (simp add: map_of_eq_None_iff)
  then show ?case using Cons kv by (auto simp: merge_props_def update_conv' split: option.splits)
qed (simp add: merge_props_def)

lemma distinct_put_text: "distinct (map fst props) \<Longrightarrow> distinct (map fst (put_text k v props))"
  by (simp add: put_text_def distinct_update)

lemma distinct_buildProperties:
  "buildProperties mc visit f scope r now setCreated = Inr props \<Longrightarrow> distinct (map fst props)"
  unfolding buildProperties_def Let_def
  by (auto simp: distinct_put_text distinct_update simp del: AList.update.simps split: if_splits sum.splits option.splits)

lemma merge_keeps_old:
  assumes "buildProperties mc visit f scope r now False = Inr props" "text_field_ok f"
  shows "mrExpiresAt r = None \<Longrightarrow> map_of (merge_props old props) ColExpiresAt = map_of old ColExpiresAt"
    and "AgentID scope = [] \<Longrightarrow> map_of (merge_props old props) ScopeKeyAgentID = map_of old ScopeKeyAgentID"
    and "encodeScopeTags (visit (ScopeMetadata scope)) = [] \<Longrightarrow> map_of (merge_props old props) ColScopeTags = map_of old ColScopeTags"
  using buildProperties_lookup [OF assms] distinct_buildProperties [OF assms(1)]
  by (simp_all add: map_of_merge wvEncodeTags_eq)

text \<open>The query asks for no tenant, whatever the configured one; the limit counts expired entries.\<close>

lemma query_ignores_tenant: "wv_query env (m\<lparr>wvTenant := t\<rparr>) = wv_query env m"
  by (simp add: wv_query_def fun_eq_iff cong: if_cong)

lemma parse_items_not_expired: "parse_items env f now items = Inr es \<Longrightarrow> e \<in> set es \<Longrightarrow> \<not> Expired now e"
proof (induction items arbitrary: es)
  case (Cons item items)
  then show ?case by (cases item) (auto split: sum.splits if_splits)
qed simp

lemma parse_items_length: "parse_items env f now items = Inr es \<Longrightarrow> length es \<le> length items"
proof (induction items arbitrary: es)
  case (Cons item items)
  show ?case using Cons.prems Cons.IH by (cases item) (fastforce split: sum.splits if_splits)+
qed simp

lemma wvDecodeTags_tokens:
  "plain_tags kvs \<Longrightarrow> wvDecodeTags (Some (VList (map (\<lambda>(k, v). VString (scopeTagToken k v)) kvs))) = kvs"
proof -
  have "fold decode_item (map (\<lambda>(k, v). VString (scopeTagToken k v)) kvs) acc =
      fold decode_tag (map (\<lambda>(k, v). scopeTagToken k v) kvs) acc" for acc
    by (induction kvs arbitrary: acc) (auto simp: decode_item_def)
  then show "plain_tags kvs \<Longrightarrow> ?thesis" using decode_tokens [of "[]" kvs] by (simp add: wvDecodeTags_def)
qed

end
