(* ===== verification/VectorRetrievers.thy ===== *)
theory VectorRetrievers
  imports WeaviateMemory RuntimeTypes
begin

text \<open>
  The retrievers over PostgreSQL with pgvector (\<open>pkg/retriever/pgvector\<close>) and over Weaviate
  (\<open>pkg/retriever/weaviate\<close>).  The database, the embedding function and the client are parameters; log lines
  are left out.
\<close>

section \<open>Defaults (\<open>internal/types/retriever.go\<close>)\<close>

definition DefaultTopK :: int where "DefaultTopK = 5"
definition DefaultMinScore :: rat where "DefaultMinScore = 75 / 100"
definition DefaultContentField :: string where "DefaultContentField = ''content''"
definition DefaultSourceField :: string where "DefaultSourceField = ''source''"

definition name_required :: goerr where "name_required = new_error ''name is required and must be non-empty''"

section \<open>Over PostgreSQL\<close>

record PgRetriever =
  prName :: string
  prConnected :: bool
  prTable :: string
  prContentCol :: string
  prSourceCol :: string
  prEmbeddingCol :: string
  prTopK :: int
  prMinScore :: rat
  prDsn :: string

datatype PgRetrieverOption = PrPool | PrDSN string | PrTable string | PrContentCol string | PrSourceCol string
  | PrEmbeddingCol string | PrTopK int | PrMinScore rat

fun pr_option :: "PgRetrieverOption \<Rightarrow> PgRetriever \<Rightarrow> PgRetriever" where
  "pr_option PrPool r = r\<lparr>prConnected := True\<rparr>"
| "pr_option (PrDSN dsn) r = r\<lparr>prDsn := dsn\<rparr>"
| "pr_option (PrTable table) r = r\<lparr>prTable := table\<rparr>"
| "pr_option (PrContentCol col) r = r\<lparr>prContentCol := col\<rparr>"
| "pr_option (PrSourceCol col) r = r\<lparr>prSourceCol := col\<rparr>"
| "pr_option (PrEmbeddingCol col) r = r\<lparr>prEmbeddingCol := col\<rparr>"
| "pr_option (PrTopK k) r = r\<lparr>prTopK := k\<rparr>"
| "pr_option (PrMinScore s) r = r\<lparr>prMinScore := s\<rparr>"

definition pr_defaults :: "PgRetriever \<Rightarrow> PgRetriever" where
  "pr_defaults r =
     r\<lparr>prContentCol := (if prContentCol r = [] then DefaultContentField else prContentCol r),
       prSourceCol := (if prSourceCol r = [] then DefaultSourceField else prSourceCol r),
       prEmbeddingCol := (if prEmbeddingCol r = [] then ''embedding'' else prEmbeddingCol r),
       prTopK := (if prTopK r = 0 then DefaultTopK else prTopK r),
       prMinScore := (if prMinScore r = 0 then DefaultMinScore else prMinScore r)\<rparr>"

definition NewPgRetriever :: "(string \<Rightarrow> goerr option) \<Rightarrow> (string \<Rightarrow> goerr option) \<Rightarrow> string \<Rightarrow> bool \<Rightarrow>
    PgRetrieverOption list \<Rightarrow> goerr + PgRetriever" where
  "NewPgRetriever parse connect name embed_given opts =
     (if trim_space name = [] then Inl name_required
      else if \<not> embed_given then Inl (new_error ''embed func is required'')
      else
        (let r0 = fold pr_option opts
               \<lparr>prName = trim_space name, prConnected = False, prTable = [], prContentCol = [], prSourceCol = [],
                prEmbeddingCol = [], prTopK = 0, prMinScore = 0, prDsn = []\<rparr>
         in if prTable r0 = [] then Inl (new_error ''table is required; use WithTable'')
            else
              (let r5 = pr_defaults r0
               in if prConnected r5 then Inr r5
                  else if prDsn r5 = [] then
                    Inl (new_error ''DSN is required when not using WithPool; use WithDSN or WithPool'')
                  else (case parse (prDsn r5) of
                      Some e \<Rightarrow> Inl (wrap_error ''parse DSN: '' e)
                    | None \<Rightarrow> (case connect (prDsn r5) of
                        Some e \<Rightarrow> Inl (wrap_error ''create pgx pool: '' e)
                      | None \<Rightarrow> Inr (r5\<lparr>prConnected := True\<rparr>))))))"

text \<open>The text of the search; its lines after the first follow a newline, two tabs and a space.\<close>

definition search_sql :: "PgRetriever \<Rightarrow> string" where
  "search_sql r =
     (let score = ''1 - ('' @ prEmbeddingCol r @ '' <=> $1)''
      in ''SELECT '' @ join_sql '', '' [prContentCol r, prSourceCol r, score @ '' AS score'']
         @ sql_lines [(2, '' FROM '' @ prTable r), (2, '' WHERE '' @ score @ '' >= $2''),
                      (2, '' ORDER BY '' @ prEmbeddingCol r @ '' <=> $1''), (2, '' LIMIT $3'')])"

fun scan_documents :: "(goerr + string \<times> string \<times> rat) list \<Rightarrow> goerr + document list" where
  "scan_documents [] = Inr []"
| "scan_documents (Inl e # rs) = Inl (wrap_error ''scan row: '' e)"
| "scan_documents (Inr (content, source, score) # rs) =
     (case scan_documents rs of Inl e \<Rightarrow> Inl e | Inr docs \<Rightarrow> Inr (Document content source score None # docs))"

text \<open>The error the iteration ends with makes the search fail, whatever was scanned.\<close>

definition scanRows :: "(string \<times> string \<times> rat) pgRows \<Rightarrow> goerr + document list" where
  "scanRows rows =
     (case scan_documents (rsRows rows) of
        Inl e \<Rightarrow> Inl e
      | Inr docs \<Rightarrow> (case rsErr rows of Some e \<Rightarrow> Inl e | None \<Rightarrow> Inr docs))"

definition PgSearch :: "(string \<Rightarrow> 'w \<Rightarrow> (goerr + rat list) \<times> 'w) \<Rightarrow>
    (string \<Rightarrow> pg_arg list \<Rightarrow> 'w \<Rightarrow> (goerr + (string \<times> string \<times> rat) pgRows) \<times> 'w) \<Rightarrow> PgRetriever \<Rightarrow> string \<Rightarrow> 'w
    \<Rightarrow> (goerr + document list) \<times> 'w" where
  "PgSearch emb query r q w =
     (case emb q w of
        (Inl e, w1) \<Rightarrow> (Inl (wrap_error ''embed query: '' e), w1)
      | (Inr vec, w1) \<Rightarrow>
          (case query (search_sql r) [ArgVector vec, ArgFloat (prMinScore r), ArgInt (prTopK r)] w1 of
             (Inl e, w2) \<Rightarrow> (Inl (wrap_error ''pgvector query: '' e), w2)
           | (Inr rows, w2) \<Rightarrow> (scanRows rows, w2)))"

section \<open>Over Weaviate\<close>

record WvRetriever =
  wrName :: string
  wrConnected :: bool
  wrClass :: string
  wrContentField :: string
  wrSourceField :: string
  wrTopK :: int
  wrMinScore :: rat
  wrHost :: string
  wrScheme :: string

datatype WvRetrieverOption = WrClientGiven | WrHost string | WrScheme string | WrContentField string
  | WrSourceField string | WrClassName string | WrTopK int | WrMinScore rat

fun wr_option :: "WvRetrieverOption \<Rightarrow> WvRetriever \<Rightarrow> WvRetriever" where
  "wr_option WrClientGiven r = r\<lparr>wrConnected := True\<rparr>"
| "wr_option (WrHost host) r = r\<lparr>wrHost := host\<rparr>"
| "wr_option (WrScheme scheme) r = r\<lparr>wrScheme := scheme\<rparr>"
| "wr_option (WrContentField f) r = r\<lparr>wrContentField := f\<rparr>"
| "wr_option (WrSourceField f) r = r\<lparr>wrSourceField := f\<rparr>"
| "wr_option (WrClassName className) r = r\<lparr>wrClass := className\<rparr>"
| "wr_option (WrTopK k) r = r\<lparr>wrTopK := k\<rparr>"
| "wr_option (WrMinScore s) r = r\<lparr>wrMinScore := s\<rparr>"

definition wr_defaults :: "WvRetriever \<Rightarrow> WvRetriever" where
  "wr_defaults r =
     r\<lparr>wrContentField := (if wrContentField r = [] then DefaultContentField else wrContentField r),
       wrSourceField := (if wrSourceField r = [] then DefaultSourceField else wrSourceField r),
       wrTopK := (if wrTopK r = 0 then DefaultTopK else wrTopK r),
       wrMinScore := (if wrMinScore r = 0 then DefaultMinScore else wrMinScore r)\<rparr>"

definition NewWvRetriever :: "(string \<Rightarrow> string \<Rightarrow> goerr option) \<Rightarrow> string \<Rightarrow> WvRetrieverOption list \<Rightarrow> goerr + WvRetriever" where
  "NewWvRetriever connect name opts =
     (if trim_space name = [] then Inl name_required
      else
        (let r0 = fold wr_option opts
               \<lparr>wrName = trim_space name, wrConnected = False, wrClass = [], wrContentField = [], wrSourceField = [],
                wrTopK = 0, wrMinScore = 0, wrHost = [], wrScheme = []\<rparr>
         in if wrClass r0 = [] then Inl (new_error ''className is required'')
            else
              (let r4 = wr_defaults r0
               in if wrConnected r4 then Inr r4
                  else if wrHost r4 = [] then Inl (new_error ''host is required when not using WithClient'')
                  else
                    (let r5 = (if wrScheme r4 = [] then r4\<lparr>wrScheme := DefaultScheme\<rparr> else r4)
                     in case connect (wrScheme r5) (wrHost r5) of
                          Some e \<Rightarrow> Inl (wrap_error ''create weaviate client: '' e)
                        | None \<Rightarrow> Inr (r5\<lparr>wrConnected := True\<rparr>)))))"

definition item_document :: "(string \<Rightarrow> rat) \<Rightarrow> WvRetriever \<Rightarrow> (string \<times> goany) list \<Rightarrow> document" where
  "item_document number r obj =
     Document (wv_get_string obj (wrContentField r)) (wv_get_string obj (wrSourceField r))
       (case map_of obj ''_additional'' of
          Some (VMap additional) \<Rightarrow> (case map_of additional ''certainty'' of Some (VNumber n) \<Rightarrow> number n | _ \<Rightarrow> 0)
        | _ \<Rightarrow> 0)
       (Some obj)"

fun item_documents :: "(string \<Rightarrow> rat) \<Rightarrow> WvRetriever \<Rightarrow> goany list \<Rightarrow> document list" where
  "item_documents number r [] = []"
| "item_documents number r (item # items) =
     (case item of VMap obj \<Rightarrow> item_document number r obj # item_documents number r items
      | _ \<Rightarrow> item_documents number r items)"

definition parseDocuments :: "(string \<Rightarrow> rat) \<Rightarrow> WvRetriever \<Rightarrow> graphqlResponse option \<Rightarrow> goerr + document list" where
  "parseDocuments number r result =
     (case result of
        None \<Rightarrow> Inr []
      | Some res \<Rightarrow>
          (if grData res = None then Inr []
           else case map_get (grData res) ''Get'' of
               Some (VMap got) \<Rightarrow>
                 (case map_of got (wrClass r) of
                    Some (VList items) \<Rightarrow> Inr (item_documents number r items)
                  | _ \<Rightarrow> Inl (new_error ''invalid response: missing class data''))
             | _ \<Rightarrow> Inl (new_error ''invalid response: missing Get'')))"

record wvSearchQuery =
  wsClass :: string
  wsConcept :: string
  wsCertainty :: rat
  wsLimit :: int
  wsFields :: "string list"

definition WvSearch :: "(string \<Rightarrow> rat) \<Rightarrow> (wvSearchQuery \<Rightarrow> 'w \<Rightarrow> (goerr + graphqlResponse option) \<times> 'w) \<Rightarrow> WvRetriever \<Rightarrow>
    string \<Rightarrow> 'w \<Rightarrow> (goerr + document list) \<times> 'w" where
  "WvSearch number exec r q w =
     (if \<not> wrConnected r then (Inl client_unset, w)
      else case exec \<lparr>wsClass = wrClass r, wsConcept = q, wsCertainty = wrMinScore r, wsLimit = wrTopK r,
                      wsFields = [wrContentField r, wrSourceField r, ''_additional { certainty }'']\<rparr> w of
        (Inl e, w1) \<Rightarrow> (Inl e, w1)
      | (Inr result, w1) \<Rightarrow> (parseDocuments number r result, w1))"

section \<open>As retrievers of the runtime\<close>

definition pg_retriever :: "(string \<Rightarrow> 'w \<Rightarrow> (goerr + rat list) \<times> 'w) \<Rightarrow>
    (string \<Rightarrow> pg_arg list \<Rightarrow> 'w \<Rightarrow> (goerr + (string \<times> string \<times> rat) pgRows) \<times> 'w) \<Rightarrow> PgRetriever \<Rightarrow> 'w Retriever" where
  "pg_retriever emb query r = \<lparr>rName = prName r, rSearch = PgSearch emb query r\<rparr>"

definition wv_retriever :: "(string \<Rightarrow> rat) \<Rightarrow> (wvSearchQuery \<Rightarrow> 'w \<Rightarrow> (goerr + graphqlResponse option) \<times> 'w) \<Rightarrow> WvRetriever \<Rightarrow>
    'w Retriever" where
  "wv_retriever number exec r = \<lparr>rName = wrName r, rSearch = WvSearch number exec r\<rparr>"

section \<open>Lemmas\<close>

lemma fold_pr_option_name: "prName (fold pr_option opts r) = prName r"
proof (induction opts arbitrary: r)
  case (Cons opt opts)
  then show ?case by (cases opt) simp_all
qed simp

lemma fold_wr_option_name: "wrName (fold wr_option opts r) = wrName r"
proof (induction opts arbitrary: r)
  case (Cons opt opts)
  then show ?case by (cases opt) simp_all
qed simp

text \<open>A retriever that was built has a trimmed, non-empty name, is connected and asks for some documents.\<close>

lemma pr_defaults_fields [simp]:
  "prName (pr_defaults r) = prName r" "prConnected (pr_defaults r) = prConnected r" "prTable (pr_defaults r) = prTable r"
  "prDsn (pr_defaults r) = prDsn r" "prTopK (pr_defaults r) \<noteq> 0" "prMinScore (pr_defaults r) \<noteq> 0"
  by (simp_all add: pr_defaults_def DefaultTopK_def DefaultMinScore_def)

lemma wr_defaults_fields [simp]:
  "wrName (wr_defaults r) = wrName r" "wrConnected (wr_defaults r) = wrConnected r" "wrClass (wr_defaults r) = wrClass r"
  "wrHost (wr_defaults r) = wrHost r" "wrTopK (wr_defaults r) \<noteq> 0" "wrMinScore (wr_defaults r) \<noteq> 0"
  by (simp_all add: wr_defaults_def DefaultTopK_def DefaultMinScore_def)

lemma NewPgRetriever_ok:
  assumes "NewPgRetriever parse connect name embed_given opts = Inr r"
  shows "prName r = trim_space name \<and> prName r \<noteq> [] \<and> prConnected r \<and> prTable r \<noteq> [] \<and> prTopK r \<noteq> 0 \<and> prMinScore r \<noteq> 0"
  using assms unfolding NewPgRetriever_def Let_def
  by (auto simp: fold_pr_option_name split: if_split_asm option.split_asm)

lemma NewWvRetriever_ok:
  assumes "NewWvRetriever connect name opts = Inr r"
  shows "wrName r = trim_space name \<and> wrName r \<noteq> [] \<and> wrConnected r \<and> wrClass r \<noteq> [] \<and> wrTopK r \<noteq> 0 \<and> wrMinScore r \<noteq> 0"
  using assms unfolding NewWvRetriever_def Let_def
  by (auto simp: fold_wr_option_name split: if_split_asm option.split_asm)

text \<open>Each row becomes one document, in order, or the search fails.\<close>

lemma scan_documents_Inr:
  "scan_documents rs = Inr docs \<Longrightarrow> rs = map (\<lambda>d. Inr (docContent d, docSource d, docScore d)) docs"
  by (induction rs arbitrary: docs rule: scan_documents.induct) (auto split: sum.splits)

text \<open>A response without data is no documents, even when it lists errors.\<close>

lemma errors_unseen: "grData res = None \<Longrightarrow> parseDocuments number r (Some res) = Inr []"
  by (simp add: parseDocuments_def)

lemma item_documents_filter:
  "item_documents number r items = List.map_filter (\<lambda>i. case i of VMap obj \<Rightarrow> Some (item_document number r obj) | _ \<Rightarrow> None) items"
  by (induction items) (auto simp: List.map_filter_simps split: goany.split)

end
