(* ===== verification/MemoryProps.thy ===== *)
theory MemoryProps
  imports PgFacts WeaviateFacts VectorRetrievers
begin

text \<open>Properties of the memory backends, with concrete instances.\<close>

section \<open>A table in memory\<close>












section \<open>Isolation\<close>








section \<open>The same scope to every backend\<close>



section \<open>Further facts\<close>

text \<open>What was stored is recalled by a listing of a scope it matches, unless the limit was used up by memories
  stored no earlier.\<close>

theorem stored_memory_listed:
  assumes "sql_laws (peDB env) tbl" "\<And>ms. mset (peVisit env ms) = mset ms"
    and "\<And>text w. tbl (snd (peEmbed env text w)) = tbl w" "0 < pgDefaultLimit m"
    and "wf_table (peCodec env) (tbl w)" "tags_ok stored" "tags_ok scope" "meta_storable (peCodec env) (mrMetadata r)"
    and "PgStore env m clk fresh stored r opts w = (Inr i, w1)" "PgLoad env m later scope q lopts w1 = (Inr es, w2)"
    and "trim_space q = []" "scopeMatches stored scope" "kindMatches (mrKind r) (lmKinds (load_options lopts))"
    and "case mrExpiresAt r of None \<Rightarrow> True | Some t \<Rightarrow> later < t"
  shows "i \<in> meID ` set es \<or> es \<noteq> [] \<and> (\<forall>e \<in> set es. clk \<le> meUpdatedAt e)"
  by (rule memory_store.stored_is_recalled [OF pg_memory_store [OF assms(1-4)] assms(5-14)])

text \<open>Two tags whose tokens are the same: a memory stored under one is selected by the scope of the other, which the
  store in memory keeps apart.\<close>

lemma tags_confused:
  "encodeScopeTags (ScopeMetadata \<lparr>UserID = [], TenantID = [], AgentID = [], Tags = [(''a=b'', ''c'')]\<rparr>)
     = encodeScopeTags (ScopeMetadata \<lparr>UserID = [], TenantID = [], AgentID = [], Tags = [(''a'', ''b=c'')]\<rparr>)"
  "\<not> scopeMatches \<lparr>UserID = [], TenantID = [], AgentID = [], Tags = [(''a=b'', ''c'')]\<rparr>
       \<lparr>UserID = [], TenantID = [], AgentID = [], Tags = [(''a'', ''b=c'')]\<rparr>"
  by code_simp+

text \<open>A clearing of nothing: an error over PostgreSQL and Weaviate, done without a word in memory.\<close>

lemma empty_clear:
  assumes "ScopeMetadata scope = []"
  shows "\<exists>e. PgClear env m clk scope w = (Some e, w)" "\<exists>e. WvClear wenv wm scope v = (Some e, v)"
    "scopeIsEmpty scope \<Longrightarrow> InmemClearMemories scope records = (None, records)"
  using assms by (simp_all add: PgClear_def WvClear_def scopeWhere_def InmemClearMemories_def)

end
