(* ===== verification/EmailDigest.thy ===== *)
theory EmailDigest
  imports AgentTools "HOL-Library.Multiset"
begin

text \<open>
  The email assistant (\<open>projects/assistant-email-go\<close>): the rule-based classifier, the rendered summary, the
  thread store over SQLite, the digest pipeline with its Temporal workflow and activities, the \<open>gmcli\<close> client
  and the tools over it, and the settings.  Subprocesses, the database, the clock, the environment and the agent
  are parameters acting on a world \<open>'w\<close>; strings are bytes, lower case is of ASCII letters.
\<close>

section \<open>Emails (\<open>domain/email.go\<close>)\<close>

definition PriorityUrgent :: string where "PriorityUrgent = ''URGENT''"
definition PriorityImportant :: string where "PriorityImportant = ''IMPORTANT''"
definition PriorityLow :: string where "PriorityLow = ''LOW''"

record Email =
  emID :: string
  emDate :: string
  emSender :: string
  emSubject :: string
  emLabels :: string
  emPriority :: string

definition WithPriority :: "Email \<Rightarrow> string \<Rightarrow> Email" where
  "WithPriority e p = e\<lparr>emPriority := p\<rparr>"

section \<open>Classifier (\<open>classify/urgency.go\<close>)\<close>

definition defaultUrgentKeywords :: "string list" where
  "defaultUrgentKeywords = [''urgent'', ''asap'', ''immediately'', ''today'', ''deadline'', ''action required'',
     ''security alert'', ''password'', ''verify'', ''suspended'', ''pilnie'', ''natychmiast'']"

definition promotionalLabels :: "string list" where
  "promotionalLabels = [''CATEGORY_PROMOTIONS'', ''CATEGORY_SOCIAL'', ''CATEGORY_FORUMS'', ''CATEGORY_UPDATES'']"

record EmailRules =
  BossSenders :: "string list"
  FamilySenders :: "string list"
  ClientSenders :: "string list"
  UrgentKeywords :: "string list option"

definition urgentKeywords :: "EmailRules \<Rightarrow> string list" where
  "urgentKeywords r = (case UrgentKeywords r of None \<Rightarrow> defaultUrgentKeywords | Some ks \<Rightarrow> ks)"

definition matchesAny :: "string \<Rightarrow> string list \<Rightarrow> bool" where
  "matchesAny s patterns \<longleftrightarrow> list_ex (\<lambda>p0. let p = to_lower (trim_space p0) in p \<noteq> [] \<and> str_contains s p) patterns"

definition containsAny :: "string \<Rightarrow> string list \<Rightarrow> bool" where
  "containsAny text needles \<longleftrightarrow> list_ex (\<lambda>n. n \<noteq> [] \<and> str_contains text n) needles"

text \<open>\<open>strings.Split\<close> at a byte.\<close>

fun split_at :: "char \<Rightarrow> string \<Rightarrow> string list" where
  "split_at c [] = [[]]"
| "split_at c (x # s) =
     (if x = c then [] # split_at c s
      else case split_at c s of [] \<Rightarrow> [[x]] | p # ps \<Rightarrow> (x # p) # ps)"

text \<open>The set of labels, as a list.\<close>

definition splitLabels :: "string \<Rightarrow> string list" where
  "splitLabels raw = filter (\<lambda>l. l \<noteq> []) (map trim_space (split_at (CHR '','') raw))"

definition Classify :: "EmailRules \<Rightarrow> Email \<Rightarrow> string" where
  "Classify rules e =
     (let sender = to_lower (emSender e); subject = to_lower (emSubject e); labels = splitLabels (emLabels e)
      in if matchesAny sender (BossSenders rules) \<or> matchesAny sender (FamilySenders rules) then PriorityUrgent
         else if containsAny subject (urgentKeywords rules) then PriorityUrgent
         else if matchesAny sender (ClientSenders rules) then PriorityImportant
         else if list_ex (\<lambda>l. l \<in> set promotionalLabels) labels then PriorityLow
         else if ''INBOX'' \<in> set labels \<and> ''IMPORTANT'' \<in> set labels then PriorityImportant
         else PriorityLow)"

definition ClassifyAll :: "EmailRules \<Rightarrow> Email list \<Rightarrow> Email list" where
  "ClassifyAll rules emails = map (\<lambda>e. WithPriority e (Classify rules e)) emails"

section \<open>Summary (\<open>notify/formatter.go\<close>)\<close>

definition defaultMaxItemsPerSection :: int where "defaultMaxItemsPerSection = 5"

text \<open>The headers begin with an emoji of four, three and four bytes.\<close>

definition digest_sections :: "(string \<times> string) list" where
  "digest_sections =
     [(PriorityUrgent, [CHR 0xF0, CHR 0x9F, CHR 0x9A, CHR 0xA8] @ '' URGENT''),
      (PriorityImportant, [CHR 0xE2, CHR 0xAD, CHR 0x90] @ '' IMPORTANT''),
      (PriorityLow, [CHR 0xF0, CHR 0x9F, CHR 0x93, CHR 0x8B] @ '' LOW'')]"

record DigestSummary =
  dsTotal :: nat
  dsByPriority :: "(string \<times> Email list) list"

definition bucket :: "DigestSummary \<Rightarrow> string \<Rightarrow> Email list" where
  "bucket s p = (case map_of (dsByPriority s) p of None \<Rightarrow> [] | Some es \<Rightarrow> es)"

definition UrgentCount :: "DigestSummary \<Rightarrow> nat" where
  "UrgentCount s = length (bucket s PriorityUrgent)"

definition HasUrgent :: "DigestSummary \<Rightarrow> bool" where
  "HasUrgent s \<longleftrightarrow> UrgentCount s > 0"

definition maxItems :: "int \<Rightarrow> nat" where
  "maxItems perSection = nat (if perSection > 0 then perSection else defaultMaxItemsPerSection)"

definition priority_or_low :: "Email \<Rightarrow> string" where
  "priority_or_low e = (if emPriority e = [] then PriorityLow else emPriority e)"

definition add_to_bucket :: "Email \<Rightarrow> (string \<times> Email list) list \<Rightarrow> (string \<times> Email list) list" where
  "add_to_bucket e buckets =
     (let p = priority_or_low e
      in AList.update p ((case map_of buckets p of None \<Rightarrow> [] | Some es \<Rightarrow> es) @ [e]) buckets)"

definition Summarize :: "Email list \<Rightarrow> DigestSummary" where
  "Summarize emails =
     \<lparr>dsTotal = length emails,
      dsByPriority = fold add_to_bucket emails [(PriorityUrgent, []), (PriorityImportant, []), (PriorityLow, [])]\<rparr>"

definition dash :: string where "dash = '' '' @ [CHR 0xE2, CHR 0x80, CHR 0x94] @ '' ''"

definition email_line :: "Email \<Rightarrow> string" where
  "email_line e = ''- **'' @ emSubject e @ ''**'' @ dash @ emSender e @ '' ('' @ emDate e @ '')'' @ [CHR 0x0A]"

definition section_text :: "nat \<Rightarrow> string \<Rightarrow> Email list \<Rightarrow> string" where
  "section_text most header es =
     (if es = [] then []
      else ''## '' @ header @ '' ('' @ nat_to_str (length es) @ '')'' @ [CHR 0x0A]
        @ concat (map email_line (if length es > most then take most es else es))
        @ (if length es > most then
             ''- '' @ [CHR 0xE2, CHR 0x80, CHR 0xA6] @ ''and '' @ nat_to_str (length es - most) @ '' more'' @ [CHR 0x0A]
           else [])
        @ [CHR 0x0A])"

definition trim_newlines :: "string \<Rightarrow> string" where
  "trim_newlines s = rev (dropWhile (\<lambda>c. c = CHR 0x0A) (rev s))"

definition RenderSummary :: "int \<Rightarrow> DigestSummary \<Rightarrow> string" where
  "RenderSummary perSection s =
     trim_newlines
       (''# Email Summary'' @ dash @ nat_to_str (dsTotal s) @ '' emails ('' @ nat_to_str (UrgentCount s) @ '' urgent)''
        @ [CHR 0x0A, CHR 0x0A]
        @ concat (map (\<lambda>(p, header). section_text (maxItems perSection) header (bucket s p)) digest_sections))
     @ [CHR 0x0A]"

definition SummarizeAndRender :: "int \<Rightarrow> Email list \<Rightarrow> DigestSummary \<times> string" where
  "SummarizeAndRender perSection emails = (let s = Summarize emails in (s, RenderSummary perSection s))"

section \<open>Thread store (\<open>memory/threadstore.go\<close>)\<close>

record ThreadRecord =
  thID :: string
  thSubject :: string
  thSender :: string
  thLastSeen :: int
  thPriority :: string
  thNotified :: "int option"

text \<open>A row of the table: times are texts.\<close>

record thread_row =
  trSubject :: string
  trSender :: string
  trLastSeen :: string
  trPriority :: string
  trNotified :: "string option"

datatype thread_stmt = UpsertThread string thread_row | NotifyThread string string

text \<open>\<open>iso\<close> and \<open>parseISO\<close> are \<open>time.Format\<close> and \<open>time.Parse\<close>.  The query for the identifiers may fail, or the
  iteration over its rows, whose error is handed on as it is.\<close>

record 'w ThreadDB =
  tdExec :: "thread_stmt \<Rightarrow> 'w \<Rightarrow> goerr option \<times> 'w"
  tdGet :: "string \<Rightarrow> 'w \<Rightarrow> (goerr + (string \<times> thread_row) option) \<times> 'w"
  tdIds :: "'w \<Rightarrow> ((bool \<times> goerr) + string list) \<times> 'w"
  tdIso :: "int \<Rightarrow> string"
  tdParse :: "string \<Rightarrow> goerr + int"

definition UpsertRecord :: "'w ThreadDB \<Rightarrow> ThreadRecord \<Rightarrow> 'w \<Rightarrow> goerr option \<times> 'w" where
  "UpsertRecord db r w =
     (case tdExec db (UpsertThread (thID r)
             \<lparr>trSubject = thSubject r, trSender = thSender r, trLastSeen = tdIso db (thLastSeen r),
              trPriority = thPriority r, trNotified = map_option (tdIso db) (thNotified r)\<rparr>) w of
        (Some e, w1) \<Rightarrow> (Some (wrap_error (''threadstore: upsert '' @ thID r @ '': '') e), w1)
      | (None, w1) \<Rightarrow> (None, w1))"

definition row_record :: "'w ThreadDB \<Rightarrow> string \<Rightarrow> thread_row \<Rightarrow> goerr + ThreadRecord" where
  "row_record db i row =
     (case tdParse db (trLastSeen row) of
        Inl e \<Rightarrow> Inl e
      | Inr seen \<Rightarrow>
          (let r = \<lparr>thID = i, thSubject = trSubject row, thSender = trSender row, thLastSeen = seen,
                    thPriority = trPriority row, thNotified = None\<rparr>
           in case trNotified row of
                None \<Rightarrow> Inr r
              | Some s \<Rightarrow> (case tdParse db s of Inl e \<Rightarrow> Inl e | Inr t \<Rightarrow> Inr (r\<lparr>thNotified := Some t\<rparr>))))"

definition GetRecord :: "'w ThreadDB \<Rightarrow> string \<Rightarrow> 'w \<Rightarrow> (goerr + ThreadRecord option) \<times> 'w" where
  "GetRecord db i w =
     (let fail = (\<lambda>e. Inl (wrap_error (''threadstore: get '' @ i @ '': '') e))
      in case tdGet db i w of
           (Inl e, w1) \<Rightarrow> (fail e, w1)
         | (Inr None, w1) \<Rightarrow> (Inr None, w1)
         | (Inr (Some (j, row)), w1) \<Rightarrow>
             (case row_record db j row of Inl e \<Rightarrow> (fail e, w1) | Inr r \<Rightarrow> (Inr (Some r), w1)))"

definition KnownIDs :: "'w ThreadDB \<Rightarrow> 'w \<Rightarrow> (goerr + string list) \<times> 'w" where
  "KnownIDs db w =
     (case tdIds db w of
        (Inl (iterating, e), w1) \<Rightarrow> (Inl (if iterating then e else wrap_error ''threadstore: known ids: '' e), w1)
      | (Inr ids, w1) \<Rightarrow> (Inr ids, w1))"

text \<open>The zero time stands for the time of the call.\<close>

definition MarkNotified :: "'w ThreadDB \<Rightarrow> int \<Rightarrow> string \<Rightarrow> int option \<Rightarrow> 'w \<Rightarrow> goerr option \<times> 'w" where
  "MarkNotified db clock i whn w =
     (case tdExec db (NotifyThread (tdIso db (case whn of None \<Rightarrow> clock | Some t \<Rightarrow> t)) i) w of
        (Some e, w1) \<Rightarrow> (Some (wrap_error (''threadstore: mark notified '' @ i @ '': '') e), w1)
      | (None, w1) \<Rightarrow> (None, w1))"

section \<open>Pipeline (\<open>pipeline/digest.go\<close>)\<close>

record DigestResult =
  drSummary :: DigestSummary
  drRendered :: string
  drNewThreadIDs :: "string list"

definition HasNewUrgent :: "DigestResult \<Rightarrow> bool" where
  "HasNewUrgent r \<longleftrightarrow> list_ex (\<lambda>e. emID e \<in> set (drNewThreadIDs r)) (bucket (drSummary r) PriorityUrgent)"

fun persist_threads :: "'w ThreadDB \<Rightarrow> int \<Rightarrow> Email list \<Rightarrow> 'w \<Rightarrow> goerr option \<times> 'w" where
  "persist_threads db clock [] w = (None, w)"
| "persist_threads db clock (e # es) w =
     (case UpsertRecord db \<lparr>thID = emID e, thSubject = emSubject e, thSender = emSender e, thLastSeen = clock,
                            thPriority = priority_or_low e, thNotified = None\<rparr> w of
        (Some er, w1) \<Rightarrow> (Some (wrap_error ''digest: persist: '' er), w1)
      | (None, w1) \<Rightarrow> persist_threads db clock es w1)"

text \<open>The identifiers not seen before, each once.\<close>

definition new_ids :: "string list \<Rightarrow> Email list \<Rightarrow> string list" where
  "new_ids known es = remdups (filter (\<lambda>i. i \<notin> set known) (map emID es))"

definition DigestRun :: "(string \<Rightarrow> int \<Rightarrow> 'w \<Rightarrow> (goerr + Email list) \<times> 'w) \<Rightarrow> 'w ThreadDB \<Rightarrow> EmailRules \<Rightarrow> int \<Rightarrow> int \<Rightarrow>
    string \<Rightarrow> int \<Rightarrow> 'w \<Rightarrow> (goerr + DigestResult) \<times> 'w" where
  "DigestRun search db rules perSection clock query maxResults w =
     (case search query maxResults w of
        (Inl e, w1) \<Rightarrow> (Inl (wrap_error ''digest: search: '' e), w1)
      | (Inr emails, w1) \<Rightarrow>
          (let classified = ClassifyAll rules emails
           in case KnownIDs db w1 of
                (Inl e, w2) \<Rightarrow> (Inl (wrap_error ''digest: known ids: '' e), w2)
              | (Inr known, w2) \<Rightarrow>
                  (let newIDs = new_ids known classified; (summary, rendered) = SummarizeAndRender perSection classified
                   in case persist_threads db clock classified w2 of
                        (Some e, w3) \<Rightarrow> (Inl e, w3)
                      | (None, w3) \<Rightarrow>
                          (Inr \<lparr>drSummary = summary, drRendered = rendered, drNewThreadIDs = newIDs\<rparr>, w3))))"

section \<open>Client of gmcli (\<open>gmail/gmcli.go\<close>)\<close>

definition searchColumns :: nat where "searchColumns = 5"
definition CLITimeout :: int where "CLITimeout = 30 * 1000000000"

text \<open>The sentinel of a \<open>CLIError\<close>, which \<open>errors.As\<close> finds.\<close>

definition CLIError :: sentinel where "CLIError = SOther 1"

definition cliErrorf :: "string \<Rightarrow> goerr" where
  "cliErrorf msg = GoErr msg [CLIError]"

record GmailConfig =
  gcUserEmail :: string
  gcBinary :: string
  gcTimeout :: int

text \<open>\<open>strings.SplitN\<close> at a byte, into at most \<open>n\<close> parts.\<close>

fun split_n :: "nat \<Rightarrow> char \<Rightarrow> string \<Rightarrow> string list" where
  "split_n 0 c s = []"
| "split_n (Suc 0) c s = [s]"
| "split_n (Suc (Suc n)) c [] = [[]]"
| "split_n (Suc (Suc n)) c (x # s) =
     (if x = c then [] # split_n (Suc n) c s
      else case split_n (Suc (Suc n)) c s of [] \<Rightarrow> [[x]] | p # ps \<Rightarrow> (x # p) # ps)"

definition parse_row :: "string \<Rightarrow> Email option" where
  "parse_row line =
     (if line = [] \<or> prefix ''#'' line then None
      else case split_n searchColumns (CHR 0x09) line of
          [a, b, c, d, e] \<Rightarrow> Some \<lparr>emID = trim_space a, emDate = trim_space b, emSender = trim_space c,
                               emSubject = trim_space d, emLabels = trim_space e, emPriority = []\<rparr>
        | _ \<Rightarrow> None)"

definition parseSearch :: "string \<Rightarrow> Email list" where
  "parseSearch raw =
     (case split_at (CHR 0x0A) (trim_space raw) of [] \<Rightarrow> [] | header # rows \<Rightarrow> List.map_filter parse_row rows)"

text \<open>The runner is given a time limit, a command and its arguments.\<close>

type_synonym 'w cli_runner = "int \<Rightarrow> string \<Rightarrow> string list \<Rightarrow> 'w \<Rightarrow> (goerr + string) \<times> 'w"

definition run_gmcli :: "'w cli_runner \<Rightarrow> GmailConfig \<Rightarrow> string list \<Rightarrow> 'w \<Rightarrow> (goerr + string) \<times> 'w" where
  "run_gmcli runner c args w =
     (let binary = (if gcBinary c = [] then ''gmcli'' else gcBinary c);
          timeout = (if gcTimeout c \<le> 0 then CLITimeout else gcTimeout c)
      in case runner timeout binary (gcUserEmail c # args) w of
           (Inl e, w1) \<Rightarrow> (Inl (cliErrorf (''gmcli '' @ hd args @ '' failed: '' @ err_msg e)), w1)
         | (Inr out, w1) \<Rightarrow> (Inr out, w1))"

definition GmailSearch :: "'w cli_runner \<Rightarrow> GmailConfig \<Rightarrow> string \<Rightarrow> int \<Rightarrow> 'w \<Rightarrow> (goerr + Email list) \<times> 'w" where
  "GmailSearch runner c query maxResults w =
     (case run_gmcli runner c [''search'', query, ''--max'', int_to_str maxResults] w of
        (Inl e, w1) \<Rightarrow> (Inl e, w1) | (Inr raw, w1) \<Rightarrow> (Inr (parseSearch raw), w1))"

definition GmailThread :: "'w cli_runner \<Rightarrow> GmailConfig \<Rightarrow> string \<Rightarrow> 'w \<Rightarrow> (goerr + string) \<times> 'w" where
  "GmailThread runner c threadID w =
     (if threadID = [] then (Inl (cliErrorf ''thread_id must be non-empty''), w)
      else run_gmcli runner c [''thread'', threadID] w)"

definition GmailSend :: "'w cli_runner \<Rightarrow> GmailConfig \<Rightarrow> string \<Rightarrow> string \<Rightarrow> string \<Rightarrow> string \<Rightarrow> 'w \<Rightarrow> (goerr + string) \<times> 'w" where
  "GmailSend runner c to subject body threadID w =
     run_gmcli runner c ([''send'', ''--to'', to, ''--subject'', subject, ''--body'', body]
       @ (if threadID \<noteq> [] then [''--thread'', threadID] else [])) w"

section \<open>Tools (\<open>tools/gmail_reader.go\<close>, \<open>gmail_sender.go\<close>)\<close>

definition readerQuery :: string where "readerQuery = ''newer_than:1d''"
definition readerMaxResults :: int where "readerMaxResults = 20"

definition stringArg :: "gomap \<Rightarrow> string \<Rightarrow> string" where
  "stringArg args key = (case get_string args key of None \<Rightarrow> [] | Some s \<Rightarrow> trim_space s)"

text \<open>\<open>to_int\<close> converts a number of the arguments.\<close>

definition intArg :: "(string \<Rightarrow> int) \<Rightarrow> gomap \<Rightarrow> string \<Rightarrow> int \<Rightarrow> int" where
  "intArg to_int args key fallback = (case map_get args key of Some (VNumber n) \<Rightarrow> to_int n | _ \<Rightarrow> fallback)"

record 'w GmailOps =
  goSearch :: "string \<Rightarrow> int \<Rightarrow> 'w \<Rightarrow> (goerr + Email list) \<times> 'w"
  goThread :: "string \<Rightarrow> 'w \<Rightarrow> (goerr + string) \<times> 'w"
  goSend :: "string \<Rightarrow> string \<Rightarrow> string \<Rightarrow> string \<Rightarrow> 'w \<Rightarrow> (goerr + string) \<times> 'w"

definition reader_search :: "(string \<Rightarrow> int) \<Rightarrow> (Email list \<Rightarrow> goany) \<Rightarrow> 'w GmailOps \<Rightarrow> gomap \<Rightarrow> 'w \<Rightarrow> (goerr + goany) \<times> 'w" where
  "reader_search to_int enc g args w =
     (let q0 = stringArg args ''query''; query = (if q0 = [] then readerQuery else q0);
          m0 = intArg to_int args ''max_results'' readerMaxResults;
          m1 = (if m0 < 1 then 1 else m0); maxResults = (if m1 > 100 then 100 else m1)
      in case goSearch g query maxResults w of
           (Inl e, w1) \<Rightarrow> (Inl e, w1)
         | (Inr emails, w1) \<Rightarrow>
             (Inr (VMap [(''query'', VString query), (''total_count'', VNumber (nat_to_str (length emails))),
                         (''emails'', enc emails)]), w1))"

text \<open>The message ends in a quote, byte 0x27.\<close>

definition reader_thread :: "'w GmailOps \<Rightarrow> gomap \<Rightarrow> 'w \<Rightarrow> (goerr + goany) \<times> 'w" where
  "reader_thread g args w =
     (let threadID = stringArg args ''thread_id''
      in if threadID = [] then (Inl (new_error (''thread_id is required for action='thread'' @ [CHR 0x27])), w)
         else case goThread g threadID w of
             (Inl e, w1) \<Rightarrow> (Inl e, w1)
           | (Inr content, w1) \<Rightarrow> (Inr (VMap [(''thread_id'', VString threadID), (''content'', VString content)]), w1))"

definition GmailReaderExecute :: "(string \<Rightarrow> int) \<Rightarrow> (Email list \<Rightarrow> goany) \<Rightarrow> 'w GmailOps \<Rightarrow> gomap \<Rightarrow> 'w \<Rightarrow> (goerr + goany) \<times> 'w" where
  "GmailReaderExecute to_int enc g args w =
     (let action = stringArg args ''action''
      in if action = ''search'' then reader_search to_int enc g args w
         else if action = ''thread'' then reader_thread g args w
         else (Inl (new_error (''unknown action '' @ go_quote action @ '' (expected 'search' or 'thread')'')), w))"

definition GmailSenderExecute :: "'w GmailOps \<Rightarrow> gomap \<Rightarrow> 'w \<Rightarrow> (goerr + goany) \<times> 'w" where
  "GmailSenderExecute g args w =
     (let to = stringArg args ''to''; subject = stringArg args ''subject''; body = stringArg args ''body''
      in if to = [] \<or> subject = [] \<or> body = [] then (Inl (new_error ''to, subject, and body are all required''), w)
         else
           (let threadID = stringArg args ''thread_id''
            in case goSend g to subject body threadID w of
                 (Inl e, w1) \<Rightarrow> (Inl e, w1)
               | (Inr out, w1) \<Rightarrow>
                   (Inr (VMap [(''status'', VString ''sent''), (''to'', VString to), (''subject'', VString subject),
                               (''thread_id'', VString threadID), (''output'', VString out)]), w1)))"

section \<open>Settings (\<open>config/config.go\<close>)\<close>

record QuietHours =
  qhStart :: int
  qhEnd :: int

text \<open>\<open>strconv.Atoi\<close>.\<close>

fun digits_value :: "nat \<Rightarrow> string \<Rightarrow> nat option" where
  "digits_value acc [] = Some acc"
| "digits_value acc (c # s) = (if is_digit c then digits_value (10 * acc + (of_char c - 48)) s else None)"

definition atoi :: "string \<Rightarrow> int option" where
  "atoi s =
     (let (neg, ds) = (case s of c # r \<Rightarrow> if c = CHR ''-'' then (True, r) else if c = CHR ''+'' then (False, r) else (False, s)
                       | [] \<Rightarrow> (False, []))
      in if ds = [] then None
         else case digits_value 0 ds of
             None \<Rightarrow> None
           | Some n \<Rightarrow> (let v = (if neg then - int n else int n) in if - (2 ^ 63) \<le> v \<and> v < 2 ^ 63 then Some v else None))"

definition ParseQuietHours :: "string \<Rightarrow> goerr + QuietHours" where
  "ParseQuietHours s =
     (case split_at (CHR ''-'') (trim_space s) of
        [a, b] \<Rightarrow>
          (case (atoi (trim_space a), atoi (trim_space b)) of
             (Some start, Some fin) \<Rightarrow>
               (if start < 0 \<or> start > 23 \<or> fin < 0 \<or> fin > 23
                then Inl (new_error (''QUIET_HOURS hours must be 0-23, got '' @ go_quote s))
                else Inr \<lparr>qhStart = start, qhEnd = fin\<rparr>)
           | _ \<Rightarrow> Inl (new_error (''QUIET_HOURS hours must be 0-23, got '' @ go_quote s)))
      | _ \<Rightarrow> Inl (new_error (''QUIET_HOURS must be 'HH-HH', got '' @ go_quote s)))"

definition QuietContains :: "QuietHours \<Rightarrow> int \<Rightarrow> bool" where
  "QuietContains q h \<longleftrightarrow>
     (if qhStart q = qhEnd q then False
      else if qhStart q < qhEnd q then h \<ge> qhStart q \<and> h < qhEnd q
      else h \<ge> qhStart q \<or> h < qhEnd q)"

text \<open>The environment: the value of a variable, empty when it is not set.\<close>

type_synonym environ = "string \<Rightarrow> string"

definition envDefault :: "environ \<Rightarrow> string \<Rightarrow> string \<Rightarrow> string" where
  "envDefault env name fallback = (let v = trim_space (env name) in if v \<noteq> [] then v else fallback)"

definition intEnv :: "environ \<Rightarrow> string \<Rightarrow> int \<Rightarrow> goerr + int" where
  "intEnv env name fallback =
     (let raw = trim_space (env name)
      in if raw = [] then Inr fallback
         else case atoi raw of
             None \<Rightarrow> Inl (new_error (name @ '' must be an integer, got '' @ go_quote raw))
           | Some v \<Rightarrow> Inr v)"

definition boolEnv :: "environ \<Rightarrow> string \<Rightarrow> bool" where
  "boolEnv env name \<longleftrightarrow> to_lower (trim_space (env name)) \<in> {''1'', ''true'', ''yes'', ''on''}"

text \<open>\<open>duration\<close> is \<open>time.ParseDuration\<close>.\<close>

definition durationEnv :: "(string \<Rightarrow> int option) \<Rightarrow> environ \<Rightarrow> string \<Rightarrow> int \<Rightarrow> goerr + int" where
  "durationEnv duration env name fallback =
     (let raw = trim_space (env name);
          bad = Inl (new_error (name @ '' must be a positive duration like '2h', got '' @ go_quote raw))
      in if raw = [] then Inr fallback
         else case duration raw of Some d \<Rightarrow> (if d \<le> 0 then bad else Inr d) | None \<Rightarrow> bad)"

definition listEnv :: "environ \<Rightarrow> string \<Rightarrow> string list" where
  "listEnv env name =
     (let raw = trim_space (env name)
      in if raw = [] then [] else filter (\<lambda>p. p \<noteq> []) (map trim_space (split_at (CHR '','') raw)))"

text \<open>\<open>url.QueryUnescape\<close>: a plus sign is a space, a percent sign begins two hexadecimal digits.\<close>

definition hex_digit :: "char \<Rightarrow> nat option" where
  "hex_digit c =
     (let n = (of_char c :: nat)
      in if 48 \<le> n \<and> n \<le> 57 then Some (n - 48)
         else if 65 \<le> n \<and> n \<le> 70 then Some (n - 55)
         else if 97 \<le> n \<and> n \<le> 102 then Some (n - 87)
         else None)"

fun query_unescape :: "string \<Rightarrow> string option" where
  "query_unescape [] = Some []"
| "query_unescape (c # s) =
     (if c = CHR ''%'' then
        (case s of
           a # b # t \<Rightarrow>
             (case (hex_digit a, hex_digit b) of
                (Some x, Some y) \<Rightarrow> map_option (\<lambda>u. char_of (16 * x + y) # u) (query_unescape t)
              | _ \<Rightarrow> None)
         | _ \<Rightarrow> None)
      else map_option (\<lambda>u. (if c = CHR ''+'' then CHR '' '' else c) # u) (query_unescape s))"

fun cut_eq :: "string \<Rightarrow> (string \<times> string) option" where
  "cut_eq [] = None"
| "cut_eq (c # s) =
     (if c = CHR ''='' then Some ([], s)
      else case cut_eq s of None \<Rightarrow> None | Some (k, v) \<Rightarrow> Some (c # k, v))"

definition add_header :: "string \<Rightarrow> (string \<times> string) list \<Rightarrow> (string \<times> string) list" where
  "add_header pair hs =
     (case cut_eq (trim_space pair) of
        None \<Rightarrow> hs
      | Some (key, val) \<Rightarrow>
          (if key = [] then hs
           else AList.update (trim_space key) (case query_unescape val of Some d \<Rightarrow> d | None \<Rightarrow> val) hs))"

definition parseOTLPHeaders :: "string \<Rightarrow> (string \<times> string) list" where
  "parseOTLPHeaders raw =
     (let r = trim_space raw in if r = [] then [] else fold add_header (split_at (CHR '','') r) [])"

record EmailSettings =
  esAPIKey :: string
  esUserEmail :: string
  esModel :: string
  esMaxIterations :: int
  esTokenBudget :: int
  esMemoryPath :: string
  esQuietHours :: QuietHours
  esRules :: EmailRules
  esLogLevel :: string
  esAgentRuntime :: string
  esTemporalHost :: string
  esTemporalPort :: int
  esTemporalNamespace :: string
  esTemporalTaskQueue :: string
  esDigestInterval :: int
  esOTLPEndpoint :: string
  esOTLPProtocol :: string
  esOTLPInsecure :: bool
  esOTLPHeaders :: "(string \<times> string) list"
  esEnvironment :: string

definition UseTemporal :: "EmailSettings \<Rightarrow> bool" where
  "UseTemporal s \<longleftrightarrow> esAgentRuntime s = ''temporal''"

definition TemporalAddress :: "EmailSettings \<Rightarrow> string" where
  "TemporalAddress s = esTemporalHost s @ '':'' @ int_to_str (esTemporalPort s)"

definition email_settings :: "environ \<Rightarrow> int \<Rightarrow> int \<Rightarrow> QuietHours \<Rightarrow> int \<Rightarrow> int \<Rightarrow> string \<Rightarrow> EmailSettings" where
  "email_settings env maxIterations tokenBudget quietHours temporalPort digestInterval otlpProtocol =
     \<lparr>esAPIKey = trim_space (env ''ANTHROPIC_API_KEY''), esUserEmail = trim_space (env ''USER_EMAIL''),
      esModel = envDefault env ''ANTHROPIC_MODEL'' ''claude-haiku-4-5'', esMaxIterations = maxIterations,
      esTokenBudget = tokenBudget, esMemoryPath = envDefault env ''MEMORY_PATH'' ''.data/memory.sqlite'',
      esQuietHours = quietHours,
      esRules = \<lparr>BossSenders = listEnv env ''BOSS_SENDERS'', FamilySenders = listEnv env ''FAMILY_SENDERS'',
                 ClientSenders = listEnv env ''CLIENT_SENDERS'', UrgentKeywords = None\<rparr>,
      esLogLevel = to_lower (envDefault env ''LOG_LEVEL'' ''info''),
      esAgentRuntime = to_lower (trim_space (env ''AGENT_RUNTIME'')),
      esTemporalHost = envDefault env ''TEMPORAL_HOST'' ''localhost'', esTemporalPort = temporalPort,
      esTemporalNamespace = envDefault env ''TEMPORAL_NAMESPACE'' ''default'',
      esTemporalTaskQueue = envDefault env ''TEMPORAL_TASK_QUEUE'' ''email-assistant'',
      esDigestInterval = digestInterval, esOTLPEndpoint = trim_space (env ''OTEL_EXPORTER_OTLP_ENDPOINT''),
      esOTLPProtocol = otlpProtocol, esOTLPInsecure = boolEnv env ''OTLP_INSECURE'',
      esOTLPHeaders = parseOTLPHeaders (env ''OTEL_EXPORTER_OTLP_HEADERS''),
      esEnvironment = envDefault env ''DEPLOY_ENV'' ''dev''\<rparr>"

definition LoadSettings :: "(string \<Rightarrow> int option) \<Rightarrow> environ \<Rightarrow> goerr + EmailSettings" where
  "LoadSettings duration env =
     (if trim_space (env ''ANTHROPIC_API_KEY'') = [] then
        Inl (new_error ''ANTHROPIC_API_KEY is required (set it in .env or the environment)'')
      else if trim_space (env ''USER_EMAIL'') = [] then Inl (new_error ''USER_EMAIL is required'')
      else case intEnv env ''MAX_ITERATIONS'' 10 of Inl e \<Rightarrow> Inl e | Inr maxIterations \<Rightarrow>
      (case intEnv env ''TOKEN_BUDGET'' 50000 of Inl e \<Rightarrow> Inl e | Inr tokenBudget \<Rightarrow>
      (case ParseQuietHours (envDefault env ''QUIET_HOURS'' ''22-07'') of Inl e \<Rightarrow> Inl e | Inr quietHours \<Rightarrow>
      (case intEnv env ''TEMPORAL_PORT'' 7233 of Inl e \<Rightarrow> Inl e | Inr temporalPort \<Rightarrow>
      (case durationEnv duration env ''DIGEST_INTERVAL'' (2 * 3600 * 1000000000) of Inl e \<Rightarrow> Inl e | Inr digestInterval \<Rightarrow>
        (let otlpProtocol = to_lower (envDefault env ''OTLP_PROTOCOL'' ''grpc'')
         in if otlpProtocol \<noteq> ''grpc'' \<and> otlpProtocol \<noteq> ''http'' then
              Inl (new_error (''OTLP_PROTOCOL must be 'grpc' or 'http', got '' @ go_quote otlpProtocol))
            else Inr (email_settings env maxIterations tokenBudget quietHours temporalPort digestInterval otlpProtocol)))))))"

section \<open>Workflow and activities (\<open>digestwf\<close>)\<close>

record DigestInput =
  diQuery :: string
  diMaxResults :: int

definition WithDefaultInput :: "DigestInput \<Rightarrow> DigestInput" where
  "WithDefaultInput i =
     (let i1 = (if diQuery i = [] then i\<lparr>diQuery := ''newer_than:2h''\<rparr> else i)
      in if diMaxResults i1 \<le> 0 then i1\<lparr>diMaxResults := 50\<rparr> else i1)"

record PipelineReport =
  ppRendered :: string
  ppTotal :: nat
  ppUrgentCount :: nat
  ppNewUrgent :: bool
  ppNewThreadIDs :: "string list"

record NarrativeReport =
  nrNarrative :: string
  nrInputTokens :: int
  nrOutputTokens :: int

record DigestOutcome =
  doSkipped :: bool
  doPipeline :: PipelineReport
  doAgent :: NarrativeReport

text \<open>What the activities reach outside: the hour of the wall clock, the mailbox, the thread store and whether it
  opens, and the agent: an error of building it, and its run.\<close>

record 'w DigestEnv =
  deHour :: "'w \<Rightarrow> int"
  deClock :: "'w \<Rightarrow> int"
  deSearch :: "string \<Rightarrow> int \<Rightarrow> 'w \<Rightarrow> (goerr + Email list) \<times> 'w"
  deOpen :: "string \<Rightarrow> 'w \<Rightarrow> goerr option \<times> 'w"
  deDB :: "'w ThreadDB"
  deClient :: "goerr option"
  deRegister :: "goerr option"
  deBuild :: "'w \<Rightarrow> goerr option \<times> 'w"
  deRun :: "'w \<Rightarrow> (goerr + (string \<times> (int \<times> int) option)) \<times> 'w"

definition InQuietHours :: "'w DigestEnv \<Rightarrow> EmailSettings \<Rightarrow> 'w \<Rightarrow> (goerr + bool) \<times> 'w" where
  "InQuietHours d st w = (Inr (QuietContains (esQuietHours st) (deHour d w)), w)"

definition RunDigestPipeline :: "'w DigestEnv \<Rightarrow> EmailSettings \<Rightarrow> DigestInput \<Rightarrow> 'w \<Rightarrow> (goerr + PipelineReport) \<times> 'w" where
  "RunDigestPipeline d st input w =
     (let i = WithDefaultInput input
      in case deOpen d (esMemoryPath st) w of
           (Some e, w1) \<Rightarrow> (Inl (wrap_error ''open thread store: '' e), w1)
         | (None, w1) \<Rightarrow>
             (case DigestRun (deSearch d) (deDB d) (esRules st) 0 (deClock d w1) (diQuery i) (diMaxResults i) w1 of
                (Inl e, w2) \<Rightarrow> (Inl e, w2)
              | (Inr r, w2) \<Rightarrow>
                  (Inr \<lparr>ppRendered = drRendered r, ppTotal = dsTotal (drSummary r), ppUrgentCount = UrgentCount (drSummary r),
                        ppNewUrgent = HasNewUrgent r, ppNewThreadIDs = sort_strings (drNewThreadIDs r)\<rparr>, w2)))"

definition RunAgentNarrative :: "'w DigestEnv \<Rightarrow> 'w \<Rightarrow> (goerr + NarrativeReport) \<times> 'w" where
  "RunAgentNarrative d w =
     (case deClient d of
        Some e \<Rightarrow> (Inl (wrap_error ''llm client: '' e), w)
      | None \<Rightarrow>
      (case deRegister d of
        Some e \<Rightarrow> (Inl (wrap_error ''register tools: '' e), w)
      | None \<Rightarrow>
      (case deBuild d w of
        (Some e, w1) \<Rightarrow> (Inl (wrap_error ''create agent: '' e), w1)
      | (None, w1) \<Rightarrow>
          (case deRun d w1 of
             (Inl e, w2) \<Rightarrow> (Inl (wrap_error ''agent run: '' e), w2)
           | (Inr (content, used), w2) \<Rightarrow>
               (Inr \<lparr>nrNarrative = content, nrInputTokens = (case used of None \<Rightarrow> 0 | Some (a, _) \<Rightarrow> a),
                     nrOutputTokens = (case used of None \<Rightarrow> 0 | Some (_, b) \<Rightarrow> b)\<rparr>, w2)))))"

text \<open>An activity under a retry policy: the service runs it until it succeeds, as often as the policy allows.\<close>

fun with_retries :: "nat \<Rightarrow> ('w \<Rightarrow> (goerr + 'a) \<times> 'w) \<Rightarrow> 'w \<Rightarrow> (goerr + 'a) \<times> 'w" where
  "with_retries 0 act w = act w"
| "with_retries (Suc n) act w = (case act w of (Inr x, w1) \<Rightarrow> (Inr x, w1) | (Inl e, w1) \<Rightarrow> with_retries n act w1)"

definition no_report :: PipelineReport where
  "no_report = \<lparr>ppRendered = [], ppTotal = 0, ppUrgentCount = 0, ppNewUrgent = False, ppNewThreadIDs = []\<rparr>"

definition no_narrative :: NarrativeReport where
  "no_narrative = \<lparr>nrNarrative = [], nrInputTokens = 0, nrOutputTokens = 0\<rparr>"

text \<open>Three attempts for the gate and the pipeline, two for the agent.\<close>

definition DigestWorkflow :: "'w DigestEnv \<Rightarrow> EmailSettings \<Rightarrow> DigestInput \<Rightarrow> 'w \<Rightarrow> (goerr + DigestOutcome) \<times> 'w" where
  "DigestWorkflow d st input w =
     (let i = WithDefaultInput input
      in case with_retries 2 (InQuietHours d st) w of
           (Inl e, w1) \<Rightarrow> (Inl e, w1)
         | (Inr quiet, w1) \<Rightarrow>
             (if quiet then (Inr \<lparr>doSkipped = True, doPipeline = no_report, doAgent = no_narrative\<rparr>, w1)
              else case with_retries 2 (RunDigestPipeline d st i) w1 of
                  (Inl e, w2) \<Rightarrow> (Inl e, w2)
                | (Inr report, w2) \<Rightarrow>
                    (case with_retries 1 (RunAgentNarrative d) w2 of
                       (Inl e, w3) \<Rightarrow> (Inl e, w3)
                     | (Inr narrative, w3) \<Rightarrow>
                         (Inr \<lparr>doSkipped = False, doPipeline = report, doAgent = narrative\<rparr>, w3))))"

text \<open>The exit code of the one-shot command (\<open>cmd/digest\<close>); \<open>forced\<close> is \<open>FORCE_RUN\<close>.\<close>

definition digest_command :: "'w DigestEnv \<Rightarrow> goerr + EmailSettings \<Rightarrow> bool \<Rightarrow> goerr option \<Rightarrow> 'w \<Rightarrow> nat \<times> 'w" where
  "digest_command d settings forced telemetry w =
     (case settings of
        Inl _ \<Rightarrow> (2, w)
      | Inr st \<Rightarrow>
          (if QuietContains (esQuietHours st) (deHour d w) \<and> \<not> forced then (0, w)
           else if telemetry \<noteq> None then (1, w)
           else case RunDigestPipeline d st \<lparr>diQuery = [], diMaxResults = 0\<rparr> w of
               (Inl e, w1) \<Rightarrow> (if err_is e CLIError then 3 else 1, w1)
             | (Inr _, w1) \<Rightarrow> (case RunAgentNarrative d w1 of (Inl _, w2) \<Rightarrow> (4, w2) | (Inr _, w2) \<Rightarrow> (0, w2))))"

end
