(* ===== verification/EmailProps.thy ===== *)
theory EmailProps
  imports EmailDigest
begin

text \<open>
  The email assistant: what the digest reports as new over a sequence of runs, the contract of the thread store,
  the summary as a partition of the mail, the reading of the output of gmcli, quiet hours and settings.
\<close>

section \<open>The thread store\<close>

type_synonym thread_table = "string \<rightharpoonup> thread_row"

fun run_stmt :: "thread_stmt \<Rightarrow> thread_table \<Rightarrow> thread_table" where
  "run_stmt (UpsertThread i row) t =
     t(i \<mapsto> row\<lparr>trNotified := (case trNotified row of Some n \<Rightarrow> Some n
                          | None \<Rightarrow> (case t i of None \<Rightarrow> None | Some old \<Rightarrow> trNotified old))\<rparr>)"
| "run_stmt (NotifyThread n i) t = (case t i of None \<Rightarrow> t | Some row \<Rightarrow> t(i \<mapsto> row\<lparr>trNotified := Some n\<rparr>))"

text \<open>What the code relies on of SQLite: a statement has its effect or, when it fails, it or none; a query reads the
  table.\<close>

definition exec_law :: "'w ThreadDB \<Rightarrow> ('w \<Rightarrow> thread_table) \<Rightarrow> bool" where
  "exec_law db tbl \<longleftrightarrow> (\<forall>stmt w err w'. tdExec db stmt w = (err, w') \<longrightarrow>
     tbl w' = run_stmt stmt (tbl w) \<or> err \<noteq> None \<and> tbl w' = tbl w)"

definition get_law :: "'w ThreadDB \<Rightarrow> ('w \<Rightarrow> thread_table) \<Rightarrow> bool" where
  "get_law db tbl \<longleftrightarrow> (\<forall>i w res w'. tdGet db i w = (res, w') \<longrightarrow> tbl w' = tbl w \<and>
     (\<forall>found. res = Inr found \<longrightarrow> found = map_option (\<lambda>row. (i, row)) (tbl w i)))"

definition ids_law :: "'w ThreadDB \<Rightarrow> ('w \<Rightarrow> thread_table) \<Rightarrow> bool" where
  "ids_law db tbl \<longleftrightarrow> (\<forall>w res w'. tdIds db w = (res, w') \<longrightarrow> tbl w' = tbl w \<and>
     (\<forall>ids. res = Inr ids \<longrightarrow> set ids = dom (tbl w)))"

definition thread_laws :: "'w ThreadDB \<Rightarrow> ('w \<Rightarrow> thread_table) \<Rightarrow> bool" where
  "thread_laws db tbl \<longleftrightarrow> exec_law db tbl \<and> get_law db tbl \<and> ids_law db tbl"

lemma thread_laws_exec:
  assumes "thread_laws db tbl" "tdExec db stmt w = (err, w')"
  shows "tbl w' = run_stmt stmt (tbl w) \<or> err \<noteq> None \<and> tbl w' = tbl w"
proof -
  have "exec_law db tbl" using assms(1) by (simp add: thread_laws_def)
  then show ?thesis using assms(2) unfolding exec_law_def by blast
qed

lemma thread_laws_get:
  assumes "thread_laws db tbl" "tdGet db i w = (Inr found, w')"
  shows "found = map_option (\<lambda>row. (i, row)) (tbl w i)"
proof -
  have "get_law db tbl" using assms(1) by (simp add: thread_laws_def)
  then show ?thesis using assms(2) unfolding get_law_def by blast
qed

lemma thread_laws_ids:
  assumes "thread_laws db tbl" "KnownIDs db w = (res, w')"
  shows "tbl w' = tbl w \<and> (\<forall>ids. res = Inr ids \<longrightarrow> set ids = dom (tbl w))"
proof -
  obtain got w1 where g: "tdIds db w = (got, w1)" by fastforce
  have "ids_law db tbl" using assms(1) by (simp add: thread_laws_def)
  then have "tbl w1 = tbl w \<and> (\<forall>ids. got = Inr ids \<longrightarrow> set ids = dom (tbl w))" using g unfolding ids_law_def by blast
  then show ?thesis using assms(2) g by (cases got) (auto simp: KnownIDs_def)
qed

lemma dom_upsert: "dom (run_stmt (UpsertThread i row) t) = insert i (dom t)"
  by auto

text \<open>The specification keeps records; a notification survives later upserts.\<close>

datatype thread_op = OpUpsert ThreadRecord | OpNotify string int

fun thread_spec :: "thread_op \<Rightarrow> (string \<rightharpoonup> ThreadRecord) \<Rightarrow> string \<rightharpoonup> ThreadRecord" where
  "thread_spec (OpUpsert r) m =
     m(thID r \<mapsto> r\<lparr>thNotified := (case thNotified r of Some t \<Rightarrow> Some t
                            | None \<Rightarrow> (case m (thID r) of None \<Rightarrow> None | Some old \<Rightarrow> thNotified old))\<rparr>)"
| "thread_spec (OpNotify i t) m = (case m i of None \<Rightarrow> m | Some r \<Rightarrow> m(i \<mapsto> r\<lparr>thNotified := Some t\<rparr>))"

fun thread_step :: "'w ThreadDB \<Rightarrow> thread_op \<Rightarrow> 'w \<Rightarrow> goerr option \<times> 'w" where
  "thread_step db (OpUpsert r) w = UpsertRecord db r w"
| "thread_step db (OpNotify i t) w = MarkNotified db 0 i (Some t) w"

fun thread_steps :: "'w ThreadDB \<Rightarrow> thread_op list \<Rightarrow> 'w \<Rightarrow> goerr option \<times> 'w" where
  "thread_steps db [] w = (None, w)"
| "thread_steps db (op # ops) w =
     (case thread_step db op w of (Some e, w1) \<Rightarrow> (Some e, w1) | (None, w1) \<Rightarrow> thread_steps db ops w1)"

definition row_of :: "'w ThreadDB \<Rightarrow> ThreadRecord \<Rightarrow> thread_row" where
  "row_of db r = \<lparr>trSubject = thSubject r, trSender = thSender r, trLastSeen = tdIso db (thLastSeen r),
     trPriority = thPriority r, trNotified = map_option (tdIso db) (thNotified r)\<rparr>"

definition table_of :: "'w ThreadDB \<Rightarrow> (string \<rightharpoonup> ThreadRecord) \<Rightarrow> thread_table" where
  "table_of db m = (\<lambda>i. map_option (row_of db) (m i))"

definition keyed :: "(string \<rightharpoonup> ThreadRecord) \<Rightarrow> bool" where
  "keyed m \<longleftrightarrow> (\<forall>i r. m i = Some r \<longrightarrow> thID r = i)"

lemma keyed_spec: "keyed m \<Longrightarrow> keyed (thread_spec op m)"
  by (cases op) (auto simp: keyed_def split: option.splits)

lemma thread_step_refines:
  assumes "thread_laws db tbl" "tbl w = table_of db m" "thread_step db op w = (None, w')"
  shows "tbl w' = table_of db (thread_spec op m)"
proof (cases op)
  case (OpUpsert r)
  obtain err w1 where e: "tdExec db (UpsertThread (thID r) (row_of db r)) w = (err, w1)" by fastforce
  then have ok: "err = None" "w1 = w'"
    using assms(3) OpUpsert by (auto simp: UpsertRecord_def row_of_def split: option.splits)
  with thread_laws_exec [OF assms(1) e] have "tbl w' = run_stmt (UpsertThread (thID r) (row_of db r)) (tbl w)" by simp
  then show ?thesis
    by (auto simp: assms(2) OpUpsert table_of_def row_of_def fun_eq_iff split: option.splits)
next
  case (OpNotify i t)
  obtain err w1 where e: "tdExec db (NotifyThread (tdIso db t) i) w = (err, w1)" by fastforce
  then have ok: "err = None" "w1 = w'"
    using assms(3) OpNotify by (auto simp: MarkNotified_def split: option.splits)
  with thread_laws_exec [OF assms(1) e] have "tbl w' = run_stmt (NotifyThread (tdIso db t) i) (tbl w)" by simp
  then show ?thesis
    by (auto simp: assms(2) OpNotify table_of_def row_of_def fun_eq_iff split: option.splits)
qed

lemma thread_steps_refine:
  assumes "thread_laws db tbl" "tbl w = table_of db m" "keyed m" "thread_steps db ops w = (None, w')"
  shows "tbl w' = table_of db (fold thread_spec ops m) \<and> keyed (fold thread_spec ops m)"
  using assms(2-)
proof (induction ops arbitrary: w m)
  case (Cons op ops)
  then obtain w1 where w1: "thread_step db op w = (None, w1)" "thread_steps db ops w1 = (None, w')"
    by (auto split: prod.splits option.splits)
  from Cons.IH [OF thread_step_refines [OF assms(1) Cons.prems(1) w1(1)] keyed_spec [OF Cons.prems(2)] w1(2)]
  show ?case by simp
qed simp

text \<open>After any updates that succeed, a record read is the one the updates say: the last upsert, and the last
  notification, which an upsert without one leaves in place.\<close>

theorem thread_store_refines:
  assumes "thread_laws db tbl" "\<And>t. tdParse db (tdIso db t) = Inr t" "tbl w = Map.empty"
    and "thread_steps db ops w = (None, w1)" "GetRecord db i w1 = (Inr found, w2)"
  shows "found = fold thread_spec ops Map.empty i"
proof -
  define m where "m = fold thread_spec ops Map.empty"
  have t: "tbl w1 = table_of db m" "keyed m"
    using thread_steps_refine [OF assms(1) _ _ assms(4), of Map.empty] assms(3)
    by (auto simp: m_def table_of_def keyed_def)
  obtain got w3 where g: "tdGet db i w1 = (got, w3)" by fastforce
  then have look: "got = Inr x \<Longrightarrow> x = map_option (\<lambda>row. (i, row)) (tbl w1 i)" for x
    using thread_laws_get [OF assms(1)] by blast
  show ?thesis
  proof (cases "m i")
    case None
    then show ?thesis using assms(5) g look
      by (cases got) (auto simp: GetRecord_def Let_def t(1) table_of_def m_def [symmetric])
  next
    case (Some r)
    then have "thID r = i" using t(2) by (simp add: keyed_def)
    then have "row_record db i (row_of db r) = Inr r"
      by (auto simp: row_record_def row_of_def assms(2) Let_def split: option.splits)
    then show ?thesis using assms(5) g look Some
      by (cases got) (auto simp: GetRecord_def Let_def t(1) table_of_def m_def [symmetric])
  qed
qed

section \<open>What a digest reports as new\<close>

fun digest_runs :: "(string \<Rightarrow> int \<Rightarrow> 'w \<Rightarrow> (goerr + Email list) \<times> 'w) \<Rightarrow> 'w ThreadDB \<Rightarrow> EmailRules \<Rightarrow> int \<Rightarrow>
    (int \<times> string \<times> int) list \<Rightarrow> 'w \<Rightarrow> (goerr + DigestResult) list \<times> 'w" where
  "digest_runs search db rules n [] w = ([], w)"
| "digest_runs search db rules n ((clock, query, most) # ops) w =
     (let (r, w1) = DigestRun search db rules n clock query most w; (rs, w2) = digest_runs search db rules n ops w1
      in (r # rs, w2))"

fun reported_new :: "(goerr + DigestResult) list \<Rightarrow> string list" where
  "reported_new [] = []"
| "reported_new (Inl e # rs) = reported_new rs"
| "reported_new (Inr r # rs) = drNewThreadIDs r @ reported_new rs"

lemma persist_threads_table:
  assumes "thread_laws db tbl" "persist_threads db clock es w = (err, w')"
  shows "dom (tbl w) \<subseteq> dom (tbl w') \<and> dom (tbl w') \<subseteq> dom (tbl w) \<union> emID ` set es
     \<and> (err = None \<longrightarrow> dom (tbl w') = dom (tbl w) \<union> emID ` set es)"
  using assms(2)
proof (induction es arbitrary: w)
  case (Cons e es)
  obtain er w1 where u: "UpsertRecord db \<lparr>thID = emID e, thSubject = emSubject e, thSender = emSender e,
      thLastSeen = clock, thPriority = priority_or_low e, thNotified = None\<rparr> w = (er, w1)" by fastforce
  then obtain er0 where x: "tdExec db (UpsertThread (emID e) \<lparr>trSubject = emSubject e, trSender = emSender e,
      trLastSeen = tdIso db clock, trPriority = priority_or_low e, trNotified = None\<rparr>) w = (er0, w1)" "er0 = None \<longleftrightarrow> er = None"
    by (auto simp: UpsertRecord_def split: prod.splits option.splits)
  from thread_laws_exec [OF assms(1) x(1)] x(2)
  have d: "dom (tbl w1) = insert (emID e) (dom (tbl w)) \<or> er \<noteq> None \<and> dom (tbl w1) = dom (tbl w)"
    using dom_upsert by metis
  show ?case
  proof (cases er)
    case None
    then have "persist_threads db clock es w1 = (err, w')" using Cons.prems u by simp
    from Cons.IH [OF this] d None show ?thesis by auto
  next
    case (Some er1)
    then show ?thesis using Cons.prems u d by auto
  qed
qed simp

lemma ClassifyAll_ids [simp]: "map emID (ClassifyAll rules es) = map emID es"
  by (simp add: ClassifyAll_def WithPriority_def)

text \<open>What one run reports as new, and what the store then knows.\<close>

lemma DigestRun_new:
  assumes "thread_laws db tbl" "\<And>q n w. tbl (snd (search q n w)) = tbl w"
    and "DigestRun search db rules n clock query most w = (res, w')"
  shows "dom (tbl w) \<subseteq> dom (tbl w') \<and> (\<forall>r. res = Inr r \<longrightarrow>
     (\<exists>emails. fst (search query most w) = Inr emails \<and> distinct (drNewThreadIDs r)
        \<and> set (drNewThreadIDs r) = emID ` set emails - dom (tbl w) \<and> dom (tbl w') = dom (tbl w) \<union> emID ` set emails))"
proof -
  obtain got w1 where s: "search query most w = (got, w1)" by fastforce
  then have t1: "tbl w1 = tbl w" using assms(2) [of query most w] by simp
  show ?thesis
  proof (cases got)
    case (Inl e)
    then show ?thesis using assms(3) s t1 by (auto simp: DigestRun_def)
  next
    case (Inr emails)
    obtain known w2 where k: "KnownIDs db w1 = (known, w2)" by fastforce
    note ids = thread_laws_ids [OF assms(1) k]
    show ?thesis
    proof (cases known)
      case Inl2: (Inl e)
      then show ?thesis using assms(3) s t1 k ids Inr by (auto simp: DigestRun_def Let_def)
    next
      case Inr2: (Inr known_ids)
      obtain er w3 where p: "persist_threads db clock (ClassifyAll rules emails) w2 = (er, w3)" by fastforce
      have img: "emID ` set (ClassifyAll rules emails) = emID ` set emails"
        by (metis ClassifyAll_ids set_map)
      note pt = persist_threads_table [OF assms(1) p]
      have new: "distinct (new_ids known_ids (ClassifyAll rules emails))"
        "set (new_ids known_ids (ClassifyAll rules emails)) = emID ` set emails - dom (tbl w)"
        using ids Inr2 t1 img by (auto simp: new_ids_def)
      show ?thesis using assms(3) s k Inr Inr2 p pt ids t1 img new
        by (cases er) (auto simp: DigestRun_def Let_def SummarizeAndRender_def)
    qed
  qed
qed

lemma sets_step:
  assumes "new \<inter> old = {}" "new \<subseteq> mid" "old \<subseteq> mid" "rest \<inter> mid = {}" "rest \<subseteq> final" "mid \<subseteq> final"
  shows "new \<inter> rest = {} \<and> (new \<union> rest) \<inter> old = {} \<and> new \<union> rest \<subseteq> final \<and> old \<subseteq> final"
  using assms by blast

lemma digest_runs_new:
  assumes "thread_laws db tbl" "\<And>q n w. tbl (snd (search q n w)) = tbl w"
    and "digest_runs search db rules n ops w = (rs, w')"
  shows "distinct (reported_new rs) \<and> set (reported_new rs) \<inter> dom (tbl w) = {} \<and> set (reported_new rs) \<subseteq> dom (tbl w')
     \<and> dom (tbl w) \<subseteq> dom (tbl w')"
  using assms(3)
proof (induction ops arbitrary: w rs)
  case (Cons op ops)
  obtain clock query most where op: "op = (clock, query, most)" by (cases op)
  obtain r w1 where r: "DigestRun search db rules n clock query most w = (r, w1)" by fastforce
  obtain rs' where rs': "digest_runs search db rules n ops w1 = (rs', w')" "rs = r # rs'"
    using Cons.prems r op by (auto split: prod.splits)
  note ih = Cons.IH [OF rs'(1)] and one = DigestRun_new [OF assms(1,2) r]
  show ?case
  proof (cases r)
    case (Inl e)
    then show ?thesis using ih one rs'(2) by (simp add: subset_iff disjoint_iff) blast
  next
    case (Inr res)
    obtain emails where "fst (search query most w) = Inr emails \<and> distinct (drNewThreadIDs res)
        \<and> set (drNewThreadIDs res) = emID ` set emails - dom (tbl w) \<and> dom (tbl w1) = dom (tbl w) \<union> emID ` set emails"
      using conjunct2 [OF one, rule_format, OF Inr] ..
    then have new: "distinct (drNewThreadIDs res)" "set (drNewThreadIDs res) \<inter> dom (tbl w) = {}"
      "set (drNewThreadIDs res) \<subseteq> dom (tbl w1)" "dom (tbl w) \<subseteq> dom (tbl w1)" by auto
    show ?thesis unfolding rs'(2) Inr reported_new.simps distinct_append set_append
      using sets_step [OF new(2-4), of "set (reported_new rs')" "dom (tbl w')"] new(1) ih by simp
  qed
qed simp

lemma digest_runs_complete:
  assumes "thread_laws db tbl" "\<And>q n w. tbl (snd (search q n w)) = tbl w"
    and "digest_runs search db rules n ops w = (rs, w')" "\<forall>e. Inl e \<notin> set rs"
  shows "dom (tbl w') = dom (tbl w) \<union> set (reported_new rs)"
  using assms(3,4)
proof (induction ops arbitrary: w rs)
  case (Cons op ops)
  obtain clock query most where op: "op = (clock, query, most)" by (cases op)
  obtain r w1 where r: "DigestRun search db rules n clock query most w = (r, w1)" by fastforce
  obtain rs' where rs': "digest_runs search db rules n ops w1 = (rs', w')" "rs = r # rs'"
    using Cons.prems r op by (auto split: prod.splits)
  obtain res where res: "r = Inr res" using Cons.prems(2) rs'(2) by (cases r) auto
  obtain emails where "fst (search query most w) = Inr emails \<and> distinct (drNewThreadIDs res)
      \<and> set (drNewThreadIDs res) = emID ` set emails - dom (tbl w) \<and> dom (tbl w1) = dom (tbl w) \<union> emID ` set emails"
    using conjunct2 [OF DigestRun_new [OF assms(1,2) r], rule_format, OF res] ..
  moreover have "dom (tbl w') = dom (tbl w1) \<union> set (reported_new rs')"
    using Cons.IH [OF rs'(1)] Cons.prems(2) rs'(2) by simp
  ultimately show ?case unfolding rs'(2) res reported_new.simps set_append by auto
qed simp

text \<open>C22. Over any sequence of digest runs, whichever of them failed, each thread is reported as new by at most one
  run, by none if the store knew it before, and every thread reported is in the store afterwards; when no run failed,
  the threads reported are exactly those the store did not know before.\<close>

theorem threads_new_once:
  assumes "thread_laws db tbl" "\<And>q n w. tbl (snd (search q n w)) = tbl w"
    and "digest_runs search db rules n ops w = (rs, w')"
  shows "distinct (reported_new rs) \<and> set (reported_new rs) \<inter> dom (tbl w) = {} \<and> set (reported_new rs) \<subseteq> dom (tbl w')
     \<and> ((\<forall>e. Inl e \<notin> set rs) \<longrightarrow> set (reported_new rs) = dom (tbl w') - dom (tbl w))"
proof -
  note n = digest_runs_new [OF assms] and c = digest_runs_complete [OF assms]
  have "(\<forall>e. Inl e \<notin> set rs) \<longrightarrow> set (reported_new rs) = dom (tbl w') - dom (tbl w)"
    using c n by (intro impI) (simp only: Un_Diff Diff_cancel Diff_triv simp_thms Un_empty_left)
  then show ?thesis using n by (intro conjI impI) simp_all
qed

text \<open>A store in memory for the instances: a table and the number of the statement that fails, none if zero.\<close>

type_synonym demo_threads = "(string \<times> thread_row) list \<times> nat"

fun demo_stmt :: "thread_stmt \<Rightarrow> (string \<times> thread_row) list \<Rightarrow> (string \<times> thread_row) list" where
  "demo_stmt (UpsertThread i row) t =
     AList.update i (row\<lparr>trNotified := (case trNotified row of Some n \<Rightarrow> Some n
                          | None \<Rightarrow> (case map_of t i of None \<Rightarrow> None | Some old \<Rightarrow> trNotified old))\<rparr>) t"
| "demo_stmt (NotifyThread n i) t =
     (case map_of t i of None \<Rightarrow> t | Some row \<Rightarrow> AList.update i (row\<lparr>trNotified := Some n\<rparr>) t)"

definition demo_thread_db :: "demo_threads ThreadDB" where
  "demo_thread_db =
     \<lparr>tdExec = (\<lambda>stmt (t, k). if k = 1 then (Some (new_error ''disk I/O error''), (t, 0)) else (None, (demo_stmt stmt t, k - 1))),
      tdGet = (\<lambda>i (t, k). (Inr (map_option (\<lambda>row. (i, row)) (map_of t i)), (t, k))),
      tdIds = (\<lambda>(t, k). (Inr (map fst t), (t, k))),
      tdIso = (\<lambda>t. int_to_str t), tdParse = (\<lambda>s. Inr 0)\<rparr>"

lemma map_of_demo_stmt: "map_of (demo_stmt stmt t) = run_stmt stmt (map_of t)"
  by (cases stmt) (auto simp: update_conv' fun_eq_iff split: option.split)

lemma demo_thread_laws: "thread_laws demo_thread_db (\<lambda>w. map_of (fst w))"
  unfolding thread_laws_def exec_law_def get_law_def ids_law_def demo_thread_db_def
  by (auto simp: map_of_demo_stmt dom_map_of_conv_image_fst)

definition demo_mail :: "Email list" where
  "demo_mail = [\<lparr>emID = ''t1'', emDate = ''d'', emSender = ''boss@x.com'', emSubject = ''Deadline today'',
       emLabels = ''INBOX'', emPriority = []\<rparr>,
     \<lparr>emID = ''t2'', emDate = ''d'', emSender = ''shop@z.com'', emSubject = ''sale'',
       emLabels = ''INBOX,CATEGORY_PROMOTIONS'', emPriority = []\<rparr>]"

definition demo_rules :: EmailRules where
  "demo_rules = \<lparr>BossSenders = [''BOSS@x.com''], FamilySenders = [], ClientSenders = [], UrgentKeywords = None\<rparr>"

definition demo_digests :: "nat \<Rightarrow> (goerr + DigestResult) list \<times> demo_threads" where
  "demo_digests k = digest_runs (\<lambda>_ _ w. (Inr demo_mail, w)) demo_thread_db demo_rules 0
     [(1, ''q'', 50), (2, ''q'', 50), (3, ''q'', 50)] ([], k)"

text \<open>The second statement fails, and none.\<close>

lemma threads_new_once_witness:
  "reported_new (fst (demo_digests 2)) = [''t2''] \<and> distinct (reported_new (fst (demo_digests 2)))
     \<and> set (reported_new (fst (demo_digests 0))) = fst ` set (fst (snd (demo_digests 0)))"
proof (intro conjI)
  note new = threads_new_once [OF demo_thread_laws, of "\<lambda>_ _ w. (Inr demo_mail, w)" demo_rules 0
      "[(1, ''q'', 50), (2, ''q'', 50), (3, ''q'', 50)]" "([], k)" "fst (demo_digests k)" "snd (demo_digests k)" for k]
  have run: "digest_runs (\<lambda>_ _ w. (Inr demo_mail, w)) demo_thread_db demo_rules 0
      [(1, ''q'', 50), (2, ''q'', 50), (3, ''q'', 50)] ([], k) = (fst (demo_digests k), snd (demo_digests k))" for k
    by (simp add: demo_digests_def)
  show "reported_new (fst (demo_digests 2)) = [''t2'']" by code_simp
  show "distinct (reported_new (fst (demo_digests 2)))" using new [OF _ run] by simp
  have "list_all (\<lambda>r. case r of Inl e \<Rightarrow> False | Inr x \<Rightarrow> True) (fst (demo_digests 0))" by code_simp
  then have "\<forall>e. Inl e \<notin> set (fst (demo_digests 0))" by (auto simp: list_all_iff)
  then show "set (reported_new (fst (demo_digests 0))) = fst ` set (fst (snd (demo_digests 0)))"
    using new [OF _ run, of 0] by (simp add: dom_map_of_conv_image_fst)
qed

text \<open>A run that fails after it stored some threads makes the next one take them for known: the urgent message of the
  instance is in every digest and new in none, and the retry of the activity does not report it as new either.\<close>

definition demo_digest_env :: "demo_threads DigestEnv" where
  "demo_digest_env = \<lparr>deHour = (\<lambda>_. 12), deClock = (\<lambda>_. 5), deSearch = (\<lambda>_ _ w. (Inr demo_mail, w)),
     deOpen = (\<lambda>_ w. (None, w)), deDB = demo_thread_db, deClient = None, deRegister = None,
     deBuild = (\<lambda>w. (None, w)), deRun = (\<lambda>w. (Inr (''ok'', None), w))\<rparr>"

definition demo_settings :: EmailSettings where
  "demo_settings = (email_settings (\<lambda>_. []) 10 50000 \<lparr>qhStart = 22, qhEnd = 7\<rparr> 7233 1 ''grpc'')\<lparr>esRules := demo_rules\<rparr>"

lemma retry_loses_new_urgent:
  "case fst (with_retries 2 (RunDigestPipeline demo_digest_env demo_settings \<lparr>diQuery = [], diMaxResults = 0\<rparr>) ([], 2)) of
     Inr report \<Rightarrow> ppUrgentCount report = 1 \<and> \<not> ppNewUrgent report \<and> ppNewThreadIDs report = [''t2'']
   | Inl _ \<Rightarrow> False"
  "case fst (RunDigestPipeline demo_digest_env demo_settings \<lparr>diQuery = [], diMaxResults = 0\<rparr> ([], 0)) of
     Inr report \<Rightarrow> ppNewUrgent report | Inl _ \<Rightarrow> False"
  by code_simp+

section \<open>Classification and summary\<close>

definition in_bucket :: "(string \<times> Email list) list \<Rightarrow> string \<Rightarrow> Email list" where
  "in_bucket b p = (case map_of b p of None \<Rightarrow> [] | Some es \<Rightarrow> es)"

lemma in_bucket_add: "in_bucket (add_to_bucket e b) p = in_bucket b p @ (if priority_or_low e = p then [e] else [])"
  by (auto simp: in_bucket_def add_to_bucket_def Let_def update_conv' split: option.splits)

lemma in_bucket_fold: "in_bucket (fold add_to_bucket es b) p = in_bucket b p @ filter (\<lambda>e. priority_or_low e = p) es"
  by (induction es arbitrary: b) (simp_all add: in_bucket_add)

lemma Classify_range: "Classify rules e \<in> {PriorityUrgent, PriorityImportant, PriorityLow}"
  by (simp add: Classify_def Let_def)

lemma priorities_distinct: "distinct [PriorityUrgent, PriorityImportant, PriorityLow, []]"
  by (simp add: PriorityUrgent_def PriorityImportant_def PriorityLow_def)

lemma bucket_Summarize: "bucket (Summarize es) p = filter (\<lambda>e. priority_or_low e = p) es"
  using in_bucket_fold [of es "[(PriorityUrgent, []), (PriorityImportant, []), (PriorityLow, [])]" p]
  by (simp add: bucket_def Summarize_def in_bucket_def)

text \<open>The three sections of the summary are the classified mail, each message once, in order.\<close>

theorem summary_partitions:
  "bucket (Summarize (ClassifyAll rules es)) p =
     (if p = [] then [] else map (\<lambda>e. WithPriority e p) (filter (\<lambda>e. Classify rules e = p) es))"
  "length es = length (bucket (Summarize (ClassifyAll rules es)) PriorityUrgent)
     + length (bucket (Summarize (ClassifyAll rules es)) PriorityImportant)
     + length (bucket (Summarize (ClassifyAll rules es)) PriorityLow)"
proof -
  have p: "priority_or_low (WithPriority e (Classify rules e)) = Classify rules e" for e
    using Classify_range [of rules e] priorities_distinct by (auto simp: priority_or_low_def WithPriority_def)
  have b: "bucket (Summarize (ClassifyAll rules es)) q = map (\<lambda>e. WithPriority e q) (filter (\<lambda>e. Classify rules e = q) es)" for q
    by (induction es) (simp_all add: bucket_Summarize ClassifyAll_def p)
  have "Classify rules e \<noteq> []" for e using Classify_range [of rules e] priorities_distinct by auto
  then show "bucket (Summarize (ClassifyAll rules es)) p =
     (if p = [] then [] else map (\<lambda>e. WithPriority e p) (filter (\<lambda>e. Classify rules e = p) es))" by (simp add: b)
  show "length es = length (bucket (Summarize (ClassifyAll rules es)) PriorityUrgent)
     + length (bucket (Summarize (ClassifyAll rules es)) PriorityImportant)
     + length (bucket (Summarize (ClassifyAll rules es)) PriorityLow)"
    unfolding b length_map
  proof (induction es)
    case (Cons e es)
    then show ?case using Classify_range [of rules e] priorities_distinct by auto
  qed simp
qed

text \<open>Mail of the boss or the family is urgent whatever else it is; a promotion never is more than important.\<close>

lemma boss_is_urgent:
  "matchesAny (to_lower (emSender e)) (BossSenders rules @ FamilySenders rules) \<Longrightarrow> Classify rules e = PriorityUrgent"
  by (auto simp: Classify_def Let_def matchesAny_def)

section \<open>Quiet hours\<close>

text \<open>The window is the hours from its start up to its end, around midnight.\<close>

lemma QuietContains_window:
  assumes "0 \<le> qhStart q" "qhStart q < 24" "0 \<le> qhEnd q" "qhEnd q < 24" "0 \<le> h" "h < 24"
  shows "QuietContains q h \<longleftrightarrow> (h - qhStart q) mod 24 < (qhEnd q - qhStart q) mod 24"
proof -
  have m: "(a - b) mod 24 = (if b \<le> a then a - b else a - b + 24)" if "0 \<le> a" "a < 24" "0 \<le> b" "b < 24" for a b :: int
  proof (cases "b \<le> a")
    case False
    then have "(a - b + 24) mod 24 = a - b + 24" using that by (intro mod_pos_pos_trivial) auto
    then show ?thesis using False by simp
  qed (use that in \<open>simp add: mod_pos_pos_trivial\<close>)
  show ?thesis using assms m [of h "qhStart q"] m [of "qhEnd q" "qhStart q"] by (auto simp: QuietContains_def)
qed

section \<open>Readings that go wrong\<close>

text \<open>The last message of a search is lost when it has no labels: its line ends in a tab, which is trimmed.\<close>

lemma last_row_lost:
  "map emID (parseSearch (''ID'' @ [CHR 0x0A] @ ''t1'' @ [CHR 0x09] @ ''d'' @ [CHR 0x09] @ ''f'' @ [CHR 0x09] @ ''s'' @ [CHR 0x09]
     @ [CHR 0x0A] @ ''t2'' @ [CHR 0x09] @ ''d'' @ [CHR 0x09] @ ''f'' @ [CHR 0x09] @ ''s'' @ [CHR 0x09] @ [CHR 0x0A])) = [''t1'']"
  by code_simp

text \<open>A plus sign in a header value becomes a space, also without a percent sign.\<close>

lemma header_plus_lost: "parseOTLPHeaders ''Authorization=Basic a+b'' = [(''Authorization'', ''Basic a b'')]"
  by code_simp

end
